(* ===== verification/Prelude.thy ===== *)
theory Prelude
  imports Main "HOL-Library.List_Lexorder" "HOL-Library.Product_Lexorder"
begin

text \<open>
  Shared vocabulary of the development.

  \<^item> Rust strings: a \<open>str\<close> is the list of its Unicode scalar values, so \<open>length\<close> is
    Rust's \<open>chars().count()\<close>, the list order is the code-point order, which is also the
    byte order of UTF-8 that SQLite's BINARY collation compares with, and \<open>utf8_len\<close> is
    Rust's \<open>len()\<close>. \<open>lit ''abc''\<close> is an ASCII literal of the source.
  \<^item> Fallible, transactional code: \<open>('s, 'a) tx\<close> is a function from a state to an error or
    a result with the next state. An error carries no state: a transaction that is dropped
    without \<open>commit\<close> is rolled back, so its writes are gone.
  \<^item> SQL: \<open>sql_update\<close>, \<open>sql_delete\<close>, \<open>sql_upsert\<close> and the fetch functions are the
    statements the source issues, over a table that is the list of its rows in insertion
    order.
  \<^item> \<open>wp\<close> is the weakest condition under which a successful run ends in a given
    postcondition; the collection \<open>wp_simps\<close> computes it through a program's text.
\<close>

named_theorems wp_simps \<open>equations that push wp through the text of a program\<close>

section \<open>Rust strings\<close>

type_synonym uchar = nat
type_synonym str = "uchar list"

definition lit :: "string \<Rightarrow> str" where
  "lit s = map of_char s"

lemma lit_inject [simp]: "lit a = lit b \<longleftrightarrow> a = b"
  by (simp add: lit_def inj_map_eq_map inj_on_def)

lemma lit_Nil [simp]: "lit [] = []"
  by (simp add: lit_def)

lemma lit_eq_Nil [simp]: "lit s = [] \<longleftrightarrow> s = []" "[] = lit s \<longleftrightarrow> s = []"
  by (auto simp: lit_def)

text \<open>The number of bytes of a scalar value in UTF-8; \<open>String::len\<close> is their sum.\<close>

definition utf8_width :: "uchar \<Rightarrow> nat" where
  "utf8_width c = (if c < 128 then 1 else if c < 2048 then 2 else if c < 65536 then 3 else 4)"

definition utf8_len :: "str \<Rightarrow> nat" where
  "utf8_len s = sum_list (map utf8_width s)"

lemma utf8_len_simps [simp]:
  "utf8_len [] = 0"
  "utf8_len (c # s) = utf8_width c + utf8_len s"
  by (simp_all add: utf8_len_def)

lemma utf8_len_append [simp]: "utf8_len (s @ t) = utf8_len s + utf8_len t"
  by (simp add: utf8_len_def)

lemma utf8_len_ascii: "\<forall>c\<in>set s. c < 128 \<Longrightarrow> utf8_len s = length s"
  by (induction s) (auto simp: utf8_width_def)

text \<open>Decimal rendering, as \<open>format!("{n}")\<close> does it.\<close>

fun show_nat :: "nat \<Rightarrow> str" where
  "show_nat n = (if n < 10 then [48 + n] else show_nat (n div 10) @ [48 + n mod 10])"

declare show_nat.simps [simp del]

definition show_int :: "int \<Rightarrow> str" where
  "show_int i = (if i < 0 then 45 # show_nat (nat (- i)) else show_nat (nat i))"

section \<open>Transactions\<close>

text \<open>
  \<open>Msg\<close> is an error raised by \<open>bail!\<close> or \<open>ensure!\<close>; \<open>NoRows\<close> is \<open>fetch_one\<close> on an
  empty result; \<open>Constraint\<close> is a statement that the database refuses because of a
  uniqueness or foreign-key constraint of the named table; \<open>Panic\<close> is a Rust panic.
\<close>

datatype err = Msg str | NoRows | Constraint string | Panic

type_synonym ('s, 'a) tx = "'s \<Rightarrow> err + ('a \<times> 's)"

definition ret :: "'a \<Rightarrow> ('s, 'a) tx" where
  "ret a = (\<lambda>s. Inr (a, s))"

definition fail :: "err \<Rightarrow> ('s, 'a) tx" where
  "fail e = (\<lambda>s. Inl e)"

definition bnd :: "('s, 'a) tx \<Rightarrow> ('a \<Rightarrow> ('s, 'b) tx) \<Rightarrow> ('s, 'b) tx" where
  "bnd m f = (\<lambda>s. case m s of Inl e \<Rightarrow> Inl e | Inr (a, t) \<Rightarrow> f a t)"

definition thn :: "('s, unit) tx \<Rightarrow> ('s, 'b) tx \<Rightarrow> ('s, 'b) tx" where
  "thn m k = bnd m (\<lambda>_. k)"

definition gets :: "('s \<Rightarrow> 'a) \<Rightarrow> ('s, 'a) tx" where
  "gets f = (\<lambda>s. Inr (f s, s))"

definition modify :: "('s \<Rightarrow> 's) \<Rightarrow> ('s, unit) tx" where
  "modify f = (\<lambda>s. Inr ((), f s))"

definition ensure :: "bool \<Rightarrow> str \<Rightarrow> ('s, unit) tx" where
  "ensure b e = (if b then ret () else fail (Msg e))"

definition some_or :: "'a option \<Rightarrow> err \<Rightarrow> ('s, 'a) tx" where
  "some_or x e = (case x of None \<Rightarrow> fail e | Some a \<Rightarrow> ret a)"

text \<open>A \<open>for\<close> loop over a collected list, and one that threads a mutable local.\<close>

primrec each :: "('x \<Rightarrow> ('s, unit) tx) \<Rightarrow> 'x list \<Rightarrow> ('s, unit) tx" where
  "each f [] = ret ()"
| "each f (x # xs) = thn (f x) (each f xs)"

primrec fold_tx :: "('x \<Rightarrow> 'b \<Rightarrow> ('s, 'b) tx) \<Rightarrow> 'x list \<Rightarrow> 'b \<Rightarrow> ('s, 'b) tx" where
  "fold_tx f [] b = ret b"
| "fold_tx f (x # xs) b = bnd (f x b) (fold_tx f xs)"

text \<open>
  What a caller sees of a transaction: the outcome, and the state afterwards, which is the
  old one when the transaction failed.
\<close>

definition run_tx :: "('s, 'a) tx \<Rightarrow> 's \<Rightarrow> (err + 'a) \<times> 's" where
  "run_tx m s = (case m s of Inl e \<Rightarrow> (Inl e, s) | Inr (a, t) \<Rightarrow> (Inr a, t))"

section \<open>Weakest preconditions\<close>

definition wp :: "('s, 'a) tx \<Rightarrow> ('a \<Rightarrow> 's \<Rightarrow> bool) \<Rightarrow> 's \<Rightarrow> bool" where
  "wp m Q s = (case m s of Inl _ \<Rightarrow> True | Inr (a, t) \<Rightarrow> Q a t)"

lemma wpI: "(\<And>a t. m s = Inr (a, t) \<Longrightarrow> Q a t) \<Longrightarrow> wp m Q s"
  by (auto simp: wp_def split: sum.splits)

lemma wpD: "wp m Q s \<Longrightarrow> m s = Inr (a, t) \<Longrightarrow> Q a t"
  by (simp add: wp_def)

lemma wp_mono: "wp m P s \<Longrightarrow> (\<And>a t. P a t \<Longrightarrow> Q a t) \<Longrightarrow> wp m Q s"
  by (auto simp: wp_def split: sum.splits)

lemma wp_conj: "wp m P s \<Longrightarrow> wp m Q s \<Longrightarrow> wp m (\<lambda>a t. P a t \<and> Q a t) s"
  by (auto simp: wp_def split: sum.splits)

lemma wp_triv [simp]: "wp m (\<lambda>_ _. True) s"
  by (auto simp: wp_def split: sum.splits)

lemma wp_ret [wp_simps]: "wp (ret a) Q = Q a"
  by (rule ext) (simp add: wp_def ret_def)

lemma wp_fail [wp_simps]: "wp (fail e) Q = (\<lambda>_. True)"
  by (rule ext) (simp add: wp_def fail_def)

lemma wp_bnd [wp_simps]: "wp (bnd m f) Q = wp m (\<lambda>a. wp (f a) Q)"
  by (rule ext) (auto simp: wp_def bnd_def split: sum.splits)

lemma wp_thn [wp_simps]: "wp (thn m k) Q = wp m (\<lambda>_. wp k Q)"
  by (simp add: thn_def wp_bnd)

lemma wp_gets [wp_simps]: "wp (gets f) Q s = Q (f s) s"
  by (simp add: wp_def gets_def)

lemma wp_modify [wp_simps]: "wp (modify f) Q s = Q () (f s)"
  by (simp add: wp_def modify_def)

lemma wp_ensure [wp_simps]: "wp (ensure b e) Q s = (b \<longrightarrow> Q () s)"
  by (simp add: ensure_def wp_ret wp_fail)

lemma wp_some_or [wp_simps]: "wp (some_or x e) Q s = (\<forall>a. x = Some a \<longrightarrow> Q a s)"
  by (cases x) (simp_all add: some_or_def wp_ret wp_fail)

lemma wp_if [wp_simps]:
  "wp (if b then m else n) Q s = ((b \<longrightarrow> wp m Q s) \<and> (\<not> b \<longrightarrow> wp n Q s))"
  by simp

lemma wp_case_option [wp_simps]:
  "wp (case x of None \<Rightarrow> m | Some a \<Rightarrow> f a) Q s =
    ((x = None \<longrightarrow> wp m Q s) \<and> (\<forall>a. x = Some a \<longrightarrow> wp (f a) Q s))"
  by (cases x) simp_all

lemma wp_case_prod [wp_simps]: "wp (case x of (a, b) \<Rightarrow> f a b) Q s = wp (f (fst x) (snd x)) Q s"
  by (cases x) simp

lemma wp_Let [wp_simps]: "wp (let x = a in f x) Q s = wp (f a) Q s"
  by simp

lemma wp_each:
  assumes "\<And>x s. x \<in> set xs \<Longrightarrow> I s \<Longrightarrow> wp (f x) (\<lambda>_. I) s" and "I s"
  shows "wp (each f xs) (\<lambda>_. I) s"
  using assms
proof (induction xs arbitrary: s)
  case Nil
  then show ?case by (simp add: wp_ret)
next
  case (Cons x xs)
  have "wp (f x) (\<lambda>_. I) s" using Cons.prems by simp
  then have "wp (f x) (\<lambda>_. wp (each f xs) (\<lambda>_. I)) s"
    by (rule wp_mono) (use Cons in auto)
  then show ?case by (simp add: wp_thn)
qed

lemma wp_fold_tx:
  assumes "\<And>x b s. x \<in> set xs \<Longrightarrow> I b s \<Longrightarrow> wp (f x b) I s" and "I b s"
  shows "wp (fold_tx f xs b) I s"
  using assms
proof (induction xs arbitrary: b s)
  case Nil
  then show ?case by (simp add: wp_ret)
next
  case (Cons x xs)
  have "wp (f x b) I s" using Cons.prems by simp
  then have "wp (f x b) (\<lambda>b'. wp (fold_tx f xs b') I) s"
    by (rule wp_mono) (use Cons in auto)
  then show ?case by (simp add: wp_bnd)
qed

text \<open>A caller's view: what holds before and is kept by every success is kept.\<close>

lemma run_tx_keeps:
  "wp m (\<lambda>_. I) s \<Longrightarrow> I s \<Longrightarrow> I (snd (run_tx m s))"
  by (auto simp: run_tx_def wp_def split: sum.splits)

section \<open>Frames\<close>

text \<open>
  \<open>same g m\<close>: no successful run of \<open>m\<close> changes the part \<open>g\<close> of the state. The rules of
  \<open>same_intros\<close> decide it along the text of a program.
\<close>

named_theorems same_intros \<open>rules that carry a frame through the text of a program\<close>

definition same :: "('s \<Rightarrow> 'x) \<Rightarrow> ('s, 'a) tx \<Rightarrow> bool" where
  "same g m \<longleftrightarrow> (\<forall>s a t. m s = Inr (a, t) \<longrightarrow> g t = g s)"

lemma sameD: "same g m \<Longrightarrow> m s = Inr (a, t) \<Longrightarrow> g t = g s"
  by (simp add: same_def)

lemma wp_same: "same g m \<Longrightarrow> (\<And>a t. m s = Inr (a, t) \<Longrightarrow> g t = g s \<Longrightarrow> Q a t) \<Longrightarrow> wp m Q s"
  by (auto intro: wpI dest: sameD)

text \<open>An invariant that reads only \<open>g\<close> is kept by what leaves \<open>g\<close> alone.\<close>

lemma wp_same_inv: "same g m \<Longrightarrow> wp m (\<lambda>_ t. I (g t)) s \<longleftrightarrow> (\<forall>a t. m s = Inr (a, t) \<longrightarrow> I (g s))"
  by (auto simp: wp_def same_def split: sum.splits)

lemma same_ret [same_intros]: "same g (ret a)"
  by (simp add: same_def ret_def)

lemma same_fail [same_intros]: "same g (fail e)"
  by (simp add: same_def fail_def)

lemma same_bnd [same_intros]: "same g m \<Longrightarrow> (\<And>a. same g (f a)) \<Longrightarrow> same g (bnd m f)"
  by (fastforce simp: same_def bnd_def split: sum.splits)

lemma same_thn [same_intros]: "same g m \<Longrightarrow> same g k \<Longrightarrow> same g (thn m k)"
  by (simp add: thn_def same_bnd)

lemma same_gets [same_intros]: "same g (gets f)"
  by (simp add: same_def gets_def)

lemma same_modify [same_intros]: "(\<And>s. g (f s) = g s) \<Longrightarrow> same g (modify f)"
  by (simp add: same_def modify_def)

lemma same_ensure [same_intros]: "same g (ensure b e)"
  by (simp add: ensure_def same_ret same_fail)

lemma same_some_or [same_intros]: "same g (some_or x e)"
  by (cases x) (simp_all add: some_or_def same_ret same_fail)

lemma same_if [same_intros]: "same g m \<Longrightarrow> same g n \<Longrightarrow> same g (if b then m else n)"
  by simp

lemma same_case_option [same_intros]:
  "same g m \<Longrightarrow> (\<And>a. same g (f a)) \<Longrightarrow> same g (case x of None \<Rightarrow> m | Some a \<Rightarrow> f a)"
  by (cases x) simp_all

lemma same_case_prod [same_intros]:
  "(\<And>a b. same g (f a b)) \<Longrightarrow> same g (case x of (a, b) \<Rightarrow> f a b)"
  by (cases x) simp

lemma same_Let [same_intros]: "(\<And>x. same g (f x)) \<Longrightarrow> same g (let x = a in f x)"
  by simp

lemma same_each [same_intros]: "(\<And>x. same g (f x)) \<Longrightarrow> same g (each f xs)"
  by (induction xs) (simp_all add: same_ret same_thn)

lemma same_fold_tx [same_intros]: "(\<And>x b. same g (f x b)) \<Longrightarrow> same g (fold_tx f xs b)"
  by (induction xs arbitrary: b) (simp_all add: same_ret same_bnd)

section \<open>Invariants\<close>

text \<open>
  \<open>keeps I m\<close>: every successful run of \<open>m\<close> from a state of \<open>I\<close> ends in \<open>I\<close>. The rules of
  \<open>keeps_intros\<close> compose it along the text of a program; the facts about the program's
  statements enter as their own \<open>keeps\<close> lemmas or as \<open>wp\<close> goals.
\<close>

named_theorems keeps_intros \<open>rules that carry an invariant through the text of a program\<close>

definition keeps :: "('s \<Rightarrow> bool) \<Rightarrow> ('s, 'a) tx \<Rightarrow> bool" where
  "keeps I m \<longleftrightarrow> (\<forall>s. I s \<longrightarrow> wp m (\<lambda>_. I) s)"

lemma keepsI: "(\<And>s. I s \<Longrightarrow> wp m (\<lambda>_. I) s) \<Longrightarrow> keeps I m"
  by (simp add: keeps_def)

lemma keepsD: "keeps I m \<Longrightarrow> I s \<Longrightarrow> wp m (\<lambda>_. I) s"
  by (simp add: keeps_def)

lemma keeps_run_tx: "keeps I m \<Longrightarrow> I s \<Longrightarrow> I (snd (run_tx m s))"
  by (simp add: keeps_def run_tx_keeps)

lemma keeps_same: "same g m \<Longrightarrow> keeps (\<lambda>s. J (g s)) m"
  by (auto simp: keeps_def wp_def same_def split: sum.splits)

lemma keeps_readonly: "same (\<lambda>s. s) m \<Longrightarrow> keeps I m"
  by (rule keeps_same [where g = "\<lambda>s. s"])

lemma keeps_conj: "keeps I m \<Longrightarrow> keeps J m \<Longrightarrow> keeps (\<lambda>s. I s \<and> J s) m"
  by (auto simp: keeps_def intro: wp_conj)

lemma keeps_ret [keeps_intros]: "keeps I (ret a)"
  by (simp add: keeps_def wp_ret)

lemma keeps_fail [keeps_intros]: "keeps I (fail e)"
  by (simp add: keeps_def wp_fail)

lemma keeps_bnd [keeps_intros]: "keeps I m \<Longrightarrow> (\<And>a. keeps I (f a)) \<Longrightarrow> keeps I (bnd m f)"
  by (auto simp: keeps_def wp_bnd intro: wp_mono)

lemma keeps_thn [keeps_intros]: "keeps I m \<Longrightarrow> keeps I k \<Longrightarrow> keeps I (thn m k)"
  by (simp add: thn_def keeps_bnd)

lemma keeps_gets [keeps_intros]: "keeps I (gets f)"
  by (simp add: keeps_def wp_gets)

lemma keeps_modify: "(\<And>s. I s \<Longrightarrow> I (f s)) \<Longrightarrow> keeps I (modify f)"
  by (simp add: keeps_def wp_modify)

lemma keeps_ensure [keeps_intros]: "keeps I (ensure b e)"
  by (simp add: keeps_def wp_ensure)

lemma keeps_some_or [keeps_intros]: "keeps I (some_or x e)"
  by (simp add: keeps_def wp_some_or)

lemma keeps_if [keeps_intros]: "keeps I m \<Longrightarrow> keeps I n \<Longrightarrow> keeps I (if b then m else n)"
  by simp

lemma keeps_case_option [keeps_intros]:
  "keeps I m \<Longrightarrow> (\<And>a. keeps I (f a)) \<Longrightarrow> keeps I (case x of None \<Rightarrow> m | Some a \<Rightarrow> f a)"
  by (cases x) simp_all

lemma keeps_case_prod [keeps_intros]:
  "(\<And>a b. keeps I (f a b)) \<Longrightarrow> keeps I (case x of (a, b) \<Rightarrow> f a b)"
  by (cases x) simp

lemma keeps_Let [keeps_intros]: "(\<And>x. keeps I (f x)) \<Longrightarrow> keeps I (let x = a in f x)"
  by simp

lemma keeps_each [keeps_intros]: "(\<And>x. keeps I (f x)) \<Longrightarrow> keeps I (each f xs)"
  by (induction xs) (simp_all add: keeps_ret keeps_thn)

lemma wp_keeps: "keeps I m \<Longrightarrow> I s \<Longrightarrow> (\<And>a t. I t \<Longrightarrow> Q a t) \<Longrightarrow> wp m Q s"
  by (rule wp_mono [OF keepsD])

section \<open>SQL statements over a table\<close>

definition sql_update :: "('r \<Rightarrow> bool) \<Rightarrow> ('r \<Rightarrow> 'r) \<Rightarrow> 'r list \<Rightarrow> 'r list" where
  "sql_update p f rows = map (\<lambda>r. if p r then f r else r) rows"

definition sql_delete :: "('r \<Rightarrow> bool) \<Rightarrow> 'r list \<Rightarrow> 'r list" where
  "sql_delete p rows = filter (\<lambda>r. \<not> p r) rows"

text \<open>
  \<open>INSERT ... ON CONFLICT DO UPDATE\<close>: \<open>p\<close> selects the row in conflict, \<open>f\<close> is the
  update; \<open>DO NOTHING\<close> is the identity.
\<close>

definition sql_upsert :: "('r \<Rightarrow> bool) \<Rightarrow> ('r \<Rightarrow> 'r) \<Rightarrow> 'r \<Rightarrow> 'r list \<Rightarrow> 'r list" where
  "sql_upsert p f r rows = (if list_ex p rows then sql_update p f rows else rows @ [r])"

definition sql_count :: "('r \<Rightarrow> bool) \<Rightarrow> 'r list \<Rightarrow> int" where
  "sql_count p rows = int (length (filter p rows))"

text \<open>
  \<open>fetch_optional\<close> collects every matching row and pops the last of them.
\<close>

definition fetch_last :: "('r \<Rightarrow> bool) \<Rightarrow> 'r list \<Rightarrow> 'r option" where
  "fetch_last p rows = (case filter p rows of [] \<Rightarrow> None | x # xs \<Rightarrow> Some (last (x # xs)))"

text \<open>\<open>LIMIT 1\<close> leaves the first matching row.\<close>

definition fetch_limit1 :: "('r \<Rightarrow> bool) \<Rightarrow> 'r list \<Rightarrow> 'r option" where
  "fetch_limit1 p rows = find p rows"

lemma fetch_last_SomeD: "fetch_last p rows = Some r \<Longrightarrow> r \<in> set rows \<and> p r"
proof -
  assume a: "fetch_last p rows = Some r"
  then obtain x xs where f: "filter p rows = x # xs" and r: "r = last (x # xs)"
    by (auto simp: fetch_last_def split: list.splits)
  then have "r \<in> set (filter p rows)"
    by (metis last_in_set list.distinct(1))
  then show ?thesis by auto
qed

lemma fetch_last_None: "fetch_last p rows = None \<longleftrightarrow> (\<forall>r\<in>set rows. \<not> p r)"
proof -
  have "fetch_last p rows = None \<longleftrightarrow> filter p rows = []"
    by (simp add: fetch_last_def split: list.splits)
  then show ?thesis by (simp add: filter_empty_conv)
qed

lemma fetch_last_append [simp]:
  "fetch_last p (xs @ [r]) = (if p r then Some r else fetch_last p xs)"
proof (cases "p r")
  case True
  then show ?thesis
    by (cases "filter p xs") (simp_all add: fetch_last_def)
next
  case False
  then show ?thesis by (simp add: fetch_last_def)
qed

lemma fetch_last_ex: "r \<in> set rows \<Longrightarrow> p r \<Longrightarrow> \<exists>r'. fetch_last p rows = Some r'"
  by (metis fetch_last_None not_Some_eq)

lemma fetch_last_unique:
  assumes "r \<in> set rows" "p r" "\<And>x. x \<in> set rows \<Longrightarrow> p x \<Longrightarrow> x = r"
  shows "fetch_last p rows = Some r"
  using assms by (metis fetch_last_SomeD fetch_last_ex)

lemma fetch_limit1_SomeD: "fetch_limit1 p rows = Some r \<Longrightarrow> r \<in> set rows \<and> p r"
  by (auto simp: fetch_limit1_def find_Some_iff)

lemma sql_count_pos: "0 < sql_count p rows \<longleftrightarrow> (\<exists>r\<in>set rows. p r)"
  by (induction rows) (auto simp: sql_count_def)

lemma sql_count_nonneg [simp]: "0 \<le> sql_count p rows"
  by (simp add: sql_count_def)

lemma sql_count_zero: "sql_count p rows = 0 \<longleftrightarrow> (\<forall>r\<in>set rows. \<not> p r)"
  by (auto simp: sql_count_def filter_empty_conv)

lemma sql_count_simps [simp]:
  "sql_count p [] = 0"
  "sql_count p (r # rows) = (if p r then 1 else 0) + sql_count p rows"
  "sql_count p (rows @ rows') = sql_count p rows + sql_count p rows'"
  by (simp_all add: sql_count_def)

lemma sql_count_cong: "(\<And>r. r \<in> set rows \<Longrightarrow> p r = q r) \<Longrightarrow> sql_count p rows = sql_count q rows"
  by (simp add: sql_count_def cong: filter_cong)

lemma sql_update_Nil [simp]: "sql_update p f [] = []"
  by (simp add: sql_update_def)

lemma sql_update_Cons [simp]:
  "sql_update p f (r # rs) = (if p r then f r else r) # sql_update p f rs"
  by (simp add: sql_update_def)

lemma sql_update_append [simp]:
  "sql_update p f (xs @ ys) = sql_update p f xs @ sql_update p f ys"
  by (simp add: sql_update_def)

lemma length_sql_update [simp]: "length (sql_update p f rows) = length rows"
  by (simp add: sql_update_def)

lemma set_sql_update: "set (sql_update p f rows) = (\<lambda>r. if p r then f r else r) ` set rows"
  by (auto simp: sql_update_def)

lemma in_sql_update:
  "r \<in> set (sql_update p f rows) \<longleftrightarrow>
    (\<exists>q\<in>set rows. (p q \<and> r = f q) \<or> (\<not> p q \<and> r = q))"
  by (auto simp: sql_update_def)

lemma kept_by_update: "x \<in> set rows \<Longrightarrow> \<not> p x \<Longrightarrow> x \<in> set (sql_update p f rows)"
  by (auto simp: in_sql_update)

lemma updated_by_update: "x \<in> set rows \<Longrightarrow> p x \<Longrightarrow> f x \<in> set (sql_update p f rows)"
  by (auto simp: in_sql_update)

text \<open>An update that leaves a column alone leaves the column's values alone.\<close>

lemma map_sql_update: "(\<And>r. g (f r) = g r) \<Longrightarrow> map g (sql_update p f rows) = map g rows"
  by (induction rows) auto

lemma sql_count_update:
  "(\<And>r. r \<in> set rows \<Longrightarrow> p r \<Longrightarrow> q (f r) = q r) \<Longrightarrow>
    sql_count q (sql_update p f rows) = sql_count q rows"
  by (induction rows) auto

lemma set_sql_delete [simp]: "set (sql_delete p rows) = {r \<in> set rows. \<not> p r}"
  by (auto simp: sql_delete_def)

lemma sql_delete_append [simp]: "sql_delete p (xs @ ys) = sql_delete p xs @ sql_delete p ys"
  by (simp add: sql_delete_def)

lemma distinct_sql_delete: "distinct (map g rows) \<Longrightarrow> distinct (map g (sql_delete p rows))"
  by (simp add: sql_delete_def distinct_map_filter)

lemma in_sql_upsert:
  "x \<in> set (sql_upsert p f r rows) \<longleftrightarrow>
    (if \<exists>q\<in>set rows. p q then \<exists>q\<in>set rows. (p q \<and> x = f q) \<or> (\<not> p q \<and> x = q)
     else x \<in> set rows \<or> x = r)"
  by (auto simp: sql_upsert_def list_ex_iff in_sql_update)

lemma map_sql_upsert:
  assumes "\<And>r. g (f r) = g r"
  shows "map g (sql_upsert p f r rows) = (if list_ex p rows then map g rows else map g rows @ [g r])"
  using assms by (simp add: sql_upsert_def map_sql_update)

lemma distinct_sql_upsert:
  assumes "distinct (map g rows)" "\<And>q. g (f q) = g q" "\<And>q. q \<in> set rows \<Longrightarrow> g q = g r \<Longrightarrow> p q"
  shows "distinct (map g (sql_upsert p f r rows))"
  using assms by (auto simp: map_sql_upsert list_ex_iff)

lemma distinct_map_inj: "distinct (map g rows) \<Longrightarrow> x \<in> set rows \<Longrightarrow> y \<in> set rows \<Longrightarrow> g x = g y \<Longrightarrow> x = y"
  by (auto simp: distinct_map inj_on_def)

end
