(* ===== verification/Text.thy ===== *)
theory Text
  imports Prelude
begin

text \<open>
  The text functions of the server: \<open>features/shared/{name,label,utils,table}.rs\<close> and the
  pure helpers of \<open>features/events/db.rs\<close>.

  Unicode lower-casing (\<open>str::to_lowercase\<close>) is the parameter \<open>lc\<close>; the locale
  \<open>lower_case\<close> states what the code relies on, and the ASCII lower-casing of the source
  (\<open>to_ascii_lowercase\<close>, and SQLite's \<open>lower\<close>) is an instance. White space and control
  characters are the exact Unicode classes \<open>White_Space\<close> and \<open>Cc\<close>.

  The lemmas show the shape of every normalised name, that normalising twice changes
  nothing, which labels and mentions a text carries, and that stored text holds no control
  character but the line feed.
\<close>

section \<open>Characters\<close>

abbreviation c_tab :: uchar where "c_tab \<equiv> 9"
abbreviation c_nl :: uchar where "c_nl \<equiv> 10"
abbreviation c_cr :: uchar where "c_cr \<equiv> 13"
abbreviation c_space :: uchar where "c_space \<equiv> 32"
abbreviation c_quote :: uchar where "c_quote \<equiv> 34"
abbreviation c_hash :: uchar where "c_hash \<equiv> 35"
abbreviation c_dollar :: uchar where "c_dollar \<equiv> 36"
abbreviation c_dash :: uchar where "c_dash \<equiv> 45"
abbreviation c_dot :: uchar where "c_dot \<equiv> 46"
abbreviation c_at :: uchar where "c_at \<equiv> 64"
abbreviation c_underscore :: uchar where "c_underscore \<equiv> 95"

definition is_ascii_digit :: "uchar \<Rightarrow> bool" where
  "is_ascii_digit c \<longleftrightarrow> 48 \<le> c \<and> c \<le> 57"

definition is_ascii_upper :: "uchar \<Rightarrow> bool" where
  "is_ascii_upper c \<longleftrightarrow> 65 \<le> c \<and> c \<le> 90"

definition is_ascii_lower :: "uchar \<Rightarrow> bool" where
  "is_ascii_lower c \<longleftrightarrow> 97 \<le> c \<and> c \<le> 122"

definition is_ascii_alphabetic :: "uchar \<Rightarrow> bool" where
  "is_ascii_alphabetic c \<longleftrightarrow> is_ascii_upper c \<or> is_ascii_lower c"

definition is_ascii_alphanumeric :: "uchar \<Rightarrow> bool" where
  "is_ascii_alphanumeric c \<longleftrightarrow> is_ascii_digit c \<or> is_ascii_alphabetic c"

definition to_ascii_lower :: "uchar \<Rightarrow> uchar" where
  "to_ascii_lower c = (if is_ascii_upper c then c + 32 else c)"

definition is_control :: "uchar \<Rightarrow> bool" where
  "is_control c \<longleftrightarrow> c < 32 \<or> (127 \<le> c \<and> c \<le> 159)"

definition is_whitespace :: "uchar \<Rightarrow> bool" where
  "is_whitespace c \<longleftrightarrow> (9 \<le> c \<and> c \<le> 13) \<or> c = 32 \<or> c = 133 \<or> c = 160 \<or> c = 5760
     \<or> (8192 \<le> c \<and> c \<le> 8202) \<or> c = 8232 \<or> c = 8233 \<or> c = 8239 \<or> c = 8287 \<or> c = 12288"

lemmas char_class_defs = is_ascii_digit_def is_ascii_upper_def is_ascii_lower_def
  is_ascii_alphabetic_def is_ascii_alphanumeric_def to_ascii_lower_def

definition ascii_lowercase :: "str \<Rightarrow> str" where
  "ascii_lowercase s = map to_ascii_lower s"

definition trim_matches :: "(uchar \<Rightarrow> bool) \<Rightarrow> str \<Rightarrow> str" where
  "trim_matches p s = rev (dropWhile p (rev (dropWhile p s)))"

definition trim :: "str \<Rightarrow> str" where
  "trim s = trim_matches is_whitespace s"

definition trim_start_char :: "uchar \<Rightarrow> str \<Rightarrow> str" where
  "trim_start_char c s = dropWhile (\<lambda>x. x = c) s"

text \<open>\<open>str::get(..n)\<close>: the first \<open>n\<close> bytes, if they end at a character boundary.\<close>

fun take_bytes :: "nat \<Rightarrow> str \<Rightarrow> str option" where
  "take_bytes 0 s = Some []"
| "take_bytes (Suc n) [] = None"
| "take_bytes (Suc n) (c # s) =
     (if utf8_width c \<le> Suc n then map_option (Cons c) (take_bytes (Suc n - utf8_width c) s)
      else None)"

text \<open>SQLite's \<open>LIKE\<close>: \<open>%\<close> for any run, \<open>_\<close> for one character, ASCII case ignored.\<close>

fun sql_like :: "str \<Rightarrow> str \<Rightarrow> bool" where
  "sql_like [] s = (s = [])"
| "sql_like (p # ps) s =
     (if p = 37 then sql_like ps s \<or> (case s of [] \<Rightarrow> False | _ # s' \<Rightarrow> sql_like (p # ps) s')
      else case s of [] \<Rightarrow> False
        | c # s' \<Rightarrow> (p = 95 \<or> to_ascii_lower p = to_ascii_lower c) \<and> sql_like ps s')"

section \<open>Lower-casing\<close>

locale lower_case =
  fixes lc :: "str \<Rightarrow> str"
  assumes no_upper: "c \<in> set (lc s) \<Longrightarrow> \<not> is_ascii_upper c"
    and fixed: "(\<And>c. c \<in> set s \<Longrightarrow> c < 128 \<and> \<not> is_ascii_upper c) \<Longrightarrow> lc s = s"

interpretation ascii: lower_case ascii_lowercase
proof
  fix c s
  assume "c \<in> set (ascii_lowercase s)"
  then show "\<not> is_ascii_upper c"
    by (auto simp: ascii_lowercase_def to_ascii_lower_def is_ascii_upper_def)
next
  fix s
  assume "\<And>c. c \<in> set s \<Longrightarrow> c < 128 \<and> \<not> is_ascii_upper c"
  then show "ascii_lowercase s = s"
    by (simp add: ascii_lowercase_def to_ascii_lower_def map_idI)
qed

section \<open>Names\<close>

text \<open>
  \<open>normalize_name_key\<close> (\<open>seps\<close> are the characters that become a dash) and
  \<open>normalize_username\<close> share their loop.
\<close>

definition name_step :: "(uchar \<Rightarrow> bool) \<Rightarrow> uchar \<Rightarrow> str \<Rightarrow> str" where
  "name_step seps ch out =
     (if is_ascii_alphanumeric ch then out @ [ch]
      else if seps ch \<and> \<not> (out \<noteq> [] \<and> last out = c_dash) then out @ [c_dash]
      else out)"

definition name_loop :: "(uchar \<Rightarrow> bool) \<Rightarrow> str \<Rightarrow> str" where
  "name_loop seps s = fold (name_step seps) s []"

definition normalize_name_key :: "(str \<Rightarrow> str) \<Rightarrow> str \<Rightarrow> str" where
  "normalize_name_key lc input =
     trim_matches (\<lambda>c. c = c_dash)
       (name_loop (\<lambda>c. c \<in> {c_dash, c_underscore, c_dot, c_space}) (lc (trim input)))"

definition normalize_username :: "(str \<Rightarrow> str) \<Rightarrow> str \<Rightarrow> err + str" where
  "normalize_username lc input =
     (let out = trim_matches (\<lambda>c. c = c_dash)
        (name_loop (\<lambda>c. c \<in> {c_dash, c_underscore, c_dot}) (lc (trim input)))
      in if 2 \<le> utf8_len out \<and> utf8_len out \<le> 32 then Inr out
         else Inl (Msg (lit ''Username must be 2-32 characters'')))"

definition normalize_slug :: "(str \<Rightarrow> str) \<Rightarrow> str \<Rightarrow> err + str" where
  "normalize_slug lc input =
     (let out = normalize_name_key lc input
      in if 2 \<le> utf8_len out \<and> utf8_len out \<le> 48 then Inr out
         else Inl (Msg (lit ''Channel name must be 2-48 characters'')))"

definition pending_account_username :: "str \<Rightarrow> str" where
  "pending_account_username account_id =
     (let compact = filter (\<lambda>c. c \<noteq> c_dash) account_id;
          suffix = (case take_bytes 20 compact of Some p \<Rightarrow> p | None \<Rightarrow> compact)
      in lit ''pending-'' @ suffix)"

definition short_id :: "str \<Rightarrow> str" where
  "short_id s = (case take_bytes 8 s of Some p \<Rightarrow> p | None \<Rightarrow> s)"

definition dm_key :: "str \<Rightarrow> str \<Rightarrow> str" where
  "dm_key a b = (if a \<le> b then a @ lit '':'' @ b else b @ lit '':'' @ a)"

section \<open>Stored text\<close>

definition sanitize_stored_char :: "uchar \<Rightarrow> uchar option" where
  "sanitize_stored_char c =
     (if c = c_cr then Some c_nl else if c = c_nl then Some c_nl
      else if c = c_tab then Some c_space else if is_control c then None else Some c)"

definition sanitize_stored_text :: "str \<Rightarrow> str" where
  "sanitize_stored_text s = List.map_filter sanitize_stored_char s"

definition sanitize_line_char :: "uchar \<Rightarrow> uchar option" where
  "sanitize_line_char c =
     (if c = c_cr \<or> c = c_nl \<or> c = c_tab then Some c_space
      else if is_control c then None else Some c)"

definition sanitize_single_line_text :: "str \<Rightarrow> str" where
  "sanitize_single_line_text s = List.map_filter sanitize_line_char s"

section \<open>Labels and mentions\<close>

definition is_label_char :: "uchar \<Rightarrow> bool" where
  "is_label_char c \<longleftrightarrow> is_ascii_alphanumeric c \<or> c = c_underscore \<or> c = c_dash"

definition normalize_label :: "str \<Rightarrow> str option" where
  "normalize_label value =
     (let tag = trim_start_char c_dollar (trim value)
      in if tag = [] then None
         else if \<not> list_all is_label_char tag then None
         else if \<not> list_ex is_ascii_alphabetic tag then None
         else Some (ascii_lowercase tag))"

text \<open>Positions count characters; \<open>start\<close> is where the \<open>$\<close> stands.\<close>

definition is_label_boundary :: "str \<Rightarrow> nat \<Rightarrow> bool" where
  "is_label_boundary text start \<longleftrightarrow>
     start = 0 \<or> (take start text \<noteq> [] \<and> \<not> is_label_char (last (take start text)))"

definition push_new :: "str option \<Rightarrow> str list \<Rightarrow> str list" where
  "push_new t tags = (case t of None \<Rightarrow> tags
     | Some tag \<Rightarrow> if tag \<in> set tags then tags else tags @ [tag])"

function scan_labels :: "str \<Rightarrow> nat \<Rightarrow> str list \<Rightarrow> str list" where
  "scan_labels body idx tags =
     (if idx < length body then
        (if body ! idx \<noteq> c_dollar \<or> \<not> is_label_boundary body idx
         then scan_labels body (Suc idx) tags
         else let raw = takeWhile is_label_char (drop (Suc idx) body)
              in scan_labels body (Suc idx + length raw) (push_new (normalize_label raw) tags))
      else tags)"
  by pat_completeness auto
termination
  by (relation "measure (\<lambda>(body, idx, tags). length body - idx)") auto

definition parse_labels :: "str \<Rightarrow> str list" where
  "parse_labels body = scan_labels body 0 []"

definition is_mention_char :: "uchar \<Rightarrow> bool" where
  "is_mention_char c \<longleftrightarrow> is_ascii_alphanumeric c \<or> c = c_underscore \<or> c = c_dash \<or> c = c_dot"

definition is_mention_boundary :: "str \<Rightarrow> nat \<Rightarrow> bool" where
  "is_mention_boundary text start \<longleftrightarrow>
     \<not> (start > 0 \<and> take start text \<noteq> [] \<and> is_mention_char (last (take start text)))"

definition ok_of :: "err + 'a \<Rightarrow> 'a option" where
  "ok_of r = (case r of Inl _ \<Rightarrow> None | Inr a \<Rightarrow> Some a)"

function scan_mentions :: "(str \<Rightarrow> str) \<Rightarrow> str \<Rightarrow> nat \<Rightarrow> str list \<Rightarrow> str list" where
  "scan_mentions lc body idx mentions =
     (if idx < length body then
        (if body ! idx \<noteq> c_at \<or> \<not> is_mention_boundary body idx
         then scan_mentions lc body (Suc idx) mentions
         else let raw = takeWhile is_mention_char (drop (Suc idx) body)
              in scan_mentions lc body (Suc idx + length raw)
                   (push_new (ok_of (normalize_username lc raw)) mentions))
      else mentions)"
  by pat_completeness auto
termination
  by (relation "measure (\<lambda>(lc, body, idx, mentions). length body - idx)") auto

definition parse_mentions :: "(str \<Rightarrow> str) \<Rightarrow> str \<Rightarrow> str list" where
  "parse_mentions lc body = scan_mentions lc body 0 []"

declare scan_labels.simps [simp del] scan_mentions.simps [simp del]

section \<open>Queries, reactions and pages\<close>

definition thread_label_text :: "str \<Rightarrow> str \<Rightarrow> str" where
  "thread_label_text title body = (if trim body = [] then title else title @ [c_nl] @ body)"

fun fts_terms :: "str \<Rightarrow> str \<Rightarrow> str list \<Rightarrow> str list" where
  "fts_terms [] current terms = (if current \<noteq> [] then terms @ [current] else terms)"
| "fts_terms (ch # cs) current terms =
     (if is_ascii_alphanumeric ch then fts_terms cs (current @ [to_ascii_lower ch]) terms
      else if current \<noteq> [] then fts_terms cs [] (terms @ [current])
      else fts_terms cs current terms)"

fun join_str :: "str \<Rightarrow> str list \<Rightarrow> str" where
  "join_str sep [] = []"
| "join_str sep [x] = x"
| "join_str sep (x # y # xs) = x @ sep @ join_str sep (y # xs)"

definition fts_query :: "str \<Rightarrow> str" where
  "fts_query query =
     (let terms = fts_terms query [] []
      in if terms = [] then map (\<lambda>c. if c = c_quote then c_space else c) query
         else join_str (lit '' AND '') (map (\<lambda>t. t @ lit ''*'') terms))"

definition validate_emoji :: "str \<Rightarrow> err + unit" where
  "validate_emoji emoji =
     (if emoji = [] then Inl (Msg (lit ''Emoji is required''))
      else if length emoji > 8 then Inl (Msg (lit ''Emoji is too long''))
      else if list_ex (\<lambda>c. is_ascii_alphanumeric c \<or> is_control c) emoji
        then Inl (Msg (lit ''Use a Unicode emoji reaction''))
      else Inr ())"

definition page_limit :: "int \<Rightarrow> int \<Rightarrow> int" where
  "page_limit limit mx = max 1 (min limit mx)"

section \<open>Shape of normalised names\<close>

definition name_char :: "uchar \<Rightarrow> bool" where
  "name_char c \<longleftrightarrow> is_ascii_lower c \<or> is_ascii_digit c \<or> c = c_dash"

definition no_double_dash :: "str \<Rightarrow> bool" where
  "no_double_dash s = successively (\<lambda>a b. \<not> (a = c_dash \<and> b = c_dash)) s"

text \<open>Lower-case letters, digits and single inner dashes.\<close>

definition wf_name :: "str \<Rightarrow> bool" where
  "wf_name s \<longleftrightarrow> list_all name_char s \<and> no_double_dash s
     \<and> (s \<noteq> [] \<longrightarrow> hd s \<noteq> c_dash \<and> last s \<noteq> c_dash)"

lemma name_char_ascii: "name_char c \<Longrightarrow> c < 128 \<and> \<not> is_ascii_upper c \<and> \<not> is_whitespace c"
  by (auto simp: name_char_def char_class_defs is_whitespace_def)

lemma name_char_alnum:
  "is_ascii_alphanumeric c \<Longrightarrow> \<not> is_ascii_upper c \<Longrightarrow> name_char c"
  by (auto simp: name_char_def char_class_defs)

lemma name_char_cases: "name_char c \<Longrightarrow> is_ascii_alphanumeric c \<or> c = c_dash"
  by (auto simp: name_char_def char_class_defs)

lemma dash_not_alnum [simp]: "\<not> is_ascii_alphanumeric c_dash"
  by (simp add: char_class_defs)

lemma no_double_dash_append:
  "no_double_dash (xs @ ys) \<longleftrightarrow> no_double_dash xs \<and> no_double_dash ys
     \<and> (xs = [] \<or> ys = [] \<or> \<not> (last xs = c_dash \<and> hd ys = c_dash))"
  by (auto simp: no_double_dash_def successively_append_iff)

lemma no_double_dash_simps [simp]: "no_double_dash []" "no_double_dash [c]"
  by (simp_all add: no_double_dash_def)

text \<open>Trimming both ends takes an infix whose ends do not match.\<close>

lemma trim_matches_infix:
  obtains pre post where "s = pre @ trim_matches p s @ post"
proof -
  let ?d = "dropWhile p s"
  have "s = takeWhile p s @ ?d" by simp
  moreover have "rev ?d = takeWhile p (rev ?d) @ dropWhile p (rev ?d)" by simp
  then have "?d = trim_matches p s @ rev (takeWhile p (rev ?d))"
    by (metis rev_append rev_rev_ident trim_matches_def)
  ultimately show ?thesis using that by metis
qed

lemma set_trim_matches: "set (trim_matches p s) \<subseteq> set s"
  by (metis trim_matches_infix UnCI UnI1 set_append subsetI)

lemma last_trim_matches: "trim_matches p s \<noteq> [] \<Longrightarrow> \<not> p (last (trim_matches p s))"
  by (simp add: trim_matches_def last_rev hd_dropWhile)

lemma hd_trim_matches: "trim_matches p s \<noteq> [] \<Longrightarrow> \<not> p (hd (trim_matches p s))"
proof -
  assume ne: "trim_matches p s \<noteq> []"
  let ?d = "dropWhile p s"
  have split: "?d = trim_matches p s @ rev (takeWhile p (rev ?d))"
    by (metis rev_append rev_rev_ident takeWhile_dropWhile_id trim_matches_def)
  with ne have "hd ?d = hd (trim_matches p s)" "?d \<noteq> []"
    by (metis hd_append2, metis append_is_Nil_conv)
  then show ?thesis using hd_dropWhile [of p s] by simp
qed

lemma trim_matches_id:
  assumes "s \<noteq> [] \<Longrightarrow> \<not> p (hd s)" "s \<noteq> [] \<Longrightarrow> \<not> p (last s)"
  shows "trim_matches p s = s"
proof (cases "s = []")
  case True
  then show ?thesis by (simp add: trim_matches_def)
next
  case False
  with assms have "dropWhile p s = s" by (cases s) auto
  moreover from False assms have "dropWhile p (rev s) = rev s"
    by (cases s rule: rev_cases) auto
  ultimately show ?thesis by (simp add: trim_matches_def)
qed

lemma trim_id: "list_all (\<lambda>c. \<not> is_whitespace c) s \<Longrightarrow> trim s = s"
  unfolding trim_def by (rule trim_matches_id) (auto simp: list_all_iff)

lemma name_loop_snoc: "name_loop seps (s @ [c]) = name_step seps c (name_loop seps s)"
  by (simp add: name_loop_def)

lemma name_loop_Nil [simp]: "name_loop seps [] = []"
  by (simp add: name_loop_def)

lemma name_loop_chars:
  assumes "\<And>c. c \<in> set s \<Longrightarrow> \<not> is_ascii_upper c"
  shows "list_all name_char (name_loop seps s)"
  using assms
proof (induction s rule: rev_induct)
  case Nil
  then show ?case by simp
next
  case (snoc c s)
  then have "list_all name_char (name_loop seps s)" by simp
  moreover have "\<not> is_ascii_upper c" using snoc.prems by simp
  moreover have "name_char c_dash" by (simp add: name_char_def)
  ultimately show ?case
    by (simp add: name_loop_snoc name_step_def name_char_alnum)
qed

lemma name_loop_dashes: "no_double_dash (name_loop seps s)"
proof (induction s rule: rev_induct)
  case Nil
  then show ?case by simp
next
  case (snoc c s)
  then show ?case
    by (auto simp: name_loop_snoc name_step_def no_double_dash_append)
qed

lemma name_loop_fixed:
  assumes "list_all name_char s" "no_double_dash s" "seps c_dash"
  shows "name_loop seps s = s"
  using assms(1,2)
proof (induction s rule: rev_induct)
  case Nil
  then show ?case by simp
next
  case (snoc c s)
  then have ih: "name_loop seps s = s"
    by (simp add: no_double_dash_append)
  from snoc.prems have "is_ascii_alphanumeric c \<or> c = c_dash"
    using name_char_cases by simp
  then show ?case
    using snoc.prems assms(3)
    by (auto simp: name_loop_snoc ih name_step_def no_double_dash_append)
qed

lemma wf_name_trimmed:
  assumes "list_all name_char s" "no_double_dash s"
  shows "wf_name (trim_matches (\<lambda>c. c = c_dash) s)"
proof -
  let ?t = "trim_matches (\<lambda>c. c = c_dash) s"
  obtain pre post where s: "s = pre @ ?t @ post"
    by (rule trim_matches_infix)
  with assms have "no_double_dash ?t"
    by (metis no_double_dash_append)
  moreover have "list_all name_char ?t"
    using assms(1) set_trim_matches [of "\<lambda>c. c = c_dash" s] by (auto simp: list_all_iff)
  ultimately show ?thesis
    unfolding wf_name_def using hd_trim_matches last_trim_matches by auto
qed

lemma wf_name_trim_id: "wf_name s \<Longrightarrow> trim s = s"
  by (rule trim_id) (auto simp: wf_name_def list_all_iff dest: name_char_ascii)

lemma wf_name_len: "wf_name s \<Longrightarrow> utf8_len s = length s"
  by (rule utf8_len_ascii) (auto simp: wf_name_def list_all_iff dest: name_char_ascii)

context lower_case
begin

lemma wf_name_lc_id: "wf_name s \<Longrightarrow> lc s = s"
  by (rule fixed) (auto simp: wf_name_def list_all_iff dest: name_char_ascii)

lemma name_key_wf: "wf_name (normalize_name_key lc s)"
  unfolding normalize_name_key_def
  by (intro wf_name_trimmed name_loop_chars name_loop_dashes) (rule no_upper)

lemma name_key_fixed: "wf_name s \<Longrightarrow> normalize_name_key lc s = s"
  by (simp add: normalize_name_key_def wf_name_trim_id wf_name_lc_id)
     (auto simp: wf_name_def name_loop_fixed intro: trim_matches_id)

lemma username_wf: "normalize_username lc s = Inr u \<Longrightarrow> wf_name u \<and> 2 \<le> length u \<and> length u \<le> 32"
proof -
  assume n: "normalize_username lc s = Inr u"
  then have u: "u = trim_matches (\<lambda>c. c = c_dash)
      (name_loop (\<lambda>c. c \<in> {c_dash, c_underscore, c_dot}) (lc (trim s)))"
    by (auto simp: normalize_username_def Let_def split: if_splits)
  then have w: "wf_name u"
    by (auto intro!: wf_name_trimmed name_loop_chars name_loop_dashes dest: no_upper)
  with n u show ?thesis
    by (auto simp: normalize_username_def Let_def wf_name_len split: if_splits)
qed

lemma slug_wf: "normalize_slug lc s = Inr u \<Longrightarrow> wf_name u \<and> 2 \<le> length u \<and> length u \<le> 48"
  using name_key_wf [of s] by (auto simp: normalize_slug_def Let_def wf_name_len split: if_splits)

lemma username_fixed:
  "wf_name u \<Longrightarrow> 2 \<le> length u \<Longrightarrow> length u \<le> 32 \<Longrightarrow> normalize_username lc u = Inr u"
proof -
  assume w: "wf_name u" and l: "2 \<le> length u" "length u \<le> 32"
  from w have "name_loop (\<lambda>c. c \<in> {c_dash, c_underscore, c_dot}) u = u"
    by (intro name_loop_fixed) (auto simp: wf_name_def)
  moreover from w have "trim_matches (\<lambda>c. c = c_dash) u = u"
    by (intro trim_matches_id) (auto simp: wf_name_def)
  ultimately show ?thesis
    using w l by (simp add: normalize_username_def wf_name_trim_id wf_name_lc_id wf_name_len Let_def)
qed

end

section \<open>Which labels and mentions a text carries\<close>

text \<open>
  An occurrence at a position: the marker, a boundary before it and a run of label
  characters behind it that is as long as possible.
\<close>

definition label_at :: "str \<Rightarrow> nat \<Rightarrow> str \<Rightarrow> bool" where
  "label_at body idx tag \<longleftrightarrow>
     idx < length body \<and> body ! idx = c_dollar \<and> is_label_boundary body idx
     \<and> normalize_label (takeWhile is_label_char (drop (Suc idx) body)) = Some tag"

definition mention_at :: "(str \<Rightarrow> str) \<Rightarrow> str \<Rightarrow> nat \<Rightarrow> str \<Rightarrow> bool" where
  "mention_at lc body idx name \<longleftrightarrow>
     idx < length body \<and> body ! idx = c_at \<and> is_mention_boundary body idx
     \<and> normalize_username lc (takeWhile is_mention_char (drop (Suc idx) body)) = Inr name"

lemma set_push_new: "set (push_new t tags) = set tags \<union> set_option t"
  by (auto simp: push_new_def split: option.splits)

lemma distinct_push_new: "distinct tags \<Longrightarrow> distinct (push_new t tags)"
  by (auto simp: push_new_def split: option.splits)

lemma nth_in_run:
  assumes "i < length (takeWhile p (drop k xs))"
  shows "p (xs ! (k + i))"
proof -
  have "takeWhile p (drop k xs) ! i = drop k xs ! i"
    by (simp add: assms takeWhile_nth)
  moreover have "k + i < length xs"
    using assms length_takeWhile_le [of p "drop k xs"] by simp
  ultimately have "xs ! (k + i) = takeWhile p (drop k xs) ! i" by simp
  then show ?thesis using assms nth_mem set_takeWhileD by metis
qed

lemma marks_not_run: "\<not> is_label_char c_dollar" "\<not> is_mention_char c_at"
  by (simp_all add: is_label_char_def is_mention_char_def char_class_defs)

text \<open>No marker stands inside a run, so skipping the run skips no occurrence.\<close>

lemma no_mark_in_run:
  assumes "\<not> p m" "Suc idx \<le> j" "j < Suc idx + length (takeWhile p (drop (Suc idx) body))"
  shows "body ! j \<noteq> m"
proof -
  have "j - Suc idx < length (takeWhile p (drop (Suc idx) body))" using assms by linarith
  from nth_in_run [OF this] have "p (body ! j)" using assms by simp
  then show ?thesis using assms by auto
qed

text \<open>How the occurrences from a position on split, whatever an occurrence is.\<close>

lemma occurrences_hit:
  fixes idx nxt :: nat
  assumes "\<And>j t. at j t \<Longrightarrow> idx < j \<Longrightarrow> nxt \<le> j" "idx < nxt"
  shows "{t. \<exists>j\<ge>idx. at j t} = {t. at idx t} \<union> {t. \<exists>j\<ge>nxt. at j t}"
proof -
  have "(\<exists>j\<ge>idx. at j t) = (at idx t \<or> (\<exists>j\<ge>nxt. at j t))" for t
    by (metis assms le_neq_implies_less less_imp_le_nat order.trans order_refl)
  then show ?thesis by auto
qed

lemma occurrences_skip:
  assumes "\<And>t. \<not> at idx t"
  shows "{t. \<exists>j\<ge>idx. at j t} = {t. \<exists>j\<ge>Suc idx. at j t}"
  using occurrences_hit [of at idx "Suc idx"] assms by (simp add: Suc_le_eq)

lemma scan_labels_set:
  "set (scan_labels body idx tags) = set tags \<union> {tag. \<exists>j\<ge>idx. label_at body j tag}"
proof (induction body idx tags rule: scan_labels.induct)
  case (1 body idx tags)
  let ?raw = "takeWhile is_label_char (drop (Suc idx) body)"
  consider (over) "\<not> idx < length body"
    | (skip) "idx < length body" "body ! idx \<noteq> c_dollar \<or> \<not> is_label_boundary body idx"
    | (hit) "idx < length body" "body ! idx = c_dollar" "is_label_boundary body idx"
    by blast
  then show ?case
  proof cases
    case over
    then show ?thesis by (auto simp: scan_labels.simps [of body idx] label_at_def)
  next
    case skip
    then have "{tag. \<exists>j\<ge>idx. label_at body j tag} = {tag. \<exists>j\<ge>Suc idx. label_at body j tag}"
      by (intro occurrences_skip) (auto simp: label_at_def)
    with skip 1(1) show ?thesis by (simp add: scan_labels.simps [of body idx])
  next
    case hit
    let ?next = "Suc idx + length ?raw"
    have "body ! j \<noteq> c_dollar" if "Suc idx \<le> j" "j < ?next" for j
      using no_mark_in_run [OF marks_not_run(1) that] .
    then have later: "label_at body j tag \<Longrightarrow> idx < j \<Longrightarrow> ?next \<le> j" for j tag
      by (meson Suc_leI label_at_def not_le)
    have "{tag. \<exists>j\<ge>idx. label_at body j tag}
        = {tag. label_at body idx tag} \<union> {tag. \<exists>j\<ge>?next. label_at body j tag}"
      by (rule occurrences_hit) (use later in auto)
    moreover have "{tag. label_at body idx tag} = set_option (normalize_label ?raw)"
      using hit by (auto simp: label_at_def)
    ultimately have "{tag. \<exists>j\<ge>idx. label_at body j tag}
        = set_option (normalize_label ?raw) \<union> {tag. \<exists>j\<ge>?next. label_at body j tag}" by simp
    with hit 1(2) show ?thesis
      by (simp add: scan_labels.simps [of body idx] set_push_new Un_assoc Let_def)
  qed
qed

lemma scan_mentions_set:
  "set (scan_mentions lc body idx ms) = set ms \<union> {n. \<exists>j\<ge>idx. mention_at lc body j n}"
proof (induction lc body idx ms rule: scan_mentions.induct)
  case (1 lc body idx ms)
  let ?raw = "takeWhile is_mention_char (drop (Suc idx) body)"
  consider (over) "\<not> idx < length body"
    | (skip) "idx < length body" "body ! idx \<noteq> c_at \<or> \<not> is_mention_boundary body idx"
    | (hit) "idx < length body" "body ! idx = c_at" "is_mention_boundary body idx"
    by blast
  then show ?case
  proof cases
    case over
    then show ?thesis by (auto simp: scan_mentions.simps [of lc body idx] mention_at_def)
  next
    case skip
    then have "{n. \<exists>j\<ge>idx. mention_at lc body j n} = {n. \<exists>j\<ge>Suc idx. mention_at lc body j n}"
      by (intro occurrences_skip) (auto simp: mention_at_def)
    with skip 1(1) show ?thesis by (simp add: scan_mentions.simps [of lc body idx])
  next
    case hit
    let ?next = "Suc idx + length ?raw"
    have "body ! j \<noteq> c_at" if "Suc idx \<le> j" "j < ?next" for j
      using no_mark_in_run [OF marks_not_run(2) that] .
    then have later: "mention_at lc body j n \<Longrightarrow> idx < j \<Longrightarrow> ?next \<le> j" for j n
      by (meson Suc_leI mention_at_def not_le)
    have "{n. \<exists>j\<ge>idx. mention_at lc body j n}
        = {n. mention_at lc body idx n} \<union> {n. \<exists>j\<ge>?next. mention_at lc body j n}"
      by (rule occurrences_hit) (use later in auto)
    moreover have "{n. mention_at lc body idx n} = set_option (ok_of (normalize_username lc ?raw))"
      using hit by (auto simp: mention_at_def ok_of_def split: sum.splits)
    ultimately have "{n. \<exists>j\<ge>idx. mention_at lc body j n}
        = set_option (ok_of (normalize_username lc ?raw)) \<union> {n. \<exists>j\<ge>?next. mention_at lc body j n}"
      by simp
    with hit 1(2) show ?thesis
      by (simp add: scan_mentions.simps [of lc body idx] set_push_new Un_assoc Let_def)
  qed
qed

lemma scan_labels_distinct: "distinct tags \<Longrightarrow> distinct (scan_labels body idx tags)"
proof (induction body idx tags rule: scan_labels.induct)
  case (1 body idx tags)
  then show ?case
    by (subst scan_labels.simps) (simp add: distinct_push_new Let_def)
qed

lemma scan_mentions_distinct: "distinct ms \<Longrightarrow> distinct (scan_mentions lc body idx ms)"
proof (induction lc body idx ms rule: scan_mentions.induct)
  case (1 lc body idx ms)
  then show ?case
    by (subst scan_mentions.simps) (simp add: distinct_push_new Let_def)
qed

lemma parse_labels_set: "set (parse_labels body) = {tag. \<exists>j. label_at body j tag}"
  by (simp add: parse_labels_def scan_labels_set)

lemma parse_labels_distinct [simp]: "distinct (parse_labels body)"
  by (simp add: parse_labels_def scan_labels_distinct)

lemma parse_mentions_set: "set (parse_mentions lc body) = {n. \<exists>j. mention_at lc body j n}"
  by (simp add: parse_mentions_def scan_mentions_set)

lemma parse_mentions_distinct [simp]: "distinct (parse_mentions lc body)"
  by (simp add: parse_mentions_def scan_mentions_distinct)


section \<open>Stored text and queries\<close>

lemma sanitize_stored_char_ok: "sanitize_stored_char c = Some d \<Longrightarrow> d = c_nl \<or> \<not> is_control d"
  by (auto simp: sanitize_stored_char_def is_control_def split: if_splits)

lemma sanitize_line_char_ok: "sanitize_line_char c = Some d \<Longrightarrow> \<not> is_control d"
  by (auto simp: sanitize_line_char_def is_control_def split: if_splits)

lemma set_map_filter_Some: "c \<in> set (List.map_filter f s) \<Longrightarrow> \<exists>x\<in>set s. f x = Some c"
  by (auto simp: List.map_filter_def)

lemma map_filter_fixed: "(\<And>c. c \<in> set s \<Longrightarrow> f c = Some c) \<Longrightarrow> List.map_filter f s = s"
  by (induction s) (auto simp: List.map_filter_simps)

lemma stored_text_clean: "c \<in> set (sanitize_stored_text s) \<Longrightarrow> c = c_nl \<or> \<not> is_control c"
  unfolding sanitize_stored_text_def by (auto dest!: set_map_filter_Some sanitize_stored_char_ok)

lemma line_clean: "c \<in> set (sanitize_single_line_text s) \<Longrightarrow> \<not> is_control c"
  unfolding sanitize_single_line_text_def by (auto dest!: set_map_filter_Some sanitize_line_char_ok)

lemma stored_text_fixed:
  assumes "\<And>c. c \<in> set s \<Longrightarrow> c = c_nl \<or> \<not> is_control c"
  shows "sanitize_stored_text s = s"
  unfolding sanitize_stored_text_def
proof (rule map_filter_fixed)
  show "sanitize_stored_char c = Some c" if "c \<in> set s" for c
    using assms [OF that] by (auto simp: sanitize_stored_char_def is_control_def)
qed

lemma line_fixed:
  assumes "\<And>c. c \<in> set s \<Longrightarrow> \<not> is_control c"
  shows "sanitize_single_line_text s = s"
  unfolding sanitize_single_line_text_def
proof (rule map_filter_fixed)
  show "sanitize_line_char c = Some c" if "c \<in> set s" for c
    using assms [OF that] by (auto simp: sanitize_line_char_def is_control_def)
qed

text \<open>The terms of a query: its maximal runs of ASCII letters and digits, in lower case.\<close>

function query_words :: "str \<Rightarrow> str list" where
  "query_words [] = []"
| "query_words (c # s) =
     (if is_ascii_alphanumeric c
      then ascii_lowercase (c # takeWhile is_ascii_alphanumeric s) # query_words (dropWhile is_ascii_alphanumeric s)
      else query_words s)"
  by pat_completeness auto
termination
  by (relation "measure length") (auto simp: less_Suc_eq_le length_dropWhile_le)

lemma fts_terms_words:
  "fts_terms s cur ts =
     (if cur = [] then ts @ query_words s
      else ts @ (cur @ ascii_lowercase (takeWhile is_ascii_alphanumeric s)) # query_words (dropWhile is_ascii_alphanumeric s))"
proof (induction s arbitrary: cur ts)
  case (Cons c s)
  then show ?case by (auto simp: ascii_lowercase_def)
qed (simp add: ascii_lowercase_def)

lemma fts_query_words:
  "fts_query q = (if query_words q = [] then map (\<lambda>c. if c = c_quote then c_space else c) q
     else join_str (lit '' AND '') (map (\<lambda>t. t @ lit ''*'') (query_words q)))"
  by (simp add: fts_query_def fts_terms_words)

lemma set_join_str: "set (join_str sep ts) \<subseteq> set sep \<union> (\<Union>t\<in>set ts. set t)"
  by (induction sep ts rule: join_str.induct) auto

lemma query_word_chars:
  "t \<in> set (query_words s) \<Longrightarrow> t \<noteq> [] \<and> (\<forall>c\<in>set t. is_ascii_lower c \<or> is_ascii_digit c)"
proof (induction s arbitrary: t rule: query_words.induct)
  case (2 c s)
  have low: "\<forall>d\<in>set (ascii_lowercase w). is_ascii_lower d \<or> is_ascii_digit d" if "\<forall>d\<in>set w. is_ascii_alphanumeric d" for w
    using that by (auto simp: char_class_defs ascii_lowercase_def)
  have run: "\<forall>d\<in>set (c # takeWhile is_ascii_alphanumeric s). is_ascii_alphanumeric d" if "is_ascii_alphanumeric c"
    using that by (auto dest: set_takeWhileD)
  show ?case
  proof (cases "is_ascii_alphanumeric c")
    case True
    then consider "t = ascii_lowercase (c # takeWhile is_ascii_alphanumeric s)" | "t \<in> set (query_words (dropWhile is_ascii_alphanumeric s))"
      using 2(3) by auto
    then show ?thesis
    proof cases
      case 1
      then show ?thesis using low [OF run [OF True]] by (simp add: ascii_lowercase_def)
    qed (use 2(1) True in blast)
  qed (use 2 in simp)
qed simp

lemma fts_query_safe:
  "c \<in> set (fts_query q) \<Longrightarrow> c \<noteq> c_quote"
  "query_words q \<noteq> [] \<Longrightarrow> c \<in> set (fts_query q) \<Longrightarrow> is_ascii_lower c \<or> is_ascii_digit c \<or> c \<in> set (lit '' AND *'')"
proof -
  have words: "is_ascii_lower c \<or> is_ascii_digit c \<or> c \<in> set (lit '' AND *'')"
    if "c \<in> set (join_str (lit '' AND '') (map (\<lambda>t. t @ lit ''*'') (query_words q)))"
  proof -
    have "c \<in> set (lit '' AND '') \<union> (\<Union>t\<in>set (query_words q). set t \<union> set (lit ''*''))"
      using subsetD [OF set_join_str that] by simp
    then consider "c \<in> set (lit '' AND '') \<union> set (lit ''*'')" | t where "t \<in> set (query_words q)" "c \<in> set t" by blast
    then show ?thesis
    proof cases
      case 2
      then show ?thesis using query_word_chars by blast
    qed (auto simp: lit_def)
  qed
  then show "query_words q \<noteq> [] \<Longrightarrow> c \<in> set (fts_query q) \<Longrightarrow> is_ascii_lower c \<or> is_ascii_digit c \<or> c \<in> set (lit '' AND *'')"
    by (simp add: fts_query_words)
  show "c \<in> set (fts_query q) \<Longrightarrow> c \<noteq> c_quote"
    using words by (auto simp: fts_query_words char_class_defs lit_def split: if_splits)
qed

end
