(* ===== verification/Store.thy ===== *)
theory Store
  imports Text
begin

text \<open>
  The database the server keeps: one record per table of \<open>migrations/*.sql\<close>, with the
  source's columns, and the record \<open>world\<close> of all tables, each the list of its rows in
  insertion order. Columns with a CHECK list are datatypes, nullable columns are options,
  timestamps are the RFC 3339 strings that the code stores and compares.

  What is outside the repository is the record \<open>env\<close>: the clock, the UUID generator, the
  random token source, SHA-256, Unicode lower-casing and the \<open>time\<close> crate's arithmetic and
  parser. Every call that reads the clock or draws an identifier advances \<open>tick\<close>, so two
  calls may answer differently and nothing is assumed about how.

  Each \<open>INSERT\<close> checks the UNIQUE and FOREIGN KEY constraints of its table (the local
  database runs with \<open>PRAGMA foreign_keys = ON\<close>) and fails with \<open>Constraint\<close> otherwise.
\<close>

section \<open>Models\<close>

datatype role = Owner | Admin | Member

definition can_admin :: "role \<Rightarrow> bool" where
  "can_admin r \<longleftrightarrow> r = Owner \<or> r = Admin"

definition role_as_str :: "role \<Rightarrow> str" where
  "role_as_str r = (case r of Owner \<Rightarrow> lit ''owner'' | Admin \<Rightarrow> lit ''admin'' | Member \<Rightarrow> lit ''member'')"

definition role_from_db :: "str \<Rightarrow> err + role" where
  "role_from_db v =
     (if v = lit ''owner'' then Inr Owner else if v = lit ''admin'' then Inr Admin
      else if v = lit ''member'' then Inr Member
      else Inl (Msg (lit ''invalid role in database: '' @ v)))"

lemma role_from_db_as_str [simp]: "role_from_db (role_as_str r) = Inr r"
  by (cases r) (simp_all add: role_from_db_def role_as_str_def)

datatype visibility = Public | Private
datatype source_kind = SThread | SComment | SDm
datatype notification_kind = NMention | NDm | NReply

datatype json = JNull | JBool bool | JInt int | JStr str
type_synonym payload = "(string \<times> json) list"

definition jopt :: "str option \<Rightarrow> json" where
  "jopt x = (case x of None \<Rightarrow> JNull | Some s \<Rightarrow> JStr s)"

text \<open>The account as the services see it (\<open>accounts/model.rs\<close>).\<close>

record account =
  ac_id :: str
  ac_username :: str
  ac_display_name :: str
  ac_role :: role
  ac_activated :: bool
  ac_pending_username :: "str option"

section \<open>Rows\<close>

record account_row =
  a_id :: str
  a_username :: str
  a_display_name :: str
  a_role :: role
  a_settings :: str
  a_created_at :: str
  a_updated_at :: str
  a_last_seen_at :: "str option"
  a_activated_at :: "str option"
  a_disabled_at :: "str option"
  a_pending_username :: "str option"

record reservation_row =
  rs_normalized :: str
  rs_username :: str
  rs_account_id :: str
  rs_first_used_at :: str
  rs_last_used_at :: "str option"
  rs_current :: bool

record key_row =
  k_id :: str
  k_account_id :: str
  k_fingerprint :: str
  k_public_key :: str
  k_label :: "str option"
  k_created_at :: str
  k_last_used_at :: "str option"
  k_revoked_at :: "str option"

record invite_row =
  i_id :: str
  i_code_hash :: str
  i_role :: role
  i_created_by :: str
  i_accepted_by :: "str option"
  i_created_at :: str
  i_expires_at :: "str option"
  i_revoked_at :: "str option"
  i_accepted_at :: "str option"

record bootstrap_row =
  b_id :: str
  b_code_hash :: str
  b_created_at :: str
  b_used_by :: "str option"
  b_used_at :: "str option"

record link_row =
  l_id :: str
  l_account_id :: str
  l_code_hash :: str
  l_label :: "str option"
  l_created_at :: str
  l_expires_at :: str
  l_used_at :: "str option"
  l_used_by_key :: "str option"

record presence_row =
  p_id :: str
  p_account_id :: str
  p_started_at :: str
  p_last_seen_at :: str
  p_disconnected_at :: "str option"

record channel_row =
  c_id :: str
  c_slug :: str
  c_name :: str
  c_visibility :: visibility
  c_topic :: "str option"
  c_created_by :: str
  c_created_at :: str
  c_updated_at :: str
  c_archived_at :: "str option"
  c_archived_by :: "str option"

record channel_member_row =
  m_channel_id :: str
  m_account_id :: str
  m_role :: str
  m_joined_at :: str

record thread_row =
  t_id :: str
  t_channel_id :: str
  t_creator_id :: str
  t_title :: str
  t_name_key :: "str option"
  t_body :: str
  t_comment_count :: int
  t_last_comment_index :: int
  t_last_activity_at :: str
  t_created_at :: str
  t_updated_at :: str
  t_edited_at :: "str option"
  t_archived_at :: "str option"
  t_pinned_at :: "str option"
  t_deleted_at :: "str option"

record comment_row =
  co_id :: str
  co_thread_id :: str
  co_channel_id :: str
  co_author_id :: str
  co_index :: int
  co_body :: str
  co_created_at :: str
  co_updated_at :: str
  co_edited_at :: "str option"
  co_deleted_at :: "str option"

record thread_read_row =
  r_thread_id :: str
  r_account_id :: str
  r_last_read :: int
  r_unread :: int
  r_marked_unread_at :: "str option"
  r_muted_until :: "str option"
  r_saved_at :: "str option"

record conversation_row =
  v_id :: str
  v_dm_key :: str
  v_creator_id :: str
  v_last_index :: int
  v_last_activity_at :: str
  v_created_at :: str
  v_archived_at :: "str option"

record conversation_member_row =
  vm_conversation_id :: str
  vm_account_id :: str
  vm_joined_at :: str
  vm_last_read :: int
  vm_unread :: int
  vm_muted_until :: "str option"
  vm_saved_at :: "str option"

record message_row =
  d_id :: str
  d_conversation_id :: str
  d_author_id :: str
  d_index :: int
  d_body :: str
  d_created_at :: str
  d_updated_at :: str
  d_edited_at :: "str option"
  d_deleted_at :: "str option"

record mention_row =
  mn_id :: str
  mn_target_id :: str
  mn_actor_id :: str
  mn_source_kind :: source_kind
  mn_source_id :: str
  mn_channel_id :: "str option"
  mn_thread_id :: "str option"
  mn_conversation_id :: "str option"
  mn_index :: "int option"
  mn_created_at :: str
  mn_read_at :: "str option"

record reaction_row =
  x_id :: str
  x_source_kind :: source_kind
  x_source_id :: str
  x_account_id :: str
  x_emoji :: str
  x_created_at :: str

record notification_row =
  n_id :: str
  n_account_id :: str
  n_actor_id :: "str option"
  n_kind :: notification_kind
  n_source_kind :: "source_kind option"
  n_source_id :: "str option"
  n_channel_id :: "str option"
  n_thread_id :: "str option"
  n_conversation_id :: "str option"
  n_title :: str
  n_body :: str
  n_created_at :: str
  n_read_at :: "str option"
  n_archived_at :: "str option"

record event_row =
  ev_seq :: int
  ev_created_at :: str
  ev_channel_id :: "str option"
  ev_thread_id :: "str option"
  ev_conversation_id :: "str option"
  ev_kind :: str
  ev_payload :: payload

record audit_row =
  au_id :: str
  au_actor_id :: "str option"
  au_action :: str
  au_target :: "str option"
  au_metadata :: payload
  au_created_at :: str

record label_row =
  lb_tag :: str
  lb_source_kind :: source_kind
  lb_source_id :: str
  lb_channel_id :: "str option"
  lb_thread_id :: "str option"
  lb_conversation_id :: "str option"
  lb_index :: "int option"
  lb_created_at :: str

record search_document_row =
  sd_rowid :: int
  sd_kind :: source_kind
  sd_object_id :: str
  sd_channel_id :: "str option"
  sd_thread_id :: "str option"
  sd_conversation_id :: "str option"

record search_index_row =
  si_rowid :: int
  si_kind :: source_kind
  si_object_id :: str
  si_channel_id :: "str option"
  si_thread_id :: "str option"
  si_conversation_id :: "str option"
  si_title :: str
  si_body :: str
  si_context :: str

record saved_row =
  s_account_id :: str
  s_source_kind :: source_kind
  s_source_id :: str
  s_saved_at :: str

section \<open>World and environment\<close>

record world =
  accounts :: "account_row list"
  reservations :: "reservation_row list"
  ssh_keys :: "key_row list"
  invites :: "invite_row list"
  bootstrap_tokens :: "bootstrap_row list"
  link_tokens :: "link_row list"
  presence :: "presence_row list"
  channels :: "channel_row list"
  channel_members :: "channel_member_row list"
  threads :: "thread_row list"
  comments :: "comment_row list"
  thread_reads :: "thread_read_row list"
  conversations :: "conversation_row list"
  conversation_members :: "conversation_member_row list"
  messages :: "message_row list"
  mentions :: "mention_row list"
  reactions :: "reaction_row list"
  notifications :: "notification_row list"
  event_log :: "event_row list"
  audit_log :: "audit_row list"
  labels :: "label_row list"
  search_documents :: "search_document_row list"
  search_index :: "search_index_row list"
  saved_messages :: "saved_row list"
  event_seq :: int
  tick :: nat

type_synonym 'a wtx = "(world, 'a) tx"

definition empty_world :: world where
  "empty_world = \<lparr>accounts = [], reservations = [], ssh_keys = [], invites = [],
     bootstrap_tokens = [], link_tokens = [], presence = [], channels = [], channel_members = [],
     threads = [], comments = [], thread_reads = [], conversations = [], conversation_members = [],
     messages = [], mentions = [], reactions = [], notifications = [], event_log = [],
     audit_log = [], labels = [], search_documents = [], search_index = [], saved_messages = [],
     event_seq = 0, tick = 0\<rparr>"

text \<open>
  \<open>e_after n secs\<close> is the formatted instant that many seconds after the clock's reading at
  tick \<open>n\<close>, and \<open>None\<close> where the \<open>time\<close> crate's checked arithmetic panics. \<open>e_parse\<close> and
  \<open>e_instant\<close> place a parsed timestamp and the clock on one time line.
\<close>

record env =
  e_now :: "nat \<Rightarrow> str"
  e_id :: "nat \<Rightarrow> str"
  e_code :: "nat \<Rightarrow> str"
  e_sha :: "str \<Rightarrow> str"
  e_lc :: "str \<Rightarrow> str"
  e_after :: "nat \<Rightarrow> int \<Rightarrow> str option"
  e_parse :: "str \<Rightarrow> int option"
  e_instant :: "nat \<Rightarrow> int"

definition draw :: "(nat \<Rightarrow> 'a) \<Rightarrow> 'a wtx" where
  "draw f = (\<lambda>s. Inr (f (tick s), s\<lparr>tick := Suc (tick s)\<rparr>))"

definition now :: "env \<Rightarrow> str wtx" where
  "now E = draw (e_now E)"

definition fresh_id :: "env \<Rightarrow> str wtx" where
  "fresh_id E = draw (e_id E)"

definition invite_code :: "env \<Rightarrow> str wtx" where
  "invite_code E = draw (e_code E)"

definition code_hash :: "env \<Rightarrow> str \<Rightarrow> str" where
  "code_hash E code = e_sha E (trim code)"

definition timestamp_after_hours :: "env \<Rightarrow> int \<Rightarrow> str option wtx" where
  "timestamp_after_hours E hours =
     (if hours \<le> 0 then ret None
      else bnd (draw (\<lambda>n. e_after E n (hours * 3600))) (\<lambda>t.
           case t of None \<Rightarrow> fail Panic | Some ts \<Rightarrow> ret (Some ts)))"

text \<open>\<open>ttl_hours.and_then(timestamp_after_hours)\<close>.\<close>

definition ttl_timestamp :: "env \<Rightarrow> int option \<Rightarrow> str option wtx" where
  "ttl_timestamp E ttl =
     (case ttl of None \<Rightarrow> ret None | Some hours \<Rightarrow> timestamp_after_hours E hours)"

lemma wp_draw [wp_simps]: "wp (draw f) Q s = Q (f (tick s)) (s\<lparr>tick := Suc (tick s)\<rparr>)"
  by (simp add: wp_def draw_def)

lemma wp_now [wp_simps]: "wp (now E) Q s = Q (e_now E (tick s)) (s\<lparr>tick := Suc (tick s)\<rparr>)"
  by (simp add: now_def wp_draw)

lemma wp_fresh_id [wp_simps]:
  "wp (fresh_id E) Q s = Q (e_id E (tick s)) (s\<lparr>tick := Suc (tick s)\<rparr>)"
  by (simp add: fresh_id_def wp_draw)

lemma wp_invite_code [wp_simps]:
  "wp (invite_code E) Q s = Q (e_code E (tick s)) (s\<lparr>tick := Suc (tick s)\<rparr>)"
  by (simp add: invite_code_def wp_draw)

lemma wp_ttl_timestamp:
  assumes "\<And>t. Q t s" "\<And>t. Q t (s\<lparr>tick := Suc (tick s)\<rparr>)"
  shows "wp (ttl_timestamp E ttl) Q s"
  using assms
  by (cases ttl) (auto simp: ttl_timestamp_def timestamp_after_hours_def wp_simps)

text \<open>
  An environment to run the model with: times, identifiers and codes are one-character strings,
  numbered by the clock's tick.
\<close>

definition demo_env :: env where
  "demo_env = \<lparr>e_now = (\<lambda>n. [1000 + n]), e_id = (\<lambda>n. [2000 + n]), e_code = (\<lambda>n. [3000 + n]),
     e_sha = (\<lambda>s. s), e_lc = ascii_lowercase, e_after = (\<lambda>n k. Some [5000 + n]),
     e_parse = (\<lambda>_. Some 100), e_instant = (\<lambda>n. int n)\<rparr>"

end
