(* ===== verification/Tables.thy ===== *)
theory Tables
  imports Store
begin

text \<open>
  The write statements on the tables, with the constraints of \<open>migrations/*.sql\<close>, and the
  two logs that every command appends to (\<open>insert_event\<close>, \<open>insert_audit\<close> of
  \<open>features/events/db.rs\<close>).
\<close>

section \<open>Statements\<close>

definition insert_row ::
    "string \<Rightarrow> ('s \<Rightarrow> 'r list) \<Rightarrow> (('r list \<Rightarrow> 'r list) \<Rightarrow> 's \<Rightarrow> 's) \<Rightarrow> ('s \<Rightarrow> bool) \<Rightarrow> 'r
      \<Rightarrow> ('s, unit) tx" where
  "insert_row tbl get upd ok r =
     (\<lambda>s. if ok s then Inr ((), upd (\<lambda>_. get s @ [r]) s) else Inl (Constraint tbl))"

definition upsert_row ::
    "string \<Rightarrow> ('s \<Rightarrow> 'r list) \<Rightarrow> (('r list \<Rightarrow> 'r list) \<Rightarrow> 's \<Rightarrow> 's) \<Rightarrow> ('r \<Rightarrow> bool) \<Rightarrow> ('r \<Rightarrow> 'r)
      \<Rightarrow> ('s \<Rightarrow> bool) \<Rightarrow> 'r \<Rightarrow> ('s, unit) tx" where
  "upsert_row tbl get upd p f ok r =
     (\<lambda>s. if list_ex p (get s) \<or> ok s then Inr ((), upd (\<lambda>_. sql_upsert p f r (get s)) s)
          else Inl (Constraint tbl))"

lemma wp_insert_row [wp_simps]:
  "wp (insert_row tbl get upd ok r) Q s = (ok s \<longrightarrow> Q () (upd (\<lambda>_. get s @ [r]) s))"
  by (simp add: wp_def insert_row_def)

lemma wp_upsert_row [wp_simps]:
  "wp (upsert_row tbl get upd p f ok r) Q s =
     (list_ex p (get s) \<or> ok s \<longrightarrow> Q () (upd (\<lambda>_. sql_upsert p f r (get s)) s))"
  by (auto simp: wp_def upsert_row_def)

text \<open>The constraint check of an \<open>UPDATE\<close> that changes constrained columns.\<close>

definition constraint :: "string \<Rightarrow> ('s \<Rightarrow> bool) \<Rightarrow> ('s, unit) tx" where
  "constraint tbl ok = (\<lambda>s. if ok s then Inr ((), s) else Inl (Constraint tbl))"

lemma wp_constraint [wp_simps]: "wp (constraint tbl ok) Q s = (ok s \<longrightarrow> Q () s)"
  by (simp add: wp_def constraint_def)

lemma same_constraint [same_intros]: "same g (constraint tbl ok)"
  by (auto simp: same_def constraint_def split: if_splits)

lemma same_insert_row [same_intros]:
  "(\<And>s rows. g (upd (\<lambda>_. rows) s) = g s) \<Longrightarrow> same g (insert_row tbl get upd ok r)"
  by (auto simp: same_def insert_row_def split: if_splits)

lemma same_upsert_row [same_intros]:
  "(\<And>s rows. g (upd (\<lambda>_. rows) s) = g s) \<Longrightarrow> same g (upsert_row tbl get upd p f ok r)"
  by (auto simp: same_def upsert_row_def split: if_splits)

lemma same_draw [same_intros]: "(\<And>s n. g (s\<lparr>tick := n\<rparr>) = g s) \<Longrightarrow> same g (draw f)"
  by (auto simp: same_def draw_def)

lemma same_now [same_intros]: "(\<And>s n. g (s\<lparr>tick := n\<rparr>) = g s) \<Longrightarrow> same g (now E)"
  by (simp add: now_def same_draw)

lemma same_fresh_id [same_intros]: "(\<And>s n. g (s\<lparr>tick := n\<rparr>) = g s) \<Longrightarrow> same g (fresh_id E)"
  by (simp add: fresh_id_def same_draw)

lemma same_invite_code [same_intros]:
  "(\<And>s n. g (s\<lparr>tick := n\<rparr>) = g s) \<Longrightarrow> same g (invite_code E)"
  by (simp add: invite_code_def same_draw)

lemma same_ttl_timestamp [same_intros]:
  "(\<And>s n. g (s\<lparr>tick := n\<rparr>) = g s) \<Longrightarrow> same g (ttl_timestamp E ttl)"
  by (auto simp: ttl_timestamp_def timestamp_after_hours_def intro!: same_intros)

text \<open>\<open>fetch_one\<close> and \<open>fetch_optional\<close> of a query over one table.\<close>

definition fetch_one :: "('s \<Rightarrow> 'r list) \<Rightarrow> ('r \<Rightarrow> bool) \<Rightarrow> ('s, 'r) tx" where
  "fetch_one get p = bnd (gets (\<lambda>s. fetch_last p (get s))) (\<lambda>row. some_or row NoRows)"

lemma wp_fetch_one [wp_simps]:
  "wp (fetch_one get p) Q s = (\<forall>r. fetch_last p (get s) = Some r \<longrightarrow> Q r s)"
  by (simp add: fetch_one_def wp_simps)

lemma same_fetch_one [same_intros]: "same g (fetch_one get p)"
  by (simp add: fetch_one_def same_intros)

text \<open>\<open>flag.then(now)\<close>.\<close>

definition then_now :: "env \<Rightarrow> bool \<Rightarrow> str option wtx" where
  "then_now E b = (if b then bnd (now E) (\<lambda>n. ret (Some n)) else ret None)"

lemma same_then_now [same_intros]: "(\<And>s n. g (s\<lparr>tick := n\<rparr>) = g s) \<Longrightarrow> same g (then_now E b)"
  by (simp add: then_now_def same_intros)

definition has_account :: "str \<Rightarrow> world \<Rightarrow> bool" where
  "has_account i s = list_ex (\<lambda>r. a_id r = i) (accounts s)"

definition has_channel :: "str \<Rightarrow> world \<Rightarrow> bool" where
  "has_channel i s = list_ex (\<lambda>r. c_id r = i) (channels s)"

definition has_thread :: "str \<Rightarrow> world \<Rightarrow> bool" where
  "has_thread i s = list_ex (\<lambda>r. t_id r = i) (threads s)"

definition has_conversation :: "str \<Rightarrow> world \<Rightarrow> bool" where
  "has_conversation i s = list_ex (\<lambda>r. v_id r = i) (conversations s)"

text \<open>A nullable foreign key.\<close>

definition fk_opt :: "(str \<Rightarrow> world \<Rightarrow> bool) \<Rightarrow> str option \<Rightarrow> world \<Rightarrow> bool" where
  "fk_opt has k s = (case k of None \<Rightarrow> True | Some i \<Rightarrow> has i s)"

definition source_fks :: "str option \<Rightarrow> str option \<Rightarrow> str option \<Rightarrow> world \<Rightarrow> bool" where
  "source_fks ch th cv s \<longleftrightarrow>
     fk_opt has_channel ch s \<and> fk_opt has_thread th s \<and> fk_opt has_conversation cv s"

definition insert_account :: "account_row \<Rightarrow> unit wtx" where
  "insert_account r = insert_row ''accounts'' accounts accounts_update
     (\<lambda>s. \<forall>q\<in>set (accounts s). a_id q \<noteq> a_id r \<and> a_username q \<noteq> a_username r) r"

definition insert_key :: "key_row \<Rightarrow> unit wtx" where
  "insert_key r = insert_row ''ssh_keys'' ssh_keys ssh_keys_update
     (\<lambda>s. has_account (k_account_id r) s
        \<and> (\<forall>q\<in>set (ssh_keys s). k_id q \<noteq> k_id r \<and> k_fingerprint q \<noteq> k_fingerprint r)) r"

definition insert_invite :: "invite_row \<Rightarrow> unit wtx" where
  "insert_invite r = insert_row ''invites'' invites invites_update
     (\<lambda>s. i_role r \<noteq> Owner \<and> has_account (i_created_by r) s
        \<and> (\<forall>q\<in>set (invites s). i_id q \<noteq> i_id r \<and> i_code_hash q \<noteq> i_code_hash r)) r"

definition insert_bootstrap :: "bootstrap_row \<Rightarrow> unit wtx" where
  "insert_bootstrap r = insert_row ''bootstrap_tokens'' bootstrap_tokens bootstrap_tokens_update
     (\<lambda>s. \<forall>q\<in>set (bootstrap_tokens s). b_id q \<noteq> b_id r \<and> b_code_hash q \<noteq> b_code_hash r) r"

definition insert_link_token :: "link_row \<Rightarrow> unit wtx" where
  "insert_link_token r = insert_row ''device_link_tokens'' link_tokens link_tokens_update
     (\<lambda>s. has_account (l_account_id r) s
        \<and> (\<forall>q\<in>set (link_tokens s). l_id q \<noteq> l_id r \<and> l_code_hash q \<noteq> l_code_hash r)) r"

definition insert_channel :: "channel_row \<Rightarrow> unit wtx" where
  "insert_channel r = insert_row ''channels'' channels channels_update
     (\<lambda>s. has_account (c_created_by r) s
        \<and> (\<forall>q\<in>set (channels s). c_id q \<noteq> c_id r \<and> c_slug q \<noteq> c_slug r)) r"

definition same_member :: "channel_member_row \<Rightarrow> channel_member_row \<Rightarrow> bool" where
  "same_member r q \<longleftrightarrow> m_channel_id q = m_channel_id r \<and> m_account_id q = m_account_id r"

definition insert_channel_member :: "channel_member_row \<Rightarrow> unit wtx" where
  "insert_channel_member r = insert_row ''channel_members'' channel_members channel_members_update
     (\<lambda>s. has_channel (m_channel_id r) s \<and> has_account (m_account_id r) s
        \<and> \<not> list_ex (same_member r) (channel_members s)) r"

text \<open>\<open>ON CONFLICT(channel_id, account_id) DO NOTHING\<close>.\<close>

definition upsert_channel_member :: "channel_member_row \<Rightarrow> unit wtx" where
  "upsert_channel_member r = upsert_row ''channel_members'' channel_members channel_members_update
     (same_member r) (\<lambda>q. q)
     (\<lambda>s. has_channel (m_channel_id r) s \<and> has_account (m_account_id r) s) r"

definition insert_thread :: "thread_row \<Rightarrow> unit wtx" where
  "insert_thread r = insert_row ''threads'' threads threads_update
     (\<lambda>s. has_channel (t_channel_id r) s \<and> has_account (t_creator_id r) s
        \<and> (\<forall>q\<in>set (threads s). t_id q \<noteq> t_id r)) r"

definition insert_comment :: "comment_row \<Rightarrow> unit wtx" where
  "insert_comment r = insert_row ''comments'' comments comments_update
     (\<lambda>s. has_thread (co_thread_id r) s \<and> has_channel (co_channel_id r) s
        \<and> has_account (co_author_id r) s
        \<and> (\<forall>q\<in>set (comments s). co_id q \<noteq> co_id r
             \<and> \<not> (co_thread_id q = co_thread_id r \<and> co_index q = co_index r))) r"

definition same_read :: "thread_read_row \<Rightarrow> thread_read_row \<Rightarrow> bool" where
  "same_read r q \<longleftrightarrow> r_thread_id q = r_thread_id r \<and> r_account_id q = r_account_id r"

text \<open>\<open>ON CONFLICT(thread_id, account_id) DO UPDATE SET\<close> the assignments \<open>f\<close>.\<close>

definition upsert_thread_read :: "(thread_read_row \<Rightarrow> thread_read_row) \<Rightarrow> thread_read_row \<Rightarrow> unit wtx" where
  "upsert_thread_read f r = upsert_row ''thread_reads'' thread_reads thread_reads_update
     (same_read r) f
     (\<lambda>s. has_thread (r_thread_id r) s \<and> has_account (r_account_id r) s) r"

definition insert_conversation :: "conversation_row \<Rightarrow> unit wtx" where
  "insert_conversation r = insert_row ''conversations'' conversations conversations_update
     (\<lambda>s. has_account (v_creator_id r) s
        \<and> (\<forall>q\<in>set (conversations s). v_id q \<noteq> v_id r \<and> v_dm_key q \<noteq> v_dm_key r)) r"

definition same_conversation_member ::
    "conversation_member_row \<Rightarrow> conversation_member_row \<Rightarrow> bool" where
  "same_conversation_member r q \<longleftrightarrow>
     vm_conversation_id q = vm_conversation_id r \<and> vm_account_id q = vm_account_id r"

definition insert_conversation_member :: "conversation_member_row \<Rightarrow> unit wtx" where
  "insert_conversation_member r = insert_row ''conversation_members'' conversation_members conversation_members_update
     (\<lambda>s. has_conversation (vm_conversation_id r) s \<and> has_account (vm_account_id r) s
        \<and> \<not> list_ex (same_conversation_member r) (conversation_members s)) r"

definition upsert_conversation_member :: "conversation_member_row \<Rightarrow> unit wtx" where
  "upsert_conversation_member r =
     upsert_row ''conversation_members'' conversation_members conversation_members_update
     (same_conversation_member r) (\<lambda>q. q)
     (\<lambda>s. has_conversation (vm_conversation_id r) s \<and> has_account (vm_account_id r) s) r"

definition insert_message :: "message_row \<Rightarrow> unit wtx" where
  "insert_message r = insert_row ''conversation_messages'' messages messages_update
     (\<lambda>s. has_conversation (d_conversation_id r) s \<and> has_account (d_author_id r) s
        \<and> (\<forall>q\<in>set (messages s). d_id q \<noteq> d_id r
             \<and> \<not> (d_conversation_id q = d_conversation_id r \<and> d_index q = d_index r))) r"

definition insert_mention :: "mention_row \<Rightarrow> unit wtx" where
  "insert_mention r = insert_row ''mentions'' mentions mentions_update
     (\<lambda>s. has_account (mn_target_id r) s \<and> has_account (mn_actor_id r) s
        \<and> source_fks (mn_channel_id r) (mn_thread_id r) (mn_conversation_id r) s
        \<and> (\<forall>q\<in>set (mentions s). mn_id q \<noteq> mn_id r)) r"

definition insert_notification :: "notification_row \<Rightarrow> unit wtx" where
  "insert_notification r = insert_row ''notifications'' notifications notifications_update
     (\<lambda>s. has_account (n_account_id r) s \<and> fk_opt has_account (n_actor_id r) s
        \<and> source_fks (n_channel_id r) (n_thread_id r) (n_conversation_id r) s
        \<and> (\<forall>q\<in>set (notifications s). n_id q \<noteq> n_id r)) r"

definition same_reaction :: "reaction_row \<Rightarrow> reaction_row \<Rightarrow> bool" where
  "same_reaction r q \<longleftrightarrow> x_source_kind q = x_source_kind r \<and> x_source_id q = x_source_id r
     \<and> x_account_id q = x_account_id r \<and> x_emoji q = x_emoji r"

definition upsert_reaction :: "reaction_row \<Rightarrow> unit wtx" where
  "upsert_reaction r = upsert_row ''reactions'' reactions reactions_update
     (same_reaction r) (\<lambda>q. q)
     (\<lambda>s. has_account (x_account_id r) s \<and> (\<forall>q\<in>set (reactions s). x_id q \<noteq> x_id r)) r"

definition insert_label :: "label_row \<Rightarrow> unit wtx" where
  "insert_label r = insert_row ''message_labels'' labels labels_update
     (\<lambda>s. source_fks (lb_channel_id r) (lb_thread_id r) (lb_conversation_id r) s
        \<and> (\<forall>q\<in>set (labels s). \<not> (lb_tag q = lb_tag r \<and> lb_source_kind q = lb_source_kind r
             \<and> lb_source_id q = lb_source_id r))) r"

definition insert_search_document :: "search_document_row \<Rightarrow> unit wtx" where
  "insert_search_document r = insert_row ''search_documents'' search_documents search_documents_update
     (\<lambda>s. source_fks (sd_channel_id r) (sd_thread_id r) (sd_conversation_id r) s
        \<and> (\<forall>q\<in>set (search_documents s). sd_rowid q \<noteq> sd_rowid r
             \<and> \<not> (sd_kind q = sd_kind r \<and> sd_object_id q = sd_object_id r))) r"

definition insert_search_index :: "search_index_row \<Rightarrow> unit wtx" where
  "insert_search_index r = insert_row ''search_index'' search_index search_index_update
     (\<lambda>s. \<forall>q\<in>set (search_index s). si_rowid q \<noteq> si_rowid r) r"

definition same_saved :: "saved_row \<Rightarrow> saved_row \<Rightarrow> bool" where
  "same_saved r q \<longleftrightarrow> s_account_id q = s_account_id r \<and> s_source_kind q = s_source_kind r
     \<and> s_source_id q = s_source_id r"

definition upsert_saved :: "saved_row \<Rightarrow> unit wtx" where
  "upsert_saved r = upsert_row ''saved_messages'' saved_messages saved_messages_update
     (same_saved r) (\<lambda>q. q\<lparr>s_saved_at := s_saved_at r\<rparr>)
     (\<lambda>s. has_account (s_account_id r) s) r"

text \<open>The statements by what they do, for proofs that run through a whole command.\<close>

lemmas insert_defs = insert_account_def insert_key_def insert_invite_def insert_bootstrap_def
  insert_link_token_def insert_channel_def insert_channel_member_def upsert_channel_member_def
  insert_thread_def insert_comment_def upsert_thread_read_def insert_conversation_def
  insert_conversation_member_def upsert_conversation_member_def insert_message_def
  insert_mention_def insert_notification_def upsert_reaction_def insert_label_def
  insert_search_document_def insert_search_index_def upsert_saved_def

section \<open>Event log and audit log\<close>

definition insert_event ::
    "env \<Rightarrow> str option \<Rightarrow> str option \<Rightarrow> str option \<Rightarrow> str \<Rightarrow> payload \<Rightarrow> event_row wtx" where
  "insert_event E channel_id thread_id conversation_id kind payload =
     bnd (now E) (\<lambda>n s.
       let r = \<lparr>ev_seq = event_seq s + 1, ev_created_at = n, ev_channel_id = channel_id,
                ev_thread_id = thread_id, ev_conversation_id = conversation_id,
                ev_kind = kind, ev_payload = payload\<rparr>
       in Inr (r, s\<lparr>event_log := event_log s @ [r], event_seq := ev_seq r\<rparr>))"

text \<open>The caller ignores the \<open>LiveEvent\<close>.\<close>

definition log_event ::
    "env \<Rightarrow> str option \<Rightarrow> str option \<Rightarrow> str option \<Rightarrow> str \<Rightarrow> payload \<Rightarrow> unit wtx" where
  "log_event E ch th cv kind payload = bnd (insert_event E ch th cv kind payload) (\<lambda>_. ret ())"

definition insert_audit ::
    "env \<Rightarrow> str option \<Rightarrow> str \<Rightarrow> str option \<Rightarrow> payload \<Rightarrow> unit wtx" where
  "insert_audit E actor action target metadata =
     bnd (fresh_id E) (\<lambda>i. bnd (now E) (\<lambda>n.
       let r = \<lparr>au_id = i, au_actor_id = actor, au_action = action, au_target = target,
                au_metadata = metadata, au_created_at = n\<rparr>
       in insert_row ''audit_log'' audit_log audit_log_update
            (\<lambda>s. fk_opt has_account actor s \<and> (\<forall>q\<in>set (audit_log s). au_id q \<noteq> i)) r))"

text \<open>
  A run of the logs changes the logs and the clock only.
\<close>

lemma log_event_state:
  "log_event E ch th cv kind pl s = Inr (u, t) \<Longrightarrow>
     \<exists>n ev q. t = s\<lparr>tick := n, event_log := ev, event_seq := q\<rparr>"
  by (auto simp: log_event_def insert_event_def bnd_def now_def draw_def ret_def Let_def)

lemma wp_log_event:
  assumes "\<And>n ev q. Q () (s\<lparr>tick := n, event_log := ev, event_seq := q\<rparr>)"
  shows "wp (log_event E ch th cv kind pl) Q s"
  by (rule wpI) (use assms log_event_state in fastforce)

lemma same_log_event [same_intros]:
  "(\<And>s n ev q. g (s\<lparr>tick := n, event_log := ev, event_seq := q\<rparr>) = g s) \<Longrightarrow>
     same g (log_event E ch th cv kind pl)"
  by (auto simp: same_def dest!: log_event_state)

lemma insert_audit_state:
  "insert_audit E actor action target md s = Inr (u, t) \<Longrightarrow>
     \<exists>n au. t = s\<lparr>tick := n, audit_log := au\<rparr>"
  by (auto simp: insert_audit_def bnd_def fresh_id_def now_def draw_def insert_row_def Let_def
      split: if_splits)

lemma wp_insert_audit:
  assumes "\<And>n au. Q () (s\<lparr>tick := n, audit_log := au\<rparr>)"
  shows "wp (insert_audit E actor action target md) Q s"
  by (rule wpI) (use assms insert_audit_state in fastforce)

lemma same_insert_audit [same_intros]:
  "(\<And>s n au. g (s\<lparr>tick := n, audit_log := au\<rparr>) = g s) \<Longrightarrow>
     same g (insert_audit E actor action target md)"
  by (auto simp: same_def dest!: insert_audit_state)

end
