(* ===== verification/Access.thy ===== *)
theory Access
  imports Tables
begin

text \<open>
  Who may do what: the guards of \<open>features/shared/permissions.rs\<close> and the loaders that
  every command starts with (\<open>load_account_tx\<close> and \<open>ensure_can_view_channel\<close> of
  \<open>features/shared/loaders.rs\<close>). All of them only read, so each comes with the equation
  that pushes \<open>wp\<close> through it and is a frame for every part of the state.
\<close>

section \<open>Accounts\<close>

definition account_from_row :: "account_row \<Rightarrow> account" where
  "account_from_row r =
     \<lparr>ac_id = a_id r, ac_username = a_username r,
      ac_display_name = sanitize_single_line_text (a_display_name r), ac_role = a_role r,
      ac_activated = (a_activated_at r \<noteq> None),
      ac_pending_username = map_option sanitize_single_line_text (a_pending_username r)\<rparr>"

lemma account_from_row_simps [simp]:
  "ac_id (account_from_row r) = a_id r"
  "ac_username (account_from_row r) = a_username r"
  "ac_role (account_from_row r) = a_role r"
  "ac_activated (account_from_row r) \<longleftrightarrow> a_activated_at r \<noteq> None"
  by (simp_all add: account_from_row_def)

definition load_account_tx :: "str \<Rightarrow> account wtx" where
  "load_account_tx account_id =
     bnd (gets (\<lambda>s. fetch_last (\<lambda>r. a_id r = account_id \<and> a_disabled_at r = None) (accounts s)))
       (\<lambda>row. case row of None \<Rightarrow> fail NoRows | Some r \<Rightarrow> ret (account_from_row r))"

definition same_username :: "str \<Rightarrow> account_row \<Rightarrow> bool" where
  "same_username u r \<longleftrightarrow> ascii_lowercase (a_username r) = ascii_lowercase u"

definition load_account_by_username_tx :: "str \<Rightarrow> account wtx" where
  "load_account_by_username_tx username =
     bnd (gets (\<lambda>s. fetch_last (same_username (trim_start_char c_at (trim username))) (accounts s)))
       (\<lambda>row. case row of None \<Rightarrow> fail (Msg (lit ''User not found'')) | Some r \<Rightarrow> ret (account_from_row r))"

definition require_admin_tx :: "str \<Rightarrow> account wtx" where
  "require_admin_tx actor_id =
     bnd (load_account_tx actor_id) (\<lambda>actor.
     thn (ensure (ac_activated actor \<and> can_admin (ac_role actor))
            (lit ''Only owners/admins can perform this action''))
     (ret actor))"

definition ensure_can_manage_account :: "account \<Rightarrow> account \<Rightarrow> unit wtx" where
  "ensure_can_manage_account actor target =
     thn (ensure (can_admin (ac_role actor)) (lit ''Only owners/admins can manage users''))
     (if ac_role actor \<noteq> Owner \<and> ac_role target = Owner
      then fail (Msg (lit ''Only owners can manage owner accounts'')) else ret ())"

definition active_owner :: "account_row \<Rightarrow> bool" where
  "active_owner r \<longleftrightarrow> a_role r = Owner \<and> a_activated_at r \<noteq> None \<and> a_disabled_at r = None"

definition ensure_not_last_active_owner :: "str \<Rightarrow> unit wtx" where
  "ensure_not_last_active_owner target_id =
     bnd (gets (\<lambda>s. sql_count (\<lambda>r. a_id r \<noteq> target_id \<and> active_owner r) (accounts s))) (\<lambda>count.
     ensure (0 < count) (lit ''Cannot remove the last active owner''))"

definition ensure_owner_keeps_active_key :: "str \<Rightarrow> unit wtx" where
  "ensure_owner_keeps_active_key account_id =
     bnd (gets (\<lambda>s. sql_count (\<lambda>k. k_account_id k = account_id \<and> k_revoked_at k = None) (ssh_keys s)))
       (\<lambda>active_keys. if active_keys \<le> 1 then ensure_not_last_active_owner account_id else ret ())"

section \<open>Username reservations\<close>

definition username_reservation_owner_tx :: "str \<Rightarrow> str option wtx" where
  "username_reservation_owner_tx username =
     gets (\<lambda>s. map_option rs_account_id
                 (fetch_last (\<lambda>r. rs_normalized r = username) (reservations s)))"

definition ensure_username_reservable_tx :: "str \<Rightarrow> str \<Rightarrow> unit wtx" where
  "ensure_username_reservable_tx account_id username =
     bnd (username_reservation_owner_tx username) (\<lambda>reserved_by.
     ensure (case reserved_by of None \<Rightarrow> True | Some owner \<Rightarrow> owner = account_id)
       (lit ''Username has already been used''))"

text \<open>\<open>COALESCE(x, y)\<close>.\<close>

definition coalesce :: "'a option \<Rightarrow> 'a \<Rightarrow> 'a option" where
  "coalesce x y = (case x of None \<Rightarrow> Some y | Some v \<Rightarrow> Some v)"

text \<open>
  The upsert's \<open>DO UPDATE ... WHERE\<close> updates the row in conflict only when it belongs to the
  account.
\<close>

definition set_current_username_reservation_tx :: "str \<Rightarrow> str \<Rightarrow> str \<Rightarrow> unit wtx" where
  "set_current_username_reservation_tx account_id username n =
     thn (ensure_username_reservable_tx account_id username)
     (thn (modify (\<lambda>s. s\<lparr>reservations := sql_update
             (\<lambda>r. rs_account_id r = account_id \<and> rs_current r \<and> rs_normalized r \<noteq> username)
             (\<lambda>r. r\<lparr>rs_current := False, rs_last_used_at := coalesce (rs_last_used_at r) n\<rparr>)
             (reservations s)\<rparr>))
     (upsert_row ''account_username_reservations'' reservations reservations_update
        (\<lambda>r. rs_normalized r = username)
        (\<lambda>r. if rs_account_id r = account_id
              then r\<lparr>rs_username := username, rs_last_used_at := None, rs_current := True\<rparr> else r)
        (has_account account_id)
        \<lparr>rs_normalized = username, rs_username = username, rs_account_id = account_id,
         rs_first_used_at = n, rs_last_used_at = None, rs_current = True\<rparr>))"

section \<open>Channels and threads\<close>

record channel_meta =
  cm_id :: str
  cm_slug :: str
  cm_visibility :: visibility
  cm_created_by :: str

record thread_meta =
  tm_channel_id :: str
  tm_creator_id :: str
  tm_title :: str
  tm_body :: str

definition channel_meta_of :: "channel_row \<Rightarrow> channel_meta" where
  "channel_meta_of r = \<lparr>cm_id = c_id r, cm_slug = c_slug r, cm_visibility = c_visibility r,
                         cm_created_by = c_created_by r\<rparr>"

lemma channel_meta_of_simps [simp]:
  "cm_id (channel_meta_of r) = c_id r" "cm_slug (channel_meta_of r) = c_slug r"
  "cm_visibility (channel_meta_of r) = c_visibility r"
  "cm_created_by (channel_meta_of r) = c_created_by r"
  by (simp_all add: channel_meta_of_def)

definition thread_meta_of :: "thread_row \<Rightarrow> thread_meta" where
  "thread_meta_of r = \<lparr>tm_channel_id = t_channel_id r, tm_creator_id = t_creator_id r,
                        tm_title = t_title r, tm_body = t_body r\<rparr>"

lemma thread_meta_of_simps [simp]:
  "tm_channel_id (thread_meta_of r) = t_channel_id r" "tm_creator_id (thread_meta_of r) = t_creator_id r"
  "tm_title (thread_meta_of r) = t_title r" "tm_body (thread_meta_of r) = t_body r"
  by (simp_all add: thread_meta_of_def)

definition active_thread_name_exists :: "str option \<Rightarrow> str \<Rightarrow> bool wtx" where
  "active_thread_name_exists channel_id name_key =
     (if name_key = [] then ret False
      else gets (\<lambda>s. 0 < sql_count (\<lambda>t. (case channel_id of None \<Rightarrow> True | Some c \<Rightarrow> t_channel_id t = c)
             \<and> t_name_key t = Some name_key \<and> t_deleted_at t = None \<and> t_archived_at t = None)
             (threads s)))"

definition named_msg :: "str \<Rightarrow> str" where
  "named_msg n = lit ''A channel or thread named '' @ [39] @ n @ [39] @ lit '' already exists''"

definition ensure_no_channel_named :: "str \<Rightarrow> unit wtx" where
  "ensure_no_channel_named slug =
     bnd (gets (\<lambda>s. fetch_last (\<lambda>c. c_slug c = slug \<and> c_archived_at c = None) (channels s)))
       (\<lambda>existing_channel. ensure (existing_channel = None) (named_msg slug))"

definition ensure_channel_name_available :: "str \<Rightarrow> unit wtx" where
  "ensure_channel_name_available slug =
     thn (ensure_no_channel_named slug)
     (bnd (active_thread_name_exists None slug) (\<lambda>b. ensure (\<not> b) (named_msg slug)))"

definition ensure_thread_name_available :: "str \<Rightarrow> str \<Rightarrow> unit wtx" where
  "ensure_thread_name_available channel_id title_key =
     thn (ensure_no_channel_named title_key)
     (bnd (active_thread_name_exists (Some channel_id) title_key) (\<lambda>b.
      ensure (\<not> b) (lit ''A thread named '' @ [39] @ title_key @ [39]
                      @ lit '' already exists in this channel'')))"

definition slug_arg :: "env \<Rightarrow> str \<Rightarrow> str" where
  "slug_arg E slug = e_lc E (trim_start_char c_hash (trim slug))"

definition no_channel_msg :: "str \<Rightarrow> str" where
  "no_channel_msg slug = lit ''Channel #'' @ slug @ lit '' not found''"

definition load_channel_by_slug_tx :: "env \<Rightarrow> str \<Rightarrow> channel_meta wtx" where
  "load_channel_by_slug_tx E arg =
     (let slug = slug_arg E arg in
      bnd (gets (\<lambda>s. fetch_last (\<lambda>c. c_slug c = slug \<and> c_archived_at c = None) (channels s)))
        (\<lambda>row. case row of None \<Rightarrow> fail (Msg (no_channel_msg slug)) | Some r \<Rightarrow> ret (channel_meta_of r)))"

definition load_channel_by_slug_any_tx :: "env \<Rightarrow> str \<Rightarrow> channel_meta wtx" where
  "load_channel_by_slug_any_tx E arg =
     (let slug = slug_arg E arg in
      bnd (gets (\<lambda>s. fetch_last (\<lambda>c. c_slug c = slug) (channels s)))
        (\<lambda>row. case row of None \<Rightarrow> fail (Msg (no_channel_msg slug)) | Some r \<Rightarrow> ret (channel_meta_of r)))"

definition load_channel_by_id_tx :: "str \<Rightarrow> channel_meta wtx" where
  "load_channel_by_id_tx channel_id =
     bnd (gets (\<lambda>s. fetch_last (\<lambda>c. c_id c = channel_id \<and> c_archived_at c = None) (channels s)))
       (\<lambda>row. case row of None \<Rightarrow> fail (Msg (lit ''Channel not found'')) | Some r \<Rightarrow> ret (channel_meta_of r))"

definition load_thread_meta_tx :: "str \<Rightarrow> thread_meta wtx" where
  "load_thread_meta_tx thread_id =
     bnd (gets (\<lambda>s. fetch_last (\<lambda>t. t_id t = thread_id \<and> t_deleted_at t = None) (threads s)))
       (\<lambda>row. case row of None \<Rightarrow> fail (Msg (lit ''Thread not found'')) | Some r \<Rightarrow> ret (thread_meta_of r))"

definition not_activated :: str where
  "not_activated = lit ''Account is not activated''"

definition is_channel_member :: "str \<Rightarrow> str \<Rightarrow> channel_member_row \<Rightarrow> bool" where
  "is_channel_member channel_id account_id m \<longleftrightarrow>
     m_channel_id m = channel_id \<and> m_account_id m = account_id"

definition ensure_can_view_channel :: "str \<Rightarrow> str \<Rightarrow> unit wtx" where
  "ensure_can_view_channel account_id channel_id =
     bnd (load_account_tx account_id) (\<lambda>account.
     thn (ensure (ac_activated account) not_activated)
     (bnd (gets (\<lambda>s. sql_count (\<lambda>c. c_id c = channel_id \<and> c_archived_at c = None
             \<and> list_ex (is_channel_member (c_id c) account_id) (channel_members s)) (channels s)))
        (\<lambda>count. ensure (0 < count) (lit ''You do not have access to this channel''))))"

definition ensure_can_manage_channel :: "str \<Rightarrow> channel_meta \<Rightarrow> account wtx" where
  "ensure_can_manage_channel actor_id channel =
     bnd (load_account_tx actor_id) (\<lambda>actor.
     thn (ensure (ac_activated actor) not_activated)
     (if can_admin (ac_role actor) \<or> cm_created_by channel = actor_id then ret actor
      else fail (Msg (lit ''You do not manage this channel''))))"

definition ensure_can_modify_thread :: "str \<Rightarrow> thread_meta \<Rightarrow> bool \<Rightarrow> account wtx" where
  "ensure_can_modify_thread actor_id thread require_moderator =
     bnd (load_account_tx actor_id) (\<lambda>actor.
     thn (ensure (ac_activated actor) not_activated)
     (bnd (load_channel_by_id_tx (tm_channel_id thread)) (\<lambda>channel.
      if can_admin (ac_role actor) \<or> cm_created_by channel = actor_id then ret actor
      else if \<not> require_moderator \<and> tm_creator_id thread = actor_id then ret actor
      else fail (Msg (lit ''You cannot modify this thread'')))))"

section \<open>Comments and direct messages\<close>

record message_meta =
  mm_id :: str
  mm_author_id :: str
  mm_index :: int
  mm_created_at :: str

definition load_comment_meta_tx :: "str \<Rightarrow> int \<Rightarrow> message_meta wtx" where
  "load_comment_meta_tx thread_id obj_index =
     bnd (gets (\<lambda>s. fetch_last (\<lambda>c. co_thread_id c = thread_id \<and> co_index c = obj_index
            \<and> co_deleted_at c = None) (comments s)))
       (\<lambda>row. case row of
          None \<Rightarrow> fail (Msg (lit ''Comment #'' @ show_int obj_index @ lit '' not found''))
        | Some r \<Rightarrow> ret \<lparr>mm_id = co_id r, mm_author_id = co_author_id r, mm_index = obj_index,
                          mm_created_at = co_created_at r\<rparr>)"

definition is_conversation_member :: "str \<Rightarrow> str \<Rightarrow> conversation_member_row \<Rightarrow> bool" where
  "is_conversation_member conversation_id account_id m \<longleftrightarrow>
     vm_conversation_id m = conversation_id \<and> vm_account_id m = account_id"

definition ensure_participant :: "str \<Rightarrow> str \<Rightarrow> unit wtx" where
  "ensure_participant conversation_id account_id =
     bnd (gets (\<lambda>s. sql_count (is_conversation_member conversation_id account_id)
                       (conversation_members s))) (\<lambda>is_member.
     ensure (0 < is_member) (lit ''Not a participant in this conversation''))"

definition load_dm_message_meta_tx :: "str \<Rightarrow> str \<Rightarrow> int \<Rightarrow> message_meta wtx" where
  "load_dm_message_meta_tx actor_id conversation_id obj_index =
     thn (ensure_participant conversation_id actor_id)
     (bnd (gets (\<lambda>s. fetch_last (\<lambda>c. d_conversation_id c = conversation_id \<and> d_index c = obj_index
             \<and> d_deleted_at c = None) (messages s)))
       (\<lambda>row. case row of
          None \<Rightarrow> fail (Msg (lit ''DM message #'' @ show_int obj_index @ lit '' not found''))
        | Some r \<Rightarrow> ret \<lparr>mm_id = d_id r, mm_author_id = d_author_id r, mm_index = obj_index,
                          mm_created_at = d_created_at r\<rparr>))"

section \<open>Guards only read\<close>

lemma same_load_account_tx [same_intros]: "same g (load_account_tx i)"
  by (simp add: load_account_tx_def same_intros)

lemma same_load_account_by_username_tx [same_intros]: "same g (load_account_by_username_tx u)"
  by (simp add: load_account_by_username_tx_def same_intros)

lemma same_require_admin_tx [same_intros]: "same g (require_admin_tx i)"
  by (simp add: require_admin_tx_def same_intros)

lemma same_ensure_can_manage_account [same_intros]: "same g (ensure_can_manage_account x y)"
  by (simp add: ensure_can_manage_account_def same_intros)

lemma same_ensure_not_last_active_owner [same_intros]: "same g (ensure_not_last_active_owner i)"
  by (simp add: ensure_not_last_active_owner_def same_intros)

lemma same_ensure_owner_keeps_active_key [same_intros]: "same g (ensure_owner_keeps_active_key i)"
  by (simp add: ensure_owner_keeps_active_key_def same_intros)

lemma same_username_reservation_owner_tx [same_intros]: "same g (username_reservation_owner_tx u)"
  by (simp add: username_reservation_owner_tx_def same_intros)

lemma same_ensure_username_reservable_tx [same_intros]: "same g (ensure_username_reservable_tx i u)"
  by (simp add: ensure_username_reservable_tx_def same_intros)

lemma same_active_thread_name_exists [same_intros]: "same g (active_thread_name_exists c n)"
  by (simp add: active_thread_name_exists_def same_intros)

lemma same_ensure_no_channel_named [same_intros]: "same g (ensure_no_channel_named u)"
  by (simp add: ensure_no_channel_named_def same_intros)

lemma same_ensure_channel_name_available [same_intros]: "same g (ensure_channel_name_available u)"
  by (simp add: ensure_channel_name_available_def same_intros)

lemma same_ensure_thread_name_available [same_intros]: "same g (ensure_thread_name_available c u)"
  by (simp add: ensure_thread_name_available_def same_intros)

lemma same_load_channel_by_slug_tx [same_intros]: "same g (load_channel_by_slug_tx E u)"
  by (simp add: load_channel_by_slug_tx_def same_intros)

lemma same_load_channel_by_slug_any_tx [same_intros]: "same g (load_channel_by_slug_any_tx E u)"
  by (simp add: load_channel_by_slug_any_tx_def same_intros)

lemma same_load_channel_by_id_tx [same_intros]: "same g (load_channel_by_id_tx i)"
  by (simp add: load_channel_by_id_tx_def same_intros)

lemma same_load_thread_meta_tx [same_intros]: "same g (load_thread_meta_tx i)"
  by (simp add: load_thread_meta_tx_def same_intros)

lemma same_ensure_can_view_channel [same_intros]: "same g (ensure_can_view_channel i c)"
  by (simp add: ensure_can_view_channel_def same_intros)

lemma same_ensure_can_manage_channel [same_intros]: "same g (ensure_can_manage_channel i c)"
  by (simp add: ensure_can_manage_channel_def same_intros)

lemma same_ensure_can_modify_thread [same_intros]: "same g (ensure_can_modify_thread i th b)"
  by (simp add: ensure_can_modify_thread_def same_intros)

lemma same_load_comment_meta_tx [same_intros]: "same g (load_comment_meta_tx i k)"
  by (simp add: load_comment_meta_tx_def same_intros)

lemma same_ensure_participant [same_intros]: "same g (ensure_participant c i)"
  by (simp add: ensure_participant_def same_intros)

lemma same_load_dm_message_meta_tx [same_intros]: "same g (load_dm_message_meta_tx i c k)"
  by (simp add: load_dm_message_meta_tx_def same_intros)

lemma same_set_current_username_reservation_tx [same_intros]:
  "(\<And>s rows. g (s\<lparr>reservations := rows\<rparr>) = g s) \<Longrightarrow>
     same g (set_current_username_reservation_tx i u n)"
  by (auto simp: set_current_username_reservation_tx_def intro!: same_intros)

section \<open>What a passed guard says\<close>

text \<open>
  An account that \<open>load_account_tx\<close> returns is a row that is not disabled, and so on: the
  facts that a command may rely on after its guards.
\<close>

lemma wp_load_account_tx [wp_simps]:
  "wp (load_account_tx i) Q s =
     (\<forall>r. fetch_last (\<lambda>r. a_id r = i \<and> a_disabled_at r = None) (accounts s) = Some r
        \<longrightarrow> Q (account_from_row r) s)"
  by (simp add: load_account_tx_def wp_simps)

lemma wp_load_account_by_username_tx [wp_simps]:
  "wp (load_account_by_username_tx u) Q s =
     (\<forall>r. fetch_last (same_username (trim_start_char c_at (trim u))) (accounts s) = Some r
        \<longrightarrow> Q (account_from_row r) s)"
  by (simp add: load_account_by_username_tx_def wp_simps)

lemma wp_require_admin_tx [wp_simps]:
  "wp (require_admin_tx i) Q s =
     (\<forall>r. fetch_last (\<lambda>r. a_id r = i \<and> a_disabled_at r = None) (accounts s) = Some r
        \<longrightarrow> a_activated_at r \<noteq> None \<and> can_admin (a_role r) \<longrightarrow> Q (account_from_row r) s)"
  by (simp add: require_admin_tx_def wp_simps)

lemma wp_ensure_can_manage_account [wp_simps]:
  "wp (ensure_can_manage_account x y) Q s =
     (can_admin (ac_role x) \<and> (ac_role y = Owner \<longrightarrow> ac_role x = Owner) \<longrightarrow> Q () s)"
  by (auto simp: ensure_can_manage_account_def wp_simps)

lemma wp_ensure_not_last_active_owner [wp_simps]:
  "wp (ensure_not_last_active_owner i) Q s =
     ((\<exists>r\<in>set (accounts s). a_id r \<noteq> i \<and> active_owner r) \<longrightarrow> Q () s)"
  by (simp add: ensure_not_last_active_owner_def wp_simps sql_count_pos)

lemma wp_ensure_username_reservable_tx [wp_simps]:
  "wp (ensure_username_reservable_tx i u) Q s =
     ((\<forall>r. fetch_last (\<lambda>r. rs_normalized r = u) (reservations s) = Some r \<longrightarrow> rs_account_id r = i)
        \<longrightarrow> Q () s)"
  by (auto simp: ensure_username_reservable_tx_def username_reservation_owner_tx_def wp_simps
      split: option.splits dest: fetch_last_SomeD)

lemma wp_load_channel_by_slug_tx [wp_simps]:
  "wp (load_channel_by_slug_tx E u) Q s =
     (\<forall>r. fetch_last (\<lambda>c. c_slug c = slug_arg E u \<and> c_archived_at c = None) (channels s) = Some r
        \<longrightarrow> Q (channel_meta_of r) s)"
  by (simp add: load_channel_by_slug_tx_def wp_simps Let_def)

lemma wp_load_channel_by_slug_any_tx [wp_simps]:
  "wp (load_channel_by_slug_any_tx E u) Q s =
     (\<forall>r. fetch_last (\<lambda>c. c_slug c = slug_arg E u) (channels s) = Some r
        \<longrightarrow> Q (channel_meta_of r) s)"
  by (simp add: load_channel_by_slug_any_tx_def wp_simps Let_def)

lemma wp_load_channel_by_id_tx [wp_simps]:
  "wp (load_channel_by_id_tx i) Q s =
     (\<forall>r. fetch_last (\<lambda>c. c_id c = i \<and> c_archived_at c = None) (channels s) = Some r
        \<longrightarrow> Q (channel_meta_of r) s)"
  by (simp add: load_channel_by_id_tx_def wp_simps)

lemma wp_load_thread_meta_tx [wp_simps]:
  "wp (load_thread_meta_tx i) Q s =
     (\<forall>r. fetch_last (\<lambda>t. t_id t = i \<and> t_deleted_at t = None) (threads s) = Some r
        \<longrightarrow> Q (thread_meta_of r) s)"
  by (simp add: load_thread_meta_tx_def wp_simps)

text \<open>The weaker rules, for proofs that need the meaning of a guard and not its row.\<close>

definition can_view :: "str \<Rightarrow> str \<Rightarrow> world \<Rightarrow> bool" where
  "can_view account_id channel_id s \<longleftrightarrow>
     list_ex (\<lambda>r. a_id r = account_id \<and> a_activated_at r \<noteq> None \<and> a_disabled_at r = None) (accounts s)
     \<and> list_ex (\<lambda>c. c_id c = channel_id \<and> c_archived_at c = None) (channels s)
     \<and> list_ex (is_channel_member channel_id account_id) (channel_members s)"

lemma wp_ensure_can_view_channel:
  assumes "can_view i c s \<Longrightarrow> Q () s"
  shows "wp (ensure_can_view_channel i c) Q s"
  using assms
  by (auto simp: ensure_can_view_channel_def wp_simps sql_count_pos can_view_def list_ex_iff
      dest!: fetch_last_SomeD)

lemma wp_load_comment_meta_tx [wp_simps]:
  "wp (load_comment_meta_tx i k) Q s =
     (\<forall>r. fetch_last (\<lambda>c. co_thread_id c = i \<and> co_index c = k \<and> co_deleted_at c = None) (comments s)
            = Some r
        \<longrightarrow> Q \<lparr>mm_id = co_id r, mm_author_id = co_author_id r, mm_index = k,
               mm_created_at = co_created_at r\<rparr> s)"
  by (simp add: load_comment_meta_tx_def wp_simps)

lemma wp_ensure_participant [wp_simps]:
  "wp (ensure_participant c i) Q s =
     ((\<exists>m\<in>set (conversation_members s). is_conversation_member c i m) \<longrightarrow> Q () s)"
  by (simp add: ensure_participant_def wp_simps sql_count_pos)

lemma wp_load_dm_message_meta_tx [wp_simps]:
  "wp (load_dm_message_meta_tx i c k) Q s =
     ((\<exists>m\<in>set (conversation_members s). is_conversation_member c i m) \<longrightarrow>
      (\<forall>r. fetch_last (\<lambda>d. d_conversation_id d = c \<and> d_index d = k \<and> d_deleted_at d = None) (messages s)
            = Some r
        \<longrightarrow> Q \<lparr>mm_id = d_id r, mm_author_id = d_author_id r, mm_index = k,
               mm_created_at = d_created_at r\<rparr> s))"
  by (simp add: load_dm_message_meta_tx_def wp_simps)

end
