(* ===== verification/Projections.thy ===== *)
theory Projections
  imports Access
begin

text \<open>
  The derived tables that every message write maintains (\<open>features/events/db.rs\<close>): the
  search index, the labels, the mentions, the notifications and the reactions.

  The lemmas show that the search documents and the full-text index stay in step and hold
  one entry per object, that the labels of a source are those of its text, and that a
  notification or a mention is only written for an active account, other than the actor,
  that can see its source: the read-side filter \<open>visible_source\<close> is the write-side test.
\<close>

section \<open>Reactions\<close>

definition lift_res :: "err + 'a \<Rightarrow> 'a wtx" where
  "lift_res r = (case r of Inl e \<Rightarrow> fail e | Inr a \<Rightarrow> ret a)"

lemma wp_lift_res [wp_simps]: "wp (lift_res r) Q s = (\<forall>a. r = Inr a \<longrightarrow> Q a s)"
  by (cases r) (simp_all add: lift_res_def wp_simps)

lemma same_lift_res [same_intros]: "same g (lift_res r)"
  by (cases r) (simp_all add: lift_res_def same_intros)

definition set_reaction_tx :: "env \<Rightarrow> str \<Rightarrow> source_kind \<Rightarrow> str \<Rightarrow> str \<Rightarrow> bool \<Rightarrow> unit wtx" where
  "set_reaction_tx E account_id kind source_id emoji_arg remove =
     (let emoji = trim emoji_arg in
      thn (lift_res (validate_emoji emoji))
      (if remove
       then modify (\<lambda>s. s\<lparr>reactions := sql_delete (\<lambda>x. x_source_kind x = kind \<and> x_source_id x = source_id
              \<and> x_account_id x = account_id \<and> x_emoji x = emoji) (reactions s)\<rparr>)
       else bnd (fresh_id E) (\<lambda>i. bnd (now E) (\<lambda>n.
              upsert_reaction \<lparr>x_id = i, x_source_kind = kind, x_source_id = source_id,
                x_account_id = account_id, x_emoji = emoji, x_created_at = n\<rparr>))))"

section \<open>Search index\<close>

record search_input =
  q_kind :: source_kind
  q_object_id :: str
  q_channel_id :: "str option"
  q_thread_id :: "str option"
  q_conversation_id :: "str option"
  q_title :: str
  q_body :: str
  q_context :: str

text \<open>The rowid SQLite gives to the next row of a table with an INTEGER PRIMARY KEY.\<close>

definition next_rowid :: "search_document_row list \<Rightarrow> int" where
  "next_rowid rows = fold max (map sd_rowid rows) 0 + 1"

definition doc_of :: "source_kind \<Rightarrow> str \<Rightarrow> search_document_row \<Rightarrow> bool" where
  "doc_of kind object_id d \<longleftrightarrow> sd_kind d = kind \<and> sd_object_id d = object_id"

definition entry_of :: "source_kind \<Rightarrow> str \<Rightarrow> search_index_row \<Rightarrow> bool" where
  "entry_of kind object_id e \<longleftrightarrow> si_kind e = kind \<and> si_object_id e = object_id"

definition find_rowid :: "source_kind \<Rightarrow> str \<Rightarrow> int option wtx" where
  "find_rowid kind object_id =
     gets (\<lambda>s. map_option sd_rowid (fetch_last (doc_of kind object_id) (search_documents s)))"

definition search_entry :: "search_input \<Rightarrow> int \<Rightarrow> search_index_row" where
  "search_entry input rowid =
     \<lparr>si_rowid = rowid, si_kind = q_kind input, si_object_id = q_object_id input,
      si_channel_id = q_channel_id input, si_thread_id = q_thread_id input,
      si_conversation_id = q_conversation_id input,
      si_title = sanitize_single_line_text (q_title input),
      si_body = sanitize_stored_text (q_body input),
      si_context = sanitize_single_line_text (q_context input)\<rparr>"

definition search_document :: "search_input \<Rightarrow> int \<Rightarrow> search_document_row" where
  "search_document input rowid =
     \<lparr>sd_rowid = rowid, sd_kind = q_kind input, sd_object_id = q_object_id input,
      sd_channel_id = q_channel_id input, sd_thread_id = q_thread_id input,
      sd_conversation_id = q_conversation_id input\<rparr>"

definition delete_entry :: "int \<Rightarrow> unit wtx" where
  "delete_entry rowid =
     modify (\<lambda>s. s\<lparr>search_index := sql_delete (\<lambda>e. si_rowid e = rowid) (search_index s)\<rparr>)"

definition upsert_search_index_tx :: "search_input \<Rightarrow> unit wtx" where
  "upsert_search_index_tx input =
     bnd (find_rowid (q_kind input) (q_object_id input)) (\<lambda>found.
     bnd (case found of
            None \<Rightarrow> bnd (gets (\<lambda>s. next_rowid (search_documents s))) (\<lambda>rowid.
                    thn (insert_search_document (search_document input rowid)) (ret rowid))
          | Some rowid \<Rightarrow>
              thn (constraint ''search_documents'' (source_fks (q_channel_id input)
                     (q_thread_id input) (q_conversation_id input)))
              (thn (modify (\<lambda>s. s\<lparr>search_documents := sql_update (\<lambda>d. sd_rowid d = rowid)
                     (\<lambda>d. d\<lparr>sd_channel_id := q_channel_id input, sd_thread_id := q_thread_id input,
                           sd_conversation_id := q_conversation_id input\<rparr>) (search_documents s)\<rparr>))
              (thn (delete_entry rowid) (ret rowid))))
     (\<lambda>rowid. insert_search_index (search_entry input rowid)))"

definition delete_search_index_tx :: "source_kind \<Rightarrow> str \<Rightarrow> unit wtx" where
  "delete_search_index_tx kind object_id =
     bnd (find_rowid kind object_id) (\<lambda>found.
     case found of
       None \<Rightarrow> modify (\<lambda>s. s\<lparr>search_index := sql_delete (entry_of kind object_id) (search_index s)\<rparr>)
     | Some rowid \<Rightarrow>
         thn (delete_entry rowid)
         (modify (\<lambda>s. s\<lparr>search_documents :=
            sql_delete (\<lambda>d. sd_rowid d = rowid) (search_documents s)\<rparr>)))"

section \<open>Labels\<close>

record label_input =
  li_kind :: source_kind
  li_source_id :: str
  li_channel_id :: "str option"
  li_thread_id :: "str option"
  li_conversation_id :: "str option"
  li_index :: "int option"
  li_text :: str
  li_created_at :: str

definition label_of :: "source_kind \<Rightarrow> str \<Rightarrow> label_row \<Rightarrow> bool" where
  "label_of kind source_id l \<longleftrightarrow> lb_source_kind l = kind \<and> lb_source_id l = source_id"

definition label_entry :: "label_input \<Rightarrow> str \<Rightarrow> label_row" where
  "label_entry input tag =
     \<lparr>lb_tag = tag, lb_source_kind = li_kind input, lb_source_id = li_source_id input,
      lb_channel_id = li_channel_id input, lb_thread_id = li_thread_id input,
      lb_conversation_id = li_conversation_id input, lb_index = li_index input,
      lb_created_at = li_created_at input\<rparr>"

definition delete_labels_tx :: "source_kind \<Rightarrow> str \<Rightarrow> unit wtx" where
  "delete_labels_tx kind source_id =
     modify (\<lambda>s. s\<lparr>labels := sql_delete (label_of kind source_id) (labels s)\<rparr>)"

definition replace_labels_tx :: "label_input \<Rightarrow> unit wtx" where
  "replace_labels_tx input =
     thn (delete_labels_tx (li_kind input) (li_source_id input))
     (each (\<lambda>tag. insert_label (label_entry input tag)) (parse_labels (li_text input)))"

definition delete_thread_labels_tx :: "str \<Rightarrow> unit wtx" where
  "delete_thread_labels_tx thread_id =
     modify (\<lambda>s. s\<lparr>labels := sql_delete (\<lambda>l. lb_thread_id l = Some thread_id) (labels s)\<rparr>)"

section \<open>Who may see a source\<close>

definition is_active_account :: "str \<Rightarrow> account_row \<Rightarrow> bool" where
  "is_active_account account_id r \<longleftrightarrow>
     a_id r = account_id \<and> a_activated_at r \<noteq> None \<and> a_disabled_at r = None"

definition account_can_view_source_tx :: "str \<Rightarrow> str option \<Rightarrow> str option \<Rightarrow> bool wtx" where
  "account_can_view_source_tx account_id channel_id conversation_id =
     bnd (gets (\<lambda>s. sql_count (is_active_account account_id) (accounts s))) (\<lambda>active.
     if active = 0 then ret False else
     bnd (case channel_id of None \<Rightarrow> ret True
          | Some c \<Rightarrow> gets (\<lambda>s. sql_count (is_channel_member c account_id) (channel_members s) \<noteq> 0))
       (\<lambda>member. if \<not> member then ret False else
     bnd (case conversation_id of None \<Rightarrow> ret True
          | Some c \<Rightarrow> gets (\<lambda>s. sql_count (is_conversation_member c account_id)
                              (conversation_members s) \<noteq> 0))
       (\<lambda>member. ret member)))"

text \<open>\<open>visible_source_sql\<close>: the filter that the list queries put on stored rows.\<close>

definition visible_source :: "str \<Rightarrow> str option \<Rightarrow> str option \<Rightarrow> world \<Rightarrow> bool" where
  "visible_source account_id channel_id conversation_id s \<longleftrightarrow>
     list_ex (is_active_account account_id) (accounts s)
     \<and> (case channel_id of None \<Rightarrow> True
        | Some c \<Rightarrow> list_ex (is_channel_member c account_id) (channel_members s))
     \<and> (case conversation_id of None \<Rightarrow> True
        | Some c \<Rightarrow> list_ex (is_conversation_member c account_id) (conversation_members s))"

section \<open>Notifications and mentions\<close>

record notification_input =
  ni_kind :: notification_kind
  ni_source_kind :: source_kind
  ni_source_id :: str
  ni_channel_id :: "str option"
  ni_thread_id :: "str option"
  ni_conversation_id :: "str option"
  ni_title :: str
  ni_body :: str

text \<open>\<open>muted_until IS NOT NULL AND muted_until > ?\<close>.\<close>

definition muted_at :: "str option \<Rightarrow> str \<Rightarrow> bool" where
  "muted_at until n \<longleftrightarrow> (case until of None \<Rightarrow> False | Some u \<Rightarrow> n < u)"

definition thread_muted :: "env \<Rightarrow> str \<Rightarrow> str option \<Rightarrow> bool wtx" where
  "thread_muted E account_id thread_id =
     (case thread_id of None \<Rightarrow> ret False
      | Some t \<Rightarrow> bnd (now E) (\<lambda>n. gets (\<lambda>s. 0 < sql_count (\<lambda>r. r_thread_id r = t
            \<and> r_account_id r = account_id \<and> muted_at (r_muted_until r) n) (thread_reads s))))"

definition conversation_muted :: "env \<Rightarrow> str \<Rightarrow> str option \<Rightarrow> bool wtx" where
  "conversation_muted E account_id conversation_id =
     (case conversation_id of None \<Rightarrow> ret False
      | Some c \<Rightarrow> bnd (now E) (\<lambda>n. gets (\<lambda>s. 0 < sql_count (\<lambda>m.
            is_conversation_member c account_id m \<and> muted_at (vm_muted_until m) n)
            (conversation_members s))))"

definition create_notification_tx ::
    "env \<Rightarrow> str \<Rightarrow> str option \<Rightarrow> notification_input \<Rightarrow> str wtx" where
  "create_notification_tx E account_id actor_id input =
     (if actor_id = Some account_id then ret [] else
      bnd (account_can_view_source_tx account_id (ni_channel_id input) (ni_conversation_id input)) (\<lambda>ok.
      if \<not> ok then ret [] else
      bnd (thread_muted E account_id (ni_thread_id input)) (\<lambda>muted. if muted then ret [] else
      bnd (conversation_muted E account_id (ni_conversation_id input)) (\<lambda>muted. if muted then ret [] else
      bnd (fresh_id E) (\<lambda>i. bnd (now E) (\<lambda>created_at.
      thn (insert_notification
             \<lparr>n_id = i, n_account_id = account_id, n_actor_id = actor_id, n_kind = ni_kind input,
              n_source_kind = Some (ni_source_kind input), n_source_id = Some (ni_source_id input),
              n_channel_id = ni_channel_id input, n_thread_id = ni_thread_id input,
              n_conversation_id = ni_conversation_id input,
              n_title = sanitize_single_line_text (ni_title input),
              n_body = sanitize_stored_text (ni_body input), n_created_at = created_at,
              n_read_at = None, n_archived_at = None\<rparr>)
      (ret i)))))))"

record mention_input =
  mi_source_kind :: source_kind
  mi_source_id :: str
  mi_channel_id :: "str option"
  mi_thread_id :: "str option"
  mi_conversation_id :: "str option"
  mi_index :: "int option"
  mi_title :: str
  mi_body :: str

definition mention_notification :: "mention_input \<Rightarrow> notification_input" where
  "mention_notification input =
     \<lparr>ni_kind = NMention, ni_source_kind = mi_source_kind input, ni_source_id = mi_source_id input,
      ni_channel_id = mi_channel_id input, ni_thread_id = mi_thread_id input,
      ni_conversation_id = mi_conversation_id input, ni_title = mi_title input,
      ni_body = mi_body input\<rparr>"

definition active_named :: "str \<Rightarrow> account_row \<Rightarrow> bool" where
  "active_named username r \<longleftrightarrow>
     same_username username r \<and> a_activated_at r \<noteq> None \<and> a_disabled_at r = None"

text \<open>
  One turn of the loop over the mentioned usernames; \<open>targets\<close> is the hash set, a list
  without duplicates here.
\<close>

definition mention_step ::
    "env \<Rightarrow> str \<Rightarrow> mention_input \<Rightarrow> str \<Rightarrow> str list \<Rightarrow> str list wtx" where
  "mention_step E actor_id input username targets =
     bnd (gets (\<lambda>s. fetch_last (active_named username) (accounts s))) (\<lambda>row.
     case row of None \<Rightarrow> ret targets
     | Some r \<Rightarrow>
         if a_id r = actor_id \<or> a_id r \<in> set targets then ret targets else
         bnd (account_can_view_source_tx (a_id r) (mi_channel_id input) (mi_conversation_id input)) (\<lambda>ok.
         if \<not> ok then ret targets else
         bnd (fresh_id E) (\<lambda>i. bnd (now E) (\<lambda>n.
         thn (insert_mention
                \<lparr>mn_id = i, mn_target_id = a_id r, mn_actor_id = actor_id,
                 mn_source_kind = mi_source_kind input, mn_source_id = mi_source_id input,
                 mn_channel_id = mi_channel_id input, mn_thread_id = mi_thread_id input,
                 mn_conversation_id = mi_conversation_id input, mn_index = mi_index input,
                 mn_created_at = n, mn_read_at = None\<rparr>)
         (bnd (create_notification_tx E (a_id r) (Some actor_id) (mention_notification input)) (\<lambda>_.
          ret (targets @ [a_id r])))))))"

definition create_mention_notifications_tx :: "env \<Rightarrow> str \<Rightarrow> mention_input \<Rightarrow> str list wtx" where
  "create_mention_notifications_tx E actor_id input =
     fold_tx (mention_step E actor_id input) (parse_mentions (e_lc E) (mi_body input)) []"

definition index_prefix :: "int \<Rightarrow> str \<Rightarrow> str" where
  "index_prefix obj_index body = lit ''#'' @ show_int obj_index @ lit '': '' @ body"

record reply_input =
  ri_thread_id :: str
  ri_channel_id :: str
  ri_comment_id :: str
  ri_index :: int
  ri_title :: str
  ri_body :: str

text \<open>The rows of a \<open>UNION\<close> come without duplicates, in sorted order.\<close>

definition thread_participants :: "str \<Rightarrow> str \<Rightarrow> world \<Rightarrow> str list" where
  "thread_participants thread_id channel_id s =
     filter (\<lambda>a. list_ex (is_channel_member channel_id a) (channel_members s))
       (sort (remdups (map t_creator_id (filter (\<lambda>t. t_id t = thread_id) (threads s))
          @ map co_author_id (filter (\<lambda>c. co_thread_id c = thread_id \<and> co_deleted_at c = None)
              (comments s)))))"

definition reply_notification :: "reply_input \<Rightarrow> notification_input" where
  "reply_notification input =
     \<lparr>ni_kind = NReply, ni_source_kind = SComment, ni_source_id = ri_comment_id input,
      ni_channel_id = Some (ri_channel_id input), ni_thread_id = Some (ri_thread_id input),
      ni_conversation_id = None, ni_title = ri_title input,
      ni_body = index_prefix (ri_index input) (ri_body input)\<rparr>"

definition notify_others :: "env \<Rightarrow> str \<Rightarrow> notification_input \<Rightarrow> str list \<Rightarrow> unit wtx" where
  "notify_others E actor_id input account_ids =
     each (\<lambda>account_id. if account_id = actor_id then ret ()
        else bnd (create_notification_tx E account_id (Some actor_id) input) (\<lambda>_. ret ())) account_ids"

definition create_thread_reply_notifications_tx :: "env \<Rightarrow> str \<Rightarrow> reply_input \<Rightarrow> unit wtx" where
  "create_thread_reply_notifications_tx E actor_id input =
     bnd (gets (thread_participants (ri_thread_id input) (ri_channel_id input))) (\<lambda>participants.
     notify_others E actor_id (reply_notification input) participants)"

definition active_conversation_members :: "str \<Rightarrow> world \<Rightarrow> str list" where
  "active_conversation_members conversation_id s =
     concat (map (\<lambda>m. map (\<lambda>_. vm_account_id m)
        (filter (is_active_account (vm_account_id m)) (accounts s)))
       (filter (\<lambda>m. vm_conversation_id m = conversation_id) (conversation_members s)))"

definition dm_notification :: "str \<Rightarrow> str \<Rightarrow> int \<Rightarrow> str \<Rightarrow> notification_input" where
  "dm_notification conversation_id message_id obj_index body =
     \<lparr>ni_kind = NDm, ni_source_kind = SDm, ni_source_id = message_id, ni_channel_id = None,
      ni_thread_id = None, ni_conversation_id = Some conversation_id, ni_title = lit ''New DM'',
      ni_body = index_prefix obj_index body\<rparr>"

definition create_dm_notifications_tx ::
    "env \<Rightarrow> str \<Rightarrow> str \<Rightarrow> str \<Rightarrow> int \<Rightarrow> str \<Rightarrow> unit wtx" where
  "create_dm_notifications_tx E actor_id conversation_id message_id obj_index body =
     bnd (gets (active_conversation_members conversation_id)) (\<lambda>members.
     notify_others E actor_id (dm_notification conversation_id message_id obj_index body) members)"


section \<open>The search index stays in step\<close>

definition doc_key :: "search_document_row \<Rightarrow> int \<times> source_kind \<times> str \<times> str option \<times> str option \<times> str option" where
  "doc_key d = (sd_rowid d, sd_kind d, sd_object_id d, sd_channel_id d, sd_thread_id d,
                sd_conversation_id d)"

definition entry_key :: "search_index_row \<Rightarrow> int \<times> source_kind \<times> str \<times> str option \<times> str option \<times> str option" where
  "entry_key e = (si_rowid e, si_kind e, si_object_id e, si_channel_id e, si_thread_id e,
                  si_conversation_id e)"

text \<open>
  One document per object and per rowid, one index entry per rowid, and the same rowids,
  objects and places in both tables.
\<close>

definition search_sync :: "search_document_row list \<Rightarrow> search_index_row list \<Rightarrow> bool" where
  "search_sync docs idx \<longleftrightarrow> distinct (map sd_rowid docs)
     \<and> distinct (map (\<lambda>d. (sd_kind d, sd_object_id d)) docs) \<and> distinct (map si_rowid idx)
     \<and> set (map doc_key docs) = set (map entry_key idx)"

lemma next_rowid_fresh: "d \<in> set rows \<Longrightarrow> sd_rowid d < next_rowid rows"
proof -
  assume "d \<in> set rows"
  then have "sd_rowid d \<le> Max (set (0 # map sd_rowid rows))"
    by (intro Max_ge) simp_all
  then show ?thesis
    by (simp only: next_rowid_def Max.set_eq_fold)
qed

lemma search_sync_entry_doc:
  assumes "search_sync docs idx" "e \<in> set idx"
  obtains d where "d \<in> set docs" "doc_key d = entry_key e"
  using assms unfolding search_sync_def by (metis (mono_tags, lifting) image_iff list.set_map)

lemma search_sync_doc_entry:
  assumes "search_sync docs idx" "d \<in> set docs"
  obtains e where "e \<in> set idx" "doc_key d = entry_key e"
  using assms unfolding search_sync_def by (metis (mono_tags, lifting) image_iff list.set_map)

lemma image_filter_key:
  "(\<And>x. k (f x) = g x) \<Longrightarrow> f ` {x \<in> A. g x \<noteq> r} = {y \<in> f ` A. k y \<noteq> r}"
  by auto

lemma key_image:
  "doc_key ` {d \<in> D. sd_rowid d \<noteq> r} = {k \<in> doc_key ` D. fst k \<noteq> r}"
  "entry_key ` {e \<in> I. si_rowid e \<noteq> r} = {k \<in> entry_key ` I. fst k \<noteq> r}"
  by (rule image_filter_key, simp add: doc_key_def entry_key_def)+

lemma search_sync_delete:
  assumes "search_sync docs idx"
  shows "search_sync (sql_delete (\<lambda>d. sd_rowid d = r) docs) (sql_delete (\<lambda>e. si_rowid e = r) idx)"
  using assms by (simp add: search_sync_def distinct_sql_delete key_image)

lemma search_sync_insert:
  assumes "search_sync docs idx" "doc_key d = entry_key e"
    "\<And>q. q \<in> set docs \<Longrightarrow> sd_rowid q \<noteq> sd_rowid d \<and> \<not> (sd_kind q = sd_kind d \<and> sd_object_id q = sd_object_id d)"
    "\<And>q. q \<in> set idx \<Longrightarrow> si_rowid q \<noteq> si_rowid e"
  shows "search_sync (docs @ [d]) (idx @ [e])"
  using assms by (fastforce simp: search_sync_def)

lemma search_sync_touch:
  assumes s: "search_sync docs idx" and d: "d \<in> set docs" "doc_of (q_kind q) (q_object_id q) d"
  shows "search_sync
     (sql_update (\<lambda>x. sd_rowid x = sd_rowid d)
        (\<lambda>x. x\<lparr>sd_channel_id := q_channel_id q, sd_thread_id := q_thread_id q,
               sd_conversation_id := q_conversation_id q\<rparr>) docs)
     (sql_delete (\<lambda>e. si_rowid e = sd_rowid d) idx @ [search_entry q (sd_rowid d)])"
proof -
  let ?f = "\<lambda>x. x\<lparr>sd_channel_id := q_channel_id q, sd_thread_id := q_thread_id q,
               sd_conversation_id := q_conversation_id q\<rparr>"
  let ?docs = "sql_update (\<lambda>x. sd_rowid x = sd_rowid d) ?f docs"
  have only: "sd_rowid x = sd_rowid d \<longleftrightarrow> x = d" if "x \<in> set docs" for x
    using that d s by (auto simp: search_sync_def dest: distinct_map_inj)
  have key: "doc_key (?f d) = entry_key (search_entry q (sd_rowid d))"
    using d by (simp add: doc_key_def entry_key_def search_entry_def doc_of_def)
  have "set ?docs = (\<lambda>x. if x = d then ?f x else x) ` set docs"
    using only unfolding set_sql_update by (intro image_cong) simp_all
  also have "\<dots> = insert (?f d) (set docs - {d})"
    using d(1) by auto
  also have "set docs - {d} = {x \<in> set docs. sd_rowid x \<noteq> sd_rowid d}"
    using only by blast
  finally have upd: "set ?docs = insert (?f d) {x \<in> set docs. sd_rowid x \<noteq> sd_rowid d}" .
  have "set (map doc_key ?docs)
      = set (map entry_key (sql_delete (\<lambda>e. si_rowid e = sd_rowid d) idx @ [search_entry q (sd_rowid d)]))"
    using s key by (simp add: upd search_sync_def key_image)
  moreover have "distinct (map sd_rowid ?docs)" "distinct (map (\<lambda>d. (sd_kind d, sd_object_id d)) ?docs)"
    using s by (simp_all add: search_sync_def map_sql_update)
  moreover have "distinct (map si_rowid (sql_delete (\<lambda>e. si_rowid e = sd_rowid d) idx @ [search_entry q (sd_rowid d)]))"
    using s by (auto simp: search_sync_def search_entry_def intro: distinct_sql_delete)
  ultimately show ?thesis
    by (simp add: search_sync_def)
qed

definition search_ok :: "world \<Rightarrow> bool" where
  "search_ok s \<longleftrightarrow> search_sync (search_documents s) (search_index s)"

text \<open>Where a write leaves the two tables.\<close>

lemma wp_upsert_search_index_tx:
  assumes s: "search_ok s"
    and new: "\<And>r. (\<forall>d\<in>set (search_documents s). \<not> doc_of (q_kind q) (q_object_id q) d) \<Longrightarrow>
       (\<forall>d\<in>set (search_documents s). sd_rowid d \<noteq> r) \<Longrightarrow> (\<forall>e\<in>set (search_index s). si_rowid e \<noteq> r) \<Longrightarrow>
       Q () (s\<lparr>search_documents := search_documents s @ [search_document q r],
               search_index := search_index s @ [search_entry q r]\<rparr>)"
    and old: "\<And>d. d \<in> set (search_documents s) \<Longrightarrow> doc_of (q_kind q) (q_object_id q) d \<Longrightarrow>
       Q () (s\<lparr>search_documents := sql_update (\<lambda>x. sd_rowid x = sd_rowid d)
                (\<lambda>x. x\<lparr>sd_channel_id := q_channel_id q, sd_thread_id := q_thread_id q,
                       sd_conversation_id := q_conversation_id q\<rparr>) (search_documents s),
              search_index := sql_delete (\<lambda>e. si_rowid e = sd_rowid d) (search_index s)
                @ [search_entry q (sd_rowid d)]\<rparr>)"
  shows "wp (upsert_search_index_tx q) Q s"
proof -
  have fresh: "\<forall>d\<in>set (search_documents s). sd_rowid d \<noteq> next_rowid (search_documents s)"
    using next_rowid_fresh by fastforce
  then have "\<forall>e\<in>set (search_index s). si_rowid e \<noteq> next_rowid (search_documents s)"
    using s unfolding search_ok_def
    by (metis doc_key_def entry_key_def prod.inject search_sync_entry_doc)
  with fresh show ?thesis
    using new [of "next_rowid (search_documents s)"] old
    by (cases "fetch_last (doc_of (q_kind q) (q_object_id q)) (search_documents s)")
      (auto simp: upsert_search_index_tx_def find_rowid_def delete_entry_def
        insert_search_document_def insert_search_index_def wp_simps fetch_last_None
        dest: fetch_last_SomeD)
qed

lemma upsert_search_index_ok:
  assumes "search_ok s"
  shows "wp (upsert_search_index_tx q) (\<lambda>_. search_ok) s"
proof (rule wp_upsert_search_index_tx [OF assms])
  fix r
  assume "\<forall>d\<in>set (search_documents s). \<not> doc_of (q_kind q) (q_object_id q) d"
    "\<forall>d\<in>set (search_documents s). sd_rowid d \<noteq> r" "\<forall>e\<in>set (search_index s). si_rowid e \<noteq> r"
  with assms show "search_ok (s\<lparr>search_documents := search_documents s @ [search_document q r],
      search_index := search_index s @ [search_entry q r]\<rparr>)"
    by (auto simp: search_ok_def search_entry_def search_document_def doc_key_def entry_key_def
        doc_of_def intro!: search_sync_insert)
qed (use assms in \<open>simp add: search_ok_def search_sync_touch\<close>)

lemma delete_search_index_ok:
  assumes "search_ok s"
  shows "wp (delete_search_index_tx kind i) (\<lambda>_. search_ok) s"
proof -
  have "search_index s = sql_delete (entry_of kind i) (search_index s)"
    if "\<forall>d\<in>set (search_documents s). \<not> doc_of kind i d"
  proof -
    have "\<not> entry_of kind i e" if e: "e \<in> set (search_index s)" for e
      using assms e \<open>\<forall>d\<in>set (search_documents s). \<not> doc_of kind i d\<close> unfolding search_ok_def
      by (elim search_sync_entry_doc) (auto simp: doc_key_def entry_key_def doc_of_def entry_of_def)
    then show ?thesis by (simp add: sql_delete_def)
  qed
  with assms show ?thesis
    by (auto simp: delete_search_index_tx_def find_rowid_def delete_entry_def wp_simps
        search_sync_delete search_ok_def fetch_last_None)
qed


text \<open>After a write the object has exactly the entry of the new text; the others are kept.\<close>

lemma upsert_search_index_entry:
  assumes s: "search_ok s"
  shows "wp (upsert_search_index_tx q) (\<lambda>_ t.
     (\<exists>r. filter (entry_of (q_kind q) (q_object_id q)) (search_index t) = [search_entry q r])
     \<and> filter (\<lambda>e. \<not> entry_of (q_kind q) (q_object_id q) e) (search_index t)
       = filter (\<lambda>e. \<not> entry_of (q_kind q) (q_object_id q) e) (search_index s)) s"
proof (rule wp_upsert_search_index_tx [OF s], goal_cases)
  case (1 r)
  have "\<not> entry_of (q_kind q) (q_object_id q) e" if "e \<in> set (search_index s)" for e
    using s that 1 unfolding search_ok_def
    by (elim search_sync_entry_doc) (auto simp: doc_key_def entry_key_def doc_of_def entry_of_def)
  then show ?case
    by (simp add: entry_of_def search_entry_def)
next
  case (2 d)
  have "entry_of (q_kind q) (q_object_id q) e \<longleftrightarrow> si_rowid e = sd_rowid d"
    if e: "e \<in> set (search_index s)" for e
  proof -
    from s e obtain d' where d': "d' \<in> set (search_documents s)" "doc_key d' = entry_key e"
      unfolding search_ok_def by (elim search_sync_entry_doc)
    then have "sd_rowid d' = sd_rowid d \<longleftrightarrow> d' = d" "doc_of (q_kind q) (q_object_id q) d' \<longleftrightarrow> d' = d"
      using s 2 by (auto simp: search_ok_def search_sync_def doc_of_def dest: distinct_map_inj)
    with d' show ?thesis
      by (auto simp: doc_key_def entry_key_def doc_of_def entry_of_def)
  qed
  then have "filter (\<lambda>e. entry_of (q_kind q) (q_object_id q) e \<and> si_rowid e \<noteq> sd_rowid d) (search_index s) = []"
    "filter (\<lambda>e. \<not> entry_of (q_kind q) (q_object_id q) e \<and> si_rowid e \<noteq> sd_rowid d) (search_index s)
     = filter (\<lambda>e. \<not> entry_of (q_kind q) (q_object_id q) e) (search_index s)"
    by (auto simp: filter_empty_conv intro: filter_cong)
  then show ?case
    by (simp add: sql_delete_def entry_of_def search_entry_def conj_commute)
qed

lemma delete_search_index_entry:
  assumes s: "search_ok s"
  shows "wp (delete_search_index_tx kind i) (\<lambda>_ t.
     search_index t = filter (\<lambda>e. \<not> entry_of kind i e) (search_index s)) s"
proof (cases "fetch_last (doc_of kind i) (search_documents s)")
  case None
  then show ?thesis
    by (simp add: delete_search_index_tx_def find_rowid_def wp_simps sql_delete_def)
next
  case (Some d)
  then have d: "d \<in> set (search_documents s)" "doc_of kind i d"
    by (auto dest: fetch_last_SomeD)
  have "entry_of kind i e \<longleftrightarrow> si_rowid e = sd_rowid d" if e: "e \<in> set (search_index s)" for e
  proof -
    from s e obtain d' where d': "d' \<in> set (search_documents s)" "doc_key d' = entry_key e"
      unfolding search_ok_def by (elim search_sync_entry_doc)
    then have "sd_rowid d' = sd_rowid d \<longleftrightarrow> d' = d" "doc_of kind i d' \<longleftrightarrow> d' = d"
      using s d by (auto simp: search_ok_def search_sync_def doc_of_def dest: distinct_map_inj)
    with d' show ?thesis
      by (auto simp: doc_key_def entry_key_def doc_of_def entry_of_def)
  qed
  with Some show ?thesis
    by (simp add: delete_search_index_tx_def find_rowid_def delete_entry_def wp_simps sql_delete_def
        cong: filter_cong)
qed

section \<open>Frames\<close>

text \<open>Each projection touches its own tables and the clock only.\<close>

lemma same_set_reaction_tx [same_intros]:
  "(\<And>s x. g (s\<lparr>reactions := x\<rparr>) = g s) \<Longrightarrow> (\<And>s x. g (s\<lparr>tick := x\<rparr>) = g s) \<Longrightarrow>
     same g (set_reaction_tx E a k i em b)"
  by (simp add: set_reaction_tx_def upsert_reaction_def same_intros Let_def)

lemma same_upsert_search_index_tx [same_intros]:
  "(\<And>s x. g (s\<lparr>search_documents := x\<rparr>) = g s) \<Longrightarrow> (\<And>s x. g (s\<lparr>search_index := x\<rparr>) = g s) \<Longrightarrow>
     same g (upsert_search_index_tx q)"
  by (simp add: upsert_search_index_tx_def find_rowid_def delete_entry_def insert_search_document_def
      insert_search_index_def same_intros)

lemma same_delete_search_index_tx [same_intros]:
  "(\<And>s x. g (s\<lparr>search_documents := x\<rparr>) = g s) \<Longrightarrow> (\<And>s x. g (s\<lparr>search_index := x\<rparr>) = g s) \<Longrightarrow>
     same g (delete_search_index_tx k i)"
  by (simp add: delete_search_index_tx_def find_rowid_def delete_entry_def same_intros)

lemma same_delete_labels_tx [same_intros]:
  "(\<And>s x. g (s\<lparr>labels := x\<rparr>) = g s) \<Longrightarrow> same g (delete_labels_tx k i)"
  by (simp add: delete_labels_tx_def same_intros)

lemma same_replace_labels_tx [same_intros]:
  "(\<And>s x. g (s\<lparr>labels := x\<rparr>) = g s) \<Longrightarrow> same g (replace_labels_tx q)"
  by (simp add: replace_labels_tx_def insert_label_def same_intros)

lemma same_delete_thread_labels_tx [same_intros]:
  "(\<And>s x. g (s\<lparr>labels := x\<rparr>) = g s) \<Longrightarrow> same g (delete_thread_labels_tx i)"
  by (simp add: delete_thread_labels_tx_def same_intros)

lemma same_account_can_view_source_tx [same_intros]: "same g (account_can_view_source_tx a c v)"
  by (simp add: account_can_view_source_tx_def same_intros)

lemma same_create_notification_tx [same_intros]:
  "(\<And>s x. g (s\<lparr>notifications := x\<rparr>) = g s) \<Longrightarrow> (\<And>s x. g (s\<lparr>tick := x\<rparr>) = g s) \<Longrightarrow>
     same g (create_notification_tx E a b q)"
  by (simp add: create_notification_tx_def thread_muted_def conversation_muted_def
      insert_notification_def same_intros)

lemma same_notify_others [same_intros]:
  "(\<And>s x. g (s\<lparr>notifications := x\<rparr>) = g s) \<Longrightarrow> (\<And>s x. g (s\<lparr>tick := x\<rparr>) = g s) \<Longrightarrow>
     same g (notify_others E a q xs)"
  by (simp add: notify_others_def same_intros)

lemma same_create_mention_notifications_tx [same_intros]:
  "(\<And>s x. g (s\<lparr>notifications := x\<rparr>) = g s) \<Longrightarrow> (\<And>s x. g (s\<lparr>mentions := x\<rparr>) = g s) \<Longrightarrow>
     (\<And>s x. g (s\<lparr>tick := x\<rparr>) = g s) \<Longrightarrow> same g (create_mention_notifications_tx E a q)"
  by (simp add: create_mention_notifications_tx_def mention_step_def insert_mention_def same_intros)

lemma same_create_thread_reply_notifications_tx [same_intros]:
  "(\<And>s x. g (s\<lparr>notifications := x\<rparr>) = g s) \<Longrightarrow> (\<And>s x. g (s\<lparr>tick := x\<rparr>) = g s) \<Longrightarrow>
     same g (create_thread_reply_notifications_tx E a q)"
  by (simp add: create_thread_reply_notifications_tx_def same_intros)

lemma same_create_dm_notifications_tx [same_intros]:
  "(\<And>s x. g (s\<lparr>notifications := x\<rparr>) = g s) \<Longrightarrow> (\<And>s x. g (s\<lparr>tick := x\<rparr>) = g s) \<Longrightarrow>
     same g (create_dm_notifications_tx E a c m i b)"
  by (simp add: create_dm_notifications_tx_def same_intros)

section \<open>Labels are those of the text\<close>

lemma each_insert_label:
  "wp (each (\<lambda>tag. insert_label (label_entry input tag)) tags)
     (\<lambda>_ t. t = s\<lparr>labels := labels s @ map (label_entry input) tags\<rparr>) s"
proof (induction tags arbitrary: s)
  case (Cons tag tags)
  have "wp (each (\<lambda>tag. insert_label (label_entry input tag)) tags)
     (\<lambda>_ t. t = s\<lparr>labels := labels s @ map (label_entry input) (tag # tags)\<rparr>)
     (s\<lparr>labels := labels s @ [label_entry input tag]\<rparr>)"
    by (rule wp_mono [OF Cons.IH]) simp
  then show ?case
    by (simp add: wp_simps insert_label_def)
qed (simp add: wp_simps)

lemma replace_labels_entries:
  "wp (replace_labels_tx input) (\<lambda>_ t. labels t
     = filter (\<lambda>l. \<not> label_of (li_kind input) (li_source_id input) l) (labels s)
       @ map (label_entry input) (parse_labels (li_text input))) s"
  unfolding replace_labels_tx_def delete_labels_tx_def wp_simps
  by (rule wp_mono [OF each_insert_label]) (simp add: sql_delete_def)

section \<open>Nobody is told about what they cannot see\<close>

lemma wp_account_can_view_source_tx [wp_simps]:
  "wp (account_can_view_source_tx a c v) Q s = Q (visible_source a c v s) s"
proof -
  have "account_can_view_source_tx a c v s = Inr (visible_source a c v s, s)"
    by (cases c; cases v) (auto simp: account_can_view_source_tx_def visible_source_def list_ex_iff
        sql_count_zero bnd_def gets_def ret_def)
  then show ?thesis
    by (simp add: wp_def)
qed

lemma visible_source_cong:
  "accounts t = accounts s \<Longrightarrow> channel_members t = channel_members s \<Longrightarrow>
     conversation_members t = conversation_members s \<Longrightarrow>
     visible_source a c v t = visible_source a c v s"
  by (cases c; cases v) (simp_all add: visible_source_def)

text \<open>What a notification row added by a command must satisfy.\<close>

definition notified_ok :: "str \<Rightarrow> notification_row \<Rightarrow> world \<Rightarrow> bool" where
  "notified_ok actor_id n s \<longleftrightarrow> n_account_id n \<noteq> actor_id \<and> n_actor_id n = Some actor_id
     \<and> n_read_at n = None \<and> n_archived_at n = None
     \<and> visible_source (n_account_id n) (n_channel_id n) (n_conversation_id n) s"

lemma create_notification_new:
  "wp (create_notification_tx E a (Some b) q) (\<lambda>_ t. \<exists>new. notifications t = notifications s @ new
      \<and> (\<forall>n\<in>set new. notified_ok b n s)) s"
  by (auto simp: create_notification_tx_def thread_muted_def conversation_muted_def
      insert_notification_def wp_simps notified_ok_def visible_source_def split: option.splits)

text \<open>A muted thread or conversation is silent.\<close>

lemma create_notification_muted:
  assumes "(\<exists>t r. ni_thread_id q = Some t \<and> r \<in> set (thread_reads s) \<and> r_thread_id r = t
        \<and> r_account_id r = a \<and> muted_at (r_muted_until r) (e_now E (tick s)))
     \<or> (\<exists>c m. ni_conversation_id q = Some c \<and> m \<in> set (conversation_members s)
        \<and> is_conversation_member c a m \<and> muted_at (vm_muted_until m) (e_now E (tick s))
        \<and> muted_at (vm_muted_until m) (e_now E (Suc (tick s))))"
  shows "wp (create_notification_tx E a b q) (\<lambda>_ t. notifications t = notifications s) s"
  using assms
  by (auto simp: create_notification_tx_def thread_muted_def conversation_muted_def
      insert_notification_def wp_simps sql_count_pos split: option.splits)


definition places :: "world \<Rightarrow> account_row list \<times> channel_member_row list \<times> conversation_member_row list" where
  "places s = (accounts s, channel_members s, conversation_members s)"

lemma visible_source_places: "places t = places s \<Longrightarrow> visible_source a c v t = visible_source a c v s"
  by (rule visible_source_cong) (simp_all add: places_def)

text \<open>The notifications that a run adds.\<close>

definition adds_notified :: "str \<Rightarrow> world \<Rightarrow> world \<Rightarrow> bool" where
  "adds_notified b s t \<longleftrightarrow> places t = places s \<and>
     (\<exists>new. notifications t = notifications s @ new \<and> (\<forall>n\<in>set new. notified_ok b n s))"

lemma adds_notified_refl: "places t = places s \<Longrightarrow> notifications t = notifications s \<Longrightarrow> adds_notified b s t"
  by (simp add: adds_notified_def)

lemma adds_notified_trans: "adds_notified b s t \<Longrightarrow> adds_notified b t u \<Longrightarrow> adds_notified b s u"
  by (force simp: adds_notified_def notified_ok_def dest: visible_source_places)

lemma create_notification_adds:
  "wp (create_notification_tx E a (Some b) q) (\<lambda>_. adds_notified b s) s"
proof -
  have "same places (create_notification_tx E a (Some b) q)"
    by (intro same_intros) (simp_all add: places_def)
  then have "wp (create_notification_tx E a (Some b) q) (\<lambda>_ t. places t = places s) s"
    by (rule wp_same) simp
  from wp_conj [OF this create_notification_new] show ?thesis
    by (rule wp_mono) (simp add: adds_notified_def)
qed

lemma create_notification_adds_from:
  "adds_notified b s0 s \<Longrightarrow> wp (create_notification_tx E a (Some b) q) (\<lambda>_. adds_notified b s0) s"
  by (rule wp_mono [OF create_notification_adds]) (blast intro: adds_notified_trans)

lemma notify_others_adds: "wp (notify_others E b q xs) (\<lambda>_. adds_notified b s) s"
  unfolding notify_others_def
proof (rule wp_each)
  fix x t
  assume "adds_notified b s t"
  then show "wp (if x = b then ret () else bnd (create_notification_tx E x (Some b) q) (\<lambda>_. ret ()))
      (\<lambda>_. adds_notified b s) t"
    by (simp add: wp_simps create_notification_adds_from)
qed (simp add: adds_notified_refl)

lemma thread_reply_notifications_adds:
  "wp (create_thread_reply_notifications_tx E b q) (\<lambda>_. adds_notified b s) s"
  by (simp add: create_thread_reply_notifications_tx_def wp_simps notify_others_adds)

lemma dm_notifications_adds: "wp (create_dm_notifications_tx E b c m i body) (\<lambda>_. adds_notified b s) s"
  by (simp add: create_dm_notifications_tx_def wp_simps notify_others_adds)

lemma mention_notifications_adds:
  "wp (create_mention_notifications_tx E b q) (\<lambda>_. adds_notified b s) s"
  unfolding create_mention_notifications_tx_def
proof (rule wp_fold_tx)
  fix u ts t
  assume *: "adds_notified b s t"
  have "adds_notified b s (t\<lparr>tick := n, mentions := m\<rparr>)" for n m
    using * adds_notified_refl adds_notified_trans by (force simp: places_def)
  then show "wp (mention_step E b q u ts) (\<lambda>_. adds_notified b s) t"
    using * by (simp add: mention_step_def insert_mention_def wp_simps create_notification_adds_from)
qed (simp add: adds_notified_refl)

text \<open>Who a text mentions: the accounts that its usernames name and that can see the source.\<close>

definition mention_target :: "str \<Rightarrow> mention_input \<Rightarrow> world \<Rightarrow> str \<Rightarrow> str option" where
  "mention_target b q s u =
     (case fetch_last (active_named u) (accounts s) of
        None \<Rightarrow> None
      | Some r \<Rightarrow> if a_id r \<noteq> b \<and> visible_source (a_id r) (mi_channel_id q) (mi_conversation_id q) s
                 then Some (a_id r) else None)"

definition mention_targets :: "str \<Rightarrow> mention_input \<Rightarrow> world \<Rightarrow> str list \<Rightarrow> str list \<Rightarrow> str list" where
  "mention_targets b q s us ts = fold (\<lambda>u. push_new (mention_target b q s u)) us ts"

definition mention_row_ok :: "str \<Rightarrow> mention_input \<Rightarrow> mention_row \<Rightarrow> bool" where
  "mention_row_ok b q m \<longleftrightarrow> mn_actor_id m = b \<and> mn_source_kind m = mi_source_kind q
     \<and> mn_source_id m = mi_source_id q \<and> mn_channel_id m = mi_channel_id q
     \<and> mn_thread_id m = mi_thread_id q \<and> mn_conversation_id m = mi_conversation_id q
     \<and> mn_index m = mi_index q \<and> mn_read_at m = None"

definition adds_mentions ::
    "str \<Rightarrow> mention_input \<Rightarrow> world \<Rightarrow> str list \<Rightarrow> str list \<Rightarrow> world \<Rightarrow> bool" where
  "adds_mentions b q s ts ts' t \<longleftrightarrow> places t = places s \<and>
     (\<exists>new. mentions t = mentions s @ new \<and> ts' = ts @ map mn_target_id new
        \<and> (\<forall>m\<in>set new. mention_row_ok b q m))"

lemma adds_mentions_refl: "adds_mentions b q s ts ts s"
  by (simp add: adds_mentions_def)

lemma adds_mentions_snoc:
  assumes "places t = places s" "\<exists>m. mentions t = mentions s @ [m] \<and> mention_row_ok b q m \<and> mn_target_id m = i"
  shows "adds_mentions b q s ts (ts @ [i]) t"
proof -
  from assms(2) obtain m where "mentions t = mentions s @ [m]" "mention_row_ok b q m" "mn_target_id m = i"
    by blast
  with assms(1) show ?thesis
    unfolding adds_mentions_def by (intro conjI exI [of _ "[m]"]) simp_all
qed

lemma adds_mentions_trans:
  "adds_mentions b q s ts ts1 s1 \<Longrightarrow> adds_mentions b q s1 ts1 ts2 s2 \<Longrightarrow> adds_mentions b q s ts ts2 s2"
  unfolding adds_mentions_def
  by (elim conjE exE, intro conjI exI [of _ "_ @ _"]) auto

lemma mention_step_adds:
  "wp (mention_step E b q u ts)
     (\<lambda>ts' t. ts' = push_new (mention_target b q s u) ts \<and> adds_mentions b q s ts ts' t) s"
proof -
  let ?core = "\<lambda>s. (places s, mentions s)"
  have same: "same ?core (create_notification_tx E a (Some b) n)" for a n
    by (intro same_intros) (simp_all add: places_def)
  note defs = mention_step_def insert_mention_def wp_simps mention_target_def push_new_def
  show ?thesis
  proof (cases "fetch_last (active_named u) (accounts s)")
    case None
    then show ?thesis by (simp add: defs adds_mentions_refl)
  next
    case (Some r)
    show ?thesis
    proof (cases "a_id r = b \<or> a_id r \<in> set ts
        \<or> \<not> visible_source (a_id r) (mi_channel_id q) (mi_conversation_id q) s")
      case True
      with Some show ?thesis by (auto simp: defs adds_mentions_refl)
    next
      case False
      with Some show ?thesis
        by (simp add: defs) (intro impI wp_same [OF same] adds_mentions_snoc,
            simp_all add: mention_row_ok_def places_def)
    qed
  qed
qed

lemma mention_target_places:
  assumes "places t = places s"
  shows "mention_target b q t = mention_target b q s"
proof -
  have "accounts t = accounts s" using assms by (simp add: places_def)
  then show ?thesis
    by (intro ext) (simp add: mention_target_def visible_source_places [OF assms] split: option.split)
qed

lemma mention_loop_adds:
  "wp (fold_tx (mention_step E b q) us ts)
     (\<lambda>ts' t. ts' = mention_targets b q s us ts \<and> adds_mentions b q s ts ts' t) s"
proof (induction us arbitrary: s ts)
  case Nil
  show ?case by (simp add: wp_simps mention_targets_def adds_mentions_refl)
next
  case (Cons u us)
  show ?case
    unfolding fold_tx.simps wp_bnd
  proof (rule wp_mono [OF mention_step_adds])
    fix ts1 s1
    assume 1: "ts1 = push_new (mention_target b q s u) ts \<and> adds_mentions b q s ts ts1 s1"
    then have same: "mention_target b q s1 = mention_target b q s"
      by (intro mention_target_places) (simp add: adds_mentions_def)
    show "wp (fold_tx (mention_step E b q) us ts1)
        (\<lambda>ts' t. ts' = mention_targets b q s (u # us) ts \<and> adds_mentions b q s ts ts' t) s1"
    proof (rule wp_mono [OF Cons.IH], elim conjE, intro conjI)
      fix ts2 s2
      assume "ts2 = mention_targets b q s1 us ts1"
      then show "ts2 = mention_targets b q s (u # us) ts"
        using 1 same by (simp add: mention_targets_def)
    next
      fix ts2 s2
      assume "adds_mentions b q s1 ts1 ts2 s2"
      then show "adds_mentions b q s ts ts2 s2"
        using 1 by (auto intro: adds_mentions_trans)
    qed
  qed
qed

section \<open>Frames for whole handlers\<close>

text \<open>
  Most invariants read only the base tables. \<open>blind g\<close>: \<open>g\<close> does not depend on the
  derived tables, the logs and the clock. \<open>message_blind g\<close>: nor on the tables of messages.
\<close>

definition blind :: "(world \<Rightarrow> 'x) \<Rightarrow> bool" where
  "blind g \<longleftrightarrow> (\<forall>s. (\<forall>x. g (s\<lparr>search_documents := x\<rparr>) = g s) \<and> (\<forall>x. g (s\<lparr>search_index := x\<rparr>) = g s)
     \<and> (\<forall>x. g (s\<lparr>labels := x\<rparr>) = g s) \<and> (\<forall>x. g (s\<lparr>mentions := x\<rparr>) = g s)
     \<and> (\<forall>x. g (s\<lparr>notifications := x\<rparr>) = g s) \<and> (\<forall>x. g (s\<lparr>tick := x\<rparr>) = g s)
     \<and> (\<forall>x. g (s\<lparr>event_log := x\<rparr>) = g s) \<and> (\<forall>x. g (s\<lparr>event_seq := x\<rparr>) = g s)
     \<and> (\<forall>x. g (s\<lparr>audit_log := x\<rparr>) = g s))"

definition message_blind :: "(world \<Rightarrow> 'x) \<Rightarrow> bool" where
  "message_blind g \<longleftrightarrow> blind g \<and> (\<forall>s. (\<forall>x. g (s\<lparr>threads := x\<rparr>) = g s)
     \<and> (\<forall>x. g (s\<lparr>comments := x\<rparr>) = g s) \<and> (\<forall>x. g (s\<lparr>thread_reads := x\<rparr>) = g s)
     \<and> (\<forall>x. g (s\<lparr>conversations := x\<rparr>) = g s) \<and> (\<forall>x. g (s\<lparr>conversation_members := x\<rparr>) = g s)
     \<and> (\<forall>x. g (s\<lparr>messages := x\<rparr>) = g s) \<and> (\<forall>x. g (s\<lparr>saved_messages := x\<rparr>) = g s)
     \<and> (\<forall>x. g (s\<lparr>reactions := x\<rparr>) = g s))"

lemma blindD:
  assumes "blind g"
  shows "g (s\<lparr>search_documents := x1\<rparr>) = g s" "g (s\<lparr>search_index := x2\<rparr>) = g s"
    "g (s\<lparr>labels := x3\<rparr>) = g s" "g (s\<lparr>mentions := x4\<rparr>) = g s" "g (s\<lparr>notifications := x5\<rparr>) = g s"
    "g (s\<lparr>tick := x6\<rparr>) = g s" "g (s\<lparr>event_log := x7\<rparr>) = g s" "g (s\<lparr>event_seq := x8\<rparr>) = g s"
    "g (s\<lparr>audit_log := x9\<rparr>) = g s"
  using assms by (simp_all add: blind_def)

lemma message_blindD:
  assumes "message_blind g"
  shows "blind g" "g (s\<lparr>threads := x1\<rparr>) = g s" "g (s\<lparr>comments := x2\<rparr>) = g s"
    "g (s\<lparr>thread_reads := x3\<rparr>) = g s" "g (s\<lparr>conversations := x4\<rparr>) = g s"
    "g (s\<lparr>conversation_members := x5\<rparr>) = g s" "g (s\<lparr>messages := x6\<rparr>) = g s"
    "g (s\<lparr>saved_messages := x7\<rparr>) = g s" "g (s\<lparr>reactions := x8\<rparr>) = g s"
  using assms by (simp_all add: message_blind_def)

lemmas blind_simps = blindD message_blindD blindD [OF message_blindD(1)]

end
