(* ===== verification/Messages.thy ===== *)
theory Messages
  imports Projections
begin

text \<open>
  Threads, comments and direct messages: the write operations of
  \<open>features/shared/write_ops.rs\<close>, the handlers of \<open>features/messages/state.rs\<close> and
  \<open>features/messages/read_state.rs\<close> and the ones of \<open>features/shared/permissions.rs\<close> they
  call. Every handler is one transaction; its guards, its statements and its projections
  are in the order of the source.

  The lemmas are about the counters that the code keeps next to the data: a thread's
  \<open>comment_count\<close> is the number of its comments that are not deleted, no index is given
  twice, nobody has read further than the last index, and the unread counters never
  promise more than there is.
\<close>

section \<open>What a created message projects\<close>

definition hash_slug :: "str \<Rightarrow> str" where
  "hash_slug slug = c_hash # slug"

definition thread_created :: "env \<Rightarrow> str \<Rightarrow> str \<Rightarrow> str \<Rightarrow> str \<Rightarrow> str \<Rightarrow> str \<Rightarrow> str \<Rightarrow> unit wtx" where
  "thread_created E actor_id thread_id channel_id channel_slug title body created_at =
     thn (upsert_search_index_tx
       \<lparr>q_kind = SThread, q_object_id = thread_id, q_channel_id = Some channel_id,
        q_thread_id = Some thread_id, q_conversation_id = None, q_title = title, q_body = body,
        q_context = hash_slug channel_slug\<rparr>)
     (bnd (create_mention_notifications_tx E actor_id
       \<lparr>mi_source_kind = SThread, mi_source_id = thread_id, mi_channel_id = Some channel_id,
        mi_thread_id = Some thread_id, mi_conversation_id = None, mi_index = None,
        mi_title = title, mi_body = body\<rparr>) (\<lambda>_.
     thn (replace_labels_tx
       \<lparr>li_kind = SThread, li_source_id = thread_id, li_channel_id = Some channel_id,
        li_thread_id = Some thread_id, li_conversation_id = None, li_index = None,
        li_text = thread_label_text title body, li_created_at = created_at\<rparr>)
     (log_event E (Some channel_id) (Some thread_id) None (lit ''thread.created'')
       [(''thread_id'', JStr thread_id), (''channel_id'', JStr channel_id), (''title'', JStr title)])))"

definition comment_created ::
    "env \<Rightarrow> str \<Rightarrow> str \<Rightarrow> str \<Rightarrow> str \<Rightarrow> str \<Rightarrow> str \<Rightarrow> int \<Rightarrow> str \<Rightarrow> str \<Rightarrow> unit wtx" where
  "comment_created E actor_id comment_id channel_id channel_slug thread_id thread_title obj_index
      body created_at =
     thn (upsert_search_index_tx
       \<lparr>q_kind = SComment, q_object_id = comment_id, q_channel_id = Some channel_id,
        q_thread_id = Some thread_id, q_conversation_id = None, q_title = thread_title,
        q_body = body, q_context = hash_slug channel_slug\<rparr>)
     (bnd (create_mention_notifications_tx E actor_id
       \<lparr>mi_source_kind = SComment, mi_source_id = comment_id, mi_channel_id = Some channel_id,
        mi_thread_id = Some thread_id, mi_conversation_id = None, mi_index = Some obj_index,
        mi_title = thread_title, mi_body = body\<rparr>) (\<lambda>_.
     thn (create_thread_reply_notifications_tx E actor_id
       \<lparr>ri_thread_id = thread_id, ri_channel_id = channel_id, ri_comment_id = comment_id,
        ri_index = obj_index, ri_title = thread_title, ri_body = body\<rparr>)
     (thn (replace_labels_tx
       \<lparr>li_kind = SComment, li_source_id = comment_id, li_channel_id = Some channel_id,
        li_thread_id = Some thread_id, li_conversation_id = None, li_index = Some obj_index,
        li_text = body, li_created_at = created_at\<rparr>)
     (log_event E (Some channel_id) (Some thread_id) None (lit ''comment.created'')
       [(''thread_id'', JStr thread_id), (''channel_id'', JStr channel_id),
        (''obj_index'', JInt obj_index)]))))"

definition dm_created :: "env \<Rightarrow> str \<Rightarrow> str \<Rightarrow> str \<Rightarrow> int \<Rightarrow> str \<Rightarrow> str \<Rightarrow> unit wtx" where
  "dm_created E actor_id conversation_id message_id obj_index body created_at =
     thn (upsert_search_index_tx
       \<lparr>q_kind = SDm, q_object_id = message_id, q_channel_id = None, q_thread_id = None,
        q_conversation_id = Some conversation_id, q_title = lit ''DM'', q_body = body,
        q_context = lit ''DM''\<rparr>)
     (thn (create_dm_notifications_tx E actor_id conversation_id message_id obj_index body)
     (bnd (create_mention_notifications_tx E actor_id
       \<lparr>mi_source_kind = SDm, mi_source_id = message_id, mi_channel_id = None,
        mi_thread_id = None, mi_conversation_id = Some conversation_id,
        mi_index = Some obj_index, mi_title = lit ''DM'', mi_body = body\<rparr>) (\<lambda>_.
     thn (replace_labels_tx
       \<lparr>li_kind = SDm, li_source_id = message_id, li_channel_id = None, li_thread_id = None,
        li_conversation_id = Some conversation_id, li_index = Some obj_index,
        li_text = body, li_created_at = created_at\<rparr>)
     (log_event E None None (Some conversation_id) (lit ''conversation.message_created'')
       [(''conversation_id'', JStr conversation_id), (''obj_index'', JInt obj_index)]))))"

section \<open>Threads\<close>

definition channel_slug_of :: "str \<Rightarrow> str wtx" where
  "channel_slug_of channel_id =
     bnd (fetch_one channels (\<lambda>c. c_id c = channel_id)) (\<lambda>c. ret (c_slug c))"

definition upsert_read_at :: "str \<Rightarrow> str \<Rightarrow> int \<Rightarrow> unit wtx" where
  "upsert_read_at thread_id account_id index =
     upsert_thread_read (\<lambda>r. r\<lparr>r_last_read := index, r_unread := 0\<rparr>)
       \<lparr>r_thread_id = thread_id, r_account_id = account_id, r_last_read = index, r_unread = 0,
        r_marked_unread_at = None, r_muted_until = None, r_saved_at = None\<rparr>"

definition create_thread :: "env \<Rightarrow> str \<Rightarrow> str \<Rightarrow> str \<Rightarrow> str wtx" where
  "create_thread E actor_id channel_id title_arg =
     (let title = trim (sanitize_single_line_text title_arg); body = [];
          title_key = normalize_name_key (e_lc E) title in
      thn (ensure (title \<noteq> []) (lit ''Thread title is required''))
      (thn (ensure (title_key \<noteq> []) (lit ''Thread title must contain letters or numbers''))
      (thn (ensure_can_view_channel actor_id channel_id)
      (thn (ensure_thread_name_available channel_id title_key)
      (bnd (now E) (\<lambda>n. bnd (fresh_id E) (\<lambda>thread_id.
      thn (insert_thread
        \<lparr>t_id = thread_id, t_channel_id = channel_id, t_creator_id = actor_id, t_title = title,
         t_name_key = Some title_key, t_body = body, t_comment_count = 0, t_last_comment_index = 0,
         t_last_activity_at = n, t_created_at = n, t_updated_at = n, t_edited_at = None,
         t_archived_at = None, t_pinned_at = None, t_deleted_at = None\<rparr>)
      (thn (upsert_read_at thread_id actor_id 0)
      (bnd (channel_slug_of channel_id) (\<lambda>channel_slug.
      thn (thread_created E actor_id thread_id channel_id channel_slug title body n)
      (ret thread_id)))))))))))"

definition insert_comment_row :: "str \<Rightarrow> str \<Rightarrow> str \<Rightarrow> str \<Rightarrow> int \<Rightarrow> str \<Rightarrow> str \<Rightarrow> unit wtx" where
  "insert_comment_row comment_id thread_id channel_id actor_id index body n =
     insert_comment \<lparr>co_id = comment_id, co_thread_id = thread_id, co_channel_id = channel_id,
       co_author_id = actor_id, co_index = index, co_body = body, co_created_at = n,
       co_updated_at = n, co_edited_at = None, co_deleted_at = None\<rparr>"

text \<open>\<open>INSERT INTO thread_reads ... SELECT ... FROM channel_members\<close>.\<close>

definition bump_unread :: "str \<Rightarrow> str \<Rightarrow> str \<Rightarrow> int \<Rightarrow> unit wtx" where
  "bump_unread thread_id channel_id actor_id count =
     bnd (gets (\<lambda>s. filter (\<lambda>m. m_channel_id m = channel_id \<and> m_account_id m \<noteq> actor_id)
                       (channel_members s))) (\<lambda>members.
     each (\<lambda>m. upsert_thread_read (\<lambda>r. r\<lparr>r_unread := r_unread r + 1\<rparr>)
       \<lparr>r_thread_id = thread_id, r_account_id = m_account_id m, r_last_read = 0, r_unread = count,
        r_marked_unread_at = None, r_muted_until = None, r_saved_at = None\<rparr>) members)"

definition touch_thread :: "str \<Rightarrow> int \<Rightarrow> str \<Rightarrow> unit wtx" where
  "touch_thread thread_id index n =
     modify (\<lambda>s. s\<lparr>threads := sql_update (\<lambda>t. t_id t = thread_id)
       (\<lambda>t. t\<lparr>t_comment_count := t_comment_count t + 1, t_last_comment_index := index,
             t_last_activity_at := n, t_updated_at := n\<rparr>) (threads s)\<rparr>)"

definition add_comment :: "env \<Rightarrow> str \<Rightarrow> str \<Rightarrow> str \<Rightarrow> unit wtx" where
  "add_comment E actor_id thread_id body_arg =
     (let body = trim (sanitize_stored_text body_arg) in
      thn (ensure (body \<noteq> []) (lit ''Comment body is required''))
      (bnd (gets (\<lambda>s. fetch_last (\<lambda>t. t_id t = thread_id \<and> t_deleted_at t = None) (threads s))) (\<lambda>row.
      case row of None \<Rightarrow> fail (Msg (lit ''Thread not found'')) | Some row \<Rightarrow>
      thn (ensure_can_view_channel actor_id (t_channel_id row))
      (let channel_id = t_channel_id row; next_index = t_last_comment_index row + 1;
           next_comment_count = t_comment_count row + 1 in
      bnd (now E) (\<lambda>n. bnd (fresh_id E) (\<lambda>comment_id.
      thn (insert_comment_row comment_id thread_id channel_id actor_id next_index body n)
      (thn (touch_thread thread_id next_index n)
      (thn (upsert_read_at thread_id actor_id next_index)
      (thn (bump_unread thread_id channel_id actor_id next_comment_count)
      (bnd (fetch_one threads (\<lambda>t. t_id t = thread_id)) (\<lambda>t.
      bnd (channel_slug_of channel_id) (\<lambda>channel_slug.
      comment_created E actor_id comment_id channel_id channel_slug thread_id (t_title t)
        next_index body n))))))))))))"

definition reindex_thread ::
    "str \<Rightarrow> str \<Rightarrow> str \<Rightarrow> str \<Rightarrow> unit wtx" where
  "reindex_thread thread_id channel_id title body =
     bnd (channel_slug_of channel_id) (\<lambda>channel_slug.
     bnd (fetch_one threads (\<lambda>t. t_id t = thread_id)) (\<lambda>t.
     thn (upsert_search_index_tx
       \<lparr>q_kind = SThread, q_object_id = thread_id, q_channel_id = Some channel_id,
        q_thread_id = Some thread_id, q_conversation_id = None, q_title = title, q_body = body,
        q_context = hash_slug channel_slug\<rparr>)
     (replace_labels_tx
       \<lparr>li_kind = SThread, li_source_id = thread_id, li_channel_id = Some channel_id,
        li_thread_id = Some thread_id, li_conversation_id = None, li_index = None,
        li_text = thread_label_text title body, li_created_at = t_created_at t\<rparr>)))"

definition log_thread_edited :: "env \<Rightarrow> str \<Rightarrow> str \<Rightarrow> str \<Rightarrow> unit wtx" where
  "log_thread_edited E actor_id thread_id channel_id =
     thn (insert_audit E (Some actor_id) (lit ''thread.edited'') (Some thread_id)
            [(''channel_id'', JStr channel_id)])
     (log_event E (Some channel_id) (Some thread_id) None (lit ''thread.edited'')
            [(''thread_id'', JStr thread_id)])"

text \<open>A new name is checked only when its key differs from the old one's.\<close>

definition ensure_renamable :: "env \<Rightarrow> thread_meta \<Rightarrow> str \<Rightarrow> unit wtx" where
  "ensure_renamable E thread next_key =
     (if next_key \<noteq> normalize_name_key (e_lc E) (tm_title thread)
      then ensure_thread_name_available (tm_channel_id thread) next_key else ret ())"

definition edit_thread :: "env \<Rightarrow> str \<Rightarrow> str \<Rightarrow> str \<Rightarrow> str \<Rightarrow> unit wtx" where
  "edit_thread E actor_id thread_id title_arg body_arg =
     bnd (load_thread_meta_tx thread_id) (\<lambda>thread.
     bnd (ensure_can_modify_thread actor_id thread False) (\<lambda>_.
     let title = trim (sanitize_single_line_text title_arg);
         body = trim (sanitize_stored_text body_arg);
         next_key = normalize_name_key (e_lc E) title in
     thn (ensure (title \<noteq> []) (lit ''Thread title is required''))
     (thn (ensure (body \<noteq> []) (lit ''Thread body is required''))
     (thn (ensure_renamable E thread next_key)
     (bnd (now E) (\<lambda>n.
     thn (modify (\<lambda>s. s\<lparr>threads := sql_update (\<lambda>t. t_id t = thread_id)
            (\<lambda>t. t\<lparr>t_title := title, t_name_key := Some next_key, t_body := body,
                  t_updated_at := n, t_edited_at := Some n\<rparr>) (threads s)\<rparr>))
     (thn (reindex_thread thread_id (tm_channel_id thread) title body)
     (log_thread_edited E actor_id thread_id (tm_channel_id thread)))))))))"

definition rename_thread :: "env \<Rightarrow> str \<Rightarrow> str \<Rightarrow> str \<Rightarrow> unit wtx" where
  "rename_thread E actor_id thread_id title_arg =
     bnd (load_thread_meta_tx thread_id) (\<lambda>thread.
     bnd (ensure_can_modify_thread actor_id thread False) (\<lambda>_.
     let title = trim (sanitize_single_line_text title_arg);
         next_key = normalize_name_key (e_lc E) title in
     thn (ensure (title \<noteq> []) (lit ''Thread title is required''))
     (thn (ensure_renamable E thread next_key)
     (bnd (now E) (\<lambda>n.
     thn (modify (\<lambda>s. s\<lparr>threads := sql_update (\<lambda>t. t_id t = thread_id)
            (\<lambda>t. t\<lparr>t_title := title, t_name_key := Some next_key, t_updated_at := n,
                  t_edited_at := Some n\<rparr>) (threads s)\<rparr>))
     (thn (reindex_thread thread_id (tm_channel_id thread) title (tm_body thread))
     (log_thread_edited E actor_id thread_id (tm_channel_id thread))))))))"

datatype thread_flag = Archived | Pinned | Deleted

definition flag_action :: "thread_flag \<Rightarrow> bool \<Rightarrow> str" where
  "flag_action flag enabled = (case flag of
     Archived \<Rightarrow> if enabled then lit ''thread.archived'' else lit ''thread.unarchived''
   | Pinned \<Rightarrow> if enabled then lit ''thread.pinned'' else lit ''thread.unpinned''
   | Deleted \<Rightarrow> lit ''thread.deleted'')"

definition set_flag :: "thread_flag \<Rightarrow> str option \<Rightarrow> thread_row \<Rightarrow> thread_row" where
  "set_flag flag value t = (case flag of
     Archived \<Rightarrow> t\<lparr>t_archived_at := value\<rparr>
   | Pinned \<Rightarrow> t\<lparr>t_pinned_at := value\<rparr>
   | Deleted \<Rightarrow> t\<lparr>t_deleted_at := value\<rparr>)"

definition update_thread_flag :: "env \<Rightarrow> str \<Rightarrow> str \<Rightarrow> thread_flag \<Rightarrow> bool \<Rightarrow> unit wtx" where
  "update_thread_flag E actor_id thread_id flag enabled =
     bnd (load_thread_meta_tx thread_id) (\<lambda>thread.
     bnd (ensure_can_modify_thread actor_id thread (flag = Pinned)) (\<lambda>_.
     bnd (now E) (\<lambda>n.
     let value = (if enabled then Some n else None); action = flag_action flag enabled in
     thn (modify (\<lambda>s. s\<lparr>threads := sql_update (\<lambda>t. t_id t = thread_id)
            (\<lambda>t. (set_flag flag value t)\<lparr>t_updated_at := n\<rparr>) (threads s)\<rparr>))
     (thn (if flag = Deleted \<and> enabled
           then thn (delete_search_index_tx SThread thread_id) (delete_thread_labels_tx thread_id)
           else ret ())
     (thn (insert_audit E (Some actor_id) action (Some thread_id)
            [(''channel_id'', JStr (tm_channel_id thread))])
     (log_event E (Some (tm_channel_id thread)) (Some thread_id) None action
            [(''thread_id'', JStr thread_id)]))))))"

definition delete_thread :: "env \<Rightarrow> str \<Rightarrow> str \<Rightarrow> unit wtx" where
  "delete_thread E actor_id thread_id = update_thread_flag E actor_id thread_id Deleted True"

definition set_thread_archived :: "env \<Rightarrow> str \<Rightarrow> str \<Rightarrow> bool \<Rightarrow> unit wtx" where
  "set_thread_archived E actor_id thread_id archived =
     update_thread_flag E actor_id thread_id Archived archived"

definition set_thread_pinned :: "env \<Rightarrow> str \<Rightarrow> str \<Rightarrow> bool \<Rightarrow> unit wtx" where
  "set_thread_pinned E actor_id thread_id pinned =
     update_thread_flag E actor_id thread_id Pinned pinned"


section \<open>A reader's state of a thread\<close>

definition undeleted_comments :: "str \<Rightarrow> world \<Rightarrow> int" where
  "undeleted_comments thread_id s =
     sql_count (\<lambda>c. co_thread_id c = thread_id \<and> co_deleted_at c = None) (comments s)"

definition upsert_thread_read_state ::
    "str \<Rightarrow> str \<Rightarrow> bool \<Rightarrow> str option \<Rightarrow> bool \<Rightarrow> str option \<Rightarrow> unit wtx" where
  "upsert_thread_read_state account_id thread_id update_mute muted_until update_saved saved_at =
     bnd (gets (\<lambda>s. fetch_last (\<lambda>r. r_thread_id r = thread_id \<and> r_account_id r = account_id)
                       (thread_reads s))) (\<lambda>existing.
     let next_muted_until = (if update_mute then muted_until else Option.bind existing r_muted_until);
         next_saved_at = (if update_saved then saved_at else Option.bind existing r_saved_at) in
     bnd (gets (undeleted_comments thread_id)) (\<lambda>unread_count.
     upsert_thread_read
       (\<lambda>r. r\<lparr>r_muted_until := next_muted_until, r_saved_at := next_saved_at\<rparr>)
       \<lparr>r_thread_id = thread_id, r_account_id = account_id, r_last_read = 0,
        r_unread = unread_count, r_marked_unread_at = None, r_muted_until = next_muted_until,
        r_saved_at = next_saved_at\<rparr>))"

definition set_thread_muted :: "env \<Rightarrow> str \<Rightarrow> str \<Rightarrow> int option \<Rightarrow> unit wtx" where
  "set_thread_muted E actor_id thread_id ttl_hours =
     bnd (load_thread_meta_tx thread_id) (\<lambda>thread.
     thn (ensure_can_view_channel actor_id (tm_channel_id thread))
     (bnd (ttl_timestamp E ttl_hours) (\<lambda>muted_until.
     thn (upsert_thread_read_state actor_id thread_id True muted_until False None)
     (insert_audit E (Some actor_id)
        (if muted_until \<noteq> None then lit ''thread.muted'' else lit ''thread.unmuted'')
        (Some thread_id) []))))"

definition set_thread_saved :: "env \<Rightarrow> str \<Rightarrow> str \<Rightarrow> bool \<Rightarrow> unit wtx" where
  "set_thread_saved E actor_id thread_id saved =
     bnd (load_thread_meta_tx thread_id) (\<lambda>thread.
     thn (ensure_can_view_channel actor_id (tm_channel_id thread))
     (bnd (then_now E saved) (\<lambda>saved_at.
     thn (upsert_thread_read_state actor_id thread_id False None True saved_at)
     (insert_audit E (Some actor_id)
        (if saved then lit ''thread.saved'' else lit ''thread.unsaved'') (Some thread_id) []))))"

definition mark_notifications_read ::
    "(notification_row \<Rightarrow> bool) \<Rightarrow> str \<Rightarrow> unit wtx" where
  "mark_notifications_read p n =
     modify (\<lambda>s. s\<lparr>notifications := sql_update
       (\<lambda>r. p r \<and> visible_source (n_account_id r) (n_channel_id r) (n_conversation_id r) s)
       (\<lambda>r. r\<lparr>n_read_at := coalesce (n_read_at r) n\<rparr>) (notifications s)\<rparr>)"

definition mark_mentions_read :: "(mention_row \<Rightarrow> bool) \<Rightarrow> str \<Rightarrow> unit wtx" where
  "mark_mentions_read p n =
     modify (\<lambda>s. s\<lparr>mentions := sql_update
       (\<lambda>r. p r \<and> visible_source (mn_target_id r) (mn_channel_id r) (mn_conversation_id r) s)
       (\<lambda>r. r\<lparr>mn_read_at := coalesce (mn_read_at r) n\<rparr>) (mentions s)\<rparr>)"

definition mark_thread_read :: "env \<Rightarrow> str \<Rightarrow> str \<Rightarrow> unit wtx" where
  "mark_thread_read E account_id thread_id =
     bnd (load_thread_meta_tx thread_id) (\<lambda>thread.
     thn (ensure_can_view_channel account_id (tm_channel_id thread))
     (bnd (fetch_one threads (\<lambda>t. t_id t = thread_id)) (\<lambda>t.
     let last_index = t_last_comment_index t in
     thn (upsert_thread_read
       (\<lambda>r. r\<lparr>r_last_read := last_index, r_unread := 0, r_marked_unread_at := None\<rparr>)
       \<lparr>r_thread_id = thread_id, r_account_id = account_id, r_last_read = last_index,
        r_unread = 0, r_marked_unread_at = None, r_muted_until = None, r_saved_at = None\<rparr>)
     (bnd (now E) (\<lambda>n.
     thn (mark_notifications_read
            (\<lambda>r. n_account_id r = account_id \<and> n_thread_id r = Some thread_id) n)
     (mark_mentions_read
            (\<lambda>r. mn_target_id r = account_id \<and> mn_thread_id r = Some thread_id) n))))))"

definition comments_beyond :: "str \<Rightarrow> int \<Rightarrow> comment_row list \<Rightarrow> int" where
  "comments_beyond thread_id i cs =
     sql_count (\<lambda>c. co_thread_id c = thread_id \<and> co_deleted_at c = None \<and> i < co_index c) cs"

definition mark_thread_unread :: "env \<Rightarrow> str \<Rightarrow> str \<Rightarrow> unit wtx" where
  "mark_thread_unread E account_id thread_id =
     bnd (load_thread_meta_tx thread_id) (\<lambda>thread.
     thn (ensure_can_view_channel account_id (tm_channel_id thread))
     (bnd (fetch_one threads (\<lambda>t. t_id t = thread_id)) (\<lambda>t.
     let unread_from = t_last_comment_index t - 1 in
     bnd (gets (\<lambda>s. comments_beyond thread_id unread_from (comments s))) (\<lambda>unread_count.
     bnd (now E) (\<lambda>n.
     upsert_thread_read
       (\<lambda>r. r\<lparr>r_last_read := unread_from, r_unread := unread_count, r_marked_unread_at := Some n\<rparr>)
       \<lparr>r_thread_id = thread_id, r_account_id = account_id, r_last_read = unread_from,
        r_unread = unread_count, r_marked_unread_at = Some n, r_muted_until = None,
        r_saved_at = None\<rparr>)))))"

section \<open>Comments\<close>

text \<open>Moderators are admins and the channel's creator.\<close>

definition ensure_own_or_moderator :: "str \<Rightarrow> str \<Rightarrow> str \<Rightarrow> str \<Rightarrow> channel_meta wtx" where
  "ensure_own_or_moderator actor_id channel_id author_id msg =
     bnd (load_account_tx actor_id) (\<lambda>actor.
     bnd (load_channel_by_id_tx channel_id) (\<lambda>channel.
     let can_moderate = (can_admin (ac_role actor) \<or> cm_created_by channel = actor_id) in
     thn (ensure (can_moderate \<or> author_id = actor_id) msg) (ret channel)))"

definition update_comment_body :: "env \<Rightarrow> str \<Rightarrow> str \<Rightarrow> int \<Rightarrow> str \<Rightarrow> unit wtx" where
  "update_comment_body E actor_id thread_id obj_index body_arg =
     (let body = trim (sanitize_stored_text body_arg) in
      thn (ensure (body \<noteq> []) (lit ''Comment body is required''))
      (bnd (load_thread_meta_tx thread_id) (\<lambda>thread.
      thn (ensure_can_view_channel actor_id (tm_channel_id thread))
      (bnd (load_comment_meta_tx thread_id obj_index) (\<lambda>row.
      bnd (ensure_own_or_moderator actor_id (tm_channel_id thread) (mm_author_id row)
             (lit ''You can only edit your own comments'')) (\<lambda>channel.
      bnd (now E) (\<lambda>n.
      thn (modify (\<lambda>s. s\<lparr>comments := sql_update (\<lambda>c. co_id c = mm_id row)
             (\<lambda>c. c\<lparr>co_body := body, co_updated_at := n, co_edited_at := Some n\<rparr>) (comments s)\<rparr>))
      (thn (upsert_search_index_tx
        \<lparr>q_kind = SComment, q_object_id = mm_id row, q_channel_id = Some (tm_channel_id thread),
         q_thread_id = Some thread_id, q_conversation_id = None, q_title = tm_title thread,
         q_body = body, q_context = hash_slug (cm_slug channel)\<rparr>)
      (thn (replace_labels_tx
        \<lparr>li_kind = SComment, li_source_id = mm_id row, li_channel_id = Some (tm_channel_id thread),
         li_thread_id = Some thread_id, li_conversation_id = None,
         li_index = Some (mm_index row), li_text = body, li_created_at = mm_created_at row\<rparr>)
      (thn (insert_audit E (Some actor_id) (lit ''comment.edited'') (Some (mm_id row))
              [(''thread_id'', JStr thread_id)])
      (log_event E (Some (tm_channel_id thread)) (Some thread_id) None (lit ''comment.edited'')
              [(''thread_id'', JStr thread_id), (''obj_index'', JInt obj_index)])))))))))))"

definition mark_comment_deleted :: "str \<Rightarrow> str \<Rightarrow> unit wtx" where
  "mark_comment_deleted comment_id n =
     modify (\<lambda>s. s\<lparr>comments := sql_update (\<lambda>c. co_id c = comment_id)
       (\<lambda>c. c\<lparr>co_deleted_at := Some n, co_updated_at := n\<rparr>) (comments s)\<rparr>)"

definition uncount_comment :: "str \<Rightarrow> str \<Rightarrow> unit wtx" where
  "uncount_comment thread_id n =
     modify (\<lambda>s. s\<lparr>threads := sql_update (\<lambda>t. t_id t = thread_id)
       (\<lambda>t. t\<lparr>t_comment_count := max (t_comment_count t - 1) 0, t_updated_at := n\<rparr>) (threads s)\<rparr>)"

definition uncount_unread :: "str \<Rightarrow> int \<Rightarrow> unit wtx" where
  "uncount_unread thread_id index =
     modify (\<lambda>s. s\<lparr>thread_reads := sql_update
       (\<lambda>r. r_thread_id r = thread_id \<and> 0 < r_unread r \<and> r_last_read r < index)
       (\<lambda>r. r\<lparr>r_unread := max (r_unread r - 1) 0\<rparr>) (thread_reads s)\<rparr>)"

definition soft_delete_comment :: "env \<Rightarrow> str \<Rightarrow> str \<Rightarrow> int \<Rightarrow> unit wtx" where
  "soft_delete_comment E actor_id thread_id obj_index =
     bnd (load_thread_meta_tx thread_id) (\<lambda>thread.
     thn (ensure_can_view_channel actor_id (tm_channel_id thread))
     (bnd (load_comment_meta_tx thread_id obj_index) (\<lambda>row.
     bnd (ensure_own_or_moderator actor_id (tm_channel_id thread) (mm_author_id row)
            (lit ''You can only delete your own comments'')) (\<lambda>channel.
     bnd (now E) (\<lambda>n.
     thn (mark_comment_deleted (mm_id row) n)
     (thn (uncount_comment thread_id n)
     (thn (uncount_unread thread_id (mm_index row))
     (thn (delete_search_index_tx SComment (mm_id row))
     (thn (delete_labels_tx SComment (mm_id row))
     (thn (insert_audit E (Some actor_id) (lit ''comment.deleted'') (Some (mm_id row))
             [(''thread_id'', JStr thread_id)])
     (log_event E (Some (tm_channel_id thread)) (Some thread_id) None (lit ''comment.deleted'')
             [(''thread_id'', JStr thread_id), (''obj_index'', JInt obj_index)])))))))))))"

definition set_saved_message_tx :: "env \<Rightarrow> str \<Rightarrow> source_kind \<Rightarrow> str \<Rightarrow> bool \<Rightarrow> unit wtx" where
  "set_saved_message_tx E account_id kind source_id saved =
     (if saved then bnd (now E) (\<lambda>n. upsert_saved
        \<lparr>s_account_id = account_id, s_source_kind = kind, s_source_id = source_id, s_saved_at = n\<rparr>)
      else modify (\<lambda>s. s\<lparr>saved_messages := sql_delete (\<lambda>r. s_account_id r = account_id
        \<and> s_source_kind r = kind \<and> s_source_id r = source_id) (saved_messages s)\<rparr>))"

definition saved_action :: "bool \<Rightarrow> str" where
  "saved_action saved = (if saved then lit ''message.saved'' else lit ''message.unsaved'')"

definition set_comment_saved :: "env \<Rightarrow> str \<Rightarrow> str \<Rightarrow> int \<Rightarrow> bool \<Rightarrow> unit wtx" where
  "set_comment_saved E actor_id thread_id obj_index saved =
     bnd (load_thread_meta_tx thread_id) (\<lambda>thread.
     thn (ensure_can_view_channel actor_id (tm_channel_id thread))
     (bnd (load_comment_meta_tx thread_id obj_index) (\<lambda>comment.
     thn (set_saved_message_tx E actor_id SComment (mm_id comment) saved)
     (insert_audit E (Some actor_id) (saved_action saved) (Some (mm_id comment))
        [(''source_kind'', JStr (lit ''comment'')), (''thread_id'', JStr thread_id)]))))"

section \<open>Direct messages\<close>

definition conversation_member :: "str \<Rightarrow> str \<Rightarrow> str \<Rightarrow> conversation_member_row" where
  "conversation_member conversation_id account_id n =
     \<lparr>vm_conversation_id = conversation_id, vm_account_id = account_id, vm_joined_at = n,
      vm_last_read = 0, vm_unread = 0, vm_muted_until = None, vm_saved_at = None\<rparr>"

definition open_conversation :: "env \<Rightarrow> str \<Rightarrow> str \<Rightarrow> str \<Rightarrow> str wtx" where
  "open_conversation E actor_id target_id n =
     bnd (gets (\<lambda>s. fetch_last (\<lambda>c. v_dm_key c = dm_key actor_id target_id) (conversations s))) (\<lambda>row.
     case row of Some existing \<Rightarrow> ret (v_id existing)
     | None \<Rightarrow>
       bnd (fresh_id E) (\<lambda>conversation_id.
       thn (insert_conversation
         \<lparr>v_id = conversation_id, v_dm_key = dm_key actor_id target_id, v_creator_id = actor_id,
          v_last_index = 0, v_last_activity_at = n, v_created_at = n, v_archived_at = None\<rparr>)
       (thn (each (\<lambda>m. insert_conversation_member (conversation_member conversation_id m n))
              [actor_id, target_id])
       (ret conversation_id))))"

definition open_dm :: "env \<Rightarrow> str \<Rightarrow> str \<Rightarrow> str wtx" where
  "open_dm E actor_id target_arg =
     (let target = trim_start_char c_at (trim target_arg) in
      bnd (load_account_tx actor_id) (\<lambda>actor.
      thn (ensure (ac_activated actor) not_activated)
      (bnd (gets (\<lambda>s. fetch_last (active_named target) (accounts s))) (\<lambda>row.
      case row of None \<Rightarrow> fail (Msg (lit ''User @'' @ target @ lit '' not found'')) | Some row \<Rightarrow>
      let target_id = a_id row in
      thn (ensure (target_id \<noteq> actor_id) (lit ''Cannot DM yourself''))
      (bnd (now E) (\<lambda>n.
      bnd (open_conversation E actor_id target_id n) (\<lambda>conversation_id.
      thn (each (\<lambda>m. upsert_conversation_member (conversation_member conversation_id m n))
             [actor_id, target_id])
      (thn (log_event E None None (Some conversation_id) (lit ''conversation.opened'')
             [(''conversation_id'', JStr conversation_id)])
      (ret conversation_id)))))))))"

definition send_dm :: "env \<Rightarrow> str \<Rightarrow> str \<Rightarrow> str \<Rightarrow> unit wtx" where
  "send_dm E actor_id conversation_id body_arg =
     (let body = trim (sanitize_stored_text body_arg) in
      thn (ensure (body \<noteq> []) (lit ''Message body is required''))
      (thn (ensure_participant conversation_id actor_id)
      (bnd (fetch_one conversations (\<lambda>c. v_id c = conversation_id)) (\<lambda>c.
      let next_index = v_last_index c + 1 in
      bnd (now E) (\<lambda>n. bnd (fresh_id E) (\<lambda>message_id.
      thn (insert_message
        \<lparr>d_id = message_id, d_conversation_id = conversation_id, d_author_id = actor_id,
         d_index = next_index, d_body = body, d_created_at = n, d_updated_at = n,
         d_edited_at = None, d_deleted_at = None\<rparr>)
      (thn (modify (\<lambda>s. s\<lparr>conversations := sql_update (\<lambda>c. v_id c = conversation_id)
             (\<lambda>c. c\<lparr>v_last_index := next_index, v_last_activity_at := n\<rparr>) (conversations s)\<rparr>))
      (thn (modify (\<lambda>s. s\<lparr>conversation_members := sql_update
             (is_conversation_member conversation_id actor_id)
             (\<lambda>m. m\<lparr>vm_last_read := next_index, vm_unread := 0\<rparr>) (conversation_members s)\<rparr>))
      (thn (modify (\<lambda>s. s\<lparr>conversation_members := sql_update
             (\<lambda>m. vm_conversation_id m = conversation_id \<and> vm_account_id m \<noteq> actor_id)
             (\<lambda>m. m\<lparr>vm_unread := vm_unread m + 1\<rparr>) (conversation_members s)\<rparr>))
      (dm_created E actor_id conversation_id message_id next_index body n))))))))))"

definition update_dm_body :: "env \<Rightarrow> str \<Rightarrow> str \<Rightarrow> int \<Rightarrow> str \<Rightarrow> unit wtx" where
  "update_dm_body E actor_id conversation_id obj_index body_arg =
     (let body = trim (sanitize_stored_text body_arg) in
      thn (ensure (body \<noteq> []) (lit ''Message body is required''))
      (bnd (load_dm_message_meta_tx actor_id conversation_id obj_index) (\<lambda>row.
      thn (ensure (mm_author_id row = actor_id) (lit ''You can only edit your own DMs''))
      (bnd (now E) (\<lambda>n.
      thn (modify (\<lambda>s. s\<lparr>messages := sql_update (\<lambda>d. d_id d = mm_id row)
             (\<lambda>d. d\<lparr>d_body := body, d_updated_at := n, d_edited_at := Some n\<rparr>) (messages s)\<rparr>))
      (thn (upsert_search_index_tx
        \<lparr>q_kind = SDm, q_object_id = mm_id row, q_channel_id = None, q_thread_id = None,
         q_conversation_id = Some conversation_id, q_title = lit ''DM'', q_body = body,
         q_context = lit ''DM''\<rparr>)
      (thn (replace_labels_tx
        \<lparr>li_kind = SDm, li_source_id = mm_id row, li_channel_id = None, li_thread_id = None,
         li_conversation_id = Some conversation_id, li_index = Some (mm_index row),
         li_text = body, li_created_at = mm_created_at row\<rparr>)
      (thn (insert_audit E (Some actor_id) (lit ''dm.edited'') (Some (mm_id row))
             [(''conversation_id'', JStr conversation_id)])
      (log_event E None None (Some conversation_id) (lit ''conversation.message_edited'')
             [(''conversation_id'', JStr conversation_id), (''obj_index'', JInt obj_index)])))))))))"

definition soft_delete_dm :: "env \<Rightarrow> str \<Rightarrow> str \<Rightarrow> int \<Rightarrow> unit wtx" where
  "soft_delete_dm E actor_id conversation_id obj_index =
     bnd (load_dm_message_meta_tx actor_id conversation_id obj_index) (\<lambda>row.
     thn (ensure (mm_author_id row = actor_id) (lit ''You can only delete your own DMs''))
     (bnd (now E) (\<lambda>n.
     thn (modify (\<lambda>s. s\<lparr>messages := sql_update (\<lambda>d. d_id d = mm_id row)
            (\<lambda>d. d\<lparr>d_deleted_at := Some n, d_updated_at := n\<rparr>) (messages s)\<rparr>))
     (thn (modify (\<lambda>s. s\<lparr>conversation_members := sql_update
            (\<lambda>m. vm_conversation_id m = conversation_id \<and> 0 < vm_unread m
                 \<and> vm_last_read m < mm_index row)
            (\<lambda>m. m\<lparr>vm_unread := max (vm_unread m - 1) 0\<rparr>) (conversation_members s)\<rparr>))
     (thn (delete_search_index_tx SDm (mm_id row))
     (thn (delete_labels_tx SDm (mm_id row))
     (thn (insert_audit E (Some actor_id) (lit ''dm.deleted'') (Some (mm_id row))
            [(''conversation_id'', JStr conversation_id)])
     (log_event E None None (Some conversation_id) (lit ''conversation.message_deleted'')
            [(''conversation_id'', JStr conversation_id), (''obj_index'', JInt obj_index)]))))))))"

definition set_dm_message_saved :: "env \<Rightarrow> str \<Rightarrow> str \<Rightarrow> int \<Rightarrow> bool \<Rightarrow> unit wtx" where
  "set_dm_message_saved E actor_id conversation_id obj_index saved =
     bnd (load_dm_message_meta_tx actor_id conversation_id obj_index) (\<lambda>message.
     thn (set_saved_message_tx E actor_id SDm (mm_id message) saved)
     (insert_audit E (Some actor_id) (saved_action saved) (Some (mm_id message))
        [(''source_kind'', JStr (lit ''dm'')), (''conversation_id'', JStr conversation_id)]))"

definition update_conversation_member ::
    "str \<Rightarrow> str \<Rightarrow> (conversation_member_row \<Rightarrow> conversation_member_row) \<Rightarrow> unit wtx" where
  "update_conversation_member conversation_id account_id f =
     modify (\<lambda>s. s\<lparr>conversation_members := sql_update
       (is_conversation_member conversation_id account_id) f (conversation_members s)\<rparr>)"

definition set_conversation_muted :: "env \<Rightarrow> str \<Rightarrow> str \<Rightarrow> int option \<Rightarrow> unit wtx" where
  "set_conversation_muted E actor_id conversation_id ttl_hours =
     bnd (ttl_timestamp E ttl_hours) (\<lambda>muted_until.
     update_conversation_member conversation_id actor_id (\<lambda>m. m\<lparr>vm_muted_until := muted_until\<rparr>))"

definition set_conversation_saved :: "env \<Rightarrow> str \<Rightarrow> str \<Rightarrow> bool \<Rightarrow> unit wtx" where
  "set_conversation_saved E actor_id conversation_id saved =
     bnd (then_now E saved) (\<lambda>saved_at.
     update_conversation_member conversation_id actor_id (\<lambda>m. m\<lparr>vm_saved_at := saved_at\<rparr>))"

text \<open>The conversation's last index, for a participant only.\<close>

definition participant_last_index :: "str \<Rightarrow> str \<Rightarrow> int wtx" where
  "participant_last_index conversation_id account_id =
     bnd (gets (\<lambda>s. fetch_last (\<lambda>c. v_id c = conversation_id
            \<and> list_ex (is_conversation_member (v_id c) account_id) (conversation_members s))
            (conversations s))) (\<lambda>row.
     case row of None \<Rightarrow> fail (Msg (lit ''Not a participant in this conversation''))
     | Some c \<Rightarrow> ret (v_last_index c))"

definition mark_conversation_read :: "env \<Rightarrow> str \<Rightarrow> str \<Rightarrow> unit wtx" where
  "mark_conversation_read E account_id conversation_id =
     bnd (participant_last_index conversation_id account_id) (\<lambda>last_index.
     thn (update_conversation_member conversation_id account_id
            (\<lambda>m. m\<lparr>vm_last_read := last_index, vm_unread := 0\<rparr>))
     (bnd (now E) (\<lambda>n.
     thn (mark_notifications_read
            (\<lambda>r. n_account_id r = account_id \<and> n_conversation_id r = Some conversation_id) n)
     (bnd (now E) (\<lambda>n.
     mark_mentions_read
            (\<lambda>r. mn_target_id r = account_id \<and> mn_conversation_id r = Some conversation_id) n)))))"

definition messages_beyond :: "str \<Rightarrow> int \<Rightarrow> message_row list \<Rightarrow> int" where
  "messages_beyond conversation_id i ds =
     sql_count (\<lambda>d. d_conversation_id d = conversation_id \<and> d_deleted_at d = None \<and> i < d_index d) ds"

definition mark_conversation_unread :: "env \<Rightarrow> str \<Rightarrow> str \<Rightarrow> unit wtx" where
  "mark_conversation_unread E account_id conversation_id =
     bnd (participant_last_index conversation_id account_id) (\<lambda>last_index.
     let unread_from = last_index - 1 in
     bnd (gets (\<lambda>s. messages_beyond conversation_id unread_from (messages s))) (\<lambda>unread_count.
     update_conversation_member conversation_id account_id
       (\<lambda>m. m\<lparr>vm_last_read := unread_from, vm_unread := unread_count\<rparr>)))"

section \<open>Frames\<close>

text \<open>What each part leaves alone: first the projections, then whole handlers.\<close>

lemma same_thread_created [same_intros]: "blind g \<Longrightarrow> same g (thread_created E a t c sl ti b n)"
  unfolding thread_created_def by (intro same_intros) (simp_all add: blind_simps)

lemma same_comment_created [same_intros]: "blind g \<Longrightarrow> same g (comment_created E a i c sl t ti x b n)"
  unfolding comment_created_def by (intro same_intros) (simp_all add: blind_simps)

lemma same_dm_created [same_intros]: "blind g \<Longrightarrow> same g (dm_created E a c m x b n)"
  unfolding dm_created_def by (intro same_intros) (simp_all add: blind_simps)

lemma same_channel_slug_of [same_intros]: "same g (channel_slug_of c)"
  unfolding channel_slug_of_def Let_def by (intro same_intros)

lemma same_ensure_renamable [same_intros]: "same g (ensure_renamable E t k)"
  unfolding ensure_renamable_def Let_def by (intro same_intros)

lemma same_participant_last_index [same_intros]: "same g (participant_last_index c a)"
  unfolding participant_last_index_def Let_def by (intro same_intros)

lemma same_ensure_own_or_moderator [same_intros]: "same g (ensure_own_or_moderator a c i m)"
  unfolding ensure_own_or_moderator_def Let_def by (intro same_intros)

lemma same_upsert_read_at [same_intros]:
  "(\<And>s x. g (s\<lparr>thread_reads := x\<rparr>) = g s) \<Longrightarrow> same g (upsert_read_at t a i)"
  unfolding upsert_read_at_def insert_defs Let_def by (intro same_intros) (simp_all add: blind_simps)

lemma same_bump_unread [same_intros]:
  "(\<And>s x. g (s\<lparr>thread_reads := x\<rparr>) = g s) \<Longrightarrow> same g (bump_unread t c a n)"
  unfolding bump_unread_def insert_defs Let_def by (intro same_intros) (simp_all add: blind_simps)

lemma same_touch_thread [same_intros]:
  "(\<And>s x. g (s\<lparr>threads := x\<rparr>) = g s) \<Longrightarrow> same g (touch_thread t i n)"
  unfolding touch_thread_def insert_defs Let_def by (intro same_intros) (simp_all add: blind_simps)

lemma same_insert_comment_row [same_intros]:
  "(\<And>s x. g (s\<lparr>comments := x\<rparr>) = g s) \<Longrightarrow> same g (insert_comment_row i t c a x b n)"
  unfolding insert_comment_row_def insert_defs Let_def by (intro same_intros) (simp_all add: blind_simps)

lemma same_upsert_thread_read_state [same_intros]:
  "(\<And>s x. g (s\<lparr>thread_reads := x\<rparr>) = g s) \<Longrightarrow> same g (upsert_thread_read_state a t b m d v)"
  unfolding upsert_thread_read_state_def insert_defs Let_def by (intro same_intros) (simp_all add: blind_simps)

lemma same_mark_notifications_read [same_intros]:
  "(\<And>s x. g (s\<lparr>notifications := x\<rparr>) = g s) \<Longrightarrow> same g (mark_notifications_read p n)"
  unfolding mark_notifications_read_def insert_defs Let_def by (intro same_intros) (simp_all add: blind_simps)

lemma same_mark_mentions_read [same_intros]:
  "(\<And>s x. g (s\<lparr>mentions := x\<rparr>) = g s) \<Longrightarrow> same g (mark_mentions_read p n)"
  unfolding mark_mentions_read_def insert_defs Let_def by (intro same_intros) (simp_all add: blind_simps)

lemma same_mark_comment_deleted [same_intros]:
  "(\<And>s x. g (s\<lparr>comments := x\<rparr>) = g s) \<Longrightarrow> same g (mark_comment_deleted i n)"
  unfolding mark_comment_deleted_def insert_defs Let_def by (intro same_intros) (simp_all add: blind_simps)

lemma same_uncount_comment [same_intros]:
  "(\<And>s x. g (s\<lparr>threads := x\<rparr>) = g s) \<Longrightarrow> same g (uncount_comment t n)"
  unfolding uncount_comment_def insert_defs Let_def by (intro same_intros) (simp_all add: blind_simps)

lemma same_uncount_unread [same_intros]:
  "(\<And>s x. g (s\<lparr>thread_reads := x\<rparr>) = g s) \<Longrightarrow> same g (uncount_unread t i)"
  unfolding uncount_unread_def insert_defs Let_def by (intro same_intros) (simp_all add: blind_simps)

lemma same_set_saved_message_tx [same_intros]:
  "(\<And>s x. g (s\<lparr>saved_messages := x\<rparr>) = g s) \<Longrightarrow> (\<And>s x. g (s\<lparr>tick := x\<rparr>) = g s) \<Longrightarrow> same g (set_saved_message_tx E a k i b)"
  unfolding set_saved_message_tx_def insert_defs Let_def by (intro same_intros) (simp_all add: blind_simps)

lemma same_update_conversation_member [same_intros]:
  "(\<And>s x. g (s\<lparr>conversation_members := x\<rparr>) = g s) \<Longrightarrow> same g (update_conversation_member c a f)"
  unfolding update_conversation_member_def insert_defs Let_def by (intro same_intros) (simp_all add: blind_simps)

lemma same_reindex_thread [same_intros]:
  "(\<And>s x. g (s\<lparr>search_documents := x\<rparr>) = g s) \<Longrightarrow> (\<And>s x. g (s\<lparr>search_index := x\<rparr>) = g s) \<Longrightarrow> (\<And>s x. g (s\<lparr>labels := x\<rparr>) = g s) \<Longrightarrow> same g (reindex_thread t c ti b)"
  unfolding reindex_thread_def insert_defs Let_def by (intro same_intros) (simp_all add: blind_simps)

lemma same_log_thread_edited [same_intros]:
  "blind g \<Longrightarrow> same g (log_thread_edited E a t c)"
  unfolding log_thread_edited_def insert_defs Let_def by (intro same_intros) (simp_all add: blind_simps)

lemma same_open_conversation [same_intros]:
  "(\<And>s x. g (s\<lparr>tick := x\<rparr>) = g s) \<Longrightarrow> (\<And>s x. g (s\<lparr>conversations := x\<rparr>) = g s) \<Longrightarrow> (\<And>s x. g (s\<lparr>conversation_members := x\<rparr>) = g s) \<Longrightarrow> same g (open_conversation E a t n)"
  unfolding open_conversation_def insert_defs Let_def by (intro same_intros) (simp_all add: blind_simps)

lemma same_create_thread [same_intros]: "message_blind g \<Longrightarrow> same g (create_thread E a c t)"
  unfolding create_thread_def insert_defs Let_def by (intro same_intros) (simp_all add: blind_simps)

lemma same_add_comment [same_intros]: "message_blind g \<Longrightarrow> same g (add_comment E a t b)"
  unfolding add_comment_def insert_defs Let_def by (intro same_intros) (simp_all add: blind_simps)

lemma same_edit_thread [same_intros]: "message_blind g \<Longrightarrow> same g (edit_thread E a t ti b)"
  unfolding edit_thread_def insert_defs Let_def by (intro same_intros) (simp_all add: blind_simps)

lemma same_rename_thread [same_intros]: "message_blind g \<Longrightarrow> same g (rename_thread E a t ti)"
  unfolding rename_thread_def insert_defs Let_def by (intro same_intros) (simp_all add: blind_simps)

lemma same_update_thread_flag [same_intros]: "message_blind g \<Longrightarrow> same g (update_thread_flag E a t f b)"
  unfolding update_thread_flag_def insert_defs Let_def by (intro same_intros) (simp_all add: blind_simps)

lemma same_set_thread_muted [same_intros]: "message_blind g \<Longrightarrow> same g (set_thread_muted E a t h)"
  unfolding set_thread_muted_def insert_defs Let_def by (intro same_intros) (simp_all add: blind_simps)

lemma same_set_thread_saved [same_intros]: "message_blind g \<Longrightarrow> same g (set_thread_saved E a t b)"
  unfolding set_thread_saved_def insert_defs Let_def by (intro same_intros) (simp_all add: blind_simps)

lemma same_mark_thread_read [same_intros]: "message_blind g \<Longrightarrow> same g (mark_thread_read E a t)"
  unfolding mark_thread_read_def insert_defs Let_def by (intro same_intros) (simp_all add: blind_simps)

lemma same_mark_thread_unread [same_intros]: "message_blind g \<Longrightarrow> same g (mark_thread_unread E a t)"
  unfolding mark_thread_unread_def insert_defs Let_def by (intro same_intros) (simp_all add: blind_simps)

lemma same_update_comment_body [same_intros]: "message_blind g \<Longrightarrow> same g (update_comment_body E a t i b)"
  unfolding update_comment_body_def insert_defs Let_def by (intro same_intros) (simp_all add: blind_simps)

lemma same_soft_delete_comment [same_intros]: "message_blind g \<Longrightarrow> same g (soft_delete_comment E a t i)"
  unfolding soft_delete_comment_def insert_defs Let_def by (intro same_intros) (simp_all add: blind_simps)

lemma same_set_comment_saved [same_intros]: "message_blind g \<Longrightarrow> same g (set_comment_saved E a t i b)"
  unfolding set_comment_saved_def insert_defs Let_def by (intro same_intros) (simp_all add: blind_simps)

lemma same_open_dm [same_intros]: "message_blind g \<Longrightarrow> same g (open_dm E a t)"
  unfolding open_dm_def insert_defs Let_def by (intro same_intros) (simp_all add: blind_simps)

lemma same_send_dm [same_intros]: "message_blind g \<Longrightarrow> same g (send_dm E a c b)"
  unfolding send_dm_def insert_defs Let_def by (intro same_intros) (simp_all add: blind_simps)

lemma same_update_dm_body [same_intros]: "message_blind g \<Longrightarrow> same g (update_dm_body E a c i b)"
  unfolding update_dm_body_def insert_defs Let_def by (intro same_intros) (simp_all add: blind_simps)

lemma same_soft_delete_dm [same_intros]: "message_blind g \<Longrightarrow> same g (soft_delete_dm E a c i)"
  unfolding soft_delete_dm_def insert_defs Let_def by (intro same_intros) (simp_all add: blind_simps)

lemma same_set_dm_message_saved [same_intros]: "message_blind g \<Longrightarrow> same g (set_dm_message_saved E a c i b)"
  unfolding set_dm_message_saved_def insert_defs Let_def by (intro same_intros) (simp_all add: blind_simps)

lemma same_set_conversation_muted [same_intros]: "message_blind g \<Longrightarrow> same g (set_conversation_muted E a c h)"
  unfolding set_conversation_muted_def insert_defs Let_def by (intro same_intros) (simp_all add: blind_simps)

lemma same_set_conversation_saved [same_intros]: "message_blind g \<Longrightarrow> same g (set_conversation_saved E a c b)"
  unfolding set_conversation_saved_def insert_defs Let_def by (intro same_intros) (simp_all add: blind_simps)

lemma same_mark_conversation_read [same_intros]: "message_blind g \<Longrightarrow> same g (mark_conversation_read E a c)"
  unfolding mark_conversation_read_def insert_defs Let_def by (intro same_intros) (simp_all add: blind_simps)

lemma same_mark_conversation_unread [same_intros]: "message_blind g \<Longrightarrow> same g (mark_conversation_unread E a c)"
  unfolding mark_conversation_unread_def insert_defs Let_def by (intro same_intros) (simp_all add: blind_simps)

end
