(* ===== verification/Counters.thy ===== *)
theory Counters
  imports Messages
begin

text \<open>
  The counters that the code keeps beside the messages, and why they are right: the number
  of comments of a thread, its last index, and how much of it each reader has seen. The
  invariant is stated over the key columns of the tables, and every handler keeps it.
\<close>

section \<open>The invariant over the key columns\<close>

text \<open>
  A thread is its id, comment count and last index; a comment its id, thread, index and
  whether it is still there; a reader's row its thread, account, last read index and unread
  count. \<open>live th i C\<close> counts the comments of a thread beyond an index.
\<close>

type_synonym tkeys = "(str \<times> int \<times> int) list"
type_synonym ckeys = "(str \<times> str \<times> int \<times> bool) list"
type_synonym rkeys = "(str \<times> str \<times> int \<times> int) list"

definition live :: "str \<Rightarrow> int \<Rightarrow> ckeys \<Rightarrow> int" where
  "live th i C = sql_count (\<lambda>(_, th', j, alive). th' = th \<and> alive \<and> i < j) C"

definition keys_wf :: "tkeys \<Rightarrow> ckeys \<Rightarrow> rkeys \<Rightarrow> bool" where
  "keys_wf T C R \<longleftrightarrow> distinct (map fst T) \<and> distinct (map fst C)
     \<and> distinct (map (\<lambda>(_, th, i, _). (th, i)) C) \<and> distinct (map (\<lambda>(th, a, _, _). (th, a)) R)"

definition placed :: "tkeys \<Rightarrow> str \<Rightarrow> int \<Rightarrow> bool" where
  "placed T th i \<longleftrightarrow> (\<exists>n l. (th, n, l) \<in> set T \<and> i \<le> l)"

definition comments_wf :: "tkeys \<Rightarrow> ckeys \<Rightarrow> bool" where
  "comments_wf T C \<longleftrightarrow> (\<forall>c th i al. (c, th, i, al) \<in> set C \<longrightarrow> 1 \<le> i \<and> placed T th i)"

definition totals_wf :: "tkeys \<Rightarrow> ckeys \<Rightarrow> bool" where
  "totals_wf T C \<longleftrightarrow> (\<forall>th n l. (th, n, l) \<in> set T \<longrightarrow> n = live th 0 C \<and> 0 \<le> l)"

definition reads_wf :: "tkeys \<Rightarrow> ckeys \<Rightarrow> rkeys \<Rightarrow> bool" where
  "reads_wf T C R \<longleftrightarrow>
     (\<forall>th a lr u. (th, a, lr, u) \<in> set R \<longrightarrow> 0 \<le> u \<and> u \<le> live th lr C \<and> placed T th lr)"

definition counts_wf :: "tkeys \<Rightarrow> ckeys \<Rightarrow> rkeys \<Rightarrow> bool" where
  "counts_wf T C R \<longleftrightarrow> keys_wf T C R \<and> comments_wf T C \<and> totals_wf T C \<and> reads_wf T C R"

lemma live_nonneg [simp]: "0 \<le> live th i C"
  by (simp add: live_def)

lemma live_snoc [simp]:
  "live th i (C @ [(c, th', j, alive)]) = live th i C + (if th' = th \<and> alive \<and> i < j then 1 else 0)"
  by (simp add: live_def)

lemma live_pos: "(c, th, j, True) \<in> set C \<Longrightarrow> i < j \<Longrightarrow> 1 \<le> live th i C"
proof -
  assume "(c, th, j, True) \<in> set C" "i < j"
  then have "0 < live th i C" unfolding live_def sql_count_pos by force
  then show ?thesis by simp
qed

definition kill :: "str \<Rightarrow> ckeys \<Rightarrow> ckeys" where
  "kill cid C = map (\<lambda>(c, th, i, al). (c, th, i, al \<and> c \<noteq> cid)) C"

lemma live_kill:
  assumes "distinct (map fst C)" "(cid, th, i, True) \<in> set C"
  shows "live th' j (kill cid C) = live th' j C - (if th' = th \<and> j < i then 1 else 0)"
proof -
  have other: "live th' j (kill cid C) = live th' j C" if "\<forall>x\<in>set C. fst x \<noteq> cid" for C
    using that by (induction C) (auto simp: kill_def live_def)
  obtain A B where C: "C = A @ (cid, th, i, True) # B"
    using assms(2) by (auto dest: split_list)
  with assms(1) have "\<forall>x\<in>set A. fst x \<noteq> cid" "\<forall>x\<in>set B. fst x \<noteq> cid"
    by (auto simp: image_iff)
  then have "live th' j (kill cid A) = live th' j A" "live th' j (kill cid B) = live th' j B"
    using other by blast+
  then show ?thesis
    by (simp add: C kill_def live_def)
qed

lemma counts_wf_reads:
  assumes "counts_wf T C R" "distinct (map (\<lambda>(th, a, _, _). (th, a)) R')"
    and "\<And>th a lr u. (th, a, lr, u) \<in> set R' \<Longrightarrow> (th, a, lr, u) \<in> set R
      \<or> 0 \<le> u \<and> u \<le> live th lr C \<and> placed T th lr"
  shows "counts_wf T C R'"
proof -
  have "reads_wf T C R'"
    using assms(1,3) unfolding counts_wf_def reads_wf_def by metis
  then show ?thesis
    using assms(1,2) by (simp add: counts_wf_def keys_wf_def)
qed

lemma counts_wf_new_thread:
  assumes wf: "counts_wf T C R" and new: "th \<notin> fst ` set T"
  shows "counts_wf (T @ [(th, 0, 0)]) C R"
proof -
  let ?T = "T @ [(th, 0, 0)]"
  have grow: "placed T x i \<Longrightarrow> placed ?T x i" for x i
    by (auto simp: placed_def)
  have "\<not> placed T th i" for i
    using new by (force simp: placed_def)
  then have "(c, th, i, al) \<notin> set C" for c i al
    using wf unfolding counts_wf_def comments_wf_def by blast
  then have "live th 0 C = 0"
    unfolding live_def sql_count_zero by auto
  then have "totals_wf ?T C"
    using wf by (simp add: counts_wf_def totals_wf_def)
  moreover have "comments_wf ?T C" "reads_wf ?T C R"
    using wf grow unfolding counts_wf_def comments_wf_def reads_wf_def by blast+
  ultimately show ?thesis
    using wf new by (auto simp: counts_wf_def keys_wf_def)
qed

definition bump_thread :: "str \<Rightarrow> tkeys \<Rightarrow> tkeys" where
  "bump_thread th T = map (\<lambda>(x, n, l). if x = th then (x, n + 1, l + 1) else (x, n, l)) T"

lemma fst_bump_thread: "map fst (bump_thread th T) = map fst T"
  by (simp add: bump_thread_def case_prod_unfold if_distrib cong: if_cong)

lemma in_bump_thread:
  "(x, n, l) \<in> set (bump_thread th T) \<longleftrightarrow>
     (if x = th then (x, n - 1, l - 1) \<in> set T else (x, n, l) \<in> set T)"
  by (force simp: bump_thread_def image_iff split: if_splits)

lemma counts_wf_new_comment:
  assumes wf: "counts_wf T C R" and t: "(th, n, l) \<in> set T" and c: "cid \<notin> fst ` set C"
  shows "counts_wf (bump_thread th T) (C @ [(cid, th, l + 1, True)]) R"
proof -
  let ?T = "bump_thread th T" and ?C = "C @ [(cid, th, l + 1, True)]"
  have uniq: "n' = n \<and> l' = l" if "(th, n', l') \<in> set T" for n' l'
    using that wf t unfolding counts_wf_def keys_wf_def by (auto dest: eq_key_imp_eq_value)
  have l: "0 \<le> l" using wf t unfolding counts_wf_def totals_wf_def by blast
  have grow: "placed T x i \<Longrightarrow> placed ?T x i" for x i
    unfolding placed_def in_bump_thread by (metis add_diff_cancel_right' le_add_same_cancel1 order_trans zero_le_one)
  have at: "placed ?T th (l + 1)"
    unfolding placed_def in_bump_thread using t by (intro exI [of _ "n + 1"] exI [of _ "l + 1"]) simp
  have "i \<le> l" if "(c, th, i, al) \<in> set C" for c i al
    using that wf uniq unfolding counts_wf_def comments_wf_def placed_def by blast
  then have "(th, l + 1) \<notin> set (map (\<lambda>(_, th, i, _). (th, i)) C)"
    by fastforce
  then have "keys_wf ?T ?C R"
    using wf c by (simp add: counts_wf_def keys_wf_def fst_bump_thread)
  moreover have "comments_wf ?T ?C"
    using wf grow at l unfolding counts_wf_def comments_wf_def by auto
  moreover have "totals_wf ?T ?C"
    using wf l unfolding counts_wf_def totals_wf_def in_bump_thread by (auto dest: uniq split: if_splits)
  moreover have "reads_wf ?T ?C R"
    using wf grow unfolding counts_wf_def reads_wf_def live_snoc by (smt (verit))
  ultimately show ?thesis
    by (simp add: counts_wf_def)
qed

definition drop_thread :: "str \<Rightarrow> tkeys \<Rightarrow> tkeys" where
  "drop_thread th T = map (\<lambda>(x, n, l). if x = th then (x, max (n - 1) 0, l) else (x, n, l)) T"

lemma in_drop_thread:
  "(x, n, l) \<in> set T \<Longrightarrow> (x, if x = th then max (n - 1) 0 else n, l) \<in> set (drop_thread th T)"
  by (force simp: drop_thread_def image_iff)

definition drop_reads :: "str \<Rightarrow> int \<Rightarrow> rkeys \<Rightarrow> rkeys" where
  "drop_reads th i R = map (\<lambda>(x, a, lr, u).
     if x = th \<and> 0 < u \<and> lr < i then (x, a, lr, max (u - 1) 0) else (x, a, lr, u)) R"

lemma counts_wf_delete_comment:
  assumes wf: "counts_wf T C R" and c: "(cid, th, i, True) \<in> set C"
  shows "counts_wf (drop_thread th T) (kill cid C) (drop_reads th i R)"
proof -
  let ?T = "drop_thread th T" and ?C = "kill cid C" and ?R = "drop_reads th i R"
  have live: "live x j ?C = live x j C - (if x = th \<and> j < i then 1 else 0)" for x j
    using wf c by (intro live_kill) (auto simp: counts_wf_def keys_wf_def)
  have i: "1 \<le> i" using wf c unfolding counts_wf_def comments_wf_def by blast
  have room: "1 \<le> live th j C" if "j < i" for j
    using c that by (rule live_pos)
  have grow: "placed T x j \<Longrightarrow> placed ?T x j" for x j
    unfolding placed_def by (blast dest: in_drop_thread [of _ _ _ _ th])
  have keys: "map fst ?T = map fst T" "map fst ?C = map fst C"
    "map (\<lambda>(_, th, i, _). (th, i)) ?C = map (\<lambda>(_, th, i, _). (th, i)) C"
    "map (\<lambda>(th, a, _, _). (th, a)) ?R = map (\<lambda>(th, a, _, _). (th, a)) R"
    by (simp_all add: drop_thread_def kill_def drop_reads_def case_prod_unfold if_distrib cong: if_cong)
  have "keys_wf ?T ?C ?R"
    using wf keys by (simp add: counts_wf_def keys_wf_def)
  moreover have "comments_wf ?T ?C"
    using wf grow unfolding counts_wf_def comments_wf_def kill_def by (fastforce split: prod.splits)
  moreover have "totals_wf ?T ?C"
    unfolding totals_wf_def live
  proof (intro allI impI)
    fix x n l
    assume "(x, n, l) \<in> set ?T"
    then obtain n' where "(x, n', l) \<in> set T" "n = (if x = th then max (n' - 1) 0 else n')"
      by (auto simp: drop_thread_def split: if_splits)
    moreover from this(1) have "n' = live x 0 C" "0 \<le> l"
      using wf unfolding counts_wf_def totals_wf_def by blast+
    ultimately show "n = live x 0 C - (if x = th \<and> 0 < i then 1 else 0) \<and> 0 \<le> l"
      using i room [of 0] by auto
  qed
  moreover have "reads_wf ?T ?C ?R"
    unfolding reads_wf_def live
  proof (intro allI impI)
    fix x a lr u
    assume "(x, a, lr, u) \<in> set ?R"
    then obtain u' where "(x, a, lr, u') \<in> set R" "u = (if x = th \<and> 0 < u' \<and> lr < i then max (u' - 1) 0 else u')"
      by (auto simp: drop_reads_def split: if_splits)
    moreover from this(1) have "0 \<le> u'" "u' \<le> live x lr C" "placed T x lr"
      using wf unfolding counts_wf_def reads_wf_def by blast+
    ultimately show "0 \<le> u \<and> u \<le> live x lr C - (if x = th \<and> lr < i then 1 else 0) \<and> placed ?T x lr"
      using grow room [of lr] by (auto split: if_splits)
  qed
  ultimately show ?thesis
    by (simp add: counts_wf_def)
qed

section \<open>The invariant of the tables\<close>

definition tkey :: "thread_row \<Rightarrow> str \<times> int \<times> int" where
  "tkey t = (t_id t, t_comment_count t, t_last_comment_index t)"

definition ckey :: "comment_row \<Rightarrow> str \<times> str \<times> int \<times> bool" where
  "ckey c = (co_id c, co_thread_id c, co_index c, co_deleted_at c = None)"

definition rkey :: "thread_read_row \<Rightarrow> str \<times> str \<times> int \<times> int" where
  "rkey r = (r_thread_id r, r_account_id r, r_last_read r, r_unread r)"

definition mkey :: "channel_member_row \<Rightarrow> str \<times> str" where
  "mkey m = (m_channel_id m, m_account_id m)"

definition counts_view :: "world \<Rightarrow> tkeys \<times> ckeys \<times> rkeys \<times> (str \<times> str) list" where
  "counts_view s = (map tkey (threads s), map ckey (comments s), map rkey (thread_reads s),
                    map mkey (channel_members s))"

definition counts_ok :: "world \<Rightarrow> bool" where
  "counts_ok s \<longleftrightarrow> (case counts_view s of (T, C, R, M) \<Rightarrow> counts_wf T C R \<and> distinct M)"

lemma counts_okD:
  "counts_ok s \<Longrightarrow> counts_wf (map tkey (threads s)) (map ckey (comments s)) (map rkey (thread_reads s))"
  "counts_ok s \<Longrightarrow> distinct (map mkey (channel_members s))"
  by (simp_all add: counts_ok_def counts_view_def)

lemma counts_okI:
  "counts_wf (map tkey (threads s)) (map ckey (comments s)) (map rkey (thread_reads s)) \<Longrightarrow>
     distinct (map mkey (channel_members s)) \<Longrightarrow> counts_ok s"
  by (simp add: counts_ok_def counts_view_def)

lemma keeps_counts_same: "same counts_view m \<Longrightarrow> keeps counts_ok m"
  unfolding counts_ok_def by (rule keeps_same)

lemma counts_view_blind [simp]: "blind counts_view"
  by (simp add: blind_def counts_view_def)

lemma live_comments_beyond: "live th i (map ckey cs) = comments_beyond th i cs"
  by (induction cs) (simp_all add: live_def comments_beyond_def ckey_def)

lemma live_undeleted:
  assumes "counts_ok s"
  shows "live th 0 (map ckey (comments s)) = undeleted_comments th s"
proof -
  have "1 \<le> co_index c" if c: "c \<in> set (comments s)" for c
  proof -
    have "ckey c \<in> set (map ckey (comments s))" using c by simp
    then show ?thesis
      using counts_okD(1) [OF assms] unfolding counts_wf_def comments_wf_def ckey_def by blast
  qed
  then show ?thesis
    unfolding live_comments_beyond comments_beyond_def undeleted_comments_def
    by (intro sql_count_cong) fastforce
qed

text \<open>What a reader's row may be replaced by.\<close>

lemma reads_upsert:
  assumes ok: "counts_ok s" and thread: "(r_thread_id r, n, l) \<in> set (map tkey (threads s))"
    and r: "0 \<le> r_unread r" "r_unread r \<le> comments_beyond (r_thread_id r) (r_last_read r) (comments s)"
      "r_last_read r \<le> l"
    and f: "\<And>q. q \<in> set (thread_reads s) \<Longrightarrow> same_read r q \<Longrightarrow>
      same_read r (f q) \<and> (rkey (f q) = rkey q \<or>
        0 \<le> r_unread (f q) \<and> r_last_read (f q) \<le> l
        \<and> r_unread (f q) \<le> comments_beyond (r_thread_id r) (r_last_read (f q)) (comments s))"
  shows "counts_ok (s\<lparr>thread_reads := sql_upsert (same_read r) f r (thread_reads s)\<rparr>)"
proof -
  let ?R = "sql_upsert (same_read r) f r (thread_reads s)" and ?k = "\<lambda>r. (r_thread_id r, r_account_id r)"
  note wf = counts_okD(1) [OF ok]
  have dist: "distinct (map ?k (thread_reads s))"
    using wf by (simp add: counts_wf_def keys_wf_def rkey_def comp_def)
  have keep: "?k (f q) = ?k q" if "q \<in> set (thread_reads s)" "same_read r q" for q
    using f [OF that] that by (simp add: same_read_def)
  have "distinct (map ?k ?R)"
  proof (cases "list_ex (same_read r) (thread_reads s)")
    case True
    then have "map ?k ?R = map ?k (thread_reads s)"
      using keep by (auto simp: sql_upsert_def sql_update_def)
    with dist show ?thesis by simp
  next
    case False
    with dist show ?thesis
      by (auto simp: sql_upsert_def list_ex_iff same_read_def)
  qed
  then have "distinct (map (\<lambda>(th, a, _, _). (th, a)) (map rkey ?R))"
    by (simp add: rkey_def comp_def)
  moreover have "(th, a, lr, u) \<in> set (map rkey (thread_reads s))
      \<or> 0 \<le> u \<and> u \<le> live th lr (map ckey (comments s)) \<and> placed (map tkey (threads s)) th lr"
    if x: "(th, a, lr, u) \<in> set (map rkey ?R)" for th a lr u
  proof -
    from x obtain q where q: "q \<in> set ?R" "rkey q = (th, a, lr, u)"
      by (metis (mono_tags) image_iff list.set_map)
    from q(1) consider "q \<in> set (thread_reads s)" | "q = r"
      | q' where "q' \<in> set (thread_reads s)" "same_read r q'" "q = f q'"
      by (auto simp: in_sql_upsert split: if_splits)
    then show ?thesis
    proof cases
      case 1
      with q(2) show ?thesis by (metis image_eqI list.set_map)
    next
      case 2
      with q(2) r thread show ?thesis
        by (auto simp: rkey_def live_comments_beyond placed_def)
    next
      case 3
      show ?thesis
      proof (cases "rkey (f q') = rkey q'")
        case True
        with 3 q(2) show ?thesis by (metis image_eqI list.set_map)
      next
        case False
        with f [OF 3(1,2)] 3 q(2) thread show ?thesis
          by (auto simp: rkey_def live_comments_beyond placed_def same_read_def)
      qed
    qed
  qed
  ultimately have "counts_wf (map tkey (threads s)) (map ckey (comments s)) (map rkey ?R)"
    by (rule counts_wf_reads [OF wf])
  then show ?thesis
    using counts_okD(2) [OF ok] by (simp add: counts_okI)
qed


section \<open>A new comment\<close>

lemma tkey_touch:
  assumes "\<And>t. t \<in> set ts \<Longrightarrow> t_id t = th \<Longrightarrow> t_last_comment_index t + 1 = index"
  shows "map tkey (sql_update (\<lambda>t. t_id t = th)
     (\<lambda>t. t\<lparr>t_comment_count := t_comment_count t + 1, t_last_comment_index := index,
           t_last_activity_at := n, t_updated_at := n\<rparr>) ts) = bump_thread th (map tkey ts)"
  using assms by (induction ts) (auto simp: bump_thread_def tkey_def)

lemma thread_unique:
  assumes "counts_ok s" "t \<in> set (threads s)" "t' \<in> set (threads s)" "t_id t = t_id t'"
  shows "t = t'"
proof -
  have "distinct (map t_id (threads s))"
    using counts_okD(1) [OF assms(1)] by (simp add: counts_wf_def keys_wf_def tkey_def comp_def)
  then show ?thesis using assms by (blast dest: distinct_map_inj)
qed

lemma read_row_ok:
  assumes ok: "counts_ok s" and r: "r \<in> set (thread_reads s)"
  shows "0 \<le> r_unread r" "r_unread r \<le> comments_beyond (r_thread_id r) (r_last_read r) (comments s)"
    "\<exists>t\<in>set (threads s). t_id t = r_thread_id r \<and> r_last_read r \<le> t_last_comment_index t"
proof -
  have *: "(r_thread_id r, r_account_id r, r_last_read r, r_unread r) \<in> set (map rkey (thread_reads s))"
    using imageI [OF r, of rkey] by (simp add: rkey_def)
  note wf = counts_okD(1) [OF ok, unfolded counts_wf_def reads_wf_def live_comments_beyond]
  show "0 \<le> r_unread r" "r_unread r \<le> comments_beyond (r_thread_id r) (r_last_read r) (comments s)"
    using wf * by blast+
  have "placed (map tkey (threads s)) (r_thread_id r) (r_last_read r)"
    using wf * by blast
  then show "\<exists>t\<in>set (threads s). t_id t = r_thread_id r \<and> r_last_read r \<le> t_last_comment_index t"
    by (auto simp: placed_def tkey_def)
qed

lemma comment_placed:
  assumes "counts_ok s" "c \<in> set (comments s)"
  shows "1 \<le> co_index c \<and> (\<exists>t\<in>set (threads s). t_id t = co_thread_id c \<and> co_index c \<le> t_last_comment_index t)"
proof -
  have "(co_id c, co_thread_id c, co_index c, co_deleted_at c = None) \<in> set (map ckey (comments s))"
    using assms(2) by (force simp: ckey_def)
  with counts_okD(1) [OF assms(1)]
  have ix: "1 \<le> co_index c" and "placed (map tkey (threads s)) (co_thread_id c) (co_index c)"
    unfolding counts_wf_def comments_wf_def by blast+
  then obtain n l where "(co_thread_id c, n, l) \<in> tkey ` set (threads s)" "co_index c \<le> l"
    by (auto simp: placed_def)
  then obtain t where "t \<in> set (threads s)" "tkey t = (co_thread_id c, n, l)" by (metis imageE)
  with ix \<open>co_index c \<le> l\<close> show ?thesis
    by (intro conjI bexI [of _ t]) (simp_all add: tkey_def)
qed

lemma comments_beyond_nonneg [simp]: "0 \<le> comments_beyond th i cs"
  by (simp add: comments_beyond_def)

lemma bump_counts:
  assumes "counts_ok s" "(th, k, l) \<in> set (map tkey (threads s))" "distinct (map m_account_id ms)"
    and "\<And>r. r \<in> set (thread_reads s) \<Longrightarrow> r_thread_id r = th \<Longrightarrow> r_account_id r \<in> m_account_id ` set ms \<Longrightarrow>
      r_unread r + 1 \<le> comments_beyond th (r_last_read r) (comments s) \<and> r_last_read r \<le> l"
    and "0 \<le> count" "count \<le> comments_beyond th 0 (comments s)" "0 \<le> l"
  shows "wp (each (\<lambda>m. upsert_thread_read (\<lambda>r. r\<lparr>r_unread := r_unread r + 1\<rparr>)
       \<lparr>r_thread_id = th, r_account_id = m_account_id m, r_last_read = 0, r_unread = count,
        r_marked_unread_at = None, r_muted_until = None, r_saved_at = None\<rparr>) ms) (\<lambda>_. counts_ok) s"
  using assms
proof (induction ms arbitrary: s)
  case Nil
  then show ?case by (simp add: wp_simps)
next
  case (Cons m ms)
  let ?row = "\<lparr>r_thread_id = th, r_account_id = m_account_id m, r_last_read = 0, r_unread = count,
        r_marked_unread_at = None, r_muted_until = None, r_saved_at = None\<rparr>"
  let ?s = "s\<lparr>thread_reads := sql_upsert (same_read ?row) (\<lambda>r. r\<lparr>r_unread := r_unread r + 1\<rparr>) ?row (thread_reads s)\<rparr>"
  have ok: "counts_ok ?s"
  proof (rule reads_upsert [OF Cons.prems(1), of ?row k l])
    fix q
    assume q: "q \<in> set (thread_reads s)" "same_read ?row q"
    have "0 \<le> r_unread q" by (rule read_row_ok(1) [OF Cons.prems(1) q(1)])
    then show "same_read ?row (q\<lparr>r_unread := r_unread q + 1\<rparr>) \<and>
        (rkey (q\<lparr>r_unread := r_unread q + 1\<rparr>) = rkey q \<or>
         0 \<le> r_unread (q\<lparr>r_unread := r_unread q + 1\<rparr>) \<and> r_last_read (q\<lparr>r_unread := r_unread q + 1\<rparr>) \<le> l \<and>
         r_unread (q\<lparr>r_unread := r_unread q + 1\<rparr>)
           \<le> comments_beyond (r_thread_id ?row) (r_last_read (q\<lparr>r_unread := r_unread q + 1\<rparr>)) (comments s))"
      using q Cons.prems(4) [OF q(1)] by (simp add: same_read_def)
  qed (use Cons.prems in simp_all)
  have room: "r_unread r + 1 \<le> comments_beyond th (r_last_read r) (comments s) \<and> r_last_read r \<le> l"
    if r: "r \<in> set (thread_reads ?s)" "r_thread_id r = th" "r_account_id r \<in> m_account_id ` set ms" for r
  proof -
    have "r_account_id r \<noteq> m_account_id m" using r(3) Cons.prems(3) by auto
    then have "r \<in> set (thread_reads s)"
      using r(1) by (auto simp: in_sql_upsert same_read_def split: if_splits)
    then show ?thesis using r Cons.prems(4) by simp
  qed
  have "wp (each (\<lambda>m. upsert_thread_read (\<lambda>r. r\<lparr>r_unread := r_unread r + 1\<rparr>)
       \<lparr>r_thread_id = th, r_account_id = m_account_id m, r_last_read = 0, r_unread = count,
        r_marked_unread_at = None, r_muted_until = None, r_saved_at = None\<rparr>) ms) (\<lambda>_. counts_ok) ?s"
    using Cons.prems room by (intro Cons.IH [OF ok]) simp_all
  then show ?case
    by (simp add: wp_simps upsert_thread_read_def)
qed

definition comment_writes :: "str \<Rightarrow> str \<Rightarrow> str \<Rightarrow> str \<Rightarrow> int \<Rightarrow> int \<Rightarrow> str \<Rightarrow> str \<Rightarrow> unit wtx \<Rightarrow> unit wtx" where
  "comment_writes cid th ch a i k body n rest =
     thn (insert_comment_row cid th ch a i body n)
     (thn (touch_thread th i n) (thn (upsert_read_at th a i) (thn (bump_unread th ch a k) rest)))"

lemma comment_writes_counts:
  assumes ok: "counts_ok s" and row: "row \<in> set (threads s)"
    and rest: "keeps counts_ok rest"
  shows "wp (comment_writes cid (t_id row) ch a (t_last_comment_index row + 1) (t_comment_count row + 1)
     body n rest) (\<lambda>_. counts_ok) s"
proof -
  let ?th = "t_id row" and ?i = "t_last_comment_index row + 1"
  let ?c = "\<lparr>co_id = cid, co_thread_id = ?th, co_channel_id = ch, co_author_id = a, co_index = ?i,
     co_body = body, co_created_at = n, co_updated_at = n, co_edited_at = None, co_deleted_at = None\<rparr>"
  let ?ts = "sql_update (\<lambda>t. t_id t = ?th)
     (\<lambda>t. t\<lparr>t_comment_count := t_comment_count t + 1, t_last_comment_index := ?i,
           t_last_activity_at := n, t_updated_at := n\<rparr>) (threads s)"
  let ?s1 = "s\<lparr>comments := comments s @ [?c], threads := ?ts\<rparr>"
  let ?f = "\<lambda>r. r\<lparr>r_last_read := ?i, r_unread := 0\<rparr>"
  let ?r = "\<lparr>r_thread_id = ?th, r_account_id = a, r_last_read = ?i, r_unread = 0,
     r_marked_unread_at = None, r_muted_until = None, r_saved_at = None\<rparr>"
  let ?s2 = "?s1\<lparr>thread_reads := sql_upsert (same_read ?r) ?f ?r (thread_reads s)\<rparr>"
  let ?ms = "filter (\<lambda>m. m_channel_id m = ch \<and> m_account_id m \<noteq> a) (channel_members s)"
  have keys: "map tkey ?ts = bump_thread ?th (map tkey (threads s))"
    by (rule tkey_touch) (use thread_unique [OF ok row] in fastforce)
  have row_key: "(?th, t_comment_count row, t_last_comment_index row) \<in> set (map tkey (threads s))"
    using imageI [OF row, of tkey] by (simp add: tkey_def)
  then have T: "(?th, t_comment_count row + 1, ?i) \<in> set (map tkey ?ts)"
    unfolding keys by (simp add: in_bump_thread)
  have total: "t_comment_count row = comments_beyond ?th 0 (comments s)" "0 \<le> t_last_comment_index row"
    using counts_okD(1) [OF ok] row_key unfolding counts_wf_def totals_wf_def live_comments_beyond by blast+
  have beyond: "comments_beyond ?th j (comments s @ [?c]) = comments_beyond ?th j (comments s) + (if j < ?i then 1 else 0)" for j
    by (simp add: comments_beyond_def)
  have new: "counts_ok ?s1" if "\<forall>q\<in>set (comments s). co_id q \<noteq> cid"
  proof (rule counts_okI)
    have "cid \<notin> fst ` set (map ckey (comments s))"
      using that by (auto simp: ckey_def)
    from counts_wf_new_comment [OF counts_okD(1) [OF ok] row_key this]
    show "counts_wf (map tkey (threads ?s1)) (map ckey (comments ?s1)) (map rkey (thread_reads ?s1))"
      by (simp add: keys ckey_def)
  qed (use counts_okD(2) [OF ok] in simp)
  have read: "counts_ok ?s2" if "\<forall>q\<in>set (comments s). co_id q \<noteq> cid"
    using reads_upsert [OF new [OF that], of ?r "t_comment_count row + 1" ?i ?f] T
    by (simp add: same_read_def comments_beyond_def)
  have room: "r_unread r + 1 \<le> comments_beyond ?th (r_last_read r) (comments ?s2) \<and> r_last_read r \<le> ?i"
    if r: "r \<in> set (thread_reads ?s2)" "r_thread_id r = ?th" "r_account_id r \<in> m_account_id ` set ?ms" for r
  proof -
    have "r \<in> set (thread_reads s)"
      using r by (auto simp: in_sql_upsert same_read_def split: if_splits)
    note q = read_row_ok(2,3) [OF ok this]
    from q(2) have "r_last_read r \<le> t_last_comment_index row"
      using r(2) thread_unique [OF ok row] by metis
    with q(1) r(2) show ?thesis by (simp add: beyond)
  qed
  have dist: "distinct (map m_account_id ?ms)"
  proof -
    have "distinct (map mkey ?ms)" using counts_okD(2) [OF ok] by (rule distinct_map_filter)
    moreover have "map mkey ?ms = map (\<lambda>x. (ch, x)) (map m_account_id ?ms)"
      unfolding map_map by (rule map_cong [OF refl]) (simp add: mkey_def)
    ultimately have "distinct (map (\<lambda>x. (ch, x)) (map m_account_id ?ms))"
      by (simp only:)
    then show ?thesis by (simp only: distinct_map)
  qed
  have "wp (bump_unread ?th ch a (t_comment_count row + 1)) (\<lambda>_. counts_ok) ?s2"
    if "\<forall>q\<in>set (comments s). co_id q \<noteq> cid"
    unfolding bump_unread_def wp_bnd wp_gets
    by (rule bump_counts [OF read [OF that], where k = "t_comment_count row + 1" and l = ?i])
      (use T total beyond room dist in simp_all)
  then have "wp (bump_unread ?th ch a (t_comment_count row + 1)) (\<lambda>_. wp rest (\<lambda>_. counts_ok)) ?s2"
    if "\<forall>q\<in>set (comments s). co_id q \<noteq> cid"
    by (rule wp_mono) (use that keepsD [OF rest] in auto)
  then show ?thesis
    by (simp add: comment_writes_def insert_comment_row_def insert_comment_def touch_thread_def
        upsert_read_at_def upsert_thread_read_def wp_simps)
qed


section \<open>Every handler keeps the counters\<close>

text \<open>Statements that touch the tables but not their key columns.\<close>

lemma counts_modify:
  "(\<And>s. counts_view (f s) = counts_view s) \<Longrightarrow> keeps counts_ok (modify f)"
  by (rule keeps_counts_same, rule same_modify)

lemma tkey_set_flag [simp]: "tkey ((set_flag flag v t)\<lparr>t_updated_at := n\<rparr>) = tkey t"
  by (cases flag) (simp_all add: set_flag_def tkey_def)

lemma counts_edit_thread: "keeps counts_ok (edit_thread E a t ti b)"
  unfolding edit_thread_def Let_def
  by (rule keeps_counts_same, intro same_intros)
    (simp_all add: blind_simps counts_view_def map_sql_update tkey_def blindD [OF counts_view_blind])

lemma counts_rename_thread: "keeps counts_ok (rename_thread E a t ti)"
  unfolding rename_thread_def Let_def
  by (rule keeps_counts_same, intro same_intros)
    (simp_all add: blind_simps counts_view_def map_sql_update tkey_def blindD [OF counts_view_blind])

lemma counts_update_thread_flag: "keeps counts_ok (update_thread_flag E a t flag b)"
  unfolding update_thread_flag_def Let_def
  by (rule keeps_counts_same, intro same_intros)
    (simp_all add: blind_simps counts_view_def map_sql_update)

lemma counts_update_comment_body: "keeps counts_ok (update_comment_body E a t i b)"
  unfolding update_comment_body_def Let_def
  by (rule keeps_counts_same, intro same_intros)
    (simp_all add: blind_simps counts_view_def map_sql_update ckey_def)

lemmas counts_frame_defs = set_comment_saved_def open_dm_def send_dm_def update_dm_body_def
  soft_delete_dm_def set_dm_message_saved_def set_conversation_muted_def set_conversation_saved_def
  mark_conversation_read_def mark_conversation_unread_def insert_defs

lemma counts_dm:
  "keeps counts_ok (set_comment_saved E a t i v)" "keeps counts_ok (open_dm E a u)"
  "keeps counts_ok (send_dm E a c b)" "keeps counts_ok (update_dm_body E a c i b)"
  "keeps counts_ok (soft_delete_dm E a c i)" "keeps counts_ok (set_dm_message_saved E a c i v)"
  "keeps counts_ok (set_conversation_muted E a c h)" "keeps counts_ok (set_conversation_saved E a c v)"
  "keeps counts_ok (mark_conversation_read E a c)" "keeps counts_ok (mark_conversation_unread E a c)"
  unfolding counts_frame_defs Let_def
  by (rule keeps_counts_same, intro same_intros; simp add: counts_view_def blind_def)+

text \<open>A thread that starts, with its creator's row.\<close>

lemma counts_create_thread: "keeps counts_ok (create_thread E a c ti)"
proof -
  have start: "wp (insert_thread t) (\<lambda>_. wp (upsert_read_at (t_id t) x 0) (\<lambda>_. counts_ok)) s"
    if ok: "counts_ok s" and t: "t_comment_count t = 0" "t_last_comment_index t = 0" for t x s
  proof -
    have "counts_ok (s\<lparr>threads := threads s @ [t]\<rparr>)" if new: "\<forall>q\<in>set (threads s). t_id q \<noteq> t_id t"
    proof (rule counts_okI)
      have "t_id t \<notin> fst ` set (map tkey (threads s))"
        using new by (auto simp: tkey_def)
      from counts_wf_new_thread [OF counts_okD(1) [OF ok] this]
      show "counts_wf (map tkey (threads (s\<lparr>threads := threads s @ [t]\<rparr>))) (map ckey (comments (s\<lparr>threads := threads s @ [t]\<rparr>)))
          (map rkey (thread_reads (s\<lparr>threads := threads s @ [t]\<rparr>)))"
        using t by (simp add: tkey_def)
    qed (use counts_okD(2) [OF ok] in simp)
    from reads_upsert [OF this, of "\<lparr>r_thread_id = t_id t, r_account_id = x, r_last_read = 0, r_unread = 0,
        r_marked_unread_at = None, r_muted_until = None, r_saved_at = None\<rparr>" 0 0
        "\<lambda>r. r\<lparr>r_last_read := 0, r_unread := 0\<rparr>"] t
    show ?thesis
      by (auto simp: insert_thread_def upsert_read_at_def upsert_thread_read_def wp_simps same_read_def tkey_def)
  qed
  have rest: "keeps counts_ok (bnd (channel_slug_of c) (\<lambda>sl. thn (thread_created E a i c sl ti b n) (ret i)))" for i ti b n
    by (rule keeps_counts_same, intro same_intros) simp
  have tail: "keeps counts_ok (thn (insert_thread
        \<lparr>t_id = i, t_channel_id = c, t_creator_id = a, t_title = tt, t_name_key = k, t_body = b,
         t_comment_count = 0, t_last_comment_index = 0, t_last_activity_at = n, t_created_at = n,
         t_updated_at = n, t_edited_at = None, t_archived_at = None, t_pinned_at = None, t_deleted_at = None\<rparr>)
        (thn (upsert_read_at i a 0) (bnd (channel_slug_of c) (\<lambda>sl. thn (thread_created E a i c sl tt b n) (ret i)))))"
    (is "keeps _ (thn (insert_thread ?t) _)") for i tt k b n
    unfolding keeps_def wp_thn
    by (intro allI impI wp_mono [OF start [of _ ?t a, simplified]])
      (auto intro: wp_mono keepsD [OF rest])
  show ?thesis
    unfolding create_thread_def Let_def
    by (intro tail keeps_intros; rule keeps_counts_same, intro same_intros; simp add: blind_simps counts_view_def)
qed

lemma counts_add_comment: "keeps counts_ok (add_comment E a t b)"
proof -
  have rest: "keeps counts_ok (bnd (fetch_one threads (\<lambda>x. t_id x = th)) (\<lambda>x. bnd (channel_slug_of c) (\<lambda>sl.
      comment_created E a i c sl th (t_title x) k body n)))" for c i k body n th
    by (rule keeps_counts_same, intro same_intros) simp
  have view: "same (\<lambda>s. (counts_ok s, threads s)) (ensure_can_view_channel a c)" for c
    by (intro same_intros)
  have tick: "counts_ok (s\<lparr>tick := n\<rparr>) = counts_ok s" for s n
    by (simp add: counts_ok_def counts_view_def)
  show ?thesis
    unfolding add_comment_def Let_def comment_writes_def [symmetric] keeps_def wp_simps
    by (intro impI conjI allI TrueI wp_same [OF view])
      (auto simp: tick dest!: fetch_last_SomeD intro!: comment_writes_counts [OF _ _ rest])
qed

section \<open>A comment that goes\<close>

lemma delete_writes_counts:
  assumes ok: "counts_ok s" and c: "c \<in> set (comments s)" "co_deleted_at c = None"
  shows "counts_ok (s\<lparr>comments := sql_update (\<lambda>x. co_id x = co_id c)
            (\<lambda>x. x\<lparr>co_deleted_at := Some n, co_updated_at := n\<rparr>) (comments s),
          threads := sql_update (\<lambda>t. t_id t = co_thread_id c)
            (\<lambda>t. t\<lparr>t_comment_count := max (t_comment_count t - 1) 0, t_updated_at := n\<rparr>) (threads s),
          thread_reads := sql_update (\<lambda>r. r_thread_id r = co_thread_id c \<and> 0 < r_unread r \<and> r_last_read r < co_index c)
            (\<lambda>r. r\<lparr>r_unread := max (r_unread r - 1) 0\<rparr>) (thread_reads s)\<rparr>)"
    (is "counts_ok ?s")
proof (rule counts_okI)
  have C: "map ckey (sql_update (\<lambda>x. co_id x = co_id c) (\<lambda>x. x\<lparr>co_deleted_at := Some n, co_updated_at := n\<rparr>) cs)
      = kill (co_id c) (map ckey cs)" for cs
    by (induction cs) (auto simp: kill_def ckey_def)
  have T: "map tkey (sql_update (\<lambda>t. t_id t = co_thread_id c)
      (\<lambda>t. t\<lparr>t_comment_count := max (t_comment_count t - 1) 0, t_updated_at := n\<rparr>) ts) = drop_thread (co_thread_id c) (map tkey ts)" for ts
    by (induction ts) (auto simp: drop_thread_def tkey_def)
  have R: "map rkey (sql_update (\<lambda>r. r_thread_id r = co_thread_id c \<and> 0 < r_unread r \<and> r_last_read r < co_index c)
      (\<lambda>r. r\<lparr>r_unread := max (r_unread r - 1) 0\<rparr>) rs) = drop_reads (co_thread_id c) (co_index c) (map rkey rs)" for rs
    by (induction rs) (auto simp: drop_reads_def rkey_def)
  have "(co_id c, co_thread_id c, co_index c, True) \<in> set (map ckey (comments s))"
    using imageI [OF c(1), of ckey] c(2) by (simp add: ckey_def)
  from counts_wf_delete_comment [OF counts_okD(1) [OF ok] this]
  show "counts_wf (map tkey (threads ?s)) (map ckey (comments ?s)) (map rkey (thread_reads ?s))"
    by (simp add: C T R)
qed (use counts_okD(2) [OF ok] in simp)

lemma counts_soft_delete_comment: "keeps counts_ok (soft_delete_comment E a t i)"
proof -
  have rest: "keeps counts_ok (thn (delete_search_index_tx SComment j) (thn (delete_labels_tx SComment j)
      (thn (insert_audit E au ac tg md) (log_event E ch th cv k pl))))" for j au ac tg md ch th cv k pl
    by (rule keeps_counts_same, intro same_intros) (simp_all add: counts_view_def)
  have view: "same (\<lambda>s. (counts_ok s, comments s)) (ensure_can_view_channel a c)"
    "same (\<lambda>s. (counts_ok s, comments s)) (load_comment_meta_tx t i)"
    "same (\<lambda>s. (counts_ok s, comments s)) (ensure_own_or_moderator a c au m)" for c au m
    by (intro same_intros)+
  have tick: "counts_ok (s\<lparr>tick := n\<rparr>) = counts_ok s" for s n
    by (simp add: counts_ok_def counts_view_def)
  have del: "counts_ok (s\<lparr>tick := k, comments := sql_update (\<lambda>x. co_id x = co_id c)
            (\<lambda>x. x\<lparr>co_deleted_at := Some n, co_updated_at := n\<rparr>) cs,
          threads := sql_update (\<lambda>t. t_id t = th)
            (\<lambda>t. t\<lparr>t_comment_count := max (t_comment_count t - 1) 0, t_updated_at := n\<rparr>) (threads s),
          thread_reads := sql_update (\<lambda>r. r_thread_id r = th \<and> 0 < r_unread r \<and> r_last_read r < j)
            (\<lambda>r. r\<lparr>r_unread := max (r_unread r - 1) 0\<rparr>) (thread_reads s)\<rparr>)"
    if "counts_ok s" "c \<in> set cs" "co_deleted_at c = None" "cs = comments s"
      "co_thread_id c = th" "co_index c = j" for s c n k cs th j
    using delete_writes_counts [of "s\<lparr>tick := k\<rparr>" c n] that by (simp add: tick)
  show ?thesis
    unfolding soft_delete_comment_def keeps_def wp_simps mark_comment_deleted_def uncount_comment_def
      uncount_unread_def
    by (intro impI conjI allI TrueI wp_same [OF view(1)] wp_same [OF view(3)])
      (auto intro!: keepsD [OF rest, unfolded wp_thn] del dest!: fetch_last_SomeD)
qed

section \<open>Readers\<close>

lemma reads_ok_upsert:
  assumes "counts_ok s" "t \<in> set (threads s)" "t_id t = r_thread_id r"
    "0 \<le> r_unread r" "r_unread r \<le> comments_beyond (r_thread_id r) (r_last_read r) (comments s)"
    "r_last_read r \<le> t_last_comment_index t"
    and f: "\<And>q. r_thread_id (f q) = r_thread_id q \<and> r_account_id (f q) = r_account_id q"
      "\<And>q. rkey (f q) = rkey q \<or> r_unread (f q) = r_unread r \<and> r_last_read (f q) = r_last_read r"
  shows "wp (upsert_thread_read f r) (\<lambda>_. counts_ok) s"
proof -
  have "(r_thread_id r, t_comment_count t, t_last_comment_index t) \<in> set (map tkey (threads s))"
    using imageI [OF assms(2), of tkey] assms(3) by (simp add: tkey_def)
  then have "counts_ok (s\<lparr>thread_reads := sql_upsert (same_read r) f r (thread_reads s)\<rparr>)"
  proof (rule reads_upsert [OF assms(1) _ assms(4-6)])
    fix q
    assume "same_read r q"
    then show "same_read r (f q) \<and> (rkey (f q) = rkey q \<or> 0 \<le> r_unread (f q)
        \<and> r_last_read (f q) \<le> t_last_comment_index t
        \<and> r_unread (f q) \<le> comments_beyond (r_thread_id r) (r_last_read (f q)) (comments s))"
      using f(1) [of q] f(2) [of q] assms(4-6) by (auto simp: same_read_def)
  qed
  then show ?thesis
    by (simp add: upsert_thread_read_def wp_simps)
qed

lemma thread_row_facts:
  assumes "counts_ok s" "t \<in> set (threads s)"
  shows "0 \<le> t_last_comment_index t" "t_comment_count t = undeleted_comments (t_id t) s"
proof -
  have "(t_id t, t_comment_count t, t_last_comment_index t) \<in> set (map tkey (threads s))"
    using imageI [OF assms(2), of tkey] by (simp add: tkey_def)
  then have "t_comment_count t = live (t_id t) 0 (map ckey (comments s)) \<and> 0 \<le> t_last_comment_index t"
    using counts_okD(1) [OF assms(1)] unfolding counts_wf_def totals_wf_def by blast
  then show "0 \<le> t_last_comment_index t" "t_comment_count t = undeleted_comments (t_id t) s"
    using live_undeleted [OF assms(1)] by simp_all
qed

lemma undeleted_beyond: "counts_ok s \<Longrightarrow> undeleted_comments th s = comments_beyond th 0 (comments s)"
  using live_undeleted live_comments_beyond by metis

lemma counts_tick [simp]: "counts_ok (s\<lparr>tick := n\<rparr>) = counts_ok s"
  by (simp add: counts_ok_def counts_view_def)

text \<open>A handler that knows its thread: the fact survives the guards.\<close>

definition counts_at :: "str \<Rightarrow> world \<Rightarrow> bool" where
  "counts_at th s \<longleftrightarrow> counts_ok s \<and> th \<in> t_id ` set (threads s)"

lemma wp_load_thread_at:
  assumes "counts_ok s" "\<And>m. counts_at th s \<Longrightarrow> Q m s"
  shows "wp (load_thread_meta_tx th) Q s"
  using assms by (auto simp: wp_load_thread_meta_tx counts_at_def dest!: fetch_last_SomeD)

lemma counts_upsert_thread_read_state:
  assumes "counts_at th s"
  shows "wp (upsert_thread_read_state a th b m d v) (\<lambda>_. counts_ok) s"
proof -
  obtain t where t: "t \<in> set (threads s)" "t_id t = th" "counts_ok s"
    using assms by (auto simp: counts_at_def)
  then show ?thesis
    unfolding upsert_thread_read_state_def Let_def wp_simps
    by (intro reads_ok_upsert [of _ t]) (simp_all add: undeleted_beyond thread_row_facts rkey_def)
qed

lemma keeps_counts_at:
  assumes "same (\<lambda>s. (counts_ok s, map t_id (threads s))) m"
  shows "keeps (counts_at th) m"
proof -
  have "counts_at th = (\<lambda>s. (\<lambda>(ok, ids). ok \<and> th \<in> set ids) (counts_ok s, map t_id (threads s)))"
    by (auto simp: counts_at_def fun_eq_iff)
  then show ?thesis
    using keeps_same [OF assms, of "\<lambda>(ok, ids). ok \<and> th \<in> set ids"] by simp
qed

lemma keeps_counts_guarded:
  assumes "\<And>m s. counts_at th s \<Longrightarrow> wp (f m) (\<lambda>_. counts_ok) s"
  shows "keeps counts_ok (bnd (load_thread_meta_tx th) f)"
  unfolding keeps_def wp_bnd by (intro allI impI wp_load_thread_at) (auto intro: assms)

lemma counts_at_step:
  "counts_at th s \<Longrightarrow> keeps (counts_at th) m \<Longrightarrow> (\<And>a s. counts_at th s \<Longrightarrow> wp (f a) (\<lambda>_. counts_ok) s) \<Longrightarrow>
     wp (bnd m f) (\<lambda>_. counts_ok) s"
  unfolding wp_bnd by (rule wp_keeps)

lemma counts_at_last:
  "counts_at th s \<Longrightarrow> wp m (\<lambda>_. counts_ok) s \<Longrightarrow> keeps counts_ok k \<Longrightarrow> wp (thn m k) (\<lambda>_. counts_ok) s"
  unfolding wp_thn by (erule wp_mono) (rule keepsD)

lemma counts_thread_reader:
  "keeps counts_ok (set_thread_muted E a t h)" "keeps counts_ok (set_thread_saved E a t v)"
  unfolding set_thread_muted_def set_thread_saved_def thn_def
  by (intro keeps_counts_guarded counts_at_step counts_at_last [unfolded thn_def]
      counts_upsert_thread_read_state keeps_counts_at keeps_counts_same same_intros;
      simp add: counts_view_def)+

lemma counts_at_fetch:
  assumes "counts_at t s"
    and "\<And>x. x \<in> set (threads s) \<Longrightarrow> t_id x = t \<Longrightarrow> counts_ok s \<Longrightarrow> wp (f x) (\<lambda>_. counts_ok) s"
  shows "wp (bnd (fetch_one threads (\<lambda>x. t_id x = t)) f) (\<lambda>_. counts_ok) s"
  using assms by (auto simp: wp_bnd wp_fetch_one counts_at_def dest!: fetch_last_SomeD)

lemma counts_mark_thread_read: "keeps counts_ok (mark_thread_read E a t)"
proof -
  have rest: "keeps counts_ok (bnd (now E) (\<lambda>n. thn (mark_notifications_read p n) (mark_mentions_read q n)))" for p q
    by (intro keeps_counts_same same_intros) (simp_all add: counts_view_def)
  show ?thesis
    unfolding mark_thread_read_def Let_def
  proof (intro keeps_counts_guarded, unfold thn_def [of "ensure_can_view_channel _ _"],
      erule counts_at_step, intro keeps_counts_at same_intros, erule counts_at_fetch)
    fix s x
    assume "x \<in> set (threads s)" "t_id x = t" "counts_ok s"
    then have "wp (upsert_thread_read
       (\<lambda>r. r\<lparr>r_last_read := t_last_comment_index x, r_unread := 0, r_marked_unread_at := None\<rparr>)
       \<lparr>r_thread_id = t, r_account_id = a, r_last_read = t_last_comment_index x,
        r_unread = 0, r_marked_unread_at = None, r_muted_until = None, r_saved_at = None\<rparr>) (\<lambda>_. counts_ok) s"
      by (intro reads_ok_upsert [of s x]) simp_all
    then show "wp (thn (upsert_thread_read
       (\<lambda>r. r\<lparr>r_last_read := t_last_comment_index x, r_unread := 0, r_marked_unread_at := None\<rparr>)
       \<lparr>r_thread_id = t, r_account_id = a, r_last_read = t_last_comment_index x,
        r_unread = 0, r_marked_unread_at = None, r_muted_until = None, r_saved_at = None\<rparr>)
       (bnd (now E) (\<lambda>n. thn (mark_notifications_read (\<lambda>r. n_account_id r = a \<and> n_thread_id r = Some t) n)
          (mark_mentions_read (\<lambda>r. mn_target_id r = a \<and> mn_thread_id r = Some t) n)))) (\<lambda>_. counts_ok) s"
      unfolding wp_thn by (rule wp_mono) (rule keepsD [OF rest, unfolded wp_thn])
  qed
qed

lemma counts_mark_thread_unread: "keeps counts_ok (mark_thread_unread E a t)"
  unfolding mark_thread_unread_def Let_def
proof (intro keeps_counts_guarded, unfold thn_def,
    erule counts_at_step, intro keeps_counts_at same_intros, erule counts_at_fetch, unfold wp_simps)
  fix s x
  assume x: "x \<in> set (threads s)" "t_id x = t" "counts_ok s"
  let ?i = "t_last_comment_index x - 1"
  show "wp (upsert_thread_read
       (\<lambda>r. r\<lparr>r_last_read := ?i, r_unread := comments_beyond t ?i (comments s), r_marked_unread_at := Some (e_now E (tick s))\<rparr>)
       \<lparr>r_thread_id = t, r_account_id = a, r_last_read = ?i, r_unread = comments_beyond t ?i (comments s),
        r_marked_unread_at = Some (e_now E (tick s)), r_muted_until = None, r_saved_at = None\<rparr>)
     (\<lambda>_. counts_ok) (s\<lparr>tick := Suc (tick s)\<rparr>)"
    using x by (intro reads_ok_upsert [of _ x]) simp_all
qed

lemmas counts_messages = counts_create_thread counts_add_comment counts_edit_thread counts_rename_thread
  counts_update_thread_flag counts_update_comment_body counts_soft_delete_comment counts_thread_reader
  counts_mark_thread_read counts_mark_thread_unread counts_dm

end
