(* ===== verification/Conversations.thy ===== *)
theory Conversations
  imports Counters
begin

text \<open>
  Direct messages: the unread counter of each participant is exactly the number of
  messages beyond the last one read, a conversation is found again by the key of its two
  participants, and it always has exactly those two.
\<close>

section \<open>The key of a pair\<close>

definition plain_id :: "str \<Rightarrow> bool" where
  "plain_id i \<longleftrightarrow> 58 \<notin> set i"

lemma dm_key_commute: "dm_key a b = dm_key b a"
  by (auto simp: dm_key_def)

lemma split_at_colon:
  "plain_id a \<Longrightarrow> plain_id c \<Longrightarrow> a @ 58 # b = c @ 58 # d \<longleftrightarrow> a = c \<and> b = d"
proof (induction a arbitrary: c)
  case Nil
  then show ?case by (cases c) (auto simp: plain_id_def)
next
  case (Cons x a)
  then show ?case by (cases c) (auto simp: plain_id_def)
qed

lemma dm_key_inject:
  assumes "plain_id a" "plain_id b" "plain_id c" "plain_id d"
  shows "dm_key a b = dm_key c d \<longleftrightarrow> (a = c \<and> b = d) \<or> (a = d \<and> b = c)"
proof -
  have "lit '':'' = [58]" by (simp add: lit_def)
  then have key: "dm_key x y = (if x \<le> y then x @ 58 # y else y @ 58 # x)" for x y
    by (simp add: dm_key_def)
  show ?thesis
    using assms by (cases "a \<le> b"; cases "c \<le> d") (auto simp: key split_at_colon)
qed

section \<open>The invariant\<close>

type_synonym vkeys = "(str \<times> str \<times> int) list"

definition reaches :: "vkeys \<Rightarrow> str \<Rightarrow> int \<Rightarrow> bool" where
  "reaches V cv i \<longleftrightarrow> (\<exists>k l. (cv, k, l) \<in> set V \<and> i \<le> l)"

definition takes_part :: "rkeys \<Rightarrow> str \<Rightarrow> str \<Rightarrow> bool" where
  "takes_part M cv a \<longleftrightarrow> (\<exists>lr u. (cv, a, lr, u) \<in> set M)"

definition pair_wf :: "vkeys \<Rightarrow> rkeys \<Rightarrow> bool" where
  "pair_wf V M \<longleftrightarrow> (\<forall>cv k l. (cv, k, l) \<in> set V \<longrightarrow> 0 \<le> l \<and>
     (\<exists>a b. k = dm_key a b \<and> plain_id a \<and> plain_id b \<and> (\<forall>x. takes_part M cv x \<longleftrightarrow> x = a \<or> x = b)))"

definition sent_wf :: "vkeys \<Rightarrow> ckeys \<Rightarrow> bool" where
  "sent_wf V D \<longleftrightarrow> (\<forall>d cv i al. (d, cv, i, al) \<in> set D \<longrightarrow> 1 \<le> i \<and> reaches V cv i)"

definition unread_wf :: "vkeys \<Rightarrow> ckeys \<Rightarrow> rkeys \<Rightarrow> bool" where
  "unread_wf V D M \<longleftrightarrow> (\<forall>cv a lr u. (cv, a, lr, u) \<in> set M \<longrightarrow> u = live cv lr D \<and> reaches V cv lr)"

definition dm_wf :: "vkeys \<Rightarrow> ckeys \<Rightarrow> rkeys \<Rightarrow> bool" where
  "dm_wf V D M \<longleftrightarrow> distinct (map fst V) \<and> distinct (map fst D) \<and> pair_wf V M \<and> sent_wf V D
     \<and> unread_wf V D M"

definition vkey :: "conversation_row \<Rightarrow> str \<times> str \<times> int" where
  "vkey v = (v_id v, v_dm_key v, v_last_index v)"

definition dkey :: "message_row \<Rightarrow> str \<times> str \<times> int \<times> bool" where
  "dkey d = (d_id d, d_conversation_id d, d_index d, d_deleted_at d = None)"

definition vmkey :: "conversation_member_row \<Rightarrow> str \<times> str \<times> int \<times> int" where
  "vmkey m = (vm_conversation_id m, vm_account_id m, vm_last_read m, vm_unread m)"

definition dm_view :: "world \<Rightarrow> vkeys \<times> ckeys \<times> rkeys \<times> str list" where
  "dm_view s = (map vkey (conversations s), map dkey (messages s),
                map vmkey (conversation_members s), map a_id (accounts s))"

definition dm_ok :: "world \<Rightarrow> bool" where
  "dm_ok s \<longleftrightarrow> (case dm_view s of (V, D, M, A) \<Rightarrow> dm_wf V D M \<and> list_all plain_id A)"

lemma dm_okD:
  "dm_ok s \<Longrightarrow> dm_wf (map vkey (conversations s)) (map dkey (messages s)) (map vmkey (conversation_members s))"
  "dm_ok s \<Longrightarrow> a \<in> set (accounts s) \<Longrightarrow> plain_id (a_id a)"
  by (auto simp: dm_ok_def dm_view_def list_all_iff)

lemma dm_okI:
  "dm_wf (map vkey (conversations s)) (map dkey (messages s)) (map vmkey (conversation_members s)) \<Longrightarrow>
     (\<And>a. a \<in> set (accounts s) \<Longrightarrow> plain_id (a_id a)) \<Longrightarrow> dm_ok s"
  by (auto simp: dm_ok_def dm_view_def list_all_iff)

lemma keeps_dm_same: "same dm_view m \<Longrightarrow> keeps dm_ok m"
  unfolding dm_ok_def by (rule keeps_same)

lemma dm_view_blind [simp]: "blind dm_view"
  by (simp add: blind_def dm_view_def)

lemma dm_tick [simp]: "dm_ok (s\<lparr>tick := n\<rparr>) = dm_ok s"
  by (simp add: dm_ok_def dm_view_def)

lemma live_messages_beyond: "live cv i (map dkey ds) = messages_beyond cv i ds"
  by (induction ds) (simp_all add: live_def messages_beyond_def dkey_def)

lemma takes_part_rows:
  "takes_part (map vmkey ms) cv a \<longleftrightarrow> (\<exists>m\<in>set ms. is_conversation_member cv a m)"
proof
  assume "takes_part (map vmkey ms) cv a"
  then obtain m where "m \<in> set ms" "vm_conversation_id m = cv" "vm_account_id m = a"
    by (auto simp: takes_part_def vmkey_def)
  then show "\<exists>m\<in>set ms. is_conversation_member cv a m"
    by (auto simp: is_conversation_member_def)
next
  assume "\<exists>m\<in>set ms. is_conversation_member cv a m"
  then obtain m where "m \<in> set ms" "is_conversation_member cv a m" by blast
  then show "takes_part (map vmkey ms) cv a"
    using imageI [of m "set ms" vmkey] by (auto simp: takes_part_def vmkey_def is_conversation_member_def)
qed

section \<open>A conversation that starts\<close>

lemma dm_wf_open:
  assumes wf: "dm_wf V D M" and new: "cv \<notin> fst ` set V" and plain: "plain_id a" "plain_id b"
  shows "dm_wf (V @ [(cv, dm_key a b, 0)]) D (M @ [(cv, a, 0, 0), (cv, b, 0, 0)])"
proof -
  let ?V = "V @ [(cv, dm_key a b, 0)]" and ?M = "M @ [(cv, a, 0, 0), (cv, b, 0, 0)]"
  have none: "\<not> reaches V cv i" for i
    using new by (force simp: reaches_def)
  have grow: "reaches V x i \<Longrightarrow> reaches ?V x i" "reaches ?V cv 0" for x i
    by (auto simp: reaches_def)
  have nomsg: "(d, cv, i, al) \<notin> set D" for d i al
    using wf none unfolding dm_wf_def sent_wf_def by blast
  then have live: "live cv 0 D = 0"
    unfolding live_def sql_count_zero by auto
  have nomem: "(cv, x, lr, u) \<notin> set M" for x lr u
    using wf none unfolding dm_wf_def unread_wf_def by blast
  then have part: "takes_part ?M cv' x \<longleftrightarrow> (if cv' = cv then x = a \<or> x = b else takes_part M cv' x)" for cv' x
    by (auto simp: takes_part_def)
  have "pair_wf ?V ?M"
    unfolding pair_wf_def
  proof (intro allI impI)
    fix cv' k l
    assume v: "(cv', k, l) \<in> set ?V"
    show "0 \<le> l \<and> (\<exists>a b. k = dm_key a b \<and> plain_id a \<and> plain_id b \<and> (\<forall>x. takes_part ?M cv' x \<longleftrightarrow> x = a \<or> x = b))"
    proof (cases "cv' = cv")
      case True
      have "(cv', k, l) \<notin> set V" using True new by force
      with v True plain show ?thesis by (auto simp: part)
    next
      case False
      with v have "(cv', k, l) \<in> set V" by auto
      with wf False show ?thesis unfolding dm_wf_def pair_wf_def by (simp add: part)
    qed
  qed
  moreover have "sent_wf ?V D" using wf grow unfolding dm_wf_def sent_wf_def by blast
  moreover have "unread_wf ?V D ?M"
    using wf grow live unfolding dm_wf_def unread_wf_def by auto
  ultimately show ?thesis
    using wf new by (auto simp: dm_wf_def)
qed

lemma upsert_member_present:
  "is_conversation_member cv a m \<Longrightarrow> m \<in> set (conversation_members s) \<Longrightarrow>
     wp (upsert_conversation_member (conversation_member cv a n)) Q s = Q () s"
proof -
  assume "is_conversation_member cv a m" "m \<in> set (conversation_members s)"
  then have "list_ex (same_conversation_member (conversation_member cv a n)) (conversation_members s)"
    by (auto simp: list_ex_iff same_conversation_member_def conversation_member_def is_conversation_member_def)
  then show ?thesis
    by (simp add: upsert_conversation_member_def wp_simps sql_upsert_def sql_update_def)
qed

definition participants :: "str \<Rightarrow> str \<Rightarrow> str \<Rightarrow> world \<Rightarrow> bool" where
  "participants cv a b s \<longleftrightarrow> (\<exists>m\<in>set (conversation_members s). is_conversation_member cv a m)
     \<and> (\<exists>m\<in>set (conversation_members s). is_conversation_member cv b m)"

lemma upsert_participants:
  "participants cv a b s \<Longrightarrow>
     wp (each (\<lambda>m. upsert_conversation_member (conversation_member cv m n)) [a, b]) Q s = Q () s"
  by (auto simp: participants_def wp_simps upsert_member_present)

text \<open>
  Opening finds the pair's conversation or starts one; in both cases the two are in it.
\<close>

lemma open_conversation_ok:
  assumes ok: "dm_ok s" and plain: "plain_id a" "plain_id b"
  shows "wp (open_conversation E a b n) (\<lambda>cv t. dm_ok t \<and> participants cv a b t
     \<and> (\<exists>v\<in>set (conversations t). v_id v = cv \<and> v_dm_key v = dm_key a b)) s"
proof (cases "fetch_last (\<lambda>c. v_dm_key c = dm_key a b) (conversations s)")
  case (Some v)
  then have v: "v \<in> set (conversations s)" "v_dm_key v = dm_key a b"
    by (auto dest: fetch_last_SomeD)
  then have "(v_id v, dm_key a b, v_last_index v) \<in> set (map vkey (conversations s))"
    using imageI [OF v(1), of vkey] by (simp add: vkey_def)
  then obtain c d where "dm_key a b = dm_key c d" "plain_id c" "plain_id d"
    "\<forall>x. takes_part (map vmkey (conversation_members s)) (v_id v) x \<longleftrightarrow> x = c \<or> x = d"
    using dm_okD(1) [OF ok] unfolding dm_wf_def pair_wf_def by blast
  then have "participants (v_id v) a b s"
    using dm_key_inject [of a b c d] plain by (auto simp: participants_def takes_part_rows)
  with Some v ok show ?thesis
    by (auto simp: open_conversation_def wp_simps)
next
  case None
  let ?cv = "e_id E (tick s)"
  let ?v = "\<lparr>v_id = ?cv, v_dm_key = dm_key a b, v_creator_id = a, v_last_index = 0,
     v_last_activity_at = n, v_created_at = n, v_archived_at = None\<rparr>"
  let ?t = "s\<lparr>tick := Suc (tick s), conversations := conversations s @ [?v],
     conversation_members := (conversation_members s @ [conversation_member ?cv a n]) @ [conversation_member ?cv b n]\<rparr>"
  have "dm_ok ?t" if "\<forall>q\<in>set (conversations s). v_id q \<noteq> ?cv"
  proof (rule dm_okI)
    have "?cv \<notin> fst ` set (map vkey (conversations s))"
      using that by (auto simp: vkey_def)
    from dm_wf_open [OF dm_okD(1) [OF ok] this plain]
    show "dm_wf (map vkey (conversations ?t)) (map dkey (messages ?t)) (map vmkey (conversation_members ?t))"
      by (simp add: vkey_def vmkey_def conversation_member_def)
  qed (use dm_okD(2) [OF ok] in simp)
  with None show ?thesis
    by (auto simp: open_conversation_def insert_conversation_def insert_conversation_member_def wp_simps
        participants_def conversation_member_def is_conversation_member_def)
qed

lemma dm_open_dm: "keeps dm_ok (open_dm E a u)"
proof -
  have rest: "wp (thn (each (\<lambda>m. upsert_conversation_member (conversation_member cv m n)) [a, b])
      (thn (log_event E ch th c k pl) (ret cv))) (\<lambda>_. dm_ok) t" if "dm_ok t" "participants cv a b t" for cv a b n ch th c k pl t
  proof -
    have "keeps dm_ok (thn (log_event E ch th c k pl) (ret cv))"
      by (intro keeps_dm_same same_intros) (simp add: dm_view_def)
    then show ?thesis
      unfolding wp_thn [of "each _ _"] upsert_participants [OF that(2)] using that(1) by (rule keepsD)
  qed
  have main: "wp (bnd (open_conversation E a (a_id r) n) (\<lambda>cv.
      thn (each (\<lambda>m. upsert_conversation_member (conversation_member cv m n)) [a, a_id r])
      (thn (log_event E None None (Some cv) (lit ''conversation.opened'') [(''conversation_id'', JStr cv)])
      (ret cv)))) (\<lambda>_. dm_ok) s"
    if "dm_ok s" "plain_id a" "plain_id (a_id r)" for s a r n
    unfolding wp_bnd by (rule wp_mono [OF open_conversation_ok [OF that]]) (use rest in blast)
  show ?thesis
    unfolding open_dm_def Let_def keeps_def wp_load_account_tx wp_thn [of "ensure _ _"] wp_ensure
      wp_bnd [of "load_account_tx _"] wp_bnd [of "gets _"] wp_gets wp_case_option wp_fail wp_bnd [of "now E"] wp_now
    by (auto dest!: fetch_last_SomeD intro!: main intro: dm_okD(2) simp del: each.simps)
qed

section \<open>Messages come and go\<close>

definition bump_conversation :: "str \<Rightarrow> vkeys \<Rightarrow> vkeys" where
  "bump_conversation cv V = map (\<lambda>(x, k, l). if x = cv then (x, k, l + 1) else (x, k, l)) V"

definition bump_members :: "str \<Rightarrow> str \<Rightarrow> int \<Rightarrow> rkeys \<Rightarrow> rkeys" where
  "bump_members cv a i M = map (\<lambda>(x, y, lr, u). if x = cv then (if y = a then (x, y, i, 0) else (x, y, lr, u + 1))
     else (x, y, lr, u)) M"

lemma fst_bump_conversation: "map fst (bump_conversation cv V) = map fst V"
  by (simp add: bump_conversation_def case_prod_unfold if_distrib cong: if_cong)

lemma in_bump_conversation:
  "(x, k, l) \<in> set (bump_conversation cv V) \<longleftrightarrow> (if x = cv then (x, k, l - 1) \<in> set V else (x, k, l) \<in> set V)"
  by (force simp: bump_conversation_def image_iff split: if_splits)

lemma takes_part_cong:
  assumes "map (\<lambda>(x, y, _, _). (x, y)) M' = map (\<lambda>(x, y, _, _). (x, y)) M"
  shows "takes_part M' x y = takes_part M x y"
proof -
  have "takes_part N x y \<longleftrightarrow> (x, y) \<in> set (map (\<lambda>(x, y, _, _). (x, y)) N)" for N
    by (force simp: takes_part_def)
  then show ?thesis by (simp only: assms)
qed

lemma takes_part_bump: "takes_part (bump_members cv a i M) x y = takes_part M x y"
  by (rule takes_part_cong) (simp add: bump_members_def case_prod_unfold if_distrib cong: if_cong)

lemma dm_wf_send:
  assumes wf: "dm_wf V D M" and v: "(cv, k, l) \<in> set V" and d: "i \<notin> fst ` set D"
  shows "dm_wf (bump_conversation cv V) (D @ [(i, cv, l + 1, True)]) (bump_members cv a (l + 1) M)"
proof -
  let ?V = "bump_conversation cv V" and ?D = "D @ [(i, cv, l + 1, True)]" and ?M = "bump_members cv a (l + 1) M"
  have uniq: "l' = l" if "(cv, k', l') \<in> set V" for k' l'
    using that wf v unfolding dm_wf_def by (auto dest: eq_key_imp_eq_value)
  have le: "j \<le> l" if "reaches V cv j" for j
    using that uniq by (auto simp: reaches_def)
  have l: "0 \<le> l" using wf v unfolding dm_wf_def pair_wf_def by blast
  have grow: "reaches V x j \<Longrightarrow> reaches ?V x j" for x j
    unfolding reaches_def in_bump_conversation
    by (metis add_diff_cancel_right' le_add_same_cancel1 order_trans zero_le_one)
  have at: "reaches ?V cv (l + 1)"
    unfolding reaches_def in_bump_conversation using v by (intro exI [of _ k] exI [of _ "l + 1"]) simp
  have "pair_wf ?V ?M"
    using wf l unfolding dm_wf_def pair_wf_def takes_part_bump in_bump_conversation
    by (smt (verit) uniq)
  moreover have "sent_wf ?V ?D"
    using wf grow at l unfolding dm_wf_def sent_wf_def by auto
  moreover have "unread_wf ?V ?D ?M"
    unfolding unread_wf_def
  proof (intro allI impI)
    fix x y lr u
    assume "(x, y, lr, u) \<in> set ?M"
    then obtain lr' u' where m: "(x, y, lr', u') \<in> set M"
      "(lr, u) = (if x = cv then if y = a then (l + 1, 0) else (lr', u' + 1) else (lr', u'))"
      by (force simp: bump_members_def split: if_splits)
    then have old: "u' = live x lr' D" "reaches V x lr'"
      using wf unfolding dm_wf_def unread_wf_def by blast+
    have "live cv (l + 1) D = 0"
    proof -
      have "j \<le> l" if "(d, cv, j, al) \<in> set D" for d j al
        using that wf le unfolding dm_wf_def sent_wf_def by blast
      then show ?thesis unfolding live_def sql_count_zero by fastforce
    qed
    then show "u = live x lr ?D \<and> reaches ?V x lr"
      using m(2) old grow at le by (auto split: if_splits)
  qed
  ultimately show ?thesis
    using wf d by (simp add: dm_wf_def fst_bump_conversation)
qed

lemma dm_wf_delete:
  assumes wf: "dm_wf V D M" and d: "(i, cv, j, True) \<in> set D"
  shows "dm_wf V (kill i D) (drop_reads cv j M)"
proof -
  let ?M = "drop_reads cv j M"
  have live: "live x k (kill i D) = live x k D - (if x = cv \<and> k < j then 1 else 0)" for x k
    using wf d by (intro live_kill) (simp_all add: dm_wf_def)
  have "map (\<lambda>(x, y, _, _). (x, y)) ?M = map (\<lambda>(x, y, _, _). (x, y)) M"
    by (simp add: drop_reads_def case_prod_unfold if_distrib cong: if_cong)
  then have part: "takes_part ?M x y = takes_part M x y" for x y
    by (rule takes_part_cong)
  have "pair_wf V ?M" using wf by (simp add: dm_wf_def pair_wf_def part)
  moreover have "sent_wf V (kill i D)"
    using wf unfolding dm_wf_def sent_wf_def kill_def by (fastforce split: prod.splits)
  moreover have "unread_wf V (kill i D) ?M"
    unfolding unread_wf_def live
  proof (intro allI impI)
    fix x y lr u
    assume "(x, y, lr, u) \<in> set ?M"
    then obtain u' where m: "(x, y, lr, u') \<in> set M" "u = (if x = cv \<and> 0 < u' \<and> lr < j then max (u' - 1) 0 else u')"
      by (auto simp: drop_reads_def split: if_splits)
    then have "u' = live x lr D" "reaches V x lr"
      using wf unfolding dm_wf_def unread_wf_def by blast+
    then show "u = live x lr D - (if x = cv \<and> lr < j then 1 else 0) \<and> reaches V x lr"
      using m(2) live_pos [OF d, of lr] by (auto split: if_splits)
  qed
  moreover have "map fst (kill i D) = map fst D"
    by (simp add: kill_def case_prod_unfold comp_def)
  ultimately show ?thesis
    using wf by (simp add: dm_wf_def)
qed

lemma dm_wf_reread:
  assumes wf: "dm_wf V D M" and at: "reaches V cv i"
  shows "dm_wf V D (map (\<lambda>(x, y, lr, u). if x = cv \<and> y = a then (x, y, i, live cv i D) else (x, y, lr, u)) M)"
proof -
  let ?M = "map (\<lambda>(x, y, lr, u). if x = cv \<and> y = a then (x, y, i, live cv i D) else (x, y, lr, u)) M"
  have "map (\<lambda>(x, y, _, _). (x, y)) ?M = map (\<lambda>(x, y, _, _). (x, y)) M"
    by (simp add: case_prod_unfold if_distrib cong: if_cong)
  then have part: "takes_part ?M x y = takes_part M x y" for x y
    by (rule takes_part_cong)
  have "unread_wf V D ?M"
    using wf at unfolding dm_wf_def unread_wf_def by (auto split: if_splits)
  with wf show ?thesis
    by (simp add: dm_wf_def pair_wf_def part)
qed

section \<open>Every handler keeps the counters exact\<close>

lemma conversation_key:
  "c \<in> set (conversations s) \<Longrightarrow> (v_id c, v_dm_key c, v_last_index c) \<in> set (map vkey (conversations s))"
  using imageI [of c "set (conversations s)" vkey] by (simp add: vkey_def)

lemma vkey_functional:
  "dm_wf V D M \<Longrightarrow> (cv, k, l) \<in> set V \<Longrightarrow> (cv, k', l') \<in> set V \<Longrightarrow> l' = l"
  by (auto simp: dm_wf_def dest: eq_key_imp_eq_value)

lemma dm_send_dm: "keeps dm_ok (send_dm E a cv b)"
proof -
  have rest: "keeps dm_ok (dm_created E a cv m i body n)" for cv m i body n
    by (intro keeps_dm_same same_intros) simp
  have writes: "dm_ok (s\<lparr>tick := k, messages := messages s @ [d],
       conversations := sql_update (\<lambda>c. v_id c = cv) (\<lambda>c. c\<lparr>v_last_index := l + 1, v_last_activity_at := n\<rparr>) (conversations s),
       conversation_members := sql_update (\<lambda>m. vm_conversation_id m = cv \<and> vm_account_id m \<noteq> a) (\<lambda>m. m\<lparr>vm_unread := vm_unread m + 1\<rparr>)
         (sql_update (is_conversation_member cv a) (\<lambda>m. m\<lparr>vm_last_read := l + 1, vm_unread := 0\<rparr>) (conversation_members s))\<rparr>)"
    (is "dm_ok ?t")
    if ok: "dm_ok s" and c: "c \<in> set (conversations s)" "v_id c = cv" "v_last_index c = l"
      and d: "\<forall>q\<in>set (messages s). d_id q \<noteq> d_id d" "d_conversation_id d = cv" "d_index d = l + 1" "d_deleted_at d = None"
    for s k d l n c cv
  proof (rule dm_okI)
    have V: "map vkey (sql_update (\<lambda>c. v_id c = cv) (\<lambda>c. c\<lparr>v_last_index := l + 1, v_last_activity_at := n\<rparr>) (conversations s))
        = bump_conversation cv (map vkey (conversations s))"
    proof -
      have "v_last_index x = l" if "x \<in> set (conversations s)" "v_id x = cv" for x
        using vkey_functional [OF dm_okD(1) [OF ok] conversation_key [OF c(1)]]
          conversation_key [OF that(1)] c(2,3) that(2) by metis
      then show ?thesis
        by (auto simp: bump_conversation_def sql_update_def vkey_def)
    qed
    have M: "map vmkey (sql_update (\<lambda>m. vm_conversation_id m = cv \<and> vm_account_id m \<noteq> a) (\<lambda>m. m\<lparr>vm_unread := vm_unread m + 1\<rparr>)
         (sql_update (is_conversation_member cv a) (\<lambda>m. m\<lparr>vm_last_read := l + 1, vm_unread := 0\<rparr>) ms))
        = bump_members cv a (l + 1) (map vmkey ms)" for ms
      by (induction ms) (auto simp: bump_members_def vmkey_def is_conversation_member_def)
    have "d_id d \<notin> fst ` set (map dkey (messages s))"
      using d(1) by (auto simp: dkey_def)
    from dm_wf_send [OF dm_okD(1) [OF ok] conversation_key [OF c(1)] this, of a]
    show "dm_wf (map vkey (conversations ?t)) (map dkey (messages ?t)) (map vmkey (conversation_members ?t))"
      using c d by (simp add: V M dkey_def)
  qed (use dm_okD(2) [OF ok] in simp)
  show ?thesis
    unfolding send_dm_def Let_def keeps_def wp_simps insert_message_def
    by (auto dest!: fetch_last_SomeD intro!: keepsD [OF rest] writes)
qed

lemma dm_soft_delete_dm: "keeps dm_ok (soft_delete_dm E a cv i)"
proof -
  have rest: "keeps dm_ok (thn (delete_search_index_tx SDm j) (thn (delete_labels_tx SDm j)
      (thn (insert_audit E au ac tg md) (log_event E ch th cv k pl))))" for j au ac tg md ch th cv k pl
    by (intro keeps_dm_same same_intros) (simp_all add: dm_view_def)
  have writes: "dm_ok (s\<lparr>tick := k, messages := sql_update (\<lambda>x. d_id x = d_id d) (\<lambda>x. x\<lparr>d_deleted_at := Some n, d_updated_at := n\<rparr>) (messages s),
       conversation_members := sql_update (\<lambda>m. vm_conversation_id m = cv \<and> 0 < vm_unread m \<and> vm_last_read m < j)
         (\<lambda>m. m\<lparr>vm_unread := max (vm_unread m - 1) 0\<rparr>) (conversation_members s)\<rparr>)"
    (is "dm_ok ?t")
    if ok: "dm_ok s" and d: "d \<in> set (messages s)" "d_conversation_id d = cv" "d_index d = j" "d_deleted_at d = None"
    for s k d n cv j
  proof (rule dm_okI)
    have D: "map dkey (sql_update (\<lambda>x. d_id x = d_id d) (\<lambda>x. x\<lparr>d_deleted_at := Some n, d_updated_at := n\<rparr>) ds)
        = kill (d_id d) (map dkey ds)" for ds
      by (induction ds) (auto simp: kill_def dkey_def)
    have M: "map vmkey (sql_update (\<lambda>m. vm_conversation_id m = cv \<and> 0 < vm_unread m \<and> vm_last_read m < j)
         (\<lambda>m. m\<lparr>vm_unread := max (vm_unread m - 1) 0\<rparr>) ms) = drop_reads cv j (map vmkey ms)" for ms
      by (induction ms) (auto simp: drop_reads_def vmkey_def)
    have "(d_id d, cv, j, True) \<in> set (map dkey (messages s))"
      using imageI [OF d(1), of dkey] d(2-4) by (simp add: dkey_def)
    from dm_wf_delete [OF dm_okD(1) [OF ok] this]
    show "dm_wf (map vkey (conversations ?t)) (map dkey (messages ?t)) (map vmkey (conversation_members ?t))"
      by (simp add: D M)
  qed (use dm_okD(2) [OF ok] in simp)
  show ?thesis
    unfolding soft_delete_dm_def Let_def keeps_def wp_simps
    by (auto dest!: fetch_last_SomeD intro!: keepsD [OF rest, unfolded wp_thn] writes)
qed

lemma dm_reread:
  assumes ok: "dm_ok s" and c: "c \<in> set (conversations s)" "v_id c = cv" "i \<le> v_last_index c"
    "u = messages_beyond cv i (messages s)"
  shows "dm_ok (s\<lparr>conversation_members := sql_update (is_conversation_member cv a)
     (\<lambda>m. m\<lparr>vm_last_read := i, vm_unread := u\<rparr>) (conversation_members s)\<rparr>)" (is "dm_ok ?t")
proof (rule dm_okI)
  have M: "map vmkey (sql_update (is_conversation_member cv a) (\<lambda>m. m\<lparr>vm_last_read := i, vm_unread := u\<rparr>) ms)
      = map (\<lambda>(x, y, lr, u'). if x = cv \<and> y = a then (x, y, i, u) else (x, y, lr, u')) (map vmkey ms)" for ms
    by (induction ms) (auto simp: vmkey_def is_conversation_member_def)
  have "reaches (map vkey (conversations s)) cv i"
    using conversation_key [OF c(1)] c(2,3) unfolding reaches_def by blast
  moreover have u: "live cv i (map dkey (messages s)) = u"
    by (simp only: live_messages_beyond c(4))
  ultimately have "dm_wf (map vkey (conversations s)) (map dkey (messages s))
     (map (\<lambda>(x, y, lr, u'). if x = cv \<and> y = a then (x, y, i, u) else (x, y, lr, u')) (map vmkey (conversation_members s)))"
    using dm_wf_reread [OF dm_okD(1) [OF ok], of cv i a] by (simp only: u)
  then
  show "dm_wf (map vkey (conversations ?t)) (map dkey (messages ?t)) (map vmkey (conversation_members ?t))"
    by (simp add: M del: map_map)
qed (use dm_okD(2) [OF ok] in simp)

lemma all_read:
  assumes "dm_ok s" "c \<in> set (conversations s)"
  shows "messages_beyond (v_id c) (v_last_index c) (messages s) = 0"
proof -
  note wf = dm_okD(1) [OF assms(1)]
  have "i \<le> v_last_index c" if "(d, v_id c, i, al) \<in> set (map dkey (messages s))" for d i al
  proof -
    have "reaches (map vkey (conversations s)) (v_id c) i"
      using wf that unfolding dm_wf_def sent_wf_def by blast
    then obtain k l where "(v_id c, k, l) \<in> set (map vkey (conversations s))" "i \<le> l"
      unfolding reaches_def by blast
    with vkey_functional [OF wf conversation_key [OF assms(2)]] show ?thesis
      by blast
  qed
  then have "live (v_id c) (v_last_index c) (map dkey (messages s)) = 0"
    unfolding live_def sql_count_zero by fastforce
  then show ?thesis by (simp add: live_messages_beyond)
qed

lemma dm_mark_conversation_read: "keeps dm_ok (mark_conversation_read E a cv)"
proof -
  have rest: "keeps dm_ok (bnd (now E) (\<lambda>n. thn (mark_notifications_read p n) (bnd (now E) (\<lambda>n. mark_mentions_read q n))))" for p q
    by (intro keeps_dm_same same_intros) (simp_all add: dm_view_def)
  show ?thesis
    unfolding mark_conversation_read_def participant_last_index_def update_conversation_member_def keeps_def
      wp_thn [of "modify _"] wp_modify wp_bnd [of "bnd _ _"] wp_bnd [of "gets _"] wp_gets wp_case_option wp_ret wp_fail
    by (auto dest!: fetch_last_SomeD intro!: keepsD [OF rest] dm_reread simp: all_read)
qed

lemma dm_mark_conversation_unread: "keeps dm_ok (mark_conversation_unread E a cv)"
  unfolding mark_conversation_unread_def participant_last_index_def update_conversation_member_def keeps_def
    Let_def wp_simps
  by (auto dest!: fetch_last_SomeD intro!: dm_reread)

lemma dm_frames:
  "keeps dm_ok (update_dm_body E a c i b)" "keeps dm_ok (set_dm_message_saved E a c i v)"
  "keeps dm_ok (set_conversation_muted E a c h)" "keeps dm_ok (set_conversation_saved E a c v)"
  unfolding update_dm_body_def set_dm_message_saved_def set_conversation_muted_def
    set_conversation_saved_def update_conversation_member_def Let_def insert_defs
  by (intro keeps_dm_same same_intros; simp add: dm_view_def map_sql_update dkey_def vmkey_def blind_def)+

lemma dm_threads:
  "keeps dm_ok (create_thread E a c ti)" "keeps dm_ok (add_comment E a t b)"
  "keeps dm_ok (edit_thread E a t ti b)" "keeps dm_ok (rename_thread E a t ti)"
  "keeps dm_ok (update_thread_flag E a t f v)" "keeps dm_ok (set_thread_muted E a t h)"
  "keeps dm_ok (set_thread_saved E a t v)" "keeps dm_ok (mark_thread_read E a t)"
  "keeps dm_ok (mark_thread_unread E a t)" "keeps dm_ok (update_comment_body E a t i b)"
  "keeps dm_ok (soft_delete_comment E a t i)" "keeps dm_ok (set_comment_saved E a t i v)"
  unfolding create_thread_def add_comment_def edit_thread_def rename_thread_def update_thread_flag_def
    set_thread_muted_def set_thread_saved_def mark_thread_read_def mark_thread_unread_def
    update_comment_body_def soft_delete_comment_def set_comment_saved_def Let_def insert_defs
  by (intro keeps_dm_same same_intros; simp add: dm_view_def blind_def)+

lemmas dm_messages = dm_open_dm dm_send_dm dm_soft_delete_dm dm_mark_conversation_read
  dm_mark_conversation_unread dm_frames dm_threads

end
