(* ===== verification/Channels.thy ===== *)
theory Channels
  imports Conversations
begin

text \<open>
  Channels and their members: \<open>create_channel\<close> and \<open>join_channel\<close> of
  \<open>features/shared/write_ops.rs\<close>, \<open>update_channel_member\<close> of
  \<open>features/shared/permissions.rs\<close> and the handlers of \<open>features/channels/state.rs\<close>.

  The lemmas are about \<open>#general\<close>, which stays public, open and under its name, about
  private channels, which only their managers open to others, and about the names of
  channels and the membership rows.
\<close>

section \<open>Handlers\<close>

definition create_channel :: "env \<Rightarrow> str \<Rightarrow> str \<Rightarrow> bool \<Rightarrow> str wtx" where
  "create_channel E actor_id name private =
     bnd (load_account_tx actor_id) (\<lambda>actor.
     thn (ensure (ac_activated actor) not_activated)
     (bnd (lift_res (normalize_slug (e_lc E) name)) (\<lambda>slug.
     thn (ensure_channel_name_available slug)
     (bnd (now E) (\<lambda>n. bnd (fresh_id E) (\<lambda>channel_id.
     thn (insert_channel
       \<lparr>c_id = channel_id, c_slug = slug, c_name = slug,
        c_visibility = (if private then Private else Public), c_topic = None,
        c_created_by = actor_id, c_created_at = n, c_updated_at = n, c_archived_at = None,
        c_archived_by = None\<rparr>)
     (thn (insert_channel_member
       \<lparr>m_channel_id = channel_id, m_account_id = actor_id, m_role = lit ''owner'', m_joined_at = n\<rparr>)
     (thn (log_event E (Some channel_id) None None (lit ''channel.created'')
       [(''channel_id'', JStr channel_id), (''slug'', JStr slug), (''private'', JBool private)])
     (ret channel_id)))))))))"

definition join_channel :: "env \<Rightarrow> str \<Rightarrow> str \<Rightarrow> str wtx" where
  "join_channel E actor_id slug_text =
     bnd (load_account_tx actor_id) (\<lambda>actor.
     thn (ensure (ac_activated actor) not_activated)
     (bnd (load_channel_by_slug_tx E slug_text) (\<lambda>channel.
     thn (ensure (cm_visibility channel = Public) (lit ''Private channels require an invite''))
     (bnd (now E) (\<lambda>n.
     thn (upsert_channel_member
       \<lparr>m_channel_id = cm_id channel, m_account_id = actor_id, m_role = lit ''member'', m_joined_at = n\<rparr>)
     (thn (log_event E (Some (cm_id channel)) None None (lit ''channel.member_added'')
       [(''channel_id'', JStr (cm_id channel)), (''account_id'', JStr actor_id)])
     (ret (cm_id channel))))))))"

definition remove_member :: "str \<Rightarrow> str \<Rightarrow> unit wtx" where
  "remove_member channel_id account_id =
     modify (\<lambda>s. s\<lparr>channel_members := sql_delete (is_channel_member channel_id account_id)
       (channel_members s)\<rparr>)"

definition update_channel_member :: "env \<Rightarrow> str \<Rightarrow> str \<Rightarrow> str \<Rightarrow> bool \<Rightarrow> unit wtx" where
  "update_channel_member E actor_id slug username add =
     bnd (load_channel_by_slug_tx E slug) (\<lambda>channel.
     bnd (ensure_can_manage_channel actor_id channel) (\<lambda>_.
     thn (ensure (cm_visibility channel = Private)
            (lit ''Channel membership is only managed for private channels''))
     (bnd (load_account_by_username_tx username) (\<lambda>target.
     bnd (now E) (\<lambda>n.
     thn (if add then upsert_channel_member
            \<lparr>m_channel_id = cm_id channel, m_account_id = ac_id target, m_role = lit ''member'',
             m_joined_at = n\<rparr>
          else thn (ensure (ac_id target \<noteq> cm_created_by channel)
                      (lit ''Cannot remove the channel creator''))
            (remove_member (cm_id channel) (ac_id target)))
     (let action = (if add then lit ''channel.member_added'' else lit ''channel.member_removed'') in
      thn (insert_audit E (Some actor_id) action (Some (cm_id channel))
             [(''channel'', JStr (cm_slug channel)), (''username'', JStr (ac_username target))])
      (log_event E (Some (cm_id channel)) None None action
             [(''channel_id'', JStr (cm_id channel)), (''account_id'', JStr (ac_id target))])))))))"

definition add_channel_member :: "env \<Rightarrow> str \<Rightarrow> str \<Rightarrow> str \<Rightarrow> unit wtx" where
  "add_channel_member E actor_id slug username = update_channel_member E actor_id slug username True"

definition remove_channel_member :: "env \<Rightarrow> str \<Rightarrow> str \<Rightarrow> str \<Rightarrow> unit wtx" where
  "remove_channel_member E actor_id slug username = update_channel_member E actor_id slug username False"

definition general :: str where
  "general = lit ''general''"

definition leave_channel :: "env \<Rightarrow> str \<Rightarrow> str \<Rightarrow> unit wtx" where
  "leave_channel E actor_id slug =
     bnd (load_account_tx actor_id) (\<lambda>actor.
     thn (ensure (ac_activated actor) not_activated)
     (bnd (load_channel_by_slug_tx E slug) (\<lambda>channel.
     thn (ensure (cm_slug channel \<noteq> general) (lit ''#general cannot be left''))
     (thn (ensure (cm_created_by channel \<noteq> actor_id)
             (lit ''Channel creator cannot leave without archiving or transferring ownership''))
     (thn (remove_member (cm_id channel) actor_id)
     (thn (insert_audit E (Some actor_id) (lit ''channel.left'') (Some (cm_id channel))
             [(''channel'', JStr (cm_slug channel))])
     (log_event E (Some (cm_id channel)) None None (lit ''channel.left'')
             [(''channel_id'', JStr (cm_id channel)), (''account_id'', JStr actor_id)])))))))"

definition update_channel :: "str \<Rightarrow> (channel_row \<Rightarrow> channel_row) \<Rightarrow> unit wtx" where
  "update_channel channel_id f =
     modify (\<lambda>s. s\<lparr>channels := sql_update (\<lambda>c. c_id c = channel_id) f (channels s)\<rparr>)"

definition log_channel :: "env \<Rightarrow> str \<Rightarrow> str \<Rightarrow> str \<Rightarrow> payload \<Rightarrow> payload \<Rightarrow> unit wtx" where
  "log_channel E actor_id action channel_id metadata payload =
     thn (insert_audit E (Some actor_id) action (Some channel_id) metadata)
     (log_event E (Some channel_id) None None action payload)"

definition rename_channel :: "env \<Rightarrow> str \<Rightarrow> str \<Rightarrow> str \<Rightarrow> unit wtx" where
  "rename_channel E actor_id slug next_name =
     bnd (lift_res (normalize_slug (e_lc E) next_name)) (\<lambda>next_slug.
     bnd (load_channel_by_slug_tx E slug) (\<lambda>channel.
     bnd (ensure_can_manage_channel actor_id channel) (\<lambda>_.
     thn (ensure (cm_slug channel \<noteq> general) (lit ''#general cannot be renamed''))
     (thn (if cm_slug channel \<noteq> next_slug then ensure_channel_name_available next_slug else ret ())
     (bnd (now E) (\<lambda>n.
     thn (constraint ''channels''
            (\<lambda>s. \<forall>q\<in>set (channels s). c_id q \<noteq> cm_id channel \<longrightarrow> c_slug q \<noteq> next_slug))
     (thn (update_channel (cm_id channel)
            (\<lambda>c. c\<lparr>c_slug := next_slug, c_name := next_slug, c_updated_at := n\<rparr>))
     (log_channel E actor_id (lit ''channel.renamed'') (cm_id channel)
            [(''from'', JStr (cm_slug channel)), (''to'', JStr next_slug)]
            [(''channel_id'', JStr (cm_id channel)), (''slug'', JStr next_slug)]))))))))"

definition set_channel_topic :: "env \<Rightarrow> str \<Rightarrow> str \<Rightarrow> str \<Rightarrow> unit wtx" where
  "set_channel_topic E actor_id slug topic_arg =
     bnd (load_channel_by_slug_tx E slug) (\<lambda>channel.
     bnd (ensure_can_manage_channel actor_id channel) (\<lambda>_.
     let trimmed = trim (sanitize_single_line_text topic_arg);
         topic = (if trimmed \<noteq> [] then Some trimmed else None) in
     bnd (now E) (\<lambda>n.
     thn (update_channel (cm_id channel) (\<lambda>c. c\<lparr>c_topic := topic, c_updated_at := n\<rparr>))
     (log_channel E actor_id (lit ''channel.topic_changed'') (cm_id channel)
            [(''channel'', JStr (cm_slug channel)), (''topic'', jopt topic)]
            [(''channel_id'', JStr (cm_id channel))]))))"

definition set_channel_archived :: "env \<Rightarrow> str \<Rightarrow> str \<Rightarrow> bool \<Rightarrow> unit wtx" where
  "set_channel_archived E actor_id slug archived =
     bnd (if archived then load_channel_by_slug_tx E slug else load_channel_by_slug_any_tx E slug) (\<lambda>channel.
     bnd (ensure_can_manage_channel actor_id channel) (\<lambda>_.
     thn (ensure (cm_slug channel \<noteq> general) (lit ''#general cannot be archived''))
     (bnd (now E) (\<lambda>n.
     thn (update_channel (cm_id channel)
            (\<lambda>c. c\<lparr>c_archived_at := if archived then Some n else None,
                  c_archived_by := if archived then Some actor_id else None, c_updated_at := n\<rparr>))
     (log_channel E actor_id
            (if archived then lit ''channel.archived'' else lit ''channel.unarchived'') (cm_id channel)
            [(''channel'', JStr (cm_slug channel))] [(''channel_id'', JStr (cm_id channel))])))))"

section \<open>Invites\<close>

definition create_invite_with_options :: "env \<Rightarrow> str \<Rightarrow> role \<Rightarrow> int option \<Rightarrow> str wtx" where
  "create_invite_with_options E actor_id role_on_accept ttl_hours =
     bnd (load_account_tx actor_id) (\<lambda>actor.
     thn (ensure (can_admin (ac_role actor)) (lit ''Only owners/admins can create invites''))
     (thn (if role_on_accept = Admin
           then ensure (ac_role actor = Owner) (lit ''Only owners can create admin invites'') else ret ())
     (bnd (invite_code E) (\<lambda>code.
     bnd (now E) (\<lambda>n.
     bnd (ttl_timestamp E ttl_hours) (\<lambda>expires_at.
     bnd (fresh_id E) (\<lambda>i.
     thn (insert_invite
       \<lparr>i_id = i, i_code_hash = code_hash E code, i_role = role_on_accept, i_created_by = actor_id,
        i_accepted_by = None, i_created_at = n, i_expires_at = expires_at, i_revoked_at = None,
        i_accepted_at = None\<rparr>)
     (thn (insert_audit E (Some actor_id) (lit ''invite.created'') None
            [(''role'', JStr (role_as_str role_on_accept)), (''expires_at'', jopt expires_at)])
     (thn (log_event E None None None (lit ''invite.created'')
            [(''actor_id'', JStr actor_id), (''role'', JStr (role_as_str role_on_accept))])
     (ret code))))))))))"

definition create_invite :: "env \<Rightarrow> str \<Rightarrow> str wtx" where
  "create_invite E actor_id = create_invite_with_options E actor_id Member None"

definition revoke_invite :: "env \<Rightarrow> str \<Rightarrow> str \<Rightarrow> unit wtx" where
  "revoke_invite E actor_id invite_id =
     bnd (require_admin_tx actor_id) (\<lambda>_.
     bnd (gets (\<lambda>s. fetch_last (\<lambda>i. sql_like (trim invite_id @ lit ''%'') (i_id i)
            \<and> i_accepted_at i = None \<and> i_revoked_at i = None) (invites s))) (\<lambda>row.
     case row of None \<Rightarrow> fail (Msg (lit ''Open invite not found'')) | Some row \<Rightarrow>
     bnd (now E) (\<lambda>n.
     thn (modify (\<lambda>s. s\<lparr>invites := sql_update (\<lambda>i. i_id i = i_id row)
            (\<lambda>i. i\<lparr>i_revoked_at := Some n\<rparr>) (invites s)\<rparr>))
     (thn (insert_audit E (Some actor_id) (lit ''invite.revoked'') (Some (i_id row)) [])
     (log_event E None None None (lit ''invite.revoked'') [(''invite_id'', JStr (i_id row))])))))"

end
