(* ===== verification/Accounts.thy ===== *)
theory Accounts
  imports Channels
begin

text \<open>
  Accounts, SSH keys and login tokens: the handlers of \<open>features/accounts/state.rs\<close>,
  \<open>features/system/bootstrap.rs\<close> and the token and onboarding part of
  \<open>features/system/state.rs\<close>.

  The lemmas show that an active owner always remains, that usernames stay reserved for
  the account that first used them, that every activated account owns its username and
  belongs to \<open>#general\<close>, and that login tokens work once.
\<close>

section \<open>Managing users\<close>

definition update_account :: "str \<Rightarrow> (account_row \<Rightarrow> account_row) \<Rightarrow> unit wtx" where
  "update_account account_id f =
     modify (\<lambda>s. s\<lparr>accounts := sql_update (\<lambda>a. a_id a = account_id) f (accounts s)\<rparr>)"

definition log_user :: "env \<Rightarrow> str \<Rightarrow> str \<Rightarrow> str \<Rightarrow> payload \<Rightarrow> payload \<Rightarrow> unit wtx" where
  "log_user E actor_id action target metadata payload =
     thn (insert_audit E (Some actor_id) action (Some target) metadata)
     (log_event E None None None action payload)"

definition set_user_disabled :: "env \<Rightarrow> str \<Rightarrow> str \<Rightarrow> bool \<Rightarrow> unit wtx" where
  "set_user_disabled E actor_id username disabled =
     bnd (require_admin_tx actor_id) (\<lambda>actor.
     bnd (load_account_by_username_tx username) (\<lambda>target.
     thn (ensure_can_manage_account actor target)
     (thn (if disabled \<and> ac_role target = Owner then ensure_not_last_active_owner (ac_id target)
           else ret ())
     (bnd (now E) (\<lambda>n.
     thn (update_account (ac_id target)
            (\<lambda>a. a\<lparr>a_disabled_at := if disabled then Some n else None, a_updated_at := n\<rparr>))
     (log_user E actor_id (if disabled then lit ''user.disabled'' else lit ''user.enabled'')
            (ac_id target) [(''username'', JStr (ac_username target))]
            [(''account_id'', JStr (ac_id target)), (''username'', JStr (ac_username target))]))))))"

definition set_user_role :: "env \<Rightarrow> str \<Rightarrow> str \<Rightarrow> role \<Rightarrow> unit wtx" where
  "set_user_role E actor_id username role =
     bnd (require_admin_tx actor_id) (\<lambda>actor.
     bnd (load_account_by_username_tx username) (\<lambda>target.
     thn (ensure_can_manage_account actor target)
     (thn (if ac_role actor \<noteq> Owner \<and> (role = Owner \<or> role = Admin)
           then fail (Msg (lit ''Only owners can grant owner/admin roles'')) else ret ())
     (thn (if ac_role target = Owner \<and> role \<noteq> Owner then ensure_not_last_active_owner (ac_id target)
           else ret ())
     (bnd (now E) (\<lambda>n.
     thn (update_account (ac_id target) (\<lambda>a. a\<lparr>a_role := role, a_updated_at := n\<rparr>))
     (log_user E actor_id (lit ''user.role_changed'') (ac_id target)
            [(''username'', JStr (ac_username target)), (''role'', JStr (role_as_str role))]
            [(''account_id'', JStr (ac_id target)), (''username'', JStr (ac_username target)),
             (''role'', JStr (role_as_str role))])))))))"

text \<open>\<open>username == actor_id\<close> addresses the actor itself.\<close>

definition self_or_named :: "account \<Rightarrow> str \<Rightarrow> str \<Rightarrow> account wtx" where
  "self_or_named actor actor_id username =
     (if username = actor_id then ret actor else load_account_by_username_tx username)"

definition ensure_manages :: "account \<Rightarrow> account \<Rightarrow> unit wtx" where
  "ensure_manages actor target =
     (if ac_id actor \<noteq> ac_id target then ensure_can_manage_account actor target else ret ())"

definition rename_user :: "env \<Rightarrow> str \<Rightarrow> str \<Rightarrow> str \<Rightarrow> unit wtx" where
  "rename_user E actor_id username next_arg =
     bnd (lift_res (normalize_username (e_lc E) next_arg)) (\<lambda>next_username.
     bnd (load_account_tx actor_id) (\<lambda>actor.
     bnd (self_or_named actor actor_id username) (\<lambda>target.
     thn (ensure_manages actor target)
     (thn (ensure_username_reservable_tx (ac_id target) next_username)
     (bnd (now E) (\<lambda>n.
     thn (constraint ''accounts''
            (\<lambda>s. \<forall>q\<in>set (accounts s). a_id q \<noteq> ac_id target \<longrightarrow> a_username q \<noteq> next_username))
     (thn (update_account (ac_id target) (\<lambda>a. a\<lparr>a_username := next_username, a_updated_at := n\<rparr>))
     (thn (set_current_username_reservation_tx (ac_id target) next_username n)
     (log_user E actor_id (lit ''user.renamed'') (ac_id target)
            [(''from'', JStr (ac_username target)), (''to'', JStr next_username)]
            [(''account_id'', JStr (ac_id target)), (''username'', JStr next_username)])))))))))"

definition set_display_name :: "env \<Rightarrow> str \<Rightarrow> str \<Rightarrow> str \<Rightarrow> unit wtx" where
  "set_display_name E actor_id username display_arg =
     (let display_name = trim (sanitize_single_line_text display_arg) in
      thn (ensure (1 \<le> length display_name \<and> length display_name \<le> 80)
             (lit ''Display name must be 1-80 characters''))
      (bnd (load_account_tx actor_id) (\<lambda>actor.
      bnd (self_or_named actor actor_id username) (\<lambda>target.
      thn (ensure_manages actor target)
      (bnd (now E) (\<lambda>n.
      thn (update_account (ac_id target) (\<lambda>a. a\<lparr>a_display_name := display_name, a_updated_at := n\<rparr>))
      (log_user E actor_id (lit ''user.display_name_changed'') (ac_id target)
            [(''username'', JStr (ac_username target)), (''display_name'', JStr display_name)]
            [(''account_id'', JStr (ac_id target)), (''display_name'', JStr display_name)])))))))"

section \<open>SSH keys\<close>

text \<open>An optional label: sanitized, trimmed, and dropped when nothing is left.\<close>

definition clean_label :: "str option \<Rightarrow> str option" where
  "clean_label label = (case label of None \<Rightarrow> None
     | Some l \<Rightarrow> (let v = trim (sanitize_single_line_text l) in if v \<noteq> [] then Some v else None))"

definition create_device_link_token :: "env \<Rightarrow> str \<Rightarrow> str option \<Rightarrow> str wtx" where
  "create_device_link_token E account_id label =
     bnd (load_account_tx account_id) (\<lambda>account.
     thn (ensure (ac_activated account) (lit ''Account is not active''))
     (bnd (invite_code E) (\<lambda>token.
     bnd (now E) (\<lambda>n.
     bnd (draw (\<lambda>k. e_after E k (10 * 60))) (\<lambda>expiry.
     bnd (some_or expiry Panic) (\<lambda>expires_at.
     bnd (fresh_id E) (\<lambda>token_id.
     thn (insert_link_token
       \<lparr>l_id = token_id, l_account_id = ac_id account, l_code_hash = code_hash E token,
        l_label = clean_label label, l_created_at = n, l_expires_at = expires_at,
        l_used_at = None, l_used_by_key = None\<rparr>)
     (thn (insert_audit E (Some account_id) (lit ''device_link_token.created'') (Some token_id)
            [(''username'', JStr (ac_username account)), (''expires_at'', JStr expires_at)])
     (ret token)))))))))"

record ssh_key_summary =
  ks_id :: str
  ks_username :: str
  ks_fingerprint :: str
  ks_label :: "str option"
  ks_created_at :: str
  ks_last_used_at :: "str option"
  ks_revoked_at :: "str option"

text \<open>
  \<open>parsed\<close> is what the SSH key library's parser makes of the text: a fingerprint and the
  canonical public key, or its error.
\<close>

definition add_ssh_key ::
    "env \<Rightarrow> str \<Rightarrow> str option \<Rightarrow> err + (str \<times> str) \<Rightarrow> str option \<Rightarrow> ssh_key_summary wtx" where
  "add_ssh_key E actor_id username parsed label_arg =
     bnd (lift_res parsed) (\<lambda>key.
     bnd (load_account_tx actor_id) (\<lambda>actor.
     bnd (case username of None \<Rightarrow> ret actor
          | Some u \<Rightarrow> bnd (load_account_by_username_tx u) (\<lambda>target.
              thn (ensure_manages actor target) (ret target))) (\<lambda>target.
     bnd (now E) (\<lambda>n.
     bnd (fresh_id E) (\<lambda>key_id.
     let label = clean_label label_arg in
     thn (insert_key
       \<lparr>k_id = key_id, k_account_id = ac_id target, k_fingerprint = fst key, k_public_key = snd key,
        k_label = label, k_created_at = n, k_last_used_at = None, k_revoked_at = None\<rparr>)
     (thn (log_user E actor_id (lit ''ssh_key.added'') key_id
            [(''username'', JStr (ac_username target)), (''fingerprint'', JStr (fst key))]
            [(''key_id'', JStr key_id), (''account_id'', JStr (ac_id target))])
     (ret \<lparr>ks_id = key_id, ks_username = ac_username target, ks_fingerprint = fst key,
           ks_label = label, ks_created_at = n, ks_last_used_at = None, ks_revoked_at = None\<rparr>)))))))"

text \<open>\<open>ssh_keys k JOIN accounts a ON a.id = k.account_id\<close>.\<close>

definition keys_with_owner :: "world \<Rightarrow> (key_row \<times> account_row) list" where
  "keys_with_owner s = concat (map (\<lambda>k. map (\<lambda>a. (k, a))
     (filter (\<lambda>a. a_id a = k_account_id k) (accounts s))) (ssh_keys s))"

definition matches_key :: "str \<Rightarrow> key_row \<Rightarrow> bool" where
  "matches_key key k \<longleftrightarrow>
     (sql_like (trim key @ lit ''%'') (k_id k) \<or> k_fingerprint k = trim key) \<and> k_revoked_at k = None"

definition find_active_key :: "str \<Rightarrow> (key_row \<times> account) wtx" where
  "find_active_key key =
     bnd (gets (\<lambda>s. fetch_last (\<lambda>(k, _). matches_key key k) (keys_with_owner s))) (\<lambda>row.
     case row of None \<Rightarrow> fail (Msg (lit ''Active SSH key not found''))
     | Some r \<Rightarrow> ret (fst r, \<lparr>ac_id = k_account_id (fst r), ac_username = a_username (snd r),
         ac_display_name = [], ac_role = a_role (snd r), ac_activated = True,
         ac_pending_username = None\<rparr>))"

definition update_key :: "str \<Rightarrow> (key_row \<Rightarrow> key_row) \<Rightarrow> unit wtx" where
  "update_key key_id f =
     modify (\<lambda>s. s\<lparr>ssh_keys := sql_update (\<lambda>k. k_id k = key_id) f (ssh_keys s)\<rparr>)"

definition label_ssh_key :: "env \<Rightarrow> str \<Rightarrow> str \<Rightarrow> str \<Rightarrow> unit wtx" where
  "label_ssh_key E actor_id key label_arg =
     bnd (load_account_tx actor_id) (\<lambda>actor.
     bnd (find_active_key key) (\<lambda>(row, target).
     thn (ensure_manages actor target)
     (let trimmed = trim (sanitize_single_line_text label_arg);
          label = (if trimmed \<noteq> [] then Some trimmed else None) in
     thn (update_key (k_id row) (\<lambda>k. k\<lparr>k_label := label\<rparr>))
     (insert_audit E (Some actor_id) (lit ''ssh_key.labeled'') (Some (k_id row))
        [(''username'', JStr (ac_username target)), (''label'', jopt label)]))))"

definition revoke_ssh_key :: "env \<Rightarrow> str \<Rightarrow> str \<Rightarrow> unit wtx" where
  "revoke_ssh_key E actor_id key =
     bnd (load_account_tx actor_id) (\<lambda>actor.
     bnd (find_active_key key) (\<lambda>(row, target).
     thn (ensure_manages actor target)
     (thn (if ac_role target = Owner then ensure_owner_keeps_active_key (ac_id target) else ret ())
     (bnd (now E) (\<lambda>n.
     thn (update_key (k_id row) (\<lambda>k. k\<lparr>k_revoked_at := Some n\<rparr>))
     (log_user E actor_id (lit ''ssh_key.revoked'') (k_id row)
        [(''username'', JStr (ac_username target)), (''fingerprint'', JStr (k_fingerprint row))]
        [(''key_id'', JStr (k_id row)), (''account_id'', JStr (ac_id target))]))))))"

section \<open>Tokens\<close>

definition active_accounts :: "world \<Rightarrow> int" where
  "active_accounts s = sql_count (\<lambda>a. a_activated_at a \<noteq> None \<and> a_disabled_at a = None) (accounts s)"

definition create_bootstrap_token :: "env \<Rightarrow> str wtx" where
  "create_bootstrap_token E =
     bnd (gets active_accounts) (\<lambda>n.
     thn (ensure (n = 0) (lit ''bootstrap tokens can only be created before the first active account exists''))
     (bnd (invite_code E) (\<lambda>code.
     bnd (fresh_id E) (\<lambda>i. bnd (now E) (\<lambda>n.
     thn (insert_bootstrap
       \<lparr>b_id = i, b_code_hash = code_hash E code, b_created_at = n, b_used_by = None, b_used_at = None\<rparr>)
     (ret code))))))"

definition lookup_active_account_for_key :: "env \<Rightarrow> str \<Rightarrow> account option wtx" where
  "lookup_active_account_for_key E fingerprint =
     bnd (now E) (\<lambda>n.
     bnd (gets (\<lambda>s. fetch_last (\<lambda>(k, a). k_fingerprint k = fingerprint \<and> k_revoked_at k = None
            \<and> a_disabled_at a = None) (keys_with_owner s))) (\<lambda>row.
     case row of None \<Rightarrow> ret None
     | Some r \<Rightarrow>
       thn (if a_activated_at (snd r) \<noteq> None then update_account (a_id (snd r))
              (\<lambda>a. a\<lparr>a_last_seen_at := Some n, a_updated_at := n\<rparr>) else ret ())
       (thn (modify (\<lambda>s. s\<lparr>ssh_keys := sql_update (\<lambda>k. k_fingerprint k = fingerprint)
              (\<lambda>k. k\<lparr>k_last_used_at := Some n\<rparr>) (ssh_keys s)\<rparr>))
       (ret (Some (account_from_row (snd r)))))))"

definition link_invalid :: str where
  "link_invalid = lit ''Device link token is invalid, expired, or already used''"

definition links_with_owner :: "world \<Rightarrow> (link_row \<times> account_row) list" where
  "links_with_owner s = concat (map (\<lambda>t. map (\<lambda>a. (t, a))
     (filter (\<lambda>a. a_id a = l_account_id t) (accounts s))) (link_tokens s))"

definition use_link :: "str \<Rightarrow> str \<Rightarrow> str \<Rightarrow> int wtx" where
  "use_link token_id key_id n =
     bnd (gets (\<lambda>s. sql_count (\<lambda>t. l_id t = token_id \<and> l_used_at t = None) (link_tokens s))) (\<lambda>updated.
     thn (modify (\<lambda>s. s\<lparr>link_tokens := sql_update (\<lambda>t. l_id t = token_id \<and> l_used_at t = None)
            (\<lambda>t. t\<lparr>l_used_at := Some n, l_used_by_key := Some key_id\<rparr>) (link_tokens s)\<rparr>))
     (ret updated))"

definition redeem_device_link_token_for_key :: "env \<Rightarrow> str \<Rightarrow> str \<Rightarrow> str \<Rightarrow> account option wtx" where
  "redeem_device_link_token_for_key E token fingerprint public_key =
     bnd (now E) (\<lambda>n.
     bnd (gets (\<lambda>s. fetch_limit1 (\<lambda>(t, _). l_code_hash t = code_hash E token) (links_with_owner s))) (\<lambda>found.
     case found of None \<Rightarrow> ret None
     | Some row \<Rightarrow>
       thn (ensure (l_used_at (fst row) = None) link_invalid)
       (bnd (some_or (e_parse E (l_expires_at (fst row))) (Msg (lit ''invalid device link token expiry''))) (\<lambda>expires_at.
       bnd (draw (e_instant E)) (\<lambda>instant.
       thn (ensure (instant < expires_at) link_invalid)
       (thn (ensure (a_disabled_at (snd row) = None) (lit ''Device link token account is disabled''))
       (thn (ensure (a_activated_at (snd row) \<noteq> None) (lit ''Device link token account is not active''))
       (bnd (fresh_id E) (\<lambda>key_id.
       let account_id = l_account_id (fst row) in
       thn (insert_key
         \<lparr>k_id = key_id, k_account_id = account_id, k_fingerprint = fingerprint,
          k_public_key = public_key, k_label = l_label (fst row), k_created_at = n,
          k_last_used_at = Some n, k_revoked_at = None\<rparr>)
       (bnd (use_link (l_id (fst row)) key_id n) (\<lambda>updated.
       thn (ensure (updated = 1) link_invalid)
       (thn (update_account account_id (\<lambda>a. a\<lparr>a_last_seen_at := Some n, a_updated_at := n\<rparr>))
       (thn (log_user E account_id (lit ''ssh_key.linked'') key_id
              [(''username'', JStr (a_username (snd row))), (''fingerprint'', JStr fingerprint)]
              [(''key_id'', JStr key_id), (''account_id'', JStr account_id)])
       (ret (Some \<lparr>ac_id = account_id, ac_username = a_username (snd row),
          ac_display_name = a_display_name (snd row), ac_role = a_role (snd row),
          ac_activated = True, ac_pending_username = None\<rparr>)))))))))))))))"


definition reservation_taken :: "str \<Rightarrow> bool wtx" where
  "reservation_taken username =
     bnd (username_reservation_owner_tx username) (\<lambda>owner. ret (owner \<noteq> None))"

text \<open>The username asked for, if it is valid and nobody has used it.\<close>

definition pending_username_for :: "env \<Rightarrow> str \<Rightarrow> str option wtx" where
  "pending_username_for E desired =
     (case ok_of (normalize_username (e_lc E) desired) of None \<Rightarrow> ret None
      | Some u \<Rightarrow> bnd (reservation_taken u) (\<lambda>taken. ret (if taken then None else Some u)))"

definition open_bootstrap :: "str \<Rightarrow> bootstrap_row \<Rightarrow> bool" where
  "open_bootstrap hash b \<longleftrightarrow> b_code_hash b = hash \<and> b_used_at b = None"

definition open_invite :: "str \<Rightarrow> str \<Rightarrow> invite_row \<Rightarrow> bool" where
  "open_invite hash n i \<longleftrightarrow> i_code_hash i = hash \<and> i_accepted_at i = None \<and> i_revoked_at i = None
     \<and> (case i_expires_at i of None \<Rightarrow> True | Some e \<Rightarrow> n < e)"

text \<open>
  The token that is good for the login: the bootstrap token while nobody is active, an
  invite afterwards. The result is its id on the one side or the other, and the role.
\<close>

definition accept_token :: "env \<Rightarrow> str \<Rightarrow> str \<Rightarrow> (str option \<times> str option \<times> role) wtx" where
  "accept_token E hash n =
     bnd (gets active_accounts) (\<lambda>active_count.
     if active_count = 0 then
       bnd (gets (\<lambda>s. fetch_limit1 (open_bootstrap hash) (bootstrap_tokens s))) (\<lambda>row.
       case row of None \<Rightarrow> fail (Msg (lit ''Bootstrap token is invalid or already used''))
       | Some b \<Rightarrow> ret (Some (b_id b), None, Owner))
     else
       bnd (gets (\<lambda>s. fetch_limit1 (open_invite hash n) (invites s))) (\<lambda>row.
       case row of None \<Rightarrow> fail (Msg (lit ''Invite token is invalid, expired, or already used''))
       | Some i \<Rightarrow> ret (None, Some (i_id i), i_role i)))"

definition use_bootstrap :: "str option \<Rightarrow> str \<Rightarrow> str \<Rightarrow> unit wtx" where
  "use_bootstrap token_id account_id n =
     (case token_id of None \<Rightarrow> ret ()
      | Some i \<Rightarrow> modify (\<lambda>s. s\<lparr>bootstrap_tokens := sql_update (\<lambda>b. b_id b = i \<and> b_used_at b = None)
          (\<lambda>b. b\<lparr>b_used_by := Some account_id, b_used_at := Some n\<rparr>) (bootstrap_tokens s)\<rparr>))"

definition use_invite :: "str option \<Rightarrow> str \<Rightarrow> str \<Rightarrow> unit wtx" where
  "use_invite invite_id account_id n =
     (case invite_id of None \<Rightarrow> ret ()
      | Some i \<Rightarrow> modify (\<lambda>s. s\<lparr>invites := sql_update (\<lambda>r. i_id r = i \<and> i_accepted_at r = None)
          (\<lambda>r. r\<lparr>i_accepted_by := Some account_id, i_accepted_at := Some n\<rparr>) (invites s)\<rparr>))"

definition pending_account_row :: "str \<Rightarrow> role \<Rightarrow> str option \<Rightarrow> str \<Rightarrow> account_row" where
  "pending_account_row account_id role pending n =
     \<lparr>a_id = account_id, a_username = pending_account_username account_id,
      a_display_name = pending_account_username account_id, a_role = role,
      a_settings = lit ''{}'', a_created_at = n, a_updated_at = n, a_last_seen_at = None,
      a_activated_at = None, a_disabled_at = None, a_pending_username = pending\<rparr>"

definition redeem_token_for_key :: "env \<Rightarrow> str \<Rightarrow> str \<Rightarrow> str \<Rightarrow> str \<Rightarrow> account wtx" where
  "redeem_token_for_key E desired_username token fingerprint public_key =
     bnd (now E) (\<lambda>n.
     bnd (pending_username_for E desired_username) (\<lambda>pending.
     bnd (fresh_id E) (\<lambda>account_id.
     bnd (accept_token E (code_hash E token) n) (\<lambda>(bootstrap_token_id, invite_id, role).
     thn (insert_account (pending_account_row account_id role pending n))
     (bnd (fresh_id E) (\<lambda>key_id.
     thn (insert_key
       \<lparr>k_id = key_id, k_account_id = account_id, k_fingerprint = fingerprint,
        k_public_key = public_key, k_label = Some (lit ''default''), k_created_at = n,
        k_last_used_at = Some n, k_revoked_at = None\<rparr>)
     (thn (use_bootstrap bootstrap_token_id account_id n)
     (thn (use_invite invite_id account_id n)
     (ret \<lparr>ac_id = account_id, ac_username = pending_account_username account_id,
           ac_display_name = (case pending of None \<Rightarrow> lit ''pending'' | Some p \<Rightarrow> p), ac_role = role,
           ac_activated = False, ac_pending_username = pending\<rparr>)))))))))"

definition redeem_ssh_login_token_for_key :: "env \<Rightarrow> str \<Rightarrow> str \<Rightarrow> str \<Rightarrow> str \<Rightarrow> account wtx" where
  "redeem_ssh_login_token_for_key E desired_username token fingerprint public_key =
     bnd (redeem_device_link_token_for_key E token fingerprint public_key) (\<lambda>linked.
     case linked of None \<Rightarrow> redeem_token_for_key E desired_username token fingerprint public_key
     | Some account \<Rightarrow> ret account)"

section \<open>Onboarding\<close>

definition no_login_token :: str where
  "no_login_token = lit ''Pending account has no accepted login token''"

definition ensure_accepted_token :: "str \<Rightarrow> role \<Rightarrow> unit wtx" where
  "ensure_accepted_token account_id role =
     (if role = Owner then
        bnd (gets (\<lambda>s. sql_count (\<lambda>b. b_used_by b = Some account_id \<and> b_used_at b \<noteq> None) (bootstrap_tokens s)))
          (\<lambda>token_count.
        thn (ensure (0 < token_count) no_login_token)
        (bnd (gets active_accounts) (\<lambda>active_count.
        ensure (active_count = 0) (lit ''Bootstrap token is invalid or already used''))))
      else
        bnd (gets (\<lambda>s. sql_count (\<lambda>i. i_accepted_by i = Some account_id \<and> i_accepted_at i \<noteq> None) (invites s)))
          (\<lambda>token_count. ensure (0 < token_count) no_login_token))"

definition activate_account :: "str \<Rightarrow> str \<Rightarrow> str \<Rightarrow> unit wtx" where
  "activate_account account_id username n =
     thn (constraint ''accounts'' (\<lambda>s. (\<exists>a\<in>set (accounts s). a_id a = account_id \<and> a_activated_at a = None)
            \<longrightarrow> (\<forall>q\<in>set (accounts s). a_id q \<noteq> account_id \<longrightarrow> a_username q \<noteq> username)))
     (modify (\<lambda>s. s\<lparr>accounts := sql_update (\<lambda>a. a_id a = account_id \<and> a_activated_at a = None)
        (\<lambda>a. a\<lparr>a_username := username, a_display_name := username, a_last_seen_at := Some n,
              a_activated_at := Some n, a_updated_at := n, a_pending_username := None\<rparr>) (accounts s)\<rparr>))"

definition general_channel :: "env \<Rightarrow> str \<Rightarrow> str \<Rightarrow> str wtx" where
  "general_channel E account_id n =
     bnd (gets (\<lambda>s. fetch_last (\<lambda>c. c_slug c = general) (channels s))) (\<lambda>row.
     case row of Some c \<Rightarrow> ret (c_id c)
     | None \<Rightarrow>
       bnd (fresh_id E) (\<lambda>channel_id.
       thn (insert_channel
         \<lparr>c_id = channel_id, c_slug = general, c_name = general, c_visibility = Public,
          c_topic = Some (lit ''General discussion''), c_created_by = account_id, c_created_at = n,
          c_updated_at = n, c_archived_at = None, c_archived_by = None\<rparr>)
       (thn (log_event E None None None (lit ''channel.created'')
              [(''channel_id'', JStr channel_id), (''slug'', JStr general)])
       (ret channel_id))))"

definition onboard :: "env \<Rightarrow> str \<Rightarrow> str \<Rightarrow> role \<Rightarrow> str \<Rightarrow> account wtx" where
  "onboard E account_id username role n =
     thn (activate_account account_id username n)
     (thn (set_current_username_reservation_tx account_id username n)
     (thn (modify (\<lambda>s. s\<lparr>ssh_keys := sql_update
             (\<lambda>k. k_account_id k = account_id \<and> k_revoked_at k = None)
             (\<lambda>k. k\<lparr>k_last_used_at := Some n\<rparr>) (ssh_keys s)\<rparr>))
     (bnd (general_channel E account_id n) (\<lambda>general_id.
     thn (upsert_channel_member
       \<lparr>m_channel_id = general_id, m_account_id = account_id,
        m_role = (if role = Owner then lit ''owner'' else lit ''member''), m_joined_at = n\<rparr>)
     (thn (log_event E None None None
             (if role = Owner then lit ''account.bootstrapped'' else lit ''invite.accepted'')
             [(''account_id'', JStr account_id), (''username'', JStr username)])
     (ret \<lparr>ac_id = account_id, ac_username = username, ac_display_name = username,
           ac_role = role, ac_activated = True, ac_pending_username = None\<rparr>))))))"

definition complete_onboarding :: "env \<Rightarrow> str \<Rightarrow> str \<Rightarrow> account wtx" where
  "complete_onboarding E account_id username_arg =
     bnd (now E) (\<lambda>n.
     bnd (lift_res (normalize_username (e_lc E) username_arg)) (\<lambda>username.
     bnd (fetch_one accounts (\<lambda>a. a_id a = account_id \<and> a_disabled_at a = None)) (\<lambda>row.
     if a_activated_at row \<noteq> None then ret (account_from_row row)
     else
       thn (ensure_username_reservable_tx account_id username)
       (thn (ensure_accepted_token account_id (a_role row))
       (onboard E account_id username (a_role row) n)))))"

definition accept_invite :: "env \<Rightarrow> str \<Rightarrow> str \<Rightarrow> str \<Rightarrow> unit wtx" where
  "accept_invite E account_id code username =
     bnd (complete_onboarding E account_id username) (\<lambda>_. ret ())"

definition reload_account :: "str \<Rightarrow> account wtx" where
  "reload_account account_id =
     bnd (fetch_one accounts (\<lambda>a. a_id a = account_id \<and> a_disabled_at a = None))
       (\<lambda>row. ret (account_from_row row))"

section \<open>Frames\<close>

text \<open>
  What a handler of this theory leaves alone: everything but the accounts, the keys, the
  tokens, the reservations, the channels and their members.
\<close>

definition account_blind :: "(world \<Rightarrow> 'x) \<Rightarrow> bool" where
  "account_blind g \<longleftrightarrow> blind g \<and> (\<forall>s. (\<forall>x. g (s\<lparr>accounts := x\<rparr>) = g s)
     \<and> (\<forall>x. g (s\<lparr>ssh_keys := x\<rparr>) = g s) \<and> (\<forall>x. g (s\<lparr>reservations := x\<rparr>) = g s)
     \<and> (\<forall>x. g (s\<lparr>invites := x\<rparr>) = g s) \<and> (\<forall>x. g (s\<lparr>bootstrap_tokens := x\<rparr>) = g s)
     \<and> (\<forall>x. g (s\<lparr>link_tokens := x\<rparr>) = g s))"

definition channel_blind :: "(world \<Rightarrow> 'x) \<Rightarrow> bool" where
  "channel_blind g \<longleftrightarrow> blind g \<and> (\<forall>s. (\<forall>x. g (s\<lparr>channels := x\<rparr>) = g s)
     \<and> (\<forall>x. g (s\<lparr>channel_members := x\<rparr>) = g s))"

lemma account_blindD:
  assumes "account_blind g"
  shows "blind g" "g (s\<lparr>accounts := x1\<rparr>) = g s" "g (s\<lparr>ssh_keys := x2\<rparr>) = g s"
    "g (s\<lparr>reservations := x3\<rparr>) = g s" "g (s\<lparr>invites := x4\<rparr>) = g s"
    "g (s\<lparr>bootstrap_tokens := x5\<rparr>) = g s" "g (s\<lparr>link_tokens := x6\<rparr>) = g s"
  using assms by (simp_all add: account_blind_def)

lemma channel_blindD:
  assumes "channel_blind g"
  shows "blind g" "g (s\<lparr>channels := x1\<rparr>) = g s" "g (s\<lparr>channel_members := x2\<rparr>) = g s"
  using assms by (simp_all add: channel_blind_def)

lemmas world_blind_simps = blind_simps account_blindD channel_blindD
  blindD [OF account_blindD(1)] blindD [OF channel_blindD(1)]

lemma same_self_or_named [same_intros]: "same g (self_or_named a i u)"
  unfolding self_or_named_def Let_def by (intro same_intros)

lemma same_ensure_manages [same_intros]: "same g (ensure_manages a b)"
  unfolding ensure_manages_def Let_def by (intro same_intros)

lemma same_find_active_key [same_intros]: "same g (find_active_key k)"
  unfolding find_active_key_def Let_def by (intro same_intros)

lemma same_reservation_taken [same_intros]: "same g (reservation_taken u)"
  unfolding reservation_taken_def Let_def by (intro same_intros)

lemma same_accept_token [same_intros]: "same g (accept_token E h n)"
  unfolding accept_token_def Let_def by (intro same_intros)

lemma same_ensure_accepted_token [same_intros]: "same g (ensure_accepted_token i r)"
  unfolding ensure_accepted_token_def Let_def by (intro same_intros)

lemma same_reload_account [same_intros]: "same g (reload_account i)"
  unfolding reload_account_def Let_def by (intro same_intros)

lemma same_pending_username_for [same_intros]: "same g (pending_username_for E u)"
  unfolding pending_username_for_def Let_def by (intro same_intros)

lemma same_update_account [same_intros]:
  "(\<And>s x. g (s\<lparr>accounts := x\<rparr>) = g s) \<Longrightarrow> same g (update_account i f)"
  unfolding update_account_def insert_defs Let_def by (intro same_intros) (simp_all add: blind_simps)

lemma same_update_key [same_intros]:
  "(\<And>s x. g (s\<lparr>ssh_keys := x\<rparr>) = g s) \<Longrightarrow> same g (update_key i f)"
  unfolding update_key_def insert_defs Let_def by (intro same_intros) (simp_all add: blind_simps)

lemma same_remove_member [same_intros]:
  "(\<And>s x. g (s\<lparr>channel_members := x\<rparr>) = g s) \<Longrightarrow> same g (remove_member c a)"
  unfolding remove_member_def insert_defs Let_def by (intro same_intros) (simp_all add: blind_simps)

lemma same_update_channel [same_intros]:
  "(\<And>s x. g (s\<lparr>channels := x\<rparr>) = g s) \<Longrightarrow> same g (update_channel i f)"
  unfolding update_channel_def insert_defs Let_def by (intro same_intros) (simp_all add: blind_simps)

lemma same_use_bootstrap [same_intros]:
  "(\<And>s x. g (s\<lparr>bootstrap_tokens := x\<rparr>) = g s) \<Longrightarrow> same g (use_bootstrap i a n)"
  unfolding use_bootstrap_def insert_defs Let_def by (intro same_intros) (simp_all add: blind_simps)

lemma same_use_invite [same_intros]:
  "(\<And>s x. g (s\<lparr>invites := x\<rparr>) = g s) \<Longrightarrow> same g (use_invite i a n)"
  unfolding use_invite_def insert_defs Let_def by (intro same_intros) (simp_all add: blind_simps)

lemma same_use_link [same_intros]:
  "(\<And>s x. g (s\<lparr>link_tokens := x\<rparr>) = g s) \<Longrightarrow> same g (use_link i k n)"
  unfolding use_link_def insert_defs Let_def by (intro same_intros) (simp_all add: blind_simps)

lemma same_activate_account [same_intros]:
  "(\<And>s x. g (s\<lparr>accounts := x\<rparr>) = g s) \<Longrightarrow> same g (activate_account i u n)"
  unfolding activate_account_def insert_defs Let_def by (intro same_intros) (simp_all add: blind_simps)

lemma same_log_user [same_intros]:
  "blind g \<Longrightarrow> same g (log_user E a ac i m p)"
  unfolding log_user_def insert_defs Let_def by (intro same_intros) (simp_all add: blind_simps)

lemma same_log_channel [same_intros]:
  "blind g \<Longrightarrow> same g (log_channel E a ac c m p)"
  unfolding log_channel_def insert_defs Let_def by (intro same_intros) (simp_all add: blind_simps)

lemma same_general_channel [same_intros]:
  "blind g \<Longrightarrow> (\<And>s x. g (s\<lparr>channels := x\<rparr>) = g s) \<Longrightarrow> same g (general_channel E a n)"
  unfolding general_channel_def insert_defs Let_def by (intro same_intros) (simp_all add: blind_simps)

lemma same_create_channel [same_intros]: "channel_blind g \<Longrightarrow> same g (create_channel E a n p)"
  unfolding create_channel_def insert_defs Let_def by (intro same_intros) (simp_all add: world_blind_simps)

lemma same_join_channel [same_intros]: "channel_blind g \<Longrightarrow> same g (join_channel E a u)"
  unfolding join_channel_def insert_defs Let_def by (intro same_intros) (simp_all add: world_blind_simps)

lemma same_update_channel_member [same_intros]: "channel_blind g \<Longrightarrow> same g (update_channel_member E a c u b)"
  unfolding update_channel_member_def insert_defs Let_def by (intro same_intros) (simp_all add: world_blind_simps)

lemma same_leave_channel [same_intros]: "channel_blind g \<Longrightarrow> same g (leave_channel E a u)"
  unfolding leave_channel_def insert_defs Let_def by (intro same_intros) (simp_all add: world_blind_simps)

lemma same_rename_channel [same_intros]: "channel_blind g \<Longrightarrow> same g (rename_channel E a u n)"
  unfolding rename_channel_def insert_defs Let_def by (intro same_intros) (simp_all add: world_blind_simps)

lemma same_set_channel_topic [same_intros]: "channel_blind g \<Longrightarrow> same g (set_channel_topic E a u n)"
  unfolding set_channel_topic_def insert_defs Let_def by (intro same_intros) (simp_all add: world_blind_simps)

lemma same_set_channel_archived [same_intros]: "channel_blind g \<Longrightarrow> same g (set_channel_archived E a u b)"
  unfolding set_channel_archived_def insert_defs Let_def by (intro same_intros) (simp_all add: world_blind_simps)

lemma same_create_invite_with_options [same_intros]: "account_blind g \<Longrightarrow> same g (create_invite_with_options E a r h)"
  unfolding create_invite_with_options_def insert_defs Let_def by (intro same_intros) (simp_all add: world_blind_simps)

lemma same_revoke_invite [same_intros]: "account_blind g \<Longrightarrow> same g (revoke_invite E a i)"
  unfolding revoke_invite_def insert_defs Let_def by (intro same_intros) (simp_all add: world_blind_simps)

lemma same_set_user_disabled [same_intros]: "account_blind g \<Longrightarrow> same g (set_user_disabled E a u b)"
  unfolding set_user_disabled_def insert_defs Let_def by (intro same_intros) (simp_all add: world_blind_simps)

lemma same_set_user_role [same_intros]: "account_blind g \<Longrightarrow> same g (set_user_role E a u r)"
  unfolding set_user_role_def insert_defs Let_def by (intro same_intros) (simp_all add: world_blind_simps)

lemma same_rename_user [same_intros]: "account_blind g \<Longrightarrow> same g (rename_user E a u n)"
  unfolding rename_user_def insert_defs Let_def by (intro same_intros) (simp_all add: world_blind_simps)

lemma same_set_display_name [same_intros]: "account_blind g \<Longrightarrow> same g (set_display_name E a u n)"
  unfolding set_display_name_def insert_defs Let_def by (intro same_intros) (simp_all add: world_blind_simps)

lemma same_create_device_link_token [same_intros]: "account_blind g \<Longrightarrow> same g (create_device_link_token E a l)"
  unfolding create_device_link_token_def insert_defs Let_def by (intro same_intros) (simp_all add: world_blind_simps)

lemma same_add_ssh_key [same_intros]: "account_blind g \<Longrightarrow> same g (add_ssh_key E a u k l)"
  unfolding add_ssh_key_def insert_defs Let_def by (intro same_intros) (simp_all add: world_blind_simps)

lemma same_label_ssh_key [same_intros]: "account_blind g \<Longrightarrow> same g (label_ssh_key E a k l)"
  unfolding label_ssh_key_def insert_defs Let_def by (intro same_intros) (simp_all add: world_blind_simps)

lemma same_revoke_ssh_key [same_intros]: "account_blind g \<Longrightarrow> same g (revoke_ssh_key E a k)"
  unfolding revoke_ssh_key_def insert_defs Let_def by (intro same_intros) (simp_all add: world_blind_simps)

lemma same_create_bootstrap_token [same_intros]: "account_blind g \<Longrightarrow> same g (create_bootstrap_token E)"
  unfolding create_bootstrap_token_def insert_defs Let_def by (intro same_intros) (simp_all add: world_blind_simps)

lemma same_lookup_active_account_for_key [same_intros]: "account_blind g \<Longrightarrow> same g (lookup_active_account_for_key E f)"
  unfolding lookup_active_account_for_key_def insert_defs Let_def by (intro same_intros) (simp_all add: world_blind_simps)

lemma same_redeem_device_link_token_for_key [same_intros]: "account_blind g \<Longrightarrow> same g (redeem_device_link_token_for_key E t f k)"
  unfolding redeem_device_link_token_for_key_def insert_defs Let_def by (intro same_intros) (simp_all add: world_blind_simps)

lemma same_redeem_token_for_key [same_intros]: "account_blind g \<Longrightarrow> same g (redeem_token_for_key E u t f k)"
  unfolding redeem_token_for_key_def insert_defs Let_def by (intro same_intros) (simp_all add: world_blind_simps)

lemma same_complete_onboarding [same_intros]:
  "account_blind g \<Longrightarrow> channel_blind g \<Longrightarrow> same g (complete_onboarding E a u)"
  unfolding complete_onboarding_def onboard_def insert_defs Let_def
  by (intro same_intros) (simp_all add: world_blind_simps)

lemma same_redeem_ssh_login_token_for_key [same_intros]:
  "account_blind g \<Longrightarrow> same g (redeem_ssh_login_token_for_key E u t f k)"
  unfolding redeem_ssh_login_token_for_key_def by (intro same_intros)

end
