(* ===== verification/Ownership.thy ===== *)
theory Ownership
  imports Accounts
begin

text \<open>
  What the account handlers preserve: somebody can always administer the server, a
  username belongs to the account that first used it, and everybody is in \<open>#general\<close>.
\<close>

section \<open>An active owner remains\<close>

definition account_ids_ok :: "world \<Rightarrow> bool" where
  "account_ids_ok s \<longleftrightarrow> distinct (map a_id (accounts s))"

definition has_active_owner :: "world \<Rightarrow> bool" where
  "has_active_owner s \<longleftrightarrow> (\<exists>a\<in>set (accounts s). active_owner a)"

definition owner_ok :: "world \<Rightarrow> bool" where
  "owner_ok s \<longleftrightarrow> account_ids_ok s \<and> has_active_owner s"

lemma owner_ok_accounts: "accounts t = accounts s \<Longrightarrow> owner_ok t = owner_ok s"
  by (simp add: owner_ok_def account_ids_ok_def has_active_owner_def)

lemma keeps_owner_same: "same accounts m \<Longrightarrow> keeps owner_ok m"
  unfolding owner_ok_def account_ids_ok_def has_active_owner_def by (rule keeps_same)

text \<open>An update that may end somebody's ownership needs another active owner.\<close>

lemma owner_ok_update:
  assumes ok: "owner_ok s" and f: "\<And>a. a_id (f a) = a_id a"
    and own: "(\<forall>a\<in>set (accounts s). a_id a = i \<and> active_owner a \<longrightarrow> active_owner (f a))
      \<or> (\<exists>a\<in>set (accounts s). a_id a \<noteq> i \<and> active_owner a)"
  shows "owner_ok (s\<lparr>accounts := sql_update (\<lambda>a. a_id a = i) f (accounts s)\<rparr>)"
proof -
  have "\<exists>a\<in>set (sql_update (\<lambda>a. a_id a = i) f (accounts s)). active_owner a"
    using ok own unfolding owner_ok_def has_active_owner_def
    by (metis (mono_tags, lifting) kept_by_update updated_by_update)
  then show ?thesis
    using ok f by (simp add: owner_ok_def account_ids_ok_def has_active_owner_def map_sql_update)
qed

lemma account_row_unique:
  "account_ids_ok s \<Longrightarrow> a \<in> set (accounts s) \<Longrightarrow> b \<in> set (accounts s) \<Longrightarrow> a_id a = a_id b \<Longrightarrow> a = b"
  unfolding account_ids_ok_def by (rule distinct_map_inj)

lemma owner_log_user: "keeps owner_ok (log_user E a ac i m p)"
  by (intro keeps_owner_same same_intros) (simp add: blind_def)

lemma owner_tick [simp]: "owner_ok (s\<lparr>tick := n\<rparr>) = owner_ok s"
  by (rule owner_ok_accounts) simp

lemma wp_load_named:
  assumes "\<And>r. r \<in> set (accounts s) \<Longrightarrow> Q (account_from_row r) s"
  shows "wp (load_account_by_username_tx u) Q s"
  using assms by (auto simp: wp_load_account_by_username_tx dest!: fetch_last_SomeD)

lemma wp_update_account [wp_simps]:
  "wp (update_account i f) Q s = Q () (s\<lparr>accounts := sql_update (\<lambda>a. a_id a = i) f (accounts s)\<rparr>)"
  by (simp add: update_account_def wp_simps)

lemma owner_set_user_disabled: "keeps owner_ok (set_user_disabled E a u disabled)"
proof -
  have step: "owner_ok (s\<lparr>tick := k, accounts := sql_update (\<lambda>a. a_id a = a_id t)
      (\<lambda>a. a\<lparr>a_disabled_at := v, a_updated_at := n\<rparr>) (accounts s)\<rparr>)"
    if ok: "owner_ok s" and t: "t \<in> set (accounts s)"
      and g: "v \<noteq> None \<and> a_role t = Owner \<longrightarrow> (\<exists>r\<in>set (accounts s). a_id r \<noteq> a_id t \<and> active_owner r)"
    for s k t n v
  proof -
    have "a_role x = a_role t" if "x \<in> set (accounts s)" "a_id x = a_id t" for x
      using ok t that account_row_unique by (auto simp: owner_ok_def)
    then have "owner_ok ((s\<lparr>tick := k\<rparr>)\<lparr>accounts := sql_update (\<lambda>a. a_id a = a_id t)
        (\<lambda>a. a\<lparr>a_disabled_at := v, a_updated_at := n\<rparr>) (accounts (s\<lparr>tick := k\<rparr>))\<rparr>)"
      using ok g by (intro owner_ok_update) (auto simp: active_owner_def)
    then show ?thesis by simp
  qed
  show ?thesis
    unfolding set_user_disabled_def keeps_def wp_simps
    by (auto simp: dest!: fetch_last_SomeD intro!: keepsD [OF owner_log_user] step)
qed

lemma owner_set_user_role: "keeps owner_ok (set_user_role E a u role)"
proof -
  have step: "owner_ok (s\<lparr>tick := k, accounts := sql_update (\<lambda>a. a_id a = a_id t)
      (\<lambda>a. a\<lparr>a_role := role, a_updated_at := n\<rparr>) (accounts s)\<rparr>)"
    if ok: "owner_ok s" and t: "t \<in> set (accounts s)"
      and g: "a_role t = Owner \<and> role \<noteq> Owner \<longrightarrow> (\<exists>r\<in>set (accounts s). a_id r \<noteq> a_id t \<and> active_owner r)"
    for s k t n role
  proof -
    have "a_role x = a_role t" if "x \<in> set (accounts s)" "a_id x = a_id t" for x
      using ok t that account_row_unique by (auto simp: owner_ok_def)
    then have "owner_ok ((s\<lparr>tick := k\<rparr>)\<lparr>accounts := sql_update (\<lambda>a. a_id a = a_id t)
        (\<lambda>a. a\<lparr>a_role := role, a_updated_at := n\<rparr>) (accounts (s\<lparr>tick := k\<rparr>))\<rparr>)"
      using ok g by (intro owner_ok_update) (auto simp: active_owner_def)
    then show ?thesis by simp
  qed
  show ?thesis
    unfolding set_user_role_def keeps_def wp_simps
    by (auto simp: dest!: fetch_last_SomeD intro!: keepsD [OF owner_log_user] step)
qed

lemma owner_update_account:
  assumes "\<And>a. a_id (f a) = a_id a" "\<And>a. active_owner a \<Longrightarrow> active_owner (f a)"
  shows "keeps owner_ok (update_account i f)"
  unfolding keeps_def wp_update_account using assms by (intro allI impI owner_ok_update) auto

lemma owner_activate: "keeps owner_ok (activate_account i u n)"
proof -
  have "owner_ok (s\<lparr>accounts := sql_update (\<lambda>a. a_id a = i \<and> a_activated_at a = None)
        (\<lambda>a. a\<lparr>a_username := u, a_display_name := u, a_last_seen_at := Some n,
              a_activated_at := Some n, a_updated_at := n, a_pending_username := None\<rparr>) (accounts s)\<rparr>)"
    if "owner_ok s" for s
    using that unfolding owner_ok_def account_ids_ok_def has_active_owner_def
    by (auto simp: map_sql_update active_owner_def intro!: bexI [OF _ kept_by_update])
  then show ?thesis
    by (simp add: activate_account_def keeps_def wp_simps)
qed

lemma owner_insert_account: "keeps owner_ok (insert_account r)"
  by (auto simp: keeps_def insert_account_def wp_simps owner_ok_def account_ids_ok_def has_active_owner_def)

lemmas owner_leaves = owner_update_account owner_activate owner_insert_account owner_log_user

text \<open>The rest of the handlers: their writes keep ids and roles, or are elsewhere.\<close>

lemma owner_others:
  "keeps owner_ok (rename_user E a u n)" "keeps owner_ok (set_display_name E a u n)"
  "keeps owner_ok (redeem_token_for_key E u t f k)"
  "keeps owner_ok (lookup_active_account_for_key E f)"
  "keeps owner_ok (redeem_device_link_token_for_key E t f k)"
  "keeps owner_ok (complete_onboarding E a u)"
  unfolding rename_user_def set_display_name_def redeem_token_for_key_def lookup_active_account_for_key_def
    redeem_device_link_token_for_key_def complete_onboarding_def onboard_def Let_def
  by (intro owner_leaves keeps_intros keeps_owner_same same_intros; simp add: active_owner_def blind_def insert_defs same_intros)+

lemma owner_frames:
  "keeps owner_ok (create_invite_with_options E a r h)" "keeps owner_ok (revoke_invite E a i)"
  "keeps owner_ok (create_device_link_token E a l)" "keeps owner_ok (add_ssh_key E a v p l)"
  "keeps owner_ok (label_ssh_key E a k x)" "keeps owner_ok (revoke_ssh_key E a k)"
  "keeps owner_ok (create_bootstrap_token E)"
  unfolding create_invite_with_options_def revoke_invite_def create_device_link_token_def add_ssh_key_def
    label_ssh_key_def revoke_ssh_key_def create_bootstrap_token_def Let_def insert_defs
  by (intro keeps_owner_same same_intros; simp add: blind_def)+

lemmas owner_accounts = owner_set_user_disabled owner_set_user_role owner_others owner_frames


section \<open>Usernames stay with their first owner\<close>

definition reserve :: "str \<Rightarrow> str \<Rightarrow> str \<Rightarrow> reservation_row list \<Rightarrow> reservation_row list" where
  "reserve i u n R = sql_upsert (\<lambda>r. rs_normalized r = u)
     (\<lambda>r. if rs_account_id r = i
           then r\<lparr>rs_username := u, rs_last_used_at := None, rs_current := True\<rparr> else r)
     \<lparr>rs_normalized = u, rs_username = u, rs_account_id = i, rs_first_used_at = n,
      rs_last_used_at = None, rs_current = True\<rparr>
     (sql_update (\<lambda>r. rs_account_id r = i \<and> rs_current r \<and> rs_normalized r \<noteq> u)
        (\<lambda>r. r\<lparr>rs_current := False, rs_last_used_at := coalesce (rs_last_used_at r) n\<rparr>) R)"

definition owns_name :: "reservation_row list \<Rightarrow> str \<Rightarrow> str \<Rightarrow> bool" where
  "owns_name R u i \<longleftrightarrow> (\<exists>r\<in>set R. rs_normalized r = u \<and> rs_account_id r = i)"

definition current_name :: "reservation_row list \<Rightarrow> str \<Rightarrow> str \<Rightarrow> bool" where
  "current_name R u i \<longleftrightarrow> (\<exists>r\<in>set R. rs_normalized r = u \<and> rs_account_id r = i \<and> rs_current r)"

definition reservable :: "reservation_row list \<Rightarrow> str \<Rightarrow> str \<Rightarrow> bool" where
  "reservable R u i \<longleftrightarrow> (\<forall>r\<in>set R. rs_normalized r = u \<longrightarrow> rs_account_id r = i)"

text \<open>The two statements, row by row.\<close>

definition reserve_row :: "str \<Rightarrow> str \<Rightarrow> str \<Rightarrow> reservation_row \<Rightarrow> reservation_row" where
  "reserve_row i u n r =
     (if rs_account_id r \<noteq> i then r
      else if rs_normalized r = u
      then r\<lparr>rs_username := u, rs_last_used_at := None, rs_current := True\<rparr>
      else if rs_current r
      then r\<lparr>rs_current := False, rs_last_used_at := coalesce (rs_last_used_at r) n\<rparr> else r)"

lemma reserve_row_simps [simp]:
  "rs_normalized (reserve_row i u n r) = rs_normalized r"
  "rs_account_id (reserve_row i u n r) = rs_account_id r"
  "rs_current (reserve_row i u n r) \<longleftrightarrow> (if rs_account_id r = i then rs_normalized r = u else rs_current r)"
  by (simp_all add: reserve_row_def)

definition new_reservation :: "str \<Rightarrow> str \<Rightarrow> str \<Rightarrow> reservation_row" where
  "new_reservation i u n = \<lparr>rs_normalized = u, rs_username = u, rs_account_id = i,
     rs_first_used_at = n, rs_last_used_at = None, rs_current = True\<rparr>"

lemma reserve_rows:
  "reserve i u n R = map (reserve_row i u n) R
     @ (if \<exists>r\<in>set R. rs_normalized r = u then [] else [new_reservation i u n])"
proof -
  let ?P = "\<lambda>r. rs_account_id r = i \<and> rs_current r \<and> rs_normalized r \<noteq> u"
  let ?f = "\<lambda>r. r\<lparr>rs_current := False, rs_last_used_at := coalesce (rs_last_used_at r) n\<rparr>"
  let ?g = "\<lambda>r. if rs_account_id r = i
           then r\<lparr>rs_username := u, rs_last_used_at := None, rs_current := True\<rparr> else r"
  have ex: "list_ex (\<lambda>r. rs_normalized r = u) (sql_update ?P ?f R) \<longleftrightarrow> (\<exists>r\<in>set R. rs_normalized r = u)" for R
    by (induction R) auto
  have yes: "sql_update (\<lambda>r. rs_normalized r = u) ?g (sql_update ?P ?f R) = map (reserve_row i u n) R" for R
    by (induction R) (simp_all add: reserve_row_def)
  have no: "\<not> (\<exists>r\<in>set R. rs_normalized r = u) \<Longrightarrow> sql_update ?P ?f R = map (reserve_row i u n) R" for R
    by (induction R) (simp_all add: reserve_row_def)
  show ?thesis
    unfolding reserve_def sql_upsert_def ex using yes no by (simp add: new_reservation_def)
qed

lemma current_name_reserve:
  assumes "reservable R u i"
  shows "current_name (reserve i u n R) w j \<longleftrightarrow> (if j = i then w = u else current_name R w j)"
  using assms unfolding reserve_rows current_name_def reservable_def
  by (auto simp: new_reservation_def)

lemma owns_name_reserve:
  assumes "reservable R u i"
  shows "owns_name (reserve i u n R) w j \<longleftrightarrow> owns_name R w j \<or> (w = u \<and> j = i)"
  using assms unfolding reserve_rows owns_name_def reservable_def
  by (auto simp: new_reservation_def)

lemma reserve_distinct:
  "distinct (map rs_normalized R) \<Longrightarrow> distinct (map rs_normalized (reserve i u n R))"
  by (auto simp: reserve_rows new_reservation_def comp_def)

definition names_ok :: "world \<Rightarrow> bool" where
  "names_ok s \<longleftrightarrow> distinct (map a_id (accounts s)) \<and> distinct (map rs_normalized (reservations s))
     \<and> (\<forall>a\<in>set (accounts s). a_activated_at a \<noteq> None \<longrightarrow>
          wf_name (a_username a) \<and> current_name (reservations s) (a_username a) (a_id a))
     \<and> (\<forall>u u' i. current_name (reservations s) u i \<and> current_name (reservations s) u' i \<longrightarrow> u = u')"

text \<open>Renaming and activating an account, with the reservation of its name.\<close>

lemma names_ok_rename:
  assumes ok: "names_ok s" and u: "wf_name u" "reservable (reservations s) u i"
    and f: "\<And>a. a_id (f a) = a_id a" "\<And>a. a_id a = i \<Longrightarrow> a_activated_at (f a) \<noteq> None \<Longrightarrow> a_username (f a) = u"
    and p: "\<And>a. p a \<Longrightarrow> a_id a = i" "\<And>a. a \<in> set (accounts s) \<Longrightarrow> a_id a = i \<Longrightarrow> \<not> p a \<Longrightarrow> a_activated_at a = None \<or> a_username a = u"
  shows "names_ok (s\<lparr>accounts := sql_update p f (accounts s), reservations := reserve i u n (reservations s)\<rparr>)"
proof -
  let ?R = "reserve i u n (reservations s)"
  note cur = current_name_reserve [OF u(2)]
  have act: "wf_name (a_username a) \<and> current_name ?R (a_username a) (a_id a)"
    if a: "a \<in> set (sql_update p f (accounts s))" "a_activated_at a \<noteq> None" for a
  proof -
    from a(1) obtain b where b: "b \<in> set (accounts s)" "a = (if p b then f b else b)"
      unfolding in_sql_update by metis
    show ?thesis
    proof (cases "a_id b = i")
      case True
      have "a_username a = u \<and> a_id a = i"
      proof (cases "p b")
        case True
        with b(2) a(2) f(1) [of b] f(2) [OF \<open>a_id b = i\<close>] \<open>a_id b = i\<close> show ?thesis by simp
      next
        case False
        with b(2) a(2) p(2) [OF b(1) \<open>a_id b = i\<close>] \<open>a_id b = i\<close> show ?thesis by auto
      qed
      then show ?thesis using u by (simp add: cur)
    next
      case False
      then have "a = b" using b(2) p(1) by metis
      with False b(1) a(2) ok show ?thesis unfolding names_ok_def cur by simp
    qed
  qed
  have one: "w = w'" if "current_name ?R w j" "current_name ?R w' j" for w w' j
    using that ok unfolding cur names_ok_def by (cases "j = i") (simp_all, blast)
  have "distinct (map a_id (sql_update p f (accounts s)))" "distinct (map rs_normalized ?R)"
    using ok f(1) by (simp_all add: names_ok_def map_sql_update reserve_distinct)
  then show ?thesis
    using act one unfolding names_ok_def by (simp, blast)
qed

lemma reservable_last:
  assumes "distinct (map rs_normalized R)"
    and "\<forall>r. fetch_last (\<lambda>r. rs_normalized r = u) R = Some r \<longrightarrow> rs_account_id r = i"
  shows "reservable R u i"
  unfolding reservable_def
proof (intro ballI impI)
  fix r
  assume r: "r \<in> set R" "rs_normalized r = u"
  then obtain q where q: "fetch_last (\<lambda>r. rs_normalized r = u) R = Some q"
    using fetch_last_ex [of r R "\<lambda>r. rs_normalized r = u"] by auto
  then have "q = r"
    using r assms(1) by (auto dest: fetch_last_SomeD distinct_map_inj)
  with q assms(2) show "rs_account_id r = i" by simp
qed

lemma wp_set_current_username_reservation_tx:
  assumes "distinct (map rs_normalized (reservations s))"
    and "reservable (reservations s) u i \<Longrightarrow> Q () (s\<lparr>reservations := reserve i u n (reservations s)\<rparr>)"
  shows "wp (set_current_username_reservation_tx i u n) Q s"
  using assms reservable_last [OF assms(1), of u i]
  by (auto simp: set_current_username_reservation_tx_def wp_simps reserve_def)

lemma keeps_names_same:
  assumes "same (\<lambda>s. (map (\<lambda>a. (a_id a, a_username a, a_activated_at a \<noteq> None)) (accounts s), reservations s)) m"
  shows "keeps names_ok m"
proof -
  let ?J = "\<lambda>(A, R). distinct (map fst A) \<and> distinct (map rs_normalized R)
     \<and> (\<forall>(i, u, act)\<in>set A. act \<longrightarrow> wf_name u \<and> current_name R u i)
     \<and> (\<forall>u u' i. current_name R u i \<and> current_name R u' i \<longrightarrow> u = u')"
  have "names_ok = (\<lambda>s. ?J (map (\<lambda>a. (a_id a, a_username a, a_activated_at a \<noteq> None)) (accounts s), reservations s))"
    by (rule ext) (simp add: names_ok_def comp_def)
  then show ?thesis
    using keeps_same [OF assms, of ?J] by simp
qed

lemma names_tick [simp]: "names_ok (s\<lparr>tick := n\<rparr>) = names_ok s"
  by (simp add: names_ok_def)

lemma names_insert_account:
  "a_activated_at r = None \<Longrightarrow> keeps names_ok (insert_account r)"
  by (auto simp: keeps_def insert_account_def wp_simps names_ok_def)

lemma names_update_account:
  assumes "\<And>a. (a_id (f a), a_username (f a), a_activated_at (f a) \<noteq> None) = (a_id a, a_username a, a_activated_at a \<noteq> None)"
  shows "keeps names_ok (update_account i f)"
  unfolding update_account_def
  by (intro keeps_names_same same_intros) (use assms in \<open>simp add: map_sql_update\<close>)

lemma names_rename_user:
  assumes "lower_case (e_lc E)"
  shows "keeps names_ok (rename_user E a u next_arg)"
proof -
  have step: "wp (set_current_username_reservation_tx i v n) (\<lambda>_. wp (log_user E a ac i m p) (\<lambda>_. names_ok))
      (s\<lparr>tick := k, accounts := sql_update (\<lambda>a. a_id a = i) (\<lambda>a. a\<lparr>a_username := v, a_updated_at := n\<rparr>) (accounts s)\<rparr>)"
    if ok: "names_ok s" and v: "normalize_username (e_lc E) next_arg = Inr v" for s i v k n ac m p
  proof (rule wp_set_current_username_reservation_tx)
    have wf: "wf_name v" using lower_case.username_wf [OF assms v] by blast
    have log: "keeps names_ok (log_user E a ac i m p)"
      by (intro keeps_names_same same_intros) (simp add: blind_def)
    assume "reservable (reservations (s\<lparr>tick := k, accounts := sql_update (\<lambda>a. a_id a = i) (\<lambda>a. a\<lparr>a_username := v, a_updated_at := n\<rparr>) (accounts s)\<rparr>)) v i"
    then have "names_ok ((s\<lparr>tick := k\<rparr>)\<lparr>accounts := sql_update (\<lambda>a. a_id a = i) (\<lambda>a. a\<lparr>a_username := v, a_updated_at := n\<rparr>) (accounts (s\<lparr>tick := k\<rparr>)),
        reservations := reserve i v n (reservations (s\<lparr>tick := k\<rparr>))\<rparr>)"
      using ok wf by (intro names_ok_rename) auto
    then show "wp (log_user E a ac i m p) (\<lambda>_. names_ok)
        (s\<lparr>tick := k, accounts := sql_update (\<lambda>a. a_id a = i) (\<lambda>a. a\<lparr>a_username := v, a_updated_at := n\<rparr>) (accounts s),
           reservations := reserve i v n (reservations (s\<lparr>tick := k, accounts := sql_update (\<lambda>a. a_id a = i) (\<lambda>a. a\<lparr>a_username := v, a_updated_at := n\<rparr>) (accounts s)\<rparr>))\<rparr>)"
      by (intro keepsD [OF log]) simp
  qed (use ok in \<open>simp add: names_ok_def\<close>)
  have guard: "same (\<lambda>s. s) (self_or_named x i u)" "same (\<lambda>s. s) (ensure_manages x y)" for x y i
    by (intro same_intros)+
  show ?thesis
    unfolding rename_user_def keeps_def wp_simps
    by (auto intro!: wp_same [OF guard(1)] wp_same [OF guard(2)] step)
qed

lemma names_onboard:
  assumes v: "wf_name v" and ok: "names_ok s"
    and row: "row \<in> set (accounts s)" "a_id row = i" "a_activated_at row = None"
  shows "wp (onboard E i v role n) (\<lambda>_. names_ok) s"
proof -
  let ?f = "\<lambda>a. a\<lparr>a_username := v, a_display_name := v, a_last_seen_at := Some n,
              a_activated_at := Some n, a_updated_at := n, a_pending_username := None\<rparr>"
  let ?A = "sql_update (\<lambda>a. a_id a = i \<and> a_activated_at a = None) ?f (accounts s)"
  have rest: "keeps names_ok (thn (modify (\<lambda>s. s\<lparr>ssh_keys := f (ssh_keys s)\<rparr>)) (bnd (general_channel E i n) (\<lambda>g.
     thn (upsert_channel_member (m g)) (thn (log_event E None None None k (pl g)) (ret acc)))))" for f m k pl acc
    by (intro keeps_names_same same_intros) (simp_all add: blind_def insert_defs same_intros)
  have only: "a_activated_at a = None" if "a \<in> set (accounts s)" "a_id a = i" for a
    using ok row that by (auto simp: names_ok_def dest: distinct_map_inj)
  have "wp (set_current_username_reservation_tx i v n) (\<lambda>_. names_ok) (s\<lparr>accounts := ?A\<rparr>)"
  proof (rule wp_set_current_username_reservation_tx)
    assume "reservable (reservations (s\<lparr>accounts := ?A\<rparr>)) v i"
    then show "names_ok (s\<lparr>accounts := ?A, reservations := reserve i v n (reservations (s\<lparr>accounts := ?A\<rparr>))\<rparr>)"
      using names_ok_rename [OF ok v, of i ?f "\<lambda>a. a_id a = i \<and> a_activated_at a = None" n] only by simp
  qed (use ok in \<open>simp add: names_ok_def\<close>)
  then have main: "wp (set_current_username_reservation_tx i v n) (\<lambda>_. wp (thn (modify (\<lambda>s. s\<lparr>ssh_keys := f (ssh_keys s)\<rparr>))
     (bnd (general_channel E i n) (\<lambda>g. thn (upsert_channel_member (m g)) (thn (log_event E None None None k (pl g)) (ret acc)))))
     (\<lambda>_. names_ok)) (s\<lparr>accounts := ?A\<rparr>)" for f m k pl acc
    by (rule wp_mono) (rule keepsD [OF rest])
  show ?thesis
    unfolding onboard_def activate_account_def wp_thn [of "thn _ _"] wp_thn [of "constraint _ _"] wp_constraint
      wp_thn [of "set_current_username_reservation_tx _ _ _"]
    by (subst wp_modify, rule impI, rule main)
qed

lemma names_complete_onboarding:
  assumes "lower_case (e_lc E)"
  shows "keeps names_ok (complete_onboarding E a u)"
proof -
  have wf: "wf_name v" if "normalize_username (e_lc E) u = Inr v" for v
    using lower_case.username_wf [OF assms that] by blast
  have same: "same (\<lambda>s. (names_ok s, accounts s)) (ensure_accepted_token b r)" for b r
    by (intro same_intros)
  show ?thesis
    unfolding complete_onboarding_def keeps_def wp_simps
    by (auto intro!: wp_same [OF same] names_onboard [OF wf] dest!: fetch_last_SomeD)
qed

lemma names_others:
  "keeps names_ok (set_user_disabled E a u b)" "keeps names_ok (set_user_role E a u r)"
  "keeps names_ok (set_display_name E a u d)" "keeps names_ok (redeem_token_for_key E u t f k)"
  "keeps names_ok (lookup_active_account_for_key E f)"
  "keeps names_ok (redeem_device_link_token_for_key E t f k)"
  unfolding set_user_disabled_def set_user_role_def set_display_name_def redeem_token_for_key_def
    lookup_active_account_for_key_def redeem_device_link_token_for_key_def Let_def
  by (intro names_update_account names_insert_account keeps_intros keeps_names_same same_intros;
      simp add: blind_def insert_defs same_intros pending_account_row_def)+

lemma names_frames:
  "keeps names_ok (create_invite_with_options E a r h)" "keeps names_ok (revoke_invite E a i)"
  "keeps names_ok (create_device_link_token E a l)" "keeps names_ok (add_ssh_key E a v p l)"
  "keeps names_ok (label_ssh_key E a k x)" "keeps names_ok (revoke_ssh_key E a k)"
  "keeps names_ok (create_bootstrap_token E)"
  unfolding create_invite_with_options_def revoke_invite_def create_device_link_token_def add_ssh_key_def
    label_ssh_key_def revoke_ssh_key_def create_bootstrap_token_def Let_def insert_defs
  by (intro keeps_names_same same_intros; simp add: blind_def)+

lemmas names_accounts = names_rename_user names_complete_onboarding names_others names_frames


section \<open>Everybody is in #general\<close>

definition joined :: "world \<Rightarrow> str \<Rightarrow> str \<Rightarrow> bool" where
  "joined s c a \<longleftrightarrow> (\<exists>m\<in>set (channel_members s). is_channel_member c a m)"

definition general_ok :: "world \<Rightarrow> bool" where
  "general_ok s \<longleftrightarrow> distinct (map a_id (accounts s))
     \<and> distinct (map c_id (channels s)) \<and> distinct (map c_slug (channels s))
     \<and> (\<forall>c\<in>set (channels s). c_slug c = general \<longrightarrow> c_visibility c = Public \<and> c_archived_at c = None)
     \<and> (\<forall>a\<in>set (accounts s). a_activated_at a \<noteq> None \<longrightarrow>
          (\<exists>c\<in>set (channels s). c_slug c = general \<and> joined s (c_id c) (a_id a)))"

definition general_view :: "world \<Rightarrow> (str \<times> bool) list \<times> (str \<times> str \<times> visibility \<times> bool) list \<times> channel_member_row list" where
  "general_view s = (map (\<lambda>a. (a_id a, a_activated_at a \<noteq> None)) (accounts s),
     map (\<lambda>c. (c_id c, c_slug c, c_visibility c, c_archived_at c = None)) (channels s), channel_members s)"

lemma keeps_general_same:
  assumes "same general_view m"
  shows "keeps general_ok m"
proof -
  let ?J = "\<lambda>(A, C, M). distinct (map fst A) \<and> distinct (map fst C) \<and> distinct (map (\<lambda>(_, s, _, _). s) C)
     \<and> (\<forall>(_, s, v, op)\<in>set C. s = general \<longrightarrow> v = Public \<and> op)
     \<and> (\<forall>(a, act)\<in>set A. act \<longrightarrow> (\<exists>(c, s, _, _)\<in>set C. s = general \<and> (\<exists>m\<in>set M. is_channel_member c a m)))"
  have "general_ok = (\<lambda>s. ?J (general_view s))"
    by (rule ext) (simp add: general_ok_def general_view_def joined_def comp_def)
  then show ?thesis
    using keeps_same [OF assms, of ?J] by simp
qed

lemma general_tick [simp]: "general_ok (s\<lparr>tick := n\<rparr>) = general_ok s"
  by (simp add: general_ok_def joined_def)

lemma general_insert_account:
  "a_activated_at r = None \<Longrightarrow> keeps general_ok (insert_account r)"
  by (auto simp: keeps_def insert_account_def wp_simps general_ok_def joined_def)

lemma general_update_account:
  assumes "\<And>a. (a_id (f a), a_activated_at (f a) \<noteq> None) = (a_id a, a_activated_at a \<noteq> None)"
  shows "keeps general_ok (update_account i f)"
  unfolding update_account_def
  by (intro keeps_general_same same_intros) (use assms in \<open>simp add: map_sql_update general_view_def\<close>)

lemma general_more_members:
  assumes "general_ok s" "set (channel_members s) \<subseteq> set M"
  shows "general_ok (s\<lparr>channel_members := M\<rparr>)"
  using assms unfolding general_ok_def joined_def by (simp, blast)

lemma upsert_nothing: "set rows \<subseteq> set (sql_upsert p (\<lambda>q. q) r rows)"
  by (auto simp: sql_upsert_def sql_update_def)

lemma general_add_member:
  "keeps general_ok (insert_channel_member m)" "keeps general_ok (upsert_channel_member m)"
  unfolding keeps_def insert_channel_member_def upsert_channel_member_def wp_simps
  by (auto intro!: general_more_members upsert_nothing)

lemma general_logs:
  "keeps general_ok (insert_audit E oa b c d)" "keeps general_ok (log_event E ch th cv k pl)"
  "keeps general_ok (log_user E a ac i md p)" "keeps general_ok (log_channel E a ac i md p)"
  by (intro keeps_general_same same_intros; simp add: general_view_def blind_def)+

text \<open>A member can only be taken out of another channel.\<close>

lemma general_remove_member:
  assumes ok: "general_ok s" and c: "c \<in> set (channels s)" "c_slug c \<noteq> general"
  shows "general_ok (s\<lparr>channel_members := sql_delete (is_channel_member (c_id c) a) (channel_members s)\<rparr>)"
proof -
  have "c_id g \<noteq> c_id c" if "g \<in> set (channels s)" "c_slug g = general" for g
    using ok c that by (auto simp: general_ok_def dest: distinct_map_inj)
  then have "joined (s\<lparr>channel_members := sql_delete (is_channel_member (c_id c) a) (channel_members s)\<rparr>) (c_id g) x = joined s (c_id g) x"
    if "g \<in> set (channels s)" "c_slug g = general" for g x
    using that by (force simp: joined_def is_channel_member_def)
  with ok show ?thesis
    unfolding general_ok_def by (simp, metis)
qed

text \<open>Another channel may change as long as the name stays taken.\<close>

lemma general_update_channel:
  assumes ok: "general_ok s" and c: "c \<in> set (channels s)" "c_slug c \<noteq> general"
    and f: "\<And>x. c_id (f x) = c_id x" "c_slug (f c) \<noteq> general" "\<forall>q\<in>set (channels s). c_id q \<noteq> c_id c \<longrightarrow> c_slug q \<noteq> c_slug (f c)"
  shows "general_ok (s\<lparr>channels := sql_update (\<lambda>x. c_id x = c_id c) f (channels s)\<rparr>)"
proof -
  let ?C = "sql_update (\<lambda>x. c_id x = c_id c) f (channels s)"
  have ids: "distinct (map c_id (channels s))" using ok by (simp add: general_ok_def)
  have only: "x = c" if "x \<in> set (channels s)" "c_id x = c_id c" for x
    using ids that c by (auto dest: distinct_map_inj)
  have C: "?C = map (\<lambda>x. if x = c then f c else x) (channels s)"
    unfolding sql_update_def by (rule map_cong [OF refl]) (use only in auto)
  have set: "set ?C = insert (f c) (set (channels s) - {c})"
    unfolding C using c(1) by auto
  have "distinct (map c_slug ?C)"
  proof -
    have d: "distinct (channels s)" "inj_on c_slug (set (channels s))"
      using ok by (auto simp: general_ok_def distinct_map)
    have "inj_on (\<lambda>x. c_slug (if x = c then f c else x)) (set (channels s))"
      using d(2) f(3) only unfolding inj_on_def by (metis (full_types))
    with d(1) show ?thesis unfolding C map_map comp_def by (simp add: distinct_map)
  qed
  moreover have "distinct (map c_id ?C)" using ids f(1) by (simp add: map_sql_update)
  moreover have "joined (s\<lparr>channels := ?C\<rparr>) i x = joined s i x" for i x by (simp add: joined_def)
  moreover have "(\<exists>g\<in>set ?C. c_slug g = general \<and> P g) \<longleftrightarrow> (\<exists>g\<in>set (channels s). c_slug g = general \<and> P g)" for P
    unfolding set using c(2) f(2) by auto
  moreover have "\<forall>g\<in>set ?C. c_slug g = general \<longrightarrow> c_visibility g = Public \<and> c_archived_at g = None"
    unfolding set using ok f(2) by (auto simp: general_ok_def)
  ultimately show ?thesis
    using ok by (simp add: general_ok_def)
qed

text \<open>An activated account knows that the channel exists, so nobody can take its name.\<close>

lemma general_taken:
  assumes "general_ok s" "a \<in> set (accounts s)" "a_activated_at a \<noteq> None"
  obtains g where "g \<in> set (channels s)" "c_slug g = general"
  using assms by (auto simp: general_ok_def)

lemma general_insert_channel:
  assumes ok: "general_ok s" and new: "c_slug c \<noteq> general"
    "\<forall>q\<in>set (channels s). c_id q \<noteq> c_id c \<and> c_slug q \<noteq> c_slug c"
  shows "general_ok (s\<lparr>channels := channels s @ [c]\<rparr>)"
  using assms by (auto simp: general_ok_def joined_def)

lemma general_create_channel: "keeps general_ok (create_channel E a n p)"
proof -
  have rest: "keeps general_ok (thn (insert_channel_member m) (thn (log_event E ch th cv k pl) (ret x)))" for m ch th cv k pl x
    by (intro general_add_member general_logs keeps_intros)
  have start: "wp (insert_channel c) (\<lambda>_. wp (thn (insert_channel_member m) (thn (log_event E ch th cv k pl) (ret x))) (\<lambda>_. general_ok)) s"
    if ok: "general_ok s" and r: "r \<in> set (accounts s)" "a_activated_at r \<noteq> None" for c s r m ch th cv k pl x
  proof -
    have "general_ok (s\<lparr>channels := channels s @ [c]\<rparr>)"
      if new: "\<forall>q\<in>set (channels s). c_id q \<noteq> c_id c \<and> c_slug q \<noteq> c_slug c"
    proof -
      from general_taken [OF ok r] obtain g where "g \<in> set (channels s)" "c_slug g = general" .
      then have "c_slug c \<noteq> general" using new by metis
      then show ?thesis by (rule general_insert_channel [OF ok _ new])
    qed
    then show ?thesis
      by (auto simp: insert_channel_def wp_insert_row intro!: keepsD [OF rest])
  qed
  have guard: "same (\<lambda>s. (general_ok s, accounts s)) (ensure_channel_name_available u)" for u
    by (intro same_intros)
  show ?thesis
    unfolding create_channel_def keeps_def wp_load_account_tx wp_bnd [of "load_account_tx _"] wp_thn [of "ensure _ _"] wp_ensure
      wp_bnd [of "lift_res _"] wp_lift_res wp_thn [of "ensure_channel_name_available _"] wp_bnd [of "now E"] wp_now
      wp_bnd [of "fresh_id E"] wp_fresh_id
    unfolding wp_thn [of "insert_channel _"]
    by (auto intro!: wp_same [OF guard] start dest!: fetch_last_SomeD)
qed


lemma general_join_channel: "keeps general_ok (join_channel E a u)"
  unfolding join_channel_def
  by (intro general_add_member general_logs keeps_intros keeps_general_same same_intros) (simp_all add: general_view_def)

lemma wp_remove_member [wp_simps]:
  "wp (remove_member c a) Q s = Q () (s\<lparr>channel_members := sql_delete (is_channel_member c a) (channel_members s)\<rparr>)"
  by (simp add: remove_member_def wp_simps)

lemma wp_update_channel [wp_simps]:
  "wp (update_channel i f) Q s = Q () (s\<lparr>channels := sql_update (\<lambda>c. c_id c = i) f (channels s)\<rparr>)"
  by (simp add: update_channel_def wp_simps)

lemma wp_managed:
  assumes "\<And>r. r \<in> set (accounts s) \<Longrightarrow> a_activated_at r \<noteq> None \<Longrightarrow> Q (account_from_row r) s"
  shows "wp (ensure_can_manage_channel a c) Q s"
  using assms by (auto simp: ensure_can_manage_channel_def account_from_row_def wp_simps dest!: fetch_last_SomeD)

lemmas wp_unchanged = wp_same [OF same_ensure_channel_name_available [of "\<lambda>s. s"]]
  wp_same [OF same_load_account_by_username_tx [of "\<lambda>s. s"]]

lemma general_slug_unique:
  assumes "general_ok s" "c \<in> set (channels s)" "c_slug c = y" "q \<in> set (channels s)" "c_slug q = y"
  shows "c_id q = c_id c"
  using assms by (auto simp: general_ok_def dest: distinct_map_inj)

lemma general_update_channel_member: "keeps general_ok (update_channel_member E a u n add)"
proof -
  have rest: "keeps general_ok (thn (insert_audit E oa ac t md) (log_event E c th cv k p))" for oa ac t md c th cv k p
    by (intro general_logs keeps_intros)
  have add: "wp (upsert_channel_member m) (\<lambda>_. wp (thn (insert_audit E oa ac t md) (log_event E ch th cv k p)) (\<lambda>_. general_ok)) s"
    if "general_ok s" for s m oa ac t md ch th cv k p
    by (rule wp_mono [OF keepsD [OF general_add_member(2) that]]) (rule keepsD [OF rest])
  have remove: "wp (thn (ensure g e) (remove_member (c_id c) i))
      (\<lambda>_. wp (thn (insert_audit E oa ac t md) (log_event E ch th cv k p)) (\<lambda>_. general_ok)) s"
    if ok: "general_ok s" and c: "c \<in> set (channels s)" "c_visibility c = Private"
    for s c g e i oa ac t md ch th cv k p
    unfolding wp_thn [of "ensure _ _"] wp_ensure wp_remove_member
  proof (rule impI, rule keepsD [OF rest], rule general_remove_member [OF ok c(1)])
    show "c_slug c \<noteq> general" using ok c by (auto simp: general_ok_def)
  qed
  show ?thesis
    unfolding update_channel_member_def keeps_def Let_def wp_load_channel_by_slug_tx wp_bnd [of "load_channel_by_slug_tx _ _"]
      wp_bnd [of "ensure_can_manage_channel _ _"] wp_thn [of "ensure (_ = Private) _"] wp_ensure wp_bnd [of "load_account_by_username_tx _"]
      wp_bnd [of "now _"] wp_now wp_thn [of "if _ then _ else _"]
    by (auto simp: channel_meta_of_def intro!: wp_managed wp_unchanged add remove dest!: fetch_last_SomeD)
qed

lemma general_leave_channel: "keeps general_ok (leave_channel E a u)"
proof -
  have rest: "keeps general_ok (thn (insert_audit E oa ac t md) (log_event E c th cv k p))" for oa ac t md c th cv k p
    by (intro general_logs keeps_intros)
  have edit: "wp (remove_member (c_id c) i) (\<lambda>_. wp (thn (insert_audit E oa ac t md) (log_event E ch th cv k p)) (\<lambda>_. general_ok)) s"
    if "general_ok s" "c \<in> set (channels s)" "c_slug c \<noteq> general" for s c i oa ac t md ch th cv k p
    unfolding wp_remove_member using that by (intro keepsD [OF rest] general_remove_member)
  show ?thesis
    unfolding leave_channel_def keeps_def wp_load_channel_by_slug_tx wp_bnd [of "load_channel_by_slug_tx _ _"]
      wp_thn [of "ensure _ _"] wp_ensure wp_load_account_tx wp_bnd [of "load_account_tx _"] wp_thn [of "remove_member _ _"]
    by (auto simp: channel_meta_of_def intro!: edit dest!: fetch_last_SomeD)
qed

text \<open>A change of another channel that keeps its id and does not take the name.\<close>

lemma general_edit_channel:
  assumes ok: "general_ok s" and c: "c \<in> set (channels s)" "c_slug c \<noteq> general"
    and f: "\<And>x. c_id (f x) = c_id x" "c_slug (f c) \<noteq> general"
      "\<forall>q\<in>set (channels s). c_id q \<noteq> c_id c \<longrightarrow> c_slug q \<noteq> c_slug (f c)"
  shows "wp (update_channel (c_id c) f) (\<lambda>_. wp (log_channel E a ac i md p) (\<lambda>_. general_ok)) s"
  unfolding wp_update_channel using assms by (intro keepsD [OF general_logs(4)] general_update_channel)

lemma general_set_channel_archived: "keeps general_ok (set_channel_archived E a u b)"
proof -
  show ?thesis
    unfolding set_channel_archived_def keeps_def wp_bnd [of "if _ then _ else _"] wp_if wp_load_channel_by_slug_tx
      wp_load_channel_by_slug_any_tx
      wp_bnd [of "ensure_can_manage_channel _ _"] wp_bnd [of "now _"] wp_now wp_thn [of "ensure _ _"] wp_ensure
      wp_thn [of "update_channel _ _"]
    by (auto simp: channel_meta_of_def intro!: wp_managed wp_unchanged general_edit_channel dest!: fetch_last_SomeD dest: general_slug_unique)
qed

lemma general_set_channel_topic: "keeps general_ok (set_channel_topic E a u t)"
proof -
  have upd: "keeps general_ok (update_channel i (\<lambda>c. c\<lparr>c_topic := x, c_updated_at := n\<rparr>))" for i x n
    unfolding update_channel_def by (intro keeps_general_same same_intros) (simp add: general_view_def map_sql_update)
  show ?thesis
    unfolding set_channel_topic_def Let_def
    by (intro upd general_logs keeps_intros; intro keeps_general_same same_intros; simp add: general_view_def)
qed

lemma general_rename_channel: "keeps general_ok (rename_channel E a u nm)"
proof -
  have edit: "wp (update_channel (c_id c) (\<lambda>c. c\<lparr>c_slug := x, c_name := x, c_updated_at := n\<rparr>))
      (\<lambda>_. wp (log_channel E a ac i md p) (\<lambda>_. general_ok)) s"
    if ok: "general_ok s" and c: "c \<in> set (channels s)" "c_slug c \<noteq> general"
      and free: "\<forall>q\<in>set (channels s). c_id q \<noteq> c_id c \<longrightarrow> c_slug q \<noteq> x"
      and r: "r \<in> set (accounts s)" "a_activated_at r \<noteq> None" for r s c x n ac i md p
  proof -
    have "x \<noteq> general"
    proof -
      obtain g where g: "g \<in> set (channels s)" "c_slug g = general" using general_taken [OF ok r] .
      then have "c_id g \<noteq> c_id c" using ok c by (auto simp: general_ok_def dest: distinct_map_inj)
      with g free show ?thesis by auto
    qed
    then show ?thesis using ok c free by (intro general_edit_channel) auto
  qed
  show ?thesis
    unfolding rename_channel_def keeps_def wp_load_channel_by_slug_tx wp_bnd [of "load_channel_by_slug_tx _ _"]
      wp_bnd [of "lift_res _"] wp_lift_res
      wp_bnd [of "ensure_can_manage_channel _ _"] wp_bnd [of "now _"] wp_now wp_thn [of "ensure _ _"] wp_ensure
      wp_thn [of "if _ then _ else _"] wp_thn [of "constraint _ _"] wp_constraint
      wp_thn [of "update_channel _ _"]
    by (auto simp: channel_meta_of_def wp_ret intro!: wp_managed wp_unchanged edit dest!: fetch_last_SomeD)
qed


text \<open>Onboarding: between activation and membership the account \<open>i\<close> is exempt.\<close>

definition general_but :: "str \<Rightarrow> world \<Rightarrow> bool" where
  "general_but i s \<longleftrightarrow> distinct (map a_id (accounts s))
     \<and> distinct (map c_id (channels s)) \<and> distinct (map c_slug (channels s))
     \<and> (\<forall>c\<in>set (channels s). c_slug c = general \<longrightarrow> c_visibility c = Public \<and> c_archived_at c = None)
     \<and> (\<forall>a\<in>set (accounts s). a_activated_at a \<noteq> None \<and> a_id a \<noteq> i \<longrightarrow>
          (\<exists>c\<in>set (channels s). c_slug c = general \<and> joined s (c_id c) (a_id a)))"

lemma general_but_frame:
  assumes "same (\<lambda>s. (accounts s, channels s, channel_members s)) m"
  shows "keeps (general_but i) m"
proof -
  let ?J = "\<lambda>(A, C, M). general_but i (undefined\<lparr>accounts := A, channels := C, channel_members := M\<rparr>)"
  have "general_but i = (\<lambda>s. ?J (accounts s, channels s, channel_members s))"
    by (rule ext) (simp add: general_but_def joined_def)
  then show ?thesis using keeps_same [OF assms, of ?J] by simp
qed

lemma general_activate:
  "general_ok s \<Longrightarrow> wp (activate_account i u n) (\<lambda>_. general_but i) s"
  unfolding activate_account_def wp_simps
  by (auto simp: general_ok_def general_but_def joined_def in_sql_update map_sql_update)

lemma general_channel_found:
  assumes ok: "general_but i s"
  shows "wp (general_channel E a n) (\<lambda>g t. general_but i t \<and> (\<exists>c\<in>set (channels t). c_slug c = general \<and> c_id c = g)) s"
proof -
  have insert: "general_but i (s\<lparr>tick := k, channels := channels s @ [c]\<rparr>)"
    if none: "fetch_last (\<lambda>c. c_slug c = general) (channels s) = None"
      and new: "\<forall>q\<in>set (channels s). c_id q \<noteq> c_id c \<and> c_slug q \<noteq> c_slug c"
      and c: "c_visibility c = Public" "c_archived_at c = None" for k c
  proof -
    have "\<forall>q\<in>set (channels s). c_slug q \<noteq> general" using none by (simp add: fetch_last_None)
    with ok new c show ?thesis by (fastforce simp: general_but_def joined_def)
  qed
  have log: "wp (log_event E ch th cv k pl) (\<lambda>_ t. general_but i t \<and> (\<exists>c\<in>set (channels t). c_slug c = general \<and> c_id c = g)) t"
    if "general_but i t \<and> (\<exists>c\<in>set (channels t). c_slug c = general \<and> c_id c = g)" for ch th cv k pl g t
    using that
    by (intro wp_conj keepsD [OF general_but_frame]) (auto intro!: same_intros wp_same [of "channels"] simp: blind_def)
  show ?thesis
    unfolding general_channel_def wp_bnd [of "gets _"] wp_gets wp_case_option wp_ret wp_bnd [of "fresh_id _"] wp_fresh_id
      insert_channel_def wp_insert_row wp_thn
    using ok by (auto intro!: log insert dest!: fetch_last_SomeD)
qed

lemma general_join:
  assumes ok: "general_but i s" and g: "\<exists>c\<in>set (channels s). c_slug c = general \<and> c_id c = g"
    and m: "m_channel_id m = g" "m_account_id m = i"
  shows "wp (upsert_channel_member m) (\<lambda>_. general_ok) s"
proof -
  let ?M = "sql_upsert (same_member m) (\<lambda>q. q) m (channel_members s)"
  have more: "set (channel_members s) \<subseteq> set ?M" by (rule upsert_nothing)
  have mem: "\<exists>m'\<in>set ?M. is_channel_member g i m'"
    using m by (auto simp: sql_upsert_def sql_update_def is_channel_member_def same_member_def list_ex_iff)
  have "general_ok (s\<lparr>channel_members := ?M\<rparr>)"
    unfolding general_ok_def
  proof (intro conjI ballI impI)
    fix a assume a: "a \<in> set (accounts (s\<lparr>channel_members := ?M\<rparr>))" "a_activated_at a \<noteq> None"
    show "\<exists>c\<in>set (channels (s\<lparr>channel_members := ?M\<rparr>)). c_slug c = general \<and> joined (s\<lparr>channel_members := ?M\<rparr>) (c_id c) (a_id a)"
    proof (cases "a_id a = i")
      case True
      with g mem show ?thesis by (auto simp: joined_def)
    next
      case False
      with a ok more show ?thesis unfolding general_but_def joined_def by (simp, blast)
    qed
  qed (use ok in \<open>simp_all add: general_but_def\<close>)
  then show ?thesis by (simp add: upsert_channel_member_def wp_upsert_row)
qed

lemma general_onboard:
  assumes ok: "general_ok s"
  shows "wp (onboard E i v role n) (\<lambda>_. general_ok) s"
proof -
  have log: "keeps general_ok (thn (log_event E ch th cv k pl) (ret x))" for ch th cv k pl x
    by (intro general_logs keeps_intros)
  have join: "wp (thn (upsert_channel_member m) (thn (log_event E ch th cv k pl) (ret x))) (\<lambda>_. general_ok) t"
    if "general_but i t \<and> (\<exists>c\<in>set (channels t). c_slug c = general \<and> c_id c = g)"
      "m_channel_id m = g" "m_account_id m = i" for m ch th cv k pl x t g
    unfolding wp_thn [of "upsert_channel_member _"]
    by (rule wp_mono [OF general_join]) (use that in \<open>auto intro: keepsD [OF log]\<close>)
  have chan: "wp (bnd (general_channel E i n) (\<lambda>g. thn (upsert_channel_member (m g)) (thn (log_event E ch th cv k pl) (ret x)))) (\<lambda>_. general_ok) t"
    if "general_but i t" "\<And>g. m_channel_id (m g) = g \<and> m_account_id (m g) = i" for m ch th cv k pl x t
    unfolding wp_bnd [of "general_channel _ _ _"]
    by (rule wp_mono [OF general_channel_found]) (use that in \<open>auto intro!: join\<close>)
  have names: "keeps (general_but i) (set_current_username_reservation_tx i v n)"
    by (intro general_but_frame same_intros) simp_all
  show ?thesis
    unfolding onboard_def wp_thn [of "activate_account _ _ _"] wp_thn [of "set_current_username_reservation_tx _ _ _"]
      wp_thn [of "modify _"] wp_modify
    by (rule wp_mono [OF general_activate [OF ok]], rule wp_mono [OF keepsD [OF names]], assumption)
      (rule chan; simp add: general_but_def joined_def)
qed

lemma general_complete_onboarding: "keeps general_ok (complete_onboarding E a u)"
proof -
  have on: "keeps general_ok (onboard E i v role n)" for i v role n
    by (simp add: keeps_def general_onboard)
  show ?thesis
    unfolding complete_onboarding_def
    by (intro on keeps_intros; intro keeps_general_same same_intros; simp add: general_view_def)
qed

lemma general_others:
  "keeps general_ok (set_user_disabled E a u b)" "keeps general_ok (set_user_role E a u r)"
  "keeps general_ok (rename_user E a u x)"
  "keeps general_ok (set_display_name E a u d)" "keeps general_ok (redeem_token_for_key E u t f k)"
  "keeps general_ok (lookup_active_account_for_key E f)"
  "keeps general_ok (redeem_device_link_token_for_key E t f k)"
  unfolding set_user_disabled_def set_user_role_def rename_user_def set_display_name_def redeem_token_for_key_def
    lookup_active_account_for_key_def redeem_device_link_token_for_key_def Let_def
  by (intro general_update_account general_insert_account general_logs keeps_intros keeps_general_same same_intros;
      simp add: blind_def insert_defs same_intros pending_account_row_def general_view_def)+

lemma general_frames:
  "keeps general_ok (create_invite_with_options E a r h)" "keeps general_ok (revoke_invite E a i)"
  "keeps general_ok (create_device_link_token E a l)" "keeps general_ok (add_ssh_key E a v p l)"
  "keeps general_ok (label_ssh_key E a k x)" "keeps general_ok (revoke_ssh_key E a k)"
  "keeps general_ok (create_bootstrap_token E)"
  unfolding create_invite_with_options_def revoke_invite_def create_device_link_token_def add_ssh_key_def
    label_ssh_key_def revoke_ssh_key_def create_bootstrap_token_def Let_def insert_defs
  by (intro keeps_general_same same_intros; simp add: blind_def general_view_def)+

lemmas general_accounts = general_complete_onboarding general_others general_frames
  general_create_channel general_join_channel general_update_channel_member general_leave_channel
  general_rename_channel general_set_channel_topic general_set_channel_archived

end
