(* ===== verification/Notices.thy ===== *)
theory Notices
  imports Ownership
begin

text \<open>
  Notifications, reactions and presence: the writing handlers of
  \<open>features/notifications/state.rs\<close>, \<open>record_presence\<close> and the session handlers of
  \<open>features/system/state.rs\<close>, and who counts as present
  (\<open>load_active_presence_sessions\<close> of \<open>features/shared/permissions.rs\<close>).

  A server is the database and the in-memory table \<open>active_connections\<close>. The lemmas are
  about whose notifications a handler may touch, about who may react, and about sessions
  that are counted and closed once.
\<close>

section \<open>Notifications\<close>

definition notification_visible :: "notification_row \<Rightarrow> world \<Rightarrow> bool" where
  "notification_visible r s = visible_source (n_account_id r) (n_channel_id r) (n_conversation_id r) s"

definition mark_notification_read :: "env \<Rightarrow> str \<Rightarrow> str option \<Rightarrow> unit wtx" where
  "mark_notification_read E account_id notification_id =
     bnd (now E) (\<lambda>n.
     modify (\<lambda>s. s\<lparr>notifications := sql_update
       (\<lambda>r. n_account_id r = account_id \<and> n_archived_at r = None
         \<and> (case notification_id of None \<Rightarrow> n_read_at r = None
            | Some i \<Rightarrow> n_id r = i \<or> sql_like (trim i @ lit ''%'') (n_id r))
         \<and> notification_visible r s)
       (\<lambda>r. r\<lparr>n_read_at := Some n\<rparr>) (notifications s)\<rparr>))"

definition archive_notifications :: "env \<Rightarrow> str \<Rightarrow> unit wtx" where
  "archive_notifications E account_id =
     bnd (now E) (\<lambda>n.
     modify (\<lambda>s. s\<lparr>notifications := sql_update
       (\<lambda>r. n_account_id r = account_id \<and> n_archived_at r = None \<and> notification_visible r s)
       (\<lambda>r. r\<lparr>n_archived_at := Some n\<rparr>) (notifications s)\<rparr>))"

section \<open>Reactions\<close>

definition reaction_event :: "bool \<Rightarrow> str" where
  "reaction_event remove = (if remove then lit ''reaction.removed'' else lit ''reaction.added'')"

definition react_to_thread :: "env \<Rightarrow> str \<Rightarrow> str \<Rightarrow> str \<Rightarrow> bool \<Rightarrow> unit wtx" where
  "react_to_thread E account_id thread_id emoji remove =
     bnd (load_thread_meta_tx thread_id) (\<lambda>thread.
     thn (ensure_can_view_channel account_id (tm_channel_id thread))
     (thn (set_reaction_tx E account_id SThread thread_id emoji remove)
     (log_event E (Some (tm_channel_id thread)) (Some thread_id) None (reaction_event remove)
        [(''source_kind'', JStr (lit ''thread'')), (''source_id'', JStr thread_id)])))"

definition react_to_comment :: "env \<Rightarrow> str \<Rightarrow> str \<Rightarrow> int \<Rightarrow> str \<Rightarrow> bool \<Rightarrow> unit wtx" where
  "react_to_comment E account_id thread_id obj_index emoji remove =
     bnd (load_thread_meta_tx thread_id) (\<lambda>thread.
     thn (ensure_can_view_channel account_id (tm_channel_id thread))
     (bnd (load_comment_meta_tx thread_id obj_index) (\<lambda>comment.
     thn (set_reaction_tx E account_id SComment (mm_id comment) emoji remove)
     (log_event E (Some (tm_channel_id thread)) (Some thread_id) None (reaction_event remove)
        [(''source_kind'', JStr (lit ''comment'')), (''source_id'', JStr (mm_id comment))]))))"

definition react_to_dm :: "env \<Rightarrow> str \<Rightarrow> str \<Rightarrow> int \<Rightarrow> str \<Rightarrow> bool \<Rightarrow> unit wtx" where
  "react_to_dm E account_id conversation_id obj_index emoji remove =
     bnd (load_dm_message_meta_tx account_id conversation_id obj_index) (\<lambda>message.
     thn (set_reaction_tx E account_id SDm (mm_id message) emoji remove)
     (log_event E None None (Some conversation_id) (reaction_event remove)
        [(''source_kind'', JStr (lit ''dm'')), (''source_id'', JStr (mm_id message))]))"

section \<open>Presence\<close>

text \<open>\<open>INSERT .. ON CONFLICT(id) DO UPDATE .. WHERE disconnected_at IS NULL\<close>.\<close>

definition upsert_presence :: "str \<Rightarrow> str \<Rightarrow> str \<Rightarrow> unit wtx" where
  "upsert_presence session_id account_id n =
     upsert_row ''presence_sessions'' presence presence_update (\<lambda>q. p_id q = session_id)
       (\<lambda>q. if p_disconnected_at q = None then q\<lparr>p_last_seen_at := n\<rparr> else q)
       (\<lambda>s. \<exists>a\<in>set (accounts s). a_id a = account_id)
       \<lparr>p_id = session_id, p_account_id = account_id, p_started_at = n, p_last_seen_at = n,
        p_disconnected_at = None\<rparr>"

definition close_presence :: "str \<Rightarrow> str \<Rightarrow> str \<Rightarrow> unit wtx" where
  "close_presence session_id account_id n =
     modify (\<lambda>s. s\<lparr>presence := sql_update (\<lambda>q. p_id q = session_id \<and> p_account_id q = account_id)
       (\<lambda>q. q\<lparr>p_last_seen_at := n, p_disconnected_at := coalesce (p_disconnected_at q) n\<rparr>) (presence s)\<rparr>)"

definition record_presence :: "env \<Rightarrow> str \<Rightarrow> str option \<Rightarrow> bool \<Rightarrow> unit wtx" where
  "record_presence E account_id session_id disconnected =
     bnd (gets (\<lambda>s. fetch_last (\<lambda>a. a_id a = account_id \<and> a_activated_at a \<noteq> None
            \<and> a_disabled_at a = None) (accounts s))) (\<lambda>row.
     case row of None \<Rightarrow> ret ()
     | Some a \<Rightarrow>
       bnd (now E) (\<lambda>n.
       thn (update_account account_id (\<lambda>a. a\<lparr>a_last_seen_at := Some n, a_updated_at := n\<rparr>))
       (thn (case session_id of None \<Rightarrow> ret ()
             | Some i \<Rightarrow> if disconnected then close_presence i account_id n
                        else upsert_presence i account_id n)
       (log_event E None None None (lit ''presence.updated'')
          [(''account_id'', JStr account_id), (''username'', JStr (a_username a))]))))"

definition touch_account :: "env \<Rightarrow> str \<Rightarrow> unit wtx" where
  "touch_account E account_id = record_presence E account_id None False"

definition touch_account_session :: "env \<Rightarrow> str \<Rightarrow> str \<Rightarrow> unit wtx" where
  "touch_account_session E account_id session_id = record_presence E account_id (Some session_id) False"

text \<open>
  Who is present: the sessions that are open and recent. \<open>cutoff\<close> is the formatted instant
  two minutes ago, \<open>e_parse\<close> and \<open>e_instant\<close> count nanoseconds, and
  \<open>whole_seconds\<close> truncates toward zero.
\<close>

definition presence_ttl :: int where
  "presence_ttl = 120"

definition whole_seconds :: "int \<Rightarrow> int" where
  "whole_seconds d = (if d < 0 then - ((- d) div 1000000000) else d div 1000000000)"

definition session_counts :: "env \<Rightarrow> str \<Rightarrow> int \<Rightarrow> presence_row \<Rightarrow> bool" where
  "session_counts E cutoff instant q \<longleftrightarrow> p_disconnected_at q = None \<and> cutoff \<le> p_last_seen_at q
     \<and> (case e_parse E (p_last_seen_at q) of None \<Rightarrow> False
        | Some seen \<Rightarrow> max (whole_seconds (instant - seen)) 0 \<le> presence_ttl)"

definition load_active_presence_sessions :: "env \<Rightarrow> str set wtx" where
  "load_active_presence_sessions E =
     bnd (draw (\<lambda>n. e_after E n (- presence_ttl))) (\<lambda>cutoff.
     bnd (some_or cutoff Panic) (\<lambda>cutoff.
     bnd (gets presence) (\<lambda>rows.
     bnd (draw (e_instant E)) (\<lambda>instant.
     ret (set (map p_account_id (filter (session_counts E cutoff instant) rows)))))))"

section \<open>Connections\<close>

text \<open>\<open>ServerState\<close>: the database and \<open>active_connections\<close>, a map to counts.\<close>

record server =
  db :: world
  connections :: "str \<Rightarrow> nat option"

definition on_db :: "'a wtx \<Rightarrow> server \<Rightarrow> (err + 'a) \<times> server" where
  "on_db m sv = (case run_tx m (db sv) of (r, s) \<Rightarrow> (r, sv\<lparr>db := s\<rparr>))"

definition remove_account_session :: "str \<Rightarrow> server \<Rightarrow> bool \<times> server" where
  "remove_account_session account_id sv =
     (case connections sv account_id of None \<Rightarrow> (False, sv)
      | Some n \<Rightarrow>
        if n > 1 then (False, sv\<lparr>connections := (connections sv)(account_id \<mapsto> n - 1)\<rparr>)
        else (True, sv\<lparr>connections := (connections sv)(account_id := None)\<rparr>))"

definition add_connection :: "str \<Rightarrow> server \<Rightarrow> server" where
  "add_connection account_id sv = sv\<lparr>connections := (connections sv)
     (account_id \<mapsto> (case connections sv account_id of None \<Rightarrow> 0 | Some n \<Rightarrow> n) + 1)\<rparr>"

definition begin_account_session :: "env \<Rightarrow> str \<Rightarrow> server \<Rightarrow> (err + str) \<times> server" where
  "begin_account_session E account_id sv =
     (let (session, sv) = on_db (fresh_id E) sv in
      case session of Inl e \<Rightarrow> (Inl e, sv)
      | Inr session_id \<Rightarrow>
        let (touched, sv) = on_db (touch_account_session E account_id session_id)
              (add_connection account_id sv) in
        case touched of Inl e \<Rightarrow> (Inl e, snd (remove_account_session account_id sv))
        | Inr _ \<Rightarrow> (Inr session_id, sv))"

definition end_account_session_inner :: "env \<Rightarrow> str \<Rightarrow> str option \<Rightarrow> server \<Rightarrow> (err + unit) \<times> server" where
  "end_account_session_inner E account_id session_id sv =
     (let (disconnected, sv) = remove_account_session account_id sv in
      case session_id of Some i \<Rightarrow> on_db (record_presence E account_id (Some i) True) sv
      | None \<Rightarrow> if disconnected then on_db (touch_account E account_id) sv else (Inr (), sv))"

definition end_presence_session :: "env \<Rightarrow> str \<Rightarrow> str \<Rightarrow> server \<Rightarrow> (err + unit) \<times> server" where
  "end_presence_session E account_id session_id sv =
     end_account_session_inner E account_id (Some session_id) sv"

text \<open>\<open>ORDER BY last_seen_at DESC, started_at DESC LIMIT 1\<close>; ties keep the first row.\<close>

definition later_session :: "presence_row \<Rightarrow> presence_row \<Rightarrow> bool" where
  "later_session q r \<longleftrightarrow> p_last_seen_at r < p_last_seen_at q
     \<or> p_last_seen_at q = p_last_seen_at r \<and> p_started_at r < p_started_at q"

definition latest_open_presence_session :: "str \<Rightarrow> world \<Rightarrow> str option" where
  "latest_open_presence_session account_id s =
     (case filter (\<lambda>q. p_account_id q = account_id \<and> p_disconnected_at q = None) (presence s) of
        [] \<Rightarrow> None
      | q # qs \<Rightarrow> Some (p_id (fold (\<lambda>x best. if later_session x best then x else best) qs q)))"

definition end_account_session :: "env \<Rightarrow> str \<Rightarrow> server \<Rightarrow> (err + unit) \<times> server" where
  "end_account_session E account_id sv =
     end_account_session_inner E account_id (latest_open_presence_session account_id (db sv)) sv"

section \<open>Frames\<close>

lemma same_mark_notification_read [same_intros]: "blind g \<Longrightarrow> same g (mark_notification_read E a i)"
  unfolding mark_notification_read_def by (intro same_intros) (simp_all add: blind_simps)

lemma same_archive_notifications [same_intros]: "blind g \<Longrightarrow> same g (archive_notifications E a)"
  unfolding archive_notifications_def by (intro same_intros) (simp_all add: blind_simps)

lemma same_react [same_intros]:
  assumes "message_blind g"
  shows "same g (react_to_thread E a t e r)" "same g (react_to_comment E a t i e r)"
    "same g (react_to_dm E a c i e r)"
  unfolding react_to_thread_def react_to_comment_def react_to_dm_def
  by (intro same_intros; simp add: blind_simps assms)+

definition presence_blind :: "(world \<Rightarrow> 'x) \<Rightarrow> bool" where
  "presence_blind g \<longleftrightarrow> account_blind g \<and> (\<forall>s x. g (s\<lparr>presence := x\<rparr>) = g s)"

lemma presence_blindD: "presence_blind g \<Longrightarrow> g (s\<lparr>presence := x\<rparr>) = g s"
  by (simp add: presence_blind_def)

lemma same_presence_rows [same_intros]:
  "(\<And>s x. g (s\<lparr>presence := x\<rparr>) = g s) \<Longrightarrow> same g (upsert_presence i a n)"
  "(\<And>s x. g (s\<lparr>presence := x\<rparr>) = g s) \<Longrightarrow> same g (close_presence i a n)"
  unfolding upsert_presence_def close_presence_def by (intro same_intros; simp)+

lemma presence_blindD2: "presence_blind g \<Longrightarrow> account_blind g"
  by (simp add: presence_blind_def)

lemma same_record_presence [same_intros]:
  assumes "presence_blind g"
  shows "same g (record_presence E a i d)"
  unfolding record_presence_def
  by (intro same_intros)
    (simp_all add: presence_blindD [OF assms] account_blindD [OF presence_blindD2 [OF assms]]
      blindD [OF account_blindD(1) [OF presence_blindD2 [OF assms]]])

section \<open>Whose notifications\<close>

text \<open>A handler touches only the actor's own notifications, and only open ones it can see.\<close>

lemma sql_update_other:
  "\<not> p r \<Longrightarrow> (\<And>x. p x \<Longrightarrow> g (f x) \<noteq> g r) \<Longrightarrow> r \<in> set (sql_update p f rows) \<longleftrightarrow> r \<in> set rows"
  unfolding in_sql_update by metis

lemma notifications_of_others:
  assumes "n_account_id r \<noteq> account_id"
  shows "wp (mark_notification_read E account_id i)
      (\<lambda>_ t. r \<in> set (notifications t) \<longleftrightarrow> r \<in> set (notifications s)) s"
    "wp (archive_notifications E account_id)
      (\<lambda>_ t. r \<in> set (notifications t) \<longleftrightarrow> r \<in> set (notifications s)) s"
proof -
  have other: "r \<in> set (sql_update (\<lambda>x. n_account_id x = account_id \<and> p x) f rows) \<longleftrightarrow> r \<in> set rows"
    if "\<And>x. n_account_id (f x) = n_account_id x" for p f rows
    by (rule sql_update_other [of _ _ n_account_id]) (use assms that in auto)
  show "wp (mark_notification_read E account_id i)
      (\<lambda>_ t. r \<in> set (notifications t) \<longleftrightarrow> r \<in> set (notifications s)) s"
    unfolding mark_notification_read_def wp_simps by (simp add: other)
  show "wp (archive_notifications E account_id)
      (\<lambda>_ t. r \<in> set (notifications t) \<longleftrightarrow> r \<in> set (notifications s)) s"
    unfolding archive_notifications_def wp_simps by (simp add: other)
qed

section \<open>Reactions\<close>

definition reaction_key :: "reaction_row \<Rightarrow> source_kind \<times> str \<times> str \<times> str" where
  "reaction_key x = (x_source_kind x, x_source_id x, x_account_id x, x_emoji x)"

definition reactions_ok :: "world \<Rightarrow> bool" where
  "reactions_ok s \<longleftrightarrow> distinct (map reaction_key (reactions s))"

lemma keeps_reactions_same: "same reactions m \<Longrightarrow> keeps reactions_ok m"
  unfolding reactions_ok_def by (rule keeps_same)

definition reacted :: "world \<Rightarrow> source_kind \<Rightarrow> str \<Rightarrow> str \<Rightarrow> str \<Rightarrow> bool" where
  "reacted s kind i a e \<longleftrightarrow> (kind, i, a, e) \<in> reaction_key ` set (reactions s)"

text \<open>Reacting twice counts once, and removing leaves none.\<close>

lemma wp_set_reaction:
  "wp (set_reaction_tx E a kind i e remove)
     (\<lambda>_ t. (reactions_ok s \<longrightarrow> reactions_ok t)
        \<and> (\<forall>k j b f. reacted t k j b f \<longleftrightarrow>
             (if (k, j, b, f) = (kind, i, a, trim e) then \<not> remove else reacted s k j b f))) s"
proof (cases remove)
  case True
  then show ?thesis
    by (auto simp: set_reaction_tx_def Let_def wp_simps reactions_ok_def reacted_def reaction_key_def
        sql_delete_def distinct_map_filter image_iff)
next
  case False
  have ex: "list_ex (same_reaction x) R \<longleftrightarrow> reaction_key x \<in> reaction_key ` set R" for x R
    by (induction R) (auto simp: same_reaction_def reaction_key_def)
  have key: "reaction_key \<lparr>x_id = u, x_source_kind = k, x_source_id = j, x_account_id = b, x_emoji = f, x_created_at = n\<rparr> = (k, j, b, f)"
    for u k j b f n by (simp add: reaction_key_def)
  have up: "reaction_key ` set (sql_upsert (same_reaction x) (\<lambda>q. q) x R) = insert (reaction_key x) (reaction_key ` set R)"
    "distinct (map reaction_key R) \<Longrightarrow> distinct (map reaction_key (sql_upsert (same_reaction x) (\<lambda>q. q) x R))" for x R
    unfolding sql_upsert_def ex by (simp_all add: sql_update_def insert_absorb)
  from False show ?thesis
    by (auto simp: set_reaction_tx_def Let_def wp_simps reactions_ok_def reacted_def upsert_reaction_def up key)
qed

lemma reactions_kept:
  "keeps reactions_ok (react_to_thread E a t e r)" "keeps reactions_ok (react_to_comment E a t i e r)"
  "keeps reactions_ok (react_to_dm E a c i e r)"
proof -
  have set: "keeps reactions_ok (set_reaction_tx E a k i e r)" for k i
    by (rule keepsI) (rule wp_mono [OF wp_set_reaction], simp)
  show "keeps reactions_ok (react_to_thread E a t e r)" "keeps reactions_ok (react_to_comment E a t i e r)"
    "keeps reactions_ok (react_to_dm E a c i e r)"
    unfolding react_to_thread_def react_to_comment_def react_to_dm_def
    by (intro set keeps_intros; rule keeps_reactions_same, intro same_intros; simp add: blind_def)+
qed

section \<open>Sessions\<close>

text \<open>A closed session stays closed: no handler opens it again.\<close>

definition closed :: "world \<Rightarrow> str \<Rightarrow> bool" where
  "closed s i \<longleftrightarrow> (\<exists>q\<in>set (presence s). p_id q = i) \<and> (\<forall>q\<in>set (presence s). p_id q = i \<longrightarrow> p_disconnected_at q \<noteq> None)"

lemma same_closed: "same presence m \<Longrightarrow> keeps (\<lambda>s. closed s i) m"
  unfolding closed_def by (rule keeps_same)

lemma coalesce_Some [simp]: "coalesce x n \<noteq> None"
  by (simp add: coalesce_def split: option.splits)

lemma closed_stays: "keeps (\<lambda>s. closed s i) (record_presence E a j d)"
proof -
  define key :: "presence_row \<Rightarrow> str \<times> bool" where "key = (\<lambda>q. (p_id q, p_disconnected_at q \<noteq> None))"
  have keys: "closed s i \<longleftrightarrow> (i, True) \<in> key ` set (presence s) \<and> (i, False) \<notin> key ` set (presence s)" for s
    by (auto simp: closed_def key_def image_iff)
  have same_keys: "key ` set (sql_update p f R) = key ` set R" if "\<And>q. p q \<Longrightarrow> key (f q) = key q" for p f R
    using that by (induction R) (auto simp: sql_update_def)
  have ex: "list_ex (\<lambda>q. p_id q = k) R \<longleftrightarrow> k \<in> fst ` key ` set R" for k R
    by (induction R) (auto simp: key_def)
  have seen: "key (if p_disconnected_at q = None then q\<lparr>p_last_seen_at := n\<rparr> else q) = key q" for q n
    by (simp add: key_def)
  have new: "key \<lparr>p_id = k, p_account_id = b, p_started_at = n, p_last_seen_at = m, p_disconnected_at = None\<rparr> = (k, False)" for k b n m
    by (simp add: key_def)
  have there: "(k, b) \<in> X \<Longrightarrow> k \<in> fst ` X" for k :: str and b :: bool and X
    by force
  have up: "keeps (\<lambda>s. closed s i) (upsert_presence k a n)" for k n
    unfolding keeps_def upsert_presence_def wp_upsert_row keys sql_upsert_def ex
    by (simp add: same_keys seen new) (metis there)
  have closing: "(i, False) \<notin> key ` set (sql_update p (\<lambda>q. q\<lparr>p_last_seen_at := n, p_disconnected_at := coalesce (p_disconnected_at q) n\<rparr>) R)"
    "(i, True) \<in> key ` set R \<Longrightarrow> (i, True) \<in> key ` set (sql_update p (\<lambda>q. q\<lparr>p_last_seen_at := n, p_disconnected_at := coalesce (p_disconnected_at q) n\<rparr>) R)"
    if "(i, False) \<notin> key ` set R" for p n R
    using that by (induction R) (auto simp: sql_update_def key_def)
  have close: "keeps (\<lambda>s. closed s i) (close_presence k a n)" for k n
    unfolding keeps_def close_presence_def wp_modify keys by (auto simp: closing)
  show ?thesis
    unfolding record_presence_def
    by (intro up close keeps_intros; rule same_closed, intro same_intros; simp add: blind_def)
qed

lemma closed_by_update:
  assumes "q \<in> set (sql_update (\<lambda>q. p_id q = i \<and> p_account_id q = a)
      (\<lambda>q. q\<lparr>p_last_seen_at := n, p_disconnected_at := coalesce (p_disconnected_at q) n\<rparr>) R)"
    and "p_id q = i" "p_account_id q = a"
  shows "\<exists>y. p_disconnected_at q = Some y"
proof -
  obtain x where x: "q = (if p_id x = i \<and> p_account_id x = a then x\<lparr>p_last_seen_at := n, p_disconnected_at := coalesce (p_disconnected_at x) n\<rparr> else x)" using assms(1) unfolding in_sql_update by metis
  show ?thesis
  proof (cases "p_id x = i \<and> p_account_id x = a")
    case True
    then have "q = x\<lparr>p_last_seen_at := n, p_disconnected_at := coalesce (p_disconnected_at x) n\<rparr>" unfolding x by (rule if_P)
    then show ?thesis by (simp add: coalesce_def split: option.splits)
  next
    case False
    then have "q = x" unfolding x by (rule if_not_P)
    with False assms(2,3) show ?thesis by simp
  qed
qed

text \<open>What closing does: the account's session is closed, the others are as they were.\<close>

lemma session_ended:
  "wp (record_presence E a (Some i) True) (\<lambda>_ t.
     (list_ex (is_active_account a) (accounts s) \<longrightarrow>
        (\<forall>q\<in>set (presence t). p_id q = i \<and> p_account_id q = a \<longrightarrow> p_disconnected_at q \<noteq> None))
     \<and> (\<forall>q. p_id q \<noteq> i \<or> p_account_id q \<noteq> a \<longrightarrow> q \<in> set (presence t) \<longleftrightarrow> q \<in> set (presence s))) s"
proof -
  let ?f = "\<lambda>n q. q\<lparr>p_last_seen_at := n, p_disconnected_at := coalesce (p_disconnected_at q) n\<rparr>"
  let ?p = "\<lambda>q. p_id q = i \<and> p_account_id q = a"
  have rest: "q \<in> set (sql_update ?p (?f n) R) \<longleftrightarrow> q \<in> set R" if "\<not> ?p q" for q n R
    by (rule sql_update_other [of _ _ "\<lambda>q. (p_id q, p_account_id q)"]) (use that in auto)
  have log: "same presence (log_event E c t v k pl)" for c t v k pl
    by (intro same_intros) (simp add: blind_def)
  show ?thesis
    unfolding record_presence_def wp_bnd [of "gets _"] wp_gets wp_case_option wp_ret wp_bnd [of "now _"] wp_now
      wp_thn wp_update_account option.case if_True close_presence_def wp_modify
    by (auto simp: fetch_last_None list_ex_iff is_active_account_def rest dest: closed_by_update intro!: wp_same [OF log])
qed

section \<open>Connections\<close>

definition counted :: "server \<Rightarrow> bool" where
  "counted sv \<longleftrightarrow> (\<forall>a n. connections sv a = Some n \<longrightarrow> 0 < n)"

definition connection_count :: "str \<Rightarrow> server \<Rightarrow> nat" where
  "connection_count a sv = (case connections sv a of None \<Rightarrow> 0 | Some n \<Rightarrow> n)"

lemma on_db_connections [simp]: "connections (snd (on_db m sv)) = connections sv"
  by (simp add: on_db_def split: prod.splits)

lemma remove_added:
  "counted sv \<Longrightarrow> connections (snd (remove_account_session a (add_connection a sv))) = connections sv"
  by (cases "connections sv a") (auto simp: remove_account_session_def add_connection_def counted_def fun_eq_iff)

lemma counted_add: "counted sv \<Longrightarrow> counted (add_connection a sv)"
  by (simp add: counted_def add_connection_def)

lemma counted_remove: "counted sv \<Longrightarrow> counted (snd (remove_account_session a sv))"
  by (auto simp: counted_def remove_account_session_def split: option.splits)

lemma counted_cong: "connections t = connections s \<Longrightarrow> counted t = counted s"
  by (simp add: counted_def)

lemma count_add: "connection_count b (add_connection a sv) = connection_count b sv + (if b = a then 1 else 0)"
  by (simp add: connection_count_def add_connection_def split: option.splits)

lemma count_remove:
  "counted sv \<Longrightarrow> connection_count b (snd (remove_account_session a sv)) = connection_count b sv - (if b = a then 1 else 0)"
  by (auto simp: connection_count_def remove_account_session_def counted_def split: option.splits)


lemma begin_connections:
  "begin_account_session E a sv = (Inr i, sv1) \<Longrightarrow> \<exists>sv0. connections sv0 = connections sv \<and> connections sv1 = connections (add_connection a sv0)"
  "counted sv \<Longrightarrow> begin_account_session E a sv = (Inl e, sv1) \<Longrightarrow> connections sv1 = connections sv"
proof -
  have two: "connections (snd (on_db m (add_connection a sv0))) = connections (add_connection a sv0)" for m :: "unit wtx" and sv0
    by simp
  have one: "connections (snd (on_db (fresh_id E) sv)) = connections sv" by simp
  obtain r sv0 where r: "on_db (fresh_id E) sv = (r, sv0)" by fastforce
  have c: "connections sv0 = connections sv" using one r by simp
  show "\<exists>sv0. connections sv0 = connections sv \<and> connections sv1 = connections (add_connection a sv0)"
    if "begin_account_session E a sv = (Inr i, sv1)"
  proof -
    from that r obtain x where "on_db (touch_account_session E a i) (add_connection a sv0) = (Inr x, sv1)"
      by (auto simp: begin_account_session_def split: sum.splits prod.splits)
    with two [of "touch_account_session E a i" sv0] have "connections sv1 = connections (add_connection a sv0)" by simp
    with c show ?thesis by blast
  qed
  show "connections sv1 = connections sv" if n: "counted sv" and b: "begin_account_session E a sv = (Inl e, sv1)"
  proof (cases r)
    case (Inl e')
    then show ?thesis using b r c by (simp add: begin_account_session_def)
  next
    case (Inr j)
    obtain r2 sv2 where r2: "on_db (touch_account_session E a j) (add_connection a sv0) = (r2, sv2)" by fastforce
    then have "connections sv2 = connections (add_connection a sv0)" using two [of "touch_account_session E a j" sv0] by simp
    moreover have "sv1 = snd (remove_account_session a sv2)"
      using b r r2 Inr by (auto simp: begin_account_session_def split: sum.splits)
    moreover have "connections (snd (remove_account_session a x)) = connections (snd (remove_account_session a y))"
      if "connections x = connections y" for x y
      using that by (simp add: remove_account_session_def split: option.splits)
    moreover have "counted sv0" using n c by (simp add: counted_def)
    ultimately show ?thesis using remove_added [of sv0 a] c by metis
  qed
qed

lemma session_balanced:
  assumes "counted sv" "begin_account_session E a sv = (Inr i, sv1)"
  shows "connections (snd (end_presence_session E a i sv1)) = connections sv"
proof -
  obtain sv0 where sv0: "connections sv0 = connections sv" "connections sv1 = connections (add_connection a sv0)"
    using begin_connections(1) [OF assms(2)] by blast
  have "connections (snd (end_presence_session E a i sv1)) = connections (snd (remove_account_session a sv1))"
    by (simp add: end_presence_session_def end_account_session_inner_def split: prod.splits)
  also have "\<dots> = connections (snd (remove_account_session a (add_connection a sv0)))"
    using sv0(2) by (simp add: remove_account_session_def split: option.splits)
  also have "\<dots> = connections sv" using remove_added [of sv0 a] sv0(1) assms(1) by (simp add: counted_def)
  finally show ?thesis .
qed

end
