(* ===== verification/Service.thy ===== *)
theory Service
  imports Notices
begin

text \<open>
  The service as a whole: every request that changes the database, each its own
  transaction, and the states it can reach. \<open>ServerState\<close> (\<open>features/*/state.rs\<close>) has one
  method per request; the handlers are those of the component theories.
\<close>

section \<open>Requests\<close>

datatype (plugins only: code size) message_request =
    CreateThread str str str
  | AddComment str str str
  | EditThread str str str str
  | RenameThread str str str
  | DeleteThread str str
  | SetThreadArchived str str bool
  | SetThreadPinned str str bool
  | SetThreadMuted str str "int option"
  | SetThreadSaved str str bool
  | MarkThreadRead str str
  | MarkThreadUnread str str
  | UpdateComment str str int str
  | DeleteComment str str int
  | SaveComment str str int bool
  | OpenDm str str
  | SendDm str str str
  | UpdateDm str str int str
  | DeleteDm str str int
  | SaveDm str str int bool
  | SetConversationMuted str str "int option"
  | SetConversationSaved str str bool
  | MarkConversationRead str str
  | MarkConversationUnread str str
  | ReactToThread str str str bool
  | ReactToComment str str int str bool
  | ReactToDm str str int str bool
  | MarkNotificationRead str "str option"
  | ArchiveNotifications str

datatype (plugins only: code size) channel_request =
    CreateChannel str str bool
  | JoinChannel str str
  | AddChannelMember str str str
  | RemoveChannelMember str str str
  | LeaveChannel str str
  | RenameChannel str str str
  | SetChannelTopic str str str
  | SetChannelArchived str str bool

datatype (plugins only: code size) account_request =
    SetUserDisabled str str bool
  | SetUserRole str str role
  | RenameUser str str str
  | SetDisplayName str str str
  | CreateDeviceLinkToken str "str option"
  | AddSshKey str "str option" "err + (str \<times> str)" "str option"
  | LabelSshKey str str str
  | RevokeSshKey str str
  | CreateBootstrapToken
  | CreateInvite str role "int option"
  | RevokeInvite str str
  | LookupKey str
  | RedeemToken str str str str
  | CompleteOnboarding str str
  | TouchAccount str
  | TouchSession str str
  | EndSession str str

text \<open>The answer is left out; a request is what it does to the database.\<close>

definition unit_of :: "'a wtx \<Rightarrow> unit wtx" where
  "unit_of m = bnd m (\<lambda>_. ret ())"

fun message_handler :: "env \<Rightarrow> message_request \<Rightarrow> unit wtx" where
  "message_handler E (CreateThread a c t) = unit_of (create_thread E a c t)"
| "message_handler E (AddComment a t b) = add_comment E a t b"
| "message_handler E (EditThread a t ti b) = edit_thread E a t ti b"
| "message_handler E (RenameThread a t ti) = rename_thread E a t ti"
| "message_handler E (DeleteThread a t) = delete_thread E a t"
| "message_handler E (SetThreadArchived a t v) = set_thread_archived E a t v"
| "message_handler E (SetThreadPinned a t v) = set_thread_pinned E a t v"
| "message_handler E (SetThreadMuted a t h) = set_thread_muted E a t h"
| "message_handler E (SetThreadSaved a t v) = set_thread_saved E a t v"
| "message_handler E (MarkThreadRead a t) = mark_thread_read E a t"
| "message_handler E (MarkThreadUnread a t) = mark_thread_unread E a t"
| "message_handler E (UpdateComment a t i b) = update_comment_body E a t i b"
| "message_handler E (DeleteComment a t i) = soft_delete_comment E a t i"
| "message_handler E (SaveComment a t i v) = set_comment_saved E a t i v"
| "message_handler E (OpenDm a u) = unit_of (open_dm E a u)"
| "message_handler E (SendDm a c b) = send_dm E a c b"
| "message_handler E (UpdateDm a c i b) = update_dm_body E a c i b"
| "message_handler E (DeleteDm a c i) = soft_delete_dm E a c i"
| "message_handler E (SaveDm a c i v) = set_dm_message_saved E a c i v"
| "message_handler E (SetConversationMuted a c h) = set_conversation_muted E a c h"
| "message_handler E (SetConversationSaved a c v) = set_conversation_saved E a c v"
| "message_handler E (MarkConversationRead a c) = mark_conversation_read E a c"
| "message_handler E (MarkConversationUnread a c) = mark_conversation_unread E a c"
| "message_handler E (ReactToThread a t e r) = react_to_thread E a t e r"
| "message_handler E (ReactToComment a t i e r) = react_to_comment E a t i e r"
| "message_handler E (ReactToDm a c i e r) = react_to_dm E a c i e r"
| "message_handler E (MarkNotificationRead a i) = mark_notification_read E a i"
| "message_handler E (ArchiveNotifications a) = archive_notifications E a"

fun channel_handler :: "env \<Rightarrow> channel_request \<Rightarrow> unit wtx" where
  "channel_handler E (CreateChannel a n p) = unit_of (create_channel E a n p)"
| "channel_handler E (JoinChannel a u) = unit_of (join_channel E a u)"
| "channel_handler E (AddChannelMember a c u) = add_channel_member E a c u"
| "channel_handler E (RemoveChannelMember a c u) = remove_channel_member E a c u"
| "channel_handler E (LeaveChannel a u) = leave_channel E a u"
| "channel_handler E (RenameChannel a u n) = rename_channel E a u n"
| "channel_handler E (SetChannelTopic a u t) = set_channel_topic E a u t"
| "channel_handler E (SetChannelArchived a u v) = set_channel_archived E a u v"

fun account_handler :: "env \<Rightarrow> account_request \<Rightarrow> unit wtx" where
  "account_handler E (SetUserDisabled a u v) = set_user_disabled E a u v"
| "account_handler E (SetUserRole a u r) = set_user_role E a u r"
| "account_handler E (RenameUser a u n) = rename_user E a u n"
| "account_handler E (SetDisplayName a u n) = set_display_name E a u n"
| "account_handler E (CreateDeviceLinkToken a l) = unit_of (create_device_link_token E a l)"
| "account_handler E (AddSshKey a u k l) = unit_of (add_ssh_key E a u k l)"
| "account_handler E (LabelSshKey a k l) = label_ssh_key E a k l"
| "account_handler E (RevokeSshKey a k) = revoke_ssh_key E a k"
| "account_handler E CreateBootstrapToken = unit_of (create_bootstrap_token E)"
| "account_handler E (CreateInvite a r h) = unit_of (create_invite_with_options E a r h)"
| "account_handler E (RevokeInvite a i) = revoke_invite E a i"
| "account_handler E (LookupKey f) = unit_of (lookup_active_account_for_key E f)"
| "account_handler E (RedeemToken u t f k) = unit_of (redeem_ssh_login_token_for_key E u t f k)"
| "account_handler E (CompleteOnboarding a u) = unit_of (complete_onboarding E a u)"
| "account_handler E (TouchAccount a) = touch_account E a"
| "account_handler E (TouchSession a i) = touch_account_session E a i"
| "account_handler E (EndSession a i) = record_presence E a (Some i) True"

datatype request =
    MessageRequest message_request
  | ChannelRequest channel_request
  | AccountRequest account_request

fun handle :: "env \<Rightarrow> request \<Rightarrow> unit wtx" where
  "handle E (MessageRequest q) = message_handler E q"
| "handle E (ChannelRequest q) = channel_handler E q"
| "handle E (AccountRequest q) = account_handler E q"

section \<open>Runs\<close>

text \<open>A transaction that fails is rolled back. The clock may also advance between requests.\<close>

inductive step :: "env \<Rightarrow> world \<Rightarrow> world \<Rightarrow> bool" for E where
  commit: "handle E q s = Inr ((), t) \<Longrightarrow> step E s t"
| rollback: "handle E q s = Inl e \<Longrightarrow> step E s s"
| time_passes: "step E s (s\<lparr>tick := Suc (tick s)\<rparr>)"

inductive_cases step_cases: "step E s t"

inductive reachable :: "env \<Rightarrow> world \<Rightarrow> bool" for E where
  start: "reachable E empty_world"
| advance: "reachable E s \<Longrightarrow> step E s t \<Longrightarrow> reachable E t"

lemma step_run: "step E s (snd (run_tx (handle E q) s))"
  by (cases "handle E q s") (auto simp: run_tx_def intro: step.intros)

fun serve :: "env \<Rightarrow> request list \<Rightarrow> world \<Rightarrow> world" where
  "serve E [] s = s"
| "serve E (q # qs) s = serve E qs (snd (run_tx (handle E q) s))"

lemma reachable_serve: "reachable E s \<Longrightarrow> reachable E (serve E qs s)"
  by (induction qs arbitrary: s) (auto intro: reachable.advance step_run)

lemma keeps_unit_of [keeps_intros]: "keeps I m \<Longrightarrow> keeps I (unit_of m)"
  unfolding unit_of_def by (intro keeps_intros)

lemma same_unit_of [same_intros]: "same g m \<Longrightarrow> same g (unit_of m)"
  unfolding unit_of_def by (intro same_intros)

lemma step_keeps:
  assumes "step E s t" "I s" "\<And>q. keeps I (handle E q)" "\<And>s n. I (s\<lparr>tick := n\<rparr>) = I s"
  shows "I t"
  using assms(1)
proof (cases rule: step.cases)
  case (commit q)
  then show ?thesis using wpD [OF keepsD [OF assms(3) assms(2)]] by blast
qed (use assms(2,4) in simp_all)

section \<open>What a group of requests leaves alone\<close>

text \<open>The handlers that are another one at a fixed argument.\<close>

lemmas handler_synonyms = delete_thread_def set_thread_archived_def set_thread_pinned_def
  add_channel_member_def remove_channel_member_def touch_account_def touch_account_session_def

lemma same_messages:
  assumes "message_blind g"
  shows "same g (message_handler E q)"
proof -
  have "blind g" using assms by (simp add: message_blind_def)
  with assms show ?thesis
    by (cases q) (simp_all add: handler_synonyms same_intros same_unit_of)
qed

lemma same_channels:
  assumes "channel_blind g"
  shows "same g (channel_handler E q)"
  using assms by (cases q) (simp_all add: handler_synonyms same_intros same_unit_of)

lemma same_accounts:
  assumes "presence_blind g" "channel_blind g"
  shows "same g (account_handler E q)"
  using assms presence_blindD2 [OF assms(1)]
  by (cases q) (simp_all add: handler_synonyms same_intros same_unit_of)

end
