(* ===== verification/Reachable.thy ===== *)
theory Reachable
  imports Service
begin

text \<open>
  What holds in every state the service can reach: the invariants of the component
  theories, kept by every request, and true of the empty database.
\<close>


section \<open>Invariants of every request\<close>

text \<open>Names.\<close>

lemma names_handle:
  assumes "lower_case (e_lc E)"
  shows "keeps names_ok (handle E q)"
proof (cases q)
  case (MessageRequest m)
  have "keeps names_ok (message_handler E m)"
    by (intro keeps_names_same same_messages) (simp add: message_blind_def blind_def)
  with MessageRequest show ?thesis by simp
next
  case (ChannelRequest m)
  have "keeps names_ok (channel_handler E m)"
    by (intro keeps_names_same same_channels) (simp add: channel_blind_def blind_def)
  with ChannelRequest show ?thesis by simp
next
  case (AccountRequest m)
  have presence: "keeps names_ok (record_presence E a i d)" for a i d
    unfolding record_presence_def
    by (intro names_update_account keeps_intros keeps_names_same same_intros; simp add: blind_def)
  have redeem: "keeps names_ok (redeem_ssh_login_token_for_key E u t f k)" for u t f k
    unfolding redeem_ssh_login_token_for_key_def by (intro names_accounts keeps_intros)
  have "keeps names_ok (account_handler E m)"
    by (cases m) (simp_all add: handler_synonyms names_accounts assms presence redeem keeps_unit_of)
  with AccountRequest show ?thesis by simp
qed

text \<open>\<open>#general\<close>.\<close>

lemma general_handle: "keeps general_ok (handle E q)"
proof (cases q)
  case (MessageRequest m)
  have "keeps general_ok (message_handler E m)"
    by (intro keeps_general_same same_messages) (simp add: message_blind_def blind_def general_view_def)
  with MessageRequest show ?thesis by simp
next
  case (ChannelRequest m)
  have "keeps general_ok (channel_handler E m)"
    by (cases m) (simp_all add: handler_synonyms general_accounts keeps_unit_of)
  with ChannelRequest show ?thesis by simp
next
  case (AccountRequest m)
  have presence: "keeps general_ok (record_presence E a i d)" for a i d
    unfolding record_presence_def
    by (intro general_update_account keeps_intros keeps_general_same same_intros; simp add: blind_def general_view_def)
  have redeem: "keeps general_ok (redeem_ssh_login_token_for_key E u t f k)" for u t f k
    unfolding redeem_ssh_login_token_for_key_def by (intro general_accounts keeps_intros)
  have "keeps general_ok (account_handler E m)"
    by (cases m) (simp_all add: handler_synonyms general_accounts presence redeem keeps_unit_of)
  with AccountRequest show ?thesis by simp
qed

text \<open>Counters: the account and channel handlers only touch the membership rows.\<close>

lemma counts_members_modify:
  assumes "\<And>s. distinct (map mkey (channel_members s)) \<Longrightarrow> distinct (map mkey (channel_members (f s)))"
    and "\<And>s. (threads (f s), comments (f s), thread_reads (f s)) = (threads s, comments s, thread_reads s)"
  shows "keeps counts_ok (modify f)"
  unfolding keeps_def wp_modify using assms
  by (auto simp: counts_ok_def counts_view_def)

lemma counts_members:
  "keeps counts_ok (insert_channel_member m)" "keeps counts_ok (upsert_channel_member m)"
  "keeps counts_ok (remove_member c a)"
proof -
  have ex: "list_ex (same_member m) M \<longleftrightarrow> mkey m \<in> mkey ` set M" for M
    by (induction M) (auto simp: same_member_def mkey_def)
  have up: "map mkey (sql_update (same_member m) (\<lambda>q. q) M) = map mkey M" for M
    by (simp add: map_sql_update)
  show "keeps counts_ok (insert_channel_member m)" "keeps counts_ok (upsert_channel_member m)"
    unfolding keeps_def insert_channel_member_def upsert_channel_member_def wp_insert_row wp_upsert_row sql_upsert_def ex
    by (auto simp: counts_ok_def counts_view_def up ex)
  show "keeps counts_ok (remove_member c a)"
    unfolding remove_member_def
    by (rule counts_members_modify) (auto simp: sql_delete_def distinct_map_filter)
qed

lemma counts_channels: "keeps counts_ok (channel_handler E q)"
proof -
  have one: "keeps counts_ok (create_channel E a n p)" "keeps counts_ok (join_channel E a u)"
    "keeps counts_ok (update_channel_member E a u n v)" "keeps counts_ok (leave_channel E a u)" for a n p u v
    unfolding create_channel_def join_channel_def update_channel_member_def leave_channel_def insert_channel_def Let_def
    by (intro counts_members keeps_intros; intro keeps_counts_same same_intros; simp add: counts_view_def insert_defs)+
  have two: "keeps counts_ok (rename_channel E a u n)" "keeps counts_ok (set_channel_topic E a u n)"
    "keeps counts_ok (set_channel_archived E a u v)" for a n u v
    unfolding rename_channel_def set_channel_topic_def set_channel_archived_def Let_def
    by (intro keeps_counts_same same_intros; simp add: counts_view_def)+
  show ?thesis
    by (cases q) (simp_all add: handler_synonyms one two keeps_unit_of)
qed

lemma counts_accounts: "keeps counts_ok (account_handler E q)"
proof -
  have frame: "presence_blind counts_view" "account_blind counts_view"
    by (simp_all add: presence_blind_def account_blind_def blind_def counts_view_def)
  have on: "keeps counts_ok (complete_onboarding E a u)" for a u
    unfolding complete_onboarding_def onboard_def general_channel_def insert_channel_def Let_def
    by (intro counts_members keeps_intros; intro keeps_counts_same same_intros; simp add: counts_view_def insert_defs)
  show ?thesis
    by (cases q) (simp_all add: handler_synonyms on frame keeps_unit_of keeps_counts_same same_intros)
qed

lemma counts_handle: "keeps counts_ok (handle E q)"
proof (cases q)
  case (MessageRequest m)
  have frame: "keeps counts_ok (react_to_thread E a t e r)" "keeps counts_ok (react_to_comment E a t i e r)"
    "keeps counts_ok (react_to_dm E a c i e r)" "keeps counts_ok (mark_notification_read E a n)"
    "keeps counts_ok (archive_notifications E a)" for a t e r i c n
    unfolding react_to_thread_def react_to_comment_def react_to_dm_def
    by (intro keeps_counts_same same_intros; simp add: counts_view_def)+
  have "keeps counts_ok (message_handler E m)"
    by (cases m) (simp_all add: handler_synonyms counts_messages frame keeps_unit_of)
  with MessageRequest show ?thesis by simp
qed (simp_all add: counts_channels counts_accounts)

text \<open>Conversations: the account ids a request makes are UUIDs.\<close>

lemma dm_handle:
  assumes plain: "\<And>n. plain_id (e_id E n)"
  shows "keeps dm_ok (handle E q)"
proof (cases q)
  case (MessageRequest m)
  have frame: "keeps dm_ok (react_to_thread E a t e r)" "keeps dm_ok (react_to_comment E a t i e r)"
    "keeps dm_ok (react_to_dm E a c i e r)" "keeps dm_ok (mark_notification_read E a n)"
    "keeps dm_ok (archive_notifications E a)" for a t e r i c n
    unfolding react_to_thread_def react_to_comment_def react_to_dm_def
    by (intro keeps_dm_same same_intros; simp add: dm_view_def)+
  have "keeps dm_ok (message_handler E m)"
    by (cases m) (simp_all add: handler_synonyms dm_messages frame keeps_unit_of)
  with MessageRequest show ?thesis by simp
next
  case (ChannelRequest m)
  have "keeps dm_ok (channel_handler E m)"
    by (intro keeps_dm_same same_channels) (simp add: channel_blind_def blind_def dm_view_def)
  with ChannelRequest show ?thesis by simp
next
  case (AccountRequest m)
  have update: "keeps dm_ok (update_account i f)" if "\<And>a. a_id (f a) = a_id a" for i f
    unfolding update_account_def by (intro keeps_dm_same same_intros) (use that in \<open>simp add: dm_view_def map_sql_update\<close>)
  have activate: "keeps dm_ok (activate_account i u n)" for i u n
    unfolding activate_account_def by (intro keeps_dm_same same_intros) (simp_all add: dm_view_def map_sql_update)
  have insert: "keeps dm_ok (insert_account r)" if "plain_id (a_id r)" for r
    using that by (auto simp: keeps_def insert_account_def wp_simps dm_ok_def dm_view_def)
  have fresh: "keeps dm_ok (bnd (fresh_id E) f)" if "\<And>x. plain_id x \<Longrightarrow> keeps dm_ok (f x)" for f :: "str \<Rightarrow> 'x wtx"
    using that plain by (auto simp: keeps_def wp_bnd [of "fresh_id _"] wp_fresh_id)
  have redeem: "keeps dm_ok (redeem_token_for_key E u t f k)" for u t f k
    unfolding redeem_token_for_key_def
    by (intro fresh insert keeps_intros; (simp add: pending_account_row_def; fail)?;
        intro keeps_dm_same same_intros; simp add: dm_view_def insert_defs same_intros)
  have link: "keeps dm_ok (redeem_device_link_token_for_key E t f k)" for t f k
    unfolding redeem_device_link_token_for_key_def log_user_def Let_def
    by (intro update keeps_intros; simp?; intro keeps_dm_same same_intros; simp add: dm_view_def insert_defs same_intros)
  have others: "keeps dm_ok (set_user_disabled E a u b)" "keeps dm_ok (set_user_role E a u r)"
    "keeps dm_ok (rename_user E a u x)" "keeps dm_ok (set_display_name E a u d)"
    "keeps dm_ok (lookup_active_account_for_key E f)"
    "keeps dm_ok (record_presence E a i v)" "keeps dm_ok (complete_onboarding E a u)" for a u b r x d f i v
    unfolding set_user_disabled_def set_user_role_def rename_user_def set_display_name_def log_user_def
      lookup_active_account_for_key_def record_presence_def complete_onboarding_def onboard_def Let_def
    by (intro update activate keeps_intros; (simp; fail)?;
        intro keeps_dm_same same_intros; simp add: dm_view_def insert_defs same_intros)+
  have frames: "keeps dm_ok (create_device_link_token E a l)" "keeps dm_ok (add_ssh_key E a w p l)"
    "keeps dm_ok (label_ssh_key E a k x)" "keeps dm_ok (revoke_ssh_key E a k)"
    "keeps dm_ok (create_bootstrap_token E)" "keeps dm_ok (create_invite_with_options E a r h)"
    "keeps dm_ok (revoke_invite E a i)" for a l w p k x r h i
    unfolding create_invite_with_options_def revoke_invite_def create_device_link_token_def add_ssh_key_def
      label_ssh_key_def revoke_ssh_key_def create_bootstrap_token_def Let_def insert_defs
    by (intro keeps_dm_same same_intros; simp add: dm_view_def)+
  have both: "keeps dm_ok (redeem_ssh_login_token_for_key E u t f k)" for u t f k
    unfolding redeem_ssh_login_token_for_key_def by (intro redeem link keeps_intros)
  have "keeps dm_ok (account_handler E m)"
    by (cases m) (simp_all add: handler_synonyms others frames both keeps_unit_of)
  with AccountRequest show ?thesis by simp
qed


text \<open>Search: every writer of the two tables goes through the two projection steps.\<close>

lemma search_leaves:
  "keeps search_ok (upsert_search_index_tx q)" "keeps search_ok (delete_search_index_tx k i)"
  by (simp_all add: keeps_def upsert_search_index_ok delete_search_index_ok)

lemma keeps_search_same: "same (\<lambda>s. (search_documents s, search_index s)) m \<Longrightarrow> keeps search_ok m"
  unfolding search_ok_def by (drule keeps_same [where J = "\<lambda>(d, i). search_sync d i"]) simp

lemmas message_defs = create_thread_def add_comment_def edit_thread_def rename_thread_def update_thread_flag_def
  set_thread_muted_def set_thread_saved_def mark_thread_read_def mark_thread_unread_def update_comment_body_def
  soft_delete_comment_def set_comment_saved_def open_dm_def send_dm_def update_dm_body_def soft_delete_dm_def
  set_dm_message_saved_def set_conversation_muted_def set_conversation_saved_def mark_conversation_read_def
  mark_conversation_unread_def react_to_thread_def react_to_comment_def react_to_dm_def mark_notification_read_def
  archive_notifications_def log_thread_edited_def

lemma search_messages: "keeps search_ok (message_handler E q)"
proof -
  have parts: "keeps search_ok (thread_created E a t c sl ti b n)" "keeps search_ok (comment_created E a t c sl ti co i b n)"
    "keeps search_ok (dm_created E a v m i b n)" "keeps search_ok (reindex_thread t c ti b)" for a t c sl ti b n co i v m
    unfolding thread_created_def comment_created_def dm_created_def reindex_thread_def Let_def
    by (intro search_leaves keeps_intros; intro keeps_search_same same_intros; simp)+
  show ?thesis
    by (cases q; simp only: message_handler.simps handler_synonyms message_defs unit_of_def Let_def;
        intro parts search_leaves keeps_intros; intro keeps_search_same same_intros; simp add: insert_defs same_intros)
qed

lemma search_handle: "keeps search_ok (handle E q)"
proof (cases q)
  case (MessageRequest m)
  then show ?thesis by (simp add: search_messages)
next
  case (ChannelRequest m)
  have "keeps search_ok (channel_handler E m)"
    by (cases m; simp only: channel_handler.simps handler_synonyms create_channel_def join_channel_def update_channel_member_def
        leave_channel_def rename_channel_def set_channel_topic_def set_channel_archived_def log_channel_def unit_of_def Let_def;
        intro keeps_search_same same_intros; simp add: insert_defs same_intros)
  with ChannelRequest show ?thesis by simp
next
  case (AccountRequest m)
  have "keeps search_ok (account_handler E m)"
    by (cases m; simp only: account_handler.simps handler_synonyms set_user_disabled_def set_user_role_def rename_user_def
        set_display_name_def create_device_link_token_def add_ssh_key_def label_ssh_key_def revoke_ssh_key_def create_bootstrap_token_def
        create_invite_with_options_def revoke_invite_def lookup_active_account_for_key_def redeem_ssh_login_token_for_key_def
        redeem_device_link_token_for_key_def redeem_token_for_key_def complete_onboarding_def onboard_def general_channel_def
        record_presence_def log_user_def unit_of_def Let_def;
        intro keeps_search_same same_intros; simp add: insert_defs same_intros)
  with AccountRequest show ?thesis by simp
qed

text \<open>Reactions.\<close>

lemma reactions_handle: "keeps reactions_ok (handle E q)"
proof (cases q)
  case (MessageRequest m)
  have parts: "keeps reactions_ok (thread_created E a t c sl ti b n)" "keeps reactions_ok (comment_created E a t c sl ti co i b n)"
    "keeps reactions_ok (dm_created E a v m i b n)" "keeps reactions_ok (reindex_thread t c ti b)" for a t c sl ti b n co i v m
    by (intro keeps_reactions_same same_intros; simp add: blind_def)+
  have set: "keeps reactions_ok (set_reaction_tx E a k i e r)" for a k i e r
    by (rule keepsI) (rule wp_mono [OF wp_set_reaction], simp)
  have "keeps reactions_ok (message_handler E m)"
    by (cases m; simp only: message_handler.simps handler_synonyms message_defs unit_of_def Let_def;
        intro parts set keeps_intros; intro keeps_reactions_same same_intros; simp add: insert_defs same_intros)
  with MessageRequest show ?thesis by simp
next
  case (ChannelRequest m)
  have "keeps reactions_ok (channel_handler E m)"
    by (intro keeps_reactions_same same_channels) (simp add: channel_blind_def blind_def)
  with ChannelRequest show ?thesis by simp
next
  case (AccountRequest m)
  have "keeps reactions_ok (account_handler E m)"
    by (intro keeps_reactions_same same_accounts) (simp_all add: presence_blind_def account_blind_def channel_blind_def blind_def)
  with AccountRequest show ?thesis by simp
qed

text \<open>Owners: once somebody is active, an owner is.\<close>

lemma owner_handle: "keeps owner_ok (handle E q)"
proof (cases q)
  case (MessageRequest m)
  have "keeps owner_ok (message_handler E m)"
    by (intro keeps_owner_same same_messages) (simp add: message_blind_def blind_def)
  with MessageRequest show ?thesis by simp
next
  case (ChannelRequest m)
  have "keeps owner_ok (channel_handler E m)"
    by (intro keeps_owner_same same_channels) (simp add: channel_blind_def blind_def)
  with ChannelRequest show ?thesis by simp
next
  case (AccountRequest m)
  have presence: "keeps owner_ok (record_presence E a i d)" for a i d
    unfolding record_presence_def
    by (intro owner_update_account keeps_intros keeps_owner_same same_intros; simp add: blind_def active_owner_def)
  have redeem: "keeps owner_ok (redeem_ssh_login_token_for_key E u t f k)" for u t f k
    unfolding redeem_ssh_login_token_for_key_def by (intro owner_accounts keeps_intros)
  have "keeps owner_ok (account_handler E m)"
    by (cases m) (simp_all add: handler_synonyms owner_accounts presence redeem keeps_unit_of)
  with AccountRequest show ?thesis by simp
qed


text \<open>
  Before the bootstrap nobody is active and no invite has been accepted; the first
  account to become active is an owner.
\<close>

definition idle :: "world \<Rightarrow> bool" where
  "idle s \<longleftrightarrow> account_ids_ok s \<and> (\<forall>a\<in>set (accounts s). a_activated_at a = None)
     \<and> (\<forall>i\<in>set (invites s). i_accepted_at i = None)"

definition bootstrap_ok :: "world \<Rightarrow> bool" where
  "bootstrap_ok s \<longleftrightarrow> owner_ok s \<or> idle s"

lemma keeps_idle_same:
  assumes "same (\<lambda>s. (map (\<lambda>a. (a_id a, a_activated_at a = None)) (accounts s),
      map (\<lambda>i. i_accepted_at i = None) (invites s))) m"
  shows "keeps idle m"
proof -
  let ?J = "\<lambda>(A, I). distinct (map fst A) \<and> (\<forall>(a, b)\<in>set A. b) \<and> (\<forall>b\<in>set I. b)"
  have "idle = (\<lambda>s. ?J (map (\<lambda>a. (a_id a, a_activated_at a = None)) (accounts s), map (\<lambda>i. i_accepted_at i = None) (invites s)))"
    by (rule ext) (simp add: idle_def account_ids_ok_def comp_def)
  then show ?thesis using keeps_same [OF assms, of ?J] by simp
qed

lemma bootstrap_keeps:
  assumes "keeps owner_ok m" "\<And>s. idle s \<Longrightarrow> wp m (\<lambda>_. bootstrap_ok) s"
  shows "keeps bootstrap_ok m"
  using assms unfolding keeps_def bootstrap_ok_def by (blast intro: wp_mono)

lemma bootstrap_idle: "keeps owner_ok m \<Longrightarrow> keeps idle m \<Longrightarrow> keeps bootstrap_ok m"
  unfolding keeps_def bootstrap_ok_def by (blast intro: wp_mono)

lemma idle_update_account:
  assumes "\<And>a. (a_id (f a), a_activated_at (f a) = None) = (a_id a, a_activated_at a = None)"
  shows "keeps idle (update_account i f)"
  unfolding update_account_def
  by (intro keeps_idle_same same_intros) (use assms in \<open>simp add: map_sql_update\<close>)

lemma idle_inserts:
  "a_activated_at r = None \<Longrightarrow> keeps idle (insert_account r)"
  "i_accepted_at q = None \<Longrightarrow> keeps idle (insert_invite q)"
  by (auto simp: keeps_def insert_account_def insert_invite_def wp_simps idle_def account_ids_ok_def)

lemma idle_accept_token:
  assumes "idle s"
  shows "wp (accept_token E h n) (\<lambda>(b, i, r) t. i = None \<and> idle t) s"
proof -
  have "active_accounts s = 0"
    using assms by (auto simp: active_accounts_def sql_count_zero idle_def)
  then show ?thesis
    using assms by (simp add: accept_token_def wp_bnd wp_gets wp_if wp_case_option wp_ret wp_fail)
qed

lemma bootstrap_redeem: "keeps idle (redeem_token_for_key E u t f k)"
proof -
  have rest: "keeps idle (thn (insert_account (pending_account_row x r p n)) (bnd (fresh_id E) (\<lambda>key.
      thn (insert_key (kr key)) (thn (use_bootstrap b x n) (thn (use_invite None x n) (ret (acc r)))))))" for x r p n kr b acc
    unfolding use_invite_def option.case
    by (intro idle_inserts keeps_intros; (simp add: pending_account_row_def; fail)?;
        intro keeps_idle_same same_intros; simp add: insert_defs same_intros)
  have accept: "wp (bnd (accept_token E h n) (\<lambda>(b, i, r). thn (insert_account (pending_account_row x r p n)) (bnd (fresh_id E) (\<lambda>key.
      thn (insert_key (kr key)) (thn (use_bootstrap b x n) (thn (use_invite i x n) (ret (acc r)))))))) (\<lambda>_. idle) s"
    if "idle s" for s h x p n kr acc
    unfolding wp_bnd [of "accept_token _ _ _"]
    by (rule wp_mono [OF idle_accept_token [OF that]]) (auto intro: keepsD [OF rest])
  have pend: "keeps idle (pending_username_for E u)" by (intro keeps_idle_same same_intros)
  have idle_tick: "idle (s\<lparr>tick := n\<rparr>) = idle s" for s n by (simp add: idle_def account_ids_ok_def)
  show ?thesis
    unfolding redeem_token_for_key_def keeps_def wp_bnd [of "now _"] wp_now wp_bnd [of "pending_username_for _ _"]
      wp_bnd [of "fresh_id _"] wp_fresh_id
    by (intro allI impI, rule wp_mono [OF keepsD [OF pend]], simp add: idle_tick) (rule accept, simp add: idle_tick)
qed

text \<open>Onboarding from the idle state makes an owner.\<close>

lemma idle_ensure_token:
  assumes "idle s"
  shows "wp (ensure_accepted_token a r) (\<lambda>_ t. t = s \<and> r = Owner) s"
proof -
  have none: "sql_count (\<lambda>i. i_accepted_by i = Some a \<and> i_accepted_at i \<noteq> None) (invites s) = 0"
    using assms by (auto simp: sql_count_zero idle_def)
  show ?thesis
    unfolding ensure_accepted_token_def wp_if wp_bnd wp_gets wp_thn wp_ensure none by simp
qed

lemma bootstrap_activate:
  assumes s: "idle s" and row: "row \<in> set (accounts s)" "a_role row = Owner" "a_disabled_at row = None"
  shows "wp (activate_account (a_id row) u n) (\<lambda>_. owner_ok) s"
proof -
  let ?f = "\<lambda>a. a\<lparr>a_username := u, a_display_name := u, a_last_seen_at := Some n,
              a_activated_at := Some n, a_updated_at := n, a_pending_username := None\<rparr>"
  let ?p = "\<lambda>a. a_id a = a_id row \<and> a_activated_at a = None"
  have "?f row \<in> set (sql_update ?p ?f (accounts s))"
    using s row by (intro updated_by_update) (auto simp: idle_def)
  moreover have "active_owner (?f row)" using row by (simp add: active_owner_def)
  ultimately have "owner_ok (s\<lparr>accounts := sql_update ?p ?f (accounts s)\<rparr>)"
    using s unfolding owner_ok_def has_active_owner_def
    by (auto simp: idle_def account_ids_ok_def map_sql_update)
  then show ?thesis by (simp add: activate_account_def wp_simps)
qed

lemma bootstrap_onboarding:
  assumes s: "idle s"
  shows "wp (complete_onboarding E a u) (\<lambda>_. bootstrap_ok) s"
proof -
  have rest: "keeps owner_ok (thn (set_current_username_reservation_tx i v n) (thn (modify (\<lambda>s. s\<lparr>ssh_keys := f (ssh_keys s)\<rparr>))
     (bnd (general_channel E i n) (\<lambda>g. thn (upsert_channel_member (m g)) (thn (log_event E None None None k (pl g)) (ret acc))))))"
    for i v n f m k pl acc
    by (intro keeps_owner_same same_intros) (simp_all add: blind_def insert_defs same_intros)
  have board: "wp (onboard E (a_id row) v r n) (\<lambda>_. bootstrap_ok) t"
    if "idle t" "row \<in> set (accounts t)" "a_role row = Owner" "a_disabled_at row = None" for row v r n t
    unfolding onboard_def wp_thn [of "activate_account _ _ _"]
    by (rule wp_mono [OF bootstrap_activate [OF that]]) (auto simp: bootstrap_ok_def intro!: wp_mono [OF keepsD [OF rest]])
  have idle_tick: "idle (s\<lparr>tick := n\<rparr>)" for n using s by (simp add: idle_def account_ids_ok_def)
  have row: "wp (thn (ensure_accepted_token (a_id row) (a_role row)) (onboard E (a_id row) v (a_role row) n)) (\<lambda>_. bootstrap_ok) t"
    if "idle t" "row \<in> set (accounts t)" "a_disabled_at row = None" for row v n t
    unfolding wp_thn [of "ensure_accepted_token _ _"]
    by (rule wp_mono [OF idle_ensure_token [OF that(1)]]) (auto intro: board that)
  have start: "fetch_last (\<lambda>r. a_id r = a \<and> a_disabled_at r = None) (accounts s) = Some row \<Longrightarrow>
      row \<in> set (accounts s) \<and> a_id row = a \<and> a_disabled_at row = None \<and> a_activated_at row = None" for row
    using s by (auto simp: idle_def dest!: fetch_last_SomeD)
  have guard: "same (\<lambda>s. s) (ensure_username_reservable_tx i v)" for i v by (intro same_intros)
  show ?thesis
    unfolding complete_onboarding_def wp_bnd [of "now _"] wp_now wp_bnd [of "lift_res _"] wp_lift_res wp_bnd [of "fetch_one _ _"]
      wp_fetch_one wp_if wp_thn [of "ensure_username_reservable_tx _ _"]
    using idle_tick row by (auto dest!: start intro!: wp_same [OF guard])
qed

lemma bootstrap_handle: "keeps bootstrap_ok (handle E q)"
proof (cases q)
  case (MessageRequest m)
  have "keeps idle (message_handler E m)"
    by (intro keeps_idle_same same_messages) (simp add: message_blind_def blind_def)
  with MessageRequest show ?thesis using owner_handle [of E q] by (simp add: bootstrap_idle)
next
  case (ChannelRequest m)
  have "keeps idle (channel_handler E m)"
    by (intro keeps_idle_same same_channels) (simp add: channel_blind_def blind_def)
  with ChannelRequest show ?thesis using owner_handle [of E q] by (simp add: bootstrap_idle)
next
  case (AccountRequest m)
  have onb: "keeps bootstrap_ok (complete_onboarding E a u)" for a u
    by (intro bootstrap_keeps owner_accounts bootstrap_onboarding)
  have upd: "keeps idle (set_user_disabled E a u b)" "keeps idle (set_user_role E a u r)"
    "keeps idle (rename_user E a u x)" "keeps idle (set_display_name E a u d)"
    "keeps idle (lookup_active_account_for_key E f)" "keeps idle (redeem_device_link_token_for_key E w f k)"
    "keeps idle (record_presence E a i v)" "keeps idle (create_invite_with_options E a r h)" for a u b r x d f i v w k h
    unfolding set_user_disabled_def set_user_role_def rename_user_def set_display_name_def log_user_def
      lookup_active_account_for_key_def redeem_device_link_token_for_key_def record_presence_def
      create_invite_with_options_def Let_def
    by (intro idle_inserts idle_update_account keeps_intros; (simp; fail)?;
        intro keeps_idle_same same_intros; simp add: insert_defs same_intros blind_def)+
  have frames: "keeps idle (create_device_link_token E a l)" "keeps idle (add_ssh_key E a w p l)"
    "keeps idle (label_ssh_key E a k x)" "keeps idle (revoke_ssh_key E a k)"
    "keeps idle (create_bootstrap_token E)" "keeps idle (revoke_invite E a i)" for a l w p k x i
    unfolding revoke_invite_def create_device_link_token_def add_ssh_key_def
      label_ssh_key_def revoke_ssh_key_def create_bootstrap_token_def Let_def insert_defs
    by (intro keeps_idle_same same_intros; simp add: blind_def map_sql_update)+
  have both: "keeps idle (redeem_ssh_login_token_for_key E u t f k)" for u t f k
    unfolding redeem_ssh_login_token_for_key_def by (intro bootstrap_redeem upd keeps_intros)
  have rest: "keeps idle (account_handler E m)" if "\<not> (\<exists>a u. m = CompleteOnboarding a u)"
    using that by (cases m) (simp_all add: handler_synonyms upd frames both keeps_unit_of)
  show ?thesis
  proof (cases "\<exists>a u. m = CompleteOnboarding a u")
    case True
    with AccountRequest onb show ?thesis by (auto simp: keeps_unit_of)
  next
    case False
    with AccountRequest rest owner_handle [of E q] show ?thesis by (auto intro: bootstrap_idle)
  qed
qed

section \<open>Reachable states\<close>

text \<open>What the outside must provide: a lower-casing, and identifiers without a colon.\<close>

text \<open>An invariant that every handler keeps holds in every state the service reaches.\<close>

lemma reachable_keeps:
  assumes "\<And>q. keeps I (handle E q)" "\<And>s n. I (s\<lparr>tick := n\<rparr>) = I s" "I empty_world"
  shows "reachable E s \<Longrightarrow> I s"
proof (induction rule: reachable.induct)
  case start
  show ?case by (rule assms(3))
next
  case (advance s t)
  then show ?case by (intro step_keeps [OF advance.hyps(2), of I] assms(1,2))
qed

definition env_ok :: "env \<Rightarrow> bool" where
  "env_ok E \<longleftrightarrow> lower_case (e_lc E) \<and> (\<forall>n. plain_id (e_id E n))"

definition service_ok :: "world \<Rightarrow> bool" where
  "service_ok s \<longleftrightarrow> bootstrap_ok s \<and> names_ok s \<and> general_ok s \<and> counts_ok s \<and> dm_ok s
     \<and> search_ok s \<and> reactions_ok s"

lemma keeps_service_ok:
  assumes "env_ok E"
  shows "keeps service_ok (handle E q)"
  unfolding service_ok_def using assms
  by (intro keeps_conj bootstrap_handle names_handle general_handle counts_handle dm_handle search_handle
      reactions_handle) (auto simp: env_ok_def)

lemma service_tick: "service_ok (s\<lparr>tick := n\<rparr>) = service_ok s"
  by (simp add: service_ok_def bootstrap_ok_def idle_def account_ids_ok_def names_ok_def search_ok_def reactions_ok_def
      counts_ok_def counts_view_def)

lemma service_empty: "service_ok empty_world"
  by (simp add: service_ok_def bootstrap_ok_def idle_def account_ids_ok_def names_ok_def search_ok_def reactions_ok_def
      counts_ok_def counts_view_def general_ok_def dm_ok_def dm_view_def empty_world_def search_sync_def current_name_def
      counts_wf_def keys_wf_def comments_wf_def totals_wf_def reads_wf_def dm_wf_def pair_wf_def sent_wf_def unread_wf_def)

text \<open>Five of the invariants need nothing of the environment.\<close>

lemma reachable_invariants:
  assumes "reachable E s"
  shows "bootstrap_ok s" "general_ok s" "counts_ok s" "search_ok s" "reactions_ok s"
proof -
  have start: "bootstrap_ok empty_world" "general_ok empty_world" "counts_ok empty_world" "search_ok empty_world"
    "reactions_ok empty_world"
    using service_empty unfolding service_ok_def by blast+
  have tick: "bootstrap_ok (s\<lparr>tick := n\<rparr>) = bootstrap_ok s" "search_ok (s\<lparr>tick := n\<rparr>) = search_ok s"
    "reactions_ok (s\<lparr>tick := n\<rparr>) = reactions_ok s" for s n
    by (simp_all add: bootstrap_ok_def idle_def account_ids_ok_def search_ok_def reactions_ok_def)
  show "bootstrap_ok s" by (rule reachable_keeps [OF bootstrap_handle tick(1) start(1) assms])
  show "general_ok s" by (rule reachable_keeps [OF general_handle general_tick start(2) assms])
  show "counts_ok s" by (rule reachable_keeps [OF counts_handle counts_tick start(3) assms])
  show "search_ok s" by (rule reachable_keeps [OF search_handle tick(2) start(4) assms])
  show "reactions_ok s" by (rule reachable_keeps [OF reactions_handle tick(3) start(5) assms])
qed

lemma reachable_ok:
  assumes "env_ok E" "reachable E s"
  shows "service_ok s"
  by (rule reachable_keeps [OF keeps_service_ok service_tick service_empty assms(2)]) (rule assms(1))


section \<open>Presence sessions\<close>

lemma closed_handle: "keeps (\<lambda>s. closed s i) (handle E q)"
proof (cases q)
  case (MessageRequest m)
  have "keeps (\<lambda>s. closed s i) (message_handler E m)"
    by (intro same_closed same_messages) (simp add: message_blind_def blind_def)
  with MessageRequest show ?thesis by simp
next
  case (ChannelRequest m)
  have "keeps (\<lambda>s. closed s i) (channel_handler E m)"
    by (intro same_closed same_channels) (simp add: channel_blind_def blind_def)
  with ChannelRequest show ?thesis by simp
next
  case (AccountRequest m)
  have frame: "account_blind presence" "channel_blind presence"
    by (simp_all add: account_blind_def channel_blind_def blind_def)
  have "keeps (\<lambda>s. closed s i) (account_handler E m)"
    by (cases m) (simp_all add: handler_synonyms frame keeps_unit_of same_closed same_intros closed_stays)
  with AccountRequest show ?thesis by simp
qed

lemma closed_steps: "(step E)\<^sup>*\<^sup>* s t \<Longrightarrow> closed s i \<Longrightarrow> closed t i"
proof (induction rule: rtranclp_induct)
  case (step t u)
  have "closed (s\<lparr>tick := n\<rparr>) i = closed s i" for s n by (simp add: closed_def)
  with step show ?case by (intro step_keeps [OF step.hyps(2), of "\<lambda>s. closed s i"] closed_handle)
qed

end
