(* ===== verification/Tokens.thy ===== *)
theory Tokens
  imports Reachable
begin

text \<open>
  Login tokens work once. An invite, a bootstrap token and a device link token are rows
  found by the hash of their code; the locale says what a table of such rows promises,
  and each of the three tables provides it: a token that has been used or revoked is
  never open again, whatever requests follow.
\<close>

section \<open>Tokens found by a hash\<close>

text \<open>
  Code hashes are unique and those of \<open>H\<close> are spent. An insert with a new hash keeps this, and
  so does an update that leaves the hashes alone and never reopens a token.
\<close>

definition holds :: "('r \<Rightarrow> str) \<Rightarrow> ('r \<Rightarrow> bool) \<Rightarrow> str set \<Rightarrow> 'r list \<Rightarrow> bool" where
  "holds hash spent H R \<longleftrightarrow> distinct (map hash R) \<and> (\<forall>h\<in>H. \<exists>r\<in>set R. hash r = h \<and> spent r)"

lemma holds_insert:
  "holds hash spent H R \<Longrightarrow> \<forall>q\<in>set R. hash q \<noteq> hash r \<Longrightarrow> holds hash spent H (R @ [r])"
  by (auto simp: holds_def)

lemma holds_update:
  assumes "holds hash spent H R" "\<And>r. hash (f r) = hash r" "\<And>r. spent r \<Longrightarrow> spent (f r)"
  shows "holds hash spent H (sql_update p f R)"
proof -
  have "\<exists>r\<in>set (sql_update p f R). hash r = h \<and> spent r" if "h \<in> H" for h
    using assms that unfolding holds_def by (metis kept_by_update updated_by_update)
  with assms show ?thesis by (simp add: holds_def map_sql_update)
qed

lemma keeps_holds_same: "same rows m \<Longrightarrow> keeps (\<lambda>s. holds hash spent H (rows s)) m"
  by (rule keeps_same)

section \<open>The contract of a token table\<close>

locale single_use =
  fixes rows :: "world \<Rightarrow> 'r list" and hash :: "'r \<Rightarrow> str" and spent :: "'r \<Rightarrow> bool"
  assumes untimed: "rows (s\<lparr>tick := n\<rparr>) = rows s"
    and kept: "keeps (\<lambda>s. holds hash spent H (rows s)) (handle E q)"
begin

definition dead :: "str \<Rightarrow> world \<Rightarrow> bool" where
  "dead h s \<longleftrightarrow> holds hash spent {h} (rows s)"

definition unique :: "world \<Rightarrow> bool" where
  "unique s \<longleftrightarrow> distinct (map hash (rows s))"

lemma dead_step: "step E s t \<Longrightarrow> dead h s \<Longrightarrow> dead h t"
  by (rule step_keeps [of E s t "dead h"]) (simp_all add: dead_def [abs_def] kept untimed)

lemma unique_step: "step E s t \<Longrightarrow> unique s \<Longrightarrow> unique t"
  using kept [where H = "{}"]
  by (rule_tac step_keeps [of E s t unique]) (simp_all add: unique_def [abs_def] holds_def untimed)

lemma unique_reachable: "reachable E s \<Longrightarrow> rows empty_world = [] \<Longrightarrow> unique s"
  by (induction rule: reachable.induct) (auto simp: unique_def [of empty_world] intro: unique_step)

lemma deadI: "unique s \<Longrightarrow> r \<in> set (rows s) \<Longrightarrow> hash r = h \<Longrightarrow> spent r \<Longrightarrow> dead h s"
  by (auto simp: dead_def unique_def holds_def)

lemma dead_steps: "(step E)\<^sup>*\<^sup>* s t \<Longrightarrow> dead h s \<Longrightarrow> dead h t"
  by (induction rule: rtranclp_induct) (auto intro: dead_step)

lemma never_open:
  assumes "dead h s" "r \<in> set (rows s)" "hash r = h"
  shows "spent r"
  using assms unfolding dead_def holds_def by (metis distinct_map_inj insertI1)

lemma not_found:
  assumes "dead h s" "\<And>r. p r \<Longrightarrow> hash r = h \<and> \<not> spent r"
  shows "fetch_limit1 p (rows s) = None"
proof (cases "fetch_limit1 p (rows s)")
  case (Some r)
  then have "r \<in> set (rows s)" "hash r = h" "\<not> spent r"
    using fetch_limit1_SomeD [OF Some] assms(2) by auto
  with never_open [OF assms(1)] show ?thesis by blast
qed

end

section \<open>The three tables\<close>

definition invite_spent :: "invite_row \<Rightarrow> bool" where
  "invite_spent i \<longleftrightarrow> i_accepted_at i \<noteq> None \<or> i_revoked_at i \<noteq> None"

definition bootstrap_spent :: "bootstrap_row \<Rightarrow> bool" where
  "bootstrap_spent b \<longleftrightarrow> b_used_at b \<noteq> None"

definition link_spent :: "link_row \<Rightarrow> bool" where
  "link_spent l \<longleftrightarrow> l_used_at l \<noteq> None"

lemmas token_defs = create_device_link_token_def create_bootstrap_token_def create_invite_with_options_def
  revoke_invite_def redeem_ssh_login_token_for_key_def redeem_device_link_token_for_key_def redeem_token_for_key_def

text \<open>The requests that do not write a token table.\<close>

lemma tokens_elsewhere:
  assumes g: "message_blind g" "channel_blind g"
    "\<And>s x. g (s\<lparr>accounts := x\<rparr>) = g s" "\<And>s x. g (s\<lparr>ssh_keys := x\<rparr>) = g s"
    "\<And>s x. g (s\<lparr>reservations := x\<rparr>) = g s" "\<And>s x. g (s\<lparr>presence := x\<rparr>) = g s"
  shows "same g (set_user_disabled E a u b)" "same g (set_user_role E a u r)" "same g (rename_user E a u n)"
    "same g (set_display_name E a u n)" "same g (add_ssh_key E a v p l)" "same g (label_ssh_key E a k x)"
    "same g (revoke_ssh_key E a k)" "same g (lookup_active_account_for_key E f)"
    "same g (complete_onboarding E a u)" "same g (record_presence E a i d)"
proof -
  have b: "blind g" using g by (simp add: message_blind_def)
  show "same g (set_user_disabled E a u b)" "same g (set_user_role E a u r)" "same g (rename_user E a u n)"
    "same g (set_display_name E a u n)" "same g (add_ssh_key E a v p l)" "same g (label_ssh_key E a k x)"
    "same g (revoke_ssh_key E a k)" "same g (lookup_active_account_for_key E f)"
    "same g (complete_onboarding E a u)" "same g (record_presence E a i d)" for b
    unfolding set_user_disabled_def set_user_role_def rename_user_def set_display_name_def add_ssh_key_def label_ssh_key_def
      revoke_ssh_key_def lookup_active_account_for_key_def complete_onboarding_def onboard_def record_presence_def
      Let_def insert_key_def upsert_channel_member_def
    by (intro same_intros; simp add: b blindD [OF b] g channel_blindD [OF g(2)])+
qed

lemma token_handle:
  fixes g :: "world \<Rightarrow> 'r list"
  assumes g: "message_blind g" "channel_blind g"
    "\<And>s x. g (s\<lparr>accounts := x\<rparr>) = g s" "\<And>s x. g (s\<lparr>ssh_keys := x\<rparr>) = g s"
    "\<And>s x. g (s\<lparr>reservations := x\<rparr>) = g s" "\<And>s x. g (s\<lparr>presence := x\<rparr>) = g s"
    and I: "I = (\<lambda>s. holds hash spent H (g s))"
    and make: "\<And>a l. keeps I (create_device_link_token E a l)" "keeps I (create_bootstrap_token E)"
      "\<And>a r t. keeps I (create_invite_with_options E a r t)" "\<And>a i. keeps I (revoke_invite E a i)"
      "\<And>u t f k. keeps I (redeem_ssh_login_token_for_key E u t f k)"
  shows "keeps I (handle E q)"
proof (cases q)
  case (MessageRequest m)
  then show ?thesis unfolding I by (simp add: keeps_holds_same same_messages g)
next
  case (ChannelRequest m)
  then show ?thesis unfolding I by (simp add: keeps_holds_same same_channels g)
next
  case (AccountRequest m)
  have "keeps I (account_handler E m)"
    unfolding I by (cases m) (simp_all add: handler_synonyms keeps_unit_of keeps_holds_same tokens_elsewhere g
        make [unfolded I])
  with AccountRequest show ?thesis by simp
qed

lemma token_frames:
  "message_blind invites" "channel_blind invites" "message_blind bootstrap_tokens" "channel_blind bootstrap_tokens"
  "message_blind link_tokens" "channel_blind link_tokens"
  by (simp_all add: message_blind_def channel_blind_def blind_def)

lemma invites_kept: "keeps (\<lambda>s. holds i_code_hash invite_spent H (invites s)) (handle E q)"
proof (rule token_handle [of invites])
  let ?I = "\<lambda>s. holds i_code_hash invite_spent H (invites s)"
  have insert: "keeps ?I (insert_invite r)" for r
    by (auto simp: keeps_def insert_invite_def wp_insert_row intro: holds_insert)
  have update: "keeps ?I (modify (\<lambda>s. s\<lparr>invites := sql_update p f (invites s)\<rparr>))"
    if "\<And>r. i_code_hash (f r) = i_code_hash r" "\<And>r. invite_spent r \<Longrightarrow> invite_spent (f r)" for p f
    using that by (auto simp: keeps_def wp_modify intro!: holds_update)
  show "keeps ?I (create_device_link_token E a l)" "keeps ?I (create_bootstrap_token E)"
    "keeps ?I (create_invite_with_options E a r t)" "keeps ?I (revoke_invite E a i)"
    "keeps ?I (redeem_ssh_login_token_for_key E u c f k)" for a l r t i u c f k
    unfolding token_defs use_invite_def Let_def
    by (intro insert update keeps_intros; (simp add: invite_spent_def; fail)?;
        intro keeps_holds_same same_intros; simp add: insert_defs same_intros blind_def)+
qed (simp_all add: token_frames)

lemma bootstrap_tokens_kept: "keeps (\<lambda>s. holds b_code_hash bootstrap_spent H (bootstrap_tokens s)) (handle E q)"
proof (rule token_handle [of bootstrap_tokens])
  let ?I = "\<lambda>s. holds b_code_hash bootstrap_spent H (bootstrap_tokens s)"
  have insert: "keeps ?I (insert_bootstrap r)" for r
    by (auto simp: keeps_def insert_bootstrap_def wp_insert_row intro: holds_insert)
  have update: "keeps ?I (modify (\<lambda>s. s\<lparr>bootstrap_tokens := sql_update p f (bootstrap_tokens s)\<rparr>))"
    if "\<And>r. b_code_hash (f r) = b_code_hash r" "\<And>r. bootstrap_spent r \<Longrightarrow> bootstrap_spent (f r)" for p f
    using that by (auto simp: keeps_def wp_modify intro!: holds_update)
  show "keeps ?I (create_device_link_token E a l)" "keeps ?I (create_bootstrap_token E)"
    "keeps ?I (create_invite_with_options E a r t)" "keeps ?I (revoke_invite E a i)"
    "keeps ?I (redeem_ssh_login_token_for_key E u c f k)" for a l r t i u c f k
    unfolding token_defs use_bootstrap_def Let_def
    by (intro insert update keeps_intros; (simp add: bootstrap_spent_def; fail)?;
        intro keeps_holds_same same_intros; simp add: insert_defs same_intros blind_def)+
qed (simp_all add: token_frames)

lemma link_tokens_kept: "keeps (\<lambda>s. holds l_code_hash link_spent H (link_tokens s)) (handle E q)"
proof (rule token_handle [of link_tokens])
  let ?I = "\<lambda>s. holds l_code_hash link_spent H (link_tokens s)"
  have insert: "keeps ?I (insert_link_token r)" for r
    by (auto simp: keeps_def insert_link_token_def wp_insert_row intro: holds_insert)
  have update: "keeps ?I (modify (\<lambda>s. s\<lparr>link_tokens := sql_update p f (link_tokens s)\<rparr>))"
    if "\<And>r. l_code_hash (f r) = l_code_hash r" "\<And>r. link_spent r \<Longrightarrow> link_spent (f r)" for p f
    using that by (auto simp: keeps_def wp_modify intro!: holds_update)
  show "keeps ?I (create_device_link_token E a l)" "keeps ?I (create_bootstrap_token E)"
    "keeps ?I (create_invite_with_options E a r t)" "keeps ?I (revoke_invite E a i)"
    "keeps ?I (redeem_ssh_login_token_for_key E u c f k)" for a l r t i u c f k
    unfolding token_defs use_link_def Let_def
    by (intro insert update keeps_intros; (simp add: link_spent_def; fail)?;
        intro keeps_holds_same same_intros; simp add: insert_defs same_intros blind_def)+
qed (simp_all add: token_frames)

interpretation invite: single_use invites i_code_hash invite_spent
  by unfold_locales (simp_all add: invites_kept)

interpretation bootstrap: single_use bootstrap_tokens b_code_hash bootstrap_spent
  by unfold_locales (simp_all add: bootstrap_tokens_kept)

interpretation link: single_use link_tokens l_code_hash link_spent
  by unfold_locales (simp_all add: link_tokens_kept)


section \<open>Redeeming\<close>

lemma sql_update_hits:
  "r \<in> set rows \<Longrightarrow> p r \<Longrightarrow> f r \<in> set (sql_update p f rows)"
  by (rule updated_by_update)

lemma active_accounts_pos: "active_accounts s \<noteq> 0 \<longleftrightarrow> (\<exists>a\<in>set (accounts s). a_activated_at a \<noteq> None \<and> a_disabled_at a = None)"
  unfolding active_accounts_def sql_count_zero by blast

text \<open>What the token check returns.\<close>

lemma wp_accept_token:
  assumes "\<And>row. active_accounts s = 0 \<Longrightarrow> row \<in> set (bootstrap_tokens s) \<Longrightarrow> open_bootstrap h row \<Longrightarrow>
       Q (Some (b_id row), None, Owner) s"
    and "\<And>row. active_accounts s \<noteq> 0 \<Longrightarrow> row \<in> set (invites s) \<Longrightarrow> open_invite h n row \<Longrightarrow>
       Q (None, Some (i_id row), i_role row) s"
  shows "wp (accept_token E h n) Q s"
  using assms
  by (auto simp: accept_token_def wp_bnd wp_gets wp_if wp_case_option wp_fail wp_ret dest!: fetch_limit1_SomeD)

lemma open_invite_spent: "open_invite h n i \<Longrightarrow> i_code_hash i = h \<and> \<not> invite_spent i"
  by (auto simp: open_invite_def invite_spent_def)

lemma open_bootstrap_spent: "open_bootstrap h b \<Longrightarrow> b_code_hash b = h \<and> \<not> bootstrap_spent b"
  by (auto simp: open_bootstrap_def bootstrap_spent_def)

text \<open>A spent token is refused.\<close>

lemma pending_username_pure: "pending_username_for E d s = Inr (p, t) \<Longrightarrow> t = s"
  using sameD [OF same_pending_username_for [of "\<lambda>s. s"]] by metis

lemma redeem_wp_refused:
  assumes "\<And>k n. accept_token E (code_hash E token) n (s\<lparr>tick := k\<rparr>) = Inl e"
  shows "wp (redeem_token_for_key E u token f k) (\<lambda>_ _. False) s"
proof -
  have "wp (accept_token E (code_hash E token) n) Q (s\<lparr>tick := j\<rparr>)" for n j Q
    by (simp add: wp_def assms)
  then show ?thesis
    unfolding redeem_token_for_key_def wp_bnd [of "now _"] wp_now wp_bnd [of "pending_username_for _ _"]
    by (intro wp_same [OF same_pending_username_for [of "\<lambda>s. s"]])
      (simp add: wp_bnd [of "fresh_id _"] wp_fresh_id wp_bnd [of "accept_token _ _ _"])
qed

lemma spent_invite_refused:
  assumes "invite.dead (code_hash E token) s" "active_accounts s \<noteq> 0"
  shows "wp (redeem_token_for_key E u token f k) (\<lambda>_ _. False) s"
proof (rule redeem_wp_refused)
  fix k n
  have "fetch_limit1 (open_invite (code_hash E token) n) (invites s) = None"
    using assms(1) open_invite_spent by (rule invite.not_found)
  then show "accept_token E (code_hash E token) n (s\<lparr>tick := k\<rparr>) =
      Inl (Msg (lit ''Invite token is invalid, expired, or already used''))"
    using assms(2) by (simp add: accept_token_def bnd_def gets_def fail_def active_accounts_def)
qed

lemma spent_bootstrap_refused:
  assumes "bootstrap.dead (code_hash E token) s" "active_accounts s = 0"
  shows "wp (redeem_token_for_key E u token f k) (\<lambda>_ _. False) s"
proof (rule redeem_wp_refused)
  fix k n
  have "fetch_limit1 (open_bootstrap (code_hash E token)) (bootstrap_tokens s) = None"
    using assms(1) open_bootstrap_spent by (rule bootstrap.not_found)
  then show "accept_token E (code_hash E token) n (s\<lparr>tick := k\<rparr>) =
      Inl (Msg (lit ''Bootstrap token is invalid or already used''))"
    using assms(2) by (simp add: accept_token_def bnd_def gets_def fail_def active_accounts_def)
qed

text \<open>Redeeming spends.\<close>

lemma use_invite_spends:
  assumes "invite.unique s" "row \<in> set (invites s)" "open_invite h n row"
  shows "wp (use_invite (Some (i_id row)) a m) (\<lambda>_ t. invite.dead h t) s"
proof -
  let ?f = "\<lambda>r. r\<lparr>i_accepted_by := Some a, i_accepted_at := Some m\<rparr>"
  have "?f row \<in> set (sql_update (\<lambda>r. i_id r = i_id row \<and> i_accepted_at r = None) ?f (invites s))"
    using assms(2,3) by (intro sql_update_hits) (simp_all add: open_invite_def)
  then have "invite.dead h (s\<lparr>invites := sql_update (\<lambda>r. i_id r = i_id row \<and> i_accepted_at r = None) ?f (invites s)\<rparr>)"
    by (rule_tac r = "?f row" in invite.deadI) 
      (use assms in \<open>simp_all add: invite.unique_def map_sql_update open_invite_def invite_spent_def\<close>)
  then show ?thesis by (simp add: use_invite_def wp_modify)
qed

lemma use_bootstrap_spends:
  assumes "bootstrap.unique s" "row \<in> set (bootstrap_tokens s)" "open_bootstrap h row"
  shows "wp (use_bootstrap (Some (b_id row)) a m) (\<lambda>_ t. bootstrap.dead h t) s"
proof -
  let ?f = "\<lambda>r. r\<lparr>b_used_by := Some a, b_used_at := Some m\<rparr>"
  have "?f row \<in> set (sql_update (\<lambda>r. b_id r = b_id row \<and> b_used_at r = None) ?f (bootstrap_tokens s))"
    using assms(2,3) by (intro sql_update_hits) (simp_all add: open_bootstrap_def)
  then have "bootstrap.dead h (s\<lparr>bootstrap_tokens := sql_update (\<lambda>r. b_id r = b_id row \<and> b_used_at r = None) ?f (bootstrap_tokens s)\<rparr>)"
    by (rule_tac r = "?f row" in bootstrap.deadI)
      (use assms in \<open>simp_all add: bootstrap.unique_def map_sql_update open_bootstrap_def bootstrap_spent_def\<close>)
  then show ?thesis by (simp add: use_bootstrap_def wp_modify)
qed

lemma redeem_spends:
  assumes u: "invite.unique s" "bootstrap.unique s"
  shows "wp (redeem_token_for_key E u token f k) (\<lambda>_ t.
     if active_accounts s \<noteq> 0 then invite.dead (code_hash E token) t
     else bootstrap.dead (code_hash E token) t) s"
proof -
  let ?D = "\<lambda>t. if active_accounts s \<noteq> 0 then invite.dead (code_hash E token) t
     else bootstrap.dead (code_hash E token) t"
  have pre: "bootstrap.unique (s\<lparr>accounts := A, tick := i, ssh_keys := K\<rparr>)" "invite.unique (s\<lparr>accounts := A, tick := i, ssh_keys := K\<rparr>)" for i A K
    using u by (simp_all add: bootstrap.unique_def invite.unique_def)
  have main: "wp (bnd (accept_token E (code_hash E token) n) (\<lambda>(b, i, r).
      thn (insert_account (pending_account_row x r p n)) (bnd (fresh_id E) (\<lambda>key_id. thn (insert_key (kr key_id))
        (thn (use_bootstrap b x n) (thn (use_invite i x n) (ret (acc r)))))))) (\<lambda>_. ?D) (s\<lparr>tick := j\<rparr>)" for n x p kr acc j
    unfolding wp_bnd [of "accept_token _ _ _"]
  proof (rule wp_accept_token)
    fix row
    assume row: "active_accounts (s\<lparr>tick := j\<rparr>) = 0" "row \<in> set (bootstrap_tokens (s\<lparr>tick := j\<rparr>))"
      "open_bootstrap (code_hash E token) row"
    have "wp (use_bootstrap (Some (b_id row)) x n) (\<lambda>_ t. bootstrap.dead (code_hash E token) t) (s\<lparr>accounts := A, tick := i, ssh_keys := K\<rparr>)" for i A K
      by (rule use_bootstrap_spends) (use pre row in simp_all)
    then show "wp (case (Some (b_id row), None, Owner) of (b, i, r) \<Rightarrow> thn (insert_account (pending_account_row x r p n))
        (bnd (fresh_id E) (\<lambda>key_id. thn (insert_key (kr key_id)) (thn (use_bootstrap b x n) (thn (use_invite i x n) (ret (acc r))))))) (\<lambda>_. ?D) (s\<lparr>tick := j\<rparr>)"
      using row(1) by (simp add: wp_thn wp_bnd wp_fresh_id insert_account_def insert_key_def wp_insert_row wp_ret
          use_invite_def active_accounts_def)
  next
    fix row
    assume row: "active_accounts (s\<lparr>tick := j\<rparr>) \<noteq> 0" "row \<in> set (invites (s\<lparr>tick := j\<rparr>))"
      "open_invite (code_hash E token) n row"
    have "wp (use_invite (Some (i_id row)) x n) (\<lambda>_ t. invite.dead (code_hash E token) t) (s\<lparr>accounts := A, tick := i, ssh_keys := K\<rparr>)" for i A K
      by (rule use_invite_spends) (use pre row in simp_all)
    then show "wp (case (None, Some (i_id row), i_role row) of (b, i, r) \<Rightarrow> thn (insert_account (pending_account_row x r p n))
        (bnd (fresh_id E) (\<lambda>key_id. thn (insert_key (kr key_id)) (thn (use_bootstrap b x n) (thn (use_invite i x n) (ret (acc r))))))) (\<lambda>_. ?D) (s\<lparr>tick := j\<rparr>)"
      using row(1) by (simp add: wp_thn wp_bnd wp_fresh_id insert_account_def insert_key_def wp_insert_row wp_ret
          use_bootstrap_def active_accounts_def)
  qed
  show ?thesis
    unfolding redeem_token_for_key_def wp_bnd [of "now _"] wp_now wp_bnd [of "pending_username_for _ _"]
    by (rule wp_same [OF same_pending_username_for [of "\<lambda>s. s"]])
      (simp add: wp_bnd [of "fresh_id _"] wp_fresh_id main)
qed

text \<open>After the bootstrap there is always somebody active.\<close>

lemma active_stays:
  assumes "(step E)\<^sup>*\<^sup>* s t" "reachable E s" "active_accounts s \<noteq> 0"
  shows "active_accounts t \<noteq> 0"
proof -
  have boot: "bootstrap_ok s" using assms(2)
  proof (induction rule: reachable.induct)
    case start
    show ?case using service_empty by (simp add: service_ok_def)
  next
    case (advance s t)
    then show ?case
      by (rule_tac step_keeps [OF advance.hyps(2), of bootstrap_ok])
        (simp_all add: bootstrap_handle bootstrap_ok_def idle_def account_ids_ok_def)
  qed
  then have "owner_ok s" using assms(3) unfolding active_accounts_pos bootstrap_ok_def idle_def by auto
  with assms(1) have "owner_ok t"
    by (induction rule: rtranclp_induct) (auto intro: step_keeps [of E _ _ owner_ok] owner_handle)
  then show ?thesis
    unfolding active_accounts_pos owner_ok_def has_active_owner_def active_owner_def by blast
qed

lemma tokens_unique:
  assumes "reachable E s"
  shows "invite.unique s" "bootstrap.unique s" "link.unique s"
  using assms by (auto intro: invite.unique_reachable bootstrap.unique_reachable link.unique_reachable simp: empty_world_def)

section \<open>Device links\<close>

lemma spent_link_refused:
  assumes "link.dead (code_hash E token) s"
  shows "wp (redeem_device_link_token_for_key E token f k) (\<lambda>a _. a = None) s"
proof -
  have no: "l_used_at (fst p) \<noteq> None"
    if "fetch_limit1 (\<lambda>(t, _). l_code_hash t = code_hash E token) (links_with_owner (s\<lparr>tick := n\<rparr>)) = Some p" for p n
  proof -
    have "p \<in> set (links_with_owner (s\<lparr>tick := n\<rparr>))" "l_code_hash (fst p) = code_hash E token"
      using fetch_limit1_SomeD [OF that] by (auto split: prod.splits)
    then have "fst p \<in> set (link_tokens s)" "l_code_hash (fst p) = code_hash E token"
      by (auto simp: links_with_owner_def)
    then show ?thesis using link.never_open [OF assms] by (auto simp: link_spent_def)
  qed
  show ?thesis
    unfolding redeem_device_link_token_for_key_def wp_bnd [of "now _"] wp_now wp_bnd [of "gets _"] wp_gets wp_case_option
      wp_ret wp_thn [of "ensure _ _"] wp_ensure
    using no by blast
qed


lemma use_link_spends:
  assumes "link.unique s" "row \<in> set (link_tokens s)" "l_code_hash row = h" "l_used_at row = None"
  shows "wp (use_link (l_id row) key n) (\<lambda>_ t. link.dead h t \<and> ssh_keys t = ssh_keys s) s"
proof -
  let ?f = "\<lambda>t. t\<lparr>l_used_at := Some n, l_used_by_key := Some key\<rparr>"
  have "?f row \<in> set (sql_update (\<lambda>t. l_id t = l_id row \<and> l_used_at t = None) ?f (link_tokens s))"
    using assms(2,4) by (intro sql_update_hits) simp_all
  then have "link.dead h (s\<lparr>link_tokens := sql_update (\<lambda>t. l_id t = l_id row \<and> l_used_at t = None) ?f (link_tokens s)\<rparr>)"
    by (rule_tac r = "?f row" in link.deadI)
      (use assms in \<open>simp_all add: link.unique_def map_sql_update link_spent_def\<close>)
  then show ?thesis by (simp add: use_link_def wp_simps)
qed

text \<open>The key goes to the token's account, and the token is spent.\<close>

lemma link_redeemed:
  assumes u: "link.unique s"
  shows "wp (redeem_device_link_token_for_key E token f k) (\<lambda>a t. \<forall>acc. a = Some acc \<longrightarrow>
     link.dead (code_hash E token) t \<and> (\<exists>row\<in>set (link_tokens s). l_code_hash row = code_hash E token
       \<and> l_used_at row = None \<and> l_account_id row = ac_id acc
       \<and> (\<exists>key\<in>set (ssh_keys t). k_fingerprint key = f \<and> k_account_id key = ac_id acc))) s"
proof -
  let ?h = "code_hash E token"
  let ?Q = "\<lambda>i t. link.dead ?h t \<and> (\<exists>row\<in>set (link_tokens s). l_code_hash row = ?h
       \<and> l_used_at row = None \<and> l_account_id row = i
       \<and> (\<exists>key\<in>set (ssh_keys t). k_fingerprint key = f \<and> k_account_id key = i))"
  have frame: "keeps (?Q i) (thn (ensure b e) (thn (update_account j g) (thn (log_user E a ac x m p) (ret y))))"
    for i b e j g a ac x m p and y :: "account option"
    unfolding link.dead_def by (rule keeps_same [of "\<lambda>s. (link_tokens s, ssh_keys s)" _ "\<lambda>(L, K). holds l_code_hash link_spent {?h} L
       \<and> (\<exists>row\<in>set (link_tokens s). l_code_hash row = ?h \<and> l_used_at row = None \<and> l_account_id row = i
       \<and> (\<exists>key\<in>set K. k_fingerprint key = f \<and> k_account_id key = i))", simplified])
      (intro same_intros; simp add: blind_def)
  have tail: "wp (thn (insert_key kr) (bnd (use_link (l_id row) key n) (\<lambda>updated. thn (ensure (b updated) e)
      (thn (update_account j g) (thn (log_user E a ac x m p) (ret (Some acc)))))))
      (\<lambda>z t. \<forall>acc. z = Some acc \<longrightarrow> ?Q (ac_id acc) t) t"
    if "row \<in> set (link_tokens s)" "l_code_hash row = ?h" "l_used_at row = None" "l_account_id row = ac_id acc"
      "link_tokens t = link_tokens s" "k_fingerprint kr = f" "k_account_id kr = ac_id acc"
    for row kr key n b e j g a ac x m p t and acc :: account
  proof -
    have "wp (use_link (l_id row) key n) (\<lambda>_ t'. link.dead ?h t' \<and> ssh_keys t' = ssh_keys t @ [kr])
        (t\<lparr>ssh_keys := ssh_keys t @ [kr]\<rparr>)"
      using use_link_spends [of "t\<lparr>ssh_keys := ssh_keys t @ [kr]\<rparr>" row ?h key n] that u by (simp add: link.unique_def)
    then have "wp (use_link (l_id row) key n) (\<lambda>_. ?Q (ac_id acc)) (t\<lparr>ssh_keys := ssh_keys t @ [kr]\<rparr>)"
      by (rule wp_mono) (use that in auto)
    then have "wp (bnd (use_link (l_id row) key n) (\<lambda>updated. thn (ensure (b updated) e)
      (thn (update_account j g) (thn (log_user E a ac x m p) (ret (Some acc)))))) (\<lambda>_. ?Q (ac_id acc)) (t\<lparr>ssh_keys := ssh_keys t @ [kr]\<rparr>)"
      unfolding wp_bnd [of "use_link _ _ _"] by (rule wp_mono) (rule keepsD [OF frame])
    then have "wp (bnd (use_link (l_id row) key n) (\<lambda>updated. thn (ensure (b updated) e)
      (thn (update_account j g) (thn (log_user E a ac x m p) (ret (Some acc))))))
      (\<lambda>z t. \<forall>acc. z = Some acc \<longrightarrow> ?Q (ac_id acc) t) (t\<lparr>ssh_keys := ssh_keys t @ [kr]\<rparr>)"
      by (auto simp: wp_bnd wp_thn wp_ret wp_ensure)
    then show ?thesis unfolding wp_thn [of "insert_key _"] unfolding insert_key_def wp_insert_row by (rule impI)
  qed
  have found: "fst pr \<in> set (link_tokens s) \<and> l_code_hash (fst pr) = ?h"
    if "fetch_limit1 (\<lambda>(t, _). l_code_hash t = ?h) (links_with_owner (s\<lparr>tick := n\<rparr>)) = Some pr" for pr n
    using fetch_limit1_SomeD [OF that] by (auto simp: links_with_owner_def)
  show ?thesis
    unfolding redeem_device_link_token_for_key_def Let_def wp_bnd [of "now _"] wp_now wp_bnd [of "gets _"] wp_gets wp_case_option
      wp_ret [of None] wp_thn [of "ensure _ _" "bnd _ _"] wp_thn [of "ensure _ _" "thn _ _"] wp_ensure
      wp_bnd [of "draw _"] wp_draw wp_bnd [of "fresh_id _"] wp_fresh_id wp_bnd [of "some_or _ _"] wp_some_or
    by (auto dest!: found intro!: tail)
qed


section \<open>Logging in with a token\<close>

lemma login_spends:
  assumes "invite.unique s" "bootstrap.unique s" "\<forall>l\<in>set (link_tokens s). l_code_hash l \<noteq> code_hash E token"
  shows "wp (redeem_ssh_login_token_for_key E u token f k) (\<lambda>_ t.
     if active_accounts s \<noteq> 0 then invite.dead (code_hash E token) t
     else bootstrap.dead (code_hash E token) t) s"
proof -
  have "fetch_limit1 (\<lambda>(t, _). l_code_hash t = code_hash E token) (links_with_owner (s\<lparr>tick := n\<rparr>)) = None" for n
    using assms(3) by (auto simp: fetch_limit1_def find_None_iff links_with_owner_def)
  then have "redeem_device_link_token_for_key E token f k s = Inr (None, s\<lparr>tick := Suc (tick s)\<rparr>)"
    by (simp add: redeem_device_link_token_for_key_def bnd_def now_def draw_def gets_def ret_def)
  then show ?thesis
    using redeem_spends [of "s\<lparr>tick := Suc (tick s)\<rparr>" E u token f k] assms(1,2)
    by (simp add: redeem_ssh_login_token_for_key_def wp_def bnd_def invite.unique_def bootstrap.unique_def active_accounts_def)
qed

section \<open>No login with a used token\<close>

text \<open>Every row with the code is used or revoked.\<close>

definition all_spent :: "str \<Rightarrow> world \<Rightarrow> bool" where
  "all_spent h s \<longleftrightarrow> (\<forall>i\<in>set (invites s). i_code_hash i = h \<longrightarrow> invite_spent i)
     \<and> (\<forall>b\<in>set (bootstrap_tokens s). b_code_hash b = h \<longrightarrow> bootstrap_spent b)
     \<and> (\<forall>l\<in>set (link_tokens s). l_code_hash l = h \<longrightarrow> link_spent l)"

text \<open>Codes are drawn at random: no two tokens, of whatever kind, have this one.\<close>

definition one_token :: "str \<Rightarrow> world \<Rightarrow> bool" where
  "one_token h s \<longleftrightarrow> length (filter ((=) h) (map i_code_hash (invites s) @ map b_code_hash (bootstrap_tokens s)
     @ map l_code_hash (link_tokens s))) \<le> 1"

lemma filter_hash: "r \<in> set rows \<Longrightarrow> hash r = h \<Longrightarrow> 1 \<le> length (filter ((=) h) (map hash rows))"
  by (induction rows) auto

lemma filter_none: "length (filter ((=) h) (map hash rows)) = 0 \<Longrightarrow> r \<in> set rows \<Longrightarrow> hash r \<noteq> h"
  using filter_hash [of r rows hash h] by auto

lemma one_token_spent:
  assumes "one_token h s" "invite.dead h s \<or> bootstrap.dead h s \<or> link.dead h s"
  shows "all_spent h s"
proof -
  let ?i = "length (filter ((=) h) (map i_code_hash (invites s)))" and ?b = "length (filter ((=) h) (map b_code_hash (bootstrap_tokens s)))"
    and ?l = "length (filter ((=) h) (map l_code_hash (link_tokens s)))"
  have sum: "?i + ?b + ?l \<le> 1" using assms(1) by (simp add: one_token_def)
  from assms(2) show ?thesis
  proof (elim disjE)
    assume dead: "invite.dead h s"
    then have "1 \<le> ?i" unfolding invite.dead_def holds_def by (blast intro: filter_hash)
    with sum have "?b = 0" "?l = 0" by arith+
    from invite.never_open [OF dead] filter_none [OF this(1)] filter_none [OF this(2)] show ?thesis
      by (auto simp: all_spent_def)
  next
    assume dead: "bootstrap.dead h s"
    then have "1 \<le> ?b" unfolding bootstrap.dead_def holds_def by (blast intro: filter_hash)
    with sum have "?i = 0" "?l = 0" by arith+
    from bootstrap.never_open [OF dead] filter_none [OF this(1)] filter_none [OF this(2)] show ?thesis
      by (auto simp: all_spent_def)
  next
    assume dead: "link.dead h s"
    then have "1 \<le> ?l" unfolding link.dead_def holds_def by (blast intro: filter_hash)
    with sum have "?i = 0" "?b = 0" by arith+
    from link.never_open [OF dead] filter_none [OF this(1)] filter_none [OF this(2)] show ?thesis
      by (auto simp: all_spent_def)
  qed
qed

lemma spent_accept_refused:
  assumes "all_spent (code_hash E token) s"
  shows "wp (redeem_token_for_key E u token f k) (\<lambda>_ _. False) s"
proof -
  have "fetch_limit1 (open_invite (code_hash E token) n) (invites s) = None" for n
    using assms by (cases "fetch_limit1 (open_invite (code_hash E token) n) (invites s)")
      (auto simp: all_spent_def dest!: fetch_limit1_SomeD open_invite_spent)
  moreover have "fetch_limit1 (open_bootstrap (code_hash E token)) (bootstrap_tokens s) = None"
    using assms by (cases "fetch_limit1 (open_bootstrap (code_hash E token)) (bootstrap_tokens s)")
      (auto simp: all_spent_def dest!: fetch_limit1_SomeD open_bootstrap_spent)
  ultimately have "accept_token E (code_hash E token) n (s\<lparr>tick := j\<rparr>) =
      Inl (Msg (if active_accounts s = 0 then lit ''Bootstrap token is invalid or already used''
        else lit ''Invite token is invalid, expired, or already used''))" for n j
    by (simp add: accept_token_def bnd_def gets_def fail_def active_accounts_def)
  then show ?thesis by (rule redeem_wp_refused)
qed

lemma spent_link_errors:
  assumes "all_spent (code_hash E token) s"
  shows "redeem_device_link_token_for_key E token f k s = Inr (None, s\<lparr>tick := Suc (tick s)\<rparr>)
    \<or> (\<exists>e. redeem_device_link_token_for_key E token f k s = Inl e)"
proof (cases "fetch_limit1 (\<lambda>(t, _). l_code_hash t = code_hash E token) (links_with_owner (s\<lparr>tick := Suc (tick s)\<rparr>))")
  case None
  then show ?thesis by (simp add: redeem_device_link_token_for_key_def bnd_def now_def draw_def gets_def ret_def)
next
  case (Some p)
  then have "fst p \<in> set (link_tokens s)" "l_code_hash (fst p) = code_hash E token"
    using fetch_limit1_SomeD [OF Some] by (auto simp: links_with_owner_def)
  then have "l_used_at (fst p) \<noteq> None" using assms by (auto simp: all_spent_def link_spent_def)
  with Some show ?thesis
    by (auto simp: redeem_device_link_token_for_key_def bnd_def thn_def now_def draw_def gets_def ensure_def fail_def)
qed

lemma spent_login_refused:
  assumes "all_spent (code_hash E token) s"
  shows "\<exists>e. redeem_ssh_login_token_for_key E u token f k s = Inl e"
proof -
  have "\<exists>e. redeem_token_for_key E u token f k (s\<lparr>tick := n\<rparr>) = Inl e" for n
  proof -
    have "all_spent (code_hash E token) (s\<lparr>tick := n\<rparr>)" using assms by (simp add: all_spent_def)
    from spent_accept_refused [OF this, of u f k] show ?thesis
      by (cases "redeem_token_for_key E u token f k (s\<lparr>tick := n\<rparr>)") (auto simp: wp_def)
  qed
  then show ?thesis
    using spent_link_errors [OF assms, of f k] by (auto simp: redeem_ssh_login_token_for_key_def bnd_def)
qed

lemma link_login_some:
  assumes "fetch_limit1 (\<lambda>(t, _). l_code_hash t = code_hash E token) (links_with_owner (s\<lparr>tick := Suc (tick s)\<rparr>)) = Some p"
  shows "wp (redeem_device_link_token_for_key E token f k) (\<lambda>a _. a \<noteq> None) s"
proof -
  have some: "wp (bnd m (\<lambda>x. thn (ensure (b x) e) (thn (c x) (thn (d x) (ret (Some (y x))))))) (\<lambda>a _. \<exists>z. a = Some z) t"
    for m :: "int wtx" and b e c d and y :: "int \<Rightarrow> account" and t
    by (auto simp: wp_def bnd_def thn_def ret_def split: sum.splits)
  show ?thesis
    using assms unfolding redeem_device_link_token_for_key_def Let_def wp_bnd [of "now _"] wp_now wp_bnd [of "gets _"] wp_gets wp_case_option
      wp_thn [of "ensure _ _" "bnd _ _"] wp_thn [of "ensure _ _" "thn _ _"] wp_ensure
      wp_bnd [of "draw _"] wp_draw wp_bnd [of "fresh_id _"] wp_fresh_id wp_bnd [of "some_or _ _"] wp_some_or wp_thn [of "insert_key _"]
    by (auto simp: insert_key_def wp_insert_row intro!: some)
qed

text \<open>Every login with a token spends it, whichever table it is from.\<close>

lemma login_spends_some:
  assumes "invite.unique s" "bootstrap.unique s" "link.unique s"
  shows "wp (redeem_ssh_login_token_for_key E u token f k)
    (\<lambda>_ t. invite.dead (code_hash E token) t \<or> bootstrap.dead (code_hash E token) t \<or> link.dead (code_hash E token) t) s"
proof (cases "fetch_limit1 (\<lambda>(t, _). l_code_hash t = code_hash E token) (links_with_owner (s\<lparr>tick := Suc (tick s)\<rparr>))")
  case None
  then have "redeem_device_link_token_for_key E token f k s = Inr (None, s\<lparr>tick := Suc (tick s)\<rparr>)"
    by (simp add: redeem_device_link_token_for_key_def bnd_def now_def draw_def gets_def ret_def)
  then show ?thesis
    using redeem_spends [of "s\<lparr>tick := Suc (tick s)\<rparr>" E u token f k] assms(1,2)
    by (auto simp: redeem_ssh_login_token_for_key_def wp_def bnd_def invite.unique_def bootstrap.unique_def active_accounts_def
        split: sum.splits if_splits)
next
  case (Some p)
  from wp_conj [OF link_login_some [OF Some] link_redeemed [OF assms(3)]]
  show ?thesis
    unfolding redeem_ssh_login_token_for_key_def wp_bnd wp_case_option wp_ret by (rule wp_mono) auto
qed

end
