(* ===== verification/Policy.thy ===== *)
theory Policy
  imports Tokens
begin

text \<open>
  Who may do what, as a specification over the tables: for each request the permission
  that must hold in the state it starts from. A request that commits had its permission,
  and membership of a private channel only comes from somebody who manages it.
\<close>

section \<open>Permissions\<close>

definition active :: "str \<Rightarrow> world \<Rightarrow> bool" where
  "active a s \<longleftrightarrow> (\<exists>r\<in>set (accounts s). a_id r = a \<and> a_activated_at r \<noteq> None \<and> a_disabled_at r = None)"

definition admin :: "str \<Rightarrow> world \<Rightarrow> bool" where
  "admin a s \<longleftrightarrow> (\<exists>r\<in>set (accounts s). a_id r = a \<and> a_activated_at r \<noteq> None \<and> a_disabled_at r = None
     \<and> can_admin (a_role r))"

definition open_channel :: "str \<Rightarrow> channel_row \<Rightarrow> world \<Rightarrow> bool" where
  "open_channel c ch s \<longleftrightarrow> ch \<in> set (channels s) \<and> c_id ch = c \<and> c_archived_at ch = None"

text \<open>The moderators of a channel: the admins and its creator.\<close>

definition moderates :: "str \<Rightarrow> str \<Rightarrow> world \<Rightarrow> bool" where
  "moderates a c s \<longleftrightarrow> active a s \<and> (\<exists>ch. open_channel c ch s \<and> (admin a s \<or> c_created_by ch = a))"

definition manages :: "str \<Rightarrow> channel_row \<Rightarrow> world \<Rightarrow> bool" where
  "manages a ch s \<longleftrightarrow> ch \<in> set (channels s) \<and> active a s \<and> (admin a s \<or> c_created_by ch = a)"

definition live_thread :: "str \<Rightarrow> thread_row \<Rightarrow> world \<Rightarrow> bool" where
  "live_thread t th s \<longleftrightarrow> th \<in> set (threads s) \<and> t_id th = t \<and> t_deleted_at th = None"

definition reads_thread :: "str \<Rightarrow> str \<Rightarrow> world \<Rightarrow> bool" where
  "reads_thread a t s \<longleftrightarrow> (\<exists>th. live_thread t th s \<and> can_view a (t_channel_id th) s)"

definition edits_thread :: "str \<Rightarrow> str \<Rightarrow> world \<Rightarrow> bool" where
  "edits_thread a t s \<longleftrightarrow> (\<exists>th. live_thread t th s \<and> (moderates a (t_channel_id th) s
     \<or> active a s \<and> t_creator_id th = a \<and> (\<exists>ch. open_channel (t_channel_id th) ch s)))"

definition pins_thread :: "str \<Rightarrow> str \<Rightarrow> world \<Rightarrow> bool" where
  "pins_thread a t s \<longleftrightarrow> (\<exists>th. live_thread t th s \<and> moderates a (t_channel_id th) s)"

definition live_comment :: "str \<Rightarrow> int \<Rightarrow> comment_row \<Rightarrow> world \<Rightarrow> bool" where
  "live_comment t i c s \<longleftrightarrow> c \<in> set (comments s) \<and> co_thread_id c = t \<and> co_index c = i \<and> co_deleted_at c = None"

definition edits_comment :: "str \<Rightarrow> str \<Rightarrow> int \<Rightarrow> world \<Rightarrow> bool" where
  "edits_comment a t i s \<longleftrightarrow> (\<exists>th c. live_thread t th s \<and> can_view a (t_channel_id th) s \<and> live_comment t i c s
     \<and> (co_author_id c = a \<or> moderates a (t_channel_id th) s))"

definition participant :: "str \<Rightarrow> str \<Rightarrow> world \<Rightarrow> bool" where
  "participant a v s \<longleftrightarrow> (\<exists>m\<in>set (conversation_members s). is_conversation_member v a m)"

definition live_message :: "str \<Rightarrow> int \<Rightarrow> message_row \<Rightarrow> world \<Rightarrow> bool" where
  "live_message v i d s \<longleftrightarrow> d \<in> set (messages s) \<and> d_conversation_id d = v \<and> d_index d = i \<and> d_deleted_at d = None"

definition wrote :: "str \<Rightarrow> str \<Rightarrow> int \<Rightarrow> world \<Rightarrow> bool" where
  "wrote a v i s \<longleftrightarrow> participant a v s \<and> (\<exists>d. live_message v i d s \<and> d_author_id d = a)"

text \<open>Who may manage an account: the account itself, an admin, and only an owner an owner.\<close>

definition manages_account :: "str \<Rightarrow> account_row \<Rightarrow> world \<Rightarrow> bool" where
  "manages_account a r s \<longleftrightarrow> (\<exists>x\<in>set (accounts s). a_id x = a \<and> a_disabled_at x = None \<and> can_admin (a_role x)
     \<and> (a_role r = Owner \<longrightarrow> a_role x = Owner))"

definition named :: "str \<Rightarrow> account_row \<Rightarrow> world \<Rightarrow> bool" where
  "named u r s \<longleftrightarrow> r \<in> set (accounts s) \<and> same_username (trim_start_char c_at (trim u)) r"

section \<open>The policy\<close>

fun allowed_message :: "message_request \<Rightarrow> world \<Rightarrow> bool" where
  "allowed_message (CreateThread a c t) s = can_view a c s"
| "allowed_message (AddComment a t b) s = reads_thread a t s"
| "allowed_message (EditThread a t ti b) s = edits_thread a t s"
| "allowed_message (RenameThread a t ti) s = edits_thread a t s"
| "allowed_message (DeleteThread a t) s = edits_thread a t s"
| "allowed_message (SetThreadArchived a t v) s = edits_thread a t s"
| "allowed_message (SetThreadPinned a t v) s = pins_thread a t s"
| "allowed_message (SetThreadMuted a t h) s = reads_thread a t s"
| "allowed_message (SetThreadSaved a t v) s = reads_thread a t s"
| "allowed_message (MarkThreadRead a t) s = reads_thread a t s"
| "allowed_message (MarkThreadUnread a t) s = reads_thread a t s"
| "allowed_message (UpdateComment a t i b) s = edits_comment a t i s"
| "allowed_message (DeleteComment a t i) s = edits_comment a t i s"
| "allowed_message (SaveComment a t i v) s = (reads_thread a t s \<and> (\<exists>c. live_comment t i c s))"
| "allowed_message (OpenDm a u) s = active a s"
| "allowed_message (SendDm a v b) s = participant a v s"
| "allowed_message (UpdateDm a v i b) s = wrote a v i s"
| "allowed_message (DeleteDm a v i) s = wrote a v i s"
| "allowed_message (SaveDm a v i w) s = (participant a v s \<and> (\<exists>d. live_message v i d s))"
| "allowed_message (SetConversationMuted a v h) s = True"
| "allowed_message (SetConversationSaved a v w) s = True"
| "allowed_message (MarkConversationRead a v) s = participant a v s"
| "allowed_message (MarkConversationUnread a v) s = participant a v s"
| "allowed_message (ReactToThread a t e r) s = reads_thread a t s"
| "allowed_message (ReactToComment a t i e r) s = (reads_thread a t s \<and> (\<exists>c. live_comment t i c s))"
| "allowed_message (ReactToDm a v i e r) s = (participant a v s \<and> (\<exists>d. live_message v i d s))"
| "allowed_message (MarkNotificationRead a i) s = True"
| "allowed_message (ArchiveNotifications a) s = True"

definition slug_names :: "env \<Rightarrow> str \<Rightarrow> channel_row \<Rightarrow> world \<Rightarrow> bool" where
  "slug_names E u ch s \<longleftrightarrow> ch \<in> set (channels s) \<and> c_slug ch = slug_arg E u"

fun allowed_channel :: "env \<Rightarrow> channel_request \<Rightarrow> world \<Rightarrow> bool" where
  "allowed_channel E (CreateChannel a n p) s = active a s"
| "allowed_channel E (JoinChannel a u) s = (active a s \<and> (\<exists>ch. slug_names E u ch s \<and> c_archived_at ch = None
     \<and> c_visibility ch = Public))"
| "allowed_channel E (AddChannelMember a u n) s = (\<exists>ch. slug_names E u ch s \<and> c_archived_at ch = None
     \<and> c_visibility ch = Private \<and> manages a ch s)"
| "allowed_channel E (RemoveChannelMember a u n) s = (\<exists>ch. slug_names E u ch s \<and> c_archived_at ch = None
     \<and> c_visibility ch = Private \<and> manages a ch s)"
| "allowed_channel E (LeaveChannel a u) s = (active a s \<and> (\<exists>ch. slug_names E u ch s \<and> c_archived_at ch = None
     \<and> c_slug ch \<noteq> general \<and> c_created_by ch \<noteq> a))"
| "allowed_channel E (RenameChannel a u n) s = (\<exists>ch. slug_names E u ch s \<and> c_archived_at ch = None
     \<and> c_slug ch \<noteq> general \<and> manages a ch s)"
| "allowed_channel E (SetChannelTopic a u t) s = (\<exists>ch. slug_names E u ch s \<and> c_archived_at ch = None
     \<and> manages a ch s)"
| "allowed_channel E (SetChannelArchived a u v) s = (\<exists>ch. slug_names E u ch s \<and> c_slug ch \<noteq> general
     \<and> manages a ch s)"

text \<open>The target of an administrative request: never the last active owner.\<close>

definition other_owner :: "account_row \<Rightarrow> world \<Rightarrow> bool" where
  "other_owner r s \<longleftrightarrow> (\<exists>x\<in>set (accounts s). a_id x \<noteq> a_id r \<and> active_owner x)"

definition is_owner :: "str \<Rightarrow> world \<Rightarrow> bool" where
  "is_owner a s \<longleftrightarrow> (\<exists>x\<in>set (accounts s). a_id x = a \<and> a_disabled_at x = None \<and> a_role x = Owner)"

definition enabled :: "str \<Rightarrow> world \<Rightarrow> bool" where
  "enabled a s \<longleftrightarrow> (\<exists>x\<in>set (accounts s). a_id x = a \<and> a_disabled_at x = None)"

definition self_or_managed :: "str \<Rightarrow> account_row \<Rightarrow> world \<Rightarrow> bool" where
  "self_or_managed a r s \<longleftrightarrow> enabled a s \<and> (a_id r = a \<or> manages_account a r s)"

fun allowed_account :: "env \<Rightarrow> account_request \<Rightarrow> world \<Rightarrow> bool" where
  "allowed_account E (SetUserDisabled a u v) s = (\<exists>r. named u r s \<and> admin a s \<and> manages_account a r s
     \<and> (v \<and> a_role r = Owner \<longrightarrow> other_owner r s))"
| "allowed_account E (SetUserRole a u role) s = (\<exists>r. named u r s \<and> admin a s \<and> manages_account a r s
     \<and> (role = Owner \<or> role = Admin \<longrightarrow> is_owner a s) \<and> (a_role r = Owner \<and> role \<noteq> Owner \<longrightarrow> other_owner r s))"
| "allowed_account E (RenameUser a u n) s = (\<exists>r\<in>set (accounts s). (u = a \<and> a_id r = a \<or> named u r s) \<and> self_or_managed a r s)"
| "allowed_account E (SetDisplayName a u n) s = (\<exists>r\<in>set (accounts s). (u = a \<and> a_id r = a \<or> named u r s) \<and> self_or_managed a r s)"
| "allowed_account E (CreateDeviceLinkToken a l) s = active a s"
| "allowed_account E (AddSshKey a u k l) s = (case u of None \<Rightarrow> enabled a s
     | Some n \<Rightarrow> \<exists>r. named n r s \<and> self_or_managed a r s)"
| "allowed_account E (LabelSshKey a k l) s = (\<exists>key\<in>set (ssh_keys s). matches_key k key
     \<and> (\<exists>r\<in>set (accounts s). a_id r = k_account_id key \<and> self_or_managed a r s))"
| "allowed_account E (RevokeSshKey a k) s = (\<exists>key\<in>set (ssh_keys s). matches_key k key
     \<and> (\<exists>r\<in>set (accounts s). a_id r = k_account_id key \<and> self_or_managed a r s))"
| "allowed_account E CreateBootstrapToken s = (active_accounts s = 0)"
| "allowed_account E (CreateInvite a role h) s = (\<exists>x\<in>set (accounts s). a_id x = a \<and> a_disabled_at x = None
     \<and> can_admin (a_role x) \<and> (role = Admin \<longrightarrow> a_role x = Owner) \<and> role \<noteq> Owner)"
| "allowed_account E (RevokeInvite a i) s = admin a s"
| "allowed_account E (CompleteOnboarding a u) s = enabled a s"
| "allowed_account E _ s = True"

fun allowed :: "env \<Rightarrow> request \<Rightarrow> world \<Rightarrow> bool" where
  "allowed E (MessageRequest q) s = allowed_message q s"
| "allowed E (ChannelRequest q) s = allowed_channel E q s"
| "allowed E (AccountRequest q) s = allowed_account E q s"

section \<open>Handlers ask for permission\<close>

lemma wp_const: "G \<Longrightarrow> wp m (\<lambda>_ _. G) s"
  by (simp add: wp_def split: sum.splits)

text \<open>The guards, as what they establish.\<close>

lemma account_active:
  "fetch_last (\<lambda>r. a_id r = a \<and> a_disabled_at r = None) (accounts s) = Some r \<Longrightarrow> a_activated_at r \<noteq> None \<Longrightarrow> active a s"
  by (auto simp: active_def dest!: fetch_last_SomeD)

lemma wp_modify_thread:
  assumes "\<And>r. moderates a (tm_channel_id th) s
       \<or> (\<not> b \<and> active a s \<and> tm_creator_id th = a \<and> (\<exists>ch. open_channel (tm_channel_id th) ch s)) \<Longrightarrow> Q r s"
  shows "wp (ensure_can_modify_thread a th b) Q s"
  using assms
  by (auto simp: ensure_can_modify_thread_def wp_simps moderates_def open_channel_def active_def admin_def
      dest!: fetch_last_SomeD)

lemma wp_manage_channel:
  assumes "\<And>r. c \<in> set (channels s) \<Longrightarrow> manages a c s \<Longrightarrow> Q r s" "c \<in> set (channels s)"
  shows "wp (ensure_can_manage_channel a (channel_meta_of c)) Q s"
  using assms
  by (auto simp: ensure_can_manage_channel_def wp_simps manages_def active_def admin_def dest!: fetch_last_SomeD)

lemma active_row:
  assumes "account_ids_ok s" "active a s" "r \<in> set (accounts s)" "a_id r = a"
  shows "a_activated_at r \<noteq> None \<and> a_disabled_at r = None"
  using assms account_row_unique unfolding active_def by blast

lemma wp_own_or_moderator:
  assumes "\<And>r. author = a \<or> moderates a c s \<Longrightarrow> Q r s" "account_ids_ok s" "active a s"
  shows "wp (ensure_own_or_moderator a c author msg) Q s"
proof -
  have adm: "admin a s" if "r \<in> set (accounts s)" "a_id r = a" "can_admin (a_role r)" for r
    using active_row [OF assms(2,3) that(1,2)] that by (auto simp: admin_def)
  show ?thesis
    unfolding ensure_own_or_moderator_def wp_simps Let_def
    using assms(1,3) adm by (auto simp: moderates_def open_channel_def dest!: fetch_last_SomeD)
qed

lemma can_view_active: "can_view a c s \<Longrightarrow> active a s"
  by (auto simp: can_view_def active_def list_ex_iff)

lemma wp_thread:
  assumes "\<And>th. live_thread t th s \<Longrightarrow> Q (thread_meta_of th) s"
  shows "wp (load_thread_meta_tx t) Q s"
  using assms by (auto simp: wp_load_thread_meta_tx live_thread_def dest!: fetch_last_SomeD)

lemma wp_comment:
  assumes "\<And>m c. live_comment t i c s \<Longrightarrow> mm_author_id m = co_author_id c \<Longrightarrow> Q m s"
  shows "wp (load_comment_meta_tx t i) Q s"
  using assms by (auto simp: wp_load_comment_meta_tx live_comment_def dest!: fetch_last_SomeD)

lemma wp_participant:
  assumes "participant a v s \<Longrightarrow> Q () s"
  shows "wp (ensure_participant v a) Q s"
  using assms by (auto simp: wp_ensure_participant participant_def)

lemma wp_message:
  assumes "\<And>d. participant a v s \<Longrightarrow> live_message v i d s \<Longrightarrow>
     Q \<lparr>mm_id = d_id d, mm_author_id = d_author_id d, mm_index = i, mm_created_at = d_created_at d\<rparr> s"
  shows "wp (load_dm_message_meta_tx a v i) Q s"
  using assms unfolding wp_load_dm_message_meta_tx participant_def live_message_def
  by (blast dest: fetch_last_SomeD)

lemma wp_bindI: "wp m (\<lambda>a. wp (f a) Q) s \<Longrightarrow> wp (bnd m f) Q s"
  by (simp add: wp_bnd)

lemma wp_thenI: "wp m (\<lambda>_. wp k Q) s \<Longrightarrow> wp (thn m k) Q s"
  by (simp add: wp_thn)

lemma wp_ensureI: "(b \<Longrightarrow> Q () s) \<Longrightarrow> wp (ensure b e) Q s"
  by (simp add: wp_ensure)

lemmas guard_intros = wp_bindI wp_thenI wp_thread wp_ensure_can_view_channel wp_modify_thread wp_ensureI
  wp_comment wp_message wp_participant

lemma reads_threadI: "live_thread t th s \<Longrightarrow> can_view a (t_channel_id th) s \<Longrightarrow> reads_thread a t s"
  by (auto simp: reads_thread_def)

lemma message_reads:
  "wp (add_comment E a t b) (\<lambda>_ _. reads_thread a t s) s"
  "wp (set_thread_muted E a t h) (\<lambda>_ _. reads_thread a t s) s"
  "wp (set_thread_saved E a t v) (\<lambda>_ _. reads_thread a t s) s"
  "wp (mark_thread_read E a t) (\<lambda>_ _. reads_thread a t s) s"
  "wp (mark_thread_unread E a t) (\<lambda>_ _. reads_thread a t s) s"
  "wp (react_to_thread E a t e r) (\<lambda>_ _. reads_thread a t s) s"
proof -
  show "wp (add_comment E a t b) (\<lambda>_ _. reads_thread a t s) s"
    unfolding add_comment_def Let_def wp_thn [of "ensure _ _"] wp_ensure wp_bnd [of "gets _"] wp_gets wp_case_option wp_fail
      wp_thn [of "ensure_can_view_channel _ _"]
    by (auto simp: live_thread_def intro!: wp_ensure_can_view_channel wp_const reads_threadI dest!: fetch_last_SomeD)
qed (unfold set_thread_muted_def set_thread_saved_def mark_thread_read_def mark_thread_unread_def react_to_thread_def,
    (rule wp_bindI, rule wp_thread, rule wp_thenI, rule wp_ensure_can_view_channel, rule wp_const, rule reads_threadI; simp)+)

lemma message_edits_thread:
  "wp (edit_thread E a t ti b) (\<lambda>_ _. edits_thread a t s) s"
  "wp (rename_thread E a t ti) (\<lambda>_ _. edits_thread a t s) s"
  "f \<noteq> Pinned \<Longrightarrow> wp (update_thread_flag E a t f v) (\<lambda>_ _. edits_thread a t s) s"
  "wp (update_thread_flag E a t Pinned v) (\<lambda>_ _. pins_thread a t s) s"
  unfolding edit_thread_def rename_thread_def update_thread_flag_def
  by ((rule wp_bindI, rule wp_thread, rule wp_bindI, rule wp_modify_thread, rule wp_const;
    fastforce simp: edits_thread_def pins_thread_def)+)

lemma message_edits_comment:
  assumes "account_ids_ok s"
  shows "wp (update_comment_body E a t i b) (\<lambda>_ _. edits_comment a t i s) s"
    "wp (soft_delete_comment E a t i) (\<lambda>_ _. edits_comment a t i s) s"
  unfolding update_comment_body_def soft_delete_comment_def Let_def
  by (rule wp_bindI wp_thenI wp_ensureI wp_thread wp_ensure_can_view_channel wp_comment wp_own_or_moderator [OF _ assms]
      wp_const | erule can_view_active | fastforce simp: edits_comment_def)+

lemma message_comment:
  "wp (set_comment_saved E a t i v) (\<lambda>_ _. reads_thread a t s \<and> (\<exists>c. live_comment t i c s)) s"
  "wp (react_to_comment E a t i e r) (\<lambda>_ _. reads_thread a t s \<and> (\<exists>c. live_comment t i c s)) s"
  unfolding set_comment_saved_def react_to_comment_def
  by ((rule wp_bindI, rule wp_thread, rule wp_thenI, rule wp_ensure_can_view_channel, rule wp_bindI, rule wp_comment, rule wp_const;
    fastforce simp: reads_thread_def)+)

lemma message_dm:
  "wp (update_dm_body E a v i b) (\<lambda>_ _. wrote a v i s) s"
  "wp (soft_delete_dm E a v i) (\<lambda>_ _. wrote a v i s) s"
  "wp (set_dm_message_saved E a v i w) (\<lambda>_ _. participant a v s \<and> (\<exists>d. live_message v i d s)) s"
  "wp (react_to_dm E a v i e r) (\<lambda>_ _. participant a v s \<and> (\<exists>d. live_message v i d s)) s"
  "wp (send_dm E a v b) (\<lambda>_ _. participant a v s) s"
  unfolding update_dm_body_def soft_delete_dm_def set_dm_message_saved_def react_to_dm_def send_dm_def Let_def
  by ((rule wp_bindI wp_thenI wp_ensureI wp_message wp_participant wp_const | fastforce simp: wrote_def)+)

lemma message_conversation:
  "wp (mark_conversation_read E a v) (\<lambda>_ _. participant a v s) s"
  "wp (mark_conversation_unread E a v) (\<lambda>_ _. participant a v s) s"
proof -
  have tail: "wp (participant_last_index v a) (\<lambda>x. wp (k x) (\<lambda>_ _. participant a v s)) s" for k :: "int \<Rightarrow> unit wtx"
    by (auto simp: participant_last_index_def wp_simps participant_def list_ex_iff intro!: wp_const dest!: fetch_last_SomeD)
  show "wp (mark_conversation_read E a v) (\<lambda>_ _. participant a v s) s"
    "wp (mark_conversation_unread E a v) (\<lambda>_ _. participant a v s) s"
    unfolding mark_conversation_read_def mark_conversation_unread_def wp_bnd [of "participant_last_index _ _"] by (rule tail)+
qed

lemma message_create:
  "wp (create_thread E a c t) (\<lambda>_ _. can_view a c s) s"
  "wp (open_dm E a u) (\<lambda>_ _. active a s) s"
proof -
  show "wp (create_thread E a c t) (\<lambda>_ _. can_view a c s) s"
    unfolding create_thread_def Let_def
    by (rule wp_bindI wp_thenI wp_ensureI wp_ensure_can_view_channel wp_const | assumption)+
  show "wp (open_dm E a u) (\<lambda>_ _. active a s) s"
    unfolding open_dm_def Let_def wp_bnd [of "load_account_tx _"] wp_load_account_tx wp_thn [of "ensure (ac_activated _) _"] wp_ensure
    by (auto intro!: wp_const account_active)
qed

lemma wp_unit_of: "wp (unit_of m) (\<lambda>_ _. G) s = wp m (\<lambda>_ _. G) s"
  by (simp add: unit_of_def wp_bnd wp_ret)

lemma message_allowed:
  assumes "account_ids_ok s"
  shows "wp (message_handler E q) (\<lambda>_ _. allowed_message q s) s"
  by (cases q) (simp_all add: handler_synonyms wp_unit_of message_reads message_edits_thread message_edits_comment [OF assms]
    message_comment message_dm message_conversation message_create)


lemma wp_actor:
  assumes "active a s \<Longrightarrow> Q"
  shows "wp (load_account_tx a) (\<lambda>actor t. ac_activated actor \<and> t = s \<longrightarrow> Q) s"
  using assms by (auto simp: wp_load_account_tx dest: account_active)

lemma channel_allowed: "wp (channel_handler E q) (\<lambda>_ _. allowed_channel E q s) s"
proof -
  have managed: "wp (load_channel_by_slug_tx E u) (\<lambda>c. wp (ensure_can_manage_channel a c) (\<lambda>_ t. g c \<longrightarrow> 
      (\<exists>ch. slug_names E u ch s \<and> c_archived_at ch = None \<and> g (channel_meta_of ch) \<and> manages a ch s))) s" for u a g
    by (auto simp: wp_load_channel_by_slug_tx slug_names_def intro!: wp_manage_channel dest!: fetch_last_SomeD)
  have member: "wp (update_channel_member E a u n v) (\<lambda>_ _. \<exists>ch. slug_names E u ch s \<and> c_archived_at ch = None
     \<and> c_visibility ch = Private \<and> manages a ch s) s" for a u n v
    unfolding update_channel_member_def wp_bnd [of "load_channel_by_slug_tx _ _"] wp_bnd [of "ensure_can_manage_channel _ _"]
      wp_thn [of "ensure _ _"] wp_ensure
    by (rule wp_mono [OF managed [of u a "\<lambda>c. cm_visibility c = Private"]], erule wp_mono) (auto intro!: wp_const)
  have rename: "wp (rename_channel E a u n) (\<lambda>_ _. \<exists>ch. slug_names E u ch s \<and> c_archived_at ch = None
     \<and> c_slug ch \<noteq> general \<and> manages a ch s) s" for a u n
    unfolding rename_channel_def wp_bnd [of "lift_res _"] wp_lift_res wp_bnd [of "load_channel_by_slug_tx _ _"] wp_bnd [of "ensure_can_manage_channel _ _"]
      wp_thn [of "ensure _ _"] wp_ensure
    by (intro allI impI, rule wp_mono [OF managed [of u a "\<lambda>c. cm_slug c \<noteq> general"]], erule wp_mono) (auto intro!: wp_const)
  have topic: "wp (set_channel_topic E a u n) (\<lambda>_ _. \<exists>ch. slug_names E u ch s \<and> c_archived_at ch = None
     \<and> manages a ch s) s" for a u n
    unfolding set_channel_topic_def wp_bnd [of "load_channel_by_slug_tx _ _"] wp_bnd [of "ensure_can_manage_channel _ _"]
    by (rule wp_mono [OF managed [of u a "\<lambda>_. True"]], erule wp_mono) (auto intro!: wp_const)
  have archive: "wp (set_channel_archived E a u v) (\<lambda>_ _. \<exists>ch. slug_names E u ch s \<and> c_slug ch \<noteq> general
     \<and> manages a ch s) s" for a u v
    unfolding set_channel_archived_def wp_bnd [of "if _ then _ else _"] wp_if wp_load_channel_by_slug_tx wp_load_channel_by_slug_any_tx
      wp_bnd [of "ensure_can_manage_channel _ _"] wp_thn [of "ensure _ _"] wp_ensure
    by (auto simp: slug_names_def intro!: wp_manage_channel wp_const dest!: fetch_last_SomeD)
  have create: "wp (create_channel E a n p) (\<lambda>_ _. active a s) s"
    "wp (join_channel E a u) (\<lambda>_ _. active a s \<and> (\<exists>ch. slug_names E u ch s \<and> c_archived_at ch = None \<and> c_visibility ch = Public)) s"
    "wp (leave_channel E a u) (\<lambda>_ _. active a s \<and> (\<exists>ch. slug_names E u ch s \<and> c_archived_at ch = None
       \<and> c_slug ch \<noteq> general \<and> c_created_by ch \<noteq> a)) s" for a n p u
    unfolding create_channel_def join_channel_def leave_channel_def wp_bnd [of "load_account_tx _"] wp_load_account_tx wp_thn [of "ensure _ _"] wp_ensure
      wp_bnd [of "load_channel_by_slug_tx _ _"] wp_load_channel_by_slug_tx
    by (auto simp: slug_names_def active_def intro!: wp_const dest!: fetch_last_SomeD)
  show ?thesis
    by (cases q) (simp_all add: handler_synonyms wp_unit_of member rename topic archive create)
qed

text \<open>Accounts. A target is the actor itself or an account of that name.\<close>

lemma wp_manages:
  assumes x: "x \<in> set (accounts s)" "a_id x = a" "a_disabled_at x = None"
    and r: "r \<in> set (accounts s)"
    and Q: "self_or_managed a r s \<Longrightarrow> Q () s"
  shows "wp (ensure_manages (account_from_row x) (account_from_row r)) Q s"
proof -
  have "enabled a s" using x by (auto simp: enabled_def)
  then have "self_or_managed a r s" if "a_id r = a \<or> can_admin (a_role x) \<and> (a_role r = Owner \<longrightarrow> a_role x = Owner)"
    using that x by (auto simp: self_or_managed_def manages_account_def)
  then show ?thesis
    using Q x by (auto simp: ensure_manages_def wp_if wp_ensure_can_manage_account wp_ret)
qed

lemma wp_target:
  assumes "\<And>r. r \<in> set (accounts s) \<Longrightarrow> (u = a \<and> a_id r = a) \<or> named u r s \<Longrightarrow> Q (account_from_row r) s"
    and "x \<in> set (accounts s)" "a_id x = a"
  shows "wp (self_or_named (account_from_row x) a u) Q s"
  using assms by (auto simp: self_or_named_def wp_if wp_ret wp_load_account_by_username_tx named_def dest!: fetch_last_SomeD)

lemma account_of_self:
  "wp (rename_user E a u n) (\<lambda>_ _. \<exists>r\<in>set (accounts s). (u = a \<and> a_id r = a \<or> named u r s) \<and> self_or_managed a r s) s"
  "wp (set_display_name E a u n) (\<lambda>_ _. \<exists>r\<in>set (accounts s). (u = a \<and> a_id r = a \<or> named u r s) \<and> self_or_managed a r s) s"
  unfolding rename_user_def set_display_name_def Let_def wp_bnd [of "lift_res _"] wp_lift_res wp_bnd [of "load_account_tx _"]
    wp_load_account_tx wp_bnd [of "self_or_named _ _ _"] wp_thn [of "ensure_manages _ _"] wp_thn [of "ensure _ _"] wp_ensure
  by (auto intro!: wp_target wp_manages wp_const dest!: fetch_last_SomeD)

lemma wp_admin:
  assumes "\<And>x. x \<in> set (accounts s) \<Longrightarrow> a_id x = a \<Longrightarrow> a_disabled_at x = None \<Longrightarrow> a_activated_at x \<noteq> None \<Longrightarrow>
     can_admin (a_role x) \<Longrightarrow> Q (account_from_row x) s"
  shows "wp (require_admin_tx a) Q s"
  using assms by (auto simp: wp_require_admin_tx dest!: fetch_last_SomeD)

lemma account_admin:
  "wp (set_user_disabled E a u v) (\<lambda>_ _. \<exists>r. named u r s \<and> admin a s \<and> manages_account a r s
     \<and> (v \<and> a_role r = Owner \<longrightarrow> other_owner r s)) s"
  "wp (set_user_role E a u role) (\<lambda>_ _. \<exists>r. named u r s \<and> admin a s \<and> manages_account a r s
     \<and> (role = Owner \<or> role = Admin \<longrightarrow> is_owner a s) \<and> (a_role r = Owner \<and> role \<noteq> Owner \<longrightarrow> other_owner r s)) s"
  "wp (revoke_invite E a i) (\<lambda>_ _. admin a s) s"
proof -
  have target: "wp (load_account_by_username_tx u) Q s" if "\<And>r. named u r s \<Longrightarrow> Q (account_from_row r) s" for Q u
    using that by (auto simp: wp_load_account_by_username_tx named_def dest!: fetch_last_SomeD)
  show "wp (set_user_disabled E a u v) (\<lambda>_ _. \<exists>r. named u r s \<and> admin a s \<and> manages_account a r s
     \<and> (v \<and> a_role r = Owner \<longrightarrow> other_owner r s)) s"
    unfolding set_user_disabled_def wp_bnd [of "require_admin_tx _"] wp_bnd [of "load_account_by_username_tx _"]
      wp_thn [of "ensure_can_manage_account _ _"] wp_ensure_can_manage_account wp_thn [of "if _ then _ else _"] wp_if wp_ensure_not_last_active_owner wp_ret
    by (rule wp_admin, rule target) (auto simp: admin_def manages_account_def other_owner_def intro!: wp_const)
  show "wp (set_user_role E a u role) (\<lambda>_ _. \<exists>r. named u r s \<and> admin a s \<and> manages_account a r s
     \<and> (role = Owner \<or> role = Admin \<longrightarrow> is_owner a s) \<and> (a_role r = Owner \<and> role \<noteq> Owner \<longrightarrow> other_owner r s)) s"
    unfolding set_user_role_def wp_bnd [of "require_admin_tx _"] wp_bnd [of "load_account_by_username_tx _"]
      wp_thn [of "ensure_can_manage_account _ _"] wp_ensure_can_manage_account wp_thn [of "if _ then _ else _"] wp_if wp_ensure_not_last_active_owner wp_ret wp_fail
    by (rule wp_admin, rule target) (auto simp: admin_def manages_account_def other_owner_def is_owner_def intro!: wp_const)
  show "wp (revoke_invite E a i) (\<lambda>_ _. admin a s) s"
    unfolding revoke_invite_def wp_bnd [of "require_admin_tx _"]
    by (rule wp_admin) (auto simp: admin_def intro!: wp_const)
qed

lemma wp_key:
  assumes "\<And>key r acc. key \<in> set (ssh_keys s) \<Longrightarrow> matches_key k key \<Longrightarrow> r \<in> set (accounts s) \<Longrightarrow> a_id r = k_account_id key \<Longrightarrow>
     ac_id acc = a_id r \<Longrightarrow> ac_role acc = a_role r \<Longrightarrow> Q (key, acc) s"
  shows "wp (find_active_key k) Q s"
  using assms
  by (fastforce simp: find_active_key_def keys_with_owner_def wp_simps dest!: fetch_last_SomeD)

lemma wp_manages_key:
  assumes x: "x \<in> set (accounts s)" "a_id x = a" "a_disabled_at x = None"
    and r: "r \<in> set (accounts s)" "ac_id acc = a_id r" "ac_role acc = a_role r"
    and Q: "self_or_managed a r s \<Longrightarrow> Q () s"
  shows "wp (ensure_manages (account_from_row x) acc) Q s"
proof -
  have "ensure_manages (account_from_row x) acc = ensure_manages (account_from_row x) (account_from_row r)"
    using r by (simp add: ensure_manages_def ensure_can_manage_account_def)
  then show ?thesis using wp_manages [OF x r(1), of Q] Q by simp
qed

lemma account_keys:
  "wp (label_ssh_key E a k l) (\<lambda>_ _. \<exists>key\<in>set (ssh_keys s). matches_key k key
     \<and> (\<exists>r\<in>set (accounts s). a_id r = k_account_id key \<and> self_or_managed a r s)) s"
  "wp (revoke_ssh_key E a k) (\<lambda>_ _. \<exists>key\<in>set (ssh_keys s). matches_key k key
     \<and> (\<exists>r\<in>set (accounts s). a_id r = k_account_id key \<and> self_or_managed a r s)) s"
  unfolding label_ssh_key_def revoke_ssh_key_def Let_def wp_bnd [of "load_account_tx _"]
    wp_load_account_tx wp_bnd [of "find_active_key _"] wp_case_prod wp_thn [of "ensure_manages _ _"]
  by (auto intro!: wp_key wp_manages_key wp_const dest!: fetch_last_SomeD)

lemma account_rest:
  "wp (create_device_link_token E a l) (\<lambda>_ _. active a s) s"
  "wp (add_ssh_key E a u k l) (\<lambda>_ _. case u of None \<Rightarrow> enabled a s | Some n \<Rightarrow> \<exists>r. named n r s \<and> self_or_managed a r s) s"
  "wp (create_bootstrap_token E) (\<lambda>_ _. active_accounts s = 0) s"
  "wp (create_invite_with_options E a role h) (\<lambda>_ _. \<exists>x\<in>set (accounts s). a_id x = a \<and> a_disabled_at x = None
     \<and> can_admin (a_role x) \<and> (role = Admin \<longrightarrow> a_role x = Owner) \<and> role \<noteq> Owner) s"
  "wp (complete_onboarding E a w) (\<lambda>_ _. enabled a s) s"
proof -
  show "wp (create_device_link_token E a l) (\<lambda>_ _. active a s) s"
    unfolding create_device_link_token_def wp_bnd [of "load_account_tx _"] wp_load_account_tx wp_thn [of "ensure _ _"] wp_ensure
    by (auto intro!: wp_const account_active)
  show "wp (add_ssh_key E a u k l) (\<lambda>_ _. case u of None \<Rightarrow> enabled a s | Some n \<Rightarrow> \<exists>r. named n r s \<and> self_or_managed a r s) s"
  proof (cases u)
    case None
    then show ?thesis
      unfolding add_ssh_key_def wp_bnd [of "lift_res _"] wp_lift_res wp_bnd [of "load_account_tx _"] wp_load_account_tx
      by (auto simp: enabled_def intro!: wp_const dest!: fetch_last_SomeD)
  next
    case (Some n)
    then show ?thesis
      unfolding add_ssh_key_def wp_bnd [of "lift_res _"] wp_lift_res wp_bnd [of "load_account_tx _"] wp_load_account_tx
        wp_bnd [of "case_option _ _ _"] wp_case_option wp_bnd [of "load_account_by_username_tx _"] wp_load_account_by_username_tx
        wp_thn [of "ensure_manages _ _"] wp_ret
      by (auto simp: named_def intro!: wp_const wp_manages dest!: fetch_last_SomeD)
  qed
  show "wp (create_bootstrap_token E) (\<lambda>_ _. active_accounts s = 0) s"
    unfolding create_bootstrap_token_def wp_bnd [of "gets _"] wp_gets wp_thn [of "ensure _ _"] wp_ensure
    by (auto intro!: wp_const)
  have ins: "wp (thn (insert_invite r) m) (\<lambda>_ _. G) t" if "i_role r \<noteq> Owner \<Longrightarrow> G" for r m G t
    using that by (auto simp: wp_thn insert_invite_def wp_insert_row intro!: wp_const)
  show "wp (create_invite_with_options E a role h) (\<lambda>_ _. \<exists>x\<in>set (accounts s). a_id x = a \<and> a_disabled_at x = None
     \<and> can_admin (a_role x) \<and> (role = Admin \<longrightarrow> a_role x = Owner) \<and> role \<noteq> Owner) s"
    unfolding create_invite_with_options_def wp_bnd [of "load_account_tx _"] wp_load_account_tx wp_thn [of "ensure _ _"] wp_ensure
      wp_thn [of "if _ then _ else _"] wp_if wp_ret wp_bnd [of "invite_code _"] wp_invite_code wp_bnd [of "now _"] wp_now
      wp_bnd [of "ttl_timestamp _ _"] wp_bnd [of "fresh_id _"] wp_fresh_id
    by (auto simp: can_admin_def intro!: wp_ttl_timestamp ins dest!: fetch_last_SomeD)
  show "wp (complete_onboarding E a w) (\<lambda>_ _. enabled a s) s"
    unfolding complete_onboarding_def wp_bnd [of "now _"] wp_now wp_bnd [of "lift_res _"] wp_lift_res wp_bnd [of "fetch_one _ _"] wp_fetch_one
    by (auto simp: enabled_def intro!: wp_const dest!: fetch_last_SomeD)
qed

lemma account_allowed: "wp (account_handler E q) (\<lambda>_ _. allowed_account E q s) s"
  by (cases q; simp only: account_handler.simps allowed_account.simps handler_synonyms wp_unit_of account_of_self account_admin
      account_keys account_rest wp_triv)

lemma handle_allowed:
  assumes "account_ids_ok s"
  shows "wp (handle E q) (\<lambda>_ _. allowed E q s) s"
  by (cases q) (simp_all add: message_allowed [OF assms] channel_allowed account_allowed)


section \<open>Private channels\<close>

text \<open>How somebody becomes a member: the channel is public, its manager adds them, or they made it.\<close>

definition admits :: "request \<Rightarrow> str \<Rightarrow> str \<Rightarrow> world \<Rightarrow> world \<Rightarrow> bool" where
  "admits q c b s t \<longleftrightarrow> (\<exists>g\<in>set (channels t). c_id g = c \<and> c_visibility g = Public)
     \<or> (\<exists>a u n ch. q = ChannelRequest (AddChannelMember a u n) \<and> manages a ch s \<and> c_id ch = c)
     \<or> (\<exists>n p. q = ChannelRequest (CreateChannel b n p))"

definition admitted :: "request \<Rightarrow> world \<Rightarrow> world \<Rightarrow> bool" where
  "admitted q s t \<longleftrightarrow> (\<forall>c b. joined t c b \<longrightarrow> joined s c b \<or> admits q c b s t)"

lemma admitted_frame: "same channel_members m \<Longrightarrow> wp m (\<lambda>_. admitted q s) s"
  by (rule wp_same) (auto simp: admitted_def joined_def)

lemma admitted_add:
  assumes "channel_members t = channel_members s" "admits q (m_channel_id m) (m_account_id m) s t"
  shows "wp (upsert_channel_member m) (\<lambda>_. admitted q s) t" "wp (insert_channel_member m) (\<lambda>_. admitted q s) t"
proof -
  have "set M \<subseteq> insert m (set (channel_members s)) \<Longrightarrow> joined (t\<lparr>channel_members := M\<rparr>) c b \<Longrightarrow>
      joined s c b \<or> (c = m_channel_id m \<and> b = m_account_id m)" for c b M
    by (auto simp: joined_def is_channel_member_def)
  moreover have "admits q c b s (t\<lparr>channel_members := M\<rparr>) = admits q c b s t" for c b M
    by (simp add: admits_def)
  ultimately have "set M \<subseteq> insert m (set (channel_members s)) \<Longrightarrow> admitted q s (t\<lparr>channel_members := M\<rparr>)" for M
    using assms(2) unfolding admitted_def by metis
  moreover have "set (sql_upsert (same_member m) (\<lambda>q. q) m (channel_members t)) \<subseteq> insert m (set (channel_members s))"
    using assms(1) by (auto simp: sql_upsert_def sql_update_def split: if_splits)
  ultimately show "wp (upsert_channel_member m) (\<lambda>_. admitted q s) t" "wp (insert_channel_member m) (\<lambda>_. admitted q s) t"
    using assms(1) by (simp_all add: upsert_channel_member_def wp_upsert_row insert_channel_member_def wp_insert_row)
qed

lemma admitted_remove:
  "channel_members t = channel_members s \<Longrightarrow> wp (remove_member c a) (\<lambda>_. admitted q s) t"
  by (auto simp: wp_remove_member admitted_def joined_def sql_delete_def)

lemma admitted_message: "wp (message_handler E m) (\<lambda>_. admitted q s) s"
  by (intro admitted_frame same_messages) (simp add: message_blind_def blind_def)

lemma keeps_admitted:
  assumes "same (\<lambda>s. (channels s, channel_members s)) m"
  shows "keeps (admitted q s) m"
proof (rule keepsI)
  fix t assume t: "admitted q s t"
  have "admitted q s t'" if "channels t' = channels t" "channel_members t' = channel_members t" for t'
    using t that unfolding admitted_def admits_def joined_def by simp
  then show "wp m (\<lambda>_. admitted q s) t" by (intro wp_same [OF assms]) simp
qed

lemma admitted_create: "wp (create_channel E a n p) (\<lambda>_. admitted (ChannelRequest (CreateChannel a n p)) s) s"
proof -
  have rest: "keeps (admitted q s) (thn (log_event E ch th cv k pl) (ret x))" for q ch th cv k pl and x :: str
    by (intro keeps_admitted same_intros) (simp add: blind_def)
  have add: "wp (insert_channel_member m) (\<lambda>_. wp (thn (log_event E ch th cv k pl) (ret x)) (\<lambda>_. admitted (ChannelRequest (CreateChannel a n p)) s)) (s\<lparr>tick := j, channels := C\<rparr>)"
    if "m_account_id m = a" for m ch th cv k pl j C p and x :: str
    using that
    apply (intro wp_mono [OF admitted_add(2) [where q = "ChannelRequest (CreateChannel a n p)" and s = s]])
      apply simp
     apply (auto simp: admits_def) []
    apply (erule keepsD [OF rest])
    done
  show ?thesis
    unfolding create_channel_def wp_bnd [of "load_account_tx _"] wp_load_account_tx wp_thn [of "ensure _ _"] wp_ensure
      wp_bnd [of "lift_res _"] wp_lift_res wp_thn [of "ensure_channel_name_available _"] wp_bnd [of "now E"] wp_now
      wp_bnd [of "fresh_id E"] wp_fresh_id wp_thn [of "insert_channel _"] wp_thn [of "insert_channel_member _"]
    unfolding insert_channel_def wp_insert_row
    by (auto intro!: wp_unchanged add)
qed

lemma admitted_join: "wp (join_channel E a u) (\<lambda>_. admitted q s) s"
proof -
  have rest: "keeps (admitted q s) (thn (log_event E ch th cv k pl) (ret x))" for ch th cv k pl and x :: str
    by (intro keeps_admitted same_intros) (simp add: blind_def)
  have "wp (upsert_channel_member m) (\<lambda>_. wp (thn (log_event E ch th cv k pl) (ret x)) (\<lambda>_. admitted q s)) (s\<lparr>tick := j\<rparr>)"
    if "m_channel_id m = c_id g" "g \<in> set (channels s)" "c_visibility g = Public" for m ch th cv k pl j g and x :: str
    using that
    apply (intro wp_mono [OF admitted_add(1) [where q = q and s = s]])
      apply simp
     apply (auto simp: admits_def) []
    apply (erule keepsD [OF rest])
    done
  then show ?thesis
    unfolding join_channel_def wp_bnd [of "load_account_tx _"] wp_load_account_tx wp_thn [of "ensure _ _"] wp_ensure
      wp_bnd [of "load_channel_by_slug_tx _ _"] wp_load_channel_by_slug_tx wp_bnd [of "now E"] wp_now wp_thn [of "upsert_channel_member _"]
    by (auto dest!: fetch_last_SomeD)
qed

lemma admitted_leave: "wp (leave_channel E a u) (\<lambda>_. admitted q s) s"
proof -
  have rest: "keeps (admitted q s) (thn (insert_audit E oa ac t md) (log_event E ch th cv k pl))" for oa ac t md ch th cv k pl
    by (intro keeps_admitted same_intros) (simp_all add: blind_def)
  show ?thesis
    unfolding leave_channel_def wp_bnd [of "load_account_tx _"] wp_load_account_tx wp_thn [of "ensure _ _"] wp_ensure
      wp_bnd [of "load_channel_by_slug_tx _ _"] wp_load_channel_by_slug_tx wp_thn [of "remove_member _ _"]
    by (auto intro!: wp_mono [OF admitted_remove [where q = q and s = s]] keepsD [OF rest])
qed

lemma admitted_members:
  assumes "add \<Longrightarrow> q = ChannelRequest (AddChannelMember a u n)"
  shows "wp (update_channel_member E a u n add) (\<lambda>_. admitted q s) s"
proof -
  have rest: "keeps (admitted q s) (thn (insert_audit E oa ac t md) (log_event E ch th cv k pl))" for oa ac t md ch th cv k pl
    by (intro keeps_admitted same_intros) (simp_all add: blind_def)
  have adding: "wp (upsert_channel_member m) (\<lambda>_. wp (thn (insert_audit E oa ac t md) (log_event E ch th cv k pl)) (\<lambda>_. admitted q s)) (s\<lparr>tick := j\<rparr>)"
    if "add" "m_channel_id m = c_id g" "manages a g s" for m oa ac t md ch th cv k pl j g
    using that assms
    apply (intro wp_mono [OF admitted_add(1) [where q = q and s = s]])
      apply simp
     apply (auto simp: admits_def) []
    apply (erule keepsD [OF rest])
    done
  have removing: "wp (thn (ensure x e) (remove_member c b)) (\<lambda>_. wp (thn (insert_audit E oa ac t md) (log_event E ch th cv k pl)) (\<lambda>_. admitted q s)) (s\<lparr>tick := j\<rparr>)"
    for x e c b oa ac t md ch th cv k pl j
    unfolding wp_thn [of "ensure _ _"] wp_ensure
    by (intro impI, rule wp_mono [OF admitted_remove [where q = q and s = s]]) (auto intro!: keepsD [OF rest])
  show ?thesis
    unfolding update_channel_member_def Let_def wp_bnd [of "load_channel_by_slug_tx _ _"] wp_load_channel_by_slug_tx
      wp_bnd [of "ensure_can_manage_channel _ _"] wp_thn [of "ensure (_ = Private) _"] wp_ensure
      wp_bnd [of "load_account_by_username_tx _"] wp_bnd [of "now E"] wp_now wp_thn [of "if _ then _ else _"] wp_if
    by (auto intro!: wp_manage_channel wp_unchanged adding removing dest!: fetch_last_SomeD)
qed

lemma admitted_channel: "wp (channel_handler E m) (\<lambda>_. admitted (ChannelRequest m) s) s"
proof -
  have "wp (rename_channel E a u n) (\<lambda>_. admitted q s) s" "wp (set_channel_topic E a u n) (\<lambda>_. admitted q s) s"
    "wp (set_channel_archived E a u v) (\<lambda>_. admitted q s) s" for a u n v q
    unfolding rename_channel_def set_channel_topic_def set_channel_archived_def Let_def
    by (intro admitted_frame same_intros; simp add: blind_def)+
  then show ?thesis
    by (cases m) (simp_all add: handler_synonyms unit_of_def wp_bnd [of _ "\<lambda>_. ret ()"] wp_ret admitted_create admitted_join
        admitted_leave admitted_members)
qed

lemma admitted_general_channel:
  assumes "channel_members t = channel_members s" "general_but i t"
  shows "wp (general_channel E a n) (\<lambda>g t'. channel_members t' = channel_members s
     \<and> (\<exists>c\<in>set (channels t'). c_id c = g \<and> c_visibility c = Public)) t"
proof -
  have "same channel_members (general_channel E a n)" by (intro same_intros) (simp_all add: blind_def)
  then have "wp (general_channel E a n) (\<lambda>g t'. channel_members t' = channel_members s) t"
    by (rule wp_same) (simp add: assms(1))
  then show ?thesis
    by (rule wp_mono [OF wp_conj [OF _ general_channel_found [OF assms(2)]]]) (auto simp: general_but_def)
qed

lemma admitted_onboard:
  assumes "general_ok t" "channel_members t = channel_members s"
  shows "wp (onboard E i v r n) (\<lambda>_. admitted q s) t"
proof -
  have log: "keeps (admitted q s) (thn (log_event E ch th cv k pl) (ret x))" for ch th cv k pl and x :: account
    by (intro keeps_admitted same_intros) (simp add: blind_def)
  have join: "wp (thn (upsert_channel_member m) (thn (log_event E ch th cv k pl) (ret x))) (\<lambda>_. admitted q s) t'"
    if "channel_members t' = channel_members s" "\<exists>c\<in>set (channels t'). c_id c = m_channel_id m \<and> c_visibility c = Public"
    for m ch th cv k pl t' and x :: account
    unfolding wp_thn [of "upsert_channel_member _"]
    using that
    apply (intro wp_mono [OF admitted_add(1) [where q = q and s = s]])
      apply simp
     apply (auto simp: admits_def) []
    apply (erule keepsD [OF log])
    done
  have chan: "wp (bnd (general_channel E i n) (\<lambda>g. thn (upsert_channel_member (m g)) (thn (log_event E ch th cv k pl) (ret x)))) (\<lambda>_. admitted q s) t'"
    if "general_but i t'" "channel_members t' = channel_members s" "\<And>g. m_channel_id (m g) = g" for m ch th cv k pl t' and x :: account
    unfolding wp_bnd [of "general_channel _ _ _"]
    by (rule wp_mono [OF admitted_general_channel [OF that(2,1)]]) (use that(3) in \<open>auto intro!: join\<close>)
  have names: "wp (set_current_username_reservation_tx i v n) (\<lambda>_ t. general_but i t \<and> channel_members t = channel_members s) t'"
    if "general_but i t'" "channel_members t' = channel_members s" for t'
  proof (rule wp_conj)
    show "wp (set_current_username_reservation_tx i v n) (\<lambda>_. general_but i) t'"
      by (rule keepsD [OF general_but_frame that(1)]) (intro same_intros; simp)
    show "wp (set_current_username_reservation_tx i v n) (\<lambda>_ t. channel_members t = channel_members s) t'"
      using that(2) by (intro wp_same [of channel_members] same_intros) auto
  qed
  have act: "wp (activate_account i v n) (\<lambda>_ t'. general_but i t' \<and> channel_members t' = channel_members s) t"
  proof (rule wp_conj)
    show "wp (activate_account i v n) (\<lambda>_. general_but i) t" by (rule general_activate [OF assms(1)])
    show "wp (activate_account i v n) (\<lambda>_ t'. channel_members t' = channel_members s) t"
      using assms(2) by (intro wp_same [of channel_members] same_intros) auto
  qed
  show ?thesis
    unfolding onboard_def wp_thn [of "activate_account _ _ _"] wp_thn [of "set_current_username_reservation_tx _ _ _"]
      wp_thn [of "modify _"] wp_modify
    by (rule wp_mono [OF act], rule wp_mono [OF names]) (auto intro!: chan simp: general_but_def joined_def)
qed

lemma admitted_onboarding:
  assumes "general_ok s"
  shows "wp (complete_onboarding E a u) (\<lambda>_. admitted q s) s"
proof -
  have "wp (ret x) (\<lambda>_. admitted q s) (s\<lparr>tick := n\<rparr>)" for n and x :: account
    by (simp add: wp_ret admitted_def joined_def)
  moreover have "same (\<lambda>s. s) (ensure_username_reservable_tx i v)" "same (\<lambda>s. s) (ensure_accepted_token i r)" for i v r
    by (intro same_intros)+
  ultimately show ?thesis
    unfolding complete_onboarding_def wp_bnd [of "now _"] wp_now wp_bnd [of "lift_res _"] wp_lift_res wp_bnd [of "fetch_one _ _"]
      wp_fetch_one wp_if wp_thn [of "ensure_username_reservable_tx _ _"] wp_thn [of "ensure_accepted_token _ _"]
    by (auto intro!: wp_same [of "\<lambda>s. s"] admitted_onboard assms)
qed

lemma admitted_handle:
  assumes "general_ok s"
  shows "wp (handle E q) (\<lambda>_. admitted q s) s"
proof (cases q)
  case (MessageRequest m)
  then show ?thesis by (simp add: admitted_message)
next
  case (ChannelRequest m)
  then show ?thesis by (simp add: admitted_channel)
next
  case (AccountRequest m)
  have blind: "account_blind channel_members" "presence_blind channel_members"
    by (simp_all add: account_blind_def presence_blind_def blind_def)
  have "wp (account_handler E m) (\<lambda>_. admitted q s) s"
  proof (cases "\<exists>a u. m = CompleteOnboarding a u")
    case True
    then show ?thesis using admitted_onboarding [OF assms] by (auto simp: unit_of_def wp_bnd wp_ret)
  next
    case False
    then have "same channel_members (account_handler E m)"
      using blind by (cases m) (auto simp: handler_synonyms same_intros same_unit_of)
    then show ?thesis by (rule admitted_frame)
  qed
  with AccountRequest show ?thesis by simp
qed

end
