(* ===== verification/Delivery.thy ===== *)
theory Delivery
  imports Policy
begin

text \<open>
  What a posted message does for the others: whom it notifies, and what it makes of the
  counters of its thread or conversation.
\<close>

section \<open>Who is notified\<close>

text \<open>The part of the state that decides who can see a source.\<close>

definition seats :: "world \<Rightarrow> account_row list \<times> (str \<times> str) list \<times> (str \<times> str) list" where
  "seats s = (accounts s, map (\<lambda>m. (m_channel_id m, m_account_id m)) (channel_members s),
     map (\<lambda>m. (vm_conversation_id m, vm_account_id m)) (conversation_members s))"

lemma list_ex_keys:
  assumes "map key xs = map key ys" "\<And>x. p x = q (key x)"
  shows "list_ex p xs = list_ex p ys"
proof -
  have "list_ex p zs = list_ex q (map key zs)" for zs by (induction zs) (simp_all add: assms(2))
  with assms(1) show ?thesis by simp
qed

lemma visible_source_seats: "seats t = seats s \<Longrightarrow> visible_source a c v t = visible_source a c v s"
proof -
  assume eq: "seats t = seats s"
  have "list_ex (is_channel_member ch a) (channel_members t) = list_ex (is_channel_member ch a) (channel_members s)" for ch
    by (rule list_ex_keys [where q = "\<lambda>k. k = (ch, a)"]) (use eq in \<open>auto simp: seats_def is_channel_member_def\<close>)
  moreover have "list_ex (is_conversation_member cv a) (conversation_members t)
      = list_ex (is_conversation_member cv a) (conversation_members s)" for cv
    by (rule list_ex_keys [where q = "\<lambda>k. k = (cv, a)"]) (use eq in \<open>auto simp: seats_def is_conversation_member_def\<close>)
  moreover have "accounts t = accounts s" using eq by (simp add: seats_def)
  ultimately show ?thesis by (simp add: visible_source_def split: option.splits)
qed

text \<open>
  Only new notifications, each by \<open>b\<close>, for somebody else who is active and a member of the
  place the message stands in.
\<close>

definition notifies :: "str \<Rightarrow> world \<Rightarrow> world \<Rightarrow> bool" where
  "notifies b s t \<longleftrightarrow> seats t = seats s \<and>
     (\<exists>new. notifications t = notifications s @ new \<and> (\<forall>n\<in>set new. notified_ok b n s))"

lemma notifies_refl: "notifies b s s"
  by (simp add: notifies_def)

lemma notifies_adds:
  assumes "notifies b s t" "adds_notified b t u"
  shows "notifies b s u"
proof -
  have "seats u = seats t" using assms(2) by (simp add: adds_notified_def places_def seats_def)
  moreover have "notified_ok b n t = notified_ok b n s" for n
    using assms(1) by (simp add: notifies_def notified_ok_def visible_source_seats [of t s])
  ultimately show ?thesis
    using assms unfolding notifies_def adds_notified_def by force
qed

lemma notifies_frame: "same (\<lambda>s. (seats s, notifications s)) m \<Longrightarrow> keeps (notifies b s) m"
  using keeps_same [of "\<lambda>s. (seats s, notifications s)" m "\<lambda>(x, n). x = seats s \<and>
     (\<exists>new. n = notifications s @ new \<and> (\<forall>n\<in>set new. notified_ok b n s))"]
  by (simp add: notifies_def [abs_def])

lemma notifies_projections:
  "keeps (notifies b s) (create_mention_notifications_tx E b q)"
  "keeps (notifies b s) (create_thread_reply_notifications_tx E b r)"
  "keeps (notifies b s) (create_dm_notifications_tx E b c m i body)"
  unfolding keeps_def
  by (auto intro: notifies_adds wp_mono [OF mention_notifications_adds] wp_mono [OF thread_reply_notifications_adds]
      wp_mono [OF dm_notifications_adds])


lemma notifies_view: "blind (\<lambda>s. seats s)"
  by (simp add: blind_def seats_def)

lemma notifies_created:
  "keeps (notifies b s) (thread_created E b t c sl ti body n)"
  "keeps (notifies b s) (comment_created E b i c sl t ti x body n)"
  "keeps (notifies b s) (dm_created E b c m x body n)"
  unfolding thread_created_def comment_created_def dm_created_def
  by (intro keeps_intros notifies_projections; intro notifies_frame same_intros; simp add: seats_def)+

lemma notifies_posts:
  "keeps (notifies b s) (create_thread E b c ti)"
  "keeps (notifies b s) (add_comment E b t body)"
  "keeps (notifies b s) (send_dm E b cv body)"
  unfolding create_thread_def add_comment_def send_dm_def insert_thread_def insert_message_def Let_def
  by (intro keeps_intros notifies_created; intro notifies_frame same_intros; simp add: seats_def map_sql_update)+


section \<open>Where a notification points to\<close>

text \<open>The run only adds notifications, and each new one satisfies \<open>P\<close>.\<close>

definition told :: "(notification_row \<Rightarrow> bool) \<Rightarrow> world \<Rightarrow> world \<Rightarrow> bool" where
  "told P s t \<longleftrightarrow> (\<exists>new. notifications t = notifications s @ new \<and> (\<forall>n\<in>set new. P n))"

lemma told_refl: "told P s s"
  by (simp add: told_def)

lemma told_frame: "same notifications m \<Longrightarrow> keeps (told P s) m"
  using keeps_same [of notifications m "\<lambda>n. \<exists>new. n = notifications s @ new \<and> (\<forall>n\<in>set new. P n)"]
  by (simp add: told_def [abs_def])

lemma told_insert: "P row \<Longrightarrow> keeps (told P s) (insert_notification row)"
proof (rule keepsI)
  fix t
  assume "P row" "told P s t"
  then obtain new where "notifications t = notifications s @ new" "\<forall>n\<in>set new. P n" by (auto simp: told_def)
  with \<open>P row\<close> have "told P s (t\<lparr>notifications := notifications t @ [row]\<rparr>)"
    by (auto simp: told_def intro!: exI [of _ "new @ [row]"])
  then show "wp (insert_notification row) (\<lambda>_. told P s) t" by (simp add: insert_notification_def wp_insert_row)
qed

text \<open>The place of a notification: its channel, thread and conversation.\<close>

definition points_to :: "str option \<times> str option \<times> str option \<Rightarrow> notification_row \<Rightarrow> bool" where
  "points_to place n \<longleftrightarrow> (n_channel_id n, n_thread_id n, n_conversation_id n) = place"

lemma told_fold: "(\<And>x b. keeps I (f x b)) \<Longrightarrow> keeps I (fold_tx f xs b)"
  by (induction xs arbitrary: b) (simp_all add: keeps_ret keeps_bnd)

lemma told_notification:
  assumes "(ni_channel_id q, ni_thread_id q, ni_conversation_id q) = place"
  shows "keeps (told (points_to place) s) (create_notification_tx E x b q)"
  unfolding create_notification_tx_def thread_muted_def conversation_muted_def
  by (intro keeps_intros told_insert; (intro told_frame same_intros)?; use assms in \<open>simp add: points_to_def\<close>)

lemma told_mentions:
  assumes "(mi_channel_id q, mi_thread_id q, mi_conversation_id q) = place"
  shows "keeps (told (points_to place) s) (create_mention_notifications_tx E b q)"
proof -
  have "keeps (told (points_to place) s) (create_notification_tx E x (Some b) (mention_notification q))" for x
    by (rule told_notification) (simp add: mention_notification_def assms)
  then show ?thesis
    unfolding create_mention_notifications_tx_def mention_step_def insert_mention_def
    by (intro told_fold keeps_intros; assumption?; intro told_frame same_intros; simp)
qed

lemma told_others:
  assumes "(ni_channel_id q, ni_thread_id q, ni_conversation_id q) = place"
  shows "keeps (told (points_to place) s) (notify_others E b q xs)"
  unfolding notify_others_def by (intro keeps_intros told_notification [OF assms])

lemma told_replies: "keeps (told (points_to (Some (ri_channel_id q), Some (ri_thread_id q), None)) s) (create_thread_reply_notifications_tx E b q)"
  unfolding create_thread_reply_notifications_tx_def by (intro keeps_intros told_others) (simp add: reply_notification_def)

lemma told_members: "keeps (told (points_to (None, None, Some v)) s) (create_dm_notifications_tx E b v m i body)"
  unfolding create_dm_notifications_tx_def by (intro keeps_intros told_others) (simp add: dm_notification_def)

lemma told_thread: "keeps (told (points_to (Some c, Some t, None)) s) (thread_created E b t c sl ti body n)"
  unfolding thread_created_def
  by (intro keeps_intros told_mentions; (intro told_frame same_intros)?; simp)

lemma told_comment: "keeps (told (points_to (Some c, Some t, None)) s) (comment_created E b i c sl t ti x body n)"
  unfolding comment_created_def
  by (intro keeps_intros told_mentions told_replies [of "\<lparr>ri_thread_id = t, ri_channel_id = c, ri_comment_id = i, ri_index = x,
      ri_title = ti, ri_body = body\<rparr>", simplified]; (intro told_frame same_intros)?; simp)

lemma told_dm: "keeps (told (points_to (None, None, Some v)) s) (dm_created E b v m x body n)"
  unfolding dm_created_def
  by (intro keeps_intros told_mentions told_members; (intro told_frame same_intros)?; simp)

lemma told_mono_keeps:
  assumes "\<And>s. keeps (told P s) m" "\<And>n. P n \<Longrightarrow> Q n"
  shows "keeps (told Q s) m"
proof (rule keepsI)
  fix t
  assume *: "told Q s t"
  have "told Q s u" if "told P t u" for u
    using * that assms(2) unfolding told_def by fastforce
  with keepsD [OF assms(1) told_refl] show "wp m (\<lambda>_. told Q s) t" by (rule wp_mono)
qed

lemma told_create_thread:
  "keeps (told (\<lambda>n. n_channel_id n = Some c \<and> n_thread_id n \<noteq> None \<and> n_conversation_id n = None) s) (create_thread E b c ti)"
proof -
  have "keeps (told (\<lambda>n. n_channel_id n = Some c \<and> n_thread_id n \<noteq> None \<and> n_conversation_id n = None) s)
      (thread_created E b t c sl title body n)" for t sl title body n
    by (rule told_mono_keeps [OF told_thread]) (simp add: points_to_def)
  then show ?thesis
    unfolding create_thread_def insert_thread_def Let_def
    by (intro keeps_intros; assumption?; intro told_frame same_intros; simp)
qed

lemma told_send_dm:
  "keeps (told (\<lambda>n. n_channel_id n = None \<and> n_thread_id n = None \<and> n_conversation_id n = Some v) s) (send_dm E b v body)"
proof -
  have "keeps (told (points_to (None, None, Some v)) s) (send_dm E b v body)" for s
    unfolding send_dm_def insert_message_def Let_def
    by (intro keeps_intros told_dm; intro told_frame same_intros; simp)
  then show ?thesis by (rule told_mono_keeps) (simp add: points_to_def)
qed

lemma wp_told: "keeps (told P s) m \<Longrightarrow> wp m (\<lambda>_. told P s) s"
  using keepsD [of "told P s" m s] told_refl by blast

lemma told_add_comment:
  "wp (add_comment E b th body) (\<lambda>_. told (\<lambda>n. n_thread_id n = Some th \<and> n_conversation_id n = None
     \<and> (\<exists>t\<in>set (threads s). t_id t = th \<and> n_channel_id n = Some (t_channel_id t))) s) s"
proof -
  let ?P = "\<lambda>n. n_thread_id n = Some th \<and> n_conversation_id n = None
     \<and> (\<exists>t\<in>set (threads s). t_id t = th \<and> n_channel_id n = Some (t_channel_id t))"
  have rest: "keeps (told ?P s) (comment_created E b i (t_channel_id row) sl th ti x bo n)"
    if "fetch_last (\<lambda>t. t_id t = th \<and> t_deleted_at t = None) (threads s) = Some row" for row i sl ti x bo n
    by (rule told_mono_keeps [OF told_comment]) (use fetch_last_SomeD [OF that] in \<open>auto simp: points_to_def\<close>)
  show ?thesis
  proof (cases "fetch_last (\<lambda>t. t_id t = th \<and> t_deleted_at t = None) (threads s)")
    case None
    then show ?thesis by (simp add: add_comment_def wp_simps)
  next
    case (Some row)
    show ?thesis
      unfolding add_comment_def Let_def wp_thn [of "ensure _ _"] wp_ensure wp_bnd [of "gets _"] wp_gets Some option.case
      by (intro impI wp_told keeps_intros rest [OF Some];
          (unfold insert_comment_row_def insert_comment_def)?; intro told_frame same_intros; simp)
  qed
qed

text \<open>
  The place of a notification about a posted message: the channel of the thread, with the
  thread, or the conversation.
\<close>

fun posted_in :: "message_request \<Rightarrow> notification_row \<Rightarrow> world \<Rightarrow> bool" where
  "posted_in (CreateThread a c x) n s \<longleftrightarrow> n_channel_id n = Some c \<and> n_thread_id n \<noteq> None \<and> n_conversation_id n = None"
| "posted_in (AddComment a th x) n s \<longleftrightarrow> n_thread_id n = Some th \<and> n_conversation_id n = None
     \<and> (\<exists>t\<in>set (threads s). t_id t = th \<and> n_channel_id n = Some (t_channel_id t))"
| "posted_in (SendDm a v x) n s \<longleftrightarrow> n_channel_id n = None \<and> n_thread_id n = None \<and> n_conversation_id n = Some v"
| "posted_in _ n s \<longleftrightarrow> False"

lemma posting_told:
  assumes "handle E (MessageRequest q) s = Inr ((), u)"
    and "q = CreateThread a c x \<or> q = AddComment a c x \<or> q = SendDm a c x"
  shows "notifies a s u \<and> told (\<lambda>n. posted_in q n s) s u"
  using assms(2)
proof (elim disjE)
  assume "q = CreateThread a c x"
  then show ?thesis
    using wpD [OF keepsD [OF keeps_unit_of [OF notifies_posts(1)] notifies_refl]]
      wpD [OF wp_told [OF keeps_unit_of [OF told_create_thread]]] assms(1) by simp
next
  assume "q = AddComment a c x"
  then show ?thesis
    using wpD [OF keepsD [OF notifies_posts(2) notifies_refl]] wpD [OF told_add_comment] assms(1) by simp
next
  assume "q = SendDm a c x"
  then show ?thesis
    using wpD [OF keepsD [OF notifies_posts(3) notifies_refl]] wpD [OF wp_told [OF told_send_dm]] assms(1) by simp
qed


section \<open>What a comment does to the counters\<close>

definition other_members :: "str \<Rightarrow> str \<Rightarrow> world \<Rightarrow> str list" where
  "other_members channel_id actor_id s = map m_account_id
     (filter (\<lambda>m. m_channel_id m = channel_id \<and> m_account_id m \<noteq> actor_id) (channel_members s))"

definition new_read :: "str \<Rightarrow> int \<Rightarrow> str \<Rightarrow> thread_read_row" where
  "new_read th count a = \<lparr>r_thread_id = th, r_account_id = a, r_last_read = 0, r_unread = count,
     r_marked_unread_at = None, r_muted_until = None, r_saved_at = None\<rparr>"

text \<open>Every reader in \<open>as\<close> has one more unread comment, or a fresh row with all of them.\<close>

definition bumped :: "str \<Rightarrow> int \<Rightarrow> str list \<Rightarrow> thread_read_row list \<Rightarrow> thread_read_row list" where
  "bumped th count as R =
     map (\<lambda>r. if r_thread_id r = th \<and> r_account_id r \<in> set as then r\<lparr>r_unread := r_unread r + 1\<rparr> else r) R
     @ map (new_read th count) (filter (\<lambda>a. \<not> list_ex (\<lambda>r. r_thread_id r = th \<and> r_account_id r = a) R) as)"

lemma same_read_new: "same_read (new_read th count a) = (\<lambda>r. r_thread_id r = th \<and> r_account_id r = a)"
  by (auto simp: same_read_def new_read_def)

lemma new_read_simps [simp]:
  "r_thread_id (new_read th count a) = th" "r_account_id (new_read th count a) = a"
  by (simp_all add: new_read_def)

lemma list_ex_bump:
  assumes "\<And>r. r_thread_id (f r) = r_thread_id r \<and> r_account_id (f r) = r_account_id r"
  shows "list_ex (\<lambda>r. r_thread_id r = th \<and> r_account_id r = b) (map f R)
    = list_ex (\<lambda>r. r_thread_id r = th \<and> r_account_id r = b) R"
  by (induction R) (simp_all add: assms)

lemma bumped_Cons:
  assumes "a \<notin> set as"
  shows "bumped th count (a # as) R = bumped th count as
     (sql_upsert (same_read (new_read th count a)) (\<lambda>r. r\<lparr>r_unread := r_unread r + 1\<rparr>) (new_read th count a) R)"
proof (cases "list_ex (\<lambda>r. r_thread_id r = th \<and> r_account_id r = a) R")
  case True
  then show ?thesis using assms
    by (auto simp: bumped_def same_read_new sql_upsert_def sql_update_def list_ex_bump)
next
  case False
  then have up: "sql_upsert (same_read (new_read th count a)) f (new_read th count a) R = R @ [new_read th count a]" for f
    by (simp add: same_read_new sql_upsert_def)
  have old: "map (\<lambda>r. if r_thread_id r = th \<and> r_account_id r \<in> set (a # as) then f r else r) R
      = map (\<lambda>r. if r_thread_id r = th \<and> r_account_id r \<in> set as then f r else r) R" for f
    using False by (auto simp: list_ex_iff)
  have new: "filter (\<lambda>b. \<not> list_ex (\<lambda>r. r_thread_id r = th \<and> r_account_id r = b) (R @ [new_read th count a])) as
      = filter (\<lambda>b. \<not> list_ex (\<lambda>r. r_thread_id r = th \<and> r_account_id r = b) R) as"
    using assms by (intro filter_cong) auto
  show ?thesis
    unfolding bumped_def up new old using False assms by simp
qed

lemma each_bumped:
  assumes "distinct as"
  shows "wp (each (\<lambda>a. upsert_thread_read (\<lambda>r. r\<lparr>r_unread := r_unread r + 1\<rparr>) (new_read th count a)) as)
    (\<lambda>_ t. t = s\<lparr>thread_reads := bumped th count as (thread_reads s)\<rparr>) s"
  using assms
proof (induction as arbitrary: s)
  case Nil
  show ?case by (simp add: wp_ret bumped_def)
next
  case (Cons a as)
  then have "a \<notin> set as" "distinct as" by simp_all
  then show ?case
    using Cons.IH [of "s\<lparr>thread_reads := sql_upsert (same_read (new_read th count a))
      (\<lambda>r. r\<lparr>r_unread := r_unread r + 1\<rparr>) (new_read th count a) (thread_reads s)\<rparr>"]
    by (simp add: wp_thn upsert_thread_read_def wp_upsert_row bumped_Cons)
qed

lemma each_map: "each (\<lambda>x. f (g x)) xs = each f (map g xs)"
  by (induction xs) simp_all

lemma distinct_seats:
  "distinct (map mkey M) \<Longrightarrow> distinct (map m_account_id (filter (\<lambda>m. m_channel_id m = c \<and> m_account_id m \<noteq> a) M))"
  by (induction M) (auto simp: mkey_def image_iff)

lemma bump_unread_bumped:
  assumes "distinct (map mkey (channel_members s))"
  shows "wp (bump_unread th c a count)
    (\<lambda>_ t. t = s\<lparr>thread_reads := bumped th count (other_members c a s) (thread_reads s)\<rparr>) s"
proof -
  have "distinct (other_members c a s)"
    using assms unfolding other_members_def by (rule distinct_seats)
  from each_bumped [OF this] show ?thesis
    by (simp add: bump_unread_def wp_bnd wp_gets each_map [symmetric, where g = m_account_id] other_members_def new_read_def)
qed


text \<open>
  The new comment stands behind all others, its thread counts it, its author has read it, and
  it is unread for every other member of the channel.
\<close>

definition new_comment :: "str \<Rightarrow> thread_row \<Rightarrow> str \<Rightarrow> str \<Rightarrow> str \<Rightarrow> comment_row" where
  "new_comment cid row a body n = \<lparr>co_id = cid, co_thread_id = t_id row, co_channel_id = t_channel_id row,
     co_author_id = a, co_index = t_last_comment_index row + 1, co_body = body, co_created_at = n,
     co_updated_at = n, co_edited_at = None, co_deleted_at = None\<rparr>"

definition read_up_to :: "str \<Rightarrow> str \<Rightarrow> int \<Rightarrow> thread_read_row list \<Rightarrow> thread_read_row list" where
  "read_up_to th a i = sql_upsert (\<lambda>r. r_thread_id r = th \<and> r_account_id r = a)
     (\<lambda>r. r\<lparr>r_last_read := i, r_unread := 0\<rparr>)
     \<lparr>r_thread_id = th, r_account_id = a, r_last_read = i, r_unread = 0,
      r_marked_unread_at = None, r_muted_until = None, r_saved_at = None\<rparr>"

lemma same_read_eq: "same_read \<lparr>r_thread_id = th, r_account_id = a, r_last_read = i, r_unread = u,
     r_marked_unread_at = x, r_muted_until = y, r_saved_at = z\<rparr> = (\<lambda>r. r_thread_id r = th \<and> r_account_id r = a)"
  by (auto simp: same_read_def)

definition posted :: "str \<Rightarrow> str \<Rightarrow> world \<Rightarrow> thread_row \<Rightarrow> str \<Rightarrow> str \<Rightarrow> world \<Rightarrow> bool" where
  "posted a body s row cid n u \<longleftrightarrow>
     comments u = comments s @ [new_comment cid row a body n]
     \<and> threads u = sql_update (\<lambda>t. t_id t = t_id row) (\<lambda>t. t\<lparr>t_comment_count := t_comment_count t + 1,
          t_last_comment_index := t_last_comment_index row + 1, t_last_activity_at := n, t_updated_at := n\<rparr>) (threads s)
     \<and> thread_reads u = bumped (t_id row) (t_comment_count row + 1) (other_members (t_channel_id row) a s)
          (read_up_to (t_id row) a (t_last_comment_index row + 1) (thread_reads s))"

lemma posted_frame:
  assumes "same (\<lambda>u. (comments u, threads u, thread_reads u)) m" "posted a body s row cid n u"
  shows "wp m (\<lambda>_. posted a body s row cid n) u"
  by (rule wp_same [OF assms(1)]) (use assms(2) in \<open>simp add: posted_def\<close>)

lemma comment_writes_posted:
  assumes "counts_ok s" "channel_members s' = channel_members s" "comments s' = comments s"
    "threads s' = threads s" "thread_reads s' = thread_reads s"
    and rest: "same (\<lambda>u. (comments u, threads u, thread_reads u)) rest"
  shows "wp (comment_writes cid (t_id row) (t_channel_id row) a (t_last_comment_index row + 1)
     (t_comment_count row + 1) body n rest) (\<lambda>_. posted a body s row cid n) s'"
proof -
  have bump: "wp (bump_unread (t_id row) (t_channel_id row) a (t_comment_count row + 1)) (\<lambda>_. wp rest (\<lambda>_. posted a body s row cid n)) u"
    if "channel_members u = channel_members s" "comments u = comments s @ [new_comment cid row a body n]"
      "threads u = sql_update (\<lambda>t. t_id t = t_id row) (\<lambda>t. t\<lparr>t_comment_count := t_comment_count t + 1,
          t_last_comment_index := t_last_comment_index row + 1, t_last_activity_at := n, t_updated_at := n\<rparr>) (threads s)"
      "thread_reads u = read_up_to (t_id row) a (t_last_comment_index row + 1) (thread_reads s)" for u
  proof -
    have "distinct (map mkey (channel_members u))" using that(1) counts_okD(2) [OF assms(1)] by simp
    from bump_unread_bumped [OF this] show ?thesis
      by (rule wp_mono) (rule posted_frame [OF rest], use that in \<open>simp add: posted_def other_members_def\<close>)
  qed
  show ?thesis
    unfolding comment_writes_def insert_comment_row_def insert_comment_def touch_thread_def upsert_read_at_def
      upsert_thread_read_def wp_thn wp_insert_row wp_modify wp_upsert_row
    by (intro impI, rule bump)
      (simp_all add: assms(2-5) new_comment_def read_up_to_def same_read_eq)
qed

lemma wp_stamp:
  "(\<And>n i k. wp (f n i) Q (s\<lparr>tick := k\<rparr>)) \<Longrightarrow> wp (bnd (now E) (\<lambda>n. bnd (fresh_id E) (f n))) Q s"
  by (simp add: wp_bnd wp_now wp_fresh_id)

lemma comment_posted:
  assumes "counts_ok s"
  shows "wp (add_comment E a th b) (\<lambda>_ u. \<exists>row cid n. live_thread th row s
     \<and> posted a (trim (sanitize_stored_text b)) s row cid n u) s"
proof -
  let ?body = "trim (sanitize_stored_text b)"
  have writes: "wp (thn (insert_comment_row cid th (t_channel_id row) a (t_last_comment_index row + 1) ?body n)
      (thn (touch_thread th (t_last_comment_index row + 1) n) (thn (upsert_read_at th a (t_last_comment_index row + 1))
      (thn (bump_unread th (t_channel_id row) a (t_comment_count row + 1)) rest))))
      (\<lambda>_ u. \<exists>row cid n. live_thread th row s \<and> posted a ?body s row cid n u) (s\<lparr>tick := k\<rparr>)"
    if "fetch_last (\<lambda>t. t_id t = th \<and> t_deleted_at t = None) (threads s) = Some row"
      "same (\<lambda>u. (comments u, threads u, thread_reads u)) rest" for row cid n k and rest :: "unit wtx"
  proof -
    have row: "live_thread th row s" "t_id row = th"
      using fetch_last_SomeD [OF that(1)] by (simp_all add: live_thread_def)
    have "wp (comment_writes cid (t_id row) (t_channel_id row) a (t_last_comment_index row + 1)
        (t_comment_count row + 1) ?body n rest) (\<lambda>_. posted a ?body s row cid n) (s\<lparr>tick := k\<rparr>)"
      by (rule comment_writes_posted [OF assms]) (simp_all add: that(2))
    then show ?thesis
      unfolding comment_writes_def row(2) by (rule wp_mono) (use row(1) in blast)
  qed
  have rest: "same (\<lambda>u. (comments u, threads u, thread_reads u)) (bnd (fetch_one threads p) (\<lambda>t.
      bnd (channel_slug_of c) (\<lambda>sl. comment_created E a i c sl th (t_title t) x ?body n)))" for p c i x n
    by (intro same_intros) (simp add: blind_def)
  show ?thesis
    unfolding add_comment_def Let_def wp_thn [of "ensure _ _"] wp_ensure wp_bnd [of "gets _"] wp_gets wp_case_option wp_fail
      wp_thn [of "ensure_can_view_channel _ _"]
    by (intro impI conjI allI TrueI wp_same [OF same_ensure_can_view_channel [of "\<lambda>s. s"]])
      (hypsubst, rule wp_stamp, rule writes [OF _ rest], assumption)
qed


section \<open>Reading\<close>

text \<open>
  The reader's row of the thread after it is marked read: the position is the last index and
  nothing is unread; a reader without a row gets one, and every other row stays as it is.
\<close>

definition caught_up :: "str \<Rightarrow> str \<Rightarrow> int \<Rightarrow> thread_read_row list \<Rightarrow> thread_read_row list" where
  "caught_up th a i R =
     (if list_ex (\<lambda>r. r_thread_id r = th \<and> r_account_id r = a) R
      then map (\<lambda>r. if r_thread_id r = th \<and> r_account_id r = a
             then r\<lparr>r_last_read := i, r_unread := 0, r_marked_unread_at := None\<rparr> else r) R
      else R @ [\<lparr>r_thread_id = th, r_account_id = a, r_last_read = i, r_unread = 0, r_marked_unread_at = None,
             r_muted_until = None, r_saved_at = None\<rparr>])"

text \<open>
  Marking a thread read leaves the reader nothing unread in it; of the notifications and
  mentions exactly the reader's own about this thread, from a place they can see, get a
  reading time (the first one stays), and nobody else's change.
\<close>

definition read_by :: "str \<Rightarrow> str \<Rightarrow> world \<Rightarrow> world \<Rightarrow> bool" where
  "read_by a th s u \<longleftrightarrow> (\<exists>t\<in>set (threads s). \<exists>n. t_id t = th
     \<and> thread_reads u = caught_up th a (t_last_comment_index t) (thread_reads s)
     \<and> notifications u = map (\<lambda>r. if n_account_id r = a \<and> n_thread_id r = Some th
            \<and> visible_source a (n_channel_id r) (n_conversation_id r) s
          then r\<lparr>n_read_at := (if n_read_at r = None then Some n else n_read_at r)\<rparr> else r) (notifications s)
     \<and> mentions u = map (\<lambda>r. if mn_target_id r = a \<and> mn_thread_id r = Some th
            \<and> visible_source a (mn_channel_id r) (mn_conversation_id r) s
          then r\<lparr>mn_read_at := (if mn_read_at r = None then Some n else mn_read_at r)\<rparr> else r) (mentions s))"

lemma coalesce_if: "coalesce x n = (if x = None then Some n else x)"
  by (cases x) (simp_all add: coalesce_def)

lemma thread_read_by: "wp (mark_thread_read E a th) (\<lambda>_. read_by a th s) s"
proof -
  let ?r = "\<lambda>i. \<lparr>r_thread_id = th, r_account_id = a, r_last_read = i, r_unread = 0, r_marked_unread_at = None,
     r_muted_until = None, r_saved_at = None\<rparr>"
  have final: "read_by a th s (s\<lparr>thread_reads := sql_upsert (\<lambda>r. r_thread_id r = th \<and> r_account_id r = a)
        (\<lambda>r. r\<lparr>r_last_read := t_last_comment_index t, r_unread := 0, r_marked_unread_at := None\<rparr>)
        (?r (t_last_comment_index t)) (thread_reads s),
      tick := k,
      notifications := sql_update (\<lambda>r. n_account_id r = a \<and> n_thread_id r = Some th \<and>
        visible_source (n_account_id r) (n_channel_id r) (n_conversation_id r) s) (\<lambda>r. r\<lparr>n_read_at := coalesce (n_read_at r) n\<rparr>) (notifications s),
      mentions := sql_update (\<lambda>r. mn_target_id r = a \<and> mn_thread_id r = Some th \<and>
        visible_source (mn_target_id r) (mn_channel_id r) (mn_conversation_id r) s) (\<lambda>r. r\<lparr>mn_read_at := coalesce (mn_read_at r) n\<rparr>) (mentions s)\<rparr>)"
    if t: "fetch_last (\<lambda>t. t_id t = th) (threads s) = Some t" for t k n
    unfolding read_by_def
    by (intro bexI [of _ t] exI [of _ n])
      (use fetch_last_SomeD [OF t] in \<open>auto simp: caught_up_def sql_upsert_def sql_update_def coalesce_if\<close>)
  have vis: "visible_source x c v (s\<lparr>thread_reads := R, tick := k\<rparr>) = visible_source x c v s"
    "visible_source x c v (s\<lparr>thread_reads := R, tick := k, notifications := N\<rparr>) = visible_source x c v s" for x c v R k N
    by (rule visible_source_seats, simp add: seats_def)+
  show ?thesis
    unfolding mark_thread_read_def Let_def wp_bnd [of "load_thread_meta_tx _"] wp_thn [of "ensure_can_view_channel _ _"]
      wp_bnd [of "fetch_one _ _"] wp_fetch_one
    by (intro wp_same [OF same_load_thread_meta_tx [of "\<lambda>s. s"]] wp_same [OF same_ensure_can_view_channel [of "\<lambda>s. s"]])
      (simp add: wp_simps upsert_thread_read_def mark_notifications_read_def mark_mentions_read_def same_read_eq final vis)
qed


section \<open>Deleting\<close>

text \<open>A deleted message is found by no search and under no label.\<close>

definition forgotten :: "source_kind \<Rightarrow> str \<Rightarrow> world \<Rightarrow> bool" where
  "forgotten k i u \<longleftrightarrow> (\<forall>d\<in>set (search_documents u). \<not> doc_of k i d)
     \<and> (\<forall>e\<in>set (search_index u). \<not> entry_of k i e) \<and> (\<forall>l\<in>set (labels u). \<not> label_of k i l)"

lemma no_doc_no_entry:
  assumes "search_sync docs idx" "\<forall>d\<in>set docs. \<not> doc_of k i d" "e \<in> set idx"
  shows "\<not> entry_of k i e"
proof -
  obtain d where "d \<in> set docs" "doc_key d = entry_key e" by (rule search_sync_entry_doc [OF assms(1,3)])
  then show ?thesis using assms(2) by (auto simp: doc_key_def entry_key_def doc_of_def entry_of_def)
qed

lemma delete_search_forgets:
  assumes "search_ok s"
  shows "wp (delete_search_index_tx k i) (\<lambda>_ u. (\<forall>d\<in>set (search_documents u). \<not> doc_of k i d)
     \<and> (\<forall>e\<in>set (search_index u). \<not> entry_of k i e)) s"
proof (cases "fetch_last (doc_of k i) (search_documents s)")
  case None
  then have "\<forall>d\<in>set (search_documents s). \<not> doc_of k i d" by (simp add: fetch_last_None)
  with None show ?thesis by (simp add: delete_search_index_tx_def find_rowid_def wp_simps)
next
  case (Some d)
  have d: "d \<in> set (search_documents s)" "doc_of k i d" using fetch_last_SomeD [OF Some] by simp_all
  have sync: "search_sync (search_documents s) (search_index s)" using assms by (simp add: search_ok_def)
  have docs: "\<not> doc_of k i x" if "x \<in> set (search_documents s)" "sd_rowid x \<noteq> sd_rowid d" for x
  proof
    assume "doc_of k i x"
    then have "x = d" using sync d that(1) unfolding search_sync_def doc_of_def
      by (metis (mono_tags, lifting) distinct_map_inj)
    then show False using that(2) by simp
  qed
  then have "\<forall>e\<in>set (sql_delete (\<lambda>e. si_rowid e = sd_rowid d) (search_index s)). \<not> entry_of k i e"
    using no_doc_no_entry [OF search_sync_delete [OF sync, of "sd_rowid d"]] by simp
  with docs Some show ?thesis
    by (simp add: delete_search_index_tx_def find_rowid_def delete_entry_def wp_simps)
qed

lemma forgotten_frame:
  "same (\<lambda>s. (search_documents s, search_index s, labels s)) m \<Longrightarrow> keeps (forgotten k i) m"
  using keeps_same [of "\<lambda>s. (search_documents s, search_index s, labels s)" m "\<lambda>(D, I, L).
     (\<forall>d\<in>set D. \<not> doc_of k i d) \<and> (\<forall>e\<in>set I. \<not> entry_of k i e) \<and> (\<forall>l\<in>set L. \<not> label_of k i l)"]
  by (simp add: forgotten_def [abs_def])

lemma message_forgotten:
  assumes "search_ok s" "same (\<lambda>s. (search_documents s, search_index s, labels s)) rest"
  shows "wp (thn (delete_search_index_tx k i) (thn (delete_labels_tx k i) rest)) (\<lambda>_. forgotten k i) s"
proof -
  have "wp (thn (delete_labels_tx k i) rest) (\<lambda>_. forgotten k i) u"
    if "(\<forall>d\<in>set (search_documents u). \<not> doc_of k i d) \<and> (\<forall>e\<in>set (search_index u). \<not> entry_of k i e)" for u
    unfolding wp_thn delete_labels_tx_def wp_modify
    by (rule keepsD [OF forgotten_frame [OF assms(2)]]) (use that in \<open>simp add: forgotten_def\<close>)
  then show ?thesis unfolding wp_thn [of "delete_search_index_tx _ _"] by (rule wp_mono [OF delete_search_forgets [OF assms(1)]])
qed

lemma wp_comment_row:
  assumes "\<And>m c. live_comment t i c s \<Longrightarrow> mm_id m = co_id c \<Longrightarrow> Q m s"
  shows "wp (load_comment_meta_tx t i) Q s"
  using assms by (auto simp: wp_load_comment_meta_tx live_comment_def dest!: fetch_last_SomeD)

definition deleted_comment :: "str \<Rightarrow> world \<Rightarrow> bool" where
  "deleted_comment i u \<longleftrightarrow> forgotten SComment i u \<and> (\<forall>c\<in>set (comments u). co_id c = i \<longrightarrow> co_deleted_at c \<noteq> None)"

lemma comment_deleted:
  assumes "search_ok s"
  shows "wp (soft_delete_comment E a th i) (\<lambda>_ u. \<exists>c. live_comment th i c s \<and> deleted_comment (co_id c) u) s"
proof -
  have rest: "wp (thn (delete_search_index_tx SComment j) (thn (delete_labels_tx SComment j)
      (thn (insert_audit E au ac tg md) (log_event E ch tt cv k pl)))) (\<lambda>_. deleted_comment j) u"
    if "search_ok u" "\<forall>c\<in>set (comments u). co_id c = j \<longrightarrow> co_deleted_at c \<noteq> None" for j au ac tg md ch tt cv k pl u
    unfolding deleted_comment_def
  proof (rule wp_conj)
    show "wp (thn (delete_search_index_tx SComment j) (thn (delete_labels_tx SComment j)
      (thn (insert_audit E au ac tg md) (log_event E ch tt cv k pl)))) (\<lambda>_. forgotten SComment j) u"
      by (rule message_forgotten [OF that(1)]) (intro same_intros; simp)
    show "wp (thn (delete_search_index_tx SComment j) (thn (delete_labels_tx SComment j)
      (thn (insert_audit E au ac tg md) (log_event E ch tt cv k pl)))) (\<lambda>_ u. \<forall>c\<in>set (comments u). co_id c = j \<longrightarrow> co_deleted_at c \<noteq> None) u"
      using that(2) by (intro wp_same [of comments] same_intros) simp_all
  qed
  have main: "wp (thn (mark_comment_deleted j n) (thn (uncount_comment th n) (thn (uncount_unread th x)
      (thn (delete_search_index_tx SComment j) (thn (delete_labels_tx SComment j)
      (thn (insert_audit E au ac tg md) (log_event E ch tt cv k pl)))))))
      (\<lambda>_ u. \<exists>c. live_comment th i c s \<and> deleted_comment (co_id c) u) (s\<lparr>tick := q\<rparr>)"
    if "live_comment th i c s" "j = co_id c" for c j n x au ac tg md ch tt cv k pl q
    unfolding mark_comment_deleted_def uncount_comment_def uncount_unread_def wp_thn [of "modify _"] wp_modify
    by (rule wp_mono [OF rest [of _ j]]) (use assms that in \<open>auto simp: search_ok_def in_sql_update\<close>)
  show ?thesis
    unfolding soft_delete_comment_def wp_bnd [of "load_thread_meta_tx _"] wp_thn [of "ensure_can_view_channel _ _"]
      wp_bnd [of "load_comment_meta_tx _ _"] wp_bnd [of "ensure_own_or_moderator _ _ _ _"] wp_bnd [of "now _"] wp_now
    by (intro wp_same [OF same_load_thread_meta_tx [of "\<lambda>s. s"]] wp_same [OF same_ensure_can_view_channel [of "\<lambda>s. s"]],
        hypsubst, rule wp_comment_row, intro wp_same [OF same_ensure_own_or_moderator [of "\<lambda>s. s"]], hypsubst)
      (rule main, assumption)
qed

end
