(* ===== verification/Scenario.thy ===== *)
theory Scenario
  imports Delivery
begin

text \<open>
  A concrete run of the service, from the empty database: the
  owner's bootstrap, an invited member, a thread with a comment, a direct conversation, a
  private channel and a reaction. The witnesses of the properties are taken from its states.
\<close>

section \<open>Running a program\<close>

text \<open>The equations that evaluate a handler at a concrete state.\<close>

lemma run_bnd: "bnd m f s = (case m s of Inl e \<Rightarrow> Inl e | Inr p \<Rightarrow> f (fst p) (snd p))"
  by (simp add: bnd_def split: sum.splits prod.splits)
lemma run_thn: "thn m k s = (case m s of Inl e \<Rightarrow> Inl e | Inr p \<Rightarrow> k (snd p))"
  by (simp add: thn_def bnd_def split: sum.splits prod.splits)
lemma run_ret: "ret a s = Inr (a, s)"
  by (simp add: ret_def)

lemma run_fail: "fail e s = Inl e"
  by (simp add: fail_def)

lemma run_gets: "gets f s = Inr (f s, s)"
  by (simp add: gets_def)

lemma run_modify: "modify f s = Inr ((), f s)"
  by (simp add: modify_def)

lemma run_ensure: "ensure b e s = (if b then Inr ((), s) else Inl (Msg e))"
  by (simp add: ensure_def run_ret run_fail)

lemma run_some_or: "some_or x e s = (case x of None \<Rightarrow> Inl e | Some a \<Rightarrow> Inr (a, s))"
  by (simp add: some_or_def run_ret run_fail split: option.splits)

lemma run_draw: "draw f s = Inr (f (tick s), s\<lparr>tick := tick s + 1\<rparr>)"
  by (simp add: draw_def)

lemma run_lift_res: "lift_res r s = (case r of Inl e \<Rightarrow> Inl e | Inr a \<Rightarrow> Inr (a, s))"
  by (simp add: lift_res_def run_ret run_fail split: sum.splits)

lemma run_constraint: "constraint tbl c s = (if c s then Inr ((), s) else Inl (Constraint tbl))"
  by (simp add: constraint_def)

lemma run_unit_of: "unit_of m s = (case m s of Inl e \<Rightarrow> Inl e | Inr p \<Rightarrow> Inr ((), snd p))"
  by (simp add: unit_of_def run_bnd run_ret split: sum.splits)

lemma run_insert: "insert_row tbl get upd ok r s = (if ok s then Inr ((), upd (\<lambda>_. get s @ [r]) s) else Inl (Constraint tbl))"
  by (simp add: insert_row_def)

lemma run_upsert: "upsert_row tbl get upd p f ok r s = (if list_ex p (get s) \<or> ok s then Inr ((), upd (\<lambda>_. sql_upsert p f r (get s)) s) else Inl (Constraint tbl))"
  by (simp add: upsert_row_def)

lemma run_take_bytes: "take_bytes (numeral k) [] = None"
  "take_bytes (numeral k) (c # s) = (if utf8_width c \<le> numeral k then map_option (Cons c) (take_bytes (numeral k - utf8_width c) s) else None)"
  by (simp_all add: numeral_eq_Suc)
lemmas run_basic = run_ret run_fail run_gets run_modify run_ensure run_some_or run_draw run_lift_res run_constraint run_unit_of run_insert run_upsert

lemmas run_defs = run_bnd run_thn run_basic handler_synonyms insert_defs Let_def run_take_bytes
  take_bytes.simps(1)  unit_of_def demo_env_def scan_labels.simps scan_mentions.simps
  show_nat.simps is_ascii_digit_def  lit_def utf8_width_def utf8_len_def show_int_def run_tx_def
  sql_update_def sql_delete_def sql_upsert_def sql_count_def fetch_last_def fetch_limit1_def
  is_ascii_upper_def is_ascii_lower_def is_ascii_alphabetic_def is_ascii_alphanumeric_def
  to_ascii_lower_def is_control_def is_whitespace_def ascii_lowercase_def trim_matches_def
  trim_def trim_start_char_def name_step_def name_loop_def normalize_name_key_def
  normalize_username_def normalize_slug_def pending_account_username_def short_id_def dm_key_def
  sanitize_stored_char_def sanitize_stored_text_def sanitize_line_char_def
  sanitize_single_line_text_def is_label_char_def normalize_label_def is_label_boundary_def
  push_new_def parse_labels_def is_mention_char_def is_mention_boundary_def ok_of_def
  parse_mentions_def thread_label_text_def fts_query_def validate_emoji_def page_limit_def
  can_admin_def role_as_str_def role_from_db_def jopt_def now_def fresh_id_def invite_code_def
  code_hash_def timestamp_after_hours_def ttl_timestamp_def fetch_one_def then_now_def
  has_account_def has_channel_def has_thread_def has_conversation_def fk_opt_def source_fks_def
  insert_account_def insert_key_def insert_invite_def insert_bootstrap_def insert_link_token_def
  insert_channel_def same_member_def insert_channel_member_def upsert_channel_member_def
  insert_thread_def insert_comment_def same_read_def upsert_thread_read_def
  insert_conversation_def same_conversation_member_def insert_conversation_member_def
  upsert_conversation_member_def insert_message_def insert_mention_def insert_notification_def
  same_reaction_def upsert_reaction_def insert_label_def insert_search_document_def
  insert_search_index_def same_saved_def upsert_saved_def insert_event_def log_event_def
  insert_audit_def account_from_row_def load_account_tx_def same_username_def
  load_account_by_username_tx_def require_admin_tx_def ensure_can_manage_account_def
  active_owner_def ensure_not_last_active_owner_def ensure_owner_keeps_active_key_def
  username_reservation_owner_tx_def ensure_username_reservable_tx_def coalesce_def
  set_current_username_reservation_tx_def channel_meta_of_def thread_meta_of_def
  active_thread_name_exists_def named_msg_def ensure_no_channel_named_def
  ensure_channel_name_available_def ensure_thread_name_available_def slug_arg_def
  no_channel_msg_def load_channel_by_slug_tx_def load_channel_by_slug_any_tx_def
  load_channel_by_id_tx_def load_thread_meta_tx_def not_activated_def is_channel_member_def
  ensure_can_view_channel_def ensure_can_manage_channel_def ensure_can_modify_thread_def
  load_comment_meta_tx_def is_conversation_member_def ensure_participant_def
  load_dm_message_meta_tx_def set_reaction_tx_def next_rowid_def doc_of_def entry_of_def
  find_rowid_def search_entry_def search_document_def delete_entry_def
  upsert_search_index_tx_def delete_search_index_tx_def label_of_def label_entry_def
  delete_labels_tx_def replace_labels_tx_def delete_thread_labels_tx_def is_active_account_def
  account_can_view_source_tx_def visible_source_def muted_at_def thread_muted_def
  conversation_muted_def create_notification_tx_def mention_notification_def active_named_def
  mention_step_def create_mention_notifications_tx_def index_prefix_def thread_participants_def
  reply_notification_def notify_others_def create_thread_reply_notifications_tx_def
  active_conversation_members_def dm_notification_def create_dm_notifications_tx_def
  hash_slug_def thread_created_def comment_created_def dm_created_def channel_slug_of_def
  upsert_read_at_def create_thread_def insert_comment_row_def bump_unread_def touch_thread_def
  add_comment_def reindex_thread_def log_thread_edited_def ensure_renamable_def edit_thread_def
  rename_thread_def flag_action_def set_flag_def update_thread_flag_def delete_thread_def
  set_thread_archived_def set_thread_pinned_def undeleted_comments_def
  upsert_thread_read_state_def set_thread_muted_def set_thread_saved_def
  mark_notifications_read_def mark_mentions_read_def mark_thread_read_def comments_beyond_def
  mark_thread_unread_def ensure_own_or_moderator_def update_comment_body_def
  mark_comment_deleted_def uncount_comment_def uncount_unread_def soft_delete_comment_def
  set_saved_message_tx_def saved_action_def set_comment_saved_def conversation_member_def
  open_conversation_def open_dm_def send_dm_def update_dm_body_def soft_delete_dm_def
  set_dm_message_saved_def update_conversation_member_def set_conversation_muted_def
  set_conversation_saved_def participant_last_index_def mark_conversation_read_def
  messages_beyond_def mark_conversation_unread_def create_channel_def join_channel_def
  remove_member_def update_channel_member_def add_channel_member_def remove_channel_member_def
  general_def leave_channel_def update_channel_def log_channel_def rename_channel_def
  set_channel_topic_def set_channel_archived_def create_invite_with_options_def
  create_invite_def revoke_invite_def update_account_def log_user_def set_user_disabled_def
  set_user_role_def self_or_named_def ensure_manages_def rename_user_def set_display_name_def
  clean_label_def create_device_link_token_def add_ssh_key_def keys_with_owner_def
  matches_key_def find_active_key_def update_key_def label_ssh_key_def revoke_ssh_key_def
  active_accounts_def create_bootstrap_token_def lookup_active_account_for_key_def
  link_invalid_def links_with_owner_def use_link_def redeem_device_link_token_for_key_def
  reservation_taken_def pending_username_for_def open_bootstrap_def open_invite_def
  accept_token_def use_bootstrap_def use_invite_def pending_account_row_def
  redeem_token_for_key_def redeem_ssh_login_token_for_key_def no_login_token_def
  ensure_accepted_token_def activate_account_def general_channel_def onboard_def
  complete_onboarding_def accept_invite_def reload_account_def notification_visible_def
  mark_notification_read_def archive_notifications_def reaction_event_def react_to_thread_def
  react_to_comment_def react_to_dm_def upsert_presence_def close_presence_def
  record_presence_def touch_account_def touch_account_session_def presence_ttl_def
  whole_seconds_def session_counts_def load_active_presence_sessions_def on_db_def
  remove_account_session_def add_connection_def begin_account_session_def
  end_account_session_inner_def end_presence_session_def later_session_def
  latest_open_presence_session_def end_account_session_def

section \<open>A run\<close>

definition booted :: world where
  "booted = empty_world\<lparr>bootstrap_tokens := [\<lparr>b_id = [2001], b_code_hash = [3000],
     b_created_at = [1002], b_used_by = None, b_used_at = None\<rparr>], tick := 3\<rparr>"

definition registered :: world where
  "registered = booted\<lparr>accounts := [\<lparr>a_id = [2005], a_username = [112, 101, 110,
     100, 105, 110, 103, 45, 2005], a_display_name = [112, 101, 110, 100, 105, 110, 103, 45,
     2005], a_role = Owner, a_settings = lit ''{}'', a_created_at = [1004], a_updated_at =
     [1004], a_last_seen_at = None, a_activated_at = None, a_disabled_at = None,
     a_pending_username = Some (lit ''ann'')\<rparr>], ssh_keys := [\<lparr>k_id = [2006],
     k_account_id = [2005], k_fingerprint = [70], k_public_key = [71], k_label = Some (lit
     ''default''), k_created_at = [1004], k_last_used_at = Some [1004], k_revoked_at =
     None\<rparr>], bootstrap_tokens := [\<lparr>b_id = [2001], b_code_hash = [3000],
     b_created_at = [1002], b_used_by = Some [2005], b_used_at = Some [1004]\<rparr>], tick :=
     7\<rparr>"

definition founded :: world where
  "founded = registered\<lparr>accounts := [\<lparr>a_id = [2005], a_username = lit ''ann'',
     a_display_name = lit ''ann'', a_role = Owner, a_settings = lit ''{}'', a_created_at =
     [1004], a_updated_at = [1007], a_last_seen_at = Some [1007], a_activated_at = Some [1007],
     a_disabled_at = None, a_pending_username = None\<rparr>], reservations :=
     [\<lparr>rs_normalized = lit ''ann'', rs_username = lit ''ann'', rs_account_id = [2005],
     rs_first_used_at = [1007], rs_last_used_at = None, rs_current = True\<rparr>], ssh_keys :=
     [\<lparr>k_id = [2006], k_account_id = [2005], k_fingerprint = [70], k_public_key = [71],
     k_label = Some (lit ''default''), k_created_at = [1004], k_last_used_at = Some [1007],
     k_revoked_at = None\<rparr>], channels := [\<lparr>c_id = [2008], c_slug = lit ''general'',
     c_name = lit ''general'', c_visibility = Public, c_topic = Some (lit
     ''General discussion''), c_created_by = [2005], c_created_at = [1007], c_updated_at =
     [1007], c_archived_at = None, c_archived_by = None\<rparr>], channel_members :=
     [\<lparr>m_channel_id = [2008], m_account_id = [2005], m_role = lit ''owner'', m_joined_at
     = [1007]\<rparr>], event_log := [\<lparr>ev_seq = 1, ev_created_at = [1009], ev_channel_id
     = None, ev_thread_id = None, ev_conversation_id = None, ev_kind = lit ''channel.created'',
     ev_payload = [(''channel_id'', JStr [2008]), (''slug'', JStr (lit ''general''))]\<rparr>,
     \<lparr>ev_seq = 2, ev_created_at = [1010], ev_channel_id = None, ev_thread_id = None,
     ev_conversation_id = None, ev_kind = lit ''account.bootstrapped'', ev_payload =
     [(''account_id'', JStr [2005]), (''username'', JStr (lit ''ann''))]\<rparr>], event_seq :=
     2, tick := 11\<rparr>"

definition invited :: world where
  "invited = founded\<lparr>invites := [\<lparr>i_id = [2013], i_code_hash = [3011], i_role =
     Member, i_created_by = [2005], i_accepted_by = None, i_created_at = [1012], i_expires_at =
     None, i_revoked_at = None, i_accepted_at = None\<rparr>], event_log := event_log founded @
     [\<lparr>ev_seq = 3, ev_created_at = [1016], ev_channel_id = None, ev_thread_id = None,
     ev_conversation_id = None, ev_kind = lit ''invite.created'', ev_payload = [(''actor_id'',
     JStr [2005]), (''role'', JStr (lit ''member''))]\<rparr>], audit_log := [\<lparr>au_id =
     [2014], au_actor_id = Some [2005], au_action = lit ''invite.created'', au_target = None,
     au_metadata = [(''role'', JStr (lit ''member'')), (''expires_at'', JNull)], au_created_at =
     [1015]\<rparr>], event_seq := 3, tick := 17\<rparr>"

definition accepted :: world where
  "accepted = invited\<lparr>accounts := accounts invited @ [\<lparr>a_id = [2019], a_username =
     [112, 101, 110, 100, 105, 110, 103, 45, 2019], a_display_name = [112, 101, 110, 100, 105,
     110, 103, 45, 2019], a_role = Member, a_settings = lit ''{}'', a_created_at = [1018],
     a_updated_at = [1018], a_last_seen_at = None, a_activated_at = None, a_disabled_at = None,
     a_pending_username = Some (lit ''bob'')\<rparr>], ssh_keys := ssh_keys invited @
     [\<lparr>k_id = [2020], k_account_id = [2019], k_fingerprint = [80], k_public_key = [81],
     k_label = Some (lit ''default''), k_created_at = [1018], k_last_used_at = Some [1018],
     k_revoked_at = None\<rparr>], invites := [\<lparr>i_id = [2013], i_code_hash = [3011],
     i_role = Member, i_created_by = [2005], i_accepted_by = Some [2019], i_created_at = [1012],
     i_expires_at = None, i_revoked_at = None, i_accepted_at = Some [1018]\<rparr>], tick :=
     21\<rparr>"

definition team :: world where
  "team = accepted\<lparr>accounts := [\<lparr>a_id = [2005], a_username = lit ''ann'',
     a_display_name = lit ''ann'', a_role = Owner, a_settings = lit ''{}'', a_created_at =
     [1004], a_updated_at = [1007], a_last_seen_at = Some [1007], a_activated_at = Some [1007],
     a_disabled_at = None, a_pending_username = None\<rparr>, \<lparr>a_id = [2019], a_username
     = lit ''bob'', a_display_name = lit ''bob'', a_role = Member, a_settings = lit ''{}'',
     a_created_at = [1018], a_updated_at = [1021], a_last_seen_at = Some [1021], a_activated_at
     = Some [1021], a_disabled_at = None, a_pending_username = None\<rparr>], reservations :=
     reservations accepted @ [\<lparr>rs_normalized = lit ''bob'', rs_username = lit ''bob'',
     rs_account_id = [2019], rs_first_used_at = [1021], rs_last_used_at = None, rs_current =
     True\<rparr>], ssh_keys := [\<lparr>k_id = [2006], k_account_id = [2005], k_fingerprint =
     [70], k_public_key = [71], k_label = Some (lit ''default''), k_created_at = [1004],
     k_last_used_at = Some [1007], k_revoked_at = None\<rparr>, \<lparr>k_id = [2020],
     k_account_id = [2019], k_fingerprint = [80], k_public_key = [81], k_label = Some (lit
     ''default''), k_created_at = [1018], k_last_used_at = Some [1021], k_revoked_at =
     None\<rparr>], channel_members := channel_members accepted @ [\<lparr>m_channel_id =
     [2008], m_account_id = [2019], m_role = lit ''member'', m_joined_at = [1021]\<rparr>],
     event_log := event_log accepted @ [\<lparr>ev_seq = 4, ev_created_at = [1022],
     ev_channel_id = None, ev_thread_id = None, ev_conversation_id = None, ev_kind = lit
     ''invite.accepted'', ev_payload = [(''account_id'', JStr [2019]), (''username'', JStr (lit
     ''bob''))]\<rparr>], event_seq := 4, tick := 23\<rparr>"

definition planned :: world where
  "planned = team\<lparr>threads := [\<lparr>t_id = [2024], t_channel_id = [2008], t_creator_id
     = [2005], t_title = lit ''Plan'', t_name_key = Some (lit ''plan''), t_body = [],
     t_comment_count = 0, t_last_comment_index = 0, t_last_activity_at = [1023], t_created_at =
     [1023], t_updated_at = [1023], t_edited_at = None, t_archived_at = None, t_pinned_at =
     None, t_deleted_at = None\<rparr>], thread_reads := [\<lparr>r_thread_id = [2024],
     r_account_id = [2005], r_last_read = 0, r_unread = 0, r_marked_unread_at = None,
     r_muted_until = None, r_saved_at = None\<rparr>], event_log := event_log team @
     [\<lparr>ev_seq = 5, ev_created_at = [1025], ev_channel_id = Some [2008], ev_thread_id =
     Some [2024], ev_conversation_id = None, ev_kind = lit ''thread.created'', ev_payload =
     [(''thread_id'', JStr [2024]), (''channel_id'', JStr [2008]), (''title'', JStr (lit
     ''Plan''))]\<rparr>], search_documents := [\<lparr>sd_rowid = 1, sd_kind = SThread,
     sd_object_id = [2024], sd_channel_id = Some [2008], sd_thread_id = Some [2024],
     sd_conversation_id = None\<rparr>], search_index := [\<lparr>si_rowid = 1, si_kind =
     SThread, si_object_id = [2024], si_channel_id = Some [2008], si_thread_id = Some [2024],
     si_conversation_id = None, si_title = lit ''Plan'', si_body = [], si_context = lit
     ''#general''\<rparr>], event_seq := 5, tick := 26\<rparr>"

definition discussed :: world where
  "discussed = planned\<lparr>threads := [\<lparr>t_id = [2024], t_channel_id = [2008],
     t_creator_id = [2005], t_title = lit ''Plan'', t_name_key = Some (lit ''plan''), t_body =
     [], t_comment_count = 1, t_last_comment_index = 1, t_last_activity_at = [1026],
     t_created_at = [1023], t_updated_at = [1026], t_edited_at = None, t_archived_at = None,
     t_pinned_at = None, t_deleted_at = None\<rparr>], comments := [\<lparr>co_id = [2027],
     co_thread_id = [2024], co_channel_id = [2008], co_author_id = [2019], co_index = 1, co_body
     = lit ''@ann $ok'', co_created_at = [1026], co_updated_at = [1026], co_edited_at = None,
     co_deleted_at = None\<rparr>], thread_reads := [\<lparr>r_thread_id = [2024], r_account_id
     = [2005], r_last_read = 0, r_unread = 1, r_marked_unread_at = None, r_muted_until = None,
     r_saved_at = None\<rparr>, \<lparr>r_thread_id = [2024], r_account_id = [2019], r_last_read
     = 1, r_unread = 0, r_marked_unread_at = None, r_muted_until = None, r_saved_at =
     None\<rparr>], mentions := [\<lparr>mn_id = [2028], mn_target_id = [2005], mn_actor_id =
     [2019], mn_source_kind = SComment, mn_source_id = [2027], mn_channel_id = Some [2008],
     mn_thread_id = Some [2024], mn_conversation_id = None, mn_index = Some 1, mn_created_at =
     [1029], mn_read_at = None\<rparr>], notifications := [\<lparr>n_id = [2031], n_account_id =
     [2005], n_actor_id = Some [2019], n_kind = NMention, n_source_kind = Some SComment,
     n_source_id = Some [2027], n_channel_id = Some [2008], n_thread_id = Some [2024],
     n_conversation_id = None, n_title = lit ''Plan'', n_body = lit ''@ann $ok'', n_created_at =
     [1032], n_read_at = None, n_archived_at = None\<rparr>, \<lparr>n_id = [2034], n_account_id
     = [2005], n_actor_id = Some [2019], n_kind = NReply, n_source_kind = Some SComment,
     n_source_id = Some [2027], n_channel_id = Some [2008], n_thread_id = Some [2024],
     n_conversation_id = None, n_title = lit ''Plan'', n_body = lit ''#1: @ann $ok'',
     n_created_at = [1035], n_read_at = None, n_archived_at = None\<rparr>], event_log :=
     event_log planned @ [\<lparr>ev_seq = 6, ev_created_at = [1036], ev_channel_id = Some
     [2008], ev_thread_id = Some [2024], ev_conversation_id = None, ev_kind = lit
     ''comment.created'', ev_payload = [(''thread_id'', JStr [2024]), (''channel_id'', JStr
     [2008]), (''obj_index'', JInt 1)]\<rparr>], labels := [\<lparr>lb_tag = lit ''ok'',
     lb_source_kind = SComment, lb_source_id = [2027], lb_channel_id = Some [2008], lb_thread_id
     = Some [2024], lb_conversation_id = None, lb_index = Some 1, lb_created_at =
     [1026]\<rparr>], search_documents := search_documents planned @ [\<lparr>sd_rowid = 2,
     sd_kind = SComment, sd_object_id = [2027], sd_channel_id = Some [2008], sd_thread_id = Some
     [2024], sd_conversation_id = None\<rparr>], search_index := search_index planned @
     [\<lparr>si_rowid = 2, si_kind = SComment, si_object_id = [2027], si_channel_id = Some
     [2008], si_thread_id = Some [2024], si_conversation_id = None, si_title = lit ''Plan'',
     si_body = lit ''@ann $ok'', si_context = lit ''#general''\<rparr>], event_seq := 6, tick :=
     37\<rparr>"

definition opened :: world where
  "opened = discussed\<lparr>conversations := [\<lparr>v_id = [2038], v_dm_key = [2005, 58,
     2019], v_creator_id = [2019], v_last_index = 0, v_last_activity_at = [1037], v_created_at =
     [1037], v_archived_at = None\<rparr>], conversation_members := [\<lparr>vm_conversation_id
     = [2038], vm_account_id = [2019], vm_joined_at = [1037], vm_last_read = 0, vm_unread = 0,
     vm_muted_until = None, vm_saved_at = None\<rparr>, \<lparr>vm_conversation_id = [2038],
     vm_account_id = [2005], vm_joined_at = [1037], vm_last_read = 0, vm_unread = 0,
     vm_muted_until = None, vm_saved_at = None\<rparr>], event_log := event_log discussed @
     [\<lparr>ev_seq = 7, ev_created_at = [1039], ev_channel_id = None, ev_thread_id = None,
     ev_conversation_id = Some [2038], ev_kind = lit ''conversation.opened'', ev_payload =
     [(''conversation_id'', JStr [2038])]\<rparr>], event_seq := 7, tick := 40\<rparr>"

definition linked :: world where
  "linked = opened\<lparr>link_tokens := [\<lparr>l_id = [2043], l_account_id = [2019],
     l_code_hash = [3040], l_label = None, l_created_at = [1041], l_expires_at = [5042],
     l_used_at = None, l_used_by_key = None\<rparr>], audit_log := audit_log opened @
     [\<lparr>au_id = [2044], au_actor_id = Some [2019], au_action = lit
     ''device_link_token.created'', au_target = Some [2043], au_metadata = [(''username'', JStr
     (lit ''bob'')), (''expires_at'', JStr [5042])], au_created_at = [1045]\<rparr>], tick :=
     46\<rparr>"

definition messaged :: world where
  "messaged = linked\<lparr>conversations := [\<lparr>v_id = [2038], v_dm_key = [2005, 58,
     2019], v_creator_id = [2019], v_last_index = 1, v_last_activity_at = [1046], v_created_at =
     [1037], v_archived_at = None\<rparr>], conversation_members := [\<lparr>vm_conversation_id
     = [2038], vm_account_id = [2019], vm_joined_at = [1037], vm_last_read = 1, vm_unread = 0,
     vm_muted_until = None, vm_saved_at = None\<rparr>, \<lparr>vm_conversation_id = [2038],
     vm_account_id = [2005], vm_joined_at = [1037], vm_last_read = 0, vm_unread = 1,
     vm_muted_until = None, vm_saved_at = None\<rparr>], messages := [\<lparr>d_id = [2047],
     d_conversation_id = [2038], d_author_id = [2019], d_index = 1, d_body = lit ''yo'',
     d_created_at = [1046], d_updated_at = [1046], d_edited_at = None, d_deleted_at =
     None\<rparr>], notifications := notifications linked @ [\<lparr>n_id = [2049], n_account_id
     = [2005], n_actor_id = Some [2019], n_kind = NDm, n_source_kind = Some SDm, n_source_id =
     Some [2047], n_channel_id = None, n_thread_id = None, n_conversation_id = Some [2038],
     n_title = lit ''New DM'', n_body = lit ''#1: yo'', n_created_at = [1050], n_read_at = None,
     n_archived_at = None\<rparr>], event_log := event_log linked @ [\<lparr>ev_seq = 8,
     ev_created_at = [1051], ev_channel_id = None, ev_thread_id = None, ev_conversation_id =
     Some [2038], ev_kind = lit ''conversation.message_created'', ev_payload =
     [(''conversation_id'', JStr [2038]), (''obj_index'', JInt 1)]\<rparr>], search_documents :=
     search_documents linked @ [\<lparr>sd_rowid = 3, sd_kind = SDm, sd_object_id = [2047],
     sd_channel_id = None, sd_thread_id = None, sd_conversation_id = Some [2038]\<rparr>],
     search_index := search_index linked @ [\<lparr>si_rowid = 3, si_kind = SDm, si_object_id =
     [2047], si_channel_id = None, si_thread_id = None, si_conversation_id = Some [2038],
     si_title = lit ''DM'', si_body = lit ''yo'', si_context = lit ''DM''\<rparr>], event_seq :=
     8, tick := 52\<rparr>"

definition staffed :: world where
  "staffed = messaged\<lparr>channels := channels messaged @ [\<lparr>c_id = [2053], c_slug =
     lit ''ops'', c_name = lit ''ops'', c_visibility = Private, c_topic = None, c_created_by =
     [2005], c_created_at = [1052], c_updated_at = [1052], c_archived_at = None, c_archived_by =
     None\<rparr>], channel_members := channel_members messaged @ [\<lparr>m_channel_id =
     [2053], m_account_id = [2005], m_role = lit ''owner'', m_joined_at = [1052]\<rparr>],
     event_log := event_log messaged @ [\<lparr>ev_seq = 9, ev_created_at = [1054],
     ev_channel_id = Some [2053], ev_thread_id = None, ev_conversation_id = None, ev_kind = lit
     ''channel.created'', ev_payload = [(''channel_id'', JStr [2053]), (''slug'', JStr (lit
     ''ops'')), (''private'', JBool True)]\<rparr>], event_seq := 9, tick := 55\<rparr>"

definition liked :: world where
  "liked = staffed\<lparr>reactions := [\<lparr>x_id = [2055], x_source_kind = SComment,
     x_source_id = [2027], x_account_id = [2005], x_emoji = [128077], x_created_at =
     [1056]\<rparr>], event_log := event_log staffed @ [\<lparr>ev_seq = 10, ev_created_at =
     [1057], ev_channel_id = Some [2008], ev_thread_id = Some [2024], ev_conversation_id = None,
     ev_kind = lit ''reaction.added'', ev_payload = [(''source_kind'', JStr (lit ''comment'')),
     (''source_id'', JStr [2027])]\<rparr>], event_seq := 10, tick := 58\<rparr>"

lemmas world_norm = world.select_convs world.update_convs append.simps

lemmas booted_eq = booted_def [unfolded empty_world_def world_norm]
lemmas registered_eq = registered_def [unfolded booted_eq world_norm]
lemmas founded_eq = founded_def [unfolded registered_eq world_norm]
lemmas invited_eq = invited_def [unfolded founded_eq world_norm]
lemmas accepted_eq = accepted_def [unfolded invited_eq world_norm]
lemmas team_eq = team_def [unfolded accepted_eq world_norm]
lemmas planned_eq = planned_def [unfolded team_eq world_norm]
lemmas discussed_eq = discussed_def [unfolded planned_eq world_norm]
lemmas opened_eq = opened_def [unfolded discussed_eq world_norm]
lemmas linked_eq = linked_def [unfolded opened_eq world_norm]
lemmas messaged_eq = messaged_def [unfolded linked_eq world_norm]
lemmas staffed_eq = staffed_def [unfolded messaged_eq world_norm]
lemmas liked_eq = liked_def [unfolded staffed_eq world_norm]

lemma run_booted:
    "handle demo_env (AccountRequest CreateBootstrapToken) empty_world = Inr ((), booted)"
  by (simp only: empty_world_def booted_eq) (simp add: run_defs del: One_nat_def)

lemma run_registered:
    "handle demo_env (AccountRequest (RedeemToken (lit ''ann'') [3000] [70] [71])) booted = Inr ((), registered)"
  by (simp only: booted_eq registered_eq) (simp add: run_defs del: One_nat_def)

lemma run_founded:
    "handle demo_env (AccountRequest (CompleteOnboarding [2005] (lit ''ann''))) registered = Inr ((), founded)"
  by (simp only: registered_eq founded_eq) (simp add: run_defs del: One_nat_def)

lemma run_invited:
    "handle demo_env (AccountRequest (CreateInvite [2005] Member None)) founded = Inr ((), invited)"
  by (simp only: founded_eq invited_eq) (simp add: run_defs del: One_nat_def)

lemma run_accepted:
    "handle demo_env (AccountRequest (RedeemToken (lit ''Bob'') [3011] [80] [81])) invited = Inr ((), accepted)"
  by (simp only: invited_eq accepted_eq) (simp add: run_defs del: One_nat_def)

lemma run_team:
    "handle demo_env (AccountRequest (CompleteOnboarding [2019] (lit ''Bob''))) accepted = Inr ((), team)"
  by (simp only: accepted_eq team_eq) (simp add: run_defs del: One_nat_def)

lemma run_planned:
    "handle demo_env (MessageRequest (CreateThread [2005] [2008] (lit ''Plan''))) team = Inr ((), planned)"
  by (simp only: team_eq planned_eq) (simp add: run_defs del: One_nat_def)

lemma run_discussed:
    "handle demo_env (MessageRequest (AddComment [2019] [2024] (lit ''@ann $ok''))) planned = Inr ((), discussed)"
  by (simp only: planned_eq discussed_eq) (simp add: run_defs del: One_nat_def)

lemma run_opened:
    "handle demo_env (MessageRequest (OpenDm [2019] (lit ''ann''))) discussed = Inr ((), opened)"
  by (simp only: discussed_eq opened_eq) (simp add: run_defs del: One_nat_def)

lemma run_linked:
    "handle demo_env (AccountRequest (CreateDeviceLinkToken [2019] None)) opened = Inr ((), linked)"
  by (simp only: opened_eq linked_eq) (simp add: run_defs del: One_nat_def)

lemma run_messaged:
    "handle demo_env (MessageRequest (SendDm [2019] [2038] (lit ''yo''))) linked = Inr ((), messaged)"
  by (simp only: linked_eq messaged_eq) (simp add: run_defs del: One_nat_def)

lemma run_staffed:
    "handle demo_env (ChannelRequest (CreateChannel [2005] (lit ''Ops'') True)) messaged = Inr ((), staffed)"
  by (simp only: messaged_eq staffed_eq) (simp add: run_defs del: One_nat_def)

lemma run_liked:
    "handle demo_env (MessageRequest (ReactToComment [2005] [2024] 1 [128077] False)) staffed = Inr ((), liked)"
  by (simp only: staffed_eq liked_eq) (simp add: run_defs del: One_nat_def)

lemma demo_env_ok: "env_ok demo_env"
  by (simp add: env_ok_def demo_env_def ascii.lower_case_axioms plain_id_def)

lemma reachable_booted: "reachable demo_env booted"
  by (rule reachable.advance [OF reachable.start step.commit [OF run_booted]])

lemma reachable_registered: "reachable demo_env registered"
  by (rule reachable.advance [OF reachable_booted step.commit [OF run_registered]])

lemma reachable_founded: "reachable demo_env founded"
  by (rule reachable.advance [OF reachable_registered step.commit [OF run_founded]])

lemma reachable_invited: "reachable demo_env invited"
  by (rule reachable.advance [OF reachable_founded step.commit [OF run_invited]])

lemma reachable_accepted: "reachable demo_env accepted"
  by (rule reachable.advance [OF reachable_invited step.commit [OF run_accepted]])

lemma reachable_team: "reachable demo_env team"
  by (rule reachable.advance [OF reachable_accepted step.commit [OF run_team]])

lemma reachable_planned: "reachable demo_env planned"
  by (rule reachable.advance [OF reachable_team step.commit [OF run_planned]])

lemma reachable_discussed: "reachable demo_env discussed"
  by (rule reachable.advance [OF reachable_planned step.commit [OF run_discussed]])

lemma reachable_opened: "reachable demo_env opened"
  by (rule reachable.advance [OF reachable_discussed step.commit [OF run_opened]])

lemma reachable_linked: "reachable demo_env linked"
  by (rule reachable.advance [OF reachable_opened step.commit [OF run_linked]])

lemma reachable_messaged: "reachable demo_env messaged"
  by (rule reachable.advance [OF reachable_linked step.commit [OF run_messaged]])

lemma reachable_staffed: "reachable demo_env staffed"
  by (rule reachable.advance [OF reachable_messaged step.commit [OF run_staffed]])

lemma reachable_liked: "reachable demo_env liked"
  by (rule reachable.advance [OF reachable_staffed step.commit [OF run_liked]])

end
