(* ===== verification/Paging.thy ===== *)
theory Paging
  imports Notices
begin

text \<open>
  Lists that are read page by page: \<open>Page\<close> and \<open>PageRequest\<close> of \<open>features/feeds/model.rs\<close>, the
  cursors of \<open>features/shared/utils.rs\<close>, and the way every list of the service is cut into pages:
  the rows after the cursor in the order of the list, at most one more than the limit, of which
  the last only says that there is more.

  The locale \<open>keyset\<close> is what a list must provide for this to work: a sort key, and a cursor
  made of the last item that selects exactly the rows whose key is larger. In it, following the
  cursors from the first page on shows every row once, in order.
\<close>

section \<open>Descending order\<close>

datatype 'a desc = Desc (undesc: 'a)

instantiation desc :: (linorder) linorder
begin

definition less_eq_desc :: "'a desc \<Rightarrow> 'a desc \<Rightarrow> bool" where
  "less_eq_desc x y \<longleftrightarrow> undesc y \<le> undesc x"

definition less_desc :: "'a desc \<Rightarrow> 'a desc \<Rightarrow> bool" where
  "less_desc x y \<longleftrightarrow> undesc y < undesc x"

instance
  by standard (auto simp: less_eq_desc_def less_desc_def desc.expand)

end

lemma desc_simps [simp]: "Desc a \<le> Desc b \<longleftrightarrow> b \<le> a" "Desc a < Desc b \<longleftrightarrow> b < a"
  by (simp_all add: less_eq_desc_def less_desc_def)

section \<open>Requests, pages and cursors\<close>

record page_request =
  pr_limit :: int
  pr_cursor :: "str option"

definition first_page :: "int \<Rightarrow> page_request" where
  "first_page limit = \<lparr>pr_limit = limit, pr_cursor = None\<rparr>"

record 'a page =
  pg_items :: "'a list"
  pg_next :: "str option"

definition has_more :: "'a page \<Rightarrow> bool" where
  "has_more p \<longleftrightarrow> pg_next p \<noteq> None"

text \<open>
  A cursor is a list of strings written as JSON and URL-safe base64. Both encodings belong to
  other crates: \<open>codec\<close> is their composition, \<open>cc_decode\<close> failing where either does, and
  \<open>codec_ok\<close> the round trip they document.
\<close>

record codec =
  cc_encode :: "str list \<Rightarrow> str"
  cc_decode :: "str \<Rightarrow> str list option"

definition codec_ok :: "codec \<Rightarrow> bool" where
  "codec_ok C \<longleftrightarrow> (\<forall>ps. trim (cc_encode C ps) = cc_encode C ps \<and> cc_decode C (cc_encode C ps) = Some ps)"

definition encode_cursor :: "codec \<Rightarrow> str list \<Rightarrow> str" where
  "encode_cursor C parts = cc_encode C parts"

definition decode_cursor :: "codec \<Rightarrow> str option \<Rightarrow> nat \<Rightarrow> err + str list option" where
  "decode_cursor C cursor expected =
     (case cursor of None \<Rightarrow> Inr None
      | Some c \<Rightarrow> (case cc_decode C (trim c) of
          None \<Rightarrow> Inl (Msg (lit ''invalid pagination cursor''))
        | Some parts \<Rightarrow>
            if length parts = expected then Inr (Some parts)
            else Inl (Msg (lit ''invalid pagination cursor for this list''))))"

lemma decode_cursor_None [simp]: "decode_cursor C None n = Inr None"
  by (simp add: decode_cursor_def)

lemma decode_encode_cursor:
  "codec_ok C \<Longrightarrow> length ps = n \<Longrightarrow> decode_cursor C (Some (encode_cursor C ps)) n = Inr (Some ps)"
  by (simp add: decode_cursor_def encode_cursor_def codec_ok_def)

section \<open>Cutting a page\<close>

text \<open>
  \<open>SELECT ... WHERE <after the cursor> ORDER BY <key> LIMIT ?\<close>, where the source binds the
  limit plus one.
\<close>

definition sql_page :: "('r \<Rightarrow> 'k::linorder) \<Rightarrow> (str list \<Rightarrow> 'r \<Rightarrow> bool) \<Rightarrow> str list option \<Rightarrow> int \<Rightarrow> 'r list \<Rightarrow> 'r list" where
  "sql_page key after cursor limit rows =
     take (nat (limit + 1)) (sort_key key (filter (\<lambda>r. case cursor of None \<Rightarrow> True | Some c \<Rightarrow> after c r) rows))"

text \<open>
  The loop \<open>for (idx, row) in rows.into_iter().enumerate()\<close>, which stops at index \<open>limit\<close> and
  makes the cursor of the last item collected.
\<close>

fun page_loop :: "('i \<Rightarrow> str) \<Rightarrow> nat \<Rightarrow> nat \<Rightarrow> 'i list \<Rightarrow> 'i list \<Rightarrow> 'i page" where
  "page_loop cur limit idx items [] = \<lparr>pg_items = items, pg_next = None\<rparr>"
| "page_loop cur limit idx items (row # rows) =
     (if idx = limit then \<lparr>pg_items = items, pg_next = Some (cur (last items))\<rparr>
      else page_loop cur limit (Suc idx) (items @ [row]) rows)"

text \<open>The other way the source has it: collect all rows, and drop the last if there are too many.\<close>

definition pop_page :: "('i \<Rightarrow> str) \<Rightarrow> nat \<Rightarrow> 'i list \<Rightarrow> 'i page" where
  "pop_page cur limit items =
     (if limit < length items
      then \<lparr>pg_items = butlast items, pg_next = Some (cur (last (butlast items)))\<rparr>
      else \<lparr>pg_items = items, pg_next = None\<rparr>)"

lemma page_loop_items:
  assumes "length items = idx" "idx \<le> limit"
  shows "page_loop cur limit idx items rows =
    (if idx + length rows \<le> limit then \<lparr>pg_items = items @ rows, pg_next = None\<rparr>
     else \<lparr>pg_items = items @ take (limit - idx) rows,
           pg_next = Some (cur (last (items @ take (limit - idx) rows)))\<rparr>)"
  using assms
proof (induction cur limit idx items rows rule: page_loop.induct)
  case (2 cur limit idx items row rows)
  then show ?case
    by (cases "idx = limit") (auto simp: take_Cons' Suc_diff_le)
qed simp

lemma page_loop_eq:
  "page_loop cur limit 0 [] rows =
    (if length rows \<le> limit then \<lparr>pg_items = rows, pg_next = None\<rparr>
     else \<lparr>pg_items = take limit rows, pg_next = Some (cur (last (take limit rows)))\<rparr>)"
  by (simp add: page_loop_items)

text \<open>On what the query returns, the two ways give the same page.\<close>

lemma pop_page_loop:
  "length rows \<le> Suc limit \<Longrightarrow> pop_page cur limit rows = page_loop cur limit 0 [] rows"
  by (auto simp: pop_page_def page_loop_eq butlast_conv_take le_Suc_eq not_le)

section \<open>Keyset lists\<close>

text \<open>
  \<open>pages\<close> is one list read from the rows of a query: \<open>item\<close> makes the shown item of a row and
  \<open>parts\<close> the cursor of an item.
\<close>

definition pages ::
    "codec \<Rightarrow> ('r \<Rightarrow> 'k::linorder) \<Rightarrow> (str list \<Rightarrow> 'r \<Rightarrow> bool) \<Rightarrow> nat \<Rightarrow> ('r \<Rightarrow> 'i) \<Rightarrow> ('i \<Rightarrow> str list) \<Rightarrow> int
      \<Rightarrow> 'r list \<Rightarrow> page_request \<Rightarrow> err + 'i page" where
  "pages C key after n item parts mx rows request =
     (let limit = page_limit (pr_limit request) mx
      in case decode_cursor C (pr_cursor request) n of Inl e \<Rightarrow> Inl e
         | Inr cursor \<Rightarrow>
             Inr (page_loop (\<lambda>i. encode_cursor C (parts i)) (nat limit) 0 []
                   (map item (sql_page key after cursor limit rows))))"

text \<open>
  A reader who follows the cursors: the pages of one list, appended as the interface does it.
  The first argument bounds the number of pages.
\<close>

fun walk :: "(page_request \<Rightarrow> err + 'i page) \<Rightarrow> int \<Rightarrow> nat \<Rightarrow> str option \<Rightarrow> 'i list \<Rightarrow> (err + 'i list) option" where
  "walk fetch limit 0 cursor shown = None"
| "walk fetch limit (Suc n) cursor shown =
     (case fetch \<lparr>pr_limit = limit, pr_cursor = cursor\<rparr> of Inl e \<Rightarrow> Some (Inl e)
      | Inr p \<Rightarrow> (case pg_next p of
          None \<Rightarrow> Some (Inr (shown @ pg_items p))
        | Some c \<Rightarrow> walk fetch limit n (Some c) (shown @ pg_items p)))"

lemma page_limit_bounds: "1 \<le> mx \<Longrightarrow> 1 \<le> page_limit l mx \<and> page_limit l mx \<le> mx"
  by (auto simp: page_limit_def)

lemma page_size:
  assumes "pages C key after n item parts mx rows request = Inr p" "1 \<le> mx"
  shows "int (length (pg_items p)) \<le> page_limit (pr_limit request) mx"
  using assms page_limit_bounds [OF assms(2), of "pr_limit request"]
  by (auto simp: pages_def Let_def page_loop_eq min_def split: sum.splits if_splits)

lemma pages_subset:
  assumes "pages C key after n item parts mx rows request = Inr p"
  shows "set (pg_items p) \<subseteq> item ` set rows"
proof -
  have "set (sql_page key after c l rows) \<subseteq> set rows" for c l
    by (auto simp: sql_page_def dest!: in_set_takeD)
  moreover have "set (take m (map item xs)) \<subseteq> item ` set xs" for m xs
    by (auto dest: in_set_takeD)
  ultimately show ?thesis
    using assms by (fastforce simp: pages_def Let_def page_loop_eq split: sum.splits if_splits)
qed

locale keyset =
  fixes key :: "'r \<Rightarrow> 'k::linorder" and after :: "str list \<Rightarrow> 'r \<Rightarrow> bool"
    and n :: nat and item :: "'r \<Rightarrow> 'i" and parts :: "'i \<Rightarrow> str list" and fits :: "'r \<Rightarrow> bool"
  assumes after_parts: "fits r \<Longrightarrow> fits q \<Longrightarrow> after (parts (item r)) q \<longleftrightarrow> key r < key q"
    and parts_length: "length (parts i) = n"
begin

text \<open>What is left of a sorted list after the cursor of an element.\<close>

lemma rest_after:
  assumes "distinct (map key rows)" "list_all fits rows"
    and "sort_key key rows = xs @ r # ys"
  shows "sort_key key (filter (after (parts (item r))) rows) = ys"
proof -
  have s: "sorted (map key (xs @ r # ys))" "distinct (map key (xs @ r # ys))"
    and sub: "set (xs @ r # ys) = set rows"
    using assms(1) assms(3)[symmetric] by (simp_all add: distinct_map)
  have f: "\<forall>q\<in>set (xs @ r # ys). fits q"
    using sub assms(2) by (simp only: list_all_iff)
  have "filter (after (parts (item r))) (xs @ r # ys) = filter (\<lambda>q. key r < key q) (xs @ r # ys)"
    using f by (intro filter_cong refl after_parts) auto
  also have "\<dots> = ys"
  proof -
    have "\<forall>q\<in>set xs. \<not> key r < key q" using s by (auto simp: sorted_append)
    moreover have "\<forall>q\<in>set ys. key r < key q"
      using s by (auto simp: sorted_append order_less_le image_iff)
    ultimately show ?thesis by simp
  qed
  finally show ?thesis by (simp only: assms(3) flip: filter_sort)
qed

text \<open>From the cursor of the last row shown, the walk shows the rest.\<close>

lemma walk_rest:
  assumes C: "codec_ok C" and l: "1 \<le> mx" and d: "distinct (map key rows)" "list_all fits rows"
    and s: "sort_key key rows = xs @ ys"
    and c: "cursor = (if xs = [] then None else Some (encode_cursor C (parts (item (last xs)))))"
    and m: "length ys < m"
  shows "walk (pages C key after n item parts mx rows) limit m cursor (map item xs) = Some (Inr (map item (xs @ ys)))"
  using s c m
proof (induction m arbitrary: xs ys cursor)
  case (Suc m)
  define L where "L = nat (page_limit limit mx)"
  have L: "1 \<le> L" "nat (page_limit limit mx + 1) = Suc L"
    using page_limit_bounds [OF l, of limit] by (auto simp: L_def)
  obtain w where w: "decode_cursor C cursor n = Inr w"
    and q: "sql_page key after w (page_limit limit mx) rows = take (Suc L) ys"
  proof (cases "xs = []")
    case True
    then show ?thesis using Suc.prems L that [of None] by (simp add: sql_page_def)
  next
    case False
    then have "sort_key key rows = butlast xs @ last xs # ys"
      using Suc.prems(1) by simp
    from rest_after [OF d this] show ?thesis
      using False Suc.prems(2) L that [of "Some (parts (item (last xs)))"]
      by (simp add: sql_page_def decode_encode_cursor [OF C parts_length])
  qed
  let ?page = "page_loop (\<lambda>i. encode_cursor C (parts i)) L 0 [] (map item (take (Suc L) ys))"
  have p: "pages C key after n item parts mx rows \<lparr>pr_limit = limit, pr_cursor = cursor\<rparr> = Inr ?page"
    using w q by (simp add: pages_def Let_def flip: L_def)
  show ?case
  proof (cases "length ys \<le> L")
    case True
    then show ?thesis by (simp add: p page_loop_eq)
  next
    case False
    let ?zs = "take L ys"
    have z: "?zs \<noteq> []" using False L by auto
    then have "pg_next ?page = Some (encode_cursor C (parts (item (last (xs @ ?zs)))))"
        "map item xs @ pg_items ?page = map item (xs @ ?zs)"
      using False by (simp_all add: page_loop_eq take_map last_map min_def)
    moreover have "walk (pages C key after n item parts mx rows) limit m
        (Some (encode_cursor C (parts (item (last (xs @ ?zs)))))) (map item (xs @ ?zs))
      = Some (Inr (map item ((xs @ ?zs) @ drop L ys)))"
      using Suc.prems False L z by (intro Suc.IH) auto
    ultimately show ?thesis by (simp add: p)
  qed
qed simp

lemma walk_all:
  assumes "codec_ok C" "1 \<le> mx" "distinct (map key rows)" "list_all fits rows"
  shows "walk (pages C key after n item parts mx rows) limit (Suc (length rows)) None [] =
    Some (Inr (map item (sort_key key rows)))"
  using walk_rest [OF assms, of "[]" "sort_key key rows"] by (simp del: walk.simps)

end

end
