(* ===== verification/Keys.thy ===== *)
theory Keys
  imports Reachable
begin

text \<open>
  The primary keys of the tables: in every state the service reaches, no two rows of a table
  have the same key. The statements check it when they insert; here it becomes an invariant
  that the joins of the list queries rest on.
\<close>

section \<open>The invariant\<close>

definition label_key :: "label_row \<Rightarrow> str \<times> source_kind \<times> str" where
  "label_key l = (lb_tag l, lb_source_kind l, lb_source_id l)"

definition saved_key :: "saved_row \<Rightarrow> str \<times> source_kind \<times> str" where
  "saved_key r = (s_account_id r, s_source_kind r, s_source_id r)"

definition member_key :: "channel_member_row \<Rightarrow> str \<times> str" where
  "member_key m = (m_channel_id m, m_account_id m)"

definition participant_key :: "conversation_member_row \<Rightarrow> str \<times> str" where
  "participant_key m = (vm_conversation_id m, vm_account_id m)"

definition read_key :: "thread_read_row \<Rightarrow> str \<times> str" where
  "read_key r = (r_thread_id r, r_account_id r)"

definition ids_view :: "world \<Rightarrow> str list list" where
  "ids_view s = [map a_id (accounts s), map k_id (ssh_keys s), map i_id (invites s), map c_id (channels s),
     map t_id (threads s), map co_id (comments s), map v_id (conversations s), map d_id (messages s),
     map mn_id (mentions s), map n_id (notifications s), map au_id (audit_log s)]"

definition pairs_view :: "world \<Rightarrow> (str \<times> str) list list" where
  "pairs_view s = [map member_key (channel_members s), map participant_key (conversation_members s),
     map read_key (thread_reads s)]"

definition sources_view :: "world \<Rightarrow> (str \<times> source_kind \<times> str) list list" where
  "sources_view s = [map label_key (labels s), map saved_key (saved_messages s)]"

definition keys_ok :: "world \<Rightarrow> bool" where
  "keys_ok s \<longleftrightarrow> list_all distinct (ids_view s) \<and> list_all distinct (pairs_view s) \<and> list_all distinct (sources_view s)"

abbreviation key_view :: "world \<Rightarrow> str list list \<times> (str \<times> str) list list \<times> (str \<times> source_kind \<times> str) list list" where
  "key_view \<equiv> \<lambda>s. (ids_view s, pairs_view s, sources_view s)"

lemmas view_defs = ids_view_def pairs_view_def sources_view_def
lemmas row_key_defs = label_key_def saved_key_def member_key_def participant_key_def read_key_def

lemma keys_same: "same key_view m \<Longrightarrow> keeps keys_ok m"
  unfolding keys_ok_def
  by (drule keeps_same [where J = "\<lambda>(a, b, c). list_all distinct a \<and> list_all distinct b \<and> list_all distinct c"]) simp

section \<open>Statements\<close>

lemma list_ex_key: "list_ex (\<lambda>q. f q = k) R \<longleftrightarrow> k \<in> f ` set R"
  by (auto simp: list_ex_iff)

lemma key_matches:
  "same_member r = (\<lambda>q. member_key q = member_key r)" "same_read u = (\<lambda>q. read_key q = read_key u)"
  "same_conversation_member v = (\<lambda>q. participant_key q = participant_key v)" "same_saved w = (\<lambda>q. saved_key q = saved_key w)"
  by (auto simp: row_key_defs same_member_def same_read_def same_conversation_member_def same_saved_def)

lemma keys_inserts:
  "keeps keys_ok (insert_account ar)" "keeps keys_ok (insert_key kr)" "keeps keys_ok (insert_invite ir)"
  "keeps keys_ok (insert_channel cr)" "keeps keys_ok (insert_thread tr)" "keeps keys_ok (insert_comment cm)"
  "keeps keys_ok (insert_conversation vr)" "keeps keys_ok (insert_message dr)" "keeps keys_ok (insert_mention mr)"
  "keeps keys_ok (insert_notification nr)"
  unfolding insert_defs by (auto simp: keeps_def wp_insert_row keys_ok_def view_defs)

lemma keys_insert_label: "keeps keys_ok (insert_label lr)"
  unfolding insert_defs by (auto simp: keeps_def wp_insert_row keys_ok_def view_defs label_key_def)

lemma keys_insert_pairs:
  "keeps keys_ok (insert_channel_member mr)" "keeps keys_ok (insert_conversation_member vr)"
  unfolding insert_defs by (auto simp: keeps_def wp_insert_row keys_ok_def view_defs key_matches list_ex_key)

lemma saved_key_stamp [simp]: "saved_key (r\<lparr>s_saved_at := x\<rparr>) = saved_key r"
  by (simp add: saved_key_def)

lemma keys_upserts:
  "keeps keys_ok (upsert_channel_member mr)" "keeps keys_ok (upsert_conversation_member vr)"
  "(\<And>r. read_key (f r) = read_key r) \<Longrightarrow> keeps keys_ok (upsert_thread_read f rr)"
  "keeps keys_ok (upsert_saved sr)"
  unfolding insert_defs
  by (auto simp: keeps_def wp_upsert_row keys_ok_def view_defs key_matches list_ex_key sql_upsert_def map_sql_update)

lemma keys_insert_audit: "keeps keys_ok (insert_audit E a b c d)"
  unfolding insert_audit_def keeps_def wp_bnd Let_def
  by (auto simp: wp_fresh_id wp_now wp_insert_row keys_ok_def view_defs)

lemma keys_deletes:
  "keeps keys_ok (delete_labels_tx k i)" "keeps keys_ok (delete_thread_labels_tx t)" "keeps keys_ok (remove_member c a)"
  unfolding delete_labels_tx_def delete_thread_labels_tx_def remove_member_def
  by (auto simp: keeps_def wp_modify keys_ok_def view_defs sql_delete_def distinct_map_filter)

lemma keys_labels: "keeps keys_ok (replace_labels_tx q)"
  unfolding replace_labels_tx_def by (intro keys_deletes keys_insert_label keeps_intros)

lemma keys_saved: "keeps keys_ok (set_saved_message_tx E a k i v)"
proof -
  have del: "keeps keys_ok (modify (\<lambda>s. s\<lparr>saved_messages := sql_delete p (saved_messages s)\<rparr>))" for p
    by (auto simp: keeps_def wp_modify keys_ok_def view_defs sql_delete_def distinct_map_filter)
  show ?thesis
    unfolding set_saved_message_tx_def
    by (intro keys_upserts del keeps_intros; intro keys_same same_intros; simp add: view_defs)
qed

lemma keys_upsert_read: "keeps keys_ok (upsert_read_at t a i)"
  unfolding upsert_read_at_def by (rule keys_upserts) (simp add: read_key_def)

lemmas keys_leaves = keys_inserts keys_insert_label keys_insert_pairs keys_upserts(1,2,4) keys_insert_audit keys_deletes
  keys_labels keys_saved keys_upsert_read

section \<open>Handlers\<close>

lemma keeps_fold_tx: "(\<And>x b. keeps I (f x b)) \<Longrightarrow> keeps I (fold_tx f xs b)"
  by (induction xs arbitrary: b) (simp_all add: keeps_ret keeps_bnd)

lemma keys_notifications:
  "keeps keys_ok (create_notification_tx E u oa ni)" "keeps keys_ok (create_mention_notifications_tx E a mi)"
  "keeps keys_ok (create_thread_reply_notifications_tx E a ri)" "keeps keys_ok (create_dm_notifications_tx E a c m i b)"
proof -
  show one: "keeps keys_ok (create_notification_tx E u oa ni)" for u oa ni
    unfolding create_notification_tx_def thread_muted_def conversation_muted_def
    by (intro keys_leaves keeps_intros; intro keys_same same_intros; simp add: view_defs)
  show "keeps keys_ok (create_mention_notifications_tx E a mi)"
    unfolding create_mention_notifications_tx_def mention_step_def
    by (intro one keys_leaves keeps_intros keeps_fold_tx; intro keys_same same_intros; simp add: view_defs)
  show "keeps keys_ok (create_thread_reply_notifications_tx E a ri)" "keeps keys_ok (create_dm_notifications_tx E a c m i b)"
    unfolding create_thread_reply_notifications_tx_def create_dm_notifications_tx_def notify_others_def
    by (intro one keys_leaves keeps_intros; intro keys_same same_intros; simp add: view_defs)+
qed

lemma keys_created:
  "keeps keys_ok (thread_created E a t c sl ti b n)" "keeps keys_ok (comment_created E a t c sl ti co i b n)"
  "keeps keys_ok (dm_created E a v m i b n)" "keeps keys_ok (reindex_thread t c ti b)"
  unfolding thread_created_def comment_created_def dm_created_def reindex_thread_def Let_def
  by (intro keys_notifications keys_leaves keeps_intros; intro keys_same same_intros; simp add: view_defs)+

lemma set_flag_id [simp]: "t_id (set_flag f v t) = t_id t"
  by (cases f) (simp_all add: set_flag_def)

lemmas message_part_defs = insert_comment_row_def bump_unread_def touch_thread_def upsert_thread_read_state_def
  mark_notifications_read_def mark_mentions_read_def open_conversation_def update_conversation_member_def
  mark_comment_deleted_def uncount_comment_def uncount_unread_def

lemma keys_messages: "keeps keys_ok (message_handler E q)"
  by (cases q; simp only: message_handler.simps handler_synonyms message_defs message_part_defs unit_of_def Let_def;
      intro keys_created keys_leaves keeps_intros keys_upserts(3); (simp add: read_key_def; fail)?;
      intro keys_same same_intros; simp add: view_defs map_sql_update row_key_defs)

lemmas channel_defs = create_channel_def join_channel_def update_channel_member_def
  leave_channel_def rename_channel_def set_channel_topic_def set_channel_archived_def update_channel_def log_channel_def

lemma keys_channels: "keeps keys_ok (channel_handler E q)"
  by (cases q; simp only: channel_handler.simps handler_synonyms channel_defs unit_of_def Let_def;
      intro keys_leaves keeps_intros; intro keys_same same_intros; simp add: view_defs map_sql_update)

lemmas account_defs = set_user_disabled_def set_user_role_def rename_user_def
  set_display_name_def create_device_link_token_def add_ssh_key_def label_ssh_key_def revoke_ssh_key_def create_bootstrap_token_def
  create_invite_with_options_def revoke_invite_def lookup_active_account_for_key_def redeem_ssh_login_token_for_key_def
  redeem_device_link_token_for_key_def redeem_token_for_key_def complete_onboarding_def onboard_def general_channel_def
  record_presence_def log_user_def

lemmas account_part_defs = update_account_def update_key_def use_link_def use_bootstrap_def use_invite_def activate_account_def
  set_current_username_reservation_tx_def upsert_presence_def close_presence_def insert_bootstrap_def insert_link_token_def

lemma keys_accounts: "keeps keys_ok (account_handler E q)"
  by (cases q; simp only: account_handler.simps handler_synonyms account_defs account_part_defs unit_of_def Let_def;
      intro keys_leaves keeps_intros; intro keys_same same_intros; simp add: view_defs map_sql_update)

lemma keys_handle: "keeps keys_ok (handle E q)"
  by (cases q) (simp_all add: keys_messages keys_channels keys_accounts)

lemma reachable_keys: "reachable E s \<Longrightarrow> keys_ok s"
  by (rule reachable_keeps [OF keys_handle]) (simp_all add: keys_ok_def view_defs empty_world_def)

end
