(* ===== verification/Numbers.thy ===== *)
theory Numbers
  imports Text
begin

text \<open>
  Signed 64-bit integers as the source reads them from text: \<open>str::parse::<i64>()\<close> of Rust's
  standard library, which fails on an empty string, on a lone sign, on anything but digits and on
  overflow, and that it undoes the decimal rendering \<open>show_int\<close>.
\<close>

definition i64_ok :: "int \<Rightarrow> bool" where
  "i64_ok i \<longleftrightarrow> - 9223372036854775808 \<le> i \<and> i \<le> 9223372036854775807"

definition add_digit :: "bool \<Rightarrow> int \<Rightarrow> uchar \<Rightarrow> int" where
  "add_digit neg acc c = acc * 10 + (if neg then - int (c - 48) else int (c - 48))"

text \<open>Every step is checked for overflow.\<close>

fun parse_digits :: "bool \<Rightarrow> int \<Rightarrow> str \<Rightarrow> int option" where
  "parse_digits neg acc [] = Some acc"
| "parse_digits neg acc (c # cs) =
     (if is_ascii_digit c \<and> i64_ok (add_digit neg acc c) then parse_digits neg (add_digit neg acc c) cs else None)"

definition parse_i64 :: "str \<Rightarrow> int option" where
  "parse_i64 s =
     (case s of [] \<Rightarrow> None
      | c # cs \<Rightarrow>
          if c = 43 \<or> c = 45 then (if cs = [] then None else parse_digits (c = 45) 0 cs)
          else parse_digits False 0 s)"

lemma parse_digits_append:
  "parse_digits neg acc (xs @ ys) = Option.bind (parse_digits neg acc xs) (\<lambda>v. parse_digits neg v ys)"
  by (induction neg acc xs rule: parse_digits.induct) auto

lemma parse_show_nat:
  assumes "i64_ok (if neg then - int n else int n)"
  shows "parse_digits neg 0 (show_nat n) = Some (if neg then - int n else int n)"
  using assms
proof (induction n rule: show_nat.induct)
  case (1 n)
  show ?case
  proof (cases "n < 10")
    case True
    then show ?thesis
      using 1 by (subst show_nat.simps) (auto simp: is_ascii_digit_def add_digit_def)
  next
    case False
    have "i64_ok (if neg then - int (n div 10) else int (n div 10))"
      using 1(2) by (auto simp: i64_ok_def split: if_splits)
    then have "parse_digits neg 0 (show_nat (n div 10)) = Some (if neg then - int (n div 10) else int (n div 10))"
      using 1(1) False by simp
    moreover have "int (n div 10) * 10 + int (n mod 10) = int (n div 10 * 10 + n mod 10)"
      by (simp only: of_nat_add of_nat_mult of_nat_numeral)
    then have "int n = int (n div 10) * 10 + int (n mod 10)" by (simp only: div_mult_mod_eq)
    then have "add_digit neg (if neg then - int (n div 10) else int (n div 10)) (48 + n mod 10)
      = (if neg then - int n else int n)"
      by (simp add: add_digit_def)
    moreover have "is_ascii_digit (48 + n mod 10)" by (auto simp: is_ascii_digit_def)
    ultimately show ?thesis
      using 1(2) False by (subst show_nat.simps) (simp add: parse_digits_append)
  qed
qed

lemma show_nat_digits: "list_all is_ascii_digit (show_nat n) \<and> show_nat n \<noteq> []"
proof (induction n rule: show_nat.induct)
  case (1 n)
  have "is_ascii_digit (48 + n mod 10)" "n < 10 \<Longrightarrow> is_ascii_digit (48 + n)" by (auto simp: is_ascii_digit_def)
  with 1 show ?case by (subst (1 2) show_nat.simps) simp
qed

theorem parse_show_int:
  assumes "i64_ok i"
  shows "parse_i64 (show_int i) = Some i"
proof (cases "i < 0")
  case True
  then have "parse_digits True 0 (show_nat (nat (- i))) = Some i"
    using parse_show_nat [of True "nat (- i)"] assms by simp
  then show ?thesis
    using True show_nat_digits [of "nat (- i)"] by (simp add: parse_i64_def show_int_def)
next
  case False
  then have p: "parse_digits False 0 (show_nat (nat i)) = Some i"
    using parse_show_nat [of False "nat i"] assms by simp
  obtain c cs where c: "show_nat (nat i) = c # cs" "is_ascii_digit c"
    using show_nat_digits [of "nat i"] by (cases "show_nat (nat i)") auto
  then have "c \<noteq> 43" "c \<noteq> 45" by (auto simp: is_ascii_digit_def)
  then show ?thesis using False p c by (simp add: parse_i64_def show_int_def)
qed

text \<open>What is read is in the range of the type.\<close>

lemma parse_digits_range: "i64_ok acc \<Longrightarrow> parse_digits neg acc s = Some v \<Longrightarrow> i64_ok v"
  by (induction neg acc s rule: parse_digits.induct) (auto split: if_splits)

lemma parse_i64_range: "parse_i64 s = Some v \<Longrightarrow> i64_ok v"
  by (auto simp: parse_i64_def split: list.splits if_splits intro: parse_digits_range [of 0 _ _ v] simp: i64_ok_def
      dest: parse_digits_range [rotated])

end
