(* ===== verification/Lists.thy ===== *)
theory Lists
  imports Paging Keys Numbers
begin

text \<open>
  The lists of the administration: accounts, SSH keys, invites, the audit log, the members of a
  channel and the channel directory (\<open>accounts/state.rs\<close>, \<open>channels/state.rs\<close>,
  \<open>audit/state.rs\<close>, with the summaries of the features' \<open>model.rs\<close>), read page by page, and that
  each is a keyset in the sense of \<open>Paging\<close>.
\<close>

section \<open>Joins\<close>

text \<open>\<open>LEFT JOIN\<close>: the matching rows, or none.\<close>

definition left_join :: "('r \<Rightarrow> bool) \<Rightarrow> 'r list \<Rightarrow> 'r option list" where
  "left_join p rows = (case filter p rows of [] \<Rightarrow> [None] | r # rs \<Rightarrow> map Some (r # rs))"

lemma left_join_unique:
  assumes "distinct (map f rows)" "\<And>r q. p r \<Longrightarrow> p q \<Longrightarrow> f r = f q"
  shows "left_join p rows = [find p rows]"
proof -
  have "filter p rows = (case find p rows of None \<Rightarrow> [] | Some r \<Rightarrow> [r])"
    using assms(1)
  proof (induction rows)
    case (Cons r rows)
    have "filter p rows = []" if "p r"
      using Cons.prems assms(2) [OF that] by (force simp: filter_empty_conv)
    then show ?case using Cons by simp
  qed simp
  then show ?thesis by (simp add: left_join_def split: option.splits)
qed

text \<open>A \<open>JOIN\<close> along a unique column keeps at most one row of the joined table.\<close>

lemma join_distinct:
  assumes "distinct (map f xs)"
  shows "distinct (map f (concat (map (\<lambda>x. if p x then [x] else []) xs)))"
  using assms by (induction xs) auto

section \<open>Accounts\<close>

record account_summary =
  as_id :: str
  as_username :: str
  as_display_name :: str
  as_role :: role
  as_activated :: bool
  as_disabled :: bool
  as_created_at :: str
  as_last_seen_at :: "str option"

definition account_state_label :: "account_summary \<Rightarrow> str" where
  "account_state_label a =
     (if as_disabled a then lit ''disabled'' else if as_activated a then lit ''active'' else lit ''pending'')"

definition account_summary_of :: "account_row \<Rightarrow> account_summary" where
  "account_summary_of r =
     \<lparr>as_id = a_id r, as_username = a_username r,
      as_display_name = sanitize_single_line_text (a_display_name r), as_role = a_role r,
      as_activated = (a_activated_at r \<noteq> None), as_disabled = (a_disabled_at r \<noteq> None),
      as_created_at = a_created_at r, as_last_seen_at = a_last_seen_at r\<rparr>"

definition account_order :: "account_row \<Rightarrow> str \<times> str" where
  "account_order r = (ascii_lowercase (a_username r), a_id r)"

definition account_after :: "str list \<Rightarrow> account_row \<Rightarrow> bool" where
  "account_after c r \<longleftrightarrow> c ! 0 < ascii_lowercase (a_username r)
     \<or> (ascii_lowercase (a_username r) = c ! 0 \<and> c ! 1 < a_id r)"

definition account_cursor :: "env \<Rightarrow> account_summary \<Rightarrow> str list" where
  "account_cursor E a = [e_lc E (as_username a), as_id a]"

definition list_accounts_page :: "env \<Rightarrow> codec \<Rightarrow> str \<Rightarrow> page_request \<Rightarrow> account_summary page wtx" where
  "list_accounts_page E C actor_id request =
     bnd (require_admin_tx actor_id) (\<lambda>_.
     bnd (gets (\<lambda>s. pages C account_order account_after 2 account_summary_of (account_cursor E) 500
                      (accounts s) request)) lift_res)"

definition list_accounts :: "env \<Rightarrow> codec \<Rightarrow> str \<Rightarrow> account_summary list wtx" where
  "list_accounts E C actor_id =
     bnd (list_accounts_page E C actor_id (first_page 500)) (\<lambda>p. ret (pg_items p))"

section \<open>SSH keys\<close>

record key_summary =
  ks_id :: str
  ks_username :: str
  ks_fingerprint :: str
  ks_label :: "str option"
  ks_created_at :: str
  ks_last_used_at :: "str option"
  ks_revoked_at :: "str option"

definition key_state_label :: "key_summary \<Rightarrow> str" where
  "key_state_label k = (if ks_revoked_at k \<noteq> None then lit ''revoked'' else lit ''active'')"

definition ssh_key_summary_from_row :: "key_row \<times> account_row \<Rightarrow> key_summary" where
  "ssh_key_summary_from_row = (\<lambda>(k, a).
     \<lparr>ks_id = k_id k, ks_username = a_username a, ks_fingerprint = k_fingerprint k,
      ks_label = map_option sanitize_single_line_text (k_label k), ks_created_at = k_created_at k,
      ks_last_used_at = k_last_used_at k, ks_revoked_at = k_revoked_at k\<rparr>)"

definition owned_keys :: "world \<Rightarrow> (key_row \<times> account_row) list" where
  "owned_keys s = [(k, a). k \<leftarrow> ssh_keys s, a \<leftarrow> accounts s, a_id a = k_account_id k]"

definition key_order :: "key_row \<times> account_row \<Rightarrow> str \<times> str \<times> str" where
  "key_order = (\<lambda>(k, a). (ascii_lowercase (a_username a), k_created_at k, k_id k))"

definition key_after :: "str list \<Rightarrow> key_row \<times> account_row \<Rightarrow> bool" where
  "key_after c = (\<lambda>(k, a). let u = ascii_lowercase (a_username a) in
     c ! 0 < u \<or> (u = c ! 0 \<and> c ! 1 < k_created_at k)
     \<or> (u = c ! 0 \<and> k_created_at k = c ! 1 \<and> c ! 2 < k_id k))"

definition key_cursor :: "env \<Rightarrow> key_summary \<Rightarrow> str list" where
  "key_cursor E k = [e_lc E (ks_username k), ks_created_at k, ks_id k]"

definition list_ssh_keys_page :: "env \<Rightarrow> codec \<Rightarrow> str \<Rightarrow> page_request \<Rightarrow> key_summary page wtx" where
  "list_ssh_keys_page E C actor_id request =
     bnd (require_admin_tx actor_id) (\<lambda>_.
     bnd (gets (\<lambda>s. pages C key_order key_after 3 ssh_key_summary_from_row (key_cursor E) 500
                      (owned_keys s) request)) lift_res)"

definition list_ssh_keys :: "env \<Rightarrow> codec \<Rightarrow> str \<Rightarrow> key_summary list wtx" where
  "list_ssh_keys E C actor_id =
     bnd (list_ssh_keys_page E C actor_id (first_page 500)) (\<lambda>p. ret (pg_items p))"

definition load_my_ssh_keys :: "str \<Rightarrow> world \<Rightarrow> key_summary list" where
  "load_my_ssh_keys account_id s =
     map ssh_key_summary_from_row
       (sort_key (\<lambda>(k, a). k_created_at k) (filter (\<lambda>(k, a). k_account_id k = account_id) (owned_keys s)))"

section \<open>Invites\<close>

record invite_summary =
  is_id :: str
  is_role_on_accept :: role
  is_created_by :: str
  is_accepted_by :: "str option"
  is_created_at :: str
  is_expires_at :: "str option"
  is_revoked_at :: "str option"
  is_accepted_at :: "str option"

definition invite_state_label :: "invite_summary \<Rightarrow> str" where
  "invite_state_label i =
     (if is_accepted_at i \<noteq> None then lit ''accepted''
      else if is_revoked_at i \<noteq> None then lit ''revoked'' else lit ''open'')"

type_synonym invite_join = "invite_row \<times> account_row \<times> account_row option"

definition invite_rows :: "world \<Rightarrow> invite_join list" where
  "invite_rows s =
     [(i, creator, accepted). i \<leftarrow> invites s, creator \<leftarrow> accounts s, a_id creator = i_created_by i,
        accepted \<leftarrow> left_join (\<lambda>a. Some (a_id a) = i_accepted_by i) (accounts s)]"

definition invite_summary_of :: "invite_join \<Rightarrow> invite_summary" where
  "invite_summary_of = (\<lambda>(i, creator, accepted).
     \<lparr>is_id = i_id i, is_role_on_accept = i_role i, is_created_by = a_username creator,
      is_accepted_by = map_option a_username accepted, is_created_at = i_created_at i,
      is_expires_at = i_expires_at i, is_revoked_at = i_revoked_at i, is_accepted_at = i_accepted_at i\<rparr>)"

definition invite_order :: "invite_join \<Rightarrow> str desc \<times> str desc" where
  "invite_order = (\<lambda>(i, _). (Desc (i_created_at i), Desc (i_id i)))"

definition invite_after :: "str list \<Rightarrow> invite_join \<Rightarrow> bool" where
  "invite_after c = (\<lambda>(i, _). i_created_at i < c ! 0 \<or> (i_created_at i = c ! 0 \<and> i_id i < c ! 1))"

definition invite_cursor :: "invite_summary \<Rightarrow> str list" where
  "invite_cursor i = [is_created_at i, is_id i]"

definition list_invites_page :: "codec \<Rightarrow> str \<Rightarrow> page_request \<Rightarrow> invite_summary page wtx" where
  "list_invites_page C actor_id request =
     bnd (require_admin_tx actor_id) (\<lambda>_.
     bnd (gets (\<lambda>s. pages C invite_order invite_after 2 invite_summary_of invite_cursor 500
                      (invite_rows s) request)) lift_res)"

definition list_invites :: "codec \<Rightarrow> str \<Rightarrow> invite_summary list wtx" where
  "list_invites C actor_id =
     bnd (list_invites_page C actor_id (first_page 500)) (\<lambda>p. ret (pg_items p))"

section \<open>Audit log\<close>

record audit_entry =
  ae_id :: str
  ae_actor_username :: "str option"
  ae_action :: str
  ae_target :: "str option"
  ae_metadata :: payload
  ae_created_at :: str

type_synonym audit_join = "audit_row \<times> account_row option"

definition audit_rows :: "world \<Rightarrow> audit_join list" where
  "audit_rows s = [(l, actor). l \<leftarrow> audit_log s,
     actor \<leftarrow> left_join (\<lambda>a. Some (a_id a) = au_actor_id l) (accounts s)]"

definition audit_entry_of :: "audit_join \<Rightarrow> audit_entry" where
  "audit_entry_of = (\<lambda>(l, actor).
     \<lparr>ae_id = au_id l, ae_actor_username = map_option a_username actor, ae_action = au_action l,
      ae_target = au_target l, ae_metadata = au_metadata l, ae_created_at = au_created_at l\<rparr>)"

definition audit_order :: "audit_join \<Rightarrow> str desc \<times> str desc" where
  "audit_order = (\<lambda>(l, _). (Desc (au_created_at l), Desc (au_id l)))"

definition audit_after :: "str list \<Rightarrow> audit_join \<Rightarrow> bool" where
  "audit_after c = (\<lambda>(l, _). au_created_at l < c ! 0 \<or> (au_created_at l = c ! 0 \<and> au_id l < c ! 1))"

definition audit_cursor :: "audit_entry \<Rightarrow> str list" where
  "audit_cursor l = [ae_created_at l, ae_id l]"

definition list_audit_page :: "codec \<Rightarrow> str \<Rightarrow> page_request \<Rightarrow> audit_entry page wtx" where
  "list_audit_page C actor_id request =
     bnd (require_admin_tx actor_id) (\<lambda>_.
     bnd (gets (\<lambda>s. pages C audit_order audit_after 2 audit_entry_of audit_cursor 500
                      (audit_rows s) request)) lift_res)"

definition list_audit :: "codec \<Rightarrow> str \<Rightarrow> int \<Rightarrow> audit_entry list wtx" where
  "list_audit C actor_id limit =
     bnd (list_audit_page C actor_id (first_page limit)) (\<lambda>p. ret (pg_items p))"

section \<open>Channel members\<close>

record member_summary =
  ms_channel_id :: str
  ms_channel_slug :: str
  ms_username :: str
  ms_role :: str
  ms_joined_at :: str

type_synonym member_join = "channel_member_row \<times> channel_row \<times> account_row"

definition member_rows :: "str \<Rightarrow> world \<Rightarrow> member_join list" where
  "member_rows channel_id s =
     [(m, c, a). m \<leftarrow> channel_members s, c \<leftarrow> channels s, c_id c = m_channel_id m,
        a \<leftarrow> accounts s, a_id a = m_account_id m, m_channel_id m = channel_id]"

definition member_summary_of :: "member_join \<Rightarrow> member_summary" where
  "member_summary_of = (\<lambda>(m, c, a).
     \<lparr>ms_channel_id = c_id c, ms_channel_slug = c_slug c, ms_username = a_username a,
      ms_role = m_role m, ms_joined_at = m_joined_at m\<rparr>)"

definition member_order :: "member_join \<Rightarrow> str \<times> str" where
  "member_order = (\<lambda>(m, c, a). (ascii_lowercase (a_username a), a_id a))"

definition member_after :: "str list \<Rightarrow> member_join \<Rightarrow> bool" where
  "member_after k = (\<lambda>(m, c, a). k ! 0 < ascii_lowercase (a_username a))"

definition member_cursor :: "env \<Rightarrow> member_summary \<Rightarrow> str list" where
  "member_cursor E m = [e_lc E (ms_username m)]"

definition list_channel_members_page ::
    "env \<Rightarrow> codec \<Rightarrow> str \<Rightarrow> str \<Rightarrow> page_request \<Rightarrow> member_summary page wtx" where
  "list_channel_members_page E C actor_id slug request =
     bnd (load_channel_by_slug_tx E slug) (\<lambda>channel.
     bnd (ensure_can_manage_channel actor_id channel) (\<lambda>_.
     bnd (gets (\<lambda>s. pages C member_order member_after 1 member_summary_of (member_cursor E) 500
                      (member_rows (cm_id channel) s) request)) lift_res))"

definition list_channel_members :: "env \<Rightarrow> codec \<Rightarrow> str \<Rightarrow> str \<Rightarrow> member_summary list wtx" where
  "list_channel_members E C actor_id slug =
     bnd (list_channel_members_page E C actor_id slug (first_page 500)) (\<lambda>p. ret (pg_items p))"

section \<open>Channel directory\<close>

record directory_item =
  di_id :: str
  di_slug :: str
  di_name :: str
  di_visibility :: visibility
  di_topic :: "str option"
  di_joined :: bool
  di_archived :: bool

definition is_member_of :: "str \<Rightarrow> str \<Rightarrow> world \<Rightarrow> bool" where
  "is_member_of channel_id account_id s = list_ex (is_channel_member channel_id account_id) (channel_members s)"

definition directory_rows :: "account \<Rightarrow> str \<Rightarrow> bool \<Rightarrow> world \<Rightarrow> (channel_row \<times> bool) list" where
  "directory_rows actor actor_id include_archived s =
     [(c, is_member_of (c_id c) actor_id s). c \<leftarrow> channels s,
        (include_archived \<or> c_archived_at c = None)
        \<and> (c_visibility c = Public \<or> is_member_of (c_id c) actor_id s
           \<or> role_as_str (ac_role actor) \<in> {lit ''owner'', lit ''admin''})]"

definition directory_item_of :: "channel_row \<times> bool \<Rightarrow> directory_item" where
  "directory_item_of = (\<lambda>(c, joined).
     \<lparr>di_id = c_id c, di_slug = c_slug c, di_name = c_name c, di_visibility = c_visibility c,
      di_topic = map_option sanitize_single_line_text (c_topic c), di_joined = joined,
      di_archived = (c_archived_at c \<noteq> None)\<rparr>)"

definition slug_group :: "str \<Rightarrow> int" where
  "slug_group slug = (if slug = general then 0 else 1)"

definition directory_order :: "channel_row \<times> bool \<Rightarrow> int \<times> str" where
  "directory_order = (\<lambda>(c, _). (slug_group (c_slug c), c_slug c))"

text \<open>The first part of the cursor is parsed before the query runs.\<close>

definition directory_after :: "str list \<Rightarrow> channel_row \<times> bool \<Rightarrow> bool" where
  "directory_after k = (\<lambda>(c, _). let group = the (parse_i64 (k ! 0)) in
     group < slug_group (c_slug c) \<or> (slug_group (c_slug c) = group \<and> k ! 1 < c_slug c))"

definition directory_cursor :: "directory_item \<Rightarrow> str list" where
  "directory_cursor i = [if di_slug i = general then lit ''0'' else lit ''1'', di_slug i]"

definition group_parses :: "codec \<Rightarrow> page_request \<Rightarrow> bool" where
  "group_parses C request =
     (case decode_cursor C (pr_cursor request) 2 of Inr (Some k) \<Rightarrow> parse_i64 (k ! 0) \<noteq> None | _ \<Rightarrow> True)"

definition list_channels_page :: "codec \<Rightarrow> str \<Rightarrow> bool \<Rightarrow> page_request \<Rightarrow> directory_item page wtx" where
  "list_channels_page C actor_id include_archived request =
     bnd (reload_account actor_id) (\<lambda>actor.
     thn (ensure (ac_activated actor) not_activated)
     (thn (ensure (group_parses C request) (lit ''invalid channels cursor''))
     (bnd (gets (\<lambda>s. pages C directory_order directory_after 2 directory_item_of directory_cursor 500
                      (directory_rows actor actor_id include_archived s) request)) lift_res)))"

definition list_channels :: "codec \<Rightarrow> str \<Rightarrow> bool \<Rightarrow> directory_item list wtx" where
  "list_channels C actor_id include_archived =
     bnd (list_channels_page C actor_id include_archived (first_page 500)) (\<lambda>p. ret (pg_items p))"

section \<open>Each list is a keyset\<close>

lemma pair_less: "(a, b) < (c, d) \<longleftrightarrow> a < c \<or> (a = c \<and> b < d)" for a c :: "'x::linorder" and b d :: "'y::linorder"
  by (auto simp: less_prod_def' order_le_less)

text \<open>Usernames are ASCII, so that the two lower-casings agree on them.\<close>

definition cased :: "env \<Rightarrow> str \<Rightarrow> bool" where
  "cased E u \<longleftrightarrow> e_lc E u = ascii_lowercase u"

interpretation account_list:
  keyset account_order account_after 2 account_summary_of "account_cursor E" "\<lambda>r. cased E (a_username r)" for E
  by unfold_locales
     (auto simp: account_order_def account_after_def account_summary_of_def account_cursor_def cased_def pair_less)

interpretation key_list:
  keyset key_order key_after 3 ssh_key_summary_from_row "key_cursor E" "\<lambda>(k, a). cased E (a_username a)" for E
  by unfold_locales
     (auto simp: key_order_def key_after_def ssh_key_summary_from_row_def key_cursor_def cased_def pair_less Let_def)

interpretation invite_list:
  keyset invite_order invite_after 2 invite_summary_of invite_cursor "\<lambda>_. True"
  by unfold_locales
     (auto simp: invite_order_def invite_after_def invite_summary_of_def invite_cursor_def pair_less)

interpretation audit_list:
  keyset audit_order audit_after 2 audit_entry_of audit_cursor "\<lambda>_. True"
  by unfold_locales
     (auto simp: audit_order_def audit_after_def audit_entry_of_def audit_cursor_def pair_less)

lemma parse_group: "parse_i64 (if b then lit ''0'' else lit ''1'') = Some (if b then 0 else 1)"
  by (cases b) (simp_all add: parse_i64_def lit_def is_ascii_digit_def add_digit_def i64_ok_def)

interpretation directory:
  keyset directory_order directory_after 2 directory_item_of directory_cursor "\<lambda>_. True"
  by unfold_locales
     (auto simp: directory_order_def directory_after_def directory_item_of_def directory_cursor_def pair_less Let_def
        parse_group slug_group_def)

section \<open>Reading a list to its end\<close>

text \<open>What a caller of a read-only handler sees.\<close>

definition answer :: "('s, 'a) tx \<Rightarrow> 's \<Rightarrow> err + 'a" where
  "answer m s = map_sum (\<lambda>e. e) fst (m s)"

lemma answer_guarded:
  assumes "guard s = Inr (x, s)"
  shows "answer (bnd guard (\<lambda>x. bnd (gets (f x)) lift_res)) s = f x s"
  using assms by (auto simp: answer_def bnd_def gets_def lift_res_def ret_def fail_def split: sum.splits)

text \<open>A join whose other side is found by its key does not repeat a row.\<close>

lemma join_keys:
  assumes "distinct (map f xs)" "\<And>x. length (g x) \<le> Suc 0" "\<And>x y. y \<in> set (g x) \<Longrightarrow> h y = f x"
  shows "distinct (map h (concat (map g xs)))"
  using assms(1)
proof (induction xs)
  case (Cons x xs)
  have "distinct (map h (g x))" using assms(2) [of x] by (cases "g x") auto
  moreover have "h ` set (g x) \<inter> h ` (\<Union>z\<in>set xs. set (g z)) = {}"
    using Cons.prems assms(3) by (fastforce simp: image_iff)
  ultimately show ?case using Cons by (auto simp: image_iff)
qed simp

lemma one_match:
  assumes "distinct (map f rows)" "\<And>r. length (g r) \<le> Suc 0"
  shows "length (concat (map (\<lambda>r. if f r = k then g r else []) rows)) \<le> Suc 0"
  using assms(1)
proof (induction rows)
  case (Cons r rows)
  have "concat (map (\<lambda>r. if f r = k then g r else []) rows) = []" if "f r = k"
    using Cons.prems that by (fastforce simp: concat_eq_Nil_conv image_iff)
  then show ?case
    using Cons.IH Cons.prems assms(2) [of r] by (cases "f r = k") (simp_all only: refl list.map concat.simps if_True if_False append_Nil append_Nil2 distinct.simps)
qed simp

lemma one_left_join: "distinct (map f rows) \<Longrightarrow> length (left_join (\<lambda>r. Some (f r) = k) rows) \<le> Suc 0"
  by (subst left_join_unique [where f = f]) auto

lemma keys_okD:
  assumes "keys_ok s"
  shows "distinct (map a_id (accounts s))" "distinct (map k_id (ssh_keys s))" "distinct (map i_id (invites s))"
    "distinct (map c_id (channels s))" "distinct (map t_id (threads s))" "distinct (map co_id (comments s))"
    "distinct (map v_id (conversations s))" "distinct (map d_id (messages s))" "distinct (map mn_id (mentions s))"
    "distinct (map n_id (notifications s))" "distinct (map au_id (audit_log s))"
    "distinct (map member_key (channel_members s))" "distinct (map participant_key (conversation_members s))"
    "distinct (map read_key (thread_reads s))" "distinct (map label_key (labels s))"
    "distinct (map saved_key (saved_messages s))"
  using assms by (simp_all only: keys_ok_def view_defs list.pred_inject)

text \<open>Identifiers that end the sort key make it a key.\<close>

lemma distinct_by: "distinct (map g rows) \<Longrightarrow> (\<And>r q. f r = f q \<Longrightarrow> g r = g q) \<Longrightarrow> distinct (map f rows)"
  unfolding distinct_map inj_on_def by blast

lemma account_list_keys: "keys_ok s \<Longrightarrow> distinct (map account_order (accounts s))"
  by (erule distinct_by [OF keys_okD(1)]) (simp add: account_order_def)

lemma ssh_key_keys:
  assumes "keys_ok s"
  shows "distinct (map key_order (owned_keys s))"
proof -
  have "distinct (map (\<lambda>(k, a). k_id k) (owned_keys s))"
    unfolding owned_keys_def
    by (rule join_keys [OF keys_okD(2) [OF assms]]) (auto intro: one_match keys_okD [OF assms] split: if_splits)
  then show ?thesis by (rule distinct_by) (auto simp: key_order_def)
qed

lemma invite_keys:
  assumes "keys_ok s"
  shows "distinct (map invite_order (invite_rows s))"
proof -
  have "distinct (map (\<lambda>(i, _). i_id i) (invite_rows s))"
    unfolding invite_rows_def
    by (rule join_keys [OF keys_okD(3) [OF assms]])
       (auto intro!: one_match one_left_join keys_okD(1) [OF assms] split: if_splits)
  then show ?thesis by (rule distinct_by) (auto simp: invite_order_def)
qed

lemma audit_keys:
  assumes "keys_ok s"
  shows "distinct (map audit_order (audit_rows s))"
proof -
  have "distinct (map (\<lambda>(l, _). au_id l) (audit_rows s))"
    unfolding audit_rows_def
    by (rule join_keys [OF keys_okD(11) [OF assms]]) (auto intro!: one_left_join keys_okD(1) [OF assms] split: if_splits)
  then show ?thesis by (rule distinct_by) (auto simp: audit_order_def)
qed

lemma directory_keys:
  assumes "distinct (map c_slug (channels s))"
  shows "distinct (map directory_order (directory_rows actor a v s))"
proof -
  have "distinct (map (\<lambda>(c, _). c_slug c) (directory_rows actor a v s))"
    unfolding directory_rows_def by (rule join_keys [OF assms]) (auto split: if_splits)
  then show ?thesis by (rule distinct_by) (auto simp: directory_order_def)
qed


end
