(* ===== verification/Feeds.thy ===== *)
theory Feeds
  imports Lists
begin

text \<open>
  What a user reads across channels and conversations: notifications and mentions
  (\<open>load_notifications_page\<close>, \<open>list_mentions\<close>), saved messages, the feed of a label, hot labels
  (\<open>features/shared/loaders.rs\<close>) and search (\<open>search_visible_page\<close> and \<open>snippet\<close> of
  \<open>features/shared/utils.rs\<close>). Each is a query with its own visibility filter; the lemmas at the
  end say what passes the filters and that the feeds are keysets.
\<close>

section \<open>Paging in the order of time\<close>

text \<open>The cursor filter of the lists that run from new to old.\<close>

definition older_than :: "str list \<Rightarrow> str \<Rightarrow> str \<Rightarrow> bool" where
  "older_than c at_time i \<longleftrightarrow> at_time < c ! 0 \<or> (at_time = c ! 0 \<and> i < c ! 1)"

definition pop_pages ::
    "codec \<Rightarrow> ('r \<Rightarrow> 'k::linorder) \<Rightarrow> (str list \<Rightarrow> 'r \<Rightarrow> bool) \<Rightarrow> nat \<Rightarrow> ('r \<Rightarrow> 'i) \<Rightarrow> ('i \<Rightarrow> str list) \<Rightarrow> int
      \<Rightarrow> 'r list \<Rightarrow> page_request \<Rightarrow> err + 'i page" where
  "pop_pages C key after n item parts mx rows request =
     (let limit = page_limit (pr_limit request) mx
      in case decode_cursor C (pr_cursor request) n of Inl e \<Rightarrow> Inl e
         | Inr cursor \<Rightarrow>
             Inr (pop_page (\<lambda>i. encode_cursor C (parts i)) (nat limit)
                   (map item (sql_page key after cursor limit rows))))"

lemma pop_pages_eq: "1 \<le> mx \<Longrightarrow> pop_pages C key after n item parts mx rows request = pages C key after n item parts mx rows request"
proof -
  assume "1 \<le> mx"
  then have "nat (page_limit l mx + 1) = Suc (nat (page_limit l mx))" for l
    using page_limit_bounds [of mx l] by (simp add: Suc_nat_eq_nat_zadd1 add.commute)
  then have "length (sql_page key after c (page_limit l mx) rows) \<le> Suc (nat (page_limit l mx))" for c l
    by (simp add: sql_page_def)
  then show ?thesis
    by (auto simp: pop_pages_def pages_def Let_def pop_page_loop split: sum.splits)
qed

section \<open>Notifications\<close>

record notification_summary =
  ns_id :: str
  ns_kind :: notification_kind
  ns_source_kind :: "source_kind option"
  ns_source_id :: "str option"
  ns_source_index :: "int option"
  ns_actor_username :: "str option"
  ns_channel_id :: "str option"
  ns_channel_slug :: "str option"
  ns_thread_id :: "str option"
  ns_thread_title :: "str option"
  ns_conversation_id :: "str option"
  ns_title :: str
  ns_body :: str
  ns_created_at :: str
  ns_read_at :: "str option"

definition or_else :: "'a option \<Rightarrow> 'a option \<Rightarrow> 'a option" where
  "or_else x y = (case x of None \<Rightarrow> y | Some v \<Rightarrow> Some v)"

definition notification_summary_of :: "world \<Rightarrow> notification_row \<Rightarrow> notification_summary list" where
  "notification_summary_of s n =
     [\<lparr>ns_id = n_id n, ns_kind = n_kind n, ns_source_kind = n_source_kind n, ns_source_id = n_source_id n,
       ns_source_index = or_else (map_option co_index cm) (map_option d_index dm),
       ns_actor_username = map_option a_username actor, ns_channel_id = n_channel_id n,
       ns_channel_slug = map_option c_slug c, ns_thread_id = n_thread_id n,
       ns_thread_title = map_option (\<lambda>t. sanitize_single_line_text (t_title t)) t,
       ns_conversation_id = n_conversation_id n, ns_title = sanitize_single_line_text (n_title n),
       ns_body = sanitize_stored_text (n_body n), ns_created_at = n_created_at n, ns_read_at = n_read_at n\<rparr>.
      actor \<leftarrow> left_join (\<lambda>a. Some (a_id a) = n_actor_id n) (accounts s),
      c \<leftarrow> left_join (\<lambda>c. Some (c_id c) = n_channel_id n) (channels s),
      t \<leftarrow> left_join (\<lambda>t. Some (t_id t) = n_thread_id n) (threads s),
      cm \<leftarrow> left_join (\<lambda>m. n_source_kind n = Some SComment \<and> Some (co_id m) = n_source_id n) (comments s),
      dm \<leftarrow> left_join (\<lambda>m. n_source_kind n = Some SDm \<and> Some (d_id m) = n_source_id n) (messages s)]"

definition shown_notification :: "str \<Rightarrow> world \<Rightarrow> notification_row \<Rightarrow> bool" where
  "shown_notification account_id s n \<longleftrightarrow>
     n_account_id n = account_id \<and> n_archived_at n = None \<and> notification_visible n s"

definition notification_rows :: "str \<Rightarrow> world \<Rightarrow> notification_summary list" where
  "notification_rows account_id s =
     concat (map (notification_summary_of s) (filter (shown_notification account_id s) (notifications s)))"

definition notification_order :: "notification_summary \<Rightarrow> str desc \<times> str desc" where
  "notification_order n = (Desc (ns_created_at n), Desc (ns_id n))"

definition notification_after :: "str list \<Rightarrow> notification_summary \<Rightarrow> bool" where
  "notification_after c n = older_than c (ns_created_at n) (ns_id n)"

definition notification_cursor :: "notification_summary \<Rightarrow> str list" where
  "notification_cursor n = [ns_created_at n, ns_id n]"

definition load_notifications_page ::
    "codec \<Rightarrow> str \<Rightarrow> page_request \<Rightarrow> world \<Rightarrow> err + notification_summary page" where
  "load_notifications_page C account_id request s =
     pages C notification_order notification_after 2 (\<lambda>n. n) notification_cursor 200
       (notification_rows account_id s) request"

definition list_notifications_page :: "codec \<Rightarrow> str \<Rightarrow> page_request \<Rightarrow> notification_summary page wtx" where
  "list_notifications_page C account_id request =
     bnd (gets (load_notifications_page C account_id request)) lift_res"

definition list_notifications :: "codec \<Rightarrow> str \<Rightarrow> int \<Rightarrow> notification_summary list wtx" where
  "list_notifications C account_id limit =
     bnd (list_notifications_page C account_id (first_page limit)) (\<lambda>p. ret (pg_items p))"

section \<open>Mentions\<close>

record mention_summary =
  me_id :: str
  me_actor_username :: str
  me_source_kind :: source_kind
  me_source_id :: str
  me_source_index :: "int option"
  me_channel_id :: "str option"
  me_channel_slug :: "str option"
  me_thread_id :: "str option"
  me_thread_title :: "str option"
  me_conversation_id :: "str option"
  me_title :: str
  me_body :: str
  me_created_at :: str
  me_read_at :: "str option"

definition mention_visible :: "mention_row \<Rightarrow> world \<Rightarrow> bool" where
  "mention_visible m s = visible_source (mn_target_id m) (mn_channel_id m) (mn_conversation_id m) s"

definition mention_body :: "comment_row option \<Rightarrow> message_row option \<Rightarrow> thread_row option \<Rightarrow> str" where
  "mention_body cm dm t =
     (case or_else (map_option co_body cm) (or_else (map_option d_body dm) (map_option t_body t)) of
        None \<Rightarrow> [] | Some b \<Rightarrow> b)"

definition mention_summary_of :: "world \<Rightarrow> mention_row \<Rightarrow> mention_summary list" where
  "mention_summary_of s m =
     [\<lparr>me_id = mn_id m, me_actor_username = a_username actor, me_source_kind = mn_source_kind m,
       me_source_id = mn_source_id m,
       me_source_index = or_else (mn_index m) (or_else (map_option co_index cm) (map_option d_index dm)),
       me_channel_id = mn_channel_id m, me_channel_slug = map_option c_slug c, me_thread_id = mn_thread_id m,
       me_thread_title = map_option (\<lambda>t. sanitize_single_line_text (t_title t)) t,
       me_conversation_id = mn_conversation_id m,
       me_title = sanitize_single_line_text (case t of None \<Rightarrow> lit ''DM'' | Some t \<Rightarrow> t_title t),
       me_body = sanitize_stored_text (mention_body cm dm t), me_created_at = mn_created_at m,
       me_read_at = mn_read_at m\<rparr>.
      actor \<leftarrow> accounts s, a_id actor = mn_actor_id m,
      c \<leftarrow> left_join (\<lambda>c. Some (c_id c) = mn_channel_id m) (channels s),
      t \<leftarrow> left_join (\<lambda>t. Some (t_id t) = mn_thread_id m) (threads s),
      cm \<leftarrow> left_join (\<lambda>c. mn_source_kind m = SComment \<and> co_id c = mn_source_id m) (comments s),
      dm \<leftarrow> left_join (\<lambda>d. mn_source_kind m = SDm \<and> d_id d = mn_source_id m) (messages s)]"

definition list_mentions :: "str \<Rightarrow> int \<Rightarrow> world \<Rightarrow> mention_summary list" where
  "list_mentions account_id limit s =
     take (nat (page_limit limit 200))
       (sort_key (\<lambda>m. Desc (me_created_at m))
         (concat (map (mention_summary_of s)
            (filter (\<lambda>m. mn_target_id m = account_id \<and> mention_visible m s) (mentions s)))))"

section \<open>Saved messages\<close>

datatype saved_kind = SavedComment | SavedDm

record saved_item =
  sv_kind :: saved_kind
  sv_source_id :: str
  sv_source_index :: int
  sv_author :: str
  sv_body :: str
  sv_source_label :: str
  sv_channel_slug :: "str option"
  sv_thread_title :: "str option"
  sv_dm_peer_username :: "str option"
  sv_saved_at :: str
  sv_created_at :: str
  sv_channel_id :: "str option"
  sv_thread_id :: "str option"
  sv_conversation_id :: "str option"

text \<open>\<open>'#' || ch.slug || ' \<middot> ' || t.title\<close> and \<open>'DM @' || peer.username\<close>.\<close>

definition thread_source_label :: "channel_row \<Rightarrow> thread_row \<Rightarrow> str" where
  "thread_source_label ch t = c_hash # c_slug ch @ [c_space, 183, c_space] @ t_title t"

definition dm_source_label :: "account_row \<Rightarrow> str" where
  "dm_source_label peer = lit ''DM @'' @ a_username peer"

definition saved_comments :: "str \<Rightarrow> world \<Rightarrow> saved_item list" where
  "saved_comments account_id s =
     [\<lparr>sv_kind = SavedComment, sv_source_id = s_source_id sm, sv_source_index = co_index cm,
       sv_author = a_username a, sv_body = sanitize_stored_text (co_body cm),
       sv_source_label = sanitize_single_line_text (thread_source_label ch t),
       sv_channel_slug = Some (sanitize_single_line_text (c_slug ch)),
       sv_thread_title = Some (sanitize_single_line_text (t_title t)), sv_dm_peer_username = None,
       sv_saved_at = s_saved_at sm, sv_created_at = co_created_at cm, sv_channel_id = Some (c_id ch),
       sv_thread_id = Some (t_id t), sv_conversation_id = None\<rparr>.
      sm \<leftarrow> saved_messages s, s_account_id sm = account_id \<and> s_source_kind sm = SComment,
      cm \<leftarrow> comments s, co_id cm = s_source_id sm \<and> co_deleted_at cm = None
        \<and> is_member_of (co_channel_id cm) account_id s,
      t \<leftarrow> threads s, t_id t = co_thread_id cm \<and> t_deleted_at t = None,
      ch \<leftarrow> channels s, c_id ch = co_channel_id cm,
      a \<leftarrow> accounts s, a_id a = co_author_id cm]"

text \<open>The account's own seat in a conversation and the other one, as \<open>me\<close> and \<open>other\<close>.\<close>

definition dm_peers :: "str \<Rightarrow> str \<Rightarrow> world \<Rightarrow> account_row list" where
  "dm_peers account_id conversation_id s =
     [peer. me \<leftarrow> conversation_members s, is_conversation_member conversation_id account_id me,
        other \<leftarrow> conversation_members s, vm_conversation_id other = conversation_id \<and> vm_account_id other \<noteq> account_id,
        peer \<leftarrow> accounts s, a_id peer = vm_account_id other]"

definition saved_dms :: "str \<Rightarrow> world \<Rightarrow> saved_item list" where
  "saved_dms account_id s =
     [\<lparr>sv_kind = SavedDm, sv_source_id = s_source_id sm, sv_source_index = d_index dm,
       sv_author = a_username a, sv_body = sanitize_stored_text (d_body dm),
       sv_source_label = sanitize_single_line_text (dm_source_label peer), sv_channel_slug = None,
       sv_thread_title = None, sv_dm_peer_username = Some (sanitize_single_line_text (a_username peer)),
       sv_saved_at = s_saved_at sm, sv_created_at = d_created_at dm, sv_channel_id = None,
       sv_thread_id = None, sv_conversation_id = Some (v_id conv)\<rparr>.
      sm \<leftarrow> saved_messages s, s_account_id sm = account_id \<and> s_source_kind sm = SDm,
      dm \<leftarrow> messages s, d_id dm = s_source_id sm \<and> d_deleted_at dm = None,
      conv \<leftarrow> conversations s, v_id conv = d_conversation_id dm,
      a \<leftarrow> accounts s, a_id a = d_author_id dm,
      peer \<leftarrow> dm_peers account_id (v_id conv) s]"

definition saved_order :: "saved_item \<Rightarrow> str desc \<times> str desc" where
  "saved_order i = (Desc (sv_saved_at i), Desc (sv_source_id i))"

definition saved_after :: "str list \<Rightarrow> saved_item \<Rightarrow> bool" where
  "saved_after c i = older_than c (sv_saved_at i) (sv_source_id i)"

definition saved_cursor :: "saved_item \<Rightarrow> str list" where
  "saved_cursor i = [sv_saved_at i, sv_source_id i]"

definition load_saved_messages_page :: "codec \<Rightarrow> str \<Rightarrow> page_request \<Rightarrow> world \<Rightarrow> err + saved_item page" where
  "load_saved_messages_page C account_id request s =
     pop_pages C saved_order saved_after 2 (\<lambda>i. i) saved_cursor 500
       (saved_comments account_id s @ saved_dms account_id s) request"

definition load_saved_messages :: "codec \<Rightarrow> str \<Rightarrow> int \<Rightarrow> world \<Rightarrow> err + (saved_item list \<times> bool)" where
  "load_saved_messages C account_id limit s =
     map_sum (\<lambda>e. e) (\<lambda>p. (pg_items p, has_more p)) (load_saved_messages_page C account_id (first_page limit) s)"

text \<open>The count joins neither the channel nor the author.\<close>

definition load_saved_message_count :: "str \<Rightarrow> world \<Rightarrow> int" where
  "load_saved_message_count account_id s =
     int (length ([sm. sm \<leftarrow> saved_messages s, s_account_id sm = account_id \<and> s_source_kind sm = SComment,
            cm \<leftarrow> comments s, co_id cm = s_source_id sm \<and> co_deleted_at cm = None
              \<and> is_member_of (co_channel_id cm) account_id s,
            t \<leftarrow> threads s, t_id t = co_thread_id cm \<and> t_deleted_at t = None]
       @ [sm. sm \<leftarrow> saved_messages s, s_account_id sm = account_id \<and> s_source_kind sm = SDm,
            dm \<leftarrow> messages s, d_id dm = s_source_id sm \<and> d_deleted_at dm = None,
            conv \<leftarrow> conversations s, v_id conv = d_conversation_id dm,
            peer \<leftarrow> dm_peers account_id (v_id conv) s]))"

section \<open>Labels\<close>

datatype label_feed_kind = LabelThread | LabelComment | LabelDm

record label_item =
  lf_kind :: label_feed_kind
  lf_source_id :: str
  lf_source_index :: "int option"
  lf_author :: str
  lf_body :: str
  lf_source_label :: str
  lf_channel_slug :: "str option"
  lf_thread_title :: "str option"
  lf_dm_peer_username :: "str option"
  lf_created_at :: str
  lf_channel_id :: "str option"
  lf_thread_id :: "str option"
  lf_conversation_id :: "str option"

definition labelled_threads :: "str \<Rightarrow> str \<Rightarrow> world \<Rightarrow> label_item list" where
  "labelled_threads account_id tag s =
     [\<lparr>lf_kind = LabelThread, lf_source_id = t_id t, lf_source_index = None, lf_author = a_username a,
       lf_body = sanitize_stored_text (if t_body t = [] then t_title t else t_body t),
       lf_source_label = sanitize_single_line_text (thread_source_label ch t),
       lf_channel_slug = Some (sanitize_single_line_text (c_slug ch)),
       lf_thread_title = Some (sanitize_single_line_text (t_title t)), lf_dm_peer_username = None,
       lf_created_at = lb_created_at mh, lf_channel_id = Some (c_id ch), lf_thread_id = Some (t_id t),
       lf_conversation_id = None\<rparr>.
      mh \<leftarrow> labels s, lb_tag mh = tag \<and> lb_source_kind mh = SThread,
      t \<leftarrow> threads s, t_id t = lb_source_id mh \<and> t_deleted_at t = None
        \<and> is_member_of (t_channel_id t) account_id s,
      ch \<leftarrow> channels s, c_id ch = t_channel_id t,
      a \<leftarrow> accounts s, a_id a = t_creator_id t]"

definition labelled_comments :: "str \<Rightarrow> str \<Rightarrow> world \<Rightarrow> label_item list" where
  "labelled_comments account_id tag s =
     [\<lparr>lf_kind = LabelComment, lf_source_id = co_id cm, lf_source_index = Some (co_index cm),
       lf_author = a_username a, lf_body = sanitize_stored_text (co_body cm),
       lf_source_label = sanitize_single_line_text (thread_source_label ch t),
       lf_channel_slug = Some (sanitize_single_line_text (c_slug ch)),
       lf_thread_title = Some (sanitize_single_line_text (t_title t)), lf_dm_peer_username = None,
       lf_created_at = lb_created_at mh, lf_channel_id = Some (c_id ch), lf_thread_id = Some (t_id t),
       lf_conversation_id = None\<rparr>.
      mh \<leftarrow> labels s, lb_tag mh = tag \<and> lb_source_kind mh = SComment,
      cm \<leftarrow> comments s, co_id cm = lb_source_id mh \<and> co_deleted_at cm = None
        \<and> is_member_of (co_channel_id cm) account_id s,
      t \<leftarrow> threads s, t_id t = co_thread_id cm \<and> t_deleted_at t = None,
      ch \<leftarrow> channels s, c_id ch = co_channel_id cm,
      a \<leftarrow> accounts s, a_id a = co_author_id cm]"

definition labelled_dms :: "str \<Rightarrow> str \<Rightarrow> world \<Rightarrow> label_item list" where
  "labelled_dms account_id tag s =
     [\<lparr>lf_kind = LabelDm, lf_source_id = d_id dm, lf_source_index = Some (d_index dm),
       lf_author = a_username a, lf_body = sanitize_stored_text (d_body dm),
       lf_source_label = sanitize_single_line_text (dm_source_label peer), lf_channel_slug = None,
       lf_thread_title = None, lf_dm_peer_username = Some (sanitize_single_line_text (a_username peer)),
       lf_created_at = lb_created_at mh, lf_channel_id = None, lf_thread_id = None,
       lf_conversation_id = Some (v_id conv)\<rparr>.
      mh \<leftarrow> labels s, lb_tag mh = tag \<and> lb_source_kind mh = SDm,
      dm \<leftarrow> messages s, d_id dm = lb_source_id mh \<and> d_deleted_at dm = None,
      conv \<leftarrow> conversations s, v_id conv = d_conversation_id dm,
      a \<leftarrow> accounts s, a_id a = d_author_id dm,
      peer \<leftarrow> dm_peers account_id (v_id conv) s]"

definition label_order :: "label_item \<Rightarrow> str desc \<times> str desc" where
  "label_order i = (Desc (lf_created_at i), Desc (lf_source_id i))"

definition label_after :: "str list \<Rightarrow> label_item \<Rightarrow> bool" where
  "label_after c i = older_than c (lf_created_at i) (lf_source_id i)"

definition label_cursor :: "label_item \<Rightarrow> str list" where
  "label_cursor i = [lf_created_at i, lf_source_id i]"

definition load_label_feed_page :: "codec \<Rightarrow> str \<Rightarrow> str \<Rightarrow> page_request \<Rightarrow> world \<Rightarrow> err + label_item page" where
  "load_label_feed_page C account_id tag_arg request s =
     (case normalize_label tag_arg of None \<Rightarrow> Inl (Msg (lit ''Label is required''))
      | Some tag \<Rightarrow> pop_pages C label_order label_after 2 (\<lambda>i. i) label_cursor 500
          (labelled_threads account_id tag s @ labelled_comments account_id tag s @ labelled_dms account_id tag s)
          request)"

section \<open>Hot labels\<close>

record hot_label =
  hl_tag :: str
  hl_count :: int
  hl_latest_at :: str

text \<open>
  What the source leaves to SQLite: \<open>sq_within n t d\<close> is
  \<open>julianday('now') - julianday(t) <= d\<close> at clock reading \<open>n\<close>, false when \<open>t\<close> is no date; and the
  full-text engine: \<open>sq_match\<close> is \<open>MATCH\<close> with its rank, \<open>None\<close> for a query the engine rejects.
  Ranks are REAL numbers, written in the cursor with \<open>printf('%.17g', ...)\<close> and read back with
  \<open>CAST(... AS REAL)\<close>; nothing but their order is used.
\<close>

record 'k sqlite =
  sq_within :: "nat \<Rightarrow> str \<Rightarrow> nat \<Rightarrow> bool"
  sq_match :: "search_index_row list \<Rightarrow> str \<Rightarrow> (search_index_row \<Rightarrow> 'k option) option"
  sq_print :: "'k \<Rightarrow> str"
  sq_cast :: "str \<Rightarrow> 'k"

text \<open>The filter of hot labels and search: the source is not deleted and its place is the account's.\<close>

definition source_shown ::
    "str \<Rightarrow> source_kind \<Rightarrow> str option \<Rightarrow> str option \<Rightarrow> thread_row option \<Rightarrow> comment_row option
      \<Rightarrow> message_row option \<Rightarrow> world \<Rightarrow> bool" where
  "source_shown account_id kind channel_id conversation_id t cm dm s \<longleftrightarrow>
     (kind \<in> {SThread, SComment}
        \<and> (case t of None \<Rightarrow> True | Some t \<Rightarrow> t_deleted_at t = None)
        \<and> (case cm of None \<Rightarrow> True | Some cm \<Rightarrow> co_deleted_at cm = None)
        \<and> (case channel_id of None \<Rightarrow> False | Some c \<Rightarrow> is_member_of c account_id s))
     \<or> (kind = SDm
        \<and> (case dm of None \<Rightarrow> True | Some dm \<Rightarrow> d_deleted_at dm = None)
        \<and> (case conversation_id of None \<Rightarrow> False
           | Some c \<Rightarrow> list_ex (is_conversation_member c account_id) (conversation_members s)))"

definition hot_rows :: "str \<Rightarrow> world \<Rightarrow> label_row list" where
  "hot_rows account_id s =
     [mh. mh \<leftarrow> labels s,
        t \<leftarrow> left_join (\<lambda>t. Some (t_id t) = lb_thread_id mh) (threads s),
        cm \<leftarrow> left_join (\<lambda>c. lb_source_kind mh = SComment \<and> co_id c = lb_source_id mh) (comments s),
        dm \<leftarrow> left_join (\<lambda>d. lb_source_kind mh = SDm \<and> d_id d = lb_source_id mh) (messages s),
        source_shown account_id (lb_source_kind mh) (lb_channel_id mh) (lb_conversation_id mh) t cm dm s]"

definition hot_points :: "'k sqlite \<Rightarrow> nat \<Rightarrow> label_row \<Rightarrow> int" where
  "hot_points Q n mh =
     (if sq_within Q n (lb_created_at mh) 1 then 20 else if sq_within Q n (lb_created_at mh) 7 then 6
      else if sq_within Q n (lb_created_at mh) 30 then 2 else 1)"

definition tag_rows :: "str \<Rightarrow> label_row list \<Rightarrow> label_row list" where
  "tag_rows tag rows = filter (\<lambda>l. lb_tag l = tag) rows"

definition hot_label_of :: "label_row list \<Rightarrow> str \<Rightarrow> hot_label" where
  "hot_label_of rows tag =
     \<lparr>hl_tag = tag, hl_count = int (length (tag_rows tag rows)),
      hl_latest_at = foldr max (map lb_created_at (tag_rows tag rows)) []\<rparr>"

definition hot_score :: "'k sqlite \<Rightarrow> nat \<Rightarrow> label_row list \<Rightarrow> str \<Rightarrow> int" where
  "hot_score Q n rows tag = sum_list (map (hot_points Q n) (tag_rows tag rows))"

definition hot_order :: "'k sqlite \<Rightarrow> nat \<Rightarrow> label_row list \<Rightarrow> hot_label \<Rightarrow> int desc \<times> str desc \<times> str" where
  "hot_order Q n rows h = (Desc (hot_score Q n rows (hl_tag h)), Desc (hl_latest_at h), hl_tag h)"

definition load_hot_labels :: "'k sqlite \<Rightarrow> str \<Rightarrow> int \<Rightarrow> hot_label list wtx" where
  "load_hot_labels Q account_id limit =
     bnd (gets (hot_rows account_id)) (\<lambda>rows.
     bnd (draw (\<lambda>n. n)) (\<lambda>n.
     ret (take (nat (page_limit limit 50))
       (sort_key (hot_order Q n rows) (map (hot_label_of rows) (remdups (map lb_tag rows)))))))"

section \<open>Search\<close>

datatype search_kind = SearchThread | SearchComment | SearchDm

record search_result =
  sr_kind :: search_kind
  sr_label :: str
  sr_context :: str
  sr_snippet :: str
  sr_channel_id :: "str option"
  sr_thread_id :: "str option"
  sr_conversation_id :: "str option"

text \<open>\<open>str::find\<close>: the byte offset of the first occurrence.\<close>

fun str_find :: "str \<Rightarrow> str \<Rightarrow> nat option" where
  "str_find needle [] = (if needle = [] then Some 0 else None)"
| "str_find needle (c # s) =
     (if take (length needle) (c # s) = needle then Some 0
      else map_option (\<lambda>i. utf8_width c + i) (str_find needle s))"

definition replace_char :: "uchar \<Rightarrow> uchar \<Rightarrow> str \<Rightarrow> str" where
  "replace_char a b s = map (\<lambda>c. if c = a then b else c) s"

text \<open>The offset found in bytes of the lower-case text is used to skip characters of the text.\<close>

definition snippet :: "env \<Rightarrow> str \<Rightarrow> str \<Rightarrow> str" where
  "snippet E text_arg query =
     (let text = replace_char c_nl c_space text_arg;
          start = (case str_find (e_lc E query) (e_lc E text) of None \<Rightarrow> 0 | Some i \<Rightarrow> i - 32);
          cut = take 140 (drop start text);
          out = (if 0 < start then lit ''...'' @ cut else cut)
      in if start + length out < length text then out @ lit ''...'' else out)"

definition search_kind_of :: "source_kind \<Rightarrow> search_kind" where
  "search_kind_of k = (case k of SThread \<Rightarrow> SearchThread | SComment \<Rightarrow> SearchComment | SDm \<Rightarrow> SearchDm)"

definition search_result_of :: "env \<Rightarrow> str \<Rightarrow> search_index_row \<Rightarrow> search_result" where
  "search_result_of E search r =
     (let kind = search_kind_of (si_kind r);
          title = sanitize_single_line_text (si_title r);
          body = sanitize_stored_text (si_body r)
      in \<lparr>sr_kind = kind,
          sr_label = (case kind of SearchThread \<Rightarrow> title | SearchComment \<Rightarrow> title @ lit '' comment'' | SearchDm \<Rightarrow> lit ''DM''),
          sr_context = sanitize_single_line_text (si_context r),
          sr_snippet = snippet E (title @ [c_nl] @ body) search,
          sr_channel_id = si_channel_id r, sr_thread_id = si_thread_id r,
          sr_conversation_id = si_conversation_id r\<rparr>)"

definition search_rows :: "(search_index_row \<Rightarrow> 'k option) \<Rightarrow> str \<Rightarrow> world \<Rightarrow> (search_index_row \<times> 'k) list" where
  "search_rows match account_id s =
     [(r, rank). r \<leftarrow> search_index s, rank \<leftarrow> (case match r of None \<Rightarrow> [] | Some k \<Rightarrow> [k]),
        c \<leftarrow> left_join (\<lambda>c. Some (c_id c) = si_channel_id r) (channels s),
        t \<leftarrow> left_join (\<lambda>t. Some (t_id t) = si_thread_id r) (threads s),
        cm \<leftarrow> left_join (\<lambda>c. si_kind r = SComment \<and> co_id c = si_object_id r) (comments s),
        dm \<leftarrow> left_join (\<lambda>d. si_kind r = SDm \<and> d_id d = si_object_id r) (messages s),
        source_shown account_id (si_kind r) (si_channel_id r) (si_conversation_id r) t cm dm s]"

definition search_order :: "search_index_row \<times> 'k \<Rightarrow> 'k \<times> str" where
  "search_order = (\<lambda>(r, rank). (rank, si_object_id r))"

definition search_after :: "'k::linorder sqlite \<Rightarrow> str list \<Rightarrow> search_index_row \<times> 'k \<Rightarrow> bool" where
  "search_after Q c = (\<lambda>(r, rank). sq_cast Q (c ! 0) < rank \<or> (rank = sq_cast Q (c ! 0) \<and> c ! 1 < si_object_id r))"

definition search_cursor :: "'k sqlite \<Rightarrow> search_index_row \<times> 'k \<Rightarrow> str list" where
  "search_cursor Q = (\<lambda>(r, rank). [sq_print Q rank, si_object_id r])"

text \<open>The loop keeps the cursor of the row before.\<close>

fun search_loop ::
    "('r \<Rightarrow> str) \<Rightarrow> ('r \<Rightarrow> 'i) \<Rightarrow> nat \<Rightarrow> nat \<Rightarrow> str option \<Rightarrow> 'i list \<Rightarrow> 'r list \<Rightarrow> 'i page" where
  "search_loop cur item limit idx last_cursor results [] = \<lparr>pg_items = results, pg_next = None\<rparr>"
| "search_loop cur item limit idx last_cursor results (row # rows) =
     (if idx = limit then \<lparr>pg_items = results, pg_next = last_cursor\<rparr>
      else search_loop cur item limit (Suc idx) (Some (cur row)) (results @ [item row]) rows)"

definition search_pages ::
    "env \<Rightarrow> codec \<Rightarrow> 'k::linorder sqlite \<Rightarrow> str \<Rightarrow> (search_index_row \<times> 'k) list \<Rightarrow> page_request
      \<Rightarrow> err + search_result page" where
  "search_pages E C Q search rows request =
     (let limit = page_limit (pr_limit request) 500
      in case decode_cursor C (pr_cursor request) 2 of Inl e \<Rightarrow> Inl e
         | Inr cursor \<Rightarrow>
             Inr (search_loop (\<lambda>r. encode_cursor C (search_cursor Q r)) (\<lambda>r. search_result_of E search (fst r))
                   (nat limit) 0 None [] (sql_page search_order (search_after Q) cursor limit rows)))"

definition search_visible_page ::
    "env \<Rightarrow> codec \<Rightarrow> 'k::linorder sqlite \<Rightarrow> str \<Rightarrow> str \<Rightarrow> page_request \<Rightarrow> search_result page wtx" where
  "search_visible_page E C Q account_id search_arg request =
     (let search = trim search_arg in
      thn (ensure (search \<noteq> []) (lit ''Search query is required''))
      (bnd (lift_res (decode_cursor C (pr_cursor request) 2)) (\<lambda>_.
      bnd (gets (\<lambda>s. sq_match Q (search_index s) (fts_query search))) (\<lambda>match.
      case match of None \<Rightarrow> fail (Constraint ''search_index'')
      | Some match \<Rightarrow>
          bnd (gets (\<lambda>s. search_pages E C Q search (search_rows match account_id s) request)) lift_res))))"

definition search_visible ::
    "env \<Rightarrow> codec \<Rightarrow> 'k::linorder sqlite \<Rightarrow> str \<Rightarrow> str \<Rightarrow> int \<Rightarrow> search_result page wtx" where
  "search_visible E C Q account_id search limit = search_visible_page E C Q account_id search (first_page limit)"

section \<open>Feeds as keysets\<close>

interpretation notification_feed:
  keyset notification_order notification_after 2 "\<lambda>n. n" notification_cursor "\<lambda>_. True"
  by unfold_locales
     (auto simp: notification_order_def notification_after_def notification_cursor_def older_than_def pair_less)

interpretation saved_feed: keyset saved_order saved_after 2 "\<lambda>i. i" saved_cursor "\<lambda>_. True"
  by unfold_locales (auto simp: saved_order_def saved_after_def saved_cursor_def older_than_def pair_less)

interpretation label_feed: keyset label_order label_after 2 "\<lambda>i. i" label_cursor "\<lambda>_. True"
  by unfold_locales (auto simp: label_order_def label_after_def label_cursor_def older_than_def pair_less)

text \<open>
  Search shows items that no longer carry the rank, so the keyset is that of the rows; a rank
  must survive being written to a cursor.
\<close>

definition ranked :: "'k sqlite \<Rightarrow> search_index_row \<times> 'k \<Rightarrow> bool" where
  "ranked Q = (\<lambda>(r, rank). sq_cast Q (sq_print Q rank) = rank)"

interpretation search_feed: keyset search_order "search_after Q" 2 "\<lambda>r. r" "search_cursor Q" "ranked Q" for Q
  by unfold_locales (auto simp: search_order_def search_after_def search_cursor_def ranked_def pair_less)

lemma search_loop_eq:
  assumes "length results = idx" "idx \<le> limit" "results \<noteq> [] \<longrightarrow> last_cursor = Some (cur (last shown))" "results = map item shown" "1 \<le> limit"
  shows "search_loop cur item limit idx last_cursor results rows =
    (let p = page_loop cur limit idx shown rows in \<lparr>pg_items = map item (pg_items p), pg_next = pg_next p\<rparr>)"
  using assms
proof (induction cur item limit idx last_cursor results rows arbitrary: shown rule: search_loop.induct)
  case (2 cur item limit idx last_cursor results row rows)
  show ?case
  proof (cases "idx = limit")
    case True
    then show ?thesis using 2(2-) by auto
  next
    case False
    then show ?thesis using 2(1) [OF False, of "shown @ [row]"] 2(2-) by simp
  qed
qed simp

lemma search_pages_eq:
  "search_pages E C Q search rows request =
     map_sum (\<lambda>e. e) (\<lambda>p. \<lparr>pg_items = map (\<lambda>r. search_result_of E search (fst r)) (pg_items p), pg_next = pg_next p\<rparr>)
       (pages C search_order (search_after Q) 2 (\<lambda>r. r) (search_cursor Q) 500 rows request)"
proof -
  have "1 \<le> nat (page_limit l 500)" for l using page_limit_bounds [of 500 l] by linarith
  then have "search_loop cur item (nat (page_limit l 500)) 0 None [] rows
    = (let p = page_loop cur (nat (page_limit l 500)) 0 [] rows in \<lparr>pg_items = map item (pg_items p), pg_next = pg_next p\<rparr>)"
    for cur item l and rows :: "'x list"
    by (intro search_loop_eq) simp_all
  then show ?thesis by (auto simp: search_pages_def pages_def Let_def split: sum.splits)
qed

section \<open>What the feeds show\<close>

text \<open>A place of the account: a channel it is a member of, or a conversation it takes part in.\<close>

definition own_place :: "str \<Rightarrow> str option \<Rightarrow> str option \<Rightarrow> world \<Rightarrow> bool" where
  "own_place account_id channel_id conversation_id s \<longleftrightarrow>
     (\<exists>c. channel_id = Some c \<and> is_member_of c account_id s)
     \<or> (\<exists>v. conversation_id = Some v \<and> list_ex (is_conversation_member v account_id) (conversation_members s))"

lemma dm_peers_own: "peer \<in> set (dm_peers account_id v s) \<Longrightarrow> list_ex (is_conversation_member v account_id) (conversation_members s)"
  by (auto simp: dm_peers_def list_ex_iff split: if_splits)

lemma saved_own:
  "i \<in> set (saved_comments account_id s @ saved_dms account_id s) \<Longrightarrow> own_place account_id (sv_channel_id i) (sv_conversation_id i) s"
  by (auto simp: saved_comments_def saved_dms_def own_place_def split: if_splits dest: dm_peers_own)

lemma labelled_own:
  "i \<in> set (labelled_threads account_id tag s @ labelled_comments account_id tag s @ labelled_dms account_id tag s)
     \<Longrightarrow> own_place account_id (lf_channel_id i) (lf_conversation_id i) s"
  by (auto simp: labelled_threads_def labelled_comments_def labelled_dms_def own_place_def split: if_splits dest: dm_peers_own)

lemma source_shown_own: "source_shown account_id kind ch cv t cm dm s \<Longrightarrow> own_place account_id ch cv s"
  by (auto simp: source_shown_def own_place_def split: option.splits)

lemma search_own:
  "(r, rank) \<in> set (search_rows match account_id s) \<Longrightarrow> own_place account_id (si_channel_id r) (si_conversation_id r) s"
  by (auto simp: search_rows_def split: if_splits dest: source_shown_own)

lemma hot_own: "l \<in> set (hot_rows account_id s) \<Longrightarrow> own_place account_id (lb_channel_id l) (lb_conversation_id l) s"
  by (auto simp: hot_rows_def split: if_splits dest: source_shown_own)

lemma pages_items: "pages C key after n (\<lambda>i. i) parts mx rows request = Inr p \<Longrightarrow> set (pg_items p) \<subseteq> set rows"
  using pages_subset [where item = "\<lambda>i. i"] by fastforce

text \<open>A notification is shown as one item.\<close>

lemma notification_summary_one:
  assumes "keys_ok s"
  obtains x where "notification_summary_of s n = [x]" "ns_id x = n_id n" "ns_created_at x = n_created_at n"
    "ns_channel_id x = n_channel_id n" "ns_conversation_id x = n_conversation_id n"
proof -
  have one: "left_join (\<lambda>r. P \<and> Some (f r) = k) rows = [find (\<lambda>r. P \<and> Some (f r) = k) rows]" "left_join (\<lambda>r. Some (f r) = k) rows = [find (\<lambda>r. Some (f r) = k) rows]"
    if "distinct (map f rows)" for P f k and rows :: "'x list"
    by (rule left_join_unique [OF that], auto)+
  have "length (notification_summary_of s n) = Suc 0"
    by (simp add: notification_summary_of_def one keys_okD [OF assms])
  then obtain x where x: "notification_summary_of s n = [x]" by (auto simp: length_Suc_conv)
  then have "x \<in> set (notification_summary_of s n)" by simp
  then show ?thesis using x by (intro that [of x]) (auto simp: notification_summary_of_def)
qed

lemma notification_keys:
  assumes "keys_ok s"
  shows "distinct (map notification_order (notification_rows account_id s))"
proof -
  let ?N = "filter (shown_notification account_id s) (notifications s)"
  have "distinct (map n_id ?N)" using keys_okD(10) [OF assms] by (simp add: distinct_map_filter)
  then have "distinct (map ns_id (notification_rows account_id s))"
    unfolding notification_rows_def
    by (rule join_keys) (metis notification_summary_one [OF assms] length_Cons list.size(3) le_refl, metis notification_summary_one [OF assms] empty_iff empty_set list.set(2) insertE)
  then show ?thesis by (rule distinct_by) (simp add: notification_order_def)
qed

end
