(* ===== verification/Snapshots.thy ===== *)
theory Snapshots
  imports Feeds
begin

text \<open>
  The snapshot a client is shown (\<open>ServerState::snapshot_with_history_limit\<close> of
  \<open>features/system/state.rs\<close>) and the queries it is put together from
  (\<open>features/shared/loaders.rs\<close>): channels, threads, comments, conversations, reactions, presence
  and unread counts; the cache of hot labels, and the next unread place
  (\<open>messages/read_state.rs\<close>).
\<close>

section \<open>Reactions in a row\<close>

record reaction_summary =
  rx_emoji :: str
  rx_count :: int
  rx_mine :: bool

text \<open>\<open>str::split\<close> by a character; the pieces are never none.\<close>

fun split_on :: "uchar \<Rightarrow> str \<Rightarrow> str list" where
  "split_on sep [] = [[]]"
| "split_on sep (c # s) =
     (if c = sep then [] # split_on sep s
      else case split_on sep s of [] \<Rightarrow> [[c]] | p # ps \<Rightarrow> (c # p) # ps)"

definition is_displayable_reaction_emoji :: "str \<Rightarrow> bool" where
  "is_displayable_reaction_emoji emoji \<longleftrightarrow>
     emoji \<noteq> [] \<and> length emoji \<le> 8 \<and> \<not> list_ex (\<lambda>c. is_ascii_alphanumeric c \<or> is_control c) emoji"

definition parse_reaction_record :: "str \<Rightarrow> reaction_summary option" where
  "parse_reaction_record rec =
     (case split_on 31 rec of
        f # g # rest \<Rightarrow>
          (case parse_i64 g of None \<Rightarrow> None
           | Some count \<Rightarrow>
               let emoji = sanitize_single_line_text f
               in if count \<le> 0 \<or> \<not> is_displayable_reaction_emoji emoji then None
                  else Some \<lparr>rx_emoji = emoji, rx_count = count,
                             rx_mine = (case rest of m # _ \<Rightarrow> m = lit ''1'' | [] \<Rightarrow> False)\<rparr>)
      | _ \<Rightarrow> None)"

definition parse_reaction_summaries :: "str \<Rightarrow> reaction_summary list" where
  "parse_reaction_summaries value = List.map_filter parse_reaction_record (split_on 30 value)"

text \<open>
  The subquery: one record per emoji, in order, \<open>emoji || char(31) || count || char(31) || mine\<close>,
  joined with \<open>char(30)\<close>; \<open>COALESCE\<close> gives the empty text when there is none.
\<close>

definition source_reactions :: "source_kind \<Rightarrow> str \<Rightarrow> world \<Rightarrow> reaction_row list" where
  "source_reactions kind source_id s = filter (\<lambda>x. x_source_kind x = kind \<and> x_source_id x = source_id) (reactions s)"

definition reaction_groups :: "str \<Rightarrow> reaction_row list \<Rightarrow> reaction_summary list" where
  "reaction_groups account_id rows =
     map (\<lambda>e. \<lparr>rx_emoji = e, rx_count = int (length (filter (\<lambda>x. x_emoji x = e) rows)),
               rx_mine = list_ex (\<lambda>x. x_emoji x = e \<and> x_account_id x = account_id) rows\<rparr>)
       (sort (remdups (map x_emoji rows)))"

definition reaction_record :: "reaction_summary \<Rightarrow> str" where
  "reaction_record r = rx_emoji r @ [31] @ show_int (rx_count r) @ [31] @ (if rx_mine r then lit ''1'' else lit ''0'')"

definition reaction_text :: "str \<Rightarrow> source_kind \<Rightarrow> str \<Rightarrow> world \<Rightarrow> str" where
  "reaction_text account_id kind source_id s =
     join_str [30] (map reaction_record (reaction_groups account_id (source_reactions kind source_id s)))"

definition shown_reactions :: "str \<Rightarrow> source_kind \<Rightarrow> str \<Rightarrow> world \<Rightarrow> reaction_summary list" where
  "shown_reactions account_id kind source_id s = parse_reaction_summaries (reaction_text account_id kind source_id s)"

section \<open>People\<close>

record user_presence =
  up_username :: str
  up_display_name :: str
  up_last_seen_at :: "str option"
  up_connected :: bool

datatype presence_state = Online | Away | Offline

definition presence_state_of :: "env \<Rightarrow> nat \<Rightarrow> user_presence \<Rightarrow> presence_state" where
  "presence_state_of E n u =
     (if up_connected u then Online
      else case up_last_seen_at u of None \<Rightarrow> Offline
        | Some ts \<Rightarrow> (case e_parse E ts of None \<Rightarrow> Offline
            | Some seen \<Rightarrow> if max (whole_seconds (e_instant E n - seen)) 0 \<le> 3600 then Away else Offline))"

definition presence_state_label :: "presence_state \<Rightarrow> str" where
  "presence_state_label p = (case p of Online \<Rightarrow> lit ''online'' | Away \<Rightarrow> lit ''away'' | Offline \<Rightarrow> lit ''offline'')"

definition enabled_account :: "account_row \<Rightarrow> bool" where
  "enabled_account a \<longleftrightarrow> a_activated_at a \<noteq> None \<and> a_disabled_at a = None"

definition load_user_presence :: "str set \<Rightarrow> world \<Rightarrow> user_presence list" where
  "load_user_presence active_account_ids s =
     map (\<lambda>a. \<lparr>up_username = a_username a, up_display_name = sanitize_single_line_text (a_display_name a),
               up_last_seen_at = a_last_seen_at a, up_connected = (a_id a \<in> active_account_ids)\<rparr>)
       (sort_key a_username (filter enabled_account (accounts s)))"

record username_reservation =
  ur_username :: str
  ur_account_id :: str
  ur_current_username :: str

definition load_username_reservations :: "world \<Rightarrow> username_reservation list" where
  "load_username_reservations s =
     map (\<lambda>(r, a). \<lparr>ur_username = sanitize_single_line_text (rs_username r), ur_account_id = rs_account_id r,
                    ur_current_username = sanitize_single_line_text (a_username a)\<rparr>)
       (sort_key (\<lambda>(r, a). ascii_lowercase (rs_username r))
         [(r, a). r \<leftarrow> reservations s, a \<leftarrow> accounts s, a_id a = rs_account_id r \<and> enabled_account a])"

section \<open>Channels and threads\<close>

record channel =
  ci_id :: str
  ci_slug :: str
  ci_name :: str
  ci_visibility :: visibility
  ci_topic :: "str option"
  ci_unread :: int

text \<open>The account's row of a thread, by \<open>LEFT JOIN\<close>, and the unread counter shown of it.\<close>

definition reads_of :: "str \<Rightarrow> thread_row \<Rightarrow> world \<Rightarrow> thread_read_row option list" where
  "reads_of account_id t s = left_join (\<lambda>r. r_thread_id r = t_id t \<and> r_account_id r = account_id) (thread_reads s)"

definition shown_unread :: "str \<Rightarrow> thread_row \<Rightarrow> thread_read_row option \<Rightarrow> int" where
  "shown_unread n t r =
     (case r of None \<Rightarrow> t_comment_count t
      | Some r \<Rightarrow> if muted_at (r_muted_until r) n then 0 else r_unread r)"

definition channel_unread_sum :: "str \<Rightarrow> str \<Rightarrow> str \<Rightarrow> world \<Rightarrow> int" where
  "channel_unread_sum n account_id channel_id s =
     sum_list [shown_unread n t r. t \<leftarrow> threads s,
        t_channel_id t = channel_id \<and> t_deleted_at t = None \<and> t_archived_at t = None, r \<leftarrow> reads_of account_id t s]"

definition load_channels :: "env \<Rightarrow> str \<Rightarrow> channel list wtx" where
  "load_channels E account_id =
     bnd (now E) (\<lambda>n. gets (\<lambda>s.
       map (\<lambda>c. \<lparr>ci_id = c_id c, ci_slug = c_slug c, ci_name = c_name c, ci_visibility = c_visibility c,
                 ci_topic = map_option sanitize_single_line_text (c_topic c),
                 ci_unread = channel_unread_sum n account_id (c_id c) s\<rparr>)
         (sort_key (\<lambda>c. (slug_group (c_slug c), c_slug c))
           (filter (\<lambda>c. c_archived_at c = None \<and> is_member_of (c_id c) account_id s) (channels s)))))"

record thread_item =
  ti_id :: str
  ti_channel_id :: str
  ti_title :: str
  ti_body :: str
  ti_author :: str
  ti_comment_count :: int
  ti_last_comment_index :: int
  ti_unread :: int
  ti_last_activity_at :: "str option"
  ti_created_at :: str
  ti_edited_at :: "str option"
  ti_archived_at :: "str option"
  ti_pinned_at :: "str option"
  ti_muted_until :: "str option"
  ti_saved_at :: "str option"
  ti_reactions :: "reaction_summary list"

text \<open>NULLs of \<open>pinned_at DESC\<close> only meet NULLs, as the flag before it sorts first.\<close>

definition thread_item_order :: "thread_item \<Rightarrow> bool \<times> str desc \<times> str desc \<times> str desc" where
  "thread_item_order t =
     (ti_pinned_at t = None, Desc (case ti_pinned_at t of None \<Rightarrow> [] | Some p \<Rightarrow> p),
      Desc (case ti_last_activity_at t of None \<Rightarrow> [] | Some a \<Rightarrow> a), Desc (ti_id t))"

definition thread_items :: "str \<Rightarrow> str \<Rightarrow> str \<Rightarrow> world \<Rightarrow> thread_item list" where
  "thread_items n account_id channel_id s =
     [\<lparr>ti_id = t_id t, ti_channel_id = t_channel_id t, ti_title = sanitize_single_line_text (t_title t),
       ti_body = sanitize_stored_text (t_body t), ti_author = a_username a, ti_comment_count = t_comment_count t,
       ti_last_comment_index = t_last_comment_index t, ti_unread = shown_unread n t r,
       ti_last_activity_at = Some (t_last_activity_at t), ti_created_at = t_created_at t,
       ti_edited_at = t_edited_at t, ti_archived_at = t_archived_at t, ti_pinned_at = t_pinned_at t,
       ti_muted_until = Option.bind r r_muted_until, ti_saved_at = Option.bind r r_saved_at,
       ti_reactions = shown_reactions account_id SThread (t_id t) s\<rparr>.
      t \<leftarrow> threads s, t_channel_id t = channel_id \<and> t_deleted_at t = None,
      a \<leftarrow> accounts s, a_id a = t_creator_id t, r \<leftarrow> reads_of account_id t s]"

definition load_threads :: "env \<Rightarrow> str \<Rightarrow> str \<Rightarrow> thread_item list wtx" where
  "load_threads E account_id channel_id =
     bnd (now E) (\<lambda>n. gets (\<lambda>s. take 200 (sort_key thread_item_order (thread_items n account_id channel_id s))))"

section \<open>Comments and messages\<close>

definition max_history_limit :: int where
  "max_history_limit = 5000"

definition default_history_limit :: int where
  "default_history_limit = 200"

record message_item =
  it_id :: str
  it_author :: str
  it_index :: int
  it_body :: str
  it_created_at :: str
  it_edited_at :: "str option"
  it_saved_at :: "str option"
  it_reactions :: "reaction_summary list"

definition saved_by :: "str \<Rightarrow> source_kind \<Rightarrow> str \<Rightarrow> world \<Rightarrow> saved_row option list" where
  "saved_by account_id kind source_id s =
     left_join (\<lambda>r. s_account_id r = account_id \<and> s_source_kind r = kind \<and> s_source_id r = source_id) (saved_messages s)"

definition comment_items :: "str \<Rightarrow> str \<Rightarrow> world \<Rightarrow> message_item list" where
  "comment_items account_id thread_id s =
     [\<lparr>it_id = co_id c, it_author = a_username a, it_index = co_index c, it_body = sanitize_stored_text (co_body c),
       it_created_at = co_created_at c, it_edited_at = co_edited_at c, it_saved_at = map_option s_saved_at sm,
       it_reactions = shown_reactions account_id SComment (co_id c) s\<rparr>.
      c \<leftarrow> comments s, co_thread_id c = thread_id \<and> co_deleted_at c = None,
      a \<leftarrow> accounts s, a_id a = co_author_id c, sm \<leftarrow> saved_by account_id SComment (co_id c) s]"

definition dm_items :: "str \<Rightarrow> str \<Rightarrow> world \<Rightarrow> message_item list" where
  "dm_items account_id conversation_id s =
     [\<lparr>it_id = d_id m, it_author = a_username a, it_index = d_index m, it_body = sanitize_stored_text (d_body m),
       it_created_at = d_created_at m, it_edited_at = d_edited_at m, it_saved_at = map_option s_saved_at sm,
       it_reactions = shown_reactions account_id SDm (d_id m) s\<rparr>.
      m \<leftarrow> messages s, d_conversation_id m = conversation_id \<and> d_deleted_at m = None,
      a \<leftarrow> accounts s, a_id a = d_author_id m, sm \<leftarrow> saved_by account_id SDm (d_id m) s]"

text \<open>
  The last \<open>limit + 1\<close> items by index, turned into ascending order; if there are more than the
  limit the first one is removed and only says so.
\<close>

definition latest_items :: "int \<Rightarrow> message_item list \<Rightarrow> message_item list \<times> bool" where
  "latest_items limit_arg items =
     (let limit = page_limit limit_arg max_history_limit;
          shown = sort_key it_index (take (nat (limit + 1)) (sort_key (\<lambda>i. Desc (it_index i)) items));
          more = limit < int (length shown)
      in (if more then tl shown else shown, more))"

definition load_comments :: "str \<Rightarrow> str \<Rightarrow> int \<Rightarrow> world \<Rightarrow> message_item list \<times> bool" where
  "load_comments account_id thread_id limit s = latest_items limit (comment_items account_id thread_id s)"

definition load_conversation_messages :: "str \<Rightarrow> str \<Rightarrow> int \<Rightarrow> world \<Rightarrow> message_item list \<times> bool" where
  "load_conversation_messages account_id conversation_id limit s =
     latest_items limit (dm_items account_id conversation_id s)"

record dm_item =
  ds_conversation_id :: "str option"
  ds_peer_username :: str
  ds_last_message_index :: int
  ds_unread :: int
  ds_last_activity_at :: "str option"
  ds_last_message_preview :: "str option"
  ds_muted_until :: "str option"
  ds_saved_at :: "str option"

definition latest_message :: "str \<Rightarrow> world \<Rightarrow> str option" where
  "latest_message conversation_id s =
     (case sort_key (\<lambda>m. Desc (d_index m))
         (filter (\<lambda>m. d_conversation_id m = conversation_id \<and> d_deleted_at m = None) (messages s)) of
        [] \<Rightarrow> None | m # _ \<Rightarrow> Some (d_body m))"

definition dm_item_order :: "dm_item \<Rightarrow> str desc \<times> str" where
  "dm_item_order i = (Desc (case ds_last_activity_at i of None \<Rightarrow> [] | Some a \<Rightarrow> a), ascii_lowercase (ds_peer_username i))"

definition load_dm_sidebar :: "env \<Rightarrow> str \<Rightarrow> dm_item list wtx" where
  "load_dm_sidebar E account_id =
     bnd (now E) (\<lambda>n. gets (\<lambda>s. sort_key dm_item_order
       [\<lparr>ds_conversation_id = Some (v_id c), ds_peer_username = a_username peer, ds_last_message_index = v_last_index c,
         ds_unread = (if muted_at (vm_muted_until me) n then 0 else vm_unread me),
         ds_last_activity_at = Some (v_last_activity_at c),
         ds_last_message_preview = map_option sanitize_single_line_text (latest_message (v_id c) s),
         ds_muted_until = vm_muted_until me, ds_saved_at = vm_saved_at me\<rparr>.
        me \<leftarrow> conversation_members s, vm_account_id me = account_id,
        other \<leftarrow> conversation_members s,
          vm_conversation_id other = vm_conversation_id me \<and> vm_account_id other \<noteq> account_id,
        peer \<leftarrow> accounts s, a_id peer = vm_account_id other \<and> enabled_account peer,
        c \<leftarrow> conversations s, v_id c = vm_conversation_id me \<and> v_archived_at c = None]))"

section \<open>The cache of hot labels\<close>

type_synonym hot_cache = "str \<times> int \<Rightarrow> (int \<times> hot_label list) option"

definition last_event_seq :: "world \<Rightarrow> int" where
  "last_event_seq s = (case map ev_seq (event_log s) of [] \<Rightarrow> 0 | q # qs \<Rightarrow> fold max qs q)"

definition load_hot_labels_cached ::
    "'k sqlite \<Rightarrow> hot_cache \<Rightarrow> str \<Rightarrow> int \<Rightarrow> (hot_label list \<times> hot_cache) wtx" where
  "load_hot_labels_cached Q cache account_id limit_arg =
     (let limit = page_limit limit_arg 50; key = (account_id, limit) in
      bnd (gets last_event_seq) (\<lambda>seq_now.
      case cache key of
        Some (seq, hot) \<Rightarrow>
          if seq = seq_now then ret (hot, cache)
          else bnd (load_hot_labels Q account_id limit) (\<lambda>hot. ret (hot, cache(key \<mapsto> (seq_now, hot))))
      | None \<Rightarrow> bnd (load_hot_labels Q account_id limit) (\<lambda>hot. ret (hot, cache(key \<mapsto> (seq_now, hot))))))"

definition hot_label_cache_event_kind :: "str \<Rightarrow> bool" where
  "hot_label_cache_event_kind kind \<longleftrightarrow> kind \<in> set (map lit
     [''channel.created'', ''channel.member_added'', ''channel.member_removed'', ''channel.left'', ''channel.archived'',
      ''channel.unarchived'', ''thread.created'', ''thread.edited'', ''thread.archived'', ''thread.unarchived'',
      ''thread.deleted'', ''comment.created'', ''comment.edited'', ''comment.deleted'', ''conversation.opened'',
      ''conversation.message_created'', ''conversation.message_edited'', ''conversation.message_deleted'',
      ''invite.accepted'', ''account.bootstrapped'', ''user.disabled'', ''user.enabled''])"

definition invalidate_hot_label_cache :: "hot_cache \<Rightarrow> hot_cache" where
  "invalidate_hot_label_cache cache = (\<lambda>_. None)"

definition invalidate_hot_label_cache_for_event :: "event_row \<Rightarrow> hot_cache \<Rightarrow> hot_cache" where
  "invalidate_hot_label_cache_for_event event cache =
     (if hot_label_cache_event_kind (ev_kind event) then invalidate_hot_label_cache cache else cache)"

section \<open>The snapshot\<close>

record snapshot =
  sn_username :: "str option"
  sn_display_name :: "str option"
  sn_role :: "role option"
  sn_users :: "user_presence list"
  sn_reservations :: "username_reservation list"
  sn_ssh_keys :: "key_summary list"
  sn_channels :: "channel list"
  sn_threads :: "thread_item list"
  sn_comments :: "message_item list"
  sn_conversations :: "dm_item list"
  sn_dm_sidebar :: "dm_item list"
  sn_messages :: "message_item list"
  sn_comments_more :: bool
  sn_messages_more :: bool
  sn_saved_count :: int
  sn_hot_labels :: "hot_label list"
  sn_notifications :: "notification_summary list"
  sn_notifications_next :: "str option"
  sn_notification_unread :: int
  sn_mention_unread :: int
  sn_channel_id :: "str option"
  sn_thread_id :: "str option"
  sn_conversation_id :: "str option"

text \<open>
  \<open>Snapshot::default()\<close>; the search, saved and label pages that a snapshot leaves empty are the
  client's and have no field here.
\<close>

definition empty_snapshot :: snapshot where
  "empty_snapshot =
     \<lparr>sn_username = None, sn_display_name = None, sn_role = None, sn_users = [], sn_reservations = [],
      sn_ssh_keys = [], sn_channels = [], sn_threads = [], sn_comments = [], sn_conversations = [],
      sn_dm_sidebar = [], sn_messages = [], sn_comments_more = False, sn_messages_more = False,
      sn_saved_count = 0, sn_hot_labels = [], sn_notifications = [], sn_notifications_next = None,
      sn_notification_unread = 0, sn_mention_unread = 0, sn_channel_id = None, sn_thread_id = None,
      sn_conversation_id = None\<rparr>"

definition notification_unread_count :: "str \<Rightarrow> world \<Rightarrow> int" where
  "notification_unread_count account_id s =
     sql_count (\<lambda>n. shown_notification account_id s n \<and> n_read_at n = None) (notifications s)"

definition mention_unread_count :: "str \<Rightarrow> world \<Rightarrow> int" where
  "mention_unread_count account_id s =
     sql_count (\<lambda>m. mn_target_id m = account_id \<and> mn_read_at m = None \<and> mention_visible m s) (mentions s)"

definition selected :: "str option \<Rightarrow> (str \<Rightarrow> bool) \<Rightarrow> str option" where
  "selected choice p = (case choice of Some i \<Rightarrow> if p i then Some i else None | None \<Rightarrow> None)"

definition first_of :: "('a \<Rightarrow> str) \<Rightarrow> 'a list \<Rightarrow> str option" where
  "first_of f xs = (case xs of [] \<Rightarrow> None | x # _ \<Rightarrow> Some (f x))"

definition pick_channel :: "str option \<Rightarrow> str option \<Rightarrow> channel list \<Rightarrow> str option" where
  "pick_channel conversation choice chans =
     (if conversation \<noteq> None then None
      else or_else (selected choice (\<lambda>i. list_ex (\<lambda>c. ci_id c = i) chans)) (first_of ci_id chans))"

definition pick_thread :: "str option \<Rightarrow> thread_item list \<Rightarrow> str option" where
  "pick_thread choice items =
     or_else (selected choice (\<lambda>i. list_ex (\<lambda>t. ti_id t = i) items)) (first_of ti_id items)"

definition snapshot_with_history_limit ::
    "env \<Rightarrow> codec \<Rightarrow> 'k sqlite \<Rightarrow> str set \<Rightarrow> hot_cache \<Rightarrow> str \<Rightarrow> str option \<Rightarrow> str option \<Rightarrow> str option \<Rightarrow> int
      \<Rightarrow> (snapshot \<times> hot_cache) wtx" where
  "snapshot_with_history_limit E C Q connected cache account_id channel_choice thread_choice conversation_choice limit_arg =
     (let history_limit = page_limit limit_arg max_history_limit in
      bnd (load_account_tx account_id) (\<lambda>account.
      if \<not> ac_activated account then ret (empty_snapshot, cache) else
      bnd (load_channels E account_id) (\<lambda>chans.
      bnd (load_active_presence_sessions E) (\<lambda>present.
      bnd (gets (load_user_presence (present \<union> connected))) (\<lambda>users.
      bnd (gets load_username_reservations) (\<lambda>reserved.
      bnd (gets (load_my_ssh_keys account_id)) (\<lambda>keys.
      bnd (load_dm_sidebar E account_id) (\<lambda>sidebar.
      let convs = filter (\<lambda>d. ds_conversation_id d \<noteq> None) sidebar in
      bnd (gets (load_saved_message_count account_id)) (\<lambda>saved_count.
      bnd (load_hot_labels_cached Q cache account_id 12) (\<lambda>(hot, cache).
      let conversation_id = selected conversation_choice (\<lambda>i. list_ex (\<lambda>d. ds_conversation_id d = Some i) convs);
          channel_id = pick_channel conversation_id channel_choice chans in
      bnd (case channel_id of None \<Rightarrow> ret [] | Some c \<Rightarrow> load_threads E account_id c) (\<lambda>items.
      let thread_id = pick_thread thread_choice items in
      bnd (case thread_id of None \<Rightarrow> ret ([], False)
           | Some t \<Rightarrow> gets (load_comments account_id t history_limit)) (\<lambda>(coms, coms_more).
      bnd (case conversation_id of None \<Rightarrow> ret ([], False)
           | Some v \<Rightarrow> gets (load_conversation_messages account_id v history_limit)) (\<lambda>(dms, dms_more).
      bnd (bnd (gets (load_notifications_page C account_id (first_page 20))) lift_res) (\<lambda>notes.
      bnd (gets (notification_unread_count account_id)) (\<lambda>note_count.
      bnd (gets (mention_unread_count account_id)) (\<lambda>mention_count.
      ret (\<lparr>sn_username = Some (ac_username account), sn_display_name = Some (ac_display_name account),
            sn_role = Some (ac_role account), sn_users = users, sn_reservations = reserved, sn_ssh_keys = keys,
            sn_channels = chans, sn_threads = items, sn_comments = coms, sn_conversations = convs,
            sn_dm_sidebar = sidebar, sn_messages = dms, sn_comments_more = coms_more, sn_messages_more = dms_more,
            sn_saved_count = saved_count, sn_hot_labels = hot, sn_notifications = pg_items notes,
            sn_notifications_next = pg_next notes, sn_notification_unread = note_count,
            sn_mention_unread = mention_count, sn_channel_id = channel_id, sn_thread_id = thread_id,
            sn_conversation_id = conversation_id\<rparr>, cache)))))))))))))))))"

definition online_user_count :: "env \<Rightarrow> nat \<Rightarrow> snapshot \<Rightarrow> nat" where
  "online_user_count E n sn = length (filter (\<lambda>u. presence_state_of E n u = Online) (sn_users sn))"

definition presence_for :: "env \<Rightarrow> nat \<Rightarrow> snapshot \<Rightarrow> str \<Rightarrow> presence_state" where
  "presence_for E n sn username =
     (case find (\<lambda>u. ascii_lowercase (up_username u) = ascii_lowercase username) (sn_users sn) of
        None \<Rightarrow> Offline | Some u \<Rightarrow> presence_state_of E n u)"

definition total_unread :: "snapshot \<Rightarrow> int" where
  "total_unread sn = sum_list (map ci_unread (sn_channels sn)) + sum_list (map ds_unread (sn_conversations sn))"

definition channel_unread :: "snapshot \<Rightarrow> str \<Rightarrow> int" where
  "channel_unread sn channel_id =
     (case find (\<lambda>c. ci_id c = channel_id) (sn_channels sn) of None \<Rightarrow> 0 | Some c \<Rightarrow> ci_unread c)"

section \<open>The next unread place\<close>

datatype next_unread = NextThread str str | NextConversation str

definition unread_threads :: "str \<Rightarrow> str \<Rightarrow> world \<Rightarrow> thread_row list" where
  "unread_threads n account_id s =
     [t. t \<leftarrow> threads s, t_deleted_at t = None \<and> t_archived_at t = None,
        c \<leftarrow> channels s, c_id c = t_channel_id t \<and> is_member_of (c_id c) account_id s,
        r \<leftarrow> reads_of account_id t s,
        \<not> (case r of None \<Rightarrow> False | Some r \<Rightarrow> muted_at (r_muted_until r) n)
        \<and> 0 < (case r of None \<Rightarrow> t_comment_count t | Some r \<Rightarrow> r_unread r)]"

definition unread_conversations :: "str \<Rightarrow> str \<Rightarrow> world \<Rightarrow> conversation_row list" where
  "unread_conversations n account_id s =
     [c. c \<leftarrow> conversations s, v_archived_at c = None,
        me \<leftarrow> conversation_members s, is_conversation_member (v_id c) account_id me
          \<and> 0 < vm_unread me \<and> \<not> muted_at (vm_muted_until me) n]"

definition next_unread :: "env \<Rightarrow> str \<Rightarrow> next_unread option wtx" where
  "next_unread E account_id =
     bnd (now E) (\<lambda>n.
     bnd (gets (\<lambda>s. sort_key (\<lambda>t. Desc (t_last_activity_at t)) (unread_threads n account_id s))) (\<lambda>rows.
     case rows of t # _ \<Rightarrow> ret (Some (NextThread (t_channel_id t) (t_id t)))
     | [] \<Rightarrow>
       bnd (now E) (\<lambda>n.
       bnd (gets (\<lambda>s. sort_key (\<lambda>c. Desc (v_last_activity_at c)) (unread_conversations n account_id s))) (\<lambda>rows.
       ret (case rows of [] \<Rightarrow> None | c # _ \<Rightarrow> Some (NextConversation (v_id c)))))))"

section \<open>Reactions arrive as they are stored\<close>

lemma split_on_plain: "c \<notin> set p \<Longrightarrow> split_on c p = [p]"
  by (induction p) simp_all

lemma split_on_append: "c \<notin> set p \<Longrightarrow> split_on c (p @ c # s) = p # split_on c s"
  by (induction p) simp_all

lemma split_on_join:
  assumes "ps \<noteq> []" "\<And>p. p \<in> set ps \<Longrightarrow> c \<notin> set p"
  shows "split_on c (join_str [c] ps) = ps"
  using assms by (induction "[c]" ps rule: join_str.induct) (simp_all add: split_on_plain split_on_append)

lemma show_int_plain: "0 \<le> i \<Longrightarrow> list_all is_ascii_digit (show_int i)"
  using show_nat_digits [of "nat i"] by (simp add: show_int_def)

lemma displayable_plain:
  assumes "is_displayable_reaction_emoji e"
  shows "31 \<notin> set e" "30 \<notin> set e" "sanitize_single_line_text e = e"
proof -
  have c: "\<And>c. c \<in> set e \<Longrightarrow> \<not> is_control c" using assms by (auto simp: is_displayable_reaction_emoji_def list_ex_iff)
  show "31 \<notin> set e" "30 \<notin> set e" using c [of 31] c [of 30] by (auto simp: is_control_def)
  show "sanitize_single_line_text e = e" by (rule line_fixed) (use c in auto)
qed

lemma parse_reaction_record_text:
  assumes "is_displayable_reaction_emoji (rx_emoji r)" "0 < rx_count r" "i64_ok (rx_count r)"
  shows "parse_reaction_record (reaction_record r) = Some r"
proof -
  have d: "31 \<notin> set (show_int (rx_count r))"
    using show_int_plain [of "rx_count r"] assms(2) by (auto simp: list_all_iff is_ascii_digit_def)
  have "split_on 31 (reaction_record r) = [rx_emoji r, show_int (rx_count r), if rx_mine r then lit ''1'' else lit ''0'']"
    unfolding reaction_record_def
    by (simp add: split_on_append displayable_plain [OF assms(1)] d) (simp add: lit_def)
  then show ?thesis
    using assms displayable_plain(3) [OF assms(1)] by (simp add: parse_reaction_record_def parse_show_int Let_def)
qed

lemma reaction_record_plain:
  assumes "is_displayable_reaction_emoji (rx_emoji r)" "0 < rx_count r"
  shows "30 \<notin> set (reaction_record r)"
proof -
  have "30 \<notin> set (show_int (rx_count r))"
    using show_int_plain [of "rx_count r"] assms(2) by (auto simp: list_all_iff is_ascii_digit_def)
  then show ?thesis using displayable_plain(2) [OF assms(1)] by (auto simp: reaction_record_def lit_def)
qed

lemma parse_reaction_texts:
  assumes "\<And>r. r \<in> set rs \<Longrightarrow> is_displayable_reaction_emoji (rx_emoji r) \<and> 0 < rx_count r \<and> i64_ok (rx_count r)"
  shows "parse_reaction_summaries (join_str [30] (map reaction_record rs)) = rs"
proof (cases "rs = []")
  case True
  then show ?thesis by (simp add: parse_reaction_summaries_def parse_reaction_record_def)
next
  case False
  have "List.map_filter parse_reaction_record (map reaction_record rs) = rs"
    using assms by (induction rs) (simp_all add: map_filter_simps parse_reaction_record_text)
  moreover have "split_on 30 (join_str [30] (map reaction_record rs)) = map reaction_record rs"
    using False assms by (intro split_on_join) (auto simp: reaction_record_plain)
  ultimately show ?thesis by (simp add: parse_reaction_summaries_def)
qed

text \<open>Stored reactions have passed \<open>validate_emoji\<close>, which asks for the same.\<close>

definition emojis_ok :: "world \<Rightarrow> bool" where
  "emojis_ok s \<longleftrightarrow> list_all (\<lambda>x. is_displayable_reaction_emoji (x_emoji x)) (reactions s)"

lemma validated_displayable: "validate_emoji e = Inr u \<Longrightarrow> is_displayable_reaction_emoji e"
  by (auto simp: validate_emoji_def is_displayable_reaction_emoji_def split: if_splits)

lemma keeps_emojis_same: "same reactions m \<Longrightarrow> keeps emojis_ok m"
  unfolding emojis_ok_def by (rule keeps_same)

lemma emojis_set_reaction: "keeps emojis_ok (set_reaction_tx E a k i e r)"
  unfolding set_reaction_tx_def keeps_def Let_def wp_simps upsert_reaction_def
  by (auto simp: emojis_ok_def list_all_iff sql_delete_def sql_upsert_def in_sql_update dest: validated_displayable)

lemma emojis_handle: "keeps emojis_ok (handle E q)"
proof (cases q)
  case (MessageRequest m)
  have parts: "keeps emojis_ok (thread_created E a t c sl ti b n)" "keeps emojis_ok (comment_created E a t c sl ti co i b n)"
    "keeps emojis_ok (dm_created E a v m i b n)" "keeps emojis_ok (reindex_thread t c ti b)" for a t c sl ti b n co i v m
    by (intro keeps_emojis_same same_intros; simp add: blind_def)+
  have "keeps emojis_ok (message_handler E m)"
    by (cases m; simp only: message_handler.simps handler_synonyms message_defs unit_of_def Let_def;
        intro parts emojis_set_reaction keeps_intros; intro keeps_emojis_same same_intros; simp add: insert_defs same_intros)
  with MessageRequest show ?thesis by simp
next
  case (ChannelRequest m)
  have "keeps emojis_ok (channel_handler E m)"
    by (intro keeps_emojis_same same_channels) (simp add: channel_blind_def blind_def)
  with ChannelRequest show ?thesis by simp
next
  case (AccountRequest m)
  have "keeps emojis_ok (account_handler E m)"
    by (intro keeps_emojis_same same_accounts) (simp_all add: presence_blind_def account_blind_def channel_blind_def blind_def)
  with AccountRequest show ?thesis by simp
qed

lemma reachable_emojis: "reachable E s \<Longrightarrow> emojis_ok s"
  by (rule reachable_keeps [OF emojis_handle]) (simp_all add: emojis_ok_def empty_world_def)

lemma shown_reactions_exact:
  assumes "emojis_ok s" "i64_ok (int (length (reactions s)))"
  shows "shown_reactions a kind i s = reaction_groups a (source_reactions kind i s)"
proof -
  let ?R = "source_reactions kind i s"
  have sub: "set ?R \<subseteq> set (reactions s)" by (auto simp: source_reactions_def)
  have "length (filter p ?R) \<le> length (reactions s)" for p
    unfolding source_reactions_def by (rule order_trans [OF length_filter_le length_filter_le])
  then have "i64_ok (int (length (filter p ?R)))" for p
    using assms(2) unfolding i64_ok_def by (meson order_trans of_nat_mono of_nat_0_le_iff neg_le_0_iff_le zero_le_numeral)
  moreover have "0 < length (filter (\<lambda>x. x_emoji x = x_emoji y) ?R)" if "y \<in> set ?R" for y
    using that by (auto simp: filter_empty_conv)
  ultimately show ?thesis
    using assms(1) sub unfolding shown_reactions_def reaction_text_def
    by (intro parse_reaction_texts) (auto simp: reaction_groups_def emojis_ok_def list_all_iff)
qed

section \<open>The end of a history\<close>

lemma sort_desc:
  assumes "distinct (map f xs)"
  shows "sort_key (\<lambda>x. Desc (f x)) xs = rev (sort_key f xs)"
proof -
  let ?g = "\<lambda>x. Desc (f x)" and ?S = "sort_key f xs"
  have "sorted (map ?g (rev ?S)) \<longleftrightarrow> sorted_wrt (\<lambda>x y. f x \<le> f y) ?S"
    by (simp add: sorted_map sorted_wrt_rev)
  then have s: "sorted (map ?g (rev ?S))"
    using sorted_sort_key [of f xs] by (simp add: sorted_map)
  have inj: "inj_on f (set xs)" using assms by (simp add: distinct_map)
  then have "inj_on ?g (set xs)" by (auto simp: inj_on_def)
  moreover have "distinct xs" using assms by (simp add: distinct_map)
  ultimately show ?thesis
    using s by (intro map_sorted_distinct_set_unique [of ?g]) (auto simp: distinct_map inj_on_def)
qed

lemma latest_items_eq:
  assumes "distinct (map it_index items)"
  shows "latest_items limit items =
    (let L = nat (page_limit limit max_history_limit); n = length items
     in (drop (n - L) (sort_key it_index items), L < n))"
proof -
  define L where "L = nat (page_limit limit max_history_limit)"
  define S where "S = sort_key it_index items"
  have b: "1 \<le> page_limit limit max_history_limit"
    using page_limit_bounds [of max_history_limit limit] by (simp add: max_history_limit_def)
  then have l: "nat (page_limit limit max_history_limit + 1) = Suc L" "\<And>k. page_limit limit max_history_limit < int k \<longleftrightarrow> L < k"
    by (auto simp: L_def)
  have n: "length S = length items" by (simp add: S_def)
  let ?D = "drop (length items - Suc L) S"
  have last: "take (Suc L) (sort_key (\<lambda>i. Desc (it_index i)) items) = rev ?D"
    using sort_desc [OF assms] n by (simp add: take_rev S_def)
  have turned: "sort_key it_index (rev (drop k S)) = drop k S" for k
  proof (rule map_sorted_distinct_set_unique [of it_index])
    have s: "sorted (map it_index S)" by (simp add: S_def)
    have d: "distinct (map it_index S)" using assms by (simp add: S_def distinct_map)
    show "sorted (map it_index (drop k S))" using s by (simp add: drop_map [symmetric] sorted_wrt_drop)
    show "distinct (map it_index (drop k S))" using d by (simp add: drop_map [symmetric] distinct_drop)
    then show "distinct (map it_index (sort_key it_index (rev (drop k S))))" by (simp add: distinct_map)
    then show "inj_on it_index (set (sort_key it_index (rev (drop k S))) \<union> set (drop k S))"
      by (simp add: distinct_map)
  qed simp_all
  have "latest_items limit items = (if L < length ?D then tl ?D else ?D, L < length ?D)"
    by (simp only: latest_items_def Let_def l last turned)
  also have "\<dots> = (drop (length items - L) S, L < length items)"
    using n by (auto simp: drop_Suc [symmetric] tl_drop Suc_diff_Suc)
  finally show ?thesis by (simp add: Let_def L_def S_def)
qed

lemma comment_items_index:
  assumes "keys_ok s" "counts_ok s"
  shows "distinct (map it_index (comment_items a th s))"
proof -
  have "distinct (map (\<lambda>(_, th, i, _). (th, i)) (map ckey (comments s)))"
    using counts_okD(1) [OF assms(2)] by (simp add: counts_wf_def keys_wf_def)
  then have d: "distinct (map (\<lambda>c. (co_thread_id c, co_index c)) (comments s))"
    by (simp add: ckey_def comp_def case_prod_unfold)
  have one: "left_join (\<lambda>r. s_account_id r = x \<and> s_source_kind r = k \<and> s_source_id r = i) (saved_messages s)
      = [find (\<lambda>r. s_account_id r = x \<and> s_source_kind r = k \<and> s_source_id r = i) (saved_messages s)]" for x k i
    by (rule left_join_unique [OF keys_okD(16) [OF assms(1)]]) (auto simp: saved_key_def)
  have "distinct (map (\<lambda>i. (th, it_index i)) (comment_items a th s))"
    unfolding comment_items_def
    by (rule join_keys [OF d])
       (auto intro!: one_match keys_okD(1) [OF assms(1)] simp: saved_by_def one split: if_splits)
  then show ?thesis by (rule distinct_by) simp
qed

section \<open>Only reading\<close>

text \<open>
  \<open>reads s m P\<close>: from \<open>s\<close>, at any reading of the clock, \<open>m\<close> changes nothing but the clock, which
  goes on, and its result is \<open>P\<close>.
\<close>

definition reads :: "world \<Rightarrow> 'a wtx \<Rightarrow> ('a \<Rightarrow> bool) \<Rightarrow> bool" where
  "reads s m P \<longleftrightarrow> (\<forall>k. wp m (\<lambda>a t. (\<exists>n\<ge>k. t = s\<lparr>tick := n\<rparr>) \<and> P a) (s\<lparr>tick := k\<rparr>))"

named_theorems reads_intros \<open>rules that carry reads through the text of a program\<close>

lemma readsD: "reads s m P \<Longrightarrow> m s = Inr (a, t) \<Longrightarrow> (\<exists>n. t = s\<lparr>tick := n\<rparr>) \<and> P a"
  by (auto simp: reads_def dest!: spec [where x = "tick s"] wpD)

lemma reads_later: "reads s m P \<Longrightarrow> m s = Inr (a, t) \<Longrightarrow> \<exists>n\<ge>tick s. t = s\<lparr>tick := n\<rparr>"
  by (auto simp: reads_def dest!: spec [where x = "tick s"] wpD)

lemma reads_mono: "reads s m P \<Longrightarrow> (\<And>a. P a \<Longrightarrow> R a) \<Longrightarrow> reads s m R"
  by (auto simp: reads_def intro: wp_mono)

lemma reads_bnd:
  assumes "reads s m P" "\<And>a. P a \<Longrightarrow> reads s (f a) R"
  shows "reads s (bnd m f) R"
  unfolding reads_def wp_bnd
proof
  fix k
  have "wp (f a) (\<lambda>a t. (\<exists>n\<ge>k. t = s\<lparr>tick := n\<rparr>) \<and> R a) t" if "(\<exists>n\<ge>k. t = s\<lparr>tick := n\<rparr>) \<and> P a" for a t
  proof -
    from that obtain n where "k \<le> n" "t = s\<lparr>tick := n\<rparr>" "P a" by blast
    with assms(2) [unfolded reads_def] show ?thesis by (auto intro: wp_mono order_trans)
  qed
  with assms(1) show "wp m (\<lambda>a. wp (f a) (\<lambda>a t. (\<exists>n\<ge>k. t = s\<lparr>tick := n\<rparr>) \<and> R a)) (s\<lparr>tick := k\<rparr>)"
    unfolding reads_def by (blast intro: wp_mono)
qed

lemma reads_ret: "P a \<Longrightarrow> reads s (ret a) P"
  by (auto simp: reads_def wp_ret)

lemma reads_fail: "reads s (fail e) P"
  by (simp add: reads_def wp_fail)

lemma reads_gets: "(\<And>k. P (f (s\<lparr>tick := k\<rparr>))) \<Longrightarrow> reads s (gets f) P"
  by (auto simp: reads_def wp_gets)

lemma reads_draw: "reads s (draw f) (\<lambda>_. True)"
proof -
  have "\<exists>n\<ge>k. s\<lparr>tick := Suc k\<rparr> = s\<lparr>tick := n\<rparr>" for k by (rule exI [of _ "Suc k"]) simp
  then show ?thesis by (simp add: reads_def wp_draw)
qed

lemma reads_same: "same (\<lambda>s. s) m \<Longrightarrow> reads s m (\<lambda>_. True)"
  unfolding reads_def by (auto intro!: wp_same [of "\<lambda>s. s"])

lemma reads_option: "(x = None \<Longrightarrow> reads s m P) \<Longrightarrow> (\<And>a. x = Some a \<Longrightarrow> reads s (f a) P) \<Longrightarrow>
    reads s (case x of None \<Rightarrow> m | Some a \<Rightarrow> f a) P"
  by (cases x) simp_all

lemma reads_if: "(b \<Longrightarrow> reads s m P) \<Longrightarrow> (\<not> b \<Longrightarrow> reads s n P) \<Longrightarrow> reads s (if b then m else n) P"
  by simp

text \<open>The tables do not depend on the clock.\<close>

lemma at_any_time [simp]:
  "is_member_of c a (s\<lparr>tick := k\<rparr>) = is_member_of c a s"
  "channel_unread_sum n a c (s\<lparr>tick := k\<rparr>) = channel_unread_sum n a c s"
  "thread_items n a c (s\<lparr>tick := k\<rparr>) = thread_items n a c s"
  "comment_items a i (s\<lparr>tick := k\<rparr>) = comment_items a i s"
  "dm_items a v (s\<lparr>tick := k\<rparr>) = dm_items a v s"
  "notification_rows a (s\<lparr>tick := k\<rparr>) = notification_rows a s"
  "notification_unread_count a (s\<lparr>tick := k\<rparr>) = notification_unread_count a s"
  "mention_unread_count a (s\<lparr>tick := k\<rparr>) = mention_unread_count a s"
  "latest_message v (s\<lparr>tick := k\<rparr>) = latest_message v s"
  by (simp_all add: is_member_of_def channel_unread_sum_def reads_of_def thread_items_def shown_reactions_def
      reaction_text_def source_reactions_def comment_items_def dm_items_def saved_by_def notification_rows_def
      notification_summary_of_def [abs_def] shown_notification_def [abs_def] notification_visible_def visible_source_def
      notification_unread_count_def mention_unread_count_def mention_visible_def latest_message_def
      cong: if_cong option.case_cong)

section \<open>A snapshot shows what is the account's\<close>

definition in_own_channel :: "str \<Rightarrow> world \<Rightarrow> channel \<Rightarrow> bool" where
  "in_own_channel a s ci \<longleftrightarrow> is_member_of (ci_id ci) a s
     \<and> list_ex (\<lambda>c. c_id c = ci_id ci \<and> c_archived_at c = None) (channels s)"

definition thread_of :: "world \<Rightarrow> thread_item \<Rightarrow> bool" where
  "thread_of s i \<longleftrightarrow> list_ex (\<lambda>t. t_id t = ti_id i \<and> t_channel_id t = ti_channel_id i \<and> t_deleted_at t = None) (threads s)"

definition comment_of :: "str \<Rightarrow> world \<Rightarrow> message_item \<Rightarrow> bool" where
  "comment_of th s i \<longleftrightarrow> list_ex (\<lambda>c. co_id c = it_id i \<and> co_thread_id c = th \<and> co_deleted_at c = None) (comments s)"

definition message_of :: "str \<Rightarrow> world \<Rightarrow> message_item \<Rightarrow> bool" where
  "message_of v s i \<longleftrightarrow> list_ex (\<lambda>m. d_id m = it_id i \<and> d_conversation_id m = v \<and> d_deleted_at m = None) (messages s)"

definition takes_seat :: "str \<Rightarrow> str \<Rightarrow> world \<Rightarrow> bool" where
  "takes_seat v a s \<longleftrightarrow> list_ex (is_conversation_member v a) (conversation_members s)"

text \<open>A key of the account, by its identity and fingerprint.\<close>

definition own_key :: "str \<Rightarrow> world \<Rightarrow> key_summary \<Rightarrow> bool" where
  "own_key a s i \<longleftrightarrow> list_ex (\<lambda>k. k_id k = ks_id i \<and> k_account_id k = a \<and> k_fingerprint k = ks_fingerprint i) (ssh_keys s)"

text \<open>A label that stands in a channel or conversation of the account.\<close>

definition own_hot :: "str \<Rightarrow> world \<Rightarrow> hot_label \<Rightarrow> bool" where
  "own_hot a s h \<longleftrightarrow> (\<exists>l\<in>set (labels s). lb_tag l = hl_tag h \<and> own_place a (lb_channel_id l) (lb_conversation_id l) s)"

definition confined :: "str \<Rightarrow> world \<Rightarrow> snapshot \<Rightarrow> bool" where
  "confined a s sn \<longleftrightarrow>
     list_all (own_key a s) (sn_ssh_keys sn)
     \<and> (sn = empty_snapshot \<or> sn_saved_count sn = load_saved_message_count a s
          \<and> sn_notification_unread sn = notification_unread_count a s \<and> sn_mention_unread sn = mention_unread_count a s)
     \<and> set (sn_conversations sn) \<subseteq> set (sn_dm_sidebar sn)
     \<and> list_all (in_own_channel a s) (sn_channels sn)
     \<and> (case sn_channel_id sn of None \<Rightarrow> sn_threads sn = []
        | Some c \<Rightarrow> list_ex (\<lambda>ci. ci_id ci = c) (sn_channels sn)
            \<and> list_all (\<lambda>i. ti_channel_id i = c \<and> thread_of s i) (sn_threads sn))
     \<and> (case sn_thread_id sn of None \<Rightarrow> sn_comments sn = []
        | Some th \<Rightarrow> list_ex (\<lambda>i. ti_id i = th) (sn_threads sn) \<and> list_all (comment_of th s) (sn_comments sn))
     \<and> (case sn_conversation_id sn of None \<Rightarrow> sn_messages sn = []
        | Some v \<Rightarrow> takes_seat v a s \<and> list_all (message_of v s) (sn_messages sn))
     \<and> list_all (\<lambda>i. \<exists>v. ds_conversation_id i = Some v \<and> takes_seat v a s) (sn_dm_sidebar sn)
     \<and> list_all (\<lambda>i. list_ex (\<lambda>n. n_id n = ns_id i \<and> shown_notification a s n) (notifications s)) (sn_notifications sn)"

lemma reads_channels: "reads s (load_channels E a) (list_all (in_own_channel a s))"
  unfolding load_channels_def now_def
  by (rule reads_bnd [OF reads_draw]) (auto intro!: reads_gets simp: list_all_iff in_own_channel_def list_ex_iff)

lemma thread_items_own: "list_all (\<lambda>i. ti_channel_id i = c \<and> thread_of s i) (thread_items n a c s)"
proof -
  have "thread_of s i" if "ti_id i = t_id t" "ti_channel_id i = t_channel_id t" "t \<in> set (threads s)" "t_deleted_at t = None" for i t
    using that by (auto simp: thread_of_def list_ex_iff)
  then show ?thesis by (auto simp: list_all_iff thread_items_def split: if_splits)
qed

lemma reads_threads: "reads s (load_threads E a c) (list_all (\<lambda>i. ti_channel_id i = c \<and> thread_of s i))"
proof -
  have "list_all (\<lambda>i. ti_channel_id i = c \<and> thread_of s i) (take m (sort_key k (thread_items n a c s)))"
    for m n and k :: "thread_item \<Rightarrow> 'k::linorder"
    using thread_items_own [of c s n a] by (auto simp: list_all_iff dest: in_set_takeD)
  then show ?thesis
    unfolding load_threads_def now_def by (intro reads_bnd [OF reads_draw] reads_gets) simp
qed

lemma reads_sidebar: "reads s (load_dm_sidebar E a) (list_all (\<lambda>i. \<exists>v. ds_conversation_id i = Some v \<and> takes_seat v a s))"
  unfolding load_dm_sidebar_def now_def
  by (rule reads_bnd [OF reads_draw])
     (auto intro!: reads_gets simp: list_all_iff takes_seat_def list_ex_iff is_conversation_member_def split: if_splits)

lemma latest_items_subset: "set (fst (latest_items l items)) \<subseteq> set items"
proof -
  have tail: "set (tl xs) \<subseteq> set xs" for xs :: "message_item list" by (cases xs) auto
  have all: "set (sort_key it_index (take m (sort_key (\<lambda>i. Desc (it_index i)) items))) \<subseteq> set items" for m
    by (auto dest: in_set_takeD)
  show ?thesis
    unfolding latest_items_def Let_def fst_conv
    by (simp only: all order_trans [OF tail all] split: if_split) simp
qed

lemma latest_items_all: "list_all P items \<Longrightarrow> list_all P (fst (latest_items l items))"
  using latest_items_subset [of l items] by (auto simp: list_all_iff)

lemma comments_shown: "list_all (comment_of th s) (fst (load_comments a th l s))"
  unfolding load_comments_def
  by (rule latest_items_all) (auto simp: list_all_iff comment_of_def list_ex_iff comment_items_def split: if_splits)

lemma messages_shown: "list_all (message_of v s) (fst (load_conversation_messages a v l s))"
  unfolding load_conversation_messages_def
  by (rule latest_items_all) (auto simp: list_all_iff message_of_def list_ex_iff dm_items_def split: if_splits)

lemma notification_rows_own:
  "list_all (\<lambda>i. list_ex (\<lambda>n. n_id n = ns_id i \<and> shown_notification a s n) (notifications s)) (notification_rows a s)"
proof -
  have "ns_id i = n_id n" if "i \<in> set (notification_summary_of s n)" for i n
    using that by (auto simp: notification_summary_of_def)
  then show ?thesis by (fastforce simp: list_all_iff list_ex_iff notification_rows_def)
qed

lemma notifications_shown:
  "load_notifications_page C a r s = Inr p \<Longrightarrow>
     list_all (\<lambda>i. list_ex (\<lambda>n. n_id n = ns_id i \<and> shown_notification a s n) (notifications s)) (pg_items p)"
  using notification_rows_own [of a s] unfolding load_notifications_page_def list_all_iff
  by (blast dest: pages_items)

lemma reads_any_gets: "reads s (gets f) (\<lambda>_. True)"
  by (simp add: reads_gets)

lemma reads_presence: "reads s (load_active_presence_sessions E) (\<lambda>_. True)"
  unfolding load_active_presence_sessions_def
  by (intro reads_bnd [OF reads_draw] reads_bnd [OF reads_any_gets] reads_bnd [OF reads_same [OF same_some_or]] reads_ret) simp

lemma hot_row_own: "l \<in> set (hot_rows a s) \<Longrightarrow> hl_tag h = lb_tag l \<Longrightarrow> own_hot a s h"
  using hot_own [of l a s] by (auto simp: own_hot_def hot_rows_def split: if_splits)

lemma hot_labels_own:
  "list_all (own_hot a s) (take m (sort_key k (map (hot_label_of (hot_rows a s)) (remdups (map lb_tag (hot_rows a s))))))"
proof -
  have "own_hot a s h" if "h \<in> set (map (hot_label_of (hot_rows a s)) (remdups (map lb_tag (hot_rows a s))))" for h
    using that by (auto simp: hot_label_of_def intro: hot_row_own)
  then show ?thesis by (simp add: list_all_iff) (metis in_set_takeD set_sort set_map set_remdups)
qed

lemma reads_hot_labels: "reads s (load_hot_labels Q a l) (list_all (own_hot a s))"
proof -
  have rows: "reads s (gets (hot_rows a)) (\<lambda>rows. rows = hot_rows a s)"
    by (rule reads_gets) (simp add: hot_rows_def source_shown_def cong: option.case_cong)
  show ?thesis
    unfolding load_hot_labels_def
    by (rule reads_bnd [OF rows], intro reads_bnd [OF reads_draw] reads_ret, hypsubst, rule hot_labels_own)
qed

text \<open>What the cache holds for an account at the newest event is the account's own.\<close>

definition own_cache :: "str \<Rightarrow> world \<Rightarrow> hot_cache \<Rightarrow> bool" where
  "own_cache a s cache \<longleftrightarrow> (\<forall>l hot. cache (a, l) = Some (last_event_seq s, hot) \<longrightarrow> list_all (own_hot a s) hot)"

lemma reads_hot_labels_cached:
  "reads s (load_hot_labels_cached Q cache a l) (\<lambda>(hot, _). own_cache a s cache \<longrightarrow> list_all (own_hot a s) hot)"
proof -
  have miss: "reads s (bnd (load_hot_labels Q a i) (\<lambda>hot. ret (hot, f hot))) (\<lambda>(hot, _). own_cache a s cache \<longrightarrow> list_all (own_hot a s) hot)"
    for i and f :: "_ \<Rightarrow> hot_cache"
    by (intro reads_bnd [OF reads_hot_labels] reads_ret) simp
  have seq: "reads s (gets last_event_seq) (\<lambda>n. n = last_event_seq s)"
    by (rule reads_gets) (simp add: last_event_seq_def)
  show ?thesis
    unfolding load_hot_labels_cached_def Let_def
    by (rule reads_bnd [OF seq]) (auto split: option.splits intro!: reads_ret miss [unfolded own_cache_def] simp: own_cache_def)
qed

lemma keys_own: "list_all (own_key a s) (load_my_ssh_keys a (s\<lparr>tick := n\<rparr>))"
  by (auto simp: list_all_iff list_ex_iff own_key_def load_my_ssh_keys_def owned_keys_def ssh_key_summary_from_row_def)

lemma reads_counts:
  "reads s (gets (load_my_ssh_keys a)) (list_all (own_key a s))"
  "reads s (gets (load_saved_message_count a)) (\<lambda>n. n = load_saved_message_count a s)"
  "reads s (gets (notification_unread_count a)) (\<lambda>n. n = notification_unread_count a s)"
  "reads s (gets (mention_unread_count a)) (\<lambda>n. n = mention_unread_count a s)"
  by (rule reads_gets; simp add: keys_own load_saved_message_count_def dm_peers_def cong: if_cong option.case_cong)+

lemma selected_some: "selected choice p = Some i \<Longrightarrow> p i"
  by (auto simp: selected_def split: option.splits if_splits)

lemma first_of_some: "first_of f xs = Some i \<Longrightarrow> list_ex (\<lambda>x. f x = i) xs"
  by (auto simp: first_of_def list_ex_iff split: list.splits)

lemma pick_channel_some: "pick_channel v choice chans = Some c \<Longrightarrow> list_ex (\<lambda>ci. ci_id ci = c) chans"
  by (auto simp: pick_channel_def or_else_def split: if_splits option.splits dest: selected_some first_of_some)

lemma pick_thread_some: "pick_thread choice items = Some t \<Longrightarrow> list_ex (\<lambda>i. ti_id i = t) items"
  by (auto simp: pick_thread_def or_else_def split: option.splits dest: selected_some first_of_some)

lemma reads_lift_res: "(\<And>a. r = Inr a \<Longrightarrow> P a) \<Longrightarrow> reads s (lift_res r) P"
  by (cases r) (simp_all add: lift_res_def reads_ret reads_fail)

lemma reads_notifications:
  "reads s (bnd (gets (load_notifications_page C a r)) lift_res)
     (\<lambda>p. list_all (\<lambda>i. list_ex (\<lambda>n. n_id n = ns_id i \<and> shown_notification a s n) (notifications s)) (pg_items p))"
proof (rule reads_bnd)
  show "reads s (gets (load_notifications_page C a r)) (\<lambda>x. x = load_notifications_page C a r s)"
    by (rule reads_gets) (simp add: load_notifications_page_def)
next
  fix x assume "x = load_notifications_page C a r s"
  then show "reads s (lift_res x)
     (\<lambda>p. list_all (\<lambda>i. list_ex (\<lambda>n. n_id n = ns_id i \<and> shown_notification a s n) (notifications s)) (pg_items p))"
    by (auto intro!: reads_lift_res notifications_shown)
qed

lemma reads_selected_threads:
  "reads s (case c of None \<Rightarrow> ret [] | Some c \<Rightarrow> load_threads E a c)
     (\<lambda>items. case c of None \<Rightarrow> items = [] | Some c \<Rightarrow> list_all (\<lambda>i. ti_channel_id i = c \<and> thread_of s i) items)"
  by (cases c) (simp_all add: reads_ret reads_threads)

lemma reads_selected_comments:
  "reads s (case t of None \<Rightarrow> ret ([], False) | Some t \<Rightarrow> gets (load_comments a t l))
     (\<lambda>r. case t of None \<Rightarrow> fst r = [] | Some t \<Rightarrow> list_all (comment_of t s) (fst r))"
proof -
  have "load_comments a t l (s\<lparr>tick := k\<rparr>) = load_comments a t l s" for t k by (simp add: load_comments_def)
  then show ?thesis by (cases t) (simp_all add: reads_ret reads_gets comments_shown)
qed

lemma reads_selected_messages:
  "reads s (case v of None \<Rightarrow> ret ([], False) | Some v \<Rightarrow> gets (load_conversation_messages a v l))
     (\<lambda>r. case v of None \<Rightarrow> fst r = [] | Some v \<Rightarrow> list_all (message_of v s) (fst r))"
proof -
  have "load_conversation_messages a v l (s\<lparr>tick := k\<rparr>) = load_conversation_messages a v l s" for v k
    by (simp add: load_conversation_messages_def)
  then show ?thesis by (cases v) (simp_all add: reads_ret reads_gets messages_shown)
qed

lemma reads_snapshot:
  "reads s (snapshot_with_history_limit E C Q connected cache a channel_choice thread_choice conversation_choice limit)
     (\<lambda>(sn, _). confined a s sn \<and> (own_cache a s cache \<longrightarrow> list_all (own_hot a s) (sn_hot_labels sn)))"
proof -
  have start: "same (\<lambda>s. s) (load_account_tx a)" by (intro same_intros)
  have seat: "takes_seat v a s"
    if "list_all (\<lambda>i. \<exists>v. ds_conversation_id i = Some v \<and> takes_seat v a s) sidebar"
      "selected conversation_choice (\<lambda>i. list_ex (\<lambda>d. ds_conversation_id d = Some i) (filter f sidebar)) = Some v" for sidebar f v
    using that(1) selected_some [OF that(2)] by (auto simp: list_all_iff list_ex_iff)
  show ?thesis
    unfolding snapshot_with_history_limit_def Let_def case_prod_unfold
    by (intro reads_bnd [OF reads_same [OF start]] reads_if reads_bnd [OF reads_channels] reads_bnd [OF reads_presence]
        reads_bnd [OF reads_sidebar] reads_bnd [OF reads_hot_labels_cached] reads_bnd [OF reads_counts(1)]
        reads_bnd [OF reads_counts(2)] reads_bnd [OF reads_counts(3)] reads_bnd [OF reads_counts(4)] reads_bnd [OF reads_selected_threads]
        reads_bnd [OF reads_selected_comments] reads_bnd [OF reads_selected_messages] reads_bnd [OF reads_notifications]
        reads_bnd [OF reads_any_gets] reads_ret)
      (auto simp: confined_def empty_snapshot_def split: option.splits dest: pick_channel_some pick_thread_some seat)
qed

end
