(* ===== verification/Fresh.thy ===== *)
theory Fresh
  imports Snapshots
begin

text \<open>
  Why the cache of hot labels may be keyed by the last event: a request that changes what the
  labels of an account are also writes an event. \<open>grows m\<close>: \<open>m\<close> never takes an event back;
  \<open>logs m\<close>: every success of \<open>m\<close> writes one. A handler either logs, or leaves the view
  \<open>hot_view\<close> alone that the hot labels are computed from.
\<close>

section \<open>Programs that log\<close>

definition grows :: "'a wtx \<Rightarrow> bool" where
  "grows m \<longleftrightarrow> (\<forall>s a t. m s = Inr (a, t) \<longrightarrow> event_seq s \<le> event_seq t)"

definition logs :: "'a wtx \<Rightarrow> bool" where
  "logs m \<longleftrightarrow> (\<forall>s a t. m s = Inr (a, t) \<longrightarrow> event_seq s < event_seq t)"

named_theorems grows_intros \<open>rules that carry grows through the text of a program\<close>
named_theorems logs_intros \<open>rules that find the event a program logs\<close>

lemma grows_same: "same event_seq m \<Longrightarrow> grows m"
  by (simp add: grows_def same_def)

lemma logs_grows: "logs m \<Longrightarrow> grows m"
  by (auto simp: grows_def logs_def intro: less_imp_le)

lemma grows_bnd [grows_intros]:
  assumes "grows m" "\<And>a. grows (f a)"
  shows "grows (bnd m f)"
  unfolding grows_def
proof (intro allI impI)
  fix s a t
  assume "bnd m f s = Inr (a, t)"
  then obtain b u where "m s = Inr (b, u)" "f b u = Inr (a, t)" by (auto simp: bnd_def split: sum.splits)
  then have "event_seq s \<le> event_seq u" "event_seq u \<le> event_seq t"
    using assms unfolding grows_def by blast+
  then show "event_seq s \<le> event_seq t" by simp
qed

lemma logs_bnd_left:
  assumes "logs m" "\<And>a. grows (f a)"
  shows "logs (bnd m f)"
  unfolding logs_def
proof (intro allI impI)
  fix s a t
  assume "bnd m f s = Inr (a, t)"
  then obtain b u where "m s = Inr (b, u)" "f b u = Inr (a, t)" by (auto simp: bnd_def split: sum.splits)
  then have "event_seq s < event_seq u" "event_seq u \<le> event_seq t"
    using assms unfolding grows_def logs_def by blast+
  then show "event_seq s < event_seq t" by simp
qed

lemma logs_bnd [logs_intros]:
  assumes "grows m" "\<And>a. logs (f a)"
  shows "logs (bnd m f)"
  unfolding logs_def
proof (intro allI impI)
  fix s a t
  assume "bnd m f s = Inr (a, t)"
  then obtain b u where "m s = Inr (b, u)" "f b u = Inr (a, t)" by (auto simp: bnd_def split: sum.splits)
  then have "event_seq s \<le> event_seq u" "event_seq u < event_seq t"
    using assms unfolding grows_def logs_def by blast+
  then show "event_seq s < event_seq t" by simp
qed

lemma grows_thn [grows_intros]: "grows m \<Longrightarrow> grows k \<Longrightarrow> grows (thn m k)"
  by (simp add: thn_def grows_bnd)

lemma logs_thn [logs_intros]: "grows m \<Longrightarrow> logs k \<Longrightarrow> logs (thn m k)"
  by (simp add: thn_def logs_bnd)

lemma logs_thn_left: "logs m \<Longrightarrow> grows k \<Longrightarrow> logs (thn m k)"
  by (simp add: thn_def logs_bnd_left)

lemma logs_fail [logs_intros]: "logs (fail e)"
  by (simp add: logs_def fail_def)

lemma grows_if [grows_intros]: "grows m \<Longrightarrow> grows n \<Longrightarrow> grows (if b then m else n)"
  by simp

lemma logs_if [logs_intros]: "logs m \<Longrightarrow> logs n \<Longrightarrow> logs (if b then m else n)"
  by simp

lemma grows_option [grows_intros]: "grows m \<Longrightarrow> (\<And>a. grows (f a)) \<Longrightarrow> grows (case x of None \<Rightarrow> m | Some a \<Rightarrow> f a)"
  by (cases x) simp_all

lemma logs_option [logs_intros]: "logs m \<Longrightarrow> (\<And>a. logs (f a)) \<Longrightarrow> logs (case x of None \<Rightarrow> m | Some a \<Rightarrow> f a)"
  by (cases x) simp_all

lemma grows_prod [grows_intros]: "(\<And>a b. grows (f a b)) \<Longrightarrow> grows (case x of (a, b) \<Rightarrow> f a b)"
  by (cases x) simp

lemma logs_prod [logs_intros]: "(\<And>a b. logs (f a b)) \<Longrightarrow> logs (case x of (a, b) \<Rightarrow> f a b)"
  by (cases x) simp

lemma logs_event: "logs (log_event E ch th cv kind pl)"
  by (auto simp: logs_def log_event_def insert_event_def bnd_def now_def draw_def ret_def Let_def)

lemma grows_insert_event: "grows (insert_event E ch th cv kind pl)"
  by (auto simp: grows_def insert_event_def bnd_def now_def draw_def Let_def)

text \<open>An event that is not the last statement.\<close>

lemmas logs_leaves = logs_thn_left [OF logs_event] logs_event
lemmas grows_leaves = logs_grows [OF logs_event] grows_insert_event

section \<open>What hot labels are computed from\<close>

definition hot_view :: "world \<Rightarrow> label_row list \<times> (str \<times> bool) list \<times> (str \<times> bool) list \<times> (str \<times> bool) list
    \<times> channel_member_row list \<times> (str \<times> str) list" where
  "hot_view s = (labels s, map (\<lambda>t. (t_id t, t_deleted_at t = None)) (threads s),
     map (\<lambda>c. (co_id c, co_deleted_at c = None)) (comments s), map (\<lambda>d. (d_id d, d_deleted_at d = None)) (messages s),
     channel_members s, map participant_key (conversation_members s))"

definition quiet :: "'a wtx \<Rightarrow> bool" where
  "quiet m \<longleftrightarrow> (\<forall>s a t. m s = Inr (a, t) \<longrightarrow>
     event_seq s < event_seq t \<or> (event_seq s \<le> event_seq t \<and> hot_view t = hot_view s))"

lemma quiet_same: "same (\<lambda>s. (event_seq s, hot_view s)) m \<Longrightarrow> quiet m"
  by (auto simp: quiet_def same_def)

lemma quiet_grows: "grows m \<Longrightarrow> same hot_view m \<Longrightarrow> quiet m"
  by (auto simp: quiet_def grows_def same_def)

lemma quiet_logs: "logs m \<Longrightarrow> quiet m"
  by (simp add: quiet_def logs_def)

lemma quiet_bnd: "same (\<lambda>s. (event_seq s, hot_view s)) m \<Longrightarrow> (\<And>a. quiet (f a)) \<Longrightarrow> quiet (bnd m f)"
  unfolding quiet_def same_def bnd_def by (fastforce split: sum.splits)

lemma quiet_thn: "same (\<lambda>s. (event_seq s, hot_view s)) m \<Longrightarrow> quiet k \<Longrightarrow> quiet (thn m k)"
  by (simp add: thn_def quiet_bnd)

lemma quiet_if: "quiet m \<Longrightarrow> quiet n \<Longrightarrow> quiet (if b then m else n)"
  by simp

lemma quiet_unit_of: "quiet m \<Longrightarrow> quiet (unit_of m)"
  unfolding quiet_def unit_of_def bnd_def ret_def by (fastforce split: sum.splits)

section \<open>Handlers\<close>

lemma grows_each [grows_intros]: "(\<And>x. grows (f x)) \<Longrightarrow> grows (each f xs)"
  by (induction xs) (simp_all add: grows_thn grows_same same_ret)

lemma grows_fold [grows_intros]: "(\<And>x b. grows (f x b)) \<Longrightarrow> grows (fold_tx f xs b)"
  by (induction xs arbitrary: b) (simp_all add: grows_bnd grows_same same_ret)

lemma grows_projections:
  "grows (upsert_search_index_tx si)" "grows (delete_search_index_tx k i)" "grows (replace_labels_tx li)"
  "grows (create_mention_notifications_tx E a mi)" "grows (create_thread_reply_notifications_tx E a ri)"
  "grows (create_dm_notifications_tx E a c m ix b)"
  by (intro grows_same same_intros; simp)+

lemma logs_created:
  "logs (thread_created E a t c sl ti b n)" "logs (comment_created E a t c sl ti co i b n)"
  "logs (dm_created E a v m i b n)"
  unfolding thread_created_def comment_created_def dm_created_def Let_def
  by (intro logs_leaves logs_intros grows_projections)+

lemma grows_created: "grows (reindex_thread t c ti b)"
  unfolding reindex_thread_def Let_def
  by (intro grows_projections grows_intros; intro grows_same same_intros; simp)

lemmas logging = logs_thn_left [OF logs_created(1)] logs_thn_left [OF logs_created(2)] logs_thn_left [OF logs_created(3)]
  logs_created logs_leaves logs_intros

lemma logs_messages:
  "logs (create_thread E a c ti)" "logs (add_comment E a t b)" "logs (edit_thread E a t ti b)"
  "logs (rename_thread E a t ti)" "logs (update_thread_flag E a t fl v)" "logs (update_comment_body E a t i b)"
  "logs (soft_delete_comment E a t i)" "logs (open_dm E a u)" "logs (send_dm E a cv b)" "logs (update_dm_body E a cv i b)"
  "logs (soft_delete_dm E a cv i)" "logs (react_to_thread E a t e r)" "logs (react_to_comment E a t i e r)"
  "logs (react_to_dm E a cv i e r)"
  unfolding message_defs message_part_defs Let_def
  by (intro logging grows_projections grows_created grows_intros; intro grows_same same_intros; simp add: insert_defs same_intros)+

lemma logs_unit_of: "logs m \<Longrightarrow> logs (unit_of m)"
  unfolding unit_of_def by (rule logs_bnd_left) (simp_all add: grows_same same_ret)

lemma set_flag_view: "t_id (set_flag f v t) = t_id t"
  by (cases f) (simp_all add: set_flag_def)

lemma quiet_messages: "quiet (message_handler E q)"
proof -
  have silent: "quiet (set_thread_muted E a t h)" "quiet (set_thread_saved E a t v)" "quiet (mark_thread_read E a t)"
    "quiet (mark_thread_unread E a t)" "quiet (set_comment_saved E a t i v)" "quiet (set_dm_message_saved E a cv i v)"
    "quiet (set_conversation_muted E a cv h)" "quiet (set_conversation_saved E a cv v)" "quiet (mark_conversation_read E a cv)"
    "quiet (mark_conversation_unread E a cv)" "quiet (mark_notification_read E a n)" "quiet (archive_notifications E a)"
    for a t h v i cv n
    unfolding message_defs message_part_defs set_saved_message_tx_def Let_def
    by (intro quiet_same same_intros; simp add: hot_view_def insert_defs same_intros map_sql_update participant_key_def)+
  show ?thesis
    by (cases q) (simp_all add: handler_synonyms silent quiet_logs logs_unit_of logs_messages)
qed

lemma quiet_channels: "quiet (channel_handler E q)"
proof -
  have "logs (create_channel E a n p)" "logs (join_channel E a u)" "logs (update_channel_member E a c u v)"
    "logs (leave_channel E a u)" "logs (rename_channel E a u n)" "logs (set_channel_topic E a u n)"
    "logs (set_channel_archived E a u v)" for a n p u c v
    unfolding channel_defs remove_member_def Let_def
    by (intro logging grows_leaves grows_intros; intro grows_same same_intros; simp add: insert_defs same_intros)+
  then show ?thesis
    by (cases q) (simp_all add: handler_synonyms quiet_logs logs_unit_of)
qed

lemma quiet_accounts: "quiet (account_handler E q)"
proof -
  have board: "logs (onboard E a u r n)" for a u r n
    unfolding onboard_def general_channel_def account_part_defs Let_def
    by (intro logging grows_leaves grows_intros; intro grows_same same_intros; simp add: insert_defs same_intros)
  have onboarding: "quiet (complete_onboarding E a u)" for a u
    unfolding complete_onboarding_def
    by (intro quiet_bnd quiet_if quiet_thn quiet_logs [OF board]; (intro same_intros; simp add: hot_view_def)?;
        intro quiet_same same_intros)
  have "same hot_view (account_handler E q)" if "\<not> (\<exists>a u. q = CompleteOnboarding a u)"
    using that
    by (cases q; simp only: account_handler.simps handler_synonyms set_user_disabled_def set_user_role_def rename_user_def
        set_display_name_def create_device_link_token_def add_ssh_key_def label_ssh_key_def revoke_ssh_key_def create_bootstrap_token_def
        create_invite_with_options_def revoke_invite_def lookup_active_account_for_key_def redeem_ssh_login_token_for_key_def
        redeem_device_link_token_for_key_def redeem_token_for_key_def record_presence_def log_user_def account_part_defs unit_of_def Let_def;
        (intro same_intros; simp add: hot_view_def insert_defs same_intros)?; (blast | fail)?)
  moreover have "grows (account_handler E q)" if "\<not> (\<exists>a u. q = CompleteOnboarding a u)"
    using that
    by (cases q; simp only: account_handler.simps handler_synonyms set_user_disabled_def set_user_role_def rename_user_def
        set_display_name_def create_device_link_token_def add_ssh_key_def label_ssh_key_def revoke_ssh_key_def create_bootstrap_token_def
        create_invite_with_options_def revoke_invite_def lookup_active_account_for_key_def redeem_ssh_login_token_for_key_def
        redeem_device_link_token_for_key_def redeem_token_for_key_def record_presence_def log_user_def account_part_defs unit_of_def Let_def;
        (intro grows_leaves grows_intros; intro grows_same same_intros; simp add: insert_defs same_intros)?; (blast | fail)?)
  ultimately have "quiet (account_handler E q)" if "\<not> (\<exists>a u. q = CompleteOnboarding a u)"
    using that by (simp add: quiet_grows)
  then show ?thesis
    using quiet_unit_of [OF onboarding] by (cases "\<exists>a u. q = CompleteOnboarding a u") auto
qed

lemma quiet_handle: "quiet (handle E q)"
  by (cases q) (simp_all add: quiet_messages quiet_channels quiet_accounts)

section \<open>The rows by the view\<close>

text \<open>The rows of the hot labels are a function of the view.\<close>

lemma left_join_map: "left_join p (map g rows) = map (map_option g) (left_join (\<lambda>r. p (g r)) rows)"
  by (simp add: left_join_def filter_map comp_def split: list.splits)

definition marked :: "(str \<times> bool) option \<Rightarrow> bool" where
  "marked x = (case x of None \<Rightarrow> True | Some (_, kept) \<Rightarrow> kept)"

definition view_shown :: "str \<Rightarrow> label_row \<Rightarrow> (str \<times> bool) option \<Rightarrow> (str \<times> bool) option \<Rightarrow> (str \<times> bool) option
    \<Rightarrow> channel_member_row list \<Rightarrow> (str \<times> str) list \<Rightarrow> bool" where
  "view_shown a mh t cm dm M P \<longleftrightarrow>
     (lb_source_kind mh \<in> {SThread, SComment} \<and> marked t \<and> marked cm
        \<and> (case lb_channel_id mh of None \<Rightarrow> False | Some c \<Rightarrow> list_ex (is_channel_member c a) M))
     \<or> (lb_source_kind mh = SDm \<and> marked dm \<and> (case lb_conversation_id mh of None \<Rightarrow> False | Some c \<Rightarrow> (c, a) \<in> set P))"

lemma marked_maps:
  "marked (map_option (\<lambda>t. (t_id t, t_deleted_at t = None)) x) = (case x of None \<Rightarrow> True | Some t \<Rightarrow> t_deleted_at t = None)"
  "marked (map_option (\<lambda>c. (co_id c, co_deleted_at c = None)) y) = (case y of None \<Rightarrow> True | Some c \<Rightarrow> co_deleted_at c = None)"
  "marked (map_option (\<lambda>d. (d_id d, d_deleted_at d = None)) z) = (case z of None \<Rightarrow> True | Some d \<Rightarrow> d_deleted_at d = None)"
  by (auto simp: marked_def split: option.splits)

lemma seat_key: "list_ex (is_conversation_member c a) M \<longleftrightarrow> (c, a) \<in> set (map participant_key M)"
  by (auto simp: list_ex_iff is_conversation_member_def participant_key_def)

lemma shown_by_view:
  "view_shown a mh (map_option (\<lambda>t. (t_id t, t_deleted_at t = None)) t) (map_option (\<lambda>c. (co_id c, co_deleted_at c = None)) cm)
     (map_option (\<lambda>d. (d_id d, d_deleted_at d = None)) dm) (channel_members s) (map participant_key (conversation_members s))
   \<longleftrightarrow> source_shown a (lb_source_kind mh) (lb_channel_id mh) (lb_conversation_id mh) t cm dm s"
  unfolding view_shown_def source_shown_def marked_maps is_member_of_def seat_key ..

definition view_rows :: "str \<Rightarrow> label_row list \<times> (str \<times> bool) list \<times> (str \<times> bool) list \<times> (str \<times> bool) list
    \<times> channel_member_row list \<times> (str \<times> str) list \<Rightarrow> label_row list" where
  "view_rows a = (\<lambda>(L, T, C, D, M, P).
     [mh. mh \<leftarrow> L, t \<leftarrow> left_join (\<lambda>t. Some (fst t) = lb_thread_id mh) T,
        cm \<leftarrow> left_join (\<lambda>c. lb_source_kind mh = SComment \<and> fst c = lb_source_id mh) C,
        dm \<leftarrow> left_join (\<lambda>d. lb_source_kind mh = SDm \<and> fst d = lb_source_id mh) D,
        view_shown a mh t cm dm M P])"

lemma hot_rows_view: "hot_rows a s = view_rows a (hot_view s)"
  by (simp add: hot_rows_def view_rows_def hot_view_def left_join_map comp_def shown_by_view)

section \<open>The sequence is that of the log\<close>

definition seq_ok :: "world \<Rightarrow> bool" where
  "seq_ok s \<longleftrightarrow> last_event_seq s = event_seq s"

lemma keeps_seq_same: "same (\<lambda>s. (event_log s, event_seq s)) m \<Longrightarrow> keeps seq_ok m"
  unfolding seq_ok_def last_event_seq_def
  by (drule keeps_same [where J = "\<lambda>(l, q). (case map ev_seq l of [] \<Rightarrow> 0 | x # xs \<Rightarrow> fold max xs x) = q"]) simp

lemma seq_log_event: "keeps seq_ok (log_event E ch th cv kind pl)"
  unfolding keeps_def wp_def log_event_def insert_event_def
  by (auto simp: bnd_def now_def draw_def ret_def Let_def seq_ok_def last_event_seq_def split: list.splits)

lemma seq_created:
  "keeps seq_ok (thread_created E a t c sl ti b n)" "keeps seq_ok (comment_created E a t c sl ti co i b n)"
  "keeps seq_ok (dm_created E a v m i b n)"
  unfolding thread_created_def comment_created_def dm_created_def Let_def
  by (intro seq_log_event keeps_intros; intro keeps_seq_same same_intros; simp)+

lemma seq_handle: "keeps seq_ok (handle E q)"
proof (cases q)
  case (MessageRequest m)
  have "keeps seq_ok (message_handler E m)"
    by (cases m; simp only: message_handler.simps handler_synonyms message_defs message_part_defs unit_of_def Let_def;
        intro seq_created seq_log_event keeps_intros; intro keeps_seq_same same_intros; simp add: insert_defs same_intros)
  with MessageRequest show ?thesis by simp
next
  case (ChannelRequest m)
  have "keeps seq_ok (channel_handler E m)"
    by (cases m; simp only: channel_handler.simps handler_synonyms channel_defs remove_member_def unit_of_def Let_def;
        intro seq_log_event keeps_intros; intro keeps_seq_same same_intros; simp add: insert_defs same_intros)
  with ChannelRequest show ?thesis by simp
next
  case (AccountRequest m)
  have "keeps seq_ok (account_handler E m)"
    by (cases m; simp only: account_handler.simps handler_synonyms account_defs account_part_defs unit_of_def Let_def;
        intro seq_log_event keeps_intros; intro keeps_seq_same same_intros; simp add: insert_defs same_intros)
  with AccountRequest show ?thesis by simp
qed

lemma reachable_seq: "reachable E s \<Longrightarrow> seq_ok s"
  by (rule reachable_keeps [OF seq_handle]) (simp_all add: seq_ok_def last_event_seq_def empty_world_def)

section \<open>The rows behind the cache\<close>

lemma step_quiet:
  assumes "step E s t"
  shows "event_seq s < event_seq t \<or> (event_seq s \<le> event_seq t \<and> hot_view t = hot_view s)"
  using assms
proof (cases rule: step.cases)
  case (commit q)
  then show ?thesis using quiet_handle [of E q] unfolding quiet_def by blast
qed (simp_all add: hot_view_def)

lemma steps_quiet:
  assumes "(step E)\<^sup>*\<^sup>* s t"
  shows "event_seq s \<le> event_seq t \<and> (event_seq t = event_seq s \<longrightarrow> hot_view t = hot_view s)"
  using assms
proof (induction rule: rtranclp_induct)
  case (step t u)
  then show ?case using step_quiet [OF step.hyps(2)] by fastforce
qed simp

lemma reachable_steps: "(step E)\<^sup>*\<^sup>* s t \<Longrightarrow> reachable E s \<Longrightarrow> reachable E t"
  by (erule rtranclp_induct) (auto intro: reachable.advance)

lemma hot_rows_fresh:
  assumes "reachable E s" "(step E)\<^sup>*\<^sup>* s t" "last_event_seq t = last_event_seq s"
  shows "hot_rows a t = hot_rows a s"
proof -
  have "event_seq t = event_seq s"
    using assms reachable_seq [OF assms(1)] reachable_seq [OF reachable_steps [OF assms(2,1)]] by (simp add: seq_ok_def)
  then show ?thesis using steps_quiet [OF assms(2)] by (simp add: hot_rows_view)
qed

lemma load_hot_labels_run:
  "load_hot_labels Q a limit s =
     Inr (take (nat (page_limit limit 50)) (sort_key (hot_order Q (tick s) (hot_rows a s))
            (map (hot_label_of (hot_rows a s)) (remdups (map lb_tag (hot_rows a s))))), s\<lparr>tick := Suc (tick s)\<rparr>)"
  by (simp add: load_hot_labels_def bnd_def gets_def draw_def ret_def)

lemma cached_run:
  assumes "cache (a, page_limit l 50) = None" "load_hot_labels_cached Q cache a l s = Inr ((hot, cache'), u)"
  shows "load_hot_labels Q a (page_limit l 50) s = Inr (hot, u)" "cache' (a, page_limit l 50) = Some (last_event_seq s, hot)"
  using assms by (auto simp: load_hot_labels_cached_def Let_def bnd_def gets_def ret_def load_hot_labels_run)

lemma cached_hit:
  assumes "cache (a, page_limit l 50) = Some (last_event_seq s, hot)"
  shows "load_hot_labels_cached Q cache a l s = Inr ((hot, cache), s)"
  using assms by (simp add: load_hot_labels_cached_def Let_def bnd_def gets_def ret_def)

section \<open>The cache keeps to its account\<close>

text \<open>
  The states of the database and the cache: requests change the database, the loader of any
  account may fill the cache, and it may be emptied at any time.
\<close>

inductive serving :: "env \<Rightarrow> 'k sqlite \<Rightarrow> world \<Rightarrow> hot_cache \<Rightarrow> bool" for E Q where
  serving_start: "serving E Q empty_world (\<lambda>_. None)"
| serving_step: "serving E Q s cache \<Longrightarrow> step E s t \<Longrightarrow> serving E Q t cache"
| serving_load: "serving E Q s cache \<Longrightarrow> load_hot_labels_cached Q cache b l s = Inr ((hot, cache'), t) \<Longrightarrow> serving E Q t cache'"
| serving_forget: "serving E Q s cache \<Longrightarrow> serving E Q s (invalidate_hot_label_cache cache)"

lemma cached_cases:
  assumes "load_hot_labels_cached Q cache a l s = Inr ((hot, cache'), t)"
  shows "(cache' = cache \<and> t = s) \<or> (cache' = cache((a, page_limit l 50) \<mapsto> (last_event_seq s, hot))
    \<and> t = s\<lparr>tick := Suc (tick s)\<rparr> \<and> list_all (own_hot a s) hot)"
  using assms
  by (auto simp: load_hot_labels_cached_def Let_def bnd_def gets_def ret_def load_hot_labels_run hot_labels_own
      split: option.splits if_splits)

lemma own_hot_view: "hot_view t = hot_view s \<Longrightarrow> own_hot a t = own_hot a s"
  unfolding own_hot_def own_place_def is_member_of_def seat_key by (simp add: hot_view_def fun_eq_iff)

lemma hot_view_tick [simp]: "hot_view (s\<lparr>tick := k\<rparr>) = hot_view s"
  by (simp add: hot_view_def)

lemma reachable_serving: "reachable E s \<Longrightarrow> serving E Q s (\<lambda>_. None)"
  by (induction rule: reachable.induct) (auto intro: serving.intros)

lemma serving_reachable: "serving E Q s cache \<Longrightarrow> reachable E s"
proof (induction rule: serving.induct)
  case (serving_load s cache b l hot cache' t)
  then show ?case using cached_cases [OF serving_load.hyps(2)] by (auto intro: reachable.advance step.time_passes)
qed (auto intro: reachable.intros)

lemma serving_entries:
  assumes "serving E Q s cache" "cache (a, i) = Some (q, hot)"
  shows "q \<le> event_seq s \<and> (q = event_seq s \<longrightarrow> list_all (own_hot a s) hot)"
  using assms
proof (induction arbitrary: a i q hot rule: serving.induct)
  case (serving_step s cache t)
  show ?case
    using step_quiet [OF serving_step.hyps(2)] serving_step.IH [OF serving_step.prems] own_hot_view [of t s a] by auto
next
  case (serving_load s cache b l new cache' t)
  have seq: "last_event_seq s = event_seq s"
    using reachable_seq [OF serving_reachable [OF serving_load.hyps(1)]] by (simp add: seq_ok_def)
  from cached_cases [OF serving_load.hyps(2)] show ?case
  proof
    assume "cache' = cache \<and> t = s"
    then show ?thesis using serving_load.IH serving_load.prems by blast
  next
    assume new: "cache' = cache((b, page_limit l 50) \<mapsto> (last_event_seq s, new))
      \<and> t = s\<lparr>tick := Suc (tick s)\<rparr> \<and> list_all (own_hot b s) new"
    then have t: "event_seq t = event_seq s" "own_hot a t = own_hot a s" using own_hot_view [of t s a] by auto
    show ?thesis
      unfolding t using new seq serving_load.prems serving_load.IH [of a i q hot]
      by (cases "(a, i) = (b, page_limit l 50)") auto
  qed
qed (auto simp: invalidate_hot_label_cache_def)

lemma serving_own: "serving E Q s cache \<Longrightarrow> own_cache a s cache"
  using serving_entries [of E Q s cache a] reachable_seq [OF serving_reachable, of E Q s cache]
  by (auto simp: own_cache_def seq_ok_def)

end
