(* ===== verification/Reading.thy ===== *)
theory Reading
  imports Scenario Fresh
begin

text \<open>
  What the readers of the service promise, put together from \<open>Paging\<close>, \<open>Keys\<close>, \<open>Lists\<close>,
  \<open>Feeds\<close>, \<open>Snapshots\<close> and \<open>Fresh\<close> for the states that the service reaches: following the
  cursors of a list shows all of it, pages keep their bounds, histories and reactions are shown
  as they are stored, nothing is shown outside the reader's places, and the cache of hot labels
  is never stale. The examples read the run of \<open>Scenario\<close> with a codec and a search engine of
  their own.
\<close>

section \<open>A codec and an engine\<close>

text \<open>Each part is closed by the character 33, the characters of a part are moved above it.\<close>

definition demo_encode :: "str list \<Rightarrow> str" where
  "demo_encode ps = 33 # concat (map (\<lambda>p. map (\<lambda>c. c + 34) p @ [33]) ps)"

definition demo_decode :: "str \<Rightarrow> str list option" where
  "demo_decode s = (case s of [] \<Rightarrow> None
     | c # r \<Rightarrow> if c = 33 then Some (map (map (\<lambda>c. c - 34)) (butlast (split_on 33 r))) else None)"

definition demo_codec :: codec where
  "demo_codec = \<lparr>cc_encode = demo_encode, cc_decode = demo_decode\<rparr>"

lemma demo_split: "split_on 33 (concat (map (\<lambda>p. map (\<lambda>c. c + 34) p @ [33]) ps)) = map (map (\<lambda>c. c + 34)) ps @ [[]]"
proof (induction ps)
  case (Cons p ps)
  have "33 \<notin> set (map (\<lambda>c. c + 34) p)" by (auto simp: image_iff)
  from split_on_append [OF this] Cons show ?case by simp
qed simp

lemma demo_codec_ok: "codec_ok demo_codec"
proof -
  have "demo_decode (demo_encode ps) = Some ps" for ps
    by (simp add: demo_decode_def demo_encode_def demo_split comp_def)
  moreover have "trim (demo_encode ps) = demo_encode ps" for ps
  proof -
    have "\<exists>r. rev (demo_encode ps) = 33 # r"
      by (cases ps rule: rev_cases) (simp_all add: demo_encode_def)
    then obtain r where r: "rev (demo_encode ps) = 33 # r" by blast
    have "dropWhile is_whitespace (demo_encode ps) = demo_encode ps"
      by (simp add: demo_encode_def is_whitespace_def)
    then have "trim (demo_encode ps) = rev (33 # r)"
      by (simp add: trim_def trim_matches_def r is_whitespace_def)
    then show ?thesis using r by (metis rev_rev_ident)
  qed
  ultimately show ?thesis by (simp add: codec_ok_def demo_codec_def)
qed

text \<open>The engine finds the rows whose body is the query, ranked by their length.\<close>

definition demo_sqlite :: "nat sqlite" where
  "demo_sqlite = \<lparr>sq_within = (\<lambda>_ _ _. True),
     sq_match = (\<lambda>rows q. Some (\<lambda>r. if si_kind r = SComment then Some (length (si_body r)) else None)),
     sq_print = (\<lambda>n. [n]), sq_cast = hd\<rparr>"

section \<open>Following the cursors\<close>

lemma walk_cong:
  assumes "P cursor" "\<And>r. P (pr_cursor r) \<Longrightarrow> f r = g r" "\<And>r p c. g r = Inr p \<Longrightarrow> pg_next p = Some c \<Longrightarrow> P (Some c)"
  shows "walk f limit n cursor shown = walk g limit n cursor shown"
  using assms(1)
proof (induction n arbitrary: cursor shown)
  case (Suc n)
  let ?r = "\<lparr>pr_limit = limit, pr_cursor = cursor\<rparr>"
  have "f ?r = g ?r" using Suc.prems by (simp add: assms(2))
  then show ?case using Suc.IH assms(3) [of ?r] by (auto split: sum.splits option.splits)
qed simp

lemma pages_next: "pages C key after n item parts mx rows request = Inr p \<Longrightarrow> pg_next p = Some c \<Longrightarrow> \<exists>i. c = encode_cursor C (parts i)"
  by (auto simp: pages_def Let_def page_loop_eq split: sum.splits if_splits)

lemma group_parses_cursor: "codec_ok C \<Longrightarrow> group_parses C \<lparr>pr_limit = l, pr_cursor = Some (encode_cursor C (directory_cursor i))\<rparr>"
  using parse_group [of "di_slug i = general"]
  by (auto simp: group_parses_def decode_encode_cursor directory_cursor_def split: if_splits)

text \<open>
  C23: Reading the list of invites to its end takes at most one page more than there are rows,
  whatever the page limit, and shows every invite exactly once, the newest first.
\<close>

theorem invites_walk:
  assumes "reachable E s" "codec_ok C" "require_admin_tx a s = Inr (x, s)"
  shows "walk (\<lambda>r. answer (list_invites_page C a r) s) limit (Suc (length (invite_rows s))) None [] =
    Some (Inr (map invite_summary_of (sort_key invite_order (invite_rows s))))"
proof -
  have "answer (list_invites_page C a r) s =
      pages C invite_order invite_after 2 invite_summary_of invite_cursor 500 (invite_rows s) r" for r
    unfolding list_invites_page_def by (rule answer_guarded) (rule assms(3))
  then show ?thesis
    using invite_list.walk_all [OF assms(2) _ invite_keys [OF reachable_keys [OF assms(1)]]]
    by (simp add: list_all_iff del: walk.simps)
qed

theorem invites_walk_witness:
  "walk (\<lambda>r. answer (list_invites_page demo_codec [2005] r) liked) 1 (Suc (length (invite_rows liked))) None [] =
    Some (Inr (map invite_summary_of (sort_key invite_order (invite_rows liked)))) \<and> length (invite_rows liked) = 1"
proof -
  have "\<exists>x. require_admin_tx [2005] liked = Inr (x, liked)"
    by (simp only: liked_eq) (simp add: run_defs del: One_nat_def)
  then obtain x where "require_admin_tx [2005] liked = Inr (x, liked)" by blast
  from invites_walk [OF reachable_liked demo_codec_ok this] show ?thesis
    by (simp del: walk.simps) (simp add: liked_eq invite_rows_def left_join_def)
qed

text \<open>
  Reading the channel directory to its end shows every channel the account may see exactly
  once, #general first and the others by slug: the public ones, the account's own private ones,
  and all of them to owners and administrators.
\<close>

theorem directory_walk:
  assumes "reachable E s" "codec_ok C" "reload_account a s = Inr (actor, s)" "ac_activated actor"
  shows "walk (\<lambda>r. answer (list_channels_page C a archived r) s) limit (Suc (length (directory_rows actor a archived s))) None [] =
    Some (Inr (map directory_item_of (sort_key directory_order (directory_rows actor a archived s))))"
proof -
  let ?pages = "pages C directory_order directory_after 2 directory_item_of directory_cursor 500 (directory_rows actor a archived s)"
  have page: "answer (list_channels_page C a archived r) s = ?pages r" if "group_parses C r" for r
    using assms(3,4) that by (simp add: list_channels_page_def answer_def bnd_def thn_def ensure_def ret_def gets_def lift_res_def fail_def split: sum.splits)
  have first: "group_parses C r" if "pr_cursor r = None" for r
    using that by (simp add: group_parses_def)
  have later: "group_parses C r" if "pr_cursor r = Some (encode_cursor C (directory_cursor i))" for r i
    using group_parses_cursor [OF assms(2), of "pr_limit r" i] that by (simp add: group_parses_def)
  have "walk (\<lambda>r. answer (list_channels_page C a archived r) s) limit n None [] = walk ?pages limit n None []" for n
    by (rule walk_cong [where P = "\<lambda>c. c = None \<or> (\<exists>i. c = Some (encode_cursor C (directory_cursor i)))"])
       (use page first later in \<open>auto dest: pages_next\<close>)
  moreover have "distinct (map c_slug (channels s))"
    using reachable_invariants(2) [OF assms(1)] by (simp add: general_ok_def)
  ultimately show ?thesis
    using directory.walk_all [OF assms(2) _ directory_keys] by (simp add: list_all_iff del: walk.simps)
qed

theorem directory_walk_witness:
  "walk (\<lambda>r. answer (list_channels_page demo_codec [2019] False r) liked) 1 (Suc 1) None [] \<noteq> None
    \<and> walk (\<lambda>r. answer (list_channels_page demo_codec [2005] False r) liked) 1 (Suc 2) None [] \<noteq> None"
proof -
  have "\<exists>x. reload_account i liked = Inr (x, liked) \<and> ac_activated x \<and> length (directory_rows x i False liked) = n"
    if "(i, n) = ([2019], 1) \<or> (i, n) = ([2005], 2)" for i and n :: nat
    using that by (elim disjE; simp only: prod.inject liked_eq) (simp_all add: run_defs directory_rows_def is_member_of_def del: One_nat_def)
  then obtain x y where "reload_account [2019] liked = Inr (x, liked)" "ac_activated x" "length (directory_rows x [2019] False liked) = 1"
    "reload_account [2005] liked = Inr (y, liked)" "ac_activated y" "length (directory_rows y [2005] False liked) = 2"
    by metis
  then show ?thesis
    using directory_walk [OF reachable_liked demo_codec_ok, of "[2019]" x False 1] directory_walk [OF reachable_liked demo_codec_ok, of "[2005]" y False 1]
    by (simp del: walk.simps)
qed


section \<open>Pages keep their bounds\<close>

lemma answer_pages:
  assumes "bnd (gets (\<lambda>s. f s)) lift_res s = Inr (p, t)"
  shows "f s = Inr p \<and> t = s"
  using assms by (auto simp: bnd_def gets_def lift_res_def ret_def fail_def split: sum.splits)

lemma guarded_page:
  assumes "bnd guard (\<lambda>x. bnd (gets (f x)) lift_res) s = Inr (p, t)" "same (\<lambda>s. s) guard"
  shows "\<exists>x. f x s = Inr p \<and> t = s"
proof -
  from assms(1) obtain x u where g: "guard s = Inr (x, u)" and b: "bnd (gets (f x)) lift_res u = Inr (p, t)"
    by (auto simp: bnd_def split: sum.splits)
  have "wp guard (\<lambda>_ u. u = s) s" by (rule wp_same [OF assms(2)])
  from wpD [OF this g] have "u = s" .
  with answer_pages [OF b] show ?thesis by blast
qed

text \<open>
  Whatever limit a request names, a page of a list has at most that many items, always
  room for one, and never more than the list allows; and reading it changes nothing.
\<close>

theorem page_bounds:
  "(list_invites_page C a r s = Inr (p, t) \<longrightarrow> int (length (pg_items p)) \<le> max 1 (min (pr_limit r) 500) \<and> t = s)
   \<and> (list_audit_page C a r s = Inr (l, t) \<longrightarrow> int (length (pg_items l)) \<le> max 1 (min (pr_limit r) 500) \<and> t = s)
   \<and> (list_notifications_page C a r s = Inr (n, t) \<longrightarrow> int (length (pg_items n)) \<le> max 1 (min (pr_limit r) 200) \<and> t = s)"
proof -
  have admin: "same (\<lambda>s. s) (require_admin_tx a)" unfolding require_admin_tx_def by (intro same_intros)
  have "int (length (pg_items p)) \<le> max 1 (min (pr_limit r) 500) \<and> t = s" if "list_invites_page C a r s = Inr (p, t)"
    using guarded_page [OF that [unfolded list_invites_page_def] admin] page_size [where mx = 500]
    by (fastforce simp: page_limit_def)
  moreover have "int (length (pg_items l)) \<le> max 1 (min (pr_limit r) 500) \<and> t = s" if "list_audit_page C a r s = Inr (l, t)"
    using guarded_page [OF that [unfolded list_audit_page_def] admin] page_size [where mx = 500]
    by (fastforce simp: page_limit_def)
  moreover have "int (length (pg_items n)) \<le> max 1 (min (pr_limit r) 200) \<and> t = s" if "list_notifications_page C a r s = Inr (n, t)"
    using answer_pages [OF that [unfolded list_notifications_page_def]] page_size [where mx = 200]
    by (fastforce simp: page_limit_def load_notifications_page_def)
  ultimately show ?thesis by blast
qed

theorem page_bounds_witness:
  "\<exists>p :: notification_summary page. list_notifications_page demo_codec [2005] (first_page (- 5)) liked = Inr (p, liked) \<and> length (pg_items p) \<le> 1"
proof -
  have "\<exists>p. load_notifications_page demo_codec [2005] (first_page (- 5)) liked = Inr p"
    by (simp add: load_notifications_page_def pages_def first_page_def Let_def)
  then obtain p where "list_notifications_page demo_codec [2005] (first_page (- 5)) liked = Inr (p, liked)"
    by (auto simp: list_notifications_page_def bnd_def gets_def lift_res_def ret_def)
  with page_bounds [of demo_codec "[2005]" "first_page (- 5)" liked undefined liked undefined p] show ?thesis
    by (auto simp: first_page_def)
qed

section \<open>Reactions and histories\<close>

text \<open>
  C24: The reactions of a message survive being joined into one text by the query and taken apart
  again: one entry per emoji, with the number of accounts that chose it and whether the reader did.
\<close>

theorem reactions_shown:
  assumes "reachable E s" "i64_ok (int (length (reactions s)))"
  shows "shown_reactions a kind i s = reaction_groups a (source_reactions kind i s)"
  by (rule shown_reactions_exact [OF reachable_emojis [OF assms(1)] assms(2)])

theorem reactions_shown_witness:
  "shown_reactions [2005] SComment [2027] liked = [\<lparr>rx_emoji = [128077], rx_count = 1, rx_mine = True\<rparr>]"
proof -
  have "reaction_groups [2005] (source_reactions SComment [2027] liked) = [\<lparr>rx_emoji = [128077], rx_count = 1, rx_mine = True\<rparr>]"
    "i64_ok (int (length (reactions liked)))"
    by (simp_all add: liked_eq reaction_groups_def source_reactions_def i64_ok_def)
  with reactions_shown [OF reachable_liked, of "[2005]" SComment "[2027]"] show ?thesis by simp
qed

text \<open>
  C25: The history shown of a thread is its last comments in the order of their indexes, as many
  as the limit allows, and \<open>has more\<close> is said exactly when older ones are left out.
\<close>

theorem history_end:
  assumes "reachable E s"
  shows "load_comments a th limit s =
    (let all = sort_key it_index (comment_items a th s); L = nat (page_limit limit max_history_limit)
     in (drop (length all - L) all, L < length all))"
proof -
  have "distinct (map it_index (comment_items a th s))"
    by (rule comment_items_index [OF reachable_keys [OF assms] reachable_invariants(3) [OF assms]])
  from latest_items_eq [OF this, of limit] show ?thesis by (simp add: load_comments_def Let_def)
qed

theorem history_end_witness:
  "map it_id (fst (load_comments [2005] [2024] 0 liked)) = [[2027]] \<and> \<not> snd (load_comments [2005] [2024] 0 liked)"
proof -
  have "map it_id (sort_key it_index (comment_items [2005] [2024] liked)) = [[2027]]"
    by (simp add: liked_eq comment_items_def saved_by_def left_join_def)
  then have "map it_id (sort_key it_index (comment_items [2005] [2024] liked)) = [[2027]]" "length (comment_items [2005] [2024] liked) = 1"
    by (metis length_map length_sort One_nat_def list.size(3,4) add_0)+
  then show ?thesis
    using history_end [OF reachable_liked, of "[2005]" "[2024]" 0] by (simp add: Let_def page_limit_def max_history_limit_def)
qed

section \<open>What is shown\<close>

text \<open>
  C26: A snapshot, whatever channel, thread and conversation it is asked for, holds only channels
  its account is a member of, threads of the selected one of these channels, comments of the
  selected one of these threads, messages of a conversation the account takes part in, the
  account's own notifications, keys and counts, and hot labels that stand in places of the
  account, also when they come from the cache, whatever accounts and requests filled it before;
  and taking it changes nothing but the clock. (The list of users and of reserved names is
  everybody's.)
\<close>

theorem snapshot_confined:
  assumes "serving E' Q s cache"
    and "snapshot_with_history_limit E C Q connected cache a channel thread conversation limit s = Inr ((sn, cache'), t)"
  shows "confined a s sn \<and> list_all (own_hot a s) (sn_hot_labels sn) \<and> (\<exists>n. t = s\<lparr>tick := n\<rparr>)"
  using readsD [OF reads_snapshot assms(2)] serving_own [OF assms(1), of a] by simp

lemma run_optional:
  "(case x of None \<Rightarrow> ret a | Some i \<Rightarrow> gets (f i)) s = Inr ((case x of None \<Rightarrow> a | Some i \<Rightarrow> f i s), s)"
  by (simp add: run_ret run_gets split: option.split)

theorem snapshot_confined_witness:
  "\<exists>sn. confined [2019] liked sn \<and> list_all (own_hot [2019] liked) (sn_hot_labels sn) \<and> sn_username sn = Some (lit ''bob'') \<and> map ci_id (sn_channels sn) = [[2008]]"
proof -
  obtain x where x: "load_account_tx [2019] liked = Inr (x, liked)" "ac_activated x" "ac_username x = lit ''bob''"
    by (simp only: liked_eq) (simp add: run_defs del: One_nat_def)
  have "\<exists>c. filter (\<lambda>c. c_archived_at c = None \<and> is_member_of (c_id c) [2019] liked) (channels liked) = [c] \<and> c_id c = [2008]"
    by (simp only: liked_eq) (simp add: run_defs is_member_of_def del: One_nat_def)
  then have "\<exists>c. load_channels demo_env [2019] liked = Inr ([c], liked\<lparr>tick := Suc (tick liked)\<rparr>) \<and> ci_id c = [2008]"
    by (auto simp: load_channels_def now_def run_bnd run_draw run_gets)
  then obtain c where c: "load_channels demo_env [2019] liked = Inr ([c], liked\<lparr>tick := Suc (tick liked)\<rparr>)" "ci_id c = [2008]" by blast
  have p: "\<exists>q. load_active_presence_sessions demo_env s = Inr (q, s\<lparr>tick := Suc (Suc (tick s))\<rparr>)" for s
    by (simp add: load_active_presence_sessions_def now_def run_bnd run_draw run_gets run_some_or run_ret demo_env_def)
  have d: "\<exists>q. load_dm_sidebar demo_env [2019] s = Inr (q, s\<lparr>tick := Suc (tick s)\<rparr>)" for s
    by (simp add: load_dm_sidebar_def now_def run_bnd run_draw run_gets)
  have h: "\<exists>q. load_hot_labels_cached demo_sqlite (\<lambda>_. None) [2019] 12 s = Inr (q, s\<lparr>tick := Suc (tick s)\<rparr>)" for s
    by (simp add: load_hot_labels_cached_def Let_def run_bnd run_gets run_ret load_hot_labels_run)
  have t: "\<exists>q. load_threads demo_env [2019] i s = Inr (q, s\<lparr>tick := Suc (tick s)\<rparr>)" for s i
    by (simp add: load_threads_def now_def run_bnd run_draw run_gets)
  have n: "\<exists>q. load_notifications_page demo_codec [2019] (first_page 20) s = Inr q" for s
    by (simp add: load_notifications_page_def pages_def first_page_def Let_def)
  obtain p' d' h' t' n' where runs: "\<And>s. load_active_presence_sessions demo_env s = Inr (p' s, s\<lparr>tick := Suc (Suc (tick s))\<rparr>)"
    "\<And>s. load_dm_sidebar demo_env [2019] s = Inr (d' s, s\<lparr>tick := Suc (tick s)\<rparr>)"
    "\<And>s. load_hot_labels_cached demo_sqlite (\<lambda>_. None) [2019] 12 s = Inr (h' s, s\<lparr>tick := Suc (tick s)\<rparr>)"
    "\<And>s i. load_threads demo_env [2019] i s = Inr (t' i s, s\<lparr>tick := Suc (tick s)\<rparr>)"
    "\<And>s. load_notifications_page demo_codec [2019] (first_page 20) s = Inr (n' s)"
    using p d h t n by metis
  have "\<exists>sn cache t. snapshot_with_history_limit demo_env demo_codec demo_sqlite {} (\<lambda>_. None) [2019] (Some [2053]) None None 10 liked
      = Inr ((sn, cache), t) \<and> sn_username sn = Some (lit ''bob'') \<and> map ci_id (sn_channels sn) = [[2008]]"
    unfolding snapshot_with_history_limit_def Let_def case_prod_unfold
    by (simp add: run_bnd run_ret run_gets run_lift_res run_optional x c runs selected_def pick_channel_def or_else_def first_of_def
        del: One_nat_def)
  then show ?thesis
  proof (elim exE conjE)
    fix sn cache t
    assume "snapshot_with_history_limit demo_env demo_codec demo_sqlite {} (\<lambda>_. None) [2019] (Some [2053]) None None 10 liked = Inr ((sn, cache), t)"
    from snapshot_confined [OF reachable_serving [OF reachable_liked] this]
    have "confined [2019] liked sn" "list_all (own_hot [2019] liked) (sn_hot_labels sn)" by blast+
    moreover assume "sn_username sn = Some (lit ''bob'')" "map ci_id (sn_channels sn) = [[2008]]"
    ultimately show ?thesis by (intro exI [where x = sn] conjI)
  qed
qed

text \<open>
  C27: A search shows only threads, comments and messages of the searcher's own channels and
  conversations, whatever the search engine answers.
\<close>

theorem search_confined:
  assumes "search_visible_page E C Q a query r s = Inr (p, t)" "i \<in> set (pg_items p)"
  shows "own_place a (sr_channel_id i) (sr_conversation_id i) s"
proof -
  obtain match where "search_pages E C Q (trim query) (search_rows match a s) r = Inr p"
    using assms(1) by (auto simp: search_visible_page_def Let_def bnd_def thn_def ensure_def ret_def gets_def lift_res_def fail_def
        split: sum.splits option.splits if_splits)
  then obtain q where q: "pages C search_order (search_after Q) 2 (\<lambda>r. r) (search_cursor Q) 500 (search_rows match a s) r = Inr q"
    and p: "pg_items p = map (\<lambda>r. search_result_of E (trim query) (fst r)) (pg_items q)"
    by (cases "pages C search_order (search_after Q) 2 (\<lambda>r. r) (search_cursor Q) 500 (search_rows match a s) r")
       (auto simp: search_pages_eq)
  obtain x k where "(x, k) \<in> set (pg_items q)" "i = search_result_of E (trim query) x"
    using assms(2) by (auto simp: p)
  with pages_items [OF q] search_own [of x k match a s] show ?thesis
    by (auto simp: search_result_of_def Let_def)
qed

theorem search_confined_witness:
  "\<exists>p i. search_visible_page demo_env demo_codec demo_sqlite [2019] (lit ''ann'') (first_page 10) liked = Inr (p, liked)
     \<and> i \<in> set (pg_items p) \<and> own_place [2019] (sr_channel_id i) (sr_conversation_id i) liked"
proof -
  have "case search_visible_page demo_env demo_codec demo_sqlite [2019] (lit ''ann'') (first_page 10) liked of Inl _ \<Rightarrow> False
    | Inr (p, t) \<Rightarrow> length (pg_items p) = 1 \<and> t = liked"
    unfolding search_visible_page_def search_pages_def sql_page_def search_rows_def first_page_def page_limit_def
    by (simp only: liked_eq)
       (simp add: run_defs demo_sqlite_def source_shown_def is_member_of_def left_join_def search_order_def demo_env_def
          del: One_nat_def)
  then obtain p where run: "search_visible_page demo_env demo_codec demo_sqlite [2019] (lit ''ann'') (first_page 10) liked = Inr (p, liked)"
    "length (pg_items p) = 1"
    by (auto split: sum.splits)
  then obtain i where "i \<in> set (pg_items p)" by (cases "pg_items p") auto
  with search_confined [OF run(1) this] run(1) show ?thesis by blast
qed

section \<open>The cache of hot labels\<close>

text \<open>
  An answer of the cache may be old, but only by the clock: after any later requests, what the
  cached loader returns is what the loader without a cache would have returned on the tables as
  they are then at some reading of the clock - the one at which the entry was made, since the
  entries do not expire while no event is logged, although the scores depend on the date.
\<close>

theorem hot_labels_fresh:
  assumes "reachable E s" "(step E)\<^sup>*\<^sup>* s t" "cache (a, page_limit limit 50) = None"
    and "load_hot_labels_cached Q cache a limit s = Inr ((hot, cache'), u)"
    and "load_hot_labels_cached Q cache' a limit t = Inr ((hot', cache''), v)"
  shows "\<exists>n w. load_hot_labels Q a (page_limit limit 50) (t\<lparr>tick := n\<rparr>) = Inr (hot', w)"
proof (cases "last_event_seq t = last_event_seq s")
  case True
  note c = cached_run [OF assms(3,4)]
  have "hot' = hot" using cached_hit [of cache' a limit t hot Q] c(2) True assms(5) by simp
  moreover have "hot_rows a (t\<lparr>tick := tick s\<rparr>) = hot_rows a s"
    using hot_rows_fresh [OF assms(1,2) True, of a] by (simp add: hot_rows_view hot_view_def)
  ultimately show ?thesis using c(1) by (auto simp: load_hot_labels_run intro!: exI [where x = "tick s"])
next
  case False
  then have "load_hot_labels Q a (page_limit limit 50) t = Inr (hot', v)"
    using assms(5) cached_run(2) [OF assms(3,4)]
    by (auto simp: load_hot_labels_cached_def Let_def bnd_def gets_def ret_def load_hot_labels_run)
  then show ?thesis by (intro exI [where x = "tick t"]) auto
qed

theorem hot_labels_fresh_witness:
  "\<exists>n w. load_hot_labels demo_sqlite [2019] 5 (staffed\<lparr>tick := n\<rparr>) =
     Inr ([\<lparr>hl_tag = lit ''ok'', hl_count = 1, hl_latest_at = [1026]\<rparr>], w)"
proof -
  let ?hot = "[\<lparr>hl_tag = lit ''ok'', hl_count = 1, hl_latest_at = [1026]\<rparr>]" and ?t = "staffed\<lparr>tick := Suc (tick staffed)\<rparr>"
  obtain cache u where run: "load_hot_labels_cached demo_sqlite (\<lambda>_. None) [2019] 5 staffed = Inr ((?hot, cache), u)"
    by (simp only: staffed_eq) (simp add: load_hot_labels_cached_def run_defs page_limit_def load_hot_labels_run hot_rows_def
        hot_label_of_def tag_rows_def left_join_def source_shown_def is_member_of_def)
  have "cache ([2019], page_limit 5 50) = Some (last_event_seq ?t, ?hot)"
    using cached_run(2) [OF _ run] by (simp add: last_event_seq_def)
  then have hit: "load_hot_labels_cached demo_sqlite cache [2019] 5 ?t = Inr ((?hot, cache), ?t)" by (rule cached_hit)
  have "\<exists>n w. load_hot_labels demo_sqlite [2019] (page_limit 5 50) (?t\<lparr>tick := n\<rparr>) = Inr (?hot, w)"
    by (rule hot_labels_fresh [OF reachable_staffed _ _ run hit]) (auto intro: step.time_passes)
  then show ?thesis by (simp add: page_limit_def)
qed

end
