(* ===== verification/Limits.thy ===== *)
theory Limits
  imports Text "HOL-Library.Word" "HOL-Library.Multiset"
begin

text \<open>
  The limits of the SSH server, \<open>ssh/server.rs\<close>: how many connections are open, how many of
  them have not authenticated, and how long an address that keeps failing is turned away. A permit
  is a value whose drop gives it back, so a pool is its counters and the permits are whoever holds
  them. Instants and durations are milliseconds.
\<close>

type_synonym instant = nat

datatype ip_addr = IPv4 "32 word" | IPv6 "128 word"

definition usize_max :: nat where
  "usize_max = 18446744073709551615"

section \<open>Counting by address\<close>

text \<open>
  Both limiters count in a map from addresses, with the same code: an entry is made when it is
  asked for and goes when it falls to zero.
\<close>

definition count_of :: "(ip_addr \<rightharpoonup> nat) \<Rightarrow> ip_addr \<Rightarrow> nat" where
  "count_of m ip = (case m ip of None \<Rightarrow> 0 | Some n \<Rightarrow> n)"

definition release_count :: "ip_addr \<Rightarrow> (ip_addr \<rightharpoonup> nat) \<Rightarrow> ip_addr \<rightharpoonup> nat" where
  "release_count ip m =
     (case m ip of None \<Rightarrow> m
      | Some n \<Rightarrow> if n - 1 = 0 then m(ip := None) else m(ip \<mapsto> n - 1))"

section \<open>Open connections\<close>

record admission_limiter =
  al_global :: nat
  al_per_ip :: "ip_addr \<rightharpoonup> nat"
  al_max_per_ip :: nat

definition new_admission :: "nat \<Rightarrow> nat \<Rightarrow> admission_limiter" where
  "new_admission max_connections max_per_ip =
     \<lparr>al_global = max_connections, al_per_ip = Map.empty, al_max_per_ip = max_per_ip\<rparr>"

text \<open>The semaphore's permit is dropped again when the address has too many.\<close>

definition try_acquire :: "ip_addr \<Rightarrow> admission_limiter \<Rightarrow> bool \<times> admission_limiter" where
  "try_acquire ip l =
     (if al_global l = 0 then (False, l)
      else let n = count_of (al_per_ip l) ip in
        if al_max_per_ip l \<le> n then (False, l\<lparr>al_per_ip := (al_per_ip l)(ip \<mapsto> n)\<rparr>)
        else (True, l\<lparr>al_global := al_global l - 1, al_per_ip := (al_per_ip l)(ip \<mapsto> n + 1)\<rparr>))"

definition drop_admission :: "ip_addr \<Rightarrow> admission_limiter \<Rightarrow> admission_limiter" where
  "drop_admission ip l = l\<lparr>al_global := al_global l + 1, al_per_ip := release_count ip (al_per_ip l)\<rparr>"

section \<open>Failed logins\<close>

datatype failure_key = FailureKey (fk_ip: ip_addr) (fk_username: str) (fk_key_fp: str)

definition safe_log_field :: "str \<Rightarrow> str" where
  "safe_log_field s = take 128 (filter (\<lambda>c. \<not> is_control c) s)"

definition ip_key :: "ip_addr \<Rightarrow> failure_key" where
  "ip_key ip = FailureKey ip [] []"

definition composite_key :: "ip_addr \<Rightarrow> str \<Rightarrow> str option \<Rightarrow> failure_key" where
  "composite_key ip username key_fp =
     FailureKey ip (safe_log_field username) (case key_fp of None \<Rightarrow> [] | Some k \<Rightarrow> safe_log_field k)"

record failure_bucket =
  fb_window_started :: instant
  fb_count :: nat

record abuse_limiter =
  ab_unauth_global :: nat
  ab_unauth_per_ip :: "ip_addr \<rightharpoonup> nat"
  ab_max_unauth_per_ip :: nat
  ab_failure_window :: nat
  ab_failures_before_penalty :: nat
  ab_penalty :: nat
  ab_failures :: "failure_key \<rightharpoonup> failure_bucket"
  ab_penalties :: "ip_addr \<rightharpoonup> instant"

definition new_abuse :: "nat \<Rightarrow> nat \<Rightarrow> nat \<Rightarrow> nat \<Rightarrow> nat \<Rightarrow> abuse_limiter" where
  "new_abuse max_unauth max_unauth_per_ip failure_window failures_before_penalty pen =
     \<lparr>ab_unauth_global = max_unauth, ab_unauth_per_ip = Map.empty, ab_max_unauth_per_ip = max_unauth_per_ip,
      ab_failure_window = failure_window, ab_failures_before_penalty = failures_before_penalty, ab_penalty = pen,
      ab_failures = Map.empty, ab_penalties = Map.empty\<rparr>"

definition try_acquire_unauth :: "ip_addr \<Rightarrow> abuse_limiter \<Rightarrow> bool \<times> abuse_limiter" where
  "try_acquire_unauth ip l =
     (if ab_unauth_global l = 0 then (False, l)
      else let n = count_of (ab_unauth_per_ip l) ip in
        if ab_max_unauth_per_ip l \<le> n
        then (False, l\<lparr>ab_unauth_per_ip := (ab_unauth_per_ip l)(ip \<mapsto> n)\<rparr>)
        else (True, l\<lparr>ab_unauth_global := ab_unauth_global l - 1,
               ab_unauth_per_ip := (ab_unauth_per_ip l)(ip \<mapsto> n + 1)\<rparr>))"

definition drop_unauth :: "ip_addr \<Rightarrow> abuse_limiter \<Rightarrow> abuse_limiter" where
  "drop_unauth ip l =
     l\<lparr>ab_unauth_global := ab_unauth_global l + 1, ab_unauth_per_ip := release_count ip (ab_unauth_per_ip l)\<rparr>"

text \<open>The time left of a penalty; one that is over is forgotten.\<close>

definition penalty_remaining :: "instant \<Rightarrow> ip_addr \<Rightarrow> abuse_limiter \<Rightarrow> nat option \<times> abuse_limiter" where
  "penalty_remaining now ip l =
     (case ab_penalties l ip of
        None \<Rightarrow> (None, l)
      | Some until \<Rightarrow>
          if now < until then (Some (until - now), l)
          else (None, l\<lparr>ab_penalties := (ab_penalties l)(ip := None)\<rparr>))"

text \<open>One turn of the loop over the two keys: the bucket afterwards, and whether it is full.\<close>

definition count_failure :: "instant \<Rightarrow> nat \<Rightarrow> failure_key \<Rightarrow> (failure_key \<rightharpoonup> failure_bucket) \<Rightarrow> failure_bucket" where
  "count_failure now window key failures =
     (let bucket = (case failures key of None \<Rightarrow> \<lparr>fb_window_started = now, fb_count = 0\<rparr> | Some b \<Rightarrow> b);
          bucket = (if window < now - fb_window_started bucket then \<lparr>fb_window_started = now, fb_count = 0\<rparr> else bucket)
      in bucket\<lparr>fb_count := min (fb_count bucket + 1) usize_max\<rparr>)"

primrec count_failures :: "instant \<Rightarrow> nat \<Rightarrow> nat \<Rightarrow> failure_key list \<Rightarrow> bool \<Rightarrow> (failure_key \<rightharpoonup> failure_bucket)
    \<Rightarrow> bool \<times> (failure_key \<rightharpoonup> failure_bucket)" where
  "count_failures now window limit [] penalize failures = (penalize, failures)"
| "count_failures now window limit (key # keys) penalize failures =
     (let bucket = count_failure now window key failures
      in count_failures now window limit keys (penalize \<or> limit \<le> fb_count bucket) (failures(key \<mapsto> bucket)))"

definition retain_others :: "ip_addr \<Rightarrow> (failure_key \<rightharpoonup> failure_bucket) \<Rightarrow> failure_key \<rightharpoonup> failure_bucket" where
  "retain_others ip failures = (\<lambda>key. if fk_ip key \<noteq> ip then failures key else None)"

definition record_failure :: "instant \<Rightarrow> ip_addr option \<Rightarrow> str \<Rightarrow> str option \<Rightarrow> abuse_limiter \<Rightarrow> bool \<times> abuse_limiter" where
  "record_failure now peer_addr username key_fp l =
     (case peer_addr of
        None \<Rightarrow> (False, l)
      | Some ip \<Rightarrow>
          let (penalize, failures) = count_failures now (ab_failure_window l) (ab_failures_before_penalty l)
                [ip_key ip, composite_key ip username key_fp] False (ab_failures l)
          in if penalize
             then (True, l\<lparr>ab_failures := retain_others ip failures,
                    ab_penalties := (ab_penalties l)(ip \<mapsto> now + ab_penalty l)\<rparr>)
             else (False, l\<lparr>ab_failures := failures\<rparr>))"

definition clear_source :: "ip_addr option \<Rightarrow> abuse_limiter \<Rightarrow> abuse_limiter" where
  "clear_source peer_addr l =
     (case peer_addr of None \<Rightarrow> l
      | Some ip \<Rightarrow> l\<lparr>ab_penalties := (ab_penalties l)(ip := None), ab_failures := retain_others ip (ab_failures l)\<rparr>)"


section \<open>The contract of a pool\<close>

text \<open>
  \<open>ledger\<close>: the permits of \<open>live\<close> are out of a pool of \<open>cap\<close>. Every permit is counted at its
  address, an address without permits has no entry, and the limits hold.
\<close>

lemma count_of_None [simp]: "m ip = None \<Longrightarrow> count_of m ip = 0"
  by (simp add: count_of_def)

lemma count_of_upd [simp]: "count_of (m(ip \<mapsto> n)) x = (if x = ip then n else count_of m x)"
  by (simp add: count_of_def)

lemma count_release: "count_of (release_count ip m) x = (if x = ip then count_of m ip - 1 else count_of m x)"
  by (auto simp: release_count_def count_of_def split: option.splits)

lemma release_count_zero: "release_count ip m x = Some 0 \<Longrightarrow> m x = Some 0"
  by (auto simp: release_count_def split: option.splits if_splits)

locale permit_pool =
  fixes free :: "'s \<Rightarrow> nat" and counts :: "'s \<Rightarrow> ip_addr \<rightharpoonup> nat" and per_ip :: "'s \<Rightarrow> nat"
    and acquire :: "ip_addr \<Rightarrow> 's \<Rightarrow> bool \<times> 's" and release :: "ip_addr \<Rightarrow> 's \<Rightarrow> 's"
  assumes granted: "fst (acquire ip s) \<longleftrightarrow> 0 < free s \<and> count_of (counts s) ip < per_ip s"
    and taken: "fst (acquire ip s) \<Longrightarrow> free (snd (acquire ip s)) = free s - 1
      \<and> counts (snd (acquire ip s)) = (counts s)(ip \<mapsto> count_of (counts s) ip + 1)"
    and refused: "0 < per_ip s \<Longrightarrow> \<not> fst (acquire ip s) \<Longrightarrow> snd (acquire ip s) = s"
    and returned: "free (release ip s) = free s + 1" "counts (release ip s) = release_count ip (counts s)"
    and limit_kept: "per_ip (snd (acquire ip s)) = per_ip s" "per_ip (release ip s) = per_ip s"
begin

definition ledger :: "nat \<Rightarrow> ip_addr multiset \<Rightarrow> 's \<Rightarrow> bool" where
  "ledger cap live s \<longleftrightarrow> free s + size live = cap \<and> 0 < per_ip s
     \<and> (\<forall>ip. count_of (counts s) ip = count live ip \<and> count live ip \<le> per_ip s \<and> counts s ip \<noteq> Some 0)"

lemma ledger_cong:
  "free t = free s \<Longrightarrow> counts t = counts s \<Longrightarrow> per_ip t = per_ip s \<Longrightarrow> ledger cap live t = ledger cap live s"
  by (simp add: ledger_def)

lemma ledger_acquire:
  assumes "ledger cap live s" "fst (acquire ip s)"
  shows "ledger cap (add_mset ip live) (snd (acquire ip s))"
  using assms taken [of ip s] by (auto simp: ledger_def granted limit_kept)

lemma ledger_refused:
  assumes "ledger cap live s" "\<not> fst (acquire ip s)"
  shows "snd (acquire ip s) = s"
  using assms refused by (auto simp: ledger_def)

lemma ledger_release:
  assumes "ledger cap (add_mset ip live) s"
  shows "ledger cap live (release ip s)"
proof -
  have "count live x \<le> per_ip s \<and> count_of (release_count ip (counts s)) x = count live x
      \<and> release_count ip (counts s) x \<noteq> Some 0" for x
    using assms [unfolded ledger_def, THEN conjunct2, THEN conjunct2, rule_format, of x]
    by (auto simp: count_release dest: release_count_zero split: if_splits)
  with assms show ?thesis by (simp add: ledger_def returned limit_kept)
qed

lemma ledger_bounds:
  assumes "ledger cap live s"
  shows "size live \<le> cap" "count live ip \<le> per_ip s"
  using assms by (auto simp: ledger_def)

lemma ledger_grants:
  assumes "ledger cap live s"
  shows "fst (acquire ip s) \<longleftrightarrow> size live < cap \<and> count live ip < per_ip s"
  using assms by (auto simp: ledger_def granted)

end

interpretation admitted: permit_pool al_global al_per_ip al_max_per_ip try_acquire drop_admission
  by unfold_locales (auto simp: try_acquire_def drop_admission_def Let_def count_of_def fun_upd_idem split: option.splits)

interpretation unauth: permit_pool ab_unauth_global ab_unauth_per_ip ab_max_unauth_per_ip try_acquire_unauth drop_unauth
  by unfold_locales (auto simp: try_acquire_unauth_def drop_unauth_def Let_def count_of_def fun_upd_idem split: option.splits)


section \<open>Runs of the failure limiter\<close>

text \<open>
  What reaches the limiter over time: a failed and a successful login of an address, and the
  arrival of a connection, which asks for its penalty.
\<close>

datatype abuse_event = Failure ip_addr str "str option" | Success ip_addr | Arrival ip_addr

fun abuse_step :: "instant \<times> abuse_event \<Rightarrow> abuse_limiter \<Rightarrow> abuse_limiter" where
  "abuse_step (t, Failure ip u k) l = snd (record_failure t (Some ip) u k l)"
| "abuse_step (t, Success ip) l = clear_source (Some ip) l"
| "abuse_step (t, Arrival ip) l = snd (penalty_remaining t ip l)"

definition abuse_run :: "(instant \<times> abuse_event) list \<Rightarrow> abuse_limiter \<Rightarrow> abuse_limiter" where
  "abuse_run evs l = fold abuse_step evs l"

fun fails :: "ip_addr \<Rightarrow> instant \<times> abuse_event \<Rightarrow> bool" where
  "fails ip (t, Failure i u k) \<longleftrightarrow> i = ip"
| "fails ip _ \<longleftrightarrow> False"

definition failures_of :: "ip_addr \<Rightarrow> (instant \<times> abuse_event) list \<Rightarrow> nat" where
  "failures_of ip evs = length (filter (fails ip) evs)"

lemma abuse_run_simps [simp]:
  "abuse_run [] l = l"
  "abuse_run (e # evs) l = abuse_run evs (abuse_step e l)"
  "abuse_run (xs @ ys) l = abuse_run ys (abuse_run xs l)"
  by (simp_all add: abuse_run_def)

lemma settings_kept [simp]:
  "ab_failure_window (abuse_step e l) = ab_failure_window l"
  "ab_failures_before_penalty (abuse_step e l) = ab_failures_before_penalty l"
  "ab_penalty (abuse_step e l) = ab_penalty l"
  by (cases "(e, l)" rule: abuse_step.cases;
      simp add: record_failure_def clear_source_def penalty_remaining_def Let_def split: prod.splits option.splits)+

lemma penalty_kept [simp]: "ab_penalty (abuse_run evs l) = ab_penalty l"
  by (induction evs arbitrary: l) simp_all

text \<open>Another address's events leave an address's bucket alone, and an arrival leaves every bucket.\<close>

lemma fk_ip_keys [simp]: "fk_ip (ip_key ip) = ip" "fk_ip (composite_key ip u k) = ip"
  by (simp_all add: ip_key_def composite_key_def)

lemma bucket_elsewhere:
  assumes "\<not> fails ip e" "snd e \<noteq> Success ip"
  shows "ab_failures (abuse_step e l) (ip_key ip) = ab_failures l (ip_key ip)"
proof -
  have "ip_key ip \<noteq> ip_key i" "ip_key ip \<noteq> composite_key i u k" if "i \<noteq> ip" for i u k
    using that by (auto simp: ip_key_def composite_key_def)
  with assms show ?thesis
    by (cases "(e, l)" rule: abuse_step.cases)
      (auto simp: record_failure_def clear_source_def penalty_remaining_def Let_def retain_others_def split: option.splits)
qed

text \<open>A failure that is not penalised leaves the address's bucket below the limit, one fuller at least.\<close>

definition bucket_at :: "ip_addr \<Rightarrow> abuse_limiter \<Rightarrow> failure_bucket option" where
  "bucket_at ip l = ab_failures l (ip_key ip)"

lemma count_failure_again:
  assumes "b = count_failure t w key fs"
  shows "key' = key \<Longrightarrow> fb_count b \<le> fb_count (count_failure t w key' (fs(key \<mapsto> b)))"
    "key' = key \<Longrightarrow> fb_window_started (count_failure t w key' (fs(key \<mapsto> b))) = fb_window_started b"
  using assms by (auto simp: count_failure_def Let_def split: option.splits)

lemma unpenalised_failure:
  assumes "\<not> fst (record_failure t (Some ip) u k l)"
  defines "b \<equiv> count_failure t (ab_failure_window l) (ip_key ip) (ab_failures l)"
  obtains b' where "bucket_at ip (abuse_step (t, Failure ip u k) l) = Some b'"
    "fb_count b' < ab_failures_before_penalty l" "fb_count b \<le> fb_count b'"
    "fb_window_started b' = fb_window_started b"
proof -
  let ?c = "count_failure t (ab_failure_window l) (composite_key ip u k) ((ab_failures l)(ip_key ip \<mapsto> b))"
  have below: "fb_count b < ab_failures_before_penalty l" "fb_count ?c < ab_failures_before_penalty l"
    using assms(1) unfolding b_def by (auto simp: record_failure_def Let_def split: if_splits)
  then have "bucket_at ip (abuse_step (t, Failure ip u k) l)
      = (if composite_key ip u k = ip_key ip then Some ?c else Some b)"
    unfolding b_def by (simp add: bucket_at_def record_failure_def Let_def)
  note at = this
  have again: "composite_key ip u k = ip_key ip \<Longrightarrow> fb_count b \<le> fb_count ?c \<and> fb_window_started ?c = fb_window_started b"
    using count_failure_again [where w = "ab_failure_window l" and key' = "composite_key ip u k"] b_def by simp
  show thesis
  proof (cases "composite_key ip u k = ip_key ip")
    case True
    with at below(2) again show thesis by (intro that [of ?c]) simp_all
  next
    case False
    with at below(1) show thesis by (intro that [of b]) simp_all
  qed
qed

text \<open>
  The buckets have fixed windows, so one of them may end among \<open>n\<close> failures that lie within the length
  of a window: then those before it and those after it are counted apart.
\<close>

definition failures_counted :: "nat \<Rightarrow> instant \<Rightarrow> ip_addr \<Rightarrow> abuse_limiter \<Rightarrow> bool" where
  "failures_counted n first ip l \<longleftrightarrow> n = 0 \<or>
     (\<exists>b. bucket_at ip l = Some b \<and> fb_count b < ab_failures_before_penalty l
        \<and> (n \<le> fb_count b \<or> first \<le> fb_window_started b \<and> n < fb_count b + ab_failures_before_penalty l))"

lemma counted_failure:
  assumes "failures_counted n first ip l" "\<not> fst (record_failure t (Some ip) u k l)"
    and t: "first \<le> t" "t \<le> first + ab_failure_window l" and "ab_failures_before_penalty l \<le> usize_max"
  shows "failures_counted (Suc n) first ip (abuse_step (t, Failure ip u k) l)"
proof -
  let ?b = "count_failure t (ab_failure_window l) (ip_key ip) (ab_failures l)"
  obtain b' where b': "bucket_at ip (abuse_step (t, Failure ip u k) l) = Some b'"
    "fb_count b' < ab_failures_before_penalty l" "fb_count ?b \<le> fb_count b'"
    "fb_window_started b' = fb_window_started ?b"
    by (rule unpenalised_failure [OF assms(2)])
  have "Suc n \<le> fb_count ?b \<or> first \<le> fb_window_started ?b \<and> Suc n < fb_count ?b + ab_failures_before_penalty l"
    using assms(1,5) t b'(2,3)
    by (cases "ab_failures l (ip_key ip)") (auto simp: failures_counted_def bucket_at_def count_failure_def Let_def usize_max_def)
  with b' show ?thesis by (auto simp: failures_counted_def simp del: abuse_step.simps)
qed

lemma counted_other:
  assumes "failures_counted n first ip l" "\<not> fails ip e" "snd e \<noteq> Success ip"
  shows "failures_counted n first ip (abuse_step e l)"
  using assms by (simp add: failures_counted_def bucket_at_def bucket_elsewhere)

text \<open>Enough failures in one window: one of them is penalised.\<close>

lemma some_failure_penalised:
  assumes "\<forall>(t, e)\<in>set evs. first \<le> t \<and> t \<le> first + ab_failure_window l \<and> e \<noteq> Success ip"
    and "failures_counted n first ip l" "ab_failures_before_penalty l \<le> usize_max"
    and "2 * ab_failures_before_penalty l \<le> n + failures_of ip evs + 1" "0 < ab_failures_before_penalty l"
  shows "\<exists>pre t u k post. evs = pre @ (t, Failure ip u k) # post
    \<and> fst (record_failure t (Some ip) u k (abuse_run pre l))"
  using assms
proof (induction evs arbitrary: n l)
  case Nil
  then show ?case by (auto simp: failures_counted_def failures_of_def)
next
  case (Cons e evs)
  have rest: "\<forall>(t, e')\<in>set evs. first \<le> t \<and> t \<le> first + ab_failure_window (abuse_step e l) \<and> e' \<noteq> Success ip"
    using Cons.prems(1) by auto
  have more: "\<exists>pre t u k post. e # evs = pre @ (t, Failure ip u k) # post
      \<and> fst (record_failure t (Some ip) u k (abuse_run pre l))"
    if c: "failures_counted m first ip (abuse_step e l)"
      and enough: "2 * ab_failures_before_penalty l \<le> m + failures_of ip evs + 1" for m
  proof -
    obtain pre t u k post where "evs = pre @ (t, Failure ip u k) # post"
      "fst (record_failure t (Some ip) u k (abuse_run pre (abuse_step e l)))"
      using Cons.IH [OF rest c] enough Cons.prems(3,5) by auto
    then have "e # evs = (e # pre) @ (t, Failure ip u k) # post
        \<and> fst (record_failure t (Some ip) u k (abuse_run (e # pre) l))" by simp
    then show ?thesis by blast
  qed
  show ?case
  proof (cases "fails ip e")
    case True
    then obtain t u k where e: "e = (t, Failure ip u k)" by (cases "(ip, e)" rule: fails.cases) auto
    show ?thesis
    proof (cases "fst (record_failure t (Some ip) u k l)")
      case True
      then have "e # evs = [] @ (t, Failure ip u k) # evs \<and> fst (record_failure t (Some ip) u k (abuse_run [] l))"
        by (simp add: e)
      then show ?thesis by blast
    next
      case False
      have "failures_counted (Suc n) first ip (abuse_step e l)"
        unfolding e by (rule counted_failure [OF Cons.prems(2) False]) (use Cons.prems(1,3) e in auto)
      then show ?thesis by (rule more) (use Cons.prems(4) e in \<open>simp add: failures_of_def\<close>)
    qed
  next
    case False
    have "failures_counted n first ip (abuse_step e l)"
      by (rule counted_other [OF Cons.prems(2) False]) (use Cons.prems(1) in auto)
    then show ?thesis by (rule more) (use Cons.prems(4) False in \<open>simp add: failures_of_def\<close>)
  qed
qed

text \<open>A penalty outlasts everything but its end and a login from the address.\<close>

definition penalised_until :: "instant \<Rightarrow> ip_addr \<Rightarrow> abuse_limiter \<Rightarrow> bool" where
  "penalised_until until ip l \<longleftrightarrow> (\<exists>v. ab_penalties l ip = Some v \<and> until \<le> v)"

lemma penalised_step:
  assumes "penalised_until until ip l" "snd e \<noteq> Success ip" "fst e < until" "until \<le> fst e + ab_penalty l"
  shows "penalised_until until ip (abuse_step e l)"
  using assms
  by (cases "(e, l)" rule: abuse_step.cases)
    (auto simp: penalised_until_def record_failure_def clear_source_def penalty_remaining_def Let_def split: option.splits)

lemma penalised_run:
  assumes "penalised_until until ip l"
    "\<forall>(t, e)\<in>set evs. t < until \<and> until \<le> t + ab_penalty l \<and> e \<noteq> Success ip"
  shows "penalised_until until ip (abuse_run evs l)"
  using assms
proof (induction evs arbitrary: l)
  case (Cons e evs)
  have "penalised_until until ip (abuse_step e l)"
    by (rule penalised_step [OF Cons.prems(1)]) (use Cons.prems(2) in auto)
  then show ?case using Cons.IH [of "abuse_step e l"] Cons.prems(2) by auto
qed simp

lemma penalised_refused: "penalised_until until ip l \<Longrightarrow> now < until \<Longrightarrow> fst (penalty_remaining now ip l) \<noteq> None"
  by (auto simp: penalised_until_def penalty_remaining_def)

lemma failure_penalised:
  "fst (record_failure t (Some ip) u k l) \<Longrightarrow> penalised_until (t + ab_penalty l) ip (abuse_step (t, Failure ip u k) l)"
  by (auto simp: penalised_until_def record_failure_def Let_def split: prod.splits if_splits)

text \<open>
  Password guessing is bounded. An address with \<open>2 n - 1\<close> penalised failures within the failure
  window, \<open>n\<close> the configured number, whatever names and keys it tries and whatever other addresses
  do, has been penalised at one of them: until the penalty is over, every connection from it is
  turned away, unless a login from it succeeds.
\<close>

theorem guessing_bounded:
  assumes "sorted (map fst evs)"
    and "\<forall>(t, e)\<in>set evs. first \<le> t \<and> t \<le> first + ab_failure_window l \<and> e \<noteq> Success ip"
    and "0 < ab_failures_before_penalty l" "ab_failures_before_penalty l \<le> usize_max"
    and "2 * ab_failures_before_penalty l - 1 \<le> failures_of ip evs"
  shows "\<exists>pre t u k post. evs = pre @ (t, Failure ip u k) # post \<and>
    (\<forall>now. now < t + ab_penalty l \<longrightarrow> (\<forall>(t', e)\<in>set post. t' \<le> now) \<longrightarrow>
       fst (penalty_remaining now ip (abuse_run evs l)) \<noteq> None)"
proof -
  have "2 * ab_failures_before_penalty l \<le> 0 + failures_of ip evs + 1" using assms(5) by simp
  moreover have "failures_counted 0 first ip l" by (simp add: failures_counted_def)
  ultimately obtain pre t u k post where evs: "evs = pre @ (t, Failure ip u k) # post"
    and pen: "fst (record_failure t (Some ip) u k (abuse_run pre l))"
    using some_failure_penalised [OF assms(2)] assms(3,4) by blast
  have "fst (penalty_remaining now ip (abuse_run evs l)) \<noteq> None"
    if now: "now < t + ab_penalty l" "\<forall>(t', e)\<in>set post. t' \<le> now" for now
  proof -
    have later: "\<forall>x\<in>set post. t \<le> fst x" using assms(1) by (simp add: evs sorted_append)
    have "t' < t + ab_penalty l \<and> t + ab_penalty l \<le> t' + ab_penalty l \<and> e \<noteq> Success ip"
      if "(t', e) \<in> set post" for t' e
      using that now(1) bspec [OF now(2) that] bspec [OF later that] bspec [OF assms(2), of "(t', e)"]
      by (simp add: evs)
    then have "penalised_until (t + ab_penalty l) ip (abuse_run evs l)"
      unfolding evs abuse_run_simps
      by (intro penalised_run) (use failure_penalised [OF pen] in \<open>auto simp del: abuse_step.simps\<close>)
    then show ?thesis using now(1) by (rule penalised_refused)
  qed
  with evs show ?thesis by blast
qed

definition home :: ip_addr where
  "home = IPv4 2130706433"

definition demo_guesses :: "(instant \<times> abuse_event) list" where
  "demo_guesses = [(0, Failure home (lit ''ann'') None), (5, Failure home (lit ''bob'') None),
     (6, Arrival (IPv6 1)), (9, Failure home (lit ''ann'') None)]"

lemma guessing_bounded_witness:
  "\<exists>pre t u k post. demo_guesses = pre @ (t, Failure home u k) # post \<and>
    (\<forall>now. now < t + 60 \<longrightarrow> (\<forall>(t', e)\<in>set post. t' \<le> now) \<longrightarrow>
       fst (penalty_remaining now home (abuse_run demo_guesses (new_abuse 10 10 300 2 60))) \<noteq> None)"
  using guessing_bounded [of demo_guesses 0 "new_abuse 10 10 300 2 60" home]
  by (simp add: demo_guesses_def new_abuse_def failures_of_def home_def usize_max_def)

text \<open>
  The bound is about twice the configured number because windows are not sliding: five failures in
  300 seconds are not penalised at a limit of five when a window ends among them.
\<close>

lemma window_splits:
  "fst (record_failure 310 (Some home) (lit ''eve'') None
     (abuse_run [(0, Failure home (lit ''a'') None), (200, Failure home (lit ''b'') None), (290, Failure home (lit ''c'') None),
        (300, Failure home (lit ''d'') None), (301, Failure home (lit ''e'') None)] (new_abuse 10 10 300 5 60))) = False"
  by (simp add: new_abuse_def record_failure_def Let_def count_failure_def ip_key_def composite_key_def home_def
      safe_log_field_def lit_def is_control_def retain_others_def usize_max_def)

text \<open>A failure without a user name and a key is counted twice: both keys are the address alone.\<close>

lemma nameless_counts_twice:
  "bucket_at home (abuse_step (7, Failure home [] None) (new_abuse 10 10 300 5 60))
    = Some \<lparr>fb_window_started = 7, fb_count = 2\<rparr>"
  by (simp add: bucket_at_def new_abuse_def record_failure_def Let_def count_failure_def ip_key_def composite_key_def
      safe_log_field_def usize_max_def)

end
