(* ===== verification/Utf8.thy ===== *)
theory Utf8
  imports Text "HOL-Library.Word"
begin

text \<open>
  UTF-8 as Rust's standard library has it: the bytes of a scalar value, \<open>str::from_utf8\<close>,
  which refuses overlong forms, surrogates and values above U+10FFFF, and
  \<open>String::from_utf8_lossy\<close>, which writes U+FFFD for every maximal invalid part.
\<close>

type_synonym byte = "8 word"

definition byte_at :: "nat \<Rightarrow> byte list \<Rightarrow> (nat \<Rightarrow> bool) \<Rightarrow> bool" where
  "byte_at i bs p \<longleftrightarrow> i < length bs \<and> p (unat (bs ! i))"

definition continuation :: "nat \<Rightarrow> bool" where
  "continuation n \<longleftrightarrow> 128 \<le> n \<and> n < 192"

definition second_of_three :: "nat \<Rightarrow> nat \<Rightarrow> bool" where
  "second_of_three first n \<longleftrightarrow>
     (if first = 224 then 160 \<le> n \<and> n < 192 else if first = 237 then 128 \<le> n \<and> n < 160 else continuation n)"

definition second_of_four :: "nat \<Rightarrow> nat \<Rightarrow> bool" where
  "second_of_four first n \<longleftrightarrow>
     (if first = 240 then 144 \<le> n \<and> n < 192 else if first = 244 then 128 \<le> n \<and> n < 144 else continuation n)"

text \<open>
  The first character with its number of bytes, or nothing with the length of the part that no
  character starts with.
\<close>

definition utf8_step :: "byte list \<Rightarrow> uchar option \<times> nat" where
  "utf8_step bs =
     (let b = (\<lambda>i. unat (bs ! i)) in
      if b 0 < 128 then (Some (b 0), 1)
      else if 194 \<le> b 0 \<and> b 0 \<le> 223 then
        if byte_at 1 bs continuation then (Some ((b 0 - 192) * 64 + (b 1 - 128)), 2) else (None, 1)
      else if 224 \<le> b 0 \<and> b 0 \<le> 239 then
        if \<not> byte_at 1 bs (second_of_three (b 0)) then (None, 1)
        else if \<not> byte_at 2 bs continuation then (None, 2)
        else (Some (((b 0 - 224) * 64 + (b 1 - 128)) * 64 + (b 2 - 128)), 3)
      else if 240 \<le> b 0 \<and> b 0 \<le> 244 then
        if \<not> byte_at 1 bs (second_of_four (b 0)) then (None, 1)
        else if \<not> byte_at 2 bs continuation then (None, 2)
        else if \<not> byte_at 3 bs continuation then (None, 3)
        else (Some ((((b 0 - 240) * 64 + (b 1 - 128)) * 64 + (b 2 - 128)) * 64 + (b 3 - 128)), 4)
      else (None, 1))"

lemma utf8_step_width: "1 \<le> snd (utf8_step bs)"
  by (simp add: utf8_step_def Let_def)

lemma utf8_step_pos: "(c, n) = utf8_step bs \<Longrightarrow> 0 < n" "utf8_step bs = (c, n) \<Longrightarrow> 0 < n"
  using utf8_step_width [of bs] by (metis less_le_trans snd_conv zero_less_one)+

function from_utf8 :: "byte list \<Rightarrow> str option" where
  "from_utf8 bs =
     (if bs = [] then Some []
      else case utf8_step bs of (None, _) \<Rightarrow> None
        | (Some c, n) \<Rightarrow> map_option (Cons c) (from_utf8 (drop n bs)))"
  by pat_completeness auto
termination
  by (relation "measure length") (auto dest: utf8_step_pos)

function from_utf8_lossy :: "byte list \<Rightarrow> str" where
  "from_utf8_lossy bs =
     (if bs = [] then []
      else case utf8_step bs of (c, n) \<Rightarrow> (case c of None \<Rightarrow> 65533 | Some c \<Rightarrow> c) # from_utf8_lossy (drop n bs))"
  by pat_completeness auto
termination
  by (relation "measure length") (auto dest: utf8_step_pos)

declare from_utf8.simps [simp del] from_utf8_lossy.simps [simp del]

section \<open>Round trip\<close>

definition is_scalar :: "uchar \<Rightarrow> bool" where
  "is_scalar c \<longleftrightarrow> c < 55296 \<or> (57344 \<le> c \<and> c < 1114112)"

definition encode_utf8 :: "uchar \<Rightarrow> byte list" where
  "encode_utf8 c = map of_nat
     (if c < 128 then [c]
      else if c < 2048 then [192 + c div 64, 128 + c mod 64]
      else if c < 65536 then [224 + c div 4096, 128 + c div 64 mod 64, 128 + c mod 64]
      else [240 + c div 262144, 128 + c div 4096 mod 64, 128 + c div 64 mod 64, 128 + c mod 64])"

definition bytes_of :: "str \<Rightarrow> byte list" where
  "bytes_of s = concat (map encode_utf8 s)"

lemma length_encode: "length (encode_utf8 c) = utf8_width c"
  by (simp add: encode_utf8_def utf8_width_def)

lemma unat_byte: "n < 256 \<Longrightarrow> unat (of_nat n :: byte) = n"
  by (simp add: unat_of_nat take_bit_nat_def)

text \<open>A number is put together again from its digits to the base 64.\<close>

lemma digits64:
  "c div 64 * 64 + c mod 64 = (c :: nat)" "c div 4096 * 64 + c div 64 mod 64 = c div 64"
  "c div 262144 * 64 + c div 4096 mod 64 = c div 4096"
proof -
  have "c div 4096 = c div 64 div 64" "c div 262144 = c div 4096 div 64" by (simp_all add: div_mult2_eq [symmetric])
  then show "c div 4096 * 64 + c div 64 mod 64 = c div 64" "c div 262144 * 64 + c div 4096 mod 64 = c div 4096" by simp_all
qed simp

lemma utf8_step_encode:
  assumes "is_scalar c"
  shows "utf8_step (encode_utf8 c @ r) = (Some c, utf8_width c)"
proof -
  consider "c < 128" | "128 \<le> c" "c < 2048" | "2048 \<le> c" "c < 65536" "c < 55296 \<or> 57344 \<le> c" | "65536 \<le> c" "c < 1114112"
    using assms by (fastforce simp: is_scalar_def not_less)
  then show ?thesis
  proof cases
    case 1
    then show ?thesis by (simp add: encode_utf8_def utf8_step_def utf8_width_def unat_byte)
  next
    case 2
    define x y where "x = 192 + c div 64" and "y = 128 + c mod 64"
    have "194 \<le> x" "x \<le> 223" "128 \<le> y" "y < 192" "(x - 192) * 64 + (y - 128) = c" "encode_utf8 c = map of_nat [x, y]"
      using 2 by (auto simp: x_def y_def encode_utf8_def)
    then show ?thesis
      using 2 by (simp add: utf8_step_def utf8_width_def unat_byte byte_at_def continuation_def)
  next
    case 3
    define x y z where "x = 224 + c div 4096" and "y = 128 + c div 64 mod 64" and "z = 128 + c mod 64"
    have "second_of_three x y"
      using 3 digits64(2) [of c] unfolding second_of_three_def continuation_def x_def y_def by (auto simp: not_le; linarith)
    moreover have "((x - 224) * 64 + (y - 128)) * 64 + (z - 128) = c" by (simp add: x_def y_def z_def digits64)
    moreover have "224 \<le> x" "x \<le> 239" "128 \<le> y" "y < 192" "128 \<le> z" "z < 192" "encode_utf8 c = map of_nat [x, y, z]"
      using 3 by (auto simp: x_def y_def z_def encode_utf8_def)
    ultimately show ?thesis
      using 3 by (simp add: utf8_step_def utf8_width_def unat_byte byte_at_def continuation_def)
  next
    case 4
    define x y z w where "x = 240 + c div 262144" and "y = 128 + c div 4096 mod 64" and "z = 128 + c div 64 mod 64" and "w = 128 + c mod 64"
    have "second_of_four x y"
      using 4 digits64(3) [of c] unfolding second_of_four_def continuation_def x_def y_def by (auto simp: not_le; linarith)
    moreover have "(((x - 240) * 64 + (y - 128)) * 64 + (z - 128)) * 64 + (w - 128) = c" by (simp add: x_def y_def z_def w_def digits64)
    moreover have "240 \<le> x" "x \<le> 244" "128 \<le> y" "y < 192" "128 \<le> z" "z < 192" "128 \<le> w" "w < 192" "encode_utf8 c = map of_nat [x, y, z, w]"
      using 4 by (auto simp: x_def y_def z_def w_def encode_utf8_def)
    ultimately show ?thesis
      using 4 by (simp add: utf8_step_def utf8_width_def unat_byte byte_at_def continuation_def)
  qed
qed

lemma from_utf8_encode:
  assumes "is_scalar c"
  shows "from_utf8 (encode_utf8 c @ r) = map_option (Cons c) (from_utf8 r)"
proof -
  have "encode_utf8 c \<noteq> []" by (simp add: encode_utf8_def)
  then show ?thesis
    by (subst from_utf8.simps) (simp add: utf8_step_encode [OF assms] flip: length_encode)
qed

theorem from_utf8_bytes:
  "list_all is_scalar s \<Longrightarrow> from_utf8 (bytes_of s) = Some s"
  by (induction s) (simp_all add: bytes_of_def from_utf8_encode from_utf8.simps [of "[]"])

text \<open>A character cut short is no character.\<close>

lemma utf8_step_short:
  "194 \<le> x \<Longrightarrow> x \<le> 223 \<Longrightarrow> ys = [] \<Longrightarrow> fst (utf8_step (of_nat x # ys)) = None"
  "224 \<le> x \<Longrightarrow> x \<le> 239 \<Longrightarrow> length ys < 2 \<Longrightarrow> fst (utf8_step (of_nat x # ys)) = None"
  "240 \<le> x \<Longrightarrow> x \<le> 244 \<Longrightarrow> length ys < 3 \<Longrightarrow> fst (utf8_step (of_nat x # ys)) = None"
  by (simp_all add: utf8_step_def Let_def unat_byte byte_at_def)

lemma utf8_step_cut:
  assumes "is_scalar c" "0 < k" "k < utf8_width c"
  shows "fst (utf8_step (take k (encode_utf8 c))) = None"
proof -
  obtain j where j: "k = Suc j" using assms(2) by (cases k) auto
  have cut: "take k (x # ys) = x # take j ys" for x :: byte and ys by (simp add: j)
  consider "128 \<le> c" "c < 2048" | "2048 \<le> c" "c < 65536" | "65536 \<le> c" "c < 1114112"
    using assms by (fastforce simp: is_scalar_def utf8_width_def not_less split: if_splits)
  then show ?thesis
  proof cases
    case 1
    define x where "x = 192 + c div 64"
    have "194 \<le> x" "x \<le> 223" using 1 by (auto simp: x_def)
    moreover have "j = 0" using 1 assms(3) by (simp add: j utf8_width_def)
    moreover obtain ys where "encode_utf8 c = of_nat x # ys" using 1 by (simp add: encode_utf8_def x_def)
    ultimately show ?thesis by (simp only: cut take0 utf8_step_short(1))
  next
    case 2
    define x where "x = 224 + c div 4096"
    have "224 \<le> x" "x \<le> 239" using 2 by (auto simp: x_def)
    moreover have "j < 2" using 2 assms(3) by (simp add: j utf8_width_def)
    moreover obtain ys where "encode_utf8 c = of_nat x # ys" using 2 by (simp add: encode_utf8_def x_def)
    moreover have "length (take j ys) < 2" for ys :: "byte list" using \<open>j < 2\<close> by simp
    ultimately show ?thesis by (simp only: cut utf8_step_short(2))
  next
    case 3
    define x where "x = 240 + c div 262144"
    have "240 \<le> x" "x \<le> 244" using 3 by (auto simp: x_def)
    moreover have "j < 3" using 3 assms(3) by (simp add: j utf8_width_def)
    moreover obtain ys where "encode_utf8 c = of_nat x # ys" using 3 by (simp add: encode_utf8_def x_def)
    moreover have "length (take j ys) < 3" for ys :: "byte list" using \<open>j < 3\<close> by simp
    ultimately show ?thesis by (simp only: cut utf8_step_short(3))
  qed
qed

end
