(* ===== verification/Auth.thy ===== *)
theory Auth
  imports Limits Utf8 Tokens
begin

text \<open>
  The SSH server: the handler of a connection (\<open>ssh/session.rs\<close>) with its three authentication
  methods, the channel requests that lead to a terminal and the ones it refuses, and the accept loop
  (\<open>ssh/server.rs\<close>) around all connections. The SSH library calls the handlers; verifying the
  signature of a public key is its work. Building the interface for an account is a parameter.
\<close>

section \<open>The handler of a connection\<close>

record pending_key_auth =
  pe_fingerprint :: str
  pe_public_key :: str

text \<open>
  The ends of the three queues are what the task of the terminal takes away; the writing end for raw
  input stays with the handler.
\<close>

record 'a client_handler =
  ch_account :: "account option"
  ch_peer_addr :: "ip_addr option"
  ch_channel :: "nat option"
  ch_app :: "'a option"
  ch_input_tx :: bool
  ch_input_rx :: bool
  ch_key_tx :: bool
  ch_key_rx :: bool
  ch_wheel_tx :: bool
  ch_wheel_rx :: bool
  ch_terminal_active :: bool
  ch_pending_key_auth :: "pending_key_auth option"
  ch_authenticated :: bool
  ch_unauth_permit :: "ip_addr option"
  ch_auth_attempts :: nat
  ch_max_auth_attempts :: nat
  ch_auth_deadline :: instant

definition new_handler :: "nat \<Rightarrow> instant \<Rightarrow> ip_addr option \<Rightarrow> ip_addr option \<Rightarrow> 'a client_handler" where
  "new_handler max_auth_attempts deadline peer_addr unauth_permit =
     \<lparr>ch_account = None, ch_peer_addr = peer_addr, ch_channel = None, ch_app = None,
      ch_input_tx = False, ch_input_rx = False, ch_key_tx = False, ch_key_rx = False,
      ch_wheel_tx = False, ch_wheel_rx = False, ch_terminal_active = False,
      ch_pending_key_auth = None, ch_authenticated = False, ch_unauth_permit = unauth_permit,
      ch_auth_attempts = 0, ch_max_auth_attempts = max_auth_attempts, ch_auth_deadline = deadline\<rparr>"

datatype auth_method = PublicKeyMethod | KeyboardInteractiveMethod

datatype auth = Accept | Reject "auth_method list option" | Partial

definition reject_publickey_only :: auth where
  "reject_publickey_only = Reject (Some [PublicKeyMethod])"

definition invite_token_prompt :: auth where
  "invite_token_prompt = Partial"

definition reject_no_more_methods :: auth where
  "reject_no_more_methods = Reject None"

definition auth_deadline_expired :: "instant \<Rightarrow> 'a client_handler \<Rightarrow> bool" where
  "auth_deadline_expired t h \<longleftrightarrow> ch_account h = None \<and> ch_auth_deadline h \<le> t"

definition saturating_inc :: "nat \<Rightarrow> nat" where
  "saturating_inc n = min (n + 1) usize_max"

text \<open>The permit for connections without a login goes back, and the address starts afresh.\<close>

definition mark_authenticated :: "'a client_handler \<Rightarrow> abuse_limiter \<Rightarrow> 'a client_handler \<times> abuse_limiter" where
  "mark_authenticated h l =
     (let l = (case ch_unauth_permit h of None \<Rightarrow> l | Some ip \<Rightarrow> drop_unauth ip l)
      in (h\<lparr>ch_authenticated := True, ch_unauth_permit := None\<rparr>, clear_source (ch_peer_addr h) l))"

definition record_auth_failure :: "instant \<Rightarrow> str \<Rightarrow> str option \<Rightarrow> bool \<Rightarrow> 'a client_handler \<Rightarrow> abuse_limiter
    \<Rightarrow> auth \<times> 'a client_handler \<times> abuse_limiter" where
  "record_auth_failure t user key_fp penalize h l =
     (let h = h\<lparr>ch_auth_attempts := saturating_inc (ch_auth_attempts h)\<rparr>;
          l = (if penalize then snd (record_failure t (ch_peer_addr h) user key_fp l) else l)
      in (if ch_max_auth_attempts h \<le> ch_auth_attempts h then reject_no_more_methods else reject_publickey_only, h, l))"

section \<open>Authentication\<close>

definition auth_publickey :: "env \<Rightarrow> instant \<Rightarrow> str \<Rightarrow> str \<Rightarrow> 'a client_handler \<times> abuse_limiter \<times> world
    \<Rightarrow> auth \<times> 'a client_handler \<times> abuse_limiter \<times> world" where
  "auth_publickey E t fingerprint public_key = (\<lambda>(h, l, w).
     if auth_deadline_expired t h then (reject_no_more_methods, h, l, w)
     else case run_tx (lookup_active_account_for_key E fingerprint) w of
       (Inr (Some account), w) \<Rightarrow>
         let (h, l) = mark_authenticated h l
         in (Accept, h\<lparr>ch_account := Some account, ch_pending_key_auth := None\<rparr>, l, w)
     | (Inr None, w) \<Rightarrow>
         let h = h\<lparr>ch_pending_key_auth := Some \<lparr>pe_fingerprint = fingerprint, pe_public_key = public_key\<rparr>,
                   ch_auth_attempts := saturating_inc (ch_auth_attempts h)\<rparr>
         in (if ch_max_auth_attempts h \<le> ch_auth_attempts h then reject_no_more_methods
             else Reject (Some [KeyboardInteractiveMethod]), h, l, w)
     | (Inl e, w) \<Rightarrow> (Reject None, h\<lparr>ch_pending_key_auth := None\<rparr>, l, w))"

definition auth_password :: "instant \<Rightarrow> str \<Rightarrow> 'a client_handler \<times> abuse_limiter \<times> world
    \<Rightarrow> auth \<times> 'a client_handler \<times> abuse_limiter \<times> world" where
  "auth_password t user = (\<lambda>(h, l, w).
     if auth_deadline_expired t h then (reject_no_more_methods, h, l, w)
     else let (reply, h, l) = record_auth_failure t user None True h l in (reply, h, l, w))"

text \<open>The response is the list of the client's answers, or nothing on the first request.\<close>

definition auth_keyboard_interactive :: "env \<Rightarrow> instant \<Rightarrow> str \<Rightarrow> byte list list option
    \<Rightarrow> 'a client_handler \<times> abuse_limiter \<times> world \<Rightarrow> auth \<times> 'a client_handler \<times> abuse_limiter \<times> world" where
  "auth_keyboard_interactive E t user response = (\<lambda>(h, l, w).
     if auth_deadline_expired t h then (reject_no_more_methods, h, l, w)
     else case ch_pending_key_auth h of
       None \<Rightarrow> let (reply, h, l) = record_auth_failure t user None True h l in (reply, h, l, w)
     | Some pending \<Rightarrow>
         (case response of
            None \<Rightarrow> (invite_token_prompt, h, l, w)
          | Some answers \<Rightarrow>
              let h = h\<lparr>ch_pending_key_auth := None\<rparr>;
                  refuse = (\<lambda>w key_fp. let (reply, h, l) = record_auth_failure t user key_fp True h l in (reply, h, l, w)) in
              (case answers of
                 [] \<Rightarrow> refuse w None
               | answer # _ \<Rightarrow>
                   let token = trim (from_utf8_lossy answer) in
                   if token = [] then refuse w None
                   else case run_tx (redeem_ssh_login_token_for_key E user token (pe_fingerprint pending)
                               (pe_public_key pending)) w of
                     (Inr account, w) \<Rightarrow>
                       let (h, l) = mark_authenticated h l in (Accept, h\<lparr>ch_account := Some account\<rparr>, l, w)
                   | (Inl e, w) \<Rightarrow> refuse w (Some (pe_fingerprint pending)))))"

section \<open>Channels and terminals\<close>

definition channel_open_session :: "nat \<Rightarrow> 'a client_handler \<Rightarrow> bool \<times> 'a client_handler" where
  "channel_open_session channel h =
     (if ch_account h = None \<or> ch_channel h \<noteq> None \<or> ch_terminal_active h then (False, h)
      else (True, h\<lparr>ch_channel := Some channel\<rparr>))"

text \<open>Forwarding, X11, agents, commands and subsystems are refused whatever the state.\<close>

datatype refused_request = OpenX11 | OpenDirectTcpip | OpenForwardedTcpip | OpenDirectStreamlocal | X11Request
  | ExecRequest | SubsystemRequest | AgentRequest | TcpipForward | CancelTcpipForward | StreamlocalForward
  | CancelStreamlocalForward

definition refuse_request :: "refused_request \<Rightarrow> 'a client_handler \<Rightarrow> bool \<times> 'a client_handler" where
  "refuse_request r h = (False, h)"

definition pty_request :: "(account \<Rightarrow> world \<Rightarrow> err + 'a) \<Rightarrow> world \<Rightarrow> 'a client_handler \<Rightarrow> err + 'a client_handler" where
  "pty_request new_app w h =
     (case ch_account h of
        None \<Rightarrow> Inl (Msg (lit ''pty requested before auth''))
      | Some account \<Rightarrow>
          (case new_app account w of
             Inl e \<Rightarrow> Inl e
           | Inr app \<Rightarrow> Inr (h\<lparr>ch_app := Some app, ch_input_tx := True, ch_input_rx := True, ch_key_tx := True,
               ch_key_rx := True, ch_wheel_tx := True, ch_wheel_rx := True\<rparr>)))"

text \<open>Every \<open>take\<close> before a failure has happened; the answer is whether a terminal was started.\<close>

definition shell_request :: "'a client_handler \<Rightarrow> bool \<times> 'a client_handler" where
  "shell_request h =
     (if ch_channel h = None then (False, h)
      else let h = h\<lparr>ch_channel := None\<rparr> in
      if ch_app h = None then (False, h)
      else if \<not> ch_input_rx h then (False, h)
      else let h = h\<lparr>ch_input_rx := False\<rparr> in
      if \<not> ch_key_tx h then (False, h)
      else let h = h\<lparr>ch_key_tx := False\<rparr> in
      if \<not> ch_key_rx h then (False, h)
      else let h = h\<lparr>ch_key_rx := False\<rparr> in
      if \<not> ch_wheel_tx h then (False, h)
      else let h = h\<lparr>ch_wheel_tx := False\<rparr> in
      if \<not> ch_wheel_rx h then (False, h)
      else (True, h\<lparr>ch_wheel_rx := False, ch_terminal_active := True\<rparr>))"

definition cleanup_terminal :: "'a client_handler \<Rightarrow> 'a client_handler" where
  "cleanup_terminal h = h\<lparr>ch_terminal_active := False\<rparr>"

definition channel_close :: "('a \<Rightarrow> 'a) \<Rightarrow> 'a client_handler \<Rightarrow> 'a client_handler" where
  "channel_close stop h = (cleanup_terminal h)\<lparr>ch_input_tx := False, ch_app := map_option stop (ch_app h)\<rparr>"


section \<open>The accept loop\<close>

record server_config =
  sc_max_connections :: nat
  sc_max_connections_per_ip :: nat
  sc_auth_timeout :: nat
  sc_max_auth_attempts :: nat
  sc_max_unauth_connections :: nat
  sc_max_unauth_connections_per_ip :: nat
  sc_auth_failure_window :: nat
  sc_auth_failures_before_penalty :: nat
  sc_auth_penalty :: nat

text \<open>What \<open>run_with_listener\<close> insists on before it listens.\<close>

definition config_ok :: "server_config \<Rightarrow> bool" where
  "config_ok C \<longleftrightarrow> 0 < sc_max_connections C \<and> 0 < sc_max_connections_per_ip C \<and> 0 < sc_auth_timeout C
     \<and> 0 < sc_max_auth_attempts C \<and> 0 < sc_max_unauth_connections C \<and> 0 < sc_max_unauth_connections_per_ip C
     \<and> 0 < sc_auth_failure_window C \<and> 0 < sc_auth_failures_before_penalty C \<and> 0 < sc_auth_penalty C"

text \<open>An open connection is its handler and the permit that its task holds.\<close>

record 'a connection =
  cn_id :: nat
  cn_ip :: ip_addr
  cn_handler :: "'a client_handler"

record 'a net =
  nt_now :: instant
  nt_next :: nat
  nt_admission :: admission_limiter
  nt_abuse :: abuse_limiter
  nt_conns :: "'a connection list"
  nt_world :: world

definition new_net :: "server_config \<Rightarrow> world \<Rightarrow> 'a net" where
  "new_net C w =
     \<lparr>nt_now = 0, nt_next = 0,
      nt_admission = new_admission (sc_max_connections C) (sc_max_connections_per_ip C),
      nt_abuse = new_abuse (sc_max_unauth_connections C) (sc_max_unauth_connections_per_ip C)
        (sc_auth_failure_window C) (sc_auth_failures_before_penalty C) (sc_auth_penalty C),
      nt_conns = [], nt_world = w\<rparr>"

text \<open>One turn of the loop: whether the connection is taken.\<close>

definition accept_connection :: "server_config \<Rightarrow> ip_addr \<Rightarrow> 'a net \<Rightarrow> bool \<times> 'a net" where
  "accept_connection C ip n =
     (let (remaining, abuse) = penalty_remaining (nt_now n) ip (nt_abuse n); n = n\<lparr>nt_abuse := abuse\<rparr> in
      if remaining \<noteq> None then (False, n)
      else let (admitted, admission) = try_acquire ip (nt_admission n) in
        if \<not> admitted then (False, n\<lparr>nt_admission := admission\<rparr>)
        else let (unauth, abuse) = try_acquire_unauth ip (nt_abuse n) in
          if \<not> unauth then (False, n\<lparr>nt_abuse := abuse, nt_admission := drop_admission ip admission\<rparr>)
          else (True, n\<lparr>nt_abuse := abuse, nt_admission := admission, nt_next := nt_next n + 1,
            nt_conns := \<lparr>cn_id = nt_next n, cn_ip = ip,
               cn_handler = new_handler (sc_max_auth_attempts C) (nt_now n + sc_auth_timeout C) (Some ip) (Some ip)\<rparr>
              # nt_conns n\<rparr>))"

text \<open>The end of a connection's task: the handler goes, and with it the permits it still holds.\<close>

definition close_connection :: "'a connection \<Rightarrow> 'a net \<Rightarrow> 'a net" where
  "close_connection c n =
     n\<lparr>nt_conns := filter (\<lambda>d. cn_id d \<noteq> cn_id c) (nt_conns n),
       nt_admission := drop_admission (cn_ip c) (nt_admission n),
       nt_abuse := (case ch_unauth_permit (cn_handler c) of None \<Rightarrow> nt_abuse n | Some ip \<Rightarrow> drop_unauth ip (nt_abuse n))\<rparr>"

definition connection_of :: "nat \<Rightarrow> 'a net \<Rightarrow> 'a connection option" where
  "connection_of i n = List.find (\<lambda>c. cn_id c = i) (nt_conns n)"

definition put_handler :: "nat \<Rightarrow> 'a client_handler \<Rightarrow> 'a net \<Rightarrow> 'a net" where
  "put_handler i h n =
     n\<lparr>nt_conns := map (\<lambda>c. if cn_id c = i then c\<lparr>cn_handler := h\<rparr> else c) (nt_conns n)\<rparr>"

text \<open>Running a handler of connection \<open>i\<close> on its part of the state.\<close>

definition authenticate :: "nat \<Rightarrow> ('a client_handler \<times> abuse_limiter \<times> world \<Rightarrow> auth \<times> 'a client_handler \<times> abuse_limiter \<times> world)
    \<Rightarrow> 'a net \<Rightarrow> 'a net" where
  "authenticate i f n =
     (case connection_of i n of None \<Rightarrow> n
      | Some c \<Rightarrow>
          let (_, h, l, w) = f (cn_handler c, nt_abuse n, nt_world n)
          in put_handler i h (n\<lparr>nt_abuse := l, nt_world := w\<rparr>))"

definition on_handler :: "nat \<Rightarrow> ('a client_handler \<Rightarrow> 'a client_handler) \<Rightarrow> 'a net \<Rightarrow> 'a net" where
  "on_handler i f n = (case connection_of i n of None \<Rightarrow> n | Some c \<Rightarrow> put_handler i (f (cn_handler c)) n)"

datatype net_event =
    Connect ip_addr
  | PublicKey nat str str
  | Password nat str
  | Interactive nat str "byte list list option"
  | OpenSession nat nat
  | Refused nat refused_request
  | Pty nat
  | Shell nat
  | CloseChannel nat
  | Disconnected nat
  | Elapsed nat
  | Served request

fun net_step :: "env \<Rightarrow> server_config \<Rightarrow> (account \<Rightarrow> world \<Rightarrow> err + 'a) \<Rightarrow> ('a \<Rightarrow> 'a) \<Rightarrow> net_event \<Rightarrow> 'a net \<Rightarrow> 'a net" where
  "net_step E C new_app stop (Connect ip) n = snd (accept_connection C ip n)"
| "net_step E C new_app stop (PublicKey i fingerprint key) n = authenticate i (auth_publickey E (nt_now n) fingerprint key) n"
| "net_step E C new_app stop (Password i user) n = authenticate i (auth_password (nt_now n) user) n"
| "net_step E C new_app stop (Interactive i user response) n =
     authenticate i (auth_keyboard_interactive E (nt_now n) user response) n"
| "net_step E C new_app stop (OpenSession i channel) n = on_handler i (\<lambda>h. snd (channel_open_session channel h)) n"
| "net_step E C new_app stop (Refused i r) n = on_handler i (\<lambda>h. snd (refuse_request r h)) n"
| "net_step E C new_app stop (Pty i) n =
     on_handler i (\<lambda>h. case pty_request new_app (nt_world n) h of Inl _ \<Rightarrow> h | Inr h' \<Rightarrow> h') n"
| "net_step E C new_app stop (Shell i) n = on_handler i (\<lambda>h. snd (shell_request h)) n"
| "net_step E C new_app stop (CloseChannel i) n = on_handler i (channel_close stop) n"
| "net_step E C new_app stop (Disconnected i) n =
     (case connection_of i n of None \<Rightarrow> n | Some c \<Rightarrow> close_connection c n)"
| "net_step E C new_app stop (Elapsed d) n = n\<lparr>nt_now := nt_now n + d\<rparr>"
| "net_step E C new_app stop (Served q) n = n\<lparr>nt_world := snd (run_tx (handle E q) (nt_world n))\<rparr>"

definition net_run :: "env \<Rightarrow> server_config \<Rightarrow> (account \<Rightarrow> world \<Rightarrow> err + 'a) \<Rightarrow> ('a \<Rightarrow> 'a) \<Rightarrow> net_event list \<Rightarrow> 'a net \<Rightarrow> 'a net" where
  "net_run E C new_app stop evs n = fold (net_step E C new_app stop) evs n"


section \<open>Permits and logins agree\<close>

definition live_ips :: "'a connection list \<Rightarrow> ip_addr multiset" where
  "live_ips cs = image_mset cn_ip (mset cs)"

definition unauthed :: "'a connection \<Rightarrow> bool" where
  "unauthed c \<longleftrightarrow> ch_account (cn_handler c) = None"

definition unauthed_ips :: "'a connection list \<Rightarrow> ip_addr multiset" where
  "unauthed_ips cs = image_mset cn_ip (mset (filter unauthed cs))"

definition handler_ok :: "ip_addr \<Rightarrow> 'a client_handler \<Rightarrow> bool" where
  "handler_ok ip h \<longleftrightarrow> ch_peer_addr h = Some ip
     \<and> ch_unauth_permit h = (if ch_account h = None then Some ip else None)
     \<and> (ch_authenticated h \<longleftrightarrow> ch_account h \<noteq> None)
     \<and> (ch_app h \<noteq> None \<longrightarrow> ch_account h \<noteq> None) \<and> (ch_channel h \<noteq> None \<longrightarrow> ch_account h \<noteq> None)
     \<and> (ch_terminal_active h \<longrightarrow> ch_account h \<noteq> None)"

definition net_ok :: "server_config \<Rightarrow> 'a net \<Rightarrow> bool" where
  "net_ok C n \<longleftrightarrow>
     admitted.ledger (sc_max_connections C) (live_ips (nt_conns n)) (nt_admission n)
     \<and> al_max_per_ip (nt_admission n) = sc_max_connections_per_ip C
     \<and> unauth.ledger (sc_max_unauth_connections C) (unauthed_ips (nt_conns n)) (nt_abuse n)
     \<and> ab_max_unauth_per_ip (nt_abuse n) = sc_max_unauth_connections_per_ip C
     \<and> distinct (map cn_id (nt_conns n))
     \<and> (\<forall>c\<in>set (nt_conns n). cn_id c < nt_next n \<and> handler_ok (cn_ip c) (cn_handler c))"

definition pool :: "abuse_limiter \<Rightarrow> nat \<times> (ip_addr \<rightharpoonup> nat) \<times> nat" where
  "pool l = (ab_unauth_global l, ab_unauth_per_ip l, ab_max_unauth_per_ip l)"

lemma pool_kept [simp]:
  "pool (snd (record_failure t ip u k l)) = pool l" "pool (clear_source ip l) = pool l"
  "pool (snd (penalty_remaining t i l)) = pool l"
  by (simp_all add: pool_def record_failure_def clear_source_def penalty_remaining_def Let_def
      split: prod.splits option.splits)

lemma ledger_pool: "pool l' = pool l \<Longrightarrow> unauth.ledger k ips l' = unauth.ledger k ips l"
  by (rule unauth.ledger_cong) (simp_all add: pool_def)

text \<open>
  What an authentication may do to itself and the pool: it stays consistent, never loses its account, and the
  permit goes back exactly at the login.
\<close>

definition sound :: "ip_addr \<Rightarrow> 'a client_handler \<times> abuse_limiter \<Rightarrow> 'a client_handler \<times> abuse_limiter \<Rightarrow> bool" where
  "sound ip = (\<lambda>(h, l) (h', l'). handler_ok ip h \<longrightarrow> handler_ok ip h'
     \<and> (ch_account h \<noteq> None \<longrightarrow> ch_account h' \<noteq> None)
     \<and> pool l' = (if ch_account h = None \<and> ch_account h' \<noteq> None then pool (drop_unauth ip l) else pool l))"

lemma sound_login:
  assumes "mark_authenticated h l = (h', l')"
  shows "sound ip (h, l) (h'\<lparr>ch_account := Some a, ch_pending_key_auth := p\<rparr>, l')"
    "sound ip (h\<lparr>ch_pending_key_auth := q\<rparr>, l) (h'\<lparr>ch_account := Some a\<rparr>, l')"
  using assms by (auto simp: sound_def mark_authenticated_def handler_ok_def Let_def)

lemma sound_failure:
  "record_auth_failure t u k p h l = (r, h', l') \<Longrightarrow> sound ip (h, l) (h', l')"
  "record_auth_failure t u k p (h\<lparr>ch_pending_key_auth := q\<rparr>) l = (r, h', l') \<Longrightarrow> sound ip (h, l) (h', l')"
  by (auto simp: sound_def record_auth_failure_def handler_ok_def Let_def split: if_splits)

lemma sound_login_pending:
  assumes "mark_authenticated (h\<lparr>ch_pending_key_auth := q\<rparr>) l = (h', l')"
  shows "sound ip (h, l) (h'\<lparr>ch_account := Some a\<rparr>, l')"
  using assms by (auto simp: sound_def mark_authenticated_def handler_ok_def Let_def)

lemma sound_attempt:
  "sound ip (h, l) (h\<lparr>ch_pending_key_auth := q, ch_auth_attempts := m\<rparr>, l)"
  "sound ip (h, l) (h\<lparr>ch_pending_key_auth := q\<rparr>, l)" "sound ip (h, l) (h, l)"
  by (auto simp: sound_def handler_ok_def)

lemmas sounds = sound_login(1) sound_login_pending sound_failure sound_attempt

lemma sound_publickey: "auth_publickey E t f k (h, l, w) = (r, h', l', w') \<Longrightarrow> sound ip (h, l) (h', l')"
  by (auto simp: auth_publickey_def Let_def intro: sounds split: sum.splits option.splits prod.splits if_splits)

lemma sound_password: "auth_password t u (h, l, w) = (r, h', l', w') \<Longrightarrow> sound ip (h, l) (h', l')"
  by (auto simp: auth_password_def Let_def intro: sounds split: prod.splits if_splits)

lemma sound_interactive:
  "auth_keyboard_interactive E t u resp (h, l, w) = (r, h', l', w') \<Longrightarrow> sound ip (h, l) (h', l')"
  by (auto simp: auth_keyboard_interactive_def Let_def intro: sounds
      split: sum.splits option.splits prod.splits if_splits list.splits)


lemma connection_split:
  assumes "connection_of i n = Some c" "distinct (map cn_id (nt_conns n))"
  obtains xs ys where "nt_conns n = xs @ c # ys" "cn_id c = i"
    "\<And>h. nt_conns (put_handler i h n) = xs @ c\<lparr>cn_handler := h\<rparr> # ys"
    "\<And>d. d \<in> set (xs @ ys) \<Longrightarrow> cn_id d \<noteq> i"
proof -
  from assms(1) obtain j where j: "j < length (nt_conns n)" "nt_conns n ! j = c" "cn_id c = i"
    by (auto simp: connection_of_def find_Some_iff)
  define xs ys where "xs = take j (nt_conns n)" and "ys = drop (Suc j) (nt_conns n)"
  then have conns: "nt_conns n = xs @ c # ys" using j id_take_nth_drop by blast
  have "i \<notin> cn_id ` set (xs @ ys)" using assms(2) j(3) by (auto simp: conns)
  then have others: "\<forall>d\<in>set (xs @ ys). cn_id d \<noteq> i" by blast
  then have "map (\<lambda>d. if cn_id d = i then d\<lparr>cn_handler := h\<rparr> else d) zs = zs" if "set zs \<subseteq> set (xs @ ys)" for zs h
    using that by (intro map_idI) auto
  then have "nt_conns (put_handler i h n) = xs @ c\<lparr>cn_handler := h\<rparr> # ys" for h
    by (simp add: put_handler_def conns j(3))
  with conns j(3) others show thesis by (intro that [of xs ys]) auto
qed

lemma put_handler_simps [simp]:
  "nt_admission (put_handler i h n) = nt_admission n" "nt_abuse (put_handler i h n) = nt_abuse n"
  "nt_next (put_handler i h n) = nt_next n" "nt_world (put_handler i h n) = nt_world n"
  "nt_now (put_handler i h n) = nt_now n"
  "put_handler i h (n\<lparr>nt_abuse := l, nt_world := w\<rparr>) = (put_handler i h n)\<lparr>nt_abuse := l, nt_world := w\<rparr>"
  by (simp_all add: put_handler_def)

lemma ips_simps:
  "live_ips (xs @ c # ys) = add_mset (cn_ip c) (live_ips (xs @ ys))"
  "unauthed_ips (xs @ c # ys) = (if unauthed c then add_mset (cn_ip c) (unauthed_ips (xs @ ys)) else unauthed_ips (xs @ ys))"
  "live_ips [] = {#}" "unauthed_ips [] = {#}"
  by (simp_all add: live_ips_def unauthed_ips_def)

text \<open>A sound change of one connection keeps the whole.\<close>

lemma net_ok_put:
  assumes ok: "net_ok C n" and c: "connection_of i n = Some c" and s: "\<And>ip. sound ip (cn_handler c, nt_abuse n) (h, l)"
  shows "net_ok C ((put_handler i h n)\<lparr>nt_abuse := l, nt_world := w\<rparr>)"
proof -
  from ok have "distinct (map cn_id (nt_conns n))" by (simp add: net_ok_def)
  then obtain xs ys where n: "nt_conns n = xs @ c # ys" and
    put: "nt_conns (put_handler i h n) = xs @ c\<lparr>cn_handler := h\<rparr> # ys"
    using connection_split [OF c] by metis
  have hc: "handler_ok (cn_ip c) (cn_handler c)" using ok n by (simp add: net_ok_def)
  with s [of "cn_ip c"] have h: "handler_ok (cn_ip c) h"
    "ch_account (cn_handler c) \<noteq> None \<longrightarrow> ch_account h \<noteq> None"
    "pool l = (if ch_account (cn_handler c) = None \<and> ch_account h \<noteq> None then pool (drop_unauth (cn_ip c) (nt_abuse n))
       else pool (nt_abuse n))"
    by (simp_all add: sound_def)
  have led: "unauth.ledger (sc_max_unauth_connections C) (unauthed_ips (xs @ c # ys)) (nt_abuse n)"
    using ok n by (simp add: net_ok_def)
  have "unauth.ledger (sc_max_unauth_connections C) (unauthed_ips (xs @ c\<lparr>cn_handler := h\<rparr> # ys)) l"
  proof (cases "ch_account (cn_handler c) = None \<and> ch_account h \<noteq> None")
    case True
    with led have "unauth.ledger (sc_max_unauth_connections C) (unauthed_ips (xs @ ys)) (drop_unauth (cn_ip c) (nt_abuse n))"
      by (intro unauth.ledger_release) (simp add: ips_simps unauthed_def)
    with True h(3) show ?thesis by (auto simp: ips_simps unauthed_def ledger_pool [of l "drop_unauth (cn_ip c) (nt_abuse n)"])
  next
    case False
    with led h(2,3) show ?thesis by (auto simp: ips_simps unauthed_def ledger_pool [of l "nt_abuse n"])
  qed
  moreover have "ab_max_unauth_per_ip l = ab_max_unauth_per_ip (nt_abuse n)"
    using h(3) by (auto simp: pool_def drop_unauth_def split: if_splits)
  ultimately show ?thesis using ok h(1) by (simp add: net_ok_def n put ips_simps)
qed

lemma net_ok_authenticate:
  assumes "net_ok C n" "\<And>h l w r h' l' w' ip. f (h, l, w) = (r, h', l', w') \<Longrightarrow> sound ip (h, l) (h', l')"
  shows "net_ok C (authenticate i f n)"
  using assms by (auto simp: authenticate_def split: option.splits prod.splits intro!: net_ok_put)

lemma net_ok_handler:
  assumes "net_ok C n" "\<And>h l ip. sound ip (h, l) (f h, l)"
  shows "net_ok C (on_handler i f n)"
proof (cases "connection_of i n")
  case (Some c)
  have "net_ok C ((put_handler i (f (cn_handler c)) n)\<lparr>nt_abuse := nt_abuse n, nt_world := nt_world n\<rparr>)"
    by (rule net_ok_put [OF assms(1) Some assms(2)])
  moreover have "(put_handler i (f (cn_handler c)) n)\<lparr>nt_abuse := nt_abuse n, nt_world := nt_world n\<rparr> = put_handler i (f (cn_handler c)) n"
    by (simp add: put_handler_def)
  ultimately show ?thesis by (simp add: on_handler_def Some)
qed (use assms in \<open>simp add: on_handler_def\<close>)

lemma sound_terminal:
  "sound ip (h, l) (snd (channel_open_session ch h), l)" "sound ip (h, l) (snd (refuse_request r h), l)"
  "sound ip (h, l) (case pty_request new_app w h of Inl e \<Rightarrow> h | Inr h' \<Rightarrow> h', l)"
  "sound ip (h, l) (snd (shell_request h), l)" "sound ip (h, l) (channel_close stop h, l)"
  by (auto simp: sound_def handler_ok_def channel_open_session_def refuse_request_def pty_request_def shell_request_def
      channel_close_def cleanup_terminal_def Let_def split: option.splits sum.splits)


lemma net_ok_fields:
  "net_ok C (n\<lparr>nt_now := t\<rparr>) = net_ok C n" "net_ok C (n\<lparr>nt_world := w\<rparr>) = net_ok C n"
  by (simp_all add: net_ok_def)

text \<open>When the loop takes a connection, by the ledgers: no other reason to refuse is left.\<close>

lemma accept_cases:
  fixes ip :: ip_addr
  assumes ok: "net_ok C n"
  defines "pen \<equiv> fst (penalty_remaining (nt_now n) ip (nt_abuse n))"
    and "room \<equiv> size (live_ips (nt_conns n)) < sc_max_connections C
      \<and> count (live_ips (nt_conns n)) ip < sc_max_connections_per_ip C
      \<and> size (unauthed_ips (nt_conns n)) < sc_max_unauth_connections C
      \<and> count (unauthed_ips (nt_conns n)) ip < sc_max_unauth_connections_per_ip C"
  shows "fst (accept_connection C ip n) \<longleftrightarrow> pen = None \<and> room"
    "net_ok C (snd (accept_connection C ip n))"
proof -
  obtain l where l: "penalty_remaining (nt_now n) ip (nt_abuse n) = (pen, l)" by (simp add: pen_def prod_eq_iff)
  then have "pool l = pool (nt_abuse n)" by (metis pool_kept(3) snd_conv)
  with ok have led: "unauth.ledger (sc_max_unauth_connections C) (unauthed_ips (nt_conns n)) l"
    and per: "ab_max_unauth_per_ip l = sc_max_unauth_connections_per_ip C"
    by (simp_all add: net_ok_def ledger_pool [of l "nt_abuse n"] pool_def)
  have adm: "admitted.ledger (sc_max_connections C) (live_ips (nt_conns n)) (nt_admission n)"
    using ok by (simp add: net_ok_def)
  obtain b ad where a: "try_acquire ip (nt_admission n) = (b, ad)" by fastforce
  obtain d ab where u: "try_acquire_unauth ip l = (d, ab)" by fastforce
  have b: "b \<longleftrightarrow> size (live_ips (nt_conns n)) < sc_max_connections C
      \<and> count (live_ips (nt_conns n)) ip < sc_max_connections_per_ip C"
    using admitted.ledger_grants [OF adm, of ip] ok by (simp add: a net_ok_def)
  have d: "d \<longleftrightarrow> size (unauthed_ips (nt_conns n)) < sc_max_unauth_connections C
      \<and> count (unauthed_ips (nt_conns n)) ip < sc_max_unauth_connections_per_ip C"
    using unauth.ledger_grants [OF led, of ip] per by (simp add: u)
  show "fst (accept_connection C ip n) \<longleftrightarrow> pen = None \<and> room"
    unfolding accept_connection_def room_def using b d by (auto simp: l a u Let_def)
  have ad: "b \<Longrightarrow> admitted.ledger (sc_max_connections C) (add_mset ip (live_ips (nt_conns n))) ad" "\<not> b \<Longrightarrow> ad = nt_admission n"
    using admitted.ledger_acquire [OF adm, of ip] admitted.ledger_refused [OF adm, of ip] by (simp_all add: a)
  have ab: "d \<Longrightarrow> unauth.ledger (sc_max_unauth_connections C) (add_mset ip (unauthed_ips (nt_conns n))) ab" "\<not> d \<Longrightarrow> ab = l"
    using unauth.ledger_acquire [OF led, of ip] unauth.ledger_refused [OF led, of ip] by (simp_all add: u)
  have lim: "al_max_per_ip ad = al_max_per_ip (nt_admission n)" "ab_max_unauth_per_ip ab = ab_max_unauth_per_ip l"
    using admitted.limit_kept(1) [of ip "nt_admission n"] unauth.limit_kept(1) [of ip l] by (simp_all add: a u)
  have given: "b \<Longrightarrow> admitted.ledger (sc_max_connections C) (live_ips (nt_conns n)) (drop_admission ip ad)"
    using ad(1) by (rule admitted.ledger_release)
  have fresh: "\<forall>c\<in>set (nt_conns n). cn_id c \<noteq> nt_next n" using ok by (auto simp: net_ok_def)
  show "net_ok C (snd (accept_connection C ip n))"
    using ok led per ad ab lim given fresh
    by (auto simp: accept_connection_def l a u Let_def net_ok_def ips_simps(1,2) [of "[]", simplified] unauthed_def
        new_handler_def handler_ok_def less_Suc_eq admitted.limit_kept)
qed

lemma net_ok_disconnect:
  assumes ok: "net_ok C n" and c: "connection_of i n = Some c"
  shows "net_ok C (close_connection c n)"
proof -
  from ok have "distinct (map cn_id (nt_conns n))" by (simp add: net_ok_def)
  then obtain xs ys where n: "nt_conns n = xs @ c # ys" and i: "cn_id c = i" and
    others: "\<And>d. d \<in> set (xs @ ys) \<Longrightarrow> cn_id d \<noteq> i"
    using connection_split [OF c] by metis
  have gone: "filter (\<lambda>d. cn_id d \<noteq> cn_id c) xs = xs" "filter (\<lambda>d. cn_id d \<noteq> cn_id c) ys = ys"
    by (rule filter_True; simp add: i others)+
  have hc: "handler_ok (cn_ip c) (cn_handler c)" using ok n by (simp add: net_ok_def)
  have "admitted.ledger (sc_max_connections C) (live_ips (xs @ ys)) (drop_admission (cn_ip c) (nt_admission n))"
    using ok by (intro admitted.ledger_release) (simp add: net_ok_def n ips_simps)
  moreover have "unauthed c \<Longrightarrow> unauth.ledger (sc_max_unauth_connections C) (unauthed_ips (xs @ ys)) (drop_unauth (cn_ip c) (nt_abuse n))"
    using ok by (intro unauth.ledger_release) (simp add: net_ok_def n ips_simps)
  moreover have "ch_unauth_permit (cn_handler c) = (if unauthed c then Some (cn_ip c) else None)"
    using hc by (simp add: handler_ok_def unauthed_def)
  ultimately show ?thesis
    using ok by (cases "unauthed c")
      (simp_all add: close_connection_def net_ok_def gone n ips_simps admitted.limit_kept unauth.limit_kept)
qed

lemma net_ok_step: "net_ok C n \<Longrightarrow> net_ok C (net_step E C new_app stop ev n)"
  by (cases ev)
    (auto simp: net_ok_fields accept_cases(2) split: option.splits
      intro: net_ok_authenticate sound_publickey sound_password sound_interactive net_ok_handler sound_terminal net_ok_disconnect)

lemma net_ok_new:
  assumes "config_ok C"
  shows "net_ok C (new_net C w)"
proof -
  have "admitted.ledger (sc_max_connections C) {#} (new_admission (sc_max_connections C) (sc_max_connections_per_ip C))"
    unfolding admitted.ledger_def using assms by (simp add: new_admission_def config_ok_def)
  moreover have "unauth.ledger (sc_max_unauth_connections C) {#} (new_abuse (sc_max_unauth_connections C)
      (sc_max_unauth_connections_per_ip C) f b p)" for f b p
    unfolding unauth.ledger_def using assms by (simp add: new_abuse_def config_ok_def)
  ultimately show ?thesis
    by (simp add: net_ok_def new_net_def ips_simps new_admission_def new_abuse_def)
qed

lemma net_run_simps [simp]:
  "net_run E C new_app stop [] n = n"
  "net_run E C new_app stop (ev # evs) n = net_run E C new_app stop evs (net_step E C new_app stop ev n)"
  "net_run E C new_app stop (xs @ ys) n = net_run E C new_app stop ys (net_run E C new_app stop xs n)"
  by (simp_all add: net_run_def)

lemma net_ok_run: "net_ok C n \<Longrightarrow> net_ok C (net_run E C new_app stop evs n)"
  by (induction evs arbitrary: n) (simp_all add: net_ok_step)


text \<open>
  C33: No permit leaks and no limit is passed. After any history of the server, a connection from an
  address is taken exactly when the address serves no penalty and both limits, of all connections
  and of those without a login, have room for it in total and at the address, counted over the
  connections that are really open; and the open ones are within all four limits.
\<close>

theorem admission_exact:
  assumes "config_ok C" and n: "n = net_run E C new_app stop evs (new_net C w)"
  shows "(fst (accept_connection C ip n) \<longleftrightarrow>
        fst (penalty_remaining (nt_now n) ip (nt_abuse n)) = None
        \<and> length (nt_conns n) < sc_max_connections C
        \<and> length (filter (\<lambda>c. cn_ip c = ip) (nt_conns n)) < sc_max_connections_per_ip C
        \<and> length (filter unauthed (nt_conns n)) < sc_max_unauth_connections C
        \<and> length (filter (\<lambda>c. unauthed c \<and> cn_ip c = ip) (nt_conns n)) < sc_max_unauth_connections_per_ip C)
    \<and> length (nt_conns n) \<le> sc_max_connections C
    \<and> length (filter (\<lambda>c. cn_ip c = ip) (nt_conns n)) \<le> sc_max_connections_per_ip C
    \<and> length (filter unauthed (nt_conns n)) \<le> sc_max_unauth_connections C
    \<and> length (filter (\<lambda>c. unauthed c \<and> cn_ip c = ip) (nt_conns n)) \<le> sc_max_unauth_connections_per_ip C"
proof (intro conjI)
  have ok: "net_ok C n" unfolding n by (rule net_ok_run [OF net_ok_new [OF assms(1)]])
  have count: "count (image_mset cn_ip (mset cs)) ip = length (filter (\<lambda>c. cn_ip c = ip) cs)" for cs :: "'a connection list"
    by (induction cs) auto
  have sizes: "size (live_ips (nt_conns n)) = length (nt_conns n)"
    "count (live_ips (nt_conns n)) ip = length (filter (\<lambda>c. cn_ip c = ip) (nt_conns n))"
    "size (unauthed_ips (nt_conns n)) = length (filter unauthed (nt_conns n))"
    "count (unauthed_ips (nt_conns n)) ip = length (filter (\<lambda>c. unauthed c \<and> cn_ip c = ip) (nt_conns n))"
    by (simp_all add: live_ips_def unauthed_ips_def count conj_commute del: mset_filter)
  show "fst (accept_connection C ip n) \<longleftrightarrow>
      fst (penalty_remaining (nt_now n) ip (nt_abuse n)) = None
      \<and> length (nt_conns n) < sc_max_connections C
      \<and> length (filter (\<lambda>c. cn_ip c = ip) (nt_conns n)) < sc_max_connections_per_ip C
      \<and> length (filter unauthed (nt_conns n)) < sc_max_unauth_connections C
      \<and> length (filter (\<lambda>c. unauthed c \<and> cn_ip c = ip) (nt_conns n)) < sc_max_unauth_connections_per_ip C"
    using accept_cases(1) [OF ok, of ip] by (simp only: sizes)
  have "admitted.ledger (sc_max_connections C) (live_ips (nt_conns n)) (nt_admission n)"
    "unauth.ledger (sc_max_unauth_connections C) (unauthed_ips (nt_conns n)) (nt_abuse n)"
    "al_max_per_ip (nt_admission n) = sc_max_connections_per_ip C"
    "ab_max_unauth_per_ip (nt_abuse n) = sc_max_unauth_connections_per_ip C"
    using ok by (simp_all add: net_ok_def)
  from admitted.ledger_bounds(1) [OF this(1)] admitted.ledger_bounds(2) [OF this(1), of ip]
    unauth.ledger_bounds(1) [OF this(2)] unauth.ledger_bounds(2) [OF this(2), of ip] this(3,4)
  show "length (nt_conns n) \<le> sc_max_connections C"
    "length (filter (\<lambda>c. cn_ip c = ip) (nt_conns n)) \<le> sc_max_connections_per_ip C"
    "length (filter unauthed (nt_conns n)) \<le> sc_max_unauth_connections C"
    "length (filter (\<lambda>c. unauthed c \<and> cn_ip c = ip) (nt_conns n)) \<le> sc_max_unauth_connections_per_ip C"
    by (simp_all add: sizes)
qed

definition demo_config :: server_config where
  "demo_config = \<lparr>sc_max_connections = 3, sc_max_connections_per_ip = 2, sc_auth_timeout = 30, sc_max_auth_attempts = 3,
     sc_max_unauth_connections = 2, sc_max_unauth_connections_per_ip = 1, sc_auth_failure_window = 300,
     sc_auth_failures_before_penalty = 2, sc_auth_penalty = 60\<rparr>"

definition demo_new_app :: "account \<Rightarrow> world \<Rightarrow> err + account" where
  "demo_new_app a w = Inr a"

definition demo_connects :: "net_event list" where
  "demo_connects = [Connect home, Elapsed 3, Password 0 (lit ''ann''), Connect home]"

lemma admission_exact_witness:
  "\<not> fst (accept_connection demo_config home (net_run demo_env demo_config demo_new_app id demo_connects (new_net demo_config empty_world)))"
  using admission_exact [THEN conjunct1, of demo_config _ demo_env demo_new_app id demo_connects empty_world home, OF _ refl]
  by (simp add: demo_connects_def demo_config_def config_ok_def new_net_def accept_connection_def penalty_remaining_def
      new_admission_def new_abuse_def try_acquire_def try_acquire_unauth_def home_def Let_def authenticate_def connection_of_def
      auth_password_def auth_deadline_expired_def new_handler_def record_auth_failure_def record_failure_def put_handler_def
      count_failure_def ip_key_def composite_key_def unauthed_def lit_def safe_log_field_def is_control_def
      retain_others_def usize_max_def split: prod.split)


section \<open>Who gets in\<close>

definition key_grants :: "world \<Rightarrow> str \<Rightarrow> account \<Rightarrow> bool" where
  "key_grants w fingerprint a \<longleftrightarrow> (\<exists>k\<in>set (ssh_keys w). \<exists>r\<in>set (accounts w).
     k_fingerprint k = fingerprint \<and> k_revoked_at k = None
     \<and> a_id r = k_account_id k \<and> a_disabled_at r = None \<and> a = account_from_row r)"

definition token_grants :: "env \<Rightarrow> world \<Rightarrow> str \<Rightarrow> byte list \<Rightarrow> pending_key_auth \<Rightarrow> account \<Rightarrow> bool" where
  "token_grants E w user answer pending a \<longleftrightarrow> (\<exists>w'.
     redeem_ssh_login_token_for_key E user (trim (from_utf8_lossy answer)) (pe_fingerprint pending) (pe_public_key pending) w
       = Inr (a, w'))"

lemma lookup_grants:
  assumes "run_tx (lookup_active_account_for_key E f) w = (Inr (Some a), w')"
  shows "key_grants w f a"
proof -
  let ?p = "\<lambda>(k, a). k_fingerprint k = f \<and> k_revoked_at k = None \<and> a_disabled_at a = None"
  have "wp (lookup_active_account_for_key E f) (\<lambda>x _. \<forall>a. x = Some a \<longrightarrow> key_grants w f a) w"
  proof -
    have "key_grants w f (account_from_row (snd x))" if "fetch_last ?p (keys_with_owner s) = Some x"
      "ssh_keys s = ssh_keys w" "accounts s = accounts w" for x s
      using fetch_last_SomeD [OF that(1)] that(2,3) by (fastforce simp: keys_with_owner_def key_grants_def)
    then show ?thesis
      by (auto simp: lookup_active_account_for_key_def wp_simps update_account_def)
  qed
  with assms show ?thesis by (auto simp: run_tx_def wp_def split: sum.splits)
qed

lemma failure_keeps_account:
  "record_auth_failure t u k p h l = (r, h', l') \<Longrightarrow> ch_account h' = ch_account h"
  by (auto simp: record_auth_failure_def Let_def)

lemma publickey_login:
  assumes "auth_publickey E t f k (h, l, w) = (r, h', l', w')" "ch_account h = None" "ch_account h' = Some a"
  shows "t < ch_auth_deadline h \<and> key_grants w f a"
  using assms by (auto simp: auth_publickey_def Let_def auth_deadline_expired_def dest: lookup_grants
      split: sum.splits option.splits prod.splits if_splits)

lemma password_login:
  "auth_password t u (h, l, w) = (r, h', l', w') \<Longrightarrow> ch_account h' = ch_account h"
  by (auto simp: auth_password_def Let_def dest: failure_keeps_account split: prod.splits if_splits)

lemma interactive_login:
  assumes "auth_keyboard_interactive E t u resp (h, l, w) = (r, h', l', w')" "ch_account h = None" "ch_account h' = Some a"
  shows "t < ch_auth_deadline h \<and> (\<exists>answer rest pending. resp = Some (answer # rest)
    \<and> ch_pending_key_auth h = Some pending \<and> token_grants E w u answer pending a)"
  using assms by (auto simp: auth_keyboard_interactive_def Let_def auth_deadline_expired_def token_grants_def run_tx_def
      dest: failure_keeps_account split: sum.splits option.splits prod.splits if_splits list.splits)

lemma connection_of_put:
  fixes n :: "'a net"
  assumes "connection_of i n = Some c"
  shows "connection_of i (put_handler i h n) = Some (c\<lparr>cn_handler := h\<rparr>)"
proof -
  have "List.find (\<lambda>c. cn_id c = i) (map (\<lambda>c. if cn_id c = i then c\<lparr>cn_handler := h\<rparr> else c) cs)
      = map_option (\<lambda>c. c\<lparr>cn_handler := h\<rparr>) (List.find (\<lambda>c. cn_id c = i) cs)" for cs :: "'a connection list"
    by (induction cs) auto
  then show ?thesis using assms by (simp add: connection_of_def put_handler_def)
qed

lemma connection_of_other:
  fixes n :: "'a net"
  assumes "i \<noteq> j"
  shows "connection_of i (put_handler j h n) = connection_of i n"
proof -
  from assms have "List.find (\<lambda>c. cn_id c = i) (map (\<lambda>c. if cn_id c = j then c\<lparr>cn_handler := h\<rparr> else c) cs)
      = List.find (\<lambda>c. cn_id c = i) cs" for cs :: "'a connection list"
    by (induction cs) auto
  then show ?thesis by (simp add: connection_of_def put_handler_def)
qed

lemma connection_of_fields [simp]:
  "connection_of i (n\<lparr>nt_abuse := l\<rparr>) = connection_of i n" "connection_of i (n\<lparr>nt_world := w\<rparr>) = connection_of i n"
  "connection_of i (n\<lparr>nt_now := t\<rparr>) = connection_of i n" "connection_of i (n\<lparr>nt_admission := d\<rparr>) = connection_of i n"
  by (simp_all add: connection_of_def)

lemma connection_of_filter:
  "List.find (\<lambda>c. cn_id c = i) (filter (\<lambda>c. cn_id c \<noteq> j) cs) = (if i = j then None else List.find (\<lambda>c. cn_id c = i) cs)"
  by (induction cs) auto

text \<open>What an event does to a connection's account: nothing, or its authentication.\<close>

lemma account_authenticate:
  assumes "connection_of i n = Some c" "connection_of i (authenticate j f n) = Some c'"
  shows "i \<noteq> j \<and> cn_handler c' = cn_handler c
    \<or> i = j \<and> (\<exists>r l w. f (cn_handler c, nt_abuse n, nt_world n) = (r, cn_handler c', l, w))"
  using assms by (cases "i = j")
    (auto simp: authenticate_def connection_of_put connection_of_other split: option.splits prod.splits)

lemma account_terminal:
  assumes "connection_of i n = Some c" "connection_of i (on_handler j f n) = Some c'" "\<And>h. ch_account (f h) = ch_account h"
  shows "ch_account (cn_handler c') = ch_account (cn_handler c)"
  using assms by (cases "i = j") (auto simp: on_handler_def connection_of_put connection_of_other split: option.splits)

lemma terminal_accounts:
  "ch_account (snd (channel_open_session ch h)) = ch_account h" "ch_account (snd (refuse_request r h)) = ch_account h"
  "ch_account (case pty_request new_app w h of Inl e \<Rightarrow> h | Inr h' \<Rightarrow> h') = ch_account h"
  "ch_account (snd (shell_request h)) = ch_account h" "ch_account (channel_close stop h) = ch_account h"
  by (simp_all add: channel_open_session_def refuse_request_def pty_request_def shell_request_def channel_close_def
      cleanup_terminal_def Let_def split: option.splits sum.splits)

lemma account_elsewhere:
  assumes c: "connection_of i n = Some c" and c': "connection_of i (net_step E C new_app stop ev n) = Some c'"
    and ok: "net_ok C n"
  shows "ch_account (cn_handler c') = ch_account (cn_handler c)
    \<or> (\<exists>f k. ev = PublicKey i f k) \<or> (\<exists>u resp. ev = Interactive i u resp)"
proof (cases ev)
  case (Connect ip)
  have "cn_id c < nt_next n" "cn_id c = i" using c ok by (auto simp: connection_of_def find_Some_iff net_ok_def)
  with c c' Connect show ?thesis
    by (auto simp: accept_connection_def connection_of_def Let_def split: prod.splits if_splits)
next
  case (Password j u)
  with account_authenticate [OF c c' [unfolded Password net_step.simps]] show ?thesis
    by (auto dest: password_login)
next
  case (Disconnected j)
  then have "c' = c"
    using c c' by (cases "connection_of j n")
      (simp_all add: close_connection_def connection_of_def connection_of_filter split: if_splits)
  then show ?thesis by simp
next
  case (PublicKey j f k)
  with account_authenticate [OF c c' [unfolded PublicKey net_step.simps]] show ?thesis by auto
next
  case (Interactive j u resp)
  with account_authenticate [OF c c' [unfolded Interactive net_step.simps]] show ?thesis by auto
next
  case (OpenSession j ch)
  with account_terminal [OF c c' [unfolded OpenSession net_step.simps] terminal_accounts(1)] show ?thesis by simp
next
  case (Refused j r)
  with account_terminal [OF c c' [unfolded Refused net_step.simps] terminal_accounts(2)] show ?thesis by simp
next
  case (Pty j)
  with account_terminal [OF c c' [unfolded Pty net_step.simps] terminal_accounts(3)] show ?thesis by simp
next
  case (Shell j)
  with account_terminal [OF c c' [unfolded Shell net_step.simps] terminal_accounts(4)] show ?thesis by simp
next
  case (CloseChannel j)
  with account_terminal [OF c c' [unfolded CloseChannel net_step.simps] terminal_accounts(5)] show ?thesis by simp
qed (use c c' in simp_all)

text \<open>
  C34: Who gets in. Before its login a connection has no interface, no channel and no terminal. When
  an event logs it in, that is before its deadline, and either it presented a key that is
  registered, not revoked and owned by that account, which is not disabled, or it answered the
  prompt, having presented a key, with a token that the database accepted for that key.
\<close>

theorem login_guarded:
  assumes "config_ok C" and n: "n = net_run E C new_app stop evs (new_net C w)"
    and c: "connection_of i n = Some c" "ch_account (cn_handler c) = None"
    and c': "connection_of i (net_step E C new_app stop ev n) = Some c'" "ch_account (cn_handler c') = Some a"
  shows "ch_app (cn_handler c) = None \<and> ch_channel (cn_handler c) = None \<and> \<not> ch_terminal_active (cn_handler c)
    \<and> nt_now n < ch_auth_deadline (cn_handler c)
    \<and> ((\<exists>fingerprint key. ev = PublicKey i fingerprint key \<and> key_grants (nt_world n) fingerprint a)
      \<or> (\<exists>user answer rest pending. ev = Interactive i user (Some (answer # rest))
          \<and> ch_pending_key_auth (cn_handler c) = Some pending \<and> token_grants E (nt_world n) user answer pending a))"
proof (intro conjI)
  have ok: "net_ok C n" unfolding n by (rule net_ok_run [OF net_ok_new [OF assms(1)]])
  have "handler_ok (cn_ip c) (cn_handler c)"
    using ok c(1) by (auto simp: net_ok_def connection_of_def find_Some_iff)
  then show "ch_app (cn_handler c) = None" "ch_channel (cn_handler c) = None" "\<not> ch_terminal_active (cn_handler c)"
    using c(2) by (auto simp: handler_ok_def)
  have "nt_now n < ch_auth_deadline (cn_handler c) \<and>
      ((\<exists>fingerprint key. ev = PublicKey i fingerprint key \<and> key_grants (nt_world n) fingerprint a)
      \<or> (\<exists>user answer rest pending. ev = Interactive i user (Some (answer # rest))
          \<and> ch_pending_key_auth (cn_handler c) = Some pending \<and> token_grants E (nt_world n) user answer pending a))"
  proof -
    consider f k where "ev = PublicKey i f k" | u resp where "ev = Interactive i u resp"
      using account_elsewhere [OF c(1) c'(1) ok] c(2) c'(2) by auto
    then show ?thesis
    proof cases
      case 1
      with account_authenticate [OF c(1) c'(1) [unfolded 1 net_step.simps]] obtain r l w' where
        "auth_publickey E (nt_now n) f k (cn_handler c, nt_abuse n, nt_world n) = (r, cn_handler c', l, w')" by auto
      from publickey_login [OF this c(2) c'(2)] 1 show ?thesis by simp
    next
      case 2
      with account_authenticate [OF c(1) c'(1) [unfolded 2 net_step.simps]] obtain r l w' where
        "auth_keyboard_interactive E (nt_now n) u resp (cn_handler c, nt_abuse n, nt_world n) = (r, cn_handler c', l, w')"
        by auto
      from interactive_login [OF this c(2) c'(2)] 2 show ?thesis by simp
    qed
  qed
  then show "nt_now n < ch_auth_deadline (cn_handler c)"
    "(\<exists>fingerprint key. ev = PublicKey i fingerprint key \<and> key_grants (nt_world n) fingerprint a)
      \<or> (\<exists>user answer rest pending. ev = Interactive i user (Some (answer # rest))
          \<and> ch_pending_key_auth (cn_handler c) = Some pending \<and> token_grants E (nt_world n) user answer pending a)"
    by simp_all
qed


definition demo_keyholder :: world where
  "demo_keyholder = empty_world\<lparr>accounts := [pending_account_row (lit ''a1'') Owner None (lit ''t0'')],
     ssh_keys := [\<lparr>k_id = lit ''k1'', k_account_id = lit ''a1'', k_fingerprint = lit ''SHA256:x'', k_public_key = lit ''ssh-x'',
       k_label = None, k_created_at = lit ''t0'', k_last_used_at = None, k_revoked_at = None\<rparr>]\<rparr>"

definition demo_net :: "account net" where
  "demo_net = net_run demo_env demo_config demo_new_app id [Connect home, Elapsed 3] (new_net demo_config demo_keyholder)"

lemma demo_net_connection:
  "connection_of 0 demo_net = Some \<lparr>cn_id = 0, cn_ip = home, cn_handler = new_handler 3 30 (Some home) (Some home)\<rparr>"
  "nt_now demo_net = 3" "nt_world demo_net = demo_keyholder"
  by (simp_all add: demo_net_def demo_config_def new_net_def accept_connection_def penalty_remaining_def
      new_admission_def new_abuse_def try_acquire_def try_acquire_unauth_def Let_def connection_of_def)

lemma demo_lookup:
  "\<exists>w. run_tx (lookup_active_account_for_key demo_env (lit ''SHA256:x'')) demo_keyholder
    = (Inr (Some (account_from_row (pending_account_row (lit ''a1'') Owner None (lit ''t0'')))), w)"
  by (simp add: run_tx_def lookup_active_account_for_key_def bnd_def thn_def gets_def modify_def ret_def now_def draw_def
      keys_with_owner_def demo_keyholder_def fetch_last_def pending_account_row_def update_account_def)

lemma login_guarded_witness:
  "nt_now demo_net < 30 \<and> key_grants (nt_world demo_net) (lit ''SHA256:x'') (account_from_row (pending_account_row (lit ''a1'') Owner None (lit ''t0'')))"
proof -
  obtain w where w: "run_tx (lookup_active_account_for_key demo_env (lit ''SHA256:x'')) demo_keyholder
    = (Inr (Some (account_from_row (pending_account_row (lit ''a1'') Owner None (lit ''t0'')))), w)"
    using demo_lookup by blast
  have step: "connection_of 0 (net_step demo_env demo_config demo_new_app id (PublicKey 0 (lit ''SHA256:x'') []) demo_net)
      = Some \<lparr>cn_id = 0, cn_ip = home, cn_handler = (fst (mark_authenticated (new_handler 3 30 (Some home) (Some home)) (nt_abuse demo_net)))
          \<lparr>ch_account := Some (account_from_row (pending_account_row (lit ''a1'') Owner None (lit ''t0''))), ch_pending_key_auth := None\<rparr>\<rparr>"
    by (simp add: authenticate_def demo_net_connection auth_publickey_def w auth_deadline_expired_def new_handler_def
        connection_of_put Let_def split: prod.split)
  have "config_ok demo_config" by (simp add: config_ok_def demo_config_def)
  from login_guarded [OF this demo_net_def demo_net_connection(1) _ step] show ?thesis
    by (simp add: demo_net_connection new_handler_def)
qed

end
