(* ===== verification/Actions.thy ===== *)
theory Actions
  imports Snapshots
begin

text \<open>
  What the terminal interface asks of its session: \<open>app/action.rs\<close>, and the executors of
  \<open>app/commands/registry.rs\<close> that a palette or completion item runs. Constructors carry the
  source's names after an \<open>A\<close>, an \<open>L\<close> or an \<open>X\<close>.
\<close>

datatype source_focus = FocusThreadRoot | FocusComment int | FocusDm int

record source_target =
  st_channel_id :: "str option"
  st_channel_slug :: "str option"
  st_thread_id :: "str option"
  st_conversation_id :: "str option"
  st_focus :: "source_focus option"

datatype load_more_request =
    LSearch str str
  | LLabel str str
  | LSaved str
  | LNotifications str

datatype action_domain = App_domain | Accounts_domain | Channels_domain | Messages_domain
  | Notifications_domain | Audit_domain | Feeds_domain

datatype (plugins only: code size) action =
    ACreateInvite
  | ACreateInviteWithOptions role "int option"
  | ACompleteOnboarding str
  | ACreateChannel str bool
  | AJoinChannel str
  | ALeaveChannel "str option"
  | AListChannels
  | ARenameChannel "str option" str
  | ASetChannelTopic "str option" str
  | ASetChannelArchived "str option" bool
  | ACreateThread str
  | AAddComment str
  | AOpenDm str
  | ASendDm str
  | AMarkThreadRead
  | AMarkThreadUnread
  | AMarkDmRead
  | AMarkDmUnread
  | ANextUnread
  | AListUsers
  | ASetUsername str
  | ASetProfile str
  | AOpenAccount
  | ASaveAccountSettings str str
  | ASetUserDisabled str bool
  | ASetUserRole str role
  | AListKeys
  | AListMyKeys
  | AAddKey str "str option"
  | ACreateDeviceLinkToken "str option"
  | ALabelKey str str
  | ARevokeKey str
  | AListInvites
  | ARevokeInvite str
  | AListChannelMembers str
  | AAddChannelMember str str
  | ARemoveChannelMember str str
  | ARenameThread str
  | ADeleteThread
  | ASetThreadArchived bool
  | ASetThreadPinned bool
  | ASetThreadMuted "int option"
  | AEditComment int str
  | ADeleteComment int
  | AEditDm int str
  | ADeleteDm int
  | ASetDmMuted "int option"
  | ASetMessageSaved int bool
  | AReact str "int option"
  | AUnreact str "int option"
  | AListMentions
  | AListNotifications
  | AOpenSourceTarget source_target
  | AMarkNotificationRead "str option"
  | AArchiveNotifications
  | ASetTerminalNotifications bool
  | AShowTerminalNotificationsStatus
  | AListAudit
  | ASearch str
  | AOpenLabel str
  | AListSaved
  | ALoadMore "load_more_request option"
  | ALoadOlder

definition action_domain_of :: "action \<Rightarrow> action_domain" where
  "action_domain_of a = (case a of
      AOpenAccount \<Rightarrow> App_domain
    | ACreateInvite \<Rightarrow> Accounts_domain | ACreateInviteWithOptions _ _ \<Rightarrow> Accounts_domain
    | ACompleteOnboarding _ \<Rightarrow> Accounts_domain | AListUsers \<Rightarrow> Accounts_domain
    | ASetUsername _ \<Rightarrow> Accounts_domain | ASetProfile _ \<Rightarrow> Accounts_domain
    | ASaveAccountSettings _ _ \<Rightarrow> Accounts_domain | ASetUserDisabled _ _ \<Rightarrow> Accounts_domain
    | ASetUserRole _ _ \<Rightarrow> Accounts_domain | AListKeys \<Rightarrow> Accounts_domain
    | AListMyKeys \<Rightarrow> Accounts_domain | AAddKey _ _ \<Rightarrow> Accounts_domain
    | ACreateDeviceLinkToken _ \<Rightarrow> Accounts_domain | ALabelKey _ _ \<Rightarrow> Accounts_domain
    | ARevokeKey _ \<Rightarrow> Accounts_domain | AListInvites \<Rightarrow> Accounts_domain
    | ARevokeInvite _ \<Rightarrow> Accounts_domain
    | ACreateChannel _ _ \<Rightarrow> Channels_domain | AJoinChannel _ \<Rightarrow> Channels_domain
    | ALeaveChannel _ \<Rightarrow> Channels_domain | AListChannels \<Rightarrow> Channels_domain
    | ARenameChannel _ _ \<Rightarrow> Channels_domain | ASetChannelTopic _ _ \<Rightarrow> Channels_domain
    | ASetChannelArchived _ _ \<Rightarrow> Channels_domain | AListChannelMembers _ \<Rightarrow> Channels_domain
    | AAddChannelMember _ _ \<Rightarrow> Channels_domain | ARemoveChannelMember _ _ \<Rightarrow> Channels_domain
    | ACreateThread _ \<Rightarrow> Messages_domain | AAddComment _ \<Rightarrow> Messages_domain
    | AOpenDm _ \<Rightarrow> Messages_domain | ASendDm _ \<Rightarrow> Messages_domain
    | AMarkThreadRead \<Rightarrow> Messages_domain | AMarkThreadUnread \<Rightarrow> Messages_domain
    | AMarkDmRead \<Rightarrow> Messages_domain | AMarkDmUnread \<Rightarrow> Messages_domain
    | ANextUnread \<Rightarrow> Messages_domain | ARenameThread _ \<Rightarrow> Messages_domain
    | ADeleteThread \<Rightarrow> Messages_domain | ASetThreadArchived _ \<Rightarrow> Messages_domain
    | ASetThreadPinned _ \<Rightarrow> Messages_domain | ASetThreadMuted _ \<Rightarrow> Messages_domain
    | AEditComment _ _ \<Rightarrow> Messages_domain | ADeleteComment _ \<Rightarrow> Messages_domain
    | AEditDm _ _ \<Rightarrow> Messages_domain | ADeleteDm _ \<Rightarrow> Messages_domain
    | ASetDmMuted _ \<Rightarrow> Messages_domain | ASetMessageSaved _ _ \<Rightarrow> Messages_domain
    | AReact _ _ \<Rightarrow> Messages_domain | AUnreact _ _ \<Rightarrow> Messages_domain
    | AListMentions \<Rightarrow> Notifications_domain | AListNotifications \<Rightarrow> Notifications_domain
    | AOpenSourceTarget _ \<Rightarrow> Notifications_domain | AMarkNotificationRead _ \<Rightarrow> Notifications_domain
    | AArchiveNotifications \<Rightarrow> Notifications_domain | ASetTerminalNotifications _ \<Rightarrow> Notifications_domain
    | AShowTerminalNotificationsStatus \<Rightarrow> Notifications_domain
    | AListAudit \<Rightarrow> Audit_domain
    | ASearch _ \<Rightarrow> Feeds_domain | AOpenLabel _ \<Rightarrow> Feeds_domain | AListSaved \<Rightarrow> Feeds_domain
    | ALoadMore _ \<Rightarrow> Feeds_domain | ALoadOlder \<Rightarrow> Feeds_domain)"

definition refreshes_after :: "action \<Rightarrow> bool" where
  "refreshes_after a \<longleftrightarrow> \<not> (case a of
      ALoadMore _ \<Rightarrow> True | ASearch _ \<Rightarrow> True | AOpenLabel _ \<Rightarrow> True | AOpenAccount \<Rightarrow> True
    | AListSaved \<Rightarrow> True | AListNotifications \<Rightarrow> True | _ \<Rightarrow> False)"

section \<open>Executors\<close>

datatype ui_mode = Workspace | Palette | Help | ConfirmQuit

datatype command_executor =
    XAction action
  | XPrompt str str str
  | XSwitchChannel str
  | XSwitchDm str
  | XSwitchThread str
  | XMode ui_mode
  | XQuit

record palette_item =
  pi_label :: str
  pi_detail :: str
  pi_category :: str
  pi_shortcut :: "str option"
  pi_executor :: command_executor

definition search_text :: "palette_item \<Rightarrow> str" where
  "search_text i = pi_label i @ [c_space] @ pi_detail i @ [c_space] @ pi_category i"

text \<open>A completion: the bytes it replaces, from and up to, and what it shows and runs.\<close>

record autocomplete_item =
  ai_start :: nat
  ai_end :: nat
  ai_replacement :: str
  ai_label :: str
  ai_detail :: str
  ai_preview :: str
  ai_accept_on_enter :: bool
  ai_accept_on_tab :: bool
  ai_executor :: "command_executor option"

record autocomplete_state =
  ac_open :: bool
  ac_items :: "autocomplete_item list"
  ac_selected :: nat

definition no_autocomplete :: autocomplete_state where
  "no_autocomplete = \<lparr>ac_open = False, ac_items = [], ac_selected = 0\<rparr>"

text \<open>Moving through a list that wraps around, as completions and the palette do.\<close>

definition cycle_next :: "nat \<Rightarrow> nat \<Rightarrow> nat" where
  "cycle_next len i = (if len = 0 then i else (i + 1) mod len)"

definition cycle_previous :: "nat \<Rightarrow> nat \<Rightarrow> nat" where
  "cycle_previous len i = (if len = 0 then i else if i = 0 then len - 1 else i - 1)"

definition autocomplete_next :: "autocomplete_state \<Rightarrow> autocomplete_state" where
  "autocomplete_next a = a\<lparr>ac_selected := cycle_next (length (ac_items a)) (ac_selected a)\<rparr>"

definition autocomplete_previous :: "autocomplete_state \<Rightarrow> autocomplete_state" where
  "autocomplete_previous a = a\<lparr>ac_selected := cycle_previous (length (ac_items a)) (ac_selected a)\<rparr>"

end
