(* ===== verification/Commands.thy ===== *)
theory Commands
  imports Actions Numbers
begin

text \<open>
  The command line of the interface, \<open>app/commands/{specs,parse,args,registry}.rs\<close>: the tables of
  commands and subcommands, and the parser that turns a line into an action or an error message.
  A \<open>Result<T, String>\<close> is a sum whose left side is the message. The lemmas show that the tables
  and the parser list the same subcommands, and that the line the interface offers for editing a
  message parses to that edit.
\<close>

section \<open>Results and words\<close>

definition and_then :: "'e + 'a \<Rightarrow> ('a \<Rightarrow> 'e + 'b) \<Rightarrow> 'e + 'b" where
  "and_then r f = (case r of Inl e \<Rightarrow> Inl e | Inr a \<Rightarrow> f a)"

definition map_ok :: "('a \<Rightarrow> 'b) \<Rightarrow> 'e + 'a \<Rightarrow> 'e + 'b" where
  "map_ok f r = and_then r (\<lambda>a. Inr (f a))"

lemma result_simps [simp]:
  "and_then (Inl e) f = Inl e" "and_then (Inr a) f = f a" "map_ok g (Inl e) = Inl e" "map_ok g (Inr a) = Inr (g a)"
  by (simp_all add: and_then_def map_ok_def)

text \<open>\<open>splitn(2, char::is_whitespace)\<close>: the text before the first white space, and the text after it.\<close>

definition word_head :: "str \<Rightarrow> str" where
  "word_head s = takeWhile (\<lambda>c. \<not> is_whitespace c) s"

definition word_tail :: "str \<Rightarrow> str" where
  "word_tail s = tl (dropWhile (\<lambda>c. \<not> is_whitespace c) s)"

text \<open>\<open>split_whitespace\<close>: the words of a text.\<close>

function split_whitespace :: "str \<Rightarrow> str list" where
  "split_whitespace s =
     (let s = dropWhile is_whitespace s in
      if s = [] then [] else word_head s # split_whitespace (dropWhile (\<lambda>c. \<not> is_whitespace c) s))"
  by pat_completeness auto
termination
proof (relation "measure length")
  fix s x :: str
  assume x: "x = dropWhile is_whitespace s" "x \<noteq> []"
  then have "\<not> is_whitespace (hd x)" using hd_dropWhile by metis
  then obtain c r where "x = c # r" "\<not> is_whitespace c" using x(2) by (cases x) auto
  then have "length (dropWhile (\<lambda>c. \<not> is_whitespace c) x) < length x"
    using length_dropWhile_le [of "\<lambda>c. \<not> is_whitespace c" r] by simp
  also have "length x \<le> length s" using x(1) length_dropWhile_le by metis
  finally show "(dropWhile (\<lambda>c. \<not> is_whitespace c) x, s) \<in> measure length" by simp
qed simp

declare split_whitespace.simps [simp del]

section \<open>The tables\<close>

record subcommand_spec =
  sb_name :: str
  sb_aliases :: "str list"
  sb_description :: str
  sb_args :: str

definition sub :: "string \<Rightarrow> string list \<Rightarrow> string \<Rightarrow> string \<Rightarrow> subcommand_spec" where
  "sub name aliases description args =
     \<lparr>sb_name = lit name, sb_aliases = map lit aliases, sb_description = lit description, sb_args = lit args\<rparr>"

definition INVITE_SUBCOMMANDS :: "subcommand_spec list" where
  "INVITE_SUBCOMMANDS = [
     sub ''new'' [''create''] ''Create an invite code'' ''[member|admin] [hours]'',
     sub ''list'' [''ls''] ''List invites'' '''',
     sub ''revoke'' [''remove''] ''Revoke an invite'' ''invite-id'']"

definition CHANNEL_SUBCOMMANDS :: "subcommand_spec list" where
  "CHANNEL_SUBCOMMANDS = [
     sub ''new'' [''create''] ''Create a public channel'' ''name'',
     sub ''private'' [] ''Create a private channel'' ''name'',
     sub ''list'' [''ls''] ''List joined and joinable channels'' '''',
     sub ''join'' [] ''Join a public channel'' ''#channel'',
     sub ''leave'' [] ''Leave current or named channel'' ''[#channel]'',
     sub ''rename'' [] ''Rename a channel'' ''[#channel] name'',
     sub ''topic'' [] ''Set a channel topic'' ''[#channel] topic'',
     sub ''archive'' [] ''Archive current or named channel'' ''[#channel]'',
     sub ''unarchive'' [] ''Unarchive a channel'' ''#channel'',
     sub ''members'' [] ''List private channel members'' ''#channel'',
     sub ''add'' [''add-member''] ''Add a private channel member'' ''#channel @user'',
     sub ''remove'' [''remove-member''] ''Remove a private channel member'' ''#channel @user'']"

definition THREAD_SUBCOMMANDS :: "subcommand_spec list" where
  "THREAD_SUBCOMMANDS = [
     sub ''new'' [''create''] ''Create a thread'' ''title'',
     sub ''rename'' [''edit''] ''Rename current thread'' ''title'',
     sub ''delete'' [''remove''] ''Delete current thread'' '''',
     sub ''archive'' [] ''Archive current thread'' '''',
     sub ''unarchive'' [] ''Unarchive current thread'' '''',
     sub ''pin'' [] ''Pin current thread'' '''',
     sub ''unpin'' [] ''Unpin current thread'' '''',
     sub ''mute'' [] ''Mute current thread'' ''[hours]'',
     sub ''unmute'' [] ''Unmute current thread'' '''',
     sub ''read'' [] ''Mark current thread read'' '''',
     sub ''unread'' [] ''Mark current thread unread'' '''']"

definition DM_SUBCOMMANDS :: "subcommand_spec list" where
  "DM_SUBCOMMANDS = [
     sub ''open'' [] ''Open a direct message'' ''@user'',
     sub ''edit'' [] ''Edit a DM message'' ''index body'',
     sub ''delete'' [''remove''] ''Delete a DM message'' ''index'',
     sub ''mute'' [] ''Mute current DM'' ''[hours]'',
     sub ''unmute'' [] ''Unmute current DM'' '''',
     sub ''read'' [] ''Mark current DM read'' '''',
     sub ''unread'' [] ''Mark current DM unread'' '''']"

definition USER_SUBCOMMANDS :: "subcommand_spec list" where
  "USER_SUBCOMMANDS = [
     sub ''list'' [''ls''] ''List users'' '''',
     sub ''profile'' [] ''Update your display name'' ''display-name'',
     sub ''username'' [] ''Update your username'' ''username'',
     sub ''disable'' [] ''Disable a user'' ''@user'',
     sub ''enable'' [] ''Enable a user'' ''@user'',
     sub ''role'' [] ''Set a user role'' ''@user owner|admin|member'']"

definition KEY_SUBCOMMANDS :: "subcommand_spec list" where
  "KEY_SUBCOMMANDS = [
     sub ''list'' [''ls''] ''List SSH keys'' '''',
     sub ''my'' [''mine''] ''List your SSH keys'' '''',
     sub ''add'' [] ''Add an SSH public key'' ''public-key [| label]'',
     sub ''link'' [] ''Create a device link token'' ''[label]'',
     sub ''label'' [] ''Rename an SSH key label'' ''key label'',
     sub ''revoke'' [''remove''] ''Revoke an SSH key'' ''key-id|fingerprint'']"

definition COMMENT_SUBCOMMANDS :: "subcommand_spec list" where
  "COMMENT_SUBCOMMANDS = [
     sub ''edit'' [] ''Edit a thread comment'' ''index body'',
     sub ''delete'' [''remove''] ''Delete a thread comment'' ''index'']"

definition NOTIFICATION_SUBCOMMANDS :: "subcommand_spec list" where
  "NOTIFICATION_SUBCOMMANDS = [
     sub ''list'' [''ls''] ''List notifications'' '''',
     sub ''mentions'' [] ''List your mentions'' '''',
     sub ''read'' [''mark-read''] ''Mark one or all notifications read'' ''[notification-id]'',
     sub ''terminal'' [] ''Manage terminal system notifications'' ''on|off|status'']"

definition AUDIT_SUBCOMMANDS :: "subcommand_spec list" where
  "AUDIT_SUBCOMMANDS = [
     sub ''list'' [''ls''] ''List audit log entries'' '''']"

definition REACTION_SUBCOMMANDS :: "subcommand_spec list" where
  "REACTION_SUBCOMMANDS = [
     sub ''add'' [] ''React to current thread/comment/DM'' ''emoji [index]'',
     sub ''remove'' [''delete''] ''Remove a reaction'' ''emoji [index]'']"

lemmas subcommand_tables = INVITE_SUBCOMMANDS_def CHANNEL_SUBCOMMANDS_def THREAD_SUBCOMMANDS_def DM_SUBCOMMANDS_def USER_SUBCOMMANDS_def KEY_SUBCOMMANDS_def COMMENT_SUBCOMMANDS_def NOTIFICATION_SUBCOMMANDS_def AUDIT_SUBCOMMANDS_def REACTION_SUBCOMMANDS_def

definition subcommands_for :: "str \<Rightarrow> subcommand_spec list" where
  "subcommands_for command =
     (if command = lit ''invite'' then INVITE_SUBCOMMANDS
      else if command = lit ''channel'' then CHANNEL_SUBCOMMANDS
      else if command = lit ''thread'' then THREAD_SUBCOMMANDS
      else if command = lit ''dm'' then DM_SUBCOMMANDS
      else if command = lit ''user'' then USER_SUBCOMMANDS
      else if command = lit ''key'' then KEY_SUBCOMMANDS
      else if command = lit ''comment'' then COMMENT_SUBCOMMANDS
      else if command = lit ''notification'' then NOTIFICATION_SUBCOMMANDS
      else if command = lit ''audit'' then AUDIT_SUBCOMMANDS
      else if command = lit ''reaction'' then REACTION_SUBCOMMANDS
      else [])"

definition is_subcommand :: "subcommand_spec \<Rightarrow> str \<Rightarrow> bool" where
  "is_subcommand spec v \<longleftrightarrow> sb_name spec = v \<or> v \<in> set (sb_aliases spec)"

record command_spec =
  cs_name :: str
  cs_aliases :: "str list"
  cs_description :: str
  cs_args :: str
  cs_shortcut :: "str option"
  cs_category :: str

definition cmd :: "string \<Rightarrow> string list \<Rightarrow> string \<Rightarrow> string \<Rightarrow> string option \<Rightarrow> string \<Rightarrow> command_spec" where
  "cmd name aliases description args shortcut category =
     \<lparr>cs_name = lit name, cs_aliases = map lit aliases, cs_description = lit description, cs_args = lit args,
      cs_shortcut = map_option lit shortcut, cs_category = lit category\<rparr>"

definition command_specs :: "command_spec list" where
  "command_specs = [
     cmd ''invite'' [] ''Manage invite codes'' ''new [role] [ttl] | list | revoke id'' None ''Admin'',
     cmd ''channel'' [''chan''] ''Manage channels'' ''new|private|join|leave|rename|topic|archive|members'' (Some ''Ctrl-X C'') ''Lifecycle'',
     cmd ''thread'' [''t''] ''Manage threads'' ''new|rename|delete|archive|pin|mute|read'' (Some ''Ctrl-X T'') ''Create'',
     cmd ''dm'' [''msg''] ''Open or manage direct messages'' ''open|edit|delete|mute|read'' (Some ''Ctrl-X D'') ''Navigate'',
     cmd ''user'' [] ''Manage users and your profile'' ''list|profile|username|disable|enable|role'' None ''Admin'',
     cmd ''key'' [] ''Manage SSH keys'' ''list|my|add|link|label|revoke'' None ''Account'',
     cmd ''account'' [''settings''] ''Open account settings'' '''' None ''Account'',
     cmd ''comment'' [] ''Manage thread comments'' ''edit|delete'' None ''Lifecycle'',
     cmd ''notification'' [''notify''] ''Manage notifications'' ''list|mentions|read|terminal'' None ''Notifications'',
     cmd ''audit'' [] ''List audit log entries'' ''list'' None ''Admin'',
     cmd ''reaction'' [] ''React to current thread/comment/DM'' ''add|remove emoji [index]'' None ''Lifecycle'',
     cmd ''search'' [''s''] ''Search visible content'' ''query'' None ''Search'',
     cmd ''label'' [''tag''] ''Open a label feed'' ''$label'' None ''Search'',
     cmd ''save'' [] ''Save a message'' ''index'' None ''Lifecycle'',
     cmd ''unsave'' [] ''Unsave a message'' ''index'' None ''Lifecycle'',
     cmd ''more'' [] ''Load more list results'' '''' None ''Search'',
     cmd ''older'' [] ''Load older message history'' '''' None ''Search'',
     cmd ''help'' [''?''] ''Show keyboard help'' '''' (Some ''Ctrl-X ?'') ''System'',
     cmd ''quit'' [''q''] ''Disconnect from sshoosh'' '''' (Some ''Ctrl-X Q'') ''System'']"

definition is_command :: "str \<Rightarrow> command_spec \<Rightarrow> bool" where
  "is_command v spec \<longleftrightarrow> cs_name spec = v \<or> v \<in> set (cs_aliases spec)"

definition find_command :: "str \<Rightarrow> command_spec option" where
  "find_command v = List.find (is_command v) command_specs"


section \<open>Arguments\<close>

definition require :: "str \<Rightarrow> string \<Rightarrow> str + str" where
  "require input message = (let v = trim input in if v = [] then Inl (lit message) else Inr v)"

definition split_word :: "str \<Rightarrow> str \<times> str" where
  "split_word input = (let s = trim input in (word_head s, trim (word_tail s)))"

text \<open>\<open>split_once('|')\<close>.\<close>

definition split_once :: "uchar \<Rightarrow> str \<Rightarrow> (str \<times> str) option" where
  "split_once ch s = (if ch \<in> set s then Some (takeWhile (\<lambda>c. c \<noteq> ch) s, tl (dropWhile (\<lambda>c. c \<noteq> ch) s)) else None)"

definition split_thread_title :: "str \<Rightarrow> str" where
  "split_thread_title input = trim (case split_once 124 input of Some (title, _) \<Rightarrow> title | None \<Rightarrow> input)"

definition parse_number :: "string \<Rightarrow> str \<Rightarrow> str + int" where
  "parse_number message s = (case parse_i64 s of Some i \<Rightarrow> Inr i | None \<Rightarrow> Inl (lit message))"

definition parse_invite :: "str \<Rightarrow> str + action" where
  "parse_invite input =
     (let parts = split_whitespace input in
      and_then
        (case parts of
           [] \<Rightarrow> Inr Member
         | v # _ \<Rightarrow> if v = lit ''admin'' then Inr Admin else if v = lit ''member'' then Inr Member
                    else Inl (lit ''Unknown invite role: '' @ v))
        (\<lambda>role. and_then
          (case parts of _ # v # _ \<Rightarrow> map_ok Some (parse_number ''TTL must be an hour count'' v) | _ \<Rightarrow> Inr None)
          (\<lambda>ttl_hours. Inr (ACreateInviteWithOptions role ttl_hours))))"

definition parse_two_args :: "str \<Rightarrow> string \<Rightarrow> str + (str \<times> str)" where
  "parse_two_args input message =
     (case split_whitespace input of a # b # _ \<Rightarrow> Inr (a, b) | _ \<Rightarrow> Inl (lit message))"

definition parse_user_role :: "str \<Rightarrow> str + action" where
  "parse_user_role input =
     and_then (parse_two_args input ''Username and role are required'') (\<lambda>(username, role).
       and_then
         (if role = lit ''owner'' then Inr Owner else if role = lit ''admin'' then Inr Admin
          else if role = lit ''member'' then Inr Member else Inl (lit ''Role must be owner, admin, or member''))
         (\<lambda>role. Inr (ASetUserRole username role)))"

definition optional_arg :: "str \<Rightarrow> str option" where
  "optional_arg input = (let v = trim input in if v = [] then None else Some v)"

definition parse_optional_slug_text :: "str \<Rightarrow> string \<Rightarrow> str + (str option \<times> str)" where
  "parse_optional_slug_text input message =
     and_then (require input message) (\<lambda>input.
       let first = word_head input in
       if take 1 first = [c_hash]
       then (let t = trim (word_tail input) in if t = [] then Inl (lit message) else Inr (Some first, t))
       else Inr (None, input))"

definition parse_key_add :: "str \<Rightarrow> str + action" where
  "parse_key_add input =
     and_then (require input ''Public key is required'') (\<lambda>input.
       let (public_key, label) = (case split_once 124 input of
             Some (k, l) \<Rightarrow> (trim k, optional_arg l) | None \<Rightarrow> (input, None))
       in Inr (AAddKey public_key label))"

definition parse_reaction :: "str \<Rightarrow> str + (str \<times> int option)" where
  "parse_reaction input =
     and_then (require input ''Emoji is required'') (\<lambda>input.
       let parts = split_whitespace input;
           emoji = (case parts of e # _ \<Rightarrow> e | [] \<Rightarrow> [])
       in if take 1 emoji = [58] then Inl (lit ''Choose an emoji from autocomplete'')
          else and_then
            (case parts of
               _ # v # _ \<Rightarrow> map_ok Some (parse_number ''Index must be a number'' (trim_start_char c_hash v))
             | _ \<Rightarrow> Inr None)
            (\<lambda>index. Inr (emoji, index)))"

definition parse_index :: "str \<Rightarrow> string \<Rightarrow> str + int" where
  "parse_index input message =
     and_then (require input message) (\<lambda>v.
       parse_number ''Index must be a number''
         (trim_start_char c_hash (case split_whitespace v of w # _ \<Rightarrow> w | [] \<Rightarrow> [])))"

definition parse_index_body :: "str \<Rightarrow> string \<Rightarrow> str + (int \<times> str)" where
  "parse_index_body input message =
     and_then (require input message) (\<lambda>input.
       and_then (parse_number ''Index must be a number'' (trim_start_char c_hash (word_head input))) (\<lambda>index.
         let body = trim (word_tail input) in
         if body = [] then Inl (lit message) else Inr (index, body)))"

definition parse_optional_hours :: "str \<Rightarrow> str + int option" where
  "parse_optional_hours input =
     (let v = trim input in
      if v = [] then Inr (Some 24) else map_ok Some (parse_number ''Hours must be a number'' v))"

section \<open>Subcommands\<close>

definition unknown_subcommand :: "str \<Rightarrow> str + action" where
  "unknown_subcommand name = Inl (lit ''Unknown subcommand: '' @ name)"

definition is_named :: "str \<Rightarrow> string list \<Rightarrow> bool" where
  "is_named name names \<longleftrightarrow> list_ex (\<lambda>n. name = lit n) names"

definition parse_invite_command :: "str \<Rightarrow> str + action" where
  "parse_invite_command input =
     (let (name, rest) = split_word input in
      if is_named name [''new'', ''create''] then parse_invite rest
      else if is_named name [''list'', ''ls''] then Inr AListInvites
      else if is_named name [''revoke'', ''remove''] then map_ok ARevokeInvite (require rest ''Invite id is required'')
      else if name = [] then Inl (lit ''Invite subcommand is required'')
      else unknown_subcommand name)"

definition parse_channel_command :: "str \<Rightarrow> str + action" where
  "parse_channel_command input =
     (let (name, rest) = split_word input in
      if is_named name [''new'', ''create''] then map_ok (\<lambda>n. ACreateChannel n False) (require rest ''Channel name is required'')
      else if is_named name [''private''] then map_ok (\<lambda>n. ACreateChannel n True) (require rest ''Private channel name is required'')
      else if is_named name [''list'', ''ls''] then Inr AListChannels
      else if is_named name [''join''] then map_ok AJoinChannel (require rest ''Channel slug is required'')
      else if is_named name [''leave''] then Inr (ALeaveChannel (optional_arg rest))
      else if is_named name [''topic'']
        then map_ok (\<lambda>(slug, topic). ASetChannelTopic slug topic) (parse_optional_slug_text rest ''Channel topic is required'')
      else if is_named name [''rename'']
        then map_ok (\<lambda>(slug, n). ARenameChannel slug n) (parse_optional_slug_text rest ''Channel name is required'')
      else if is_named name [''archive''] then Inr (ASetChannelArchived (optional_arg rest) True)
      else if is_named name [''unarchive'']
        then map_ok (\<lambda>slug. ASetChannelArchived (Some slug) False) (require rest ''Channel slug is required'')
      else if is_named name [''members''] then map_ok AListChannelMembers (require rest ''Channel slug is required'')
      else if is_named name [''add'', ''add-member'']
        then map_ok (\<lambda>(slug, username). AAddChannelMember slug username)
               (parse_two_args rest ''Channel slug and username are required'')
      else if is_named name [''remove'', ''remove-member'']
        then map_ok (\<lambda>(slug, username). ARemoveChannelMember slug username)
               (parse_two_args rest ''Channel slug and username are required'')
      else if name = [] then Inl (lit ''Channel subcommand is required'')
      else unknown_subcommand name)"

definition parse_thread_command :: "str \<Rightarrow> str + action" where
  "parse_thread_command input =
     (let (name, rest) = split_word input in
      if is_named name [''new'', ''create'']
        then map_ok (\<lambda>t. ACreateThread (split_thread_title t)) (require rest ''Thread title is required'')
      else if is_named name [''rename'', ''edit'']
        then map_ok (\<lambda>t. ARenameThread (split_thread_title t)) (require rest ''Thread title is required'')
      else if is_named name [''delete'', ''remove''] then Inr ADeleteThread
      else if is_named name [''archive''] then Inr (ASetThreadArchived True)
      else if is_named name [''unarchive''] then Inr (ASetThreadArchived False)
      else if is_named name [''pin''] then Inr (ASetThreadPinned True)
      else if is_named name [''unpin''] then Inr (ASetThreadPinned False)
      else if is_named name [''mute''] then map_ok ASetThreadMuted (parse_optional_hours rest)
      else if is_named name [''unmute''] then Inr (ASetThreadMuted None)
      else if is_named name [''read''] then Inr AMarkThreadRead
      else if is_named name [''unread''] then Inr AMarkThreadUnread
      else if name = [] then Inl (lit ''Thread subcommand is required'')
      else unknown_subcommand name)"

definition parse_dm_command :: "str \<Rightarrow> str + action" where
  "parse_dm_command input =
     (let (name, rest) = split_word input in
      if is_named name [''open''] then map_ok AOpenDm (require rest ''Username is required'')
      else if is_named name [''edit'']
        then map_ok (\<lambda>(index, body). AEditDm index body) (parse_index_body rest ''DM index and body are required'')
      else if is_named name [''delete'', ''remove''] then map_ok ADeleteDm (parse_index rest ''DM index is required'')
      else if is_named name [''mute''] then map_ok ASetDmMuted (parse_optional_hours rest)
      else if is_named name [''unmute''] then Inr (ASetDmMuted None)
      else if is_named name [''read''] then Inr AMarkDmRead
      else if is_named name [''unread''] then Inr AMarkDmUnread
      else if name = [] then Inl (lit ''DM subcommand is required'')
      else if rest = [] then Inr (AOpenDm name)
      else unknown_subcommand name)"

definition parse_user_command :: "str \<Rightarrow> str + action" where
  "parse_user_command input =
     (let (name, rest) = split_word input in
      if is_named name [''list'', ''ls''] then Inr AListUsers
      else if is_named name [''profile''] then map_ok ASetProfile (require rest ''Display name is required'')
      else if is_named name [''username''] then map_ok ASetUsername (require rest ''Username is required'')
      else if is_named name [''disable''] then map_ok (\<lambda>u. ASetUserDisabled u True) (require rest ''Username is required'')
      else if is_named name [''enable''] then map_ok (\<lambda>u. ASetUserDisabled u False) (require rest ''Username is required'')
      else if is_named name [''role''] then parse_user_role rest
      else if name = [] then Inl (lit ''User subcommand is required'')
      else unknown_subcommand name)"

definition parse_key_command :: "str \<Rightarrow> str + action" where
  "parse_key_command input =
     (let (name, rest) = split_word input in
      if is_named name [''list'', ''ls''] then Inr AListKeys
      else if is_named name [''my'', ''mine''] then Inr AListMyKeys
      else if is_named name [''add''] then parse_key_add rest
      else if is_named name [''link''] then Inr (ACreateDeviceLinkToken (optional_arg rest))
      else if is_named name [''label'']
        then map_ok (\<lambda>(k, label). ALabelKey k label) (parse_two_args rest ''Key id and label are required'')
      else if is_named name [''revoke'', ''remove''] then map_ok ARevokeKey (require rest ''Key id or fingerprint is required'')
      else if name = [] then Inl (lit ''Key subcommand is required'')
      else unknown_subcommand name)"

definition parse_comment_command :: "str \<Rightarrow> str + action" where
  "parse_comment_command input =
     (let (name, rest) = split_word input in
      if is_named name [''edit'']
        then map_ok (\<lambda>(index, body). AEditComment index body) (parse_index_body rest ''Comment index and body are required'')
      else if is_named name [''delete'', ''remove''] then map_ok ADeleteComment (parse_index rest ''Comment index is required'')
      else if name = [] then Inl (lit ''Comment subcommand is required'')
      else unknown_subcommand name)"

definition parse_terminal_notification_command :: "str \<Rightarrow> str + action" where
  "parse_terminal_notification_command input =
     (let (name, rest) = split_word input in
      if rest \<noteq> [] then Inl (lit ''Unknown terminal notification argument'')
      else if is_named name [''on'', ''enable''] then Inr (ASetTerminalNotifications True)
      else if is_named name [''off'', ''disable''] then Inr (ASetTerminalNotifications False)
      else if is_named name [''status''] then Inr AShowTerminalNotificationsStatus
      else if name = [] then Inl (lit ''Terminal notification subcommand is required'')
      else unknown_subcommand name)"

definition parse_notification_command :: "str \<Rightarrow> str + action" where
  "parse_notification_command input =
     (let (name, rest) = split_word input in
      if is_named name [''list'', ''ls''] then Inr AListNotifications
      else if is_named name [''mentions''] then Inr AListMentions
      else if is_named name [''read'', ''mark-read''] then Inr (AMarkNotificationRead (optional_arg rest))
      else if is_named name [''terminal''] then parse_terminal_notification_command rest
      else if name = [] then Inl (lit ''Notification subcommand is required'')
      else unknown_subcommand name)"

definition parse_audit_command :: "str \<Rightarrow> str + action" where
  "parse_audit_command input =
     (let (name, _) = split_word input in
      if is_named name [''list'', ''ls''] then Inr AListAudit
      else if name = [] then Inl (lit ''Audit subcommand is required'')
      else unknown_subcommand name)"

definition parse_reaction_command :: "str \<Rightarrow> str + action" where
  "parse_reaction_command input =
     (let (name, rest) = split_word input in
      if is_named name [''add''] then map_ok (\<lambda>(emoji, index). AReact emoji index) (parse_reaction rest)
      else if is_named name [''remove'', ''delete''] then map_ok (\<lambda>(emoji, index). AUnreact emoji index) (parse_reaction rest)
      else if name = [] then Inl (lit ''Reaction subcommand is required'')
      else unknown_subcommand name)"

section \<open>The command line\<close>

definition parse_canonical :: "str \<Rightarrow> str \<Rightarrow> str + action option" where
  "parse_canonical canonical rest =
     (if canonical = lit ''invite'' then map_ok Some (parse_invite_command rest)
      else if canonical = lit ''channel'' then map_ok Some (parse_channel_command rest)
      else if canonical = lit ''thread'' then map_ok Some (parse_thread_command rest)
      else if canonical = lit ''dm'' then map_ok Some (parse_dm_command rest)
      else if canonical = lit ''user'' then map_ok Some (parse_user_command rest)
      else if canonical = lit ''key'' then map_ok Some (parse_key_command rest)
      else if canonical = lit ''comment'' then map_ok Some (parse_comment_command rest)
      else if canonical = lit ''notification'' then map_ok Some (parse_notification_command rest)
      else if canonical = lit ''audit'' then map_ok Some (parse_audit_command rest)
      else if canonical = lit ''reaction'' then map_ok Some (parse_reaction_command rest)
      else if canonical = lit ''account'' then Inr (Some AOpenAccount)
      else if canonical = lit ''search'' then map_ok (\<lambda>q. Some (ASearch q)) (require rest ''Search query is required'')
      else if canonical = lit ''label'' then map_ok (\<lambda>tag. Some (AOpenLabel tag)) (require rest ''Label is required'')
      else if canonical = lit ''save''
        then map_ok (\<lambda>i. Some (ASetMessageSaved i True)) (parse_index rest ''Message index is required'')
      else if canonical = lit ''unsave''
        then map_ok (\<lambda>i. Some (ASetMessageSaved i False)) (parse_index rest ''Message index is required'')
      else if canonical = lit ''more'' then Inr (Some (ALoadMore None))
      else if canonical = lit ''older'' then Inr (Some ALoadOlder)
      else Inr None)"

definition parse_action :: "str \<Rightarrow> str + action option" where
  "parse_action line =
     (let line = trim line in
      if take 1 line \<noteq> [47] then Inr None
      else let name = word_head (drop 1 line); rest = trim (word_tail (drop 1 line)) in
        case find_command name of
          None \<Rightarrow> Inl (lit ''Unknown command: /'' @ name)
        | Some spec \<Rightarrow> parse_canonical (cs_name spec) rest)"


section \<open>Words of a line\<close>

definition word :: "str \<Rightarrow> bool" where
  "word w \<longleftrightarrow> w \<noteq> [] \<and> list_all (\<lambda>c. \<not> is_whitespace c) w"

lemma dropWhile_all_append: "list_all P a \<Longrightarrow> dropWhile P (a @ s) = dropWhile P s"
  by (induction a) auto

lemma dropWhile_all: "list_all P a \<Longrightarrow> dropWhile P a = []"
  by (induction a) auto

lemma takeWhile_all: "list_all P a \<Longrightarrow> takeWhile P a = a"
  by (induction a) auto

lemma trim_Nil [simp]: "trim [] = []"
  by (simp add: trim_def trim_matches_def)

lemma dropWhile_none: "s \<noteq> [] \<Longrightarrow> \<not> P (hd s) \<Longrightarrow> dropWhile P s = s"
  by (cases s) auto

lemma trim_eq:
  assumes "list_all is_whitespace a" "list_all is_whitespace b" "t = [] \<or> \<not> is_whitespace (hd t) \<and> \<not> is_whitespace (last t)"
  shows "trim (a @ t @ b) = t"
proof (cases "t = []")
  case True
  have "list_all is_whitespace (a @ t @ b)" using True assms(1,2) by simp
  then show ?thesis using True by (simp only: trim_def trim_matches_def dropWhile_all) simp
next
  case False
  have "list_all is_whitespace (rev b)" using assms(2) by (simp add: list_all_iff)
  moreover have "dropWhile is_whitespace (a @ t @ b) = t @ b"
    using False assms(1,3) by (simp add: dropWhile_all_append dropWhile_none)
  ultimately show ?thesis
    using False assms(3) by (simp add: trim_def trim_matches_def dropWhile_all_append dropWhile_none hd_rev)
qed

lemma trim_parts:
  obtains a b where "s = a @ trim s @ b" "list_all is_whitespace a" "list_all is_whitespace b"
proof -
  let ?d = "dropWhile is_whitespace s"
  have "s = takeWhile is_whitespace s @ ?d" by simp
  moreover have "?d = trim s @ rev (takeWhile is_whitespace (rev ?d))"
    by (metis rev_append rev_rev_ident takeWhile_dropWhile_id trim_def trim_matches_def)
  moreover have "list_all is_whitespace (takeWhile is_whitespace s)" "list_all is_whitespace (rev (takeWhile is_whitespace (rev ?d)))"
    by (auto simp: list_all_iff dest: set_takeWhileD)
  ultimately show ?thesis using that by metis
qed

lemma trim_ends: "trim s = [] \<or> \<not> is_whitespace (hd (trim s)) \<and> \<not> is_whitespace (last (trim s))"
  using hd_trim_matches last_trim_matches by (auto simp: trim_def)

lemma trim_trim [simp]: "trim (trim s) = trim s"
  using trim_eq [of "[]" "[]" "trim s"] trim_ends by simp

lemma word_not_space: "word w \<Longrightarrow> \<not> is_whitespace (hd w) \<and> \<not> is_whitespace (last w)"
  by (auto simp: word_def list_all_iff)

lemma space_is_whitespace [simp]: "is_whitespace c_space"
  by (simp add: is_whitespace_def)

text \<open>A line that starts with a word, trimmed: the word alone, or with what follows it trimmed at its end.\<close>

lemma trim_word:
  assumes "word w"
  obtains "trim x = []" "trim (w @ c_space # x) = w"
  | a where "trim x \<noteq> []" "list_all is_whitespace a" "trim (w @ c_space # x) = w @ c_space # a @ trim x"
proof -
  obtain a b where x: "x = a @ trim x @ b" "list_all is_whitespace a" "list_all is_whitespace b" by (rule trim_parts)
  have w: "w \<noteq> []" "\<not> is_whitespace (hd w)" "\<not> is_whitespace (last w)"
    using assms word_not_space by (auto simp: word_def)
  show ?thesis
  proof (cases "trim x = []")
    case True
    then have "x = a @ b" using x(1) by simp
    then have "list_all is_whitespace (c_space # x)" using x(2,3) by simp
    then show ?thesis using True w trim_eq [of "[]" "c_space # x" w] that(1) by simp
  next
    case False
    have "trim ([] @ (w @ c_space # a @ trim x) @ b) = w @ c_space # a @ trim x"
      using w False x(3) trim_ends [of x] by (intro trim_eq) auto
    then show ?thesis using False x that(2) by (metis append.assoc append_Cons append_Nil)
  qed
qed

lemma word_head_word: "word w \<Longrightarrow> word_head w = w \<and> word_tail w = []"
  by (simp add: word_def word_head_def word_tail_def takeWhile_all dropWhile_all)

lemma word_head_line: "word w \<Longrightarrow> word_head (w @ c_space # x) = w \<and> word_tail (w @ c_space # x) = x"
  by (auto simp: word_def word_head_def word_tail_def list_all_iff takeWhile_append dropWhile_append)

lemma trim_spaces: "list_all is_whitespace a \<Longrightarrow> trim (a @ trim x) = trim x"
  using trim_eq [of a "[]" "trim x"] trim_ends by simp

lemma split_word_line [simp]: "word w \<Longrightarrow> split_word (trim (w @ c_space # x)) = (w, trim x)"
  unfolding split_word_def trim_trim
  by (rule trim_word [of w x]) (simp_all add: word_head_word word_head_line trim_spaces)

lemma word_slash: "word (47 # v) \<longleftrightarrow> list_all (\<lambda>c. \<not> is_whitespace c) v"
  by (simp add: word_def is_whitespace_def)

lemma parse_action_line:
  assumes "word name"
  shows "parse_action (47 # name @ c_space # x) = (case find_command name of
      None \<Rightarrow> Inl (lit ''Unknown command: /'' @ name) | Some spec \<Rightarrow> parse_canonical (cs_name spec) (trim x))"
proof -
  have "word (47 # name)" using assms by (simp add: word_slash) (simp add: word_def)
  then show ?thesis
    by (rule trim_word [of _ x])
      (use assms in \<open>simp_all add: parse_action_def Let_def word_head_word word_head_line trim_spaces cong: option.case_cong\<close>)
qed

section \<open>The tables list what the parser accepts\<close>

text \<open>A parser of a command takes a subcommand when it accepts it with some argument.\<close>

definition takes :: "(str \<Rightarrow> str + action) \<Rightarrow> str \<Rightarrow> bool" where
  "takes parse w \<longleftrightarrow> (\<exists>x a. trim x \<noteq> [] \<and> parse (trim (w @ c_space # x)) = Inr a)"

lemma takesI: "parse (trim (w @ c_space # lit x)) = Inr a \<Longrightarrow> trim (lit x) \<noteq> [] \<Longrightarrow> takes parse w"
  by (auto simp: takes_def)

lemmas listed_defs = list_ex_iff is_subcommand_def sub_def is_named_def unknown_subcommand_def

lemma sample_arguments [simp]:
  "trim (lit ''1'') = lit ''1''" "trim (lit ''on'') = lit ''on''" "trim (lit ''member'') = lit ''member''"
  "trim (lit ''1 owner'') = lit ''1 owner''"
  "split_whitespace (lit ''1'') = [lit ''1'']" "split_whitespace (lit ''member'') = [lit ''member'']"
  "split_whitespace (lit ''1 owner'') = [lit ''1'', lit ''owner'']"
  "word_head (lit ''1 owner'') = lit ''1''" "word_tail (lit ''1 owner'') = lit ''owner''"
  "word_head (lit ''on'') = lit ''on''" "word_tail (lit ''on'') = []"
  "trim (lit ''owner'') = lit ''owner''" "trim_start_char c_hash (lit ''1'') = lit ''1''"
  "parse_i64 (lit ''1'') = Some 1" "take (Suc 0) (lit ''1'') = [49]"
  by (simp_all add: lit_def trim_def trim_matches_def is_whitespace_def word_head_def word_tail_def split_whitespace.simps
      trim_start_char_def parse_i64_def is_ascii_digit_def add_digit_def i64_ok_def)

lemma takes_iff:
  assumes "\<And>x. \<not> listed \<Longrightarrow> trim x \<noteq> [] \<Longrightarrow> \<exists>e. parse (trim (w @ c_space # x)) = Inl e"
    and "listed \<Longrightarrow> \<exists>a. parse (trim (w @ c_space # lit (x0 w))) = Inr a \<and> trim (lit (x0 w)) \<noteq> []"
  shows "takes parse w \<longleftrightarrow> listed"
  using assms unfolding takes_def by (metis sum.distinct(1))

lemma split_on_word: "split_word (lit ''on'') = (lit ''on'', [])"
  by (simp add: split_word_def)

lemma word_not_Nil: "word w \<Longrightarrow> w \<noteq> []"
  by (simp add: word_def)

lemma takes_audit: "word w \<Longrightarrow> takes parse_audit_command w \<longleftrightarrow> list_ex (\<lambda>s. is_subcommand s w) AUDIT_SUBCOMMANDS"
  by (rule takes_iff [where ?x0.0 = "\<lambda>w. ''1''"], simp add: parse_audit_command_def AUDIT_SUBCOMMANDS_def listed_defs word_not_Nil eq_commute [of w],
      auto simp: parse_audit_command_def AUDIT_SUBCOMMANDS_def listed_defs Let_def require_def )

lemma takes_invite: "word w \<Longrightarrow> takes parse_invite_command w \<longleftrightarrow> list_ex (\<lambda>s. is_subcommand s w) INVITE_SUBCOMMANDS"
  by (rule takes_iff [where ?x0.0 = "\<lambda>w. ''member''"], simp add: parse_invite_command_def INVITE_SUBCOMMANDS_def listed_defs word_not_Nil eq_commute [of w],
      auto simp: parse_invite_command_def INVITE_SUBCOMMANDS_def listed_defs Let_def require_def parse_invite_def)

lemma takes_comment: "word w \<Longrightarrow> takes parse_comment_command w \<longleftrightarrow> list_ex (\<lambda>s. is_subcommand s w) COMMENT_SUBCOMMANDS"
  by (rule takes_iff [where ?x0.0 = "\<lambda>w. ''1 owner''"], simp add: parse_comment_command_def COMMENT_SUBCOMMANDS_def listed_defs word_not_Nil eq_commute [of w],
      auto simp: parse_comment_command_def COMMENT_SUBCOMMANDS_def listed_defs Let_def require_def parse_index_def parse_index_body_def parse_number_def)

lemma takes_reaction: "word w \<Longrightarrow> takes parse_reaction_command w \<longleftrightarrow> list_ex (\<lambda>s. is_subcommand s w) REACTION_SUBCOMMANDS"
  by (rule takes_iff [where ?x0.0 = "\<lambda>w. ''1''"], simp add: parse_reaction_command_def REACTION_SUBCOMMANDS_def listed_defs word_not_Nil eq_commute [of w],
      auto simp: parse_reaction_command_def REACTION_SUBCOMMANDS_def listed_defs Let_def require_def parse_reaction_def)

lemma takes_key: "word w \<Longrightarrow> takes parse_key_command w \<longleftrightarrow> list_ex (\<lambda>s. is_subcommand s w) KEY_SUBCOMMANDS"
  by (rule takes_iff [where ?x0.0 = "\<lambda>w. ''1 owner''"], simp add: parse_key_command_def KEY_SUBCOMMANDS_def listed_defs word_not_Nil eq_commute [of w],
      auto simp: parse_key_command_def KEY_SUBCOMMANDS_def listed_defs Let_def require_def parse_key_add_def parse_two_args_def split: option.split)

lemma takes_user: "word w \<Longrightarrow> takes parse_user_command w \<longleftrightarrow> list_ex (\<lambda>s. is_subcommand s w) USER_SUBCOMMANDS"
  by (rule takes_iff [where ?x0.0 = "\<lambda>w. ''1 owner''"], simp add: parse_user_command_def USER_SUBCOMMANDS_def listed_defs word_not_Nil eq_commute [of w],
      auto simp: parse_user_command_def USER_SUBCOMMANDS_def listed_defs Let_def require_def parse_user_role_def parse_two_args_def)

lemma takes_channel: "word w \<Longrightarrow> takes parse_channel_command w \<longleftrightarrow> list_ex (\<lambda>s. is_subcommand s w) CHANNEL_SUBCOMMANDS"
  by (rule takes_iff [where ?x0.0 = "\<lambda>w. ''1 owner''"], simp add: parse_channel_command_def CHANNEL_SUBCOMMANDS_def listed_defs word_not_Nil eq_commute [of w],
      auto simp: parse_channel_command_def CHANNEL_SUBCOMMANDS_def listed_defs Let_def require_def parse_optional_slug_text_def parse_two_args_def)

lemma takes_thread: "word w \<Longrightarrow> takes parse_thread_command w \<longleftrightarrow> list_ex (\<lambda>s. is_subcommand s w) THREAD_SUBCOMMANDS"
  by (rule takes_iff [where ?x0.0 = "\<lambda>w. ''1''"], simp add: parse_thread_command_def THREAD_SUBCOMMANDS_def listed_defs word_not_Nil eq_commute [of w],
      auto simp: parse_thread_command_def THREAD_SUBCOMMANDS_def listed_defs Let_def require_def parse_optional_hours_def parse_number_def)

lemma takes_dm: "word w \<Longrightarrow> takes parse_dm_command w \<longleftrightarrow> list_ex (\<lambda>s. is_subcommand s w) DM_SUBCOMMANDS"
  by (rule takes_iff [where ?x0.0 = "\<lambda>w. if w = lit ''mute'' then ''1'' else ''1 owner''"], simp add: parse_dm_command_def DM_SUBCOMMANDS_def listed_defs word_not_Nil eq_commute [of w],
      auto simp: parse_dm_command_def DM_SUBCOMMANDS_def listed_defs Let_def require_def parse_index_def parse_index_body_def parse_optional_hours_def parse_number_def)

lemma takes_notification: "word w \<Longrightarrow> takes parse_notification_command w \<longleftrightarrow> list_ex (\<lambda>s. is_subcommand s w) NOTIFICATION_SUBCOMMANDS"
  by (rule takes_iff [where ?x0.0 = "\<lambda>w. ''on''"], simp add: parse_notification_command_def NOTIFICATION_SUBCOMMANDS_def listed_defs word_not_Nil eq_commute [of w],
      auto simp: parse_notification_command_def NOTIFICATION_SUBCOMMANDS_def listed_defs Let_def require_def parse_terminal_notification_command_def split_on_word)


lemma names_found: "list_all (\<lambda>spec. find_command (cs_name spec) = Some spec) command_specs"
  by (simp add: command_specs_def cmd_def find_command_def is_command_def)

lemma names_words: "list_all (\<lambda>spec. word (cs_name spec)) command_specs"
  by (simp add: command_specs_def cmd_def word_def) (simp add: lit_def is_whitespace_def)

lemma find_command_name: "spec \<in> set command_specs \<Longrightarrow> find_command (cs_name spec) = Some spec \<and> word (cs_name spec)"
  using names_found names_words unfolding list_all_iff by blast

lemma line_takes: "(\<exists>x a. trim x \<noteq> [] \<and> map_ok Some (p (trim (w @ c_space # x))) = Inr (Some a)) \<longleftrightarrow> takes p w"
proof -
  have "map_ok Some r = Inr (Some a) \<longleftrightarrow> r = Inr a" for r :: "str + action" and a by (cases r) auto
  then show ?thesis by (simp add: takes_def)
qed

lemma canonical_parsers:
  "parse_canonical (lit ''invite'') r = map_ok Some (parse_invite_command r)"
  "parse_canonical (lit ''channel'') r = map_ok Some (parse_channel_command r)"
  "parse_canonical (lit ''thread'') r = map_ok Some (parse_thread_command r)"
  "parse_canonical (lit ''dm'') r = map_ok Some (parse_dm_command r)"
  "parse_canonical (lit ''user'') r = map_ok Some (parse_user_command r)"
  "parse_canonical (lit ''key'') r = map_ok Some (parse_key_command r)"
  "parse_canonical (lit ''comment'') r = map_ok Some (parse_comment_command r)"
  "parse_canonical (lit ''notification'') r = map_ok Some (parse_notification_command r)"
  "parse_canonical (lit ''audit'') r = map_ok Some (parse_audit_command r)"
  "parse_canonical (lit ''reaction'') r = map_ok Some (parse_reaction_command r)"
  by (simp_all add: parse_canonical_def)

lemma canonical_tables:
  "subcommands_for (lit ''invite'') = INVITE_SUBCOMMANDS"
  "subcommands_for (lit ''channel'') = CHANNEL_SUBCOMMANDS"
  "subcommands_for (lit ''thread'') = THREAD_SUBCOMMANDS"
  "subcommands_for (lit ''dm'') = DM_SUBCOMMANDS"
  "subcommands_for (lit ''user'') = USER_SUBCOMMANDS"
  "subcommands_for (lit ''key'') = KEY_SUBCOMMANDS"
  "subcommands_for (lit ''comment'') = COMMENT_SUBCOMMANDS"
  "subcommands_for (lit ''notification'') = NOTIFICATION_SUBCOMMANDS"
  "subcommands_for (lit ''audit'') = AUDIT_SUBCOMMANDS"
  "subcommands_for (lit ''reaction'') = REACTION_SUBCOMMANDS"
  by (simp_all add: subcommands_for_def)



section \<open>The line for editing a message\<close>

lemma word_index: "word (c_hash # show_int i)"
proof -
  have "list_all (\<lambda>c. \<not> is_whitespace c) (show_nat n)" for n
    using show_nat_digits [of n] by (auto simp: list_all_iff is_ascii_digit_def is_whitespace_def)
  then show ?thesis by (simp add: word_def show_int_def is_whitespace_def)
qed

lemma trim_index: "trim_start_char c_hash (c_hash # show_int i) = show_int i"
proof -
  have "show_nat n \<noteq> [] \<and> hd (show_nat n) \<noteq> c_hash" for n
    using show_nat_digits [of n] by (cases "show_nat n") (auto simp: is_ascii_digit_def)
  then show ?thesis by (auto simp: trim_start_char_def show_int_def dropWhile_none)
qed

lemma parse_index_body_line:
  assumes "i64_ok i" "trim body \<noteq> []"
  shows "parse_index_body (trim ((c_hash # show_int i) @ c_space # body)) message = Inr (i, trim body)"
  unfolding parse_index_body_def require_def trim_trim Let_def
  by (rule trim_word [OF word_index, of body i])
    (use assms in \<open>simp_all add: parse_number_def trim_index trim_spaces parse_show_int
       word_head_line [OF word_index [of i], simplified]\<close>)

lemma word_literals [simp]: "word (lit ''comment'')" "word (lit ''dm'')" "word (lit ''edit'')"
  by (simp_all add: word_def) (simp_all add: lit_def is_whitespace_def)

lemma edit_line_parses:
  assumes "i64_ok i" "trim body \<noteq> []"
  shows "parse_action (lit ''/comment edit #'' @ show_int i @ [c_space] @ body) = Inr (Some (AEditComment i (trim body)))"
    and "parse_action (lit ''/dm edit #'' @ show_int i @ [c_space] @ body) = Inr (Some (AEditDm i (trim body)))"
proof -
  let ?rest = "lit ''edit'' @ c_space # (c_hash # show_int i) @ c_space # body"
  have lines: "lit ''/comment edit #'' @ show_int i @ [c_space] @ body = 47 # lit ''comment'' @ c_space # ?rest"
    "lit ''/dm edit #'' @ show_int i @ [c_space] @ body = 47 # lit ''dm'' @ c_space # ?rest"
    by (simp_all add: lit_def)
  have found: "find_command (lit ''comment'') = Some (cmd ''comment'' [] ''Manage thread comments'' ''edit|delete'' None ''Lifecycle'')"
    "find_command (lit ''dm'') = Some (cmd ''dm'' [''msg''] ''Open or manage direct messages'' ''open|edit|delete|mute|read''
       (Some ''Ctrl-X D'') ''Navigate'')"
    by (simp_all add: find_command_def command_specs_def is_command_def cmd_def)
  note body = parse_index_body_line [OF assms, simplified]
  show "parse_action (lit ''/comment edit #'' @ show_int i @ [c_space] @ body) = Inr (Some (AEditComment i (trim body)))"
    unfolding lines by (subst parse_action_line) (simp_all add: found cmd_def canonical_parsers parse_comment_command_def is_named_def body)
  show "parse_action (lit ''/dm edit #'' @ show_int i @ [c_space] @ body) = Inr (Some (AEditDm i (trim body)))"
    unfolding lines by (subst parse_action_line) (simp_all add: found cmd_def canonical_parsers parse_dm_command_def is_named_def body)
qed

end
