(* ===== verification/Input.thy ===== *)
theory Input
  imports Utf8 Numbers Snapshots
begin

unbundle bit_operations_syntax

text \<open>
  Keys and mouse events from the bytes of a terminal: \<open>app/input.rs\<close>. \<open>decode_one\<close> reads one
  event from the front of the pending bytes, or nothing while they may still become one; the
  decoder keeps the rest. Columns and rows are \<open>u16\<close>, the bits of a mouse event a \<open>u8\<close>.
\<close>

section \<open>Keys\<close>

datatype mouse_button = MouseLeft | MouseMiddle | MouseRight

datatype (plugins only: code size) mouse_event_kind =
    MouseDown mouse_button | MouseUp mouse_button | MouseDrag mouse_button | MouseMoved
  | ScrollUp | ScrollDown | ScrollLeft | ScrollRight

record mouse_modifiers =
  mm_shift :: bool
  mm_alt :: bool
  mm_control :: bool

record mouse_event =
  mo_kind :: mouse_event_kind
  mo_column :: nat
  mo_row :: nat
  mo_modifiers :: mouse_modifiers

datatype (plugins only: code size) key =
    KChar uchar | KEnter | KShiftEnter | KEsc | KBackspace | KDelete | KTab | KBackTab
  | KUp | KDown | KAltUp | KAltDown | KLeft | KRight | KHome | KEnd | KPageUp | KPageDown
  | KCtrl uchar | KAlt uchar | KCtrlSeq uchar uchar | KPaste str | KMouse mouse_event

section \<open>Numbers and positions\<close>

text \<open>\<open>parse\<close> for an unsigned type: a sign other than \<open>+\<close> and overflow are errors.\<close>

fun parse_unsigned_digits :: "nat \<Rightarrow> nat \<Rightarrow> str \<Rightarrow> nat option" where
  "parse_unsigned_digits mx acc [] = Some acc"
| "parse_unsigned_digits mx acc (c # cs) =
     (if is_ascii_digit c \<and> acc * 10 + (c - 48) \<le> mx then parse_unsigned_digits mx (acc * 10 + (c - 48)) cs else None)"

definition parse_unsigned :: "nat \<Rightarrow> str \<Rightarrow> nat option" where
  "parse_unsigned mx s =
     (case s of [] \<Rightarrow> None
      | c # cs \<Rightarrow> if c = 43 \<and> cs \<noteq> [] then parse_unsigned_digits mx 0 cs else parse_unsigned_digits mx 0 s)"

fun position :: "('a \<Rightarrow> bool) \<Rightarrow> 'a list \<Rightarrow> nat option" where
  "position p [] = None"
| "position p (x # xs) = (if p x then Some 0 else map_option Suc (position p xs))"

fun find_subsequence :: "'a list \<Rightarrow> 'a list \<Rightarrow> nat option" where
  "find_subsequence [] needle = (if needle = [] then Some 0 else None)"
| "find_subsequence (x # xs) needle =
     (if take (length needle) (x # xs) = needle then Some 0
      else map_option Suc (find_subsequence xs needle))"

section \<open>Mouse events\<close>

definition decode_mouse_cb :: "byte \<Rightarrow> bool \<Rightarrow> (mouse_event_kind \<times> mouse_modifiers) option" where
  "decode_mouse_cb cb pressed =
     (let button_number = unat ((cb AND 3) OR drop_bit 4 (cb AND 192));
          dragging = (cb AND 32 = 32);
          kind = (case (button_number, dragging, pressed) of
              (0, False, True) \<Rightarrow> Some (MouseDown MouseLeft)
            | (Suc 0, False, True) \<Rightarrow> Some (MouseDown MouseMiddle)
            | (Suc (Suc 0), False, True) \<Rightarrow> Some (MouseDown MouseRight)
            | (0, False, False) \<Rightarrow> Some (MouseUp MouseLeft)
            | (Suc 0, False, False) \<Rightarrow> Some (MouseUp MouseMiddle)
            | (Suc (Suc 0), False, False) \<Rightarrow> Some (MouseUp MouseRight)
            | (n, d, _) \<Rightarrow>
                if n = 0 \<and> d then Some (MouseDrag MouseLeft)
                else if n = 1 \<and> d then Some (MouseDrag MouseMiddle)
                else if n = 2 \<and> d then Some (MouseDrag MouseRight)
                else if n = 3 \<and> \<not> d then Some (MouseUp MouseLeft)
                else if n \<in> {3, 4, 5} \<and> d then Some MouseMoved
                else if n = 4 \<and> \<not> d then Some ScrollUp
                else if n = 5 \<and> \<not> d then Some ScrollDown
                else if n = 6 \<and> \<not> d then Some ScrollLeft
                else if n = 7 \<and> \<not> d then Some ScrollRight
                else None)
      in map_option (\<lambda>k. (k, \<lparr>mm_shift = (cb AND 4 = 4), mm_alt = (cb AND 8 = 8), mm_control = (cb AND 16 = 16)\<rparr>)) kind)"

text \<open>\<open>ESC [ < cb ; column ; row M\<close>, one-based; anything else up to the final letter is an Escape.\<close>

definition sgr_numbers :: "byte list \<Rightarrow> (nat \<times> nat \<times> nat) option" where
  "sgr_numbers digits =
     (case from_utf8 digits of None \<Rightarrow> None
      | Some text \<Rightarrow>
          (case split_on 59 text of
             [a, b, c] \<Rightarrow>
               (case (parse_unsigned 255 a, parse_unsigned 65535 b, parse_unsigned 65535 c) of
                  (Some cb, Some column, Some row) \<Rightarrow> Some (cb, column, row)
                | _ \<Rightarrow> None)
           | _ \<Rightarrow> None))"

definition decode_sgr_mouse :: "byte list \<Rightarrow> (nat \<times> key) option" where
  "decode_sgr_mouse bytes =
     (case position (\<lambda>b. b = 77 \<or> b = 109) bytes of None \<Rightarrow> None
      | Some e \<Rightarrow>
          if e < 3 then Some (e + 1, KEsc)
          else (case sgr_numbers (drop 3 (take e bytes)) of None \<Rightarrow> Some (e + 1, KEsc)
            | Some (cb, column, row) \<Rightarrow>
                (case decode_mouse_cb (of_nat cb) (bytes ! e = 77) of None \<Rightarrow> Some (e + 1, KEsc)
                 | Some (kind, modifiers) \<Rightarrow>
                     Some (e + 1, KMouse \<lparr>mo_kind = kind, mo_column = column - 1, mo_row = row - 1,
                                          mo_modifiers = modifiers\<rparr>))))"

section \<open>Escape sequences\<close>

definition asc :: "string \<Rightarrow> byte list" where
  "asc s = map of_char s"

abbreviation esc :: "string \<Rightarrow> byte list" where
  "esc s \<equiv> 27 # asc s"

definition starts_with :: "'a list \<Rightarrow> 'a list \<Rightarrow> bool" where
  "starts_with pre xs \<longleftrightarrow> take (length pre) xs = pre"

definition csi_key :: "byte list \<Rightarrow> key option" where
  "csi_key seq =
     (if seq \<in> {esc ''[13;2u'', esc ''[13;2~'', esc ''[27;2;13~'', esc ''[13;3u'', esc ''[13;3~'', esc ''[27;3;13~''}
      then Some KShiftEnter
      else if seq = esc ''[1;3A'' then Some KAltUp
      else if seq = esc ''[1;3B'' then Some KAltDown
      else if seq \<in> {esc ''[1~'', esc ''[7~''} then Some KHome
      else if seq \<in> {esc ''[4~'', esc ''[8~''} then Some KEnd
      else if seq = esc ''[3~'' then Some KDelete
      else if seq = esc ''[5~'' then Some KPageUp
      else if seq = esc ''[6~'' then Some KPageDown
      else None)"

definition csi_end :: "byte \<Rightarrow> bool" where
  "csi_end b \<longleftrightarrow> b = 126 \<or> (65 \<le> b \<and> b \<le> 90) \<or> b = 117"

definition decode_csi :: "byte list \<Rightarrow> (nat \<times> key) option" where
  "decode_csi bytes =
     (if 6 \<le> length bytes \<and> starts_with (esc ''[200~'') bytes then
        (case find_subsequence (drop 6 bytes) (esc ''[201~'') of None \<Rightarrow> None
         | Some e \<Rightarrow> Some (6 + e + 6, KPaste (from_utf8_lossy (take e (drop 6 bytes)))))
      else if starts_with (esc ''[<'') bytes then decode_sgr_mouse bytes
      else (case position csi_end bytes of None \<Rightarrow> None
        | Some e \<Rightarrow>
            if e < 2 then None
            else (case csi_key (take (e + 1) bytes) of Some k \<Rightarrow> Some (e + 1, k) | None \<Rightarrow> Some (1, KEsc))))"

definition is_alphabetic_byte :: "byte \<Rightarrow> bool" where
  "is_alphabetic_byte b \<longleftrightarrow> is_ascii_alphabetic (unat b)"

definition cursor_key :: "byte list \<Rightarrow> key option" where
  "cursor_key seq =
     (if seq \<in> {esc ''[A'', esc ''OA''} then Some KUp
      else if seq \<in> {esc ''[B'', esc ''OB''} then Some KDown
      else if seq \<in> {esc ''[C'', esc ''OC''} then Some KRight
      else if seq \<in> {esc ''[D'', esc ''OD''} then Some KLeft
      else if seq \<in> {esc ''[H'', esc ''OH''} then Some KHome
      else if seq \<in> {esc ''[F'', esc ''OF''} then Some KEnd
      else if seq = esc ''[Z'' then Some KBackTab
      else None)"

definition decode_escape :: "byte list \<Rightarrow> (nat \<times> key) option" where
  "decode_escape bytes =
     (if length bytes = 1 then Some (1, KEsc)
      else if bytes ! 1 = 13 \<or> bytes ! 1 = 10 then Some (2, KShiftEnter)
      else if 4 \<le> length bytes \<and> take 4 bytes \<in> {27 # esc ''[A'', 27 # esc ''OA''} then Some (4, KAltUp)
      else if 4 \<le> length bytes \<and> take 4 bytes \<in> {27 # esc ''[B'', 27 # esc ''OB''} then Some (4, KAltDown)
      else if is_alphabetic_byte (bytes ! 1) then Some (2, KAlt (unat (bytes ! 1)))
      else if length bytes < 3 then None
      else (case cursor_key (take 3 bytes) of Some k \<Rightarrow> Some (3, k) | None \<Rightarrow> decode_csi bytes))"

definition decode_one :: "byte list \<Rightarrow> (nat \<times> key) option" where
  "decode_one bytes =
     (let b = unat (bytes ! 0) in
      if b = 13 then Some (1, KEnter)
      else if b = 10 then Some (1, KShiftEnter)
      else if b = 9 then Some (1, KTab)
      else if b = 127 \<or> b = 8 then Some (1, KBackspace)
      else if 1 \<le> b \<and> b \<le> 26 then Some (1, KCtrl (b - 1 + 97))
      else if b = 27 then decode_escape bytes
      else if b < 128 then Some (1, KChar b)
      else (case from_utf8 bytes of
          Some (c # _) \<Rightarrow> Some (utf8_width c, KChar c)
        | _ \<Rightarrow> None))"

section \<open>The decoder\<close>

text \<open>An event takes at least one byte and no more than there are.\<close>

lemma position_less: "position p xs = Some i \<Longrightarrow> i < length xs"
  by (induction xs arbitrary: i) (auto split: if_splits)

lemma find_subsequence_fits: "find_subsequence xs needle = Some i \<Longrightarrow> i + length needle \<le> length xs"
proof (induction xs arbitrary: i)
  case (Cons x xs)
  show ?case
  proof (cases "take (length needle) (x # xs) = needle")
    case True
    then have "length needle \<le> length (x # xs)" by (metis length_take min.cobounded1)
    then show ?thesis using Cons.prems True by simp
  next
    case False
    then show ?thesis using Cons by auto
  qed
qed (auto split: if_splits)

lemma decode_sgr_mouse_used: "decode_sgr_mouse bytes = Some (n, k) \<Longrightarrow> 0 < n \<and> n \<le> length bytes"
  by (auto simp: decode_sgr_mouse_def dest!: position_less split: option.splits if_splits prod.splits)

lemma decode_csi_used:
  assumes "decode_csi bytes = Some (n, k)" "bytes \<noteq> []"
  shows "0 < n \<and> n \<le> length bytes"
proof -
  have "n \<le> length bytes" if "find_subsequence (drop 6 bytes) (esc ''[201~'') = Some e" "n = 6 + e + 6" for e
    using find_subsequence_fits [OF that(1)] that(2) by (simp add: asc_def)
  then show ?thesis
    using assms
    by (auto simp: decode_csi_def dest: position_less decode_sgr_mouse_used split: option.splits if_splits)
qed

lemma decode_escape_used:
  assumes "decode_escape bytes = Some (n, k)" "bytes \<noteq> []"
  shows "0 < n \<and> n \<le> length bytes"
proof -
  have l: "1 \<le> length bytes" using assms(2) by (simp add: Suc_le_eq)
  note csi = decode_csi_used [OF _ assms(2)]
  consider "n \<in> {1, 2}" "n = 1 \<or> length bytes \<noteq> 1" | "n = 4" "4 \<le> length bytes" | "n = 3" "3 \<le> length bytes" | "decode_csi bytes = Some (n, k)"
    using assms(1) unfolding decode_escape_def by (simp split: if_split_asm option.split_asm)
  then show ?thesis using l csi by cases (simp_all, linarith)
qed

lemma from_utf8_head:
  assumes "from_utf8 bytes = Some (c # s)"
  shows "\<exists>n. utf8_step bytes = (Some c, n) \<and> from_utf8 (drop n bytes) = Some s"
  using assms by (subst (asm) from_utf8.simps) (auto split: if_splits prod.splits option.splits)

text \<open>The width of a decoded character is that of its bytes.\<close>

lemma utf8_step_some:
  assumes "utf8_step bytes = (Some c, n)" "bytes \<noteq> []"
  shows "n = utf8_width c \<and> n \<le> length bytes"
proof -
  have b: "unat (bytes ! i) < 256" for i using unsigned_less [of "bytes ! i"] by simp
  show ?thesis
    using assms b [of 0] b [of 1] b [of 2] b [of 3]
    by (auto simp: utf8_step_def Let_def byte_at_def continuation_def second_of_three_def second_of_four_def utf8_width_def Suc_le_eq
        split: if_splits)
qed

lemma decode_one_used:
  assumes "decode_one bytes = Some (n, k)" "bytes \<noteq> []"
  shows "0 < n \<and> n \<le> length bytes"
proof -
  have "0 < utf8_width c \<and> utf8_width c \<le> length bytes" if "from_utf8 bytes = Some (c # s)" for c s
    using from_utf8_head [OF that] utf8_step_some [OF _ assms(2)] by (auto simp: utf8_width_def)
  then show ?thesis
    using assms decode_escape_used [OF _ assms(2)]
    by (auto simp: decode_one_def Let_def Suc_le_eq split: option.splits list.splits if_splits)
qed

text \<open>\<open>InputDecoder\<close>: the pending bytes, and whether the last key was the leader Ctrl-X.\<close>

record input_decoder =
  id_pending :: "byte list"
  id_leader :: bool

definition apply_leader :: "bool \<Rightarrow> key \<Rightarrow> bool \<times> key option" where
  "apply_leader leader k =
     (if leader then
        (False, Some (case k of KChar ch \<Rightarrow> KCtrlSeq 120 ch | KCtrl ch \<Rightarrow> KCtrlSeq 120 ch | other \<Rightarrow> other))
      else if k = KCtrl 120 then (True, None)
      else (False, Some k))"

function push_loop :: "byte list \<Rightarrow> bool \<Rightarrow> key list \<Rightarrow> input_decoder \<times> key list" where
  "push_loop pending leader out =
     (if pending = [] then (\<lparr>id_pending = pending, id_leader = leader\<rparr>, out)
      else case decode_one pending of
          None \<Rightarrow> (\<lparr>id_pending = pending, id_leader = leader\<rparr>, out)
        | Some (used, k) \<Rightarrow>
            (case apply_leader leader k of (leader, r) \<Rightarrow>
               push_loop (drop used pending) leader (case r of None \<Rightarrow> out | Some k \<Rightarrow> out @ [k])))"
  by pat_completeness auto
termination
  by (relation "measure (\<lambda>(pending, _). length pending)") (auto dest: decode_one_used)

declare push_loop.simps [simp del]

definition push :: "input_decoder \<Rightarrow> byte list \<Rightarrow> input_decoder \<times> key list" where
  "push d bytes = push_loop (id_pending d @ bytes) (id_leader d) []"

definition new_decoder :: input_decoder where
  "new_decoder = \<lparr>id_pending = [], id_leader = False\<rparr>"

text \<open>The keys of a sequence of reads.\<close>

fun push_all :: "input_decoder \<Rightarrow> byte list list \<Rightarrow> input_decoder \<times> key list" where
  "push_all d [] = (d, [])"
| "push_all d (bytes # chunks) =
     (case push d bytes of (d, ks) \<Rightarrow> case push_all d chunks of (d, ks') \<Rightarrow> (d, ks @ ks'))"

section \<open>Typing\<close>

text \<open>A decoder waits when nothing can be read from what it has.\<close>

definition waiting :: "byte list \<Rightarrow> bool" where
  "waiting bytes \<longleftrightarrow> bytes = [] \<or> decode_one bytes = None"

lemma push_loop_wait: "waiting p \<Longrightarrow> push_loop p l out = (\<lparr>id_pending = p, id_leader = l\<rparr>, out)"
  by (subst push_loop.simps) (auto simp: waiting_def)

lemma push_loop_key:
  "bytes \<noteq> [] \<Longrightarrow> decode_one bytes = Some (n, KChar c) \<Longrightarrow> push_loop bytes False out = push_loop (drop n bytes) False (out @ [KChar c])"
  by (subst push_loop.simps) (simp add: apply_leader_def)

definition typable :: "uchar \<Rightarrow> bool" where
  "typable c \<longleftrightarrow> is_scalar c \<and> 32 \<le> c \<and> c \<noteq> 127"

lemma encode_cons: "\<exists>b bs. encode_utf8 c = b # bs"
  by (simp add: encode_utf8_def)

lemma encode_first: "128 \<le> c \<Longrightarrow> is_scalar c \<Longrightarrow> encode_utf8 c = b # bs \<Longrightarrow> 128 \<le> unat b"
  using utf8_step_encode [of c "[]"] by (auto simp: utf8_step_def Let_def not_less [symmetric] split: if_splits)

text \<open>The first character of a text, of which the front \<open>p\<close> has arrived.\<close>

lemma decode_typed:
  assumes "typable c" "p @ r = encode_utf8 c @ q" "p \<noteq> []"
  shows "(decode_one p = None \<and> (length p < utf8_width c \<or> from_utf8 p = None))
    \<or> (decode_one p = Some (utf8_width c, KChar c) \<and> utf8_width c \<le> length p)"
proof (cases "c < 128")
  case True
  then have "p ! 0 = of_nat c" "utf8_width c = 1"
    using assms(2,3) by (cases p, auto simp: encode_utf8_def utf8_width_def)
  then show ?thesis
    using assms(1,3) True by (auto simp: typable_def decode_one_def unat_byte Suc_le_eq)
next
  case False
  obtain b bs where e: "encode_utf8 c = b # bs" using encode_cons by blast
  then have "p ! 0 = b" using assms(2,3) by (cases p) auto
  then have big: "128 \<le> unat (p ! 0)" using encode_first [of c b bs] e False assms(1) by (simp add: typable_def)
  have sc: "is_scalar c" using assms(1) by (simp add: typable_def)
  show ?thesis
  proof (cases "utf8_width c \<le> length p")
    case True
    then have "p = encode_utf8 c @ drop (utf8_width c) p"
      using assms(2) by (metis append_eq_append_conv_if length_encode append_take_drop_id)
    then have "from_utf8 p = map_option (Cons c) (from_utf8 (drop (utf8_width c) p))"
      using from_utf8_encode [OF sc] by metis
    then show ?thesis using big True by (cases "from_utf8 (drop (utf8_width c) p)") (auto simp: decode_one_def Let_def)
  next
    case cut: False
    then have "p = take (length p) (encode_utf8 c)"
      using assms(2) by (metis append_eq_append_conv_if length_encode less_or_eq_imp_le not_le take_all_iff append_eq_conv_conj)
    then have "fst (utf8_step p) = None"
      using utf8_step_cut [OF sc, of "length p"] cut assms(3) by (metis length_greater_0_conv not_le)
    then have "from_utf8 p = None" using assms(3) by (subst from_utf8.simps) (auto split: prod.splits option.splits)
    then show ?thesis using big cut by (auto simp: decode_one_def Let_def)
  qed
qed

lemma push_typed:
  assumes "list_all typable u" "p @ r = bytes_of u"
  shows "\<exists>v w q. u = v @ w \<and> push_loop p False out = (\<lparr>id_pending = q, id_leader = False\<rparr>, out @ map KChar v)
    \<and> q @ r = bytes_of w \<and> waiting q"
  using assms
proof (induction u arbitrary: p out)
  case Nil
  then show ?case by (auto simp: bytes_of_def push_loop_wait waiting_def)
next
  case (Cons c u)
  show ?case
  proof (cases "waiting p")
    case True
    then show ?thesis
      using Cons.prems push_loop_wait [OF True, of False out]
      by (intro exI [where x = "[]"] exI [where x = "c # u"] exI [where x = p]) auto
  next
    case False
    then have p: "p \<noteq> []" "decode_one p \<noteq> None" by (auto simp: waiting_def)
    have t: "typable c" "p @ r = encode_utf8 c @ bytes_of u" using Cons.prems by (auto simp: bytes_of_def)
    from decode_typed [OF t p(1)] p(2)
    have d: "decode_one p = Some (utf8_width c, KChar c)" "utf8_width c \<le> length p" by auto
    have "drop (utf8_width c) p @ r = bytes_of u"
      using t(2) d(2) by (metis append_eq_append_conv_if append_eq_conv_conj drop_append length_encode diff_is_0_eq drop0)
    with Cons.IH [of "drop (utf8_width c) p" "out @ [KChar c]"] Cons.prems(1)
    obtain v w q where "u = v @ w" "push_loop (drop (utf8_width c) p) False (out @ [KChar c]) = (\<lparr>id_pending = q, id_leader = False\<rparr>, (out @ [KChar c]) @ map KChar v)"
      "q @ r = bytes_of w" "waiting q" by auto
    then show ?thesis
      using push_loop_key [OF p(1) d(1), of out] by (intro exI [where x = "c # v"] exI [where x = w] exI [where x = q]) simp
  qed
qed

lemma bytes_of_append: "bytes_of (s @ t) = bytes_of s @ bytes_of t"
  by (simp add: bytes_of_def)

lemma waiting_end:
  assumes "list_all typable w" "waiting (bytes_of w)"
  shows "w = []"
proof (rule ccontr)
  assume "w \<noteq> []"
  then obtain c u where w: "w = c # u" by (cases w) auto
  have p: "bytes_of w \<noteq> []" using encode_cons [of c] by (auto simp: w bytes_of_def)
  have "from_utf8 (bytes_of w) \<noteq> None"
    using from_utf8_bytes [of w] assms(1) by (simp add: list_all_iff typable_def)
  moreover have "utf8_width c \<le> length (bytes_of w)" by (simp add: w bytes_of_def length_encode)
  ultimately show False
    using decode_typed [of c "bytes_of w" "[]" "bytes_of u"] assms p by (auto simp: w bytes_of_def waiting_def)
qed

lemma push_all_typed:
  assumes "list_all typable u" "p @ concat chunks = bytes_of u" "waiting p"
  shows "push_all \<lparr>id_pending = p, id_leader = False\<rparr> chunks = (\<lparr>id_pending = [], id_leader = False\<rparr>, map KChar u)"
  using assms
proof (induction chunks arbitrary: p u)
  case Nil
  then have "u = []" using waiting_end [of u] by simp
  then show ?case using Nil by (simp add: bytes_of_def)
next
  case (Cons bytes chunks)
  from Cons.prems(2) have "(p @ bytes) @ concat chunks = bytes_of u" by simp
  from push_typed [OF Cons.prems(1) this, of "[]"] obtain v w q where
    vw: "u = v @ w" "push_loop (p @ bytes) False [] = (\<lparr>id_pending = q, id_leader = False\<rparr>, map KChar v)"
      "q @ concat chunks = bytes_of w" "waiting q" by auto
  then have "push_all \<lparr>id_pending = q, id_leader = False\<rparr> chunks = (\<lparr>id_pending = [], id_leader = False\<rparr>, map KChar w)"
    using Cons.IH [of w q] Cons.prems(1) by simp
  then show ?case using vw by (simp add: push_def)
qed

text \<open>
  C28: Text that is typed or pasted plainly arrives as its characters, however the network cuts
  its bytes into reads, even in the middle of a character.
\<close>

theorem typed_text:
  assumes "list_all typable u" "concat chunks = bytes_of u"
  shows "push_all new_decoder chunks = (new_decoder, map KChar u)"
  using push_all_typed [of u "[]" chunks] assms by (simp add: new_decoder_def waiting_def)

theorem typed_text_witness:
  "push_all new_decoder [[97, 195], [169, 226, 130], [172]] = (new_decoder, [KChar 97, KChar 233, KChar 8364])"
proof -
  have "list_all typable [97, 233, 8364]" by (simp add: typable_def is_scalar_def)
  moreover have "concat [[97, 195], [169, 226, 130], [172]] = bytes_of [97, 233, 8364]"
    by (simp add: bytes_of_def encode_utf8_def)
  ultimately show ?thesis using typed_text by fastforce
qed

lemma from_utf8_bad: "from_utf8 (255 # bytes) = None"
  by (subst from_utf8.simps) (simp add: utf8_step_def)

lemma decode_one_bad: "decode_one (255 # bytes) = None"
  by (simp add: decode_one_def from_utf8_bad)

text \<open>
  C29: One byte that is not UTF-8 stops the decoder for good: nothing that arrives after it is
  ever read, not even Ctrl-C.
\<close>

theorem decoder_stuck: "snd (push_all (fst (push new_decoder [255])) chunks) = []"
proof -
  have "push \<lparr>id_pending = 255 # p, id_leader = False\<rparr> bytes = (\<lparr>id_pending = 255 # p @ bytes, id_leader = False\<rparr>, [])" for p bytes
    by (simp add: push_def push_loop_wait waiting_def decode_one_bad)
  then have "snd (push_all \<lparr>id_pending = 255 # p, id_leader = False\<rparr> chunks) = []" for p
    by (induction chunks arbitrary: p) simp_all
  then show ?thesis by (simp add: push_def new_decoder_def push_loop_wait waiting_def decode_one_bad)
qed

end
