(* ===== verification/Guard.thy ===== *)
theory Guard
  imports Commands Input
begin

text \<open>
  What a node lets through to the database: the classification of an SQL statement by its words
  (\<open>db/mutation.rs\<close>) and the rule that only a node with the master flag may run one that writes
  (\<open>db/executor.rs\<close>).
\<close>

section \<open>Classifying a statement\<close>

datatype query_mutation =
    QInsert str
  | QUpdate str
  | QDelete str
  | QReplace str
  | QCreate str
  | QAlter str
  | QDrop str
  | QVacuum
  | QTruncate str
  | QAttach
  | QDetach
  | QPragma
  | QReadOnly

definition normalize_sql :: "str \<Rightarrow> str" where
  "normalize_sql sql = ascii_lowercase (join_str (lit '' '') (split_whitespace sql))"

definition is_ascii_whitespace :: "uchar \<Rightarrow> bool" where
  "is_ascii_whitespace c \<longleftrightarrow> c = 32 \<or> c = 9 \<or> c = 10 \<or> c = 12 \<or> c = 13"

text \<open>
  The text after the closing parenthesis of the last common table expression, found by counting
  parentheses; the first argument is the whole text, which is the answer when there is none.
\<close>

function strip_with_clause_prefix :: "str \<Rightarrow> nat \<Rightarrow> str \<Rightarrow> str" where
  "strip_with_clause_prefix sql depth [] = sql"
| "strip_with_clause_prefix sql depth (c # cs) =
     (if c = 40 then strip_with_clause_prefix sql (depth + 1) cs
      else if c = 41 then
        (if depth - 1 = 0 then
           let rest = dropWhile is_ascii_whitespace cs in
           if rest \<noteq> [] \<and> hd rest = 44 then strip_with_clause_prefix sql 0 rest
           else if rest \<noteq> [] then rest
           else strip_with_clause_prefix sql 0 cs
         else strip_with_clause_prefix sql (depth - 1) cs)
      else strip_with_clause_prefix sql depth cs)"
  by pat_completeness auto
termination
  by (relation "measure (\<lambda>(_, _, s). length s)") (auto simp: less_Suc_eq_le length_dropWhile_le)

definition parse_insert :: "str list \<Rightarrow> query_mutation option" where
  "parse_insert tokens =
     (case (case tokens of [] \<Rightarrow> None | t # ts \<Rightarrow> if t = lit ''or'' then (case ts of [] \<Rightarrow> None | u # us \<Rightarrow> Some (u, us)) else Some (t, ts)) of
        None \<Rightarrow> None
      | Some (t, ts) \<Rightarrow>
          if t = lit ''into'' then (case ts of [] \<Rightarrow> None | u # us \<Rightarrow> Some (QInsert u)) else Some (QInsert t))"

definition parse_update :: "str list \<Rightarrow> query_mutation option" where
  "parse_update tokens = (case tokens of [] \<Rightarrow> None | t # ts \<Rightarrow> Some (QUpdate t))"

definition as_replace :: "query_mutation \<Rightarrow> query_mutation" where
  "as_replace m = (case m of QInsert t \<Rightarrow> QReplace t | _ \<Rightarrow> m)"

definition strip_schema_qualifier :: "str \<Rightarrow> str \<Rightarrow> str" where
  "strip_schema_qualifier token v =
     (if token = lit ''attach'' \<or> token = lit ''detach'' then v
      else trim_matches (\<lambda>c. c = 34 \<or> c = 96 \<or> c = 39) v)"

definition parse_schema_mutation :: "str \<Rightarrow> str list \<Rightarrow> query_mutation option" where
  "parse_schema_mutation token tokens =
     (case tokens of [] \<Rightarrow> None
      | t # ts \<Rightarrow>
          let target = strip_schema_qualifier token t in
          Some (if token = lit ''create'' then QCreate target
                else if token = lit ''alter'' then QAlter target
                else if token = lit ''drop'' then QDrop target
                else if token = lit ''truncate'' then QTruncate target
                else if token = lit ''attach'' then QAttach
                else if token = lit ''detach'' then QDetach
                else QCreate target))"

definition statement_of :: "str \<Rightarrow> str" where
  "statement_of sql =
     (let normalized = normalize_sql sql in
      if starts_with (lit ''with '') normalized then strip_with_clause_prefix normalized 0 normalized else normalized)"

definition query_mutation :: "str \<Rightarrow> query_mutation option" where
  "query_mutation sql =
     (let statement = statement_of sql in
      case split_whitespace statement of
        [] \<Rightarrow> None
      | token # tokens \<Rightarrow>
          if token = lit ''insert'' then parse_insert tokens
          else if token \<in> set (map lit [''select'', ''explain'']) then Some QReadOnly
          else if token = lit ''or'' then
            (case tokens of [] \<Rightarrow> None
             | t # ts \<Rightarrow>
                 if t = lit ''replace'' then map_option as_replace (parse_insert ts)
                 else if t \<in> set (map lit [''ignore'', ''rollback'', ''abort'', ''fail'']) then parse_insert ts
                 else if t = lit ''update'' then parse_update ts
                 else None)
          else if token = lit ''update'' then parse_update tokens
          else if token = lit ''delete'' then
            (case tokens of t # table # ts \<Rightarrow> if t = lit ''from'' then Some (QDelete table) else None | _ \<Rightarrow> None)
          else if token = lit ''replace'' then map_option as_replace (parse_insert tokens)
          else if token \<in> set (map lit [''create'', ''alter'', ''drop'', ''truncate'', ''attach'', ''detach''])
            then parse_schema_mutation token tokens
          else if token = lit ''vacuum'' then Some QVacuum
          else if token \<in> set (map lit [''begin'', ''commit'', ''rollback'', ''savepoint'', ''release'']) then Some QReadOnly
          else if token = lit ''pragma'' then
            Some (if find_subsequence statement (lit '' = '') \<noteq> None then QPragma else QReadOnly)
          else None)"

definition query_is_write :: "str \<Rightarrow> bool" where
  "query_is_write sql \<longleftrightarrow> query_mutation sql \<noteq> Some QReadOnly"

section \<open>The guard\<close>

datatype db_role = Master | Standby

definition allow_standby_writes :: "db_role \<Rightarrow> bool" where
  "allow_standby_writes r \<longleftrightarrow> r = Master"

text \<open>A statement as the code builds it: its text, its bound values and whether it skips the guard.\<close>

datatype sql_value = SqlNull | SqlInteger int | SqlText str

record query =
  qy_sql :: str
  qy_params :: "sql_value list"
  qy_bypass :: bool

definition require_master_for_write :: "db_role \<Rightarrow> bool \<Rightarrow> query \<Rightarrow> bool" where
  "require_master_for_write r standby_writes q \<longleftrightarrow>
     qy_bypass q \<or> \<not> (\<not> standby_writes \<and> \<not> allow_standby_writes r \<and> query_is_write (qy_sql q))"

text \<open>What may run: on the database itself, in a read session, and inside a transaction.\<close>

definition database_runs :: "bool \<Rightarrow> query \<Rightarrow> bool" where
  "database_runs is_master q = require_master_for_write (if is_master then Master else Standby) False q"

definition read_session_runs :: "query \<Rightarrow> bool" where
  "read_session_runs q = require_master_for_write Standby False q"

definition transaction_runs :: "bool \<Rightarrow> bool \<Rightarrow> query \<Rightarrow> bool" where
  "transaction_runs bypass is_master q =
     (let q = (if bypass then q\<lparr>qy_bypass := True\<rparr> else q)
      in require_master_for_write (if is_master then Master else Standby) bypass q)"

text \<open>Only these first words pass as reading.\<close>

definition reading_words :: "str list" where
  "reading_words = map lit [''select'', ''explain'', ''begin'', ''commit'', ''rollback'', ''savepoint'', ''release'', ''pragma'']"

lemma parse_never_reads [simp]:
  "parse_insert ts \<noteq> Some QReadOnly" "parse_update ts \<noteq> Some QReadOnly" "parse_schema_mutation t ts \<noteq> Some QReadOnly"
  "map_option as_replace (parse_insert ts) \<noteq> Some QReadOnly"
  by (auto simp: parse_insert_def parse_update_def parse_schema_mutation_def as_replace_def Let_def
      split: list.splits option.splits if_splits query_mutation.splits)

lemma as_replace_never_reads: "parse_insert ts = Some m \<Longrightarrow> as_replace m \<noteq> QReadOnly"
  by (auto simp: parse_insert_def as_replace_def split: list.splits option.splits if_splits)

lemma read_only_first_word:
  assumes "\<not> query_is_write sql"
  obtains w ws where "split_whitespace (statement_of sql) = w # ws" "w \<in> set reading_words"
proof (cases "split_whitespace (statement_of sql)")
  case Nil
  with assms show ?thesis by (simp add: query_is_write_def query_mutation_def)
next
  case (Cons w ws)
  moreover have "w \<in> set reading_words"
    using assms Cons
    by (auto simp: query_is_write_def query_mutation_def Let_def reading_words_def as_replace_never_reads split: if_splits list.splits)
  ultimately show ?thesis by (rule that)
qed

text \<open>
  A writing statement of the source is recognised by its first word, whatever follows: one more
  table or column does not let it through.
\<close>

lemma writes_guarded:
  assumes "split_whitespace (statement_of (qy_sql q)) = w # ws" "w \<notin> set reading_words" "\<not> qy_bypass q"
  shows "\<not> database_runs False q" "\<not> read_session_runs q" "\<not> transaction_runs False False q"
proof -
  have "query_is_write (qy_sql q)"
    using assms(1,2) by (metis list.inject read_only_first_word)
  with assms(3) show "\<not> database_runs False q" "\<not> read_session_runs q" "\<not> transaction_runs False False q"
    by (simp_all add: database_runs_def read_session_runs_def transaction_runs_def require_master_for_write_def
        allow_standby_writes_def)
qed

lemma demo_insert:
  "normalize_sql (lit ''INSERT INTO comments (id, body) VALUES (?, ?)'') = lit ''insert into comments (id, body) values (?, ?)''"
  by (simp add: normalize_sql_def lit_def split_whitespace.simps word_head_def is_whitespace_def ascii_lowercase_def
     to_ascii_lower_def is_ascii_upper_def)

end
