(* ===== verification/Crypt.thy ===== *)
theory Crypt
  imports Guard Utf8 Store
begin

text \<open>
  Encryption of content columns: the envelope of a value (\<open>db/encryption.rs\<close>), which bound values of a
  statement are sealed (\<open>db/query_encryption.rs\<close>) and how a value of a row is opened
  (\<open>db/executor.rs\<close>). The cipher and base64 are parameters, with their laws as \<open>crypto_ok\<close>.
\<close>

section \<open>The envelope\<close>

record crypto =
  cr_b64_encode :: "byte list \<Rightarrow> str"
  cr_b64_decode :: "str \<Rightarrow> byte list option"
  cr_encrypt :: "byte list \<Rightarrow> byte list \<Rightarrow> byte list \<Rightarrow> byte list option"
  cr_decrypt :: "byte list \<Rightarrow> byte list \<Rightarrow> byte list \<Rightarrow> byte list option"

text \<open>
  What is relied on: base64 is undone by decoding and has no colon, and an authenticated cipher opens
  what it sealed with the same nonce and associated data, and refuses other associated data.
\<close>

definition crypto_ok :: "crypto \<Rightarrow> bool" where
  "crypto_ok K \<longleftrightarrow> (\<forall>b. cr_b64_decode K (cr_b64_encode K b) = Some b \<and> 58 \<notin> set (cr_b64_encode K b))
     \<and> (\<forall>n a m c. cr_encrypt K n a m = Some c \<longrightarrow> (\<forall>a'. cr_decrypt K n a' c = (if a' = a then Some m else None)))"

definition envelope_prefix :: str where
  "envelope_prefix = lit ''sshoosh:v1:xchacha20poly1305:''"

definition associated_data :: "str \<Rightarrow> str \<Rightarrow> str \<Rightarrow> str" where
  "associated_data table row_id column = table @ lit '':'' @ row_id @ lit '':'' @ column"

text \<open>A value that looks like an envelope is left as it is; the nonce is drawn by the caller.\<close>

definition encrypt :: "crypto \<Rightarrow> byte list \<Rightarrow> str \<Rightarrow> str \<Rightarrow> str \<Rightarrow> str \<Rightarrow> err + str" where
  "encrypt K nonce table row_id column plaintext =
     (if starts_with envelope_prefix plaintext then Inr plaintext
      else case cr_encrypt K nonce (bytes_of (associated_data table row_id column)) (bytes_of plaintext) of
          None \<Rightarrow> Inl (Msg (lit ''aead''))
        | Some ciphertext \<Rightarrow> Inr (envelope_prefix @ cr_b64_encode K nonce @ lit '':'' @ cr_b64_encode K ciphertext))"

definition invalid_envelope :: err where
  "invalid_envelope = Msg (lit ''invalid encryption envelope'')"

definition decrypt :: "crypto \<Rightarrow> str \<Rightarrow> str \<Rightarrow> str \<Rightarrow> str \<Rightarrow> err + str" where
  "decrypt K table row_id column envelope =
     (if \<not> starts_with envelope_prefix envelope then Inl invalid_envelope
      else case split_once 58 (drop (length envelope_prefix) envelope) of
          None \<Rightarrow> Inl invalid_envelope
        | Some (nonce, ciphertext) \<Rightarrow>
            (case (cr_b64_decode K nonce, cr_b64_decode K ciphertext) of
               (Some n, Some c) \<Rightarrow>
                 (case cr_decrypt K n (bytes_of (associated_data table row_id column)) c of
                    None \<Rightarrow> Inl (Msg (lit ''aead''))
                  | Some m \<Rightarrow> (case from_utf8 m of None \<Rightarrow> Inl (Msg (lit ''utf8'')) | Some s \<Rightarrow> Inr s))
             | _ \<Rightarrow> Inl (Msg (lit ''base64''))))"

section \<open>Sealing the values of a statement\<close>

definition value_as_str :: "sql_value \<Rightarrow> str option" where
  "value_as_str v = (case v of SqlText s \<Rightarrow> Some s | SqlInteger i \<Rightarrow> Some (show_int i) | SqlNull \<Rightarrow> None)"

definition get_param :: "nat \<Rightarrow> 'a list \<Rightarrow> 'a option" where
  "get_param i xs = (if i < length xs then Some (xs ! i) else None)"

definition encrypt_param :: "crypto \<Rightarrow> byte list \<Rightarrow> nat \<Rightarrow> str \<Rightarrow> nat \<Rightarrow> str \<Rightarrow> sql_value list \<Rightarrow> err + sql_value list" where
  "encrypt_param K nonce value_idx table id_idx column params =
     (case Option.bind (get_param id_idx params) value_as_str of
        None \<Rightarrow> Inr params
      | Some row_id \<Rightarrow>
          (case get_param value_idx params of
             Some (SqlText v) \<Rightarrow>
               (case encrypt K nonce table row_id column v of
                  Inl e \<Rightarrow> Inl e
                | Inr sealed \<Rightarrow> Inr (params[value_idx := SqlText sealed]))
           | _ \<Rightarrow> Inr params))"

text \<open>\<open>str::find\<close> and \<open>str::rfind\<close> of a needle, \<open>matches('?').count()\<close> and \<open>split(',')\<close>.\<close>

definition rfind :: "str \<Rightarrow> str \<Rightarrow> nat option" where
  "rfind s needle = map_option (\<lambda>i. length s - i - length needle) (find_subsequence (rev s) (rev needle))"

definition question_marks :: "str \<Rightarrow> nat" where
  "question_marks s = count_list s 63"

fun split_char :: "uchar \<Rightarrow> str \<Rightarrow> str list" where
  "split_char ch [] = [[]]"
| "split_char ch (c # cs) = (if c = ch then [] # split_char ch cs else (case split_char ch cs of [] \<Rightarrow> [[c]] | w # ws \<Rightarrow> (c # w) # ws))"

text \<open>One assignment of the \<open>SET\<close> clause: the index of the column's parameter, and the parameters so far.\<close>

definition scan_assignment :: "str \<Rightarrow> str \<Rightarrow> nat option \<times> nat \<Rightarrow> nat option \<times> nat" where
  "scan_assignment target_column assignment = (\<lambda>(payload_idx, before).
     (if trim (takeWhile (\<lambda>c. c \<noteq> 61) assignment) = target_column then Some before else payload_idx,
      before + question_marks assignment))"

definition where_has_id :: "str \<Rightarrow> bool" where
  "where_has_id where_clause \<longleftrightarrow>
     (\<exists>(l, r)\<in>set (zip (split_whitespace where_clause) (tl (split_whitespace where_clause))). l = lit ''id'' \<and> starts_with (lit ''='') r)"

text \<open>A slice whose end lies before its start panics.\<close>

definition locate_update_indices :: "str \<Rightarrow> str \<Rightarrow> err + nat option \<times> nat option" where
  "locate_update_indices sql target_column =
     (case find_subsequence sql (lit '' set '') of None \<Rightarrow> Inr (None, None)
      | Some set_start \<Rightarrow>
     (case rfind sql (lit '' where '') of None \<Rightarrow> Inr (None, None)
      | Some where_start \<Rightarrow>
     if where_start < set_start + 5 then Inl Panic
     else
       let set_clause = drop (set_start + 5) (take where_start sql);
           where_clause = drop (where_start + 7) sql;
           (payload_idx, set_param_count) = fold (scan_assignment target_column) (split_char 44 set_clause) (None, 0)
       in if payload_idx = None then Inr (None, None)
          else Inr (if where_has_id where_clause then Some set_param_count else None, payload_idx)))"

definition encrypt_named_update_column :: "crypto \<Rightarrow> byte list \<Rightarrow> str \<Rightarrow> str \<Rightarrow> str \<Rightarrow> sql_value list \<Rightarrow> err + sql_value list" where
  "encrypt_named_update_column K nonce sql table column params =
     (let normalized = normalize_sql sql in
      if query_mutation normalized \<noteq> Some (QUpdate table) then Inr params
      else case locate_update_indices normalized column of
          Inl e \<Rightarrow> Inl e
        | Inr (Some id_idx, Some value_idx) \<Rightarrow> encrypt_param K nonce value_idx table id_idx column params
        | Inr _ \<Rightarrow> Inr params)"

definition and_seal :: "(sql_value list \<Rightarrow> err + sql_value list) \<Rightarrow> (sql_value list \<Rightarrow> err + sql_value list) \<Rightarrow> sql_value list \<Rightarrow> err + sql_value list" where
  "and_seal f g params = (case f params of Inl e \<Rightarrow> Inl e | Inr params \<Rightarrow> g params)"

text \<open>
  The columns of each table; two sealed values of a statement take two nonces. The branch for
  \<open>webhook_jobs\<close>, a table that no migration makes and no statement names, is left out.
\<close>

definition encrypt_query_params :: "crypto option \<Rightarrow> byte list \<times> byte list \<Rightarrow> str \<Rightarrow> sql_value list \<Rightarrow> err + sql_value list" where
  "encrypt_query_params encryption nonces sql params =
     (case encryption of None \<Rightarrow> Inr params
      | Some K \<Rightarrow>
          let n1 = fst nonces; n2 = snd nonces in
          (case query_mutation sql of
             Some (QInsert table) \<Rightarrow>
               if table = lit ''threads'' then
                 and_seal (encrypt_param K n1 3 (lit ''threads'') 0 (lit ''title''))
                   (encrypt_param K n2 4 (lit ''threads'') 0 (lit ''body'')) params
               else if table = lit ''comments'' then encrypt_param K n1 5 (lit ''comments'') 0 (lit ''body'') params
               else if table = lit ''conversation_messages''
                 then encrypt_param K n1 4 (lit ''conversation_messages'') 0 (lit ''body'') params
               else if table = lit ''notifications'' then
                 and_seal (encrypt_param K n1 9 (lit ''notifications'') 0 (lit ''title''))
                   (encrypt_param K n2 10 (lit ''notifications'') 0 (lit ''body'')) params
               else Inr params
           | Some (QUpdate table) \<Rightarrow>
               if table = lit ''threads'' then
                 and_seal (encrypt_named_update_column K n1 sql (lit ''threads'') (lit ''title''))
                   (encrypt_named_update_column K n2 sql (lit ''threads'') (lit ''body'')) params
               else if table = lit ''comments'' then encrypt_named_update_column K n1 sql (lit ''comments'') (lit ''body'') params
               else if table = lit ''conversation_messages''
                 then encrypt_named_update_column K n1 sql (lit ''conversation_messages'') (lit ''body'') params
               else Inr params
           | _ \<Rightarrow> Inr params))"

section \<open>Opening the values of a row\<close>

definition encryption_tables_for_column :: "str \<Rightarrow> str list" where
  "encryption_tables_for_column column =
     map lit (if column = lit ''title'' then [''threads'', ''notifications'']
       else if column = lit ''body'' then [''threads'', ''comments'', ''conversation_messages'', ''notifications'']
       else if column = lit ''payload_json'' then [''webhook_jobs'']
       else [''threads'', ''comments'', ''conversation_messages'', ''notifications'', ''webhook_jobs''])"

text \<open>
  A row: its values, the names of its columns, which the code writes in lower case, and the first
  parameter of the query when it asks for \<open>id = ?\<close>. A name that occurs twice means its last column.
\<close>

record db_row =
  dr_values :: "sql_value list"
  dr_names :: "str list"
  dr_row_id_hint :: "str option"

definition column_index :: "str \<Rightarrow> db_row \<Rightarrow> nat option" where
  "column_index name row =
     (case filter (\<lambda>i. dr_names row ! i = name) [0..<length (dr_names row)] of [] \<Rightarrow> None | is \<Rightarrow> Some (last is))"

definition row_id_of :: "db_row \<Rightarrow> str" where
  "row_id_of row =
     (case Option.bind (Option.bind (column_index (lit ''id'') row) (\<lambda>i. get_param i (dr_values row))) value_as_str of
        Some s \<Rightarrow> s
      | None \<Rightarrow> (case dr_row_id_hint row of Some s \<Rightarrow> s | None \<Rightarrow> []))"

definition column_of :: "nat \<Rightarrow> db_row \<Rightarrow> str" where
  "column_of idx row =
     (case get_param idx (dr_names row) of None \<Rightarrow> []
      | Some name \<Rightarrow> if column_index name row = Some idx then name else [])"

fun first_opened :: "crypto \<Rightarrow> str \<Rightarrow> str \<Rightarrow> str \<Rightarrow> str list \<Rightarrow> str option" where
  "first_opened K row_id column text [] = None"
| "first_opened K row_id column text (table # tables) =
     (case decrypt K table row_id column text of Inr plain \<Rightarrow> Some plain | Inl _ \<Rightarrow> first_opened K row_id column text tables)"

definition no_key_error :: err where
  "no_key_error = Msg (lit ''encrypted content exists but SSHOOSH_ENCRYPTION_KEY is not configured'')"

definition cannot_open :: err where
  "cannot_open = Msg (lit ''failed to decrypt encrypted database content; check SSHOOSH_ENCRYPTION_KEY'')"

definition decrypt_value :: "crypto option \<Rightarrow> db_row \<Rightarrow> nat \<Rightarrow> sql_value \<Rightarrow> err + sql_value" where
  "decrypt_value encryption row idx v =
     (case v of
        SqlText text \<Rightarrow>
          if \<not> starts_with envelope_prefix text then Inr (SqlText text)
          else (case encryption of
              None \<Rightarrow> Inl no_key_error
            | Some K \<Rightarrow>
                (case first_opened K (row_id_of row) (column_of idx row) text (encryption_tables_for_column (column_of idx row)) of
                   Some plain \<Rightarrow> Inr (SqlText plain)
                 | None \<Rightarrow> Inl cannot_open))
      | v \<Rightarrow> Inr v)"

definition try_get_idx :: "crypto option \<Rightarrow> nat \<Rightarrow> db_row \<Rightarrow> err + sql_value" where
  "try_get_idx encryption idx row =
     (case get_param idx (dr_values row) of
        None \<Rightarrow> Inl (Msg (lit ''column index out of range''))
      | Some v \<Rightarrow> decrypt_value encryption row idx v)"


section \<open>The statements that write content\<close>

text \<open>As the code has them, up to the white space between words, which normalisation collapses.\<close>

definition create_thread_sql :: str where
  "create_thread_sql = lit ''INSERT INTO threads (id, channel_id, creator_account_id, title, name_key, body, last_activity_at, created_at, updated_at) VALUES (?, ?, ?, ?, ?, ?, ?, ?, ?)''"

definition add_comment_sql :: str where
  "add_comment_sql = lit ''INSERT INTO comments (id, thread_id, channel_id, author_account_id, obj_index, body, created_at, updated_at) VALUES (?, ?, ?, ?, ?, ?, ?, ?)''"

definition send_dm_sql :: str where
  "send_dm_sql = lit ''INSERT INTO conversation_messages (id, conversation_id, author_account_id, obj_index, body, created_at, updated_at) VALUES (?, ?, ?, ?, ?, ?, ?)''"

definition edit_thread_sql :: str where
  "edit_thread_sql = lit ''UPDATE threads SET title = ?, name_key = ?, body = ?, updated_at = ?, edited_at = ? WHERE id = ?''"

definition update_comment_sql :: str where
  "update_comment_sql = lit ''UPDATE comments SET body = ?, updated_at = ?, edited_at = ? WHERE id = ?''"

definition update_dm_sql :: str where
  "update_dm_sql = lit ''UPDATE conversation_messages SET body = ?, updated_at = ?, edited_at = ? WHERE id = ?''"

lemmas sql_text = normalize_sql_def lit_def split_whitespace.simps word_head_def is_whitespace_def ascii_lowercase_def
  to_ascii_lower_def is_ascii_upper_def

lemma content_inserts:
  "query_mutation create_thread_sql = Some (QInsert (lit ''threads''))"
  "query_mutation add_comment_sql = Some (QInsert (lit ''comments''))"
  "query_mutation send_dm_sql = Some (QInsert (lit ''conversation_messages''))"
  by (simp_all add: create_thread_sql_def add_comment_sql_def send_dm_sql_def query_mutation_def statement_of_def
      starts_with_def parse_insert_def Let_def sql_text)

lemma normal_updates:
  "normalize_sql edit_thread_sql = lit ''update threads set title = ?, name_key = ?, body = ?, updated_at = ?, edited_at = ? where id = ?''"
  "normalize_sql update_comment_sql = lit ''update comments set body = ?, updated_at = ?, edited_at = ? where id = ?''"
  "normalize_sql update_dm_sql = lit ''update conversation_messages set body = ?, updated_at = ?, edited_at = ? where id = ?''"
  by (simp_all add: edit_thread_sql_def update_comment_sql_def update_dm_sql_def sql_text)


lemma normal_again:
  "normalize_sql (lit ''update threads set title = ?, name_key = ?, body = ?, updated_at = ?, edited_at = ? where id = ?'')
    = lit ''update threads set title = ?, name_key = ?, body = ?, updated_at = ?, edited_at = ? where id = ?''"
  "normalize_sql (lit ''update comments set body = ?, updated_at = ?, edited_at = ? where id = ?'')
    = lit ''update comments set body = ?, updated_at = ?, edited_at = ? where id = ?''"
  "normalize_sql (lit ''update conversation_messages set body = ?, updated_at = ?, edited_at = ? where id = ?'')
    = lit ''update conversation_messages set body = ?, updated_at = ?, edited_at = ? where id = ?''"
  by (simp_all add: sql_text)

lemma update_words:
  "split_whitespace (lit ''update threads set title = ?, name_key = ?, body = ?, updated_at = ?, edited_at = ? where id = ?'')
    = lit ''update'' # lit ''threads'' # map lit [''set'', ''title'', ''='', ''?,'', ''name_key'', ''='', ''?,'', ''body'', ''='', ''?,'',
        ''updated_at'', ''='', ''?,'', ''edited_at'', ''='', ''?'', ''where'', ''id'', ''='', ''?'']"
  "split_whitespace (lit ''update comments set body = ?, updated_at = ?, edited_at = ? where id = ?'')
    = lit ''update'' # lit ''comments'' # map lit [''set'', ''body'', ''='', ''?,'', ''updated_at'', ''='', ''?,'', ''edited_at'', ''='',
        ''?'', ''where'', ''id'', ''='', ''?'']"
  "split_whitespace (lit ''update conversation_messages set body = ?, updated_at = ?, edited_at = ? where id = ?'')
    = lit ''update'' # lit ''conversation_messages'' # map lit [''set'', ''body'', ''='', ''?,'', ''updated_at'', ''='', ''?,'', ''edited_at'',
        ''='', ''?'', ''where'', ''id'', ''='', ''?'']"
  by (simp_all add: sql_text)

lemma statements:
  "statement_of edit_thread_sql = normalize_sql edit_thread_sql" "statement_of update_comment_sql = normalize_sql update_comment_sql"
  "statement_of update_dm_sql = normalize_sql update_dm_sql"
  "statement_of (normalize_sql edit_thread_sql) = normalize_sql edit_thread_sql"
  "statement_of (normalize_sql update_comment_sql) = normalize_sql update_comment_sql"
  "statement_of (normalize_sql update_dm_sql) = normalize_sql update_dm_sql"
  by (simp_all add: statement_of_def Let_def normal_updates normal_again starts_with_def, simp_all add: lit_def)

lemma content_updates:
  "query_mutation edit_thread_sql = Some (QUpdate (lit ''threads''))"
  "query_mutation update_comment_sql = Some (QUpdate (lit ''comments''))"
  "query_mutation update_dm_sql = Some (QUpdate (lit ''conversation_messages''))"
  "query_mutation (normalize_sql edit_thread_sql) = Some (QUpdate (lit ''threads''))"
  "query_mutation (normalize_sql update_comment_sql) = Some (QUpdate (lit ''comments''))"
  "query_mutation (normalize_sql update_dm_sql) = Some (QUpdate (lit ''conversation_messages''))"
  unfolding query_mutation_def statements unfolding normal_updates
  by (simp_all add: update_words parse_update_def)

lemma located:
  "locate_update_indices (normalize_sql edit_thread_sql) (lit ''title'') = Inr (Some 5, Some 0)"
  "locate_update_indices (normalize_sql edit_thread_sql) (lit ''body'') = Inr (Some 5, Some 2)"
  "locate_update_indices (normalize_sql update_comment_sql) (lit ''body'') = Inr (Some 3, Some 0)"
  "locate_update_indices (normalize_sql update_dm_sql) (lit ''body'') = Inr (Some 3, Some 0)"
  unfolding normal_updates
  by (simp_all add: locate_update_indices_def rfind_def Let_def scan_assignment_def question_marks_def where_has_id_def
     starts_with_def trim_def trim_matches_def sql_text)


section \<open>Starting with encrypted content\<close>

definition like_envelope :: "str \<Rightarrow> bool" where
  "like_envelope s \<longleftrightarrow> sql_like (envelope_prefix @ lit ''%'') s"

record content =
  cn_threads :: "(str \<times> str \<times> str) list"
  cn_comments :: "str list"
  cn_messages :: "str list"
  cn_notifications :: "(str \<times> str) list"

definition encrypted_count :: "content \<Rightarrow> nat" where
  "encrypted_count C =
     length (filter (\<lambda>(_, title, body). like_envelope title \<or> like_envelope body) (cn_threads C))
     + length (filter like_envelope (cn_comments C)) + length (filter like_envelope (cn_messages C))
     + length (filter (\<lambda>(title, body). like_envelope title \<or> like_envelope body) (cn_notifications C))"

definition plaintext_count :: "content \<Rightarrow> nat" where
  "plaintext_count C =
     length (filter (\<lambda>(_, title, body). \<not> like_envelope title \<or> \<not> like_envelope body) (cn_threads C))
     + length (filter (\<lambda>s. \<not> like_envelope s) (cn_comments C)) + length (filter (\<lambda>s. \<not> like_envelope s) (cn_messages C))
     + length (filter (\<lambda>(title, body). \<not> like_envelope title \<or> \<not> like_envelope body) (cn_notifications C))"

definition plaintext_exists :: err where
  "plaintext_exists = Msg (lit ''plaintext content exists; run `sshoosh encrypt migrate` with SSHOOSH_ENCRYPTION_KEY'')"

text \<open>What \<open>connect_with_config\<close> checks last; one sealed thread is opened to try the key.\<close>

definition validate_encryption :: "crypto option \<Rightarrow> bool \<Rightarrow> content \<Rightarrow> err + unit" where
  "validate_encryption encryption allow_plaintext C =
     (if 0 < encrypted_count C \<and> encryption = None then Inl no_key_error
      else if encryption \<noteq> None \<and> \<not> allow_plaintext \<and> 0 < plaintext_count C then Inl plaintext_exists
      else if 0 < encrypted_count C then
        (case find (\<lambda>(_, title, body). like_envelope title \<or> like_envelope body) (cn_threads C) of
           None \<Rightarrow> Inr ()
         | Some (row_id, title, body) \<Rightarrow>
             let row = \<lparr>dr_values = [SqlText row_id, SqlText title, SqlText body],
                        dr_names = [lit ''id'', lit ''title'', lit ''body''], dr_row_id_hint = None\<rparr> in
             (case try_get_idx encryption 1 row of Inl e \<Rightarrow> Inl e
              | Inr _ \<Rightarrow> (case try_get_idx encryption 2 row of Inl e \<Rightarrow> Inl e | Inr _ \<Rightarrow> Inr ())))
      else Inr ())"

section \<open>What is sealed\<close>

lemma starts_with_append [simp]: "starts_with p (p @ s)"
  by (simp add: starts_with_def)

text \<open>The associated data of different tables differ, as the names of the tables do.\<close>

lemma associated_data_differ:
  assumes "t \<in> set (encryption_tables_for_column c)" "u \<in> set (encryption_tables_for_column c)" "t \<noteq> u"
  shows "bytes_of (associated_data t i c) \<noteq> bytes_of (associated_data u i c)"
proof -
  have names: "set (encryption_tables_for_column c) \<subseteq> set (map lit [''threads'', ''comments'', ''conversation_messages'', ''notifications'', ''webhook_jobs''])"
    by (auto simp: encryption_tables_for_column_def)
  have "t \<in> set (map lit [''threads'', ''comments'', ''conversation_messages'', ''notifications'', ''webhook_jobs''])"
    "u \<in> set (map lit [''threads'', ''comments'', ''conversation_messages'', ''notifications'', ''webhook_jobs''])"
    using names assms(1,2) by blast+
  with assms(3) show ?thesis
    by (auto simp: associated_data_def bytes_of_def encode_utf8_def lit_def)
qed

text \<open>
  Sealing and opening agree. With a cipher that keeps its laws, a text that does not itself begin
  with the envelope's prefix is sealed for a row and a column of a table, and reading that column of a
  row with the same identifier gives the text back; without the key it is refused.
\<close>

theorem sealed_roundtrip:
  assumes "crypto_ok K" "list_all is_scalar text" "\<not> starts_with envelope_prefix text"
    and "encrypt K nonce table (row_id_of row) (column_of idx row) text = Inr sealed"
    and "table \<in> set (encryption_tables_for_column (column_of idx row))"
  shows "decrypt_value (Some K) row idx (SqlText sealed) = Inr (SqlText text)
    \<and> decrypt_value None row idx (SqlText sealed) = Inl no_key_error"
proof (intro conjI)
  let ?r = "row_id_of row" and ?c = "column_of idx row"
  from assms(3,4) obtain c where c: "cr_encrypt K nonce (bytes_of (associated_data table ?r ?c)) (bytes_of text) = Some c"
    and sealed: "sealed = envelope_prefix @ cr_b64_encode K nonce @ lit '':'' @ cr_b64_encode K c"
    by (auto simp: encrypt_def split: option.splits)
  have b64: "cr_b64_decode K (cr_b64_encode K b) = Some b" "58 \<notin> set (cr_b64_encode K b)" for b
    using assms(1) by (simp_all add: crypto_ok_def)
  have cut: "split_once 58 (drop (length envelope_prefix) sealed) = Some (cr_b64_encode K nonce, cr_b64_encode K c)"
  proof -
    have "takeWhile (\<lambda>x. x \<noteq> 58) (cr_b64_encode K nonce @ 58 # ys) = cr_b64_encode K nonce"
      "dropWhile (\<lambda>x. x \<noteq> 58) (cr_b64_encode K nonce @ 58 # ys) = 58 # ys" for ys
      using b64(2) [of nonce] by (auto simp: takeWhile_append dropWhile_append)
    then show ?thesis by (simp add: sealed split_once_def lit_def)
  qed
  have opened: "decrypt K t ?r ?c sealed
      = (if bytes_of (associated_data t ?r ?c) = bytes_of (associated_data table ?r ?c) then Inr text else Inl (Msg (lit ''aead'')))" for t
    using assms(1) c from_utf8_bytes [OF assms(2)]
    by (auto simp: decrypt_def cut b64 crypto_ok_def) (simp_all add: sealed)
  have "first_opened K ?r ?c sealed ts = Some text"
    if "table \<in> set ts" "\<And>t. t \<in> set ts \<Longrightarrow> t \<noteq> table \<Longrightarrow>
      bytes_of (associated_data t ?r ?c) \<noteq> bytes_of (associated_data table ?r ?c)" for ts
    using that by (induction ts) (auto simp: opened)
  from this [OF assms(5) associated_data_differ [OF _ assms(5)]] show "decrypt_value (Some K) row idx (SqlText sealed) = Inr (SqlText text)"
    by (simp add: decrypt_value_def sealed)
  show "decrypt_value None row idx (SqlText sealed) = Inl no_key_error"
    by (simp add: decrypt_value_def sealed)
qed

text \<open>A cipher for examples, which hides nothing but keeps the laws.\<close>

definition demo_crypto :: crypto where
  "demo_crypto = \<lparr>cr_b64_encode = map (\<lambda>b. unat b + 1000), cr_b64_decode = (\<lambda>s. Some (map (\<lambda>c. of_nat (c - 1000)) s)),
     cr_encrypt = (\<lambda>n a m. Some (concat (map (\<lambda>b. [1, b]) a) @ [0] @ m)),
     cr_decrypt = (\<lambda>n a c. let p = concat (map (\<lambda>b. [1, b]) a) @ [0] in
        if starts_with p c then Some (drop (length p) c) else None)\<rparr>"

lemma demo_crypto_ok: "crypto_ok demo_crypto"
proof -
  have tagged: "starts_with (concat (map (\<lambda>b. [1, b]) a') @ [0]) (concat (map (\<lambda>b. [1, b]) a) @ [0] @ m) \<longleftrightarrow> a' = a"
    for a a' m :: "byte list"
  proof (induction a' arbitrary: a)
    case Nil
    then show ?case by (cases a) (simp_all add: starts_with_def)
  next
    case (Cons x xs)
    then show ?case by (cases a) (auto simp: starts_with_def)
  qed
  have "map (\<lambda>c. of_nat (c - 1000)) (map (\<lambda>b. unat b + 1000) b) = b" for b :: "byte list"
    by (induction b) simp_all
  moreover have "58 \<notin> set (map (\<lambda>b. unat b + 1000) b)" for b :: "byte list" by auto
  ultimately show ?thesis
    using tagged by (auto simp: crypto_ok_def demo_crypto_def Let_def)
qed

definition demo_row :: "str \<Rightarrow> db_row" where
  "demo_row text = \<lparr>dr_values = [SqlText (lit ''c1''), SqlText text], dr_names = [lit ''id'', lit ''body''], dr_row_id_hint = None\<rparr>"

lemma demo_row_parts: "row_id_of (demo_row text) = lit ''c1''" "column_of (Suc 0) (demo_row text) = lit ''body''"
  by (simp_all add: demo_row_def row_id_of_def column_index_def column_of_def get_param_def value_as_str_def upt_rec)

lemma sealed_roundtrip_witness:
  "\<exists>sealed. encrypt demo_crypto [7] (lit ''comments'') (lit ''c1'') (lit ''body'') (lit ''hi'') = Inr sealed
    \<and> decrypt_value (Some demo_crypto) (demo_row []) 1 (SqlText sealed) = Inr (SqlText (lit ''hi''))"
proof -
  have plain: "list_all is_scalar (lit ''hi'')" "\<not> starts_with envelope_prefix (lit ''hi'')"
    by (simp_all add: lit_def is_scalar_def starts_with_def envelope_prefix_def)
  obtain sealed where "encrypt demo_crypto [7] (lit ''comments'') (lit ''c1'') (lit ''body'') (lit ''hi'') = Inr sealed"
    by (simp add: encrypt_def plain demo_crypto_def)
  with sealed_roundtrip [OF demo_crypto_ok plain, where row = "demo_row []" and idx = 1 and table = "lit ''comments''"]
  show ?thesis by (auto simp: demo_row_parts encryption_tables_for_column_def)
qed

text \<open>
  What encryption covers. With a key, the body of a new comment and of a new direct message, the new
  body of an edited one, and the title and body of an edited thread are sealed under their own row
  and column; everything else of these statements is stored as it is bound.
\<close>

theorem content_sealed:
  fixes K :: crypto and n1 n2 :: "byte list"
  defines "seal \<equiv> \<lambda>n table row_id column v f. case encrypt K n (lit table) row_id (lit column) v of Inl e \<Rightarrow> Inl e | Inr s \<Rightarrow> f (SqlText s)"
  shows "encrypt_query_params (Some K) (n1, n2) add_comment_sql
      [SqlText i, t, ch, a, idx, SqlText body, d, d']
    = seal n1 ''comments'' i ''body'' body (\<lambda>s. Inr [SqlText i, t, ch, a, idx, s, d, d'])
    \<and> encrypt_query_params (Some K) (n1, n2) send_dm_sql [SqlText i, cv, a, idx, SqlText body, d, d']
    = seal n1 ''conversation_messages'' i ''body'' body (\<lambda>s. Inr [SqlText i, cv, a, idx, s, d, d'])
    \<and> encrypt_query_params (Some K) (n1, n2) update_comment_sql [SqlText body, d, d', SqlText i]
    = seal n1 ''comments'' i ''body'' body (\<lambda>s. Inr [s, d, d', SqlText i])
    \<and> encrypt_query_params (Some K) (n1, n2) update_dm_sql [SqlText body, d, d', SqlText i]
    = seal n1 ''conversation_messages'' i ''body'' body (\<lambda>s. Inr [s, d, d', SqlText i])
    \<and> encrypt_query_params (Some K) (n1, n2) edit_thread_sql [SqlText title, key, SqlText body, d, d', SqlText i]
    = seal n1 ''threads'' i ''title'' title (\<lambda>t. seal n2 ''threads'' i ''body'' body (\<lambda>s. Inr [t, key, s, d, d', SqlText i]))"
  unfolding seal_def
  by (simp_all add: encrypt_query_params_def content_inserts content_updates located encrypt_named_update_column_def
      encrypt_param_def get_param_def value_as_str_def and_seal_def Let_def split: sum.splits)

text \<open>
  C35: Creating a thread seals the wrong parameter. The statement binds the name key before the
  body, and the parameter that is sealed as the body is the name key, so that equal names no longer
  have equal keys; the body, which is empty until the thread is edited, goes into the table as it
  is, and the next start of a server with the key is refused for plaintext content.
\<close>

theorem thread_body_in_clear:
  assumes "encrypt_query_params (Some K) nonces create_thread_sql
      [SqlText i, ch, a, SqlText title, SqlText key, SqlText body, d, d', d''] = Inr params"
  shows "params ! 5 = SqlText body
    \<and> (\<exists>sealed. encrypt K (snd nonces) (lit ''threads'') i (lit ''body'') key = Inr sealed \<and> params ! 4 = SqlText sealed)
    \<and> (\<not> like_envelope body \<longrightarrow> (i, stored_title, body) \<in> set (cn_threads C) \<longrightarrow>
      validate_encryption (Some K) False C = Inl plaintext_exists)"
  using assms by (auto simp: encrypt_query_params_def content_inserts encrypt_param_def get_param_def value_as_str_def
      and_seal_def Let_def validate_encryption_def plaintext_count_def filter_empty_conv length_greater_0_conv
      split: sum.splits)


lemma thread_body_in_clear_witness:
  "\<exists>params. encrypt_query_params (Some demo_crypto) ([1], [2]) create_thread_sql
      [SqlText (lit ''t1''), SqlNull, SqlNull, SqlText (lit ''Hi''), SqlText (lit ''hi''), SqlText [], SqlNull, SqlNull, SqlNull]
      = Inr params \<and> params ! 5 = SqlText []
      \<and> validate_encryption (Some demo_crypto) False
        \<lparr>cn_threads = [(lit ''t1'', lit ''Hi'', [])], cn_comments = [], cn_messages = [], cn_notifications = []\<rparr> = Inl plaintext_exists"
proof -
  obtain params where p: "encrypt_query_params (Some demo_crypto) ([1], [2]) create_thread_sql
      [SqlText (lit ''t1''), SqlNull, SqlNull, SqlText (lit ''Hi''), SqlText (lit ''hi''), SqlText [], SqlNull, SqlNull, SqlNull]
      = Inr params"
    by (simp add: encrypt_query_params_def content_inserts encrypt_param_def get_param_def value_as_str_def and_seal_def
        encrypt_def demo_crypto_def starts_with_def envelope_prefix_def lit_def)
  have "\<not> like_envelope []" by (simp add: like_envelope_def envelope_prefix_def lit_def)
  with thread_body_in_clear [OF p, of "lit ''Hi''" "\<lparr>cn_threads = [(lit ''t1'', lit ''Hi'', [])], cn_comments = [], cn_messages = [],
      cn_notifications = []\<rparr>"] p show ?thesis by simp
qed

lemma sql_like_prefix: "37 \<notin> set p \<Longrightarrow> sql_like (p @ [37]) (p @ s)"
proof (induction p)
  case Nil
  show ?case by (induction s) simp_all
qed simp

text \<open>
  Anybody can post a text that nobody can read. A text that begins with the envelope's prefix and
  has no colon after it passes the sanitiser, is stored as it is, with or without a key, and every
  read of it is an error; and a server without a key that has one in a comment does not start.
\<close>

theorem poisoned_text:
  assumes "58 \<notin> set junk" "list_all (\<lambda>c. \<not> is_control c) junk"
  defines "poison \<equiv> envelope_prefix @ junk"
  shows "sanitize_stored_text poison = poison \<and> encrypt K nonce table row_id column poison = Inr poison
    \<and> decrypt_value (Some K) row idx (SqlText poison) = Inl cannot_open
    \<and> decrypt_value None row idx (SqlText poison) = Inl no_key_error
    \<and> (poison \<in> set (cn_comments C) \<longrightarrow> validate_encryption None allow C = Inl no_key_error)"
proof (intro conjI)
  have "list_all (\<lambda>c. \<not> is_control c) poison"
    using assms(2) by (simp add: poison_def envelope_prefix_def lit_def is_control_def)
  then show "sanitize_stored_text poison = poison"
    by (induction poison) (auto simp: sanitize_stored_text_def sanitize_stored_char_def is_control_def)
  show "encrypt K nonce table row_id column poison = Inr poison" by (simp add: encrypt_def poison_def)
  have "decrypt K t r c poison = Inl invalid_envelope" for t r c
    using assms(1) by (simp add: decrypt_def poison_def split_once_def)
  then have "first_opened K r c poison ts = None" for r c ts
    by (induction ts) simp_all
  then show "decrypt_value (Some K) row idx (SqlText poison) = Inl cannot_open"
    by (simp add: decrypt_value_def poison_def)
  show "decrypt_value None row idx (SqlText poison) = Inl no_key_error"
    by (simp add: decrypt_value_def poison_def)
  have "like_envelope poison"
    unfolding like_envelope_def poison_def
    using sql_like_prefix [of envelope_prefix junk] by (simp add: envelope_prefix_def lit_def)
  then show "poison \<in> set (cn_comments C) \<longrightarrow> validate_encryption None allow C = Inl no_key_error"
    by (auto simp: validate_encryption_def encrypted_count_def filter_empty_conv)
qed

lemma poisoned_text_witness:
  "sanitize_stored_text (envelope_prefix @ lit ''x'') = envelope_prefix @ lit ''x''
    \<and> decrypt_value None (demo_row []) 1 (SqlText (envelope_prefix @ lit ''x'')) = Inl no_key_error"
proof -
  have "58 \<notin> set (lit ''x'')" "list_all (\<lambda>c. \<not> is_control c) (lit ''x'')"
    by (simp_all add: lit_def is_control_def)
  from poisoned_text [OF this] show ?thesis by simp
qed

end
