(* ===== verification/Lease.thy ===== *)
theory Lease
  imports Guard
begin

text \<open>
  The master lease (\<open>db/lease.rs\<close>, \<open>features/system/runtime.rs\<close>): one row that a node inserts, renews
  or takes over when it has expired, a fencing token that grows with every change of holder, and the
  flag in every node's memory that lets it write. The nodes' clocks are one clock, in seconds; how an
  instant is written in the row is a parameter.
\<close>

section \<open>The lease\<close>

record time_format =
  tf_format :: "nat \<Rightarrow> str"
  tf_parse :: "str \<Rightarrow> nat option"

definition time_format_ok :: "time_format \<Rightarrow> bool" where
  "time_format_ok F \<longleftrightarrow> (\<forall>t. tf_parse F (tf_format F t) = Some t)"

record lease_row =
  ls_node_id :: str
  ls_fencing_token :: int
  ls_lease_until :: str
  ls_heartbeat_at :: str

record node =
  nd_node_id :: str
  nd_master_lease_ttl :: nat
  nd_is_master :: bool
  nd_fencing_token :: int

text \<open>A database handle starts out with the flag set; a server clears it before it asks for the lease.\<close>

definition connect_node :: "str \<Rightarrow> nat \<Rightarrow> node" where
  "connect_node node_id ttl = \<lparr>nd_node_id = node_id, nd_master_lease_ttl = ttl, nd_is_master = True, nd_fencing_token = 0\<rparr>"

definition set_master_status :: "bool \<Rightarrow> int \<Rightarrow> node \<Rightarrow> node" where
  "set_master_status is_master token n = n\<lparr>nd_is_master := is_master, nd_fencing_token := token\<rparr>"

text \<open>
  The transaction: the clock is read for the new lease and again, later, for the old one's expiry. It
  runs alone, so the guards of the two updates match the row that was read.
\<close>

definition try_acquire_or_renew_master :: "time_format \<Rightarrow> nat \<Rightarrow> nat \<Rightarrow> node \<Rightarrow> lease_row option \<Rightarrow> bool \<times> node \<times> lease_row" where
  "try_acquire_or_renew_master F t t' n row =
     (let lease_until = tf_format F (t + nd_master_lease_ttl n); heartbeat = tf_format F t;
          r = (case row of Some r \<Rightarrow> r
               | None \<Rightarrow> \<lparr>ls_node_id = nd_node_id n, ls_fencing_token = 1, ls_lease_until = lease_until, ls_heartbeat_at = heartbeat\<rparr>);
          expired = (case tf_parse F (ls_lease_until r) of Some until \<Rightarrow> until < t' | None \<Rightarrow> True)
      in if ls_node_id r = nd_node_id n then
           (True, set_master_status True (ls_fencing_token r) n, r\<lparr>ls_lease_until := lease_until, ls_heartbeat_at := heartbeat\<rparr>)
         else if expired then
           (True, set_master_status True (ls_fencing_token r + 1) n,
            \<lparr>ls_node_id = nd_node_id n, ls_fencing_token = ls_fencing_token r + 1, ls_lease_until = lease_until,
             ls_heartbeat_at = heartbeat\<rparr>)
         else (False, set_master_status False (ls_fencing_token r) n, r))"

text \<open>One turn of the lease manager; on an error the row is as before and the flag goes.\<close>

definition lease_tick :: "time_format \<Rightarrow> bool \<Rightarrow> nat \<Rightarrow> nat \<Rightarrow> node \<Rightarrow> lease_row option \<Rightarrow> bool \<times> node \<times> lease_row option" where
  "lease_tick F db_error t t' n row =
     (if db_error then (False, set_master_status False 0 n, row)
      else let (acquired, n, r) = try_acquire_or_renew_master F t t' n row in (acquired, n, Some r))"

section \<open>A cluster\<close>

text \<open>
  The servers that share a database, and every lease granted so far, the last one first: to whom,
  with which token, when it was decided and until when.
\<close>

record grant =
  gr_node :: str
  gr_token :: int
  gr_at :: nat
  gr_until :: nat

record cluster =
  cl_now :: nat
  cl_row :: "lease_row option"
  cl_nodes :: "str \<rightharpoonup> node"
  cl_grants :: "grant list"

definition new_cluster :: cluster where
  "new_cluster = \<lparr>cl_now = 0, cl_row = None, cl_nodes = Map.empty, cl_grants = []\<rparr>"

text \<open>
  A server of a given node id starts, and starts again, with the lease duration of that id; a heartbeat takes the
  time between the two readings of the clock; and time passes.
\<close>

datatype cluster_event = Started str nat | Heartbeat str bool nat | Wait nat

definition ask_for_lease :: "time_format \<Rightarrow> bool \<Rightarrow> nat \<Rightarrow> node \<Rightarrow> cluster \<Rightarrow> cluster" where
  "ask_for_lease F db_error delay n c =
     (let (acquired, n', row) = lease_tick F db_error (cl_now c) (cl_now c + delay) n (cl_row c)
      in c\<lparr>cl_now := cl_now c + delay, cl_row := row, cl_nodes := (cl_nodes c)(nd_node_id n \<mapsto> n'),
           cl_grants := (if acquired then
              [\<lparr>gr_node = nd_node_id n, gr_token = nd_fencing_token n', gr_at = cl_now c + delay,
                gr_until = cl_now c + nd_master_lease_ttl n\<rparr>] else []) @ cl_grants c\<rparr>)"

fun cluster_step :: "time_format \<Rightarrow> (str \<Rightarrow> nat) \<Rightarrow> cluster_event \<Rightarrow> cluster \<Rightarrow> cluster" where
  "cluster_step F ttl (Started node_id delay) c =
     ask_for_lease F False delay (set_master_status False 0 (connect_node node_id (ttl node_id))) c"
| "cluster_step F ttl (Heartbeat node_id db_error delay) c =
     (case cl_nodes c node_id of None \<Rightarrow> c | Some n \<Rightarrow> ask_for_lease F db_error delay n c)"
| "cluster_step F ttl (Wait d) c = c\<lparr>cl_now := cl_now c + d\<rparr>"

definition cluster_run :: "time_format \<Rightarrow> (str \<Rightarrow> nat) \<Rightarrow> cluster_event list \<Rightarrow> cluster" where
  "cluster_run F ttl evs = fold (cluster_step F ttl) evs new_cluster"

section \<open>One holder at a time\<close>

definition grants_ok :: "(str \<Rightarrow> nat) \<Rightarrow> nat \<Rightarrow> grant list \<Rightarrow> bool" where
  "grants_ok ttl t gs \<longleftrightarrow> (\<forall>g\<in>set gs. gr_until g \<le> t + ttl (gr_node g) \<and> gr_at g \<le> t)"

definition row_ok :: "time_format \<Rightarrow> nat \<Rightarrow> lease_row option \<Rightarrow> grant list \<Rightarrow> bool" where
  "row_ok F t row gs \<longleftrightarrow>
     (case row of None \<Rightarrow> gs = []
      | Some r \<Rightarrow> \<exists>until. tf_parse F (ls_lease_until r) = Some until \<and> (\<forall>g\<in>set gs.
          if gr_node g = ls_node_id r then gr_until g \<le> until \<and> gr_token g \<le> ls_fencing_token r
          else gr_until g < t \<and> gr_token g < ls_fencing_token r))"

definition lease_ok :: "time_format \<Rightarrow> (str \<Rightarrow> nat) \<Rightarrow> cluster \<Rightarrow> bool" where
  "lease_ok F ttl c \<longleftrightarrow>
     (\<forall>i n. cl_nodes c i = Some n \<longrightarrow> nd_node_id n = i \<and> nd_master_lease_ttl n = ttl i
        \<and> (nd_is_master n \<longrightarrow> (\<exists>g\<in>set (cl_grants c). gr_node g = i \<and> gr_token g = nd_fencing_token n)))
     \<and> grants_ok ttl (cl_now c) (cl_grants c) \<and> row_ok F (cl_now c) (cl_row c) (cl_grants c)
     \<and> sorted_wrt (\<lambda>later earlier. gr_node later \<noteq> gr_node earlier \<longrightarrow>
          gr_until earlier < gr_at later \<and> gr_token earlier < gr_token later) (cl_grants c)"

lemma later_ok:
  assumes "t \<le> t'"
  shows "grants_ok ttl t gs \<Longrightarrow> grants_ok ttl t' gs" "row_ok F t row gs \<Longrightarrow> row_ok F t' row gs"
proof -
  show "grants_ok ttl t gs \<Longrightarrow> grants_ok ttl t' gs"
    using assms unfolding grants_ok_def by (meson add_right_mono order_trans)
  have "gr_until g < t \<Longrightarrow> gr_until g < t'" for g using assms by simp
  then show "row_ok F t row gs \<Longrightarrow> row_ok F t' row gs"
    unfolding row_ok_def by (fastforce split: option.splits if_splits)
qed

lemma lease_ok_ask:
  assumes F: "time_format_ok F" and ok: "lease_ok F ttl c"
    and n: "nd_master_lease_ttl n = ttl (nd_node_id n)"
  shows "lease_ok F ttl (ask_for_lease F db_error delay n c)"
proof -
  have fmt: "tf_parse F (tf_format F t) = Some t" for t using F by (simp add: time_format_ok_def)
  show ?thesis
  proof (cases "db_error")
    case True
    then show ?thesis using ok n
      by (fastforce simp: ask_for_lease_def lease_tick_def lease_ok_def grants_ok_def row_ok_def set_master_status_def split: option.splits)
  next
    case False
    show ?thesis
    proof (cases "cl_row c")
      case None
      then show ?thesis using ok n False fmt
        by (auto simp: ask_for_lease_def lease_tick_def try_acquire_or_renew_master_def lease_ok_def grants_ok_def row_ok_def set_master_status_def Let_def)
    next
      case (Some r)
      then show ?thesis using ok n False fmt
        by (fastforce simp: ask_for_lease_def lease_tick_def try_acquire_or_renew_master_def lease_ok_def grants_ok_def row_ok_def set_master_status_def Let_def
          split: if_splits)
    qed
  qed
qed


lemma lease_ok_step:
  assumes "time_format_ok F" "lease_ok F ttl c"
  shows "lease_ok F ttl (cluster_step F ttl ev c)"
proof (cases ev)
  case (Started i d)
  then show ?thesis using lease_ok_ask [OF assms] by (simp add: set_master_status_def connect_node_def)
next
  case (Heartbeat i e d)
  have "nd_master_lease_ttl n = ttl (nd_node_id n)" if "cl_nodes c i = Some n" for n
    using assms(2) that by (simp add: lease_ok_def)
  with Heartbeat show ?thesis using lease_ok_ask [OF assms] assms(2) by (auto split: option.splits)
next
  case (Wait d)
  have "lease_ok F ttl (c\<lparr>cl_now := cl_now c + d\<rparr>)"
    using assms(2) later_ok [of "cl_now c" "cl_now c + d"] by (simp add: lease_ok_def)
  with Wait show ?thesis by simp
qed

lemma lease_ok_run:
  assumes "time_format_ok F"
  shows "lease_ok F ttl (cluster_run F ttl evs)"
proof -
  have run: "lease_ok F ttl (fold (cluster_step F ttl) evs c)" if "lease_ok F ttl c" for c
    using that by (induction evs arbitrary: c) (simp_all add: lease_ok_step [OF assms])
  show ?thesis unfolding cluster_run_def by (rule run) (simp add: lease_ok_def new_cluster_def grants_ok_def row_ok_def)
qed

text \<open>
  C36: One node holds the lease at a time. Whatever the servers of a cluster do, restart and fail to
  do, leases that were granted to different nodes do not overlap, the later one having a larger
  fencing token; and a node with the master flag has been granted a lease with the token it keeps.
\<close>

theorem lease_exclusive:
  assumes "time_format_ok F" "cl_grants (cluster_run F ttl evs) = later @ g # between @ h # earlier"
    and "gr_node g \<noteq> gr_node h"
  shows "gr_until h < gr_at g \<and> gr_token h < gr_token g
    \<and> (\<forall>i n. cl_nodes (cluster_run F ttl evs) i = Some n \<longrightarrow> nd_is_master n \<longrightarrow>
      (\<exists>k\<in>set (cl_grants (cluster_run F ttl evs)). gr_node k = i \<and> gr_token k = nd_fencing_token n))"
  using lease_ok_run [OF assms(1), of ttl evs] assms(2,3) by (auto simp: lease_ok_def sorted_wrt_append)

definition demo_time :: time_format where
  "demo_time = \<lparr>tf_format = (\<lambda>t. [t]), tf_parse = (\<lambda>s. case s of [t] \<Rightarrow> Some t | _ \<Rightarrow> None)\<rparr>"

lemma demo_time_ok: "time_format_ok demo_time"
  by (simp add: time_format_ok_def demo_time_def)

text \<open>Node a falls silent for a while, and b takes over.\<close>

definition demo_handover :: "cluster_event list" where
  "demo_handover = [Started (lit ''a'') 0, Wait 20, Started (lit ''b'') 1]"

lemma demo_handover_run:
  "cl_grants (cluster_run demo_time (\<lambda>_. 15) demo_handover) =
     [\<lparr>gr_node = lit ''b'', gr_token = 2, gr_at = 21, gr_until = 35\<rparr>, \<lparr>gr_node = lit ''a'', gr_token = 1, gr_at = 0, gr_until = 15\<rparr>]"
  "cl_nodes (cluster_run demo_time (\<lambda>_. 15) demo_handover) (lit ''a'') =
     Some \<lparr>nd_node_id = lit ''a'', nd_master_lease_ttl = 15, nd_is_master = True, nd_fencing_token = 1\<rparr>"
  "cl_nodes (cluster_run demo_time (\<lambda>_. 15) demo_handover) (lit ''b'') =
     Some \<lparr>nd_node_id = lit ''b'', nd_master_lease_ttl = 15, nd_is_master = True, nd_fencing_token = 2\<rparr>"
  by (simp_all add: cluster_run_def demo_handover_def new_cluster_def ask_for_lease_def lease_tick_def Let_def
      try_acquire_or_renew_master_def demo_time_def connect_node_def set_master_status_def)

lemma lease_exclusive_witness:
  "\<exists>g h. cl_grants (cluster_run demo_time (\<lambda>_. 15) demo_handover) = [g, h]
    \<and> gr_node g = lit ''b'' \<and> gr_node h = lit ''a'' \<and> gr_until h < gr_at g \<and> gr_token h < gr_token g"
proof -
  have "cl_grants (cluster_run demo_time (\<lambda>_. 15) demo_handover) = []
      @ \<lparr>gr_node = lit ''b'', gr_token = 2, gr_at = 21, gr_until = 35\<rparr> # []
      @ \<lparr>gr_node = lit ''a'', gr_token = 1, gr_at = 0, gr_until = 15\<rparr> # []"
    by (simp add: demo_handover_run)
  from lease_exclusive [OF demo_time_ok this] this show ?thesis by simp
qed

section \<open>What the flag lets through\<close>

definition demo_update :: query where
  "demo_update = \<lparr>qy_sql = lit ''UPDATE threads SET archived_at = ?, updated_at = ? WHERE id = ?'', qy_params = [], qy_bypass = False\<rparr>"

lemma demo_update_writes: "query_is_write (qy_sql demo_update)"
  by (simp add: demo_update_def query_is_write_def query_mutation_def statement_of_def starts_with_def parse_update_def Let_def
      normalize_sql_def lit_def split_whitespace.simps word_head_def is_whitespace_def ascii_lowercase_def to_ascii_lower_def
      is_ascii_upper_def)



text \<open>
  The fencing token fences nothing. There is a run after which the lease is one node's alone and yet
  two nodes have the flag, so that the guard lets both of them write: the token is kept and never
  looked at.
\<close>

theorem two_masters:
  "\<exists>evs a b. a \<noteq> b \<and> (case (cl_nodes (cluster_run demo_time (\<lambda>_. 15) evs) a, cl_nodes (cluster_run demo_time (\<lambda>_. 15) evs) b) of
     (Some m, Some n) \<Rightarrow> nd_fencing_token m \<noteq> nd_fencing_token n
        \<and> transaction_runs False (nd_is_master m) demo_update \<and> transaction_runs False (nd_is_master n) demo_update
   | _ \<Rightarrow> False)"
  by (rule exI [of _ demo_handover], rule exI [of _ "lit ''a''"], rule exI [of _ "lit ''b''"])
    (simp add: demo_handover_run transaction_runs_def require_master_for_write_def allow_standby_writes_def)

end
