(* ===== verification/Composer.thy ===== *)
theory Composer
  imports Input Actions "HOL-Library.Monad_Syntax"
begin

text \<open>
  The line editor of the interface: \<open>ComposerState\<close> of \<open>app/state.rs\<close>. The buffer is a string and
  the cursor a byte offset into it, so an operation that slices between the bytes of a character
  panics: the result \<open>None\<close>. The abstract editor is a pair of the texts before and after the
  cursor; every operation keeps the cursor between characters, never panics, and does to the pair
  what it is meant to.
\<close>

section \<open>Slices\<close>

text \<open>\<open>str::split_at\<close> at a byte offset and \<open>&s[a..b]\<close>, which panic off a character boundary.\<close>

definition split_bytes :: "nat \<Rightarrow> str \<Rightarrow> (str \<times> str) option" where
  "split_bytes n s = map_option (\<lambda>p. (p, drop (length p) s)) (take_bytes n s)"

definition slice :: "nat \<Rightarrow> nat \<Rightarrow> str \<Rightarrow> str option" where
  "slice a b s = (if b < a then None else do { (p, _) \<leftarrow> split_bytes b s; (_, q) \<leftarrow> split_bytes a p; Some q })"

lemma width_pos [simp]: "0 < utf8_width c"
  by (simp add: utf8_width_def)

lemma take_bytes_some: "take_bytes n s = Some p \<longleftrightarrow> (\<exists>q. s = p @ q \<and> utf8_len p = n)"
proof (induction n s arbitrary: p rule: take_bytes.induct)
  case (1 s)
  have "utf8_len p = 0 \<longleftrightarrow> p = []" for p by (cases p) auto
  then show ?case by auto
next
  case (2 n)
  then show ?case by auto
next
  case (3 n c s)
  show ?case
  proof (cases "utf8_width c \<le> Suc n")
    case True
    note step = 3 [OF True]
    show ?thesis
    proof (cases p)
      case Nil
      then show ?thesis using True by auto
    next
      case (Cons a r)
      have "take_bytes (Suc n) (c # s) = Some p \<longleftrightarrow> a = c \<and> take_bytes (Suc n - utf8_width c) s = Some r"
        using True by (auto simp: Cons)
      also have "\<dots> \<longleftrightarrow> a = c \<and> (\<exists>q. s = r @ q) \<and> utf8_len r + utf8_width c = Suc n"
        unfolding step using True by auto
      also have "\<dots> \<longleftrightarrow> (\<exists>q. c # s = p @ q \<and> utf8_len p = Suc n)"
        by (auto simp: Cons)
      finally show ?thesis .
    qed
  next
    case False
    then show ?thesis by (cases p) auto
  qed
qed

lemma split_bytes_some: "split_bytes n s = Some (p, q) \<longleftrightarrow> s = p @ q \<and> utf8_len p = n"
  by (auto simp: split_bytes_def take_bytes_some)

lemma split_bytes_at [simp]: "split_bytes (utf8_len p) (p @ q) = Some (p, q)"
  by (simp add: split_bytes_some)

section \<open>The composer\<close>

record composer =
  cp_buffer :: str
  cp_cursor :: nat
  cp_history :: "str list"
  cp_position :: "nat option"
  cp_draft :: "str option"
  cp_autocomplete :: autocomplete_state
  cp_prompt :: "(nat \<times> str) option"

definition new_composer :: composer where
  "new_composer = \<lparr>cp_buffer = [], cp_cursor = 0, cp_history = [], cp_position = None, cp_draft = None,
     cp_autocomplete = no_autocomplete, cp_prompt = None\<rparr>"

definition composer_from :: "str \<Rightarrow> composer" where
  "composer_from value = new_composer\<lparr>cp_buffer := value, cp_cursor := utf8_len value\<rparr>"

definition start :: "str \<Rightarrow> composer \<Rightarrow> composer" where
  "start value c = c\<lparr>cp_buffer := value, cp_cursor := utf8_len value, cp_position := None, cp_draft := None,
     cp_autocomplete := no_autocomplete, cp_prompt := None\<rparr>"

definition start_prompt :: "str \<Rightarrow> str \<Rightarrow> composer \<Rightarrow> composer" where
  "start_prompt pre placeholder c =
     (let c = start pre c in
      if placeholder = [] then c else c\<lparr>cp_prompt := Some (utf8_len (cp_buffer c), placeholder)\<rparr>)"

definition reset_input :: "composer \<Rightarrow> composer" where
  "reset_input c = start [] c"

definition cancel_history_navigation :: "composer \<Rightarrow> composer" where
  "cancel_history_navigation c = c\<lparr>cp_position := None, cp_draft := None\<rparr>"

definition insert_char :: "uchar \<Rightarrow> composer \<Rightarrow> composer option" where
  "insert_char ch c =
     (let c = cancel_history_navigation c in
      do { (p, q) \<leftarrow> split_bytes (cp_cursor c) (cp_buffer c);
           Some (c\<lparr>cp_buffer := p @ ch # q, cp_cursor := cp_cursor c + utf8_width ch\<rparr>) })"

definition insert_str :: "str \<Rightarrow> composer \<Rightarrow> composer option" where
  "insert_str text c =
     (let c = cancel_history_navigation c in
      do { (p, q) \<leftarrow> split_bytes (cp_cursor c) (cp_buffer c);
           Some (c\<lparr>cp_buffer := p @ text @ q, cp_cursor := cp_cursor c + utf8_len text\<rparr>) })"

definition replace_range :: "nat \<Rightarrow> nat \<Rightarrow> str \<Rightarrow> composer \<Rightarrow> composer option" where
  "replace_range a b text c =
     (let c = cancel_history_navigation c in
      if b < a then None
      else do { (p, _) \<leftarrow> split_bytes a (cp_buffer c); (_, q) \<leftarrow> split_bytes b (cp_buffer c);
                Some (c\<lparr>cp_buffer := p @ text @ q, cp_cursor := a + utf8_len text\<rparr>) })"

text \<open>The offset of the last character of a text, 0 when there is none.\<close>

definition last_index :: "str \<Rightarrow> nat" where
  "last_index p = (if p = [] then 0 else utf8_len (butlast p))"

text \<open>The length of the first character when another follows it, else all of the text.\<close>

definition next_index :: "str \<Rightarrow> nat" where
  "next_index q = (case q of a # b # _ \<Rightarrow> utf8_width a | _ \<Rightarrow> utf8_len q)"

definition backspace :: "composer \<Rightarrow> composer option" where
  "backspace c =
     (if cp_cursor c = 0 then Some c
      else let c = cancel_history_navigation c in
        do { (p, q) \<leftarrow> split_bytes (cp_cursor c) (cp_buffer c);
             (p, _) \<leftarrow> split_bytes (last_index p) p;
             Some (c\<lparr>cp_buffer := p @ q, cp_cursor := utf8_len p\<rparr>) })"

definition delete :: "composer \<Rightarrow> composer option" where
  "delete c =
     (if utf8_len (cp_buffer c) \<le> cp_cursor c then Some c
      else let c = cancel_history_navigation c in
        do { (p, q) \<leftarrow> split_bytes (cp_cursor c) (cp_buffer c);
             (_, q) \<leftarrow> split_bytes (next_index q) q;
             Some (c\<lparr>cp_buffer := p @ q\<rparr>) })"

definition move_left :: "composer \<Rightarrow> composer option" where
  "move_left c =
     (if cp_cursor c = 0 then Some c
      else do { (p, _) \<leftarrow> split_bytes (cp_cursor c) (cp_buffer c); Some (c\<lparr>cp_cursor := last_index p\<rparr>) })"

definition move_right :: "composer \<Rightarrow> composer option" where
  "move_right c =
     (if utf8_len (cp_buffer c) \<le> cp_cursor c then Some c
      else do { (_, q) \<leftarrow> split_bytes (cp_cursor c) (cp_buffer c);
                Some (c\<lparr>cp_cursor := cp_cursor c + next_index q\<rparr>) })"

definition move_home :: "composer \<Rightarrow> composer" where
  "move_home c = c\<lparr>cp_cursor := 0\<rparr>"

definition move_end :: "composer \<Rightarrow> composer" where
  "move_end c = c\<lparr>cp_cursor := utf8_len (cp_buffer c)\<rparr>"

text \<open>\<open>self.buffer.as_bytes()[i].is_ascii_whitespace()\<close>, where the index is checked.\<close>

definition whitespace_at :: "nat \<Rightarrow> composer \<Rightarrow> bool option" where
  "whitespace_at i c =
     (let bytes = bytes_of (cp_buffer c) in
      if i < length bytes then Some (unat (bytes ! i) \<in> {9, 10, 12, 13, 32}) else None)"

lemma last_index_less: "p \<noteq> [] \<Longrightarrow> last_index p < utf8_len p"
  by (cases p rule: rev_cases) (simp_all add: last_index_def)

lemma move_left_less: "move_left c = Some d \<Longrightarrow> 0 < cp_cursor c \<Longrightarrow> cp_cursor d < cp_cursor c"
  by (auto simp: move_left_def split_bytes_some split: if_splits bind_splits) (metis last_index_less utf8_len_simps(1) less_irrefl)

lemma move_right_more:
  "move_right c = Some d \<Longrightarrow> cp_cursor c < utf8_len (cp_buffer c) \<Longrightarrow>
     utf8_len (cp_buffer d) - cp_cursor d < utf8_len (cp_buffer c) - cp_cursor c"
  by (auto simp: move_right_def split_bytes_some next_index_def split: if_splits bind_splits list.splits)

text \<open>\<open>while self.cursor > 0 && (whitespace before it == space) { self.move_left() }\<close> and its mirror image.\<close>

function skip_left :: "bool \<Rightarrow> composer \<Rightarrow> composer option" where
  "skip_left space c =
     (if cp_cursor c = 0 then Some c
      else case whitespace_at (cp_cursor c - 1) c of None \<Rightarrow> None
        | Some w \<Rightarrow> if w = space then (case move_left c of None \<Rightarrow> None | Some d \<Rightarrow> skip_left space d) else Some c)"
  by pat_completeness auto
termination
  by (relation "measure (\<lambda>(_, c). cp_cursor c)") (auto dest: move_left_less)

function skip_right :: "bool \<Rightarrow> composer \<Rightarrow> composer option" where
  "skip_right space c =
     (if utf8_len (cp_buffer c) \<le> cp_cursor c then Some c
      else case whitespace_at (cp_cursor c) c of None \<Rightarrow> None
        | Some w \<Rightarrow> if w = space then (case move_right c of None \<Rightarrow> None | Some d \<Rightarrow> skip_right space d) else Some c)"
  by pat_completeness auto
termination
  by (relation "measure (\<lambda>(_, c). utf8_len (cp_buffer c) - cp_cursor c)") (auto dest: move_right_more)

declare skip_left.simps [simp del] skip_right.simps [simp del]

definition move_word_left :: "composer \<Rightarrow> composer option" where
  "move_word_left c = do { c \<leftarrow> skip_left True c; skip_left False c }"

definition move_word_right :: "composer \<Rightarrow> composer option" where
  "move_word_right c = do { c \<leftarrow> skip_right False c; skip_right True c }"

definition clear_before_cursor :: "composer \<Rightarrow> composer option" where
  "clear_before_cursor c =
     (let c = cancel_history_navigation c in
      do { (_, q) \<leftarrow> split_bytes (cp_cursor c) (cp_buffer c); Some (c\<lparr>cp_buffer := q, cp_cursor := 0\<rparr>) })"

definition clear_after_cursor :: "composer \<Rightarrow> composer option" where
  "clear_after_cursor c =
     (let c = cancel_history_navigation c in
      if utf8_len (cp_buffer c) < cp_cursor c then Some c
      else do { (p, _) \<leftarrow> split_bytes (cp_cursor c) (cp_buffer c); Some (c\<lparr>cp_buffer := p\<rparr>) })"

definition delete_word_before_cursor :: "composer \<Rightarrow> composer option" where
  "delete_word_before_cursor c =
     do { d \<leftarrow> move_word_left c;
          let d = cancel_history_navigation d in
          if cp_cursor c < cp_cursor d then None
          else do { (p, _) \<leftarrow> split_bytes (cp_cursor d) (cp_buffer d); (_, q) \<leftarrow> split_bytes (cp_cursor c) (cp_buffer d);
                    Some (d\<lparr>cp_buffer := p @ q\<rparr>) } }"


definition push_history :: "str \<Rightarrow> composer \<Rightarrow> composer" where
  "push_history line c =
     (let c = (if starts_with (lit ''/'') line \<and> trim line \<noteq> [] then c\<lparr>cp_history := cp_history c @ [line]\<rparr> else c)
      in cancel_history_navigation c)"

definition load_history :: "nat \<Rightarrow> composer \<Rightarrow> composer option" where
  "load_history i c =
     (if i < length (cp_history c)
      then Some (c\<lparr>cp_position := Some i, cp_buffer := cp_history c ! i, cp_cursor := utf8_len (cp_history c ! i),
                   cp_autocomplete := no_autocomplete\<rparr>)
      else None)"

definition previous_history :: "composer \<Rightarrow> (bool \<times> composer) option" where
  "previous_history c =
     (if cp_history c = [] then Some (False, c)
      else let (i, c) = (case cp_position c of
                Some i \<Rightarrow> (i - 1, c)
              | None \<Rightarrow> (length (cp_history c) - 1, c\<lparr>cp_draft := Some (cp_buffer c)\<rparr>))
           in map_option (Pair True) (load_history i c))"

definition next_history :: "composer \<Rightarrow> (bool \<times> composer) option" where
  "next_history c =
     (case cp_position c of
        None \<Rightarrow> Some (False, c)
      | Some i \<Rightarrow>
          if i + 1 < length (cp_history c) then map_option (Pair True) (load_history (i + 1) c)
          else let draft = (case cp_draft c of Some d \<Rightarrow> d | None \<Rightarrow> [])
               in Some (True, c\<lparr>cp_buffer := draft, cp_cursor := utf8_len draft, cp_position := None, cp_draft := None\<rparr>))"

section \<open>The abstract editor\<close>

text \<open>The texts before and after the cursor, when the cursor is between two characters.\<close>

definition zip_of :: "composer \<Rightarrow> (str \<times> str) option" where
  "zip_of c = split_bytes (cp_cursor c) (cp_buffer c)"

datatype edit =
    EInsert uchar | EInsertStr str | EBackspace | EDelete | ELeft | ERight | EHome | EEnd
  | EWordLeft | EWordRight | EClearBefore | EClearAfter | EDeleteWord

fun edit_composer :: "edit \<Rightarrow> composer \<Rightarrow> composer option" where
  "edit_composer (EInsert ch) c = insert_char ch c"
| "edit_composer (EInsertStr text) c = insert_str text c"
| "edit_composer EBackspace c = backspace c"
| "edit_composer EDelete c = delete c"
| "edit_composer ELeft c = move_left c"
| "edit_composer ERight c = move_right c"
| "edit_composer EHome c = Some (move_home c)"
| "edit_composer EEnd c = Some (move_end c)"
| "edit_composer EWordLeft c = move_word_left c"
| "edit_composer EWordRight c = move_word_right c"
| "edit_composer EClearBefore c = clear_before_cursor c"
| "edit_composer EClearAfter c = clear_after_cursor c"
| "edit_composer EDeleteWord c = delete_word_before_cursor c"

definition ascii_space :: "uchar \<Rightarrow> bool" where
  "ascii_space ch \<longleftrightarrow> ch \<in> {9, 10, 12, 13, 32}"

text \<open>A text with the last word, and the white space after it, taken off; and its mirror image.\<close>

definition drop_while_end :: "(uchar \<Rightarrow> bool) \<Rightarrow> str \<Rightarrow> str" where
  "drop_while_end P s = rev (dropWhile P (rev s))"

definition drop_last_word :: "str \<Rightarrow> str" where
  "drop_last_word p = drop_while_end (\<lambda>ch. \<not> ascii_space ch) (drop_while_end ascii_space p)"

definition drop_first_word :: "str \<Rightarrow> str" where
  "drop_first_word q = dropWhile ascii_space (dropWhile (\<lambda>ch. \<not> ascii_space ch) q)"

definition take_rest :: "str \<Rightarrow> str \<Rightarrow> str" where
  "take_rest rest s = take (length s - length rest) s"

fun edit_zipper :: "edit \<Rightarrow> str \<times> str \<Rightarrow> str \<times> str" where
  "edit_zipper (EInsert ch) (p, q) = (p @ [ch], q)"
| "edit_zipper (EInsertStr text) (p, q) = (p @ text, q)"
| "edit_zipper EBackspace (p, q) = (butlast p, q)"
| "edit_zipper EDelete (p, q) = (p, tl q)"
| "edit_zipper ELeft (p, q) = (if p = [] then (p, q) else (butlast p, last p # q))"
| "edit_zipper ERight (p, q) = (if q = [] then (p, q) else (p @ [hd q], tl q))"
| "edit_zipper EHome (p, q) = ([], p @ q)"
| "edit_zipper EEnd (p, q) = (p @ q, [])"
| "edit_zipper EWordLeft (p, q) = (drop_last_word p, drop (length (drop_last_word p)) p @ q)"
| "edit_zipper EWordRight (p, q) = (p @ take_rest (drop_first_word q) q, drop_first_word q)"
| "edit_zipper EClearBefore (p, q) = ([], q)"
| "edit_zipper EClearAfter (p, q) = (p, [])"
| "edit_zipper EDeleteWord (p, q) = (drop_last_word p, q)"

section \<open>Refinement\<close>

lemma zip_of_some: "zip_of c = Some (p, q) \<longleftrightarrow> cp_buffer c = p @ q \<and> cp_cursor c = utf8_len p"
  by (auto simp: zip_of_def split_bytes_some)

lemma utf8_len_0 [simp]: "utf8_len p = 0 \<longleftrightarrow> p = []"
  by (cases p) auto

lemma utf8_len_pos [simp]: "0 < utf8_len p \<longleftrightarrow> p \<noteq> []"
  by (metis bot_nat_0.not_eq_extremum utf8_len_0)

lemma split_last_index: "p \<noteq> [] \<Longrightarrow> split_bytes (last_index p) p = Some (butlast p, [last p])"
  by (simp add: split_bytes_some last_index_def)

lemma next_index_hd: "q \<noteq> [] \<Longrightarrow> next_index q = utf8_width (hd q)"
  by (cases q) (auto simp: next_index_def split: list.split)

lemma split_next_index: "q \<noteq> [] \<Longrightarrow> split_bytes (next_index q) q = Some ([hd q], tl q)"
  by (cases q) (auto simp: split_bytes_some next_index_hd)

lemma length_bytes: "length (bytes_of s) = utf8_len s"
  by (induction s) (auto simp: bytes_of_def length_encode)

lemma bytes_append: "bytes_of (p @ q) = bytes_of p @ bytes_of q"
  by (simp add: bytes_of_def)

lemma unat_byte_mod: "unat (of_nat n :: byte) = n mod 256"
  by (simp add: unat_of_nat take_bit_eq_mod)

lemma encode_last: "unat (last (encode_utf8 ch)) \<in> {9, 10, 12, 13, 32} \<longleftrightarrow> ascii_space ch"
proof (cases "ch < 128")
  case True
  then show ?thesis by (simp add: encode_utf8_def ascii_space_def unat_byte)
next
  case False
  have *: "128 + ch mod 64 < 256" using mod_less_divisor [of 64 ch] by linarith
  have "unat (last (encode_utf8 ch)) = 128 + ch mod 64"
    using False unat_byte [OF *] by (simp add: encode_utf8_def)
  then show ?thesis using False by (auto simp: ascii_space_def)
qed

lemma encode_hd:
  assumes "is_scalar ch"
  shows "unat (hd (encode_utf8 ch)) \<in> {9, 10, 12, 13, 32} \<longleftrightarrow> ascii_space ch"
proof -
  define n where "n = (if ch < 128 then ch else if ch < 2048 then 192 + ch div 64 else if ch < 65536 then 224 + ch div 4096
     else 240 + ch div 262144)"
  have "hd (encode_utf8 ch) = of_nat n" by (simp add: encode_utf8_def n_def)
  moreover have "n < 256" "128 \<le> ch \<longrightarrow> 128 \<le> n" "ch < 128 \<longrightarrow> n = ch"
    using assms by (auto simp: n_def is_scalar_def)
  ultimately show ?thesis by (auto simp: unat_byte ascii_space_def)
qed

lemma encode_nonempty [simp]: "encode_utf8 ch \<noteq> []"
  using length_encode [of ch] width_pos [of ch] by (metis less_irrefl list.size(3))

lemma bytes_nonempty [simp]: "bytes_of s = [] \<longleftrightarrow> s = []"
  by (cases s) (auto simp: bytes_of_def)

lemma whitespace_before:
  assumes "zip_of c = Some (p, q)" "p \<noteq> []"
  shows "whitespace_at (cp_cursor c - 1) c = Some (ascii_space (last p))"
proof -
  have "bytes_of p = bytes_of (butlast p) @ encode_utf8 (last p)"
    using assms(2) by (metis append_butlast_last_id bytes_append append.right_neutral bytes_of_def concat.simps list.simps(8,9))
  then have "last (bytes_of p) = last (encode_utf8 (last p))" by simp
  moreover have pos: "0 < length (bytes_of p)" using assms(2) by simp
  have "utf8_len p - 1 < utf8_len p + utf8_len q" using pos unfolding length_bytes by linarith
  moreover have "bytes_of (p @ q) ! (utf8_len p - 1) = last (bytes_of p)"
    using pos assms(2) by (simp add: bytes_append nth_append length_bytes [symmetric] last_conv_nth)
  ultimately show ?thesis
    using assms encode_last [of "last p"] by (simp add: zip_of_some whitespace_at_def length_bytes Let_def)
qed

lemma whitespace_after:
  assumes "zip_of c = Some (p, q)" "q \<noteq> []" "is_scalar (hd q)"
  shows "whitespace_at (cp_cursor c) c = Some (ascii_space (hd q))"
proof -
  have "hd (bytes_of q) = hd (encode_utf8 (hd q))" using assms(2) by (cases q) (simp_all add: bytes_of_def)
  moreover have "bytes_of (p @ q) ! utf8_len p = hd (bytes_of q)" "0 < utf8_len q"
    using assms(2) by (simp_all add: bytes_append nth_append length_bytes hd_conv_nth)
  ultimately show ?thesis
    using assms encode_hd [of "hd q"] by (simp add: zip_of_some whitespace_at_def length_bytes Let_def)
qed

text \<open>The single steps, on a composer whose cursor is between the texts \<open>p\<close> and \<open>q\<close>.\<close>

lemma zip_move_left:
  assumes "zip_of c = Some (p, q)" "p \<noteq> []"
  obtains d where "move_left c = Some d" "zip_of d = Some (butlast p, last p # q)" "cp_buffer d = cp_buffer c"
proof
  show "move_left c = Some (c\<lparr>cp_cursor := last_index p\<rparr>)"
    using assms by (simp add: zip_of_some move_left_def)
  show "zip_of (c\<lparr>cp_cursor := last_index p\<rparr>) = Some (butlast p, last p # q)"
    using assms by (simp add: zip_of_some last_index_def)
qed simp

lemma zip_move_right:
  assumes "zip_of c = Some (p, q)" "q \<noteq> []"
  obtains d where "move_right c = Some d" "zip_of d = Some (p @ [hd q], tl q)" "cp_buffer d = cp_buffer c"
proof
  show "move_right c = Some (c\<lparr>cp_cursor := cp_cursor c + next_index q\<rparr>)"
    using assms by (simp add: zip_of_some move_right_def)
  show "zip_of (c\<lparr>cp_cursor := cp_cursor c + next_index q\<rparr>) = Some (p @ [hd q], tl q)"
    using assms by (simp add: zip_of_some next_index_hd)
qed simp

lemma drop_while_end_snoc: "drop_while_end P (p @ [ch]) = (if P ch then drop_while_end P p else p @ [ch])"
  by (simp add: drop_while_end_def)

lemma drop_while_end_prefix: "\<exists>r. p = drop_while_end P p @ r"
  by (metis drop_while_end_def rev_append rev_rev_ident takeWhile_dropWhile_id)

lemma drop_prefix: "p = a @ r \<Longrightarrow> drop (length a) p = r"
  by simp

lemma skip_left_zip:
  assumes "zip_of c = Some (p, q)"
  shows "\<exists>d. skip_left b c = Some d \<and> cp_buffer d = cp_buffer c
    \<and> zip_of d = Some (drop_while_end (\<lambda>ch. ascii_space ch = b) p, drop (length (drop_while_end (\<lambda>ch. ascii_space ch = b) p)) p @ q)"
  using assms
proof (induction p arbitrary: c q rule: rev_induct)
  case Nil
  then show ?case by (subst skip_left.simps) (simp add: zip_of_some drop_while_end_def)
next
  case (snoc ch p)
  have ws: "whitespace_at (cp_cursor c - 1) c = Some (ascii_space ch)" and pos: "cp_cursor c \<noteq> 0"
    using whitespace_before [OF snoc.prems] snoc.prems by (auto simp: zip_of_some)
  obtain d where d: "move_left c = Some d" "zip_of d = Some (p, ch # q)" "cp_buffer d = cp_buffer c"
    using zip_move_left [OF snoc.prems] by auto
  obtain r where r: "p = drop_while_end (\<lambda>ch. ascii_space ch = b) p @ r" using drop_while_end_prefix by blast
  show ?case
    using snoc.IH [OF d(2)] snoc.prems drop_prefix [OF r] arg_cong [OF r, of length] ws pos d
    by (subst skip_left.simps) (auto simp: drop_while_end_snoc)
qed

lemma take_rest_self [simp]: "take_rest q q = []"
  by (simp add: take_rest_def)

lemma take_rest_step: "length r \<le> length q \<Longrightarrow> take_rest r (ch # q) = ch # take_rest r q"
  by (simp add: take_rest_def Suc_diff_le)

lemma skip_right_zip:
  assumes "zip_of c = Some (p, q)" "list_all is_scalar q"
  shows "\<exists>d. skip_right b c = Some d \<and> cp_buffer d = cp_buffer c
    \<and> zip_of d = Some (p @ take_rest (dropWhile (\<lambda>ch. ascii_space ch = b) q) q, dropWhile (\<lambda>ch. ascii_space ch = b) q)"
  using assms
proof (induction q arbitrary: c p)
  case Nil
  then show ?case by (subst skip_right.simps) (simp add: zip_of_some)
next
  case (Cons ch q)
  have ws: "whitespace_at (cp_cursor c) c = Some (ascii_space ch)" and pos: "cp_cursor c < utf8_len (cp_buffer c)"
    using whitespace_after [OF Cons.prems(1)] Cons.prems by (auto simp: zip_of_some)
  obtain d where d: "move_right c = Some d" "zip_of d = Some (p @ [ch], q)" "cp_buffer d = cp_buffer c"
    using zip_move_right [OF Cons.prems(1)] by auto
  show ?case
    using Cons.IH [OF d(2)] Cons.prems ws pos d
    by (subst skip_right.simps) (auto simp: take_rest_step length_dropWhile_le)
qed

lemma zip_cancel [simp]: "zip_of (cancel_history_navigation c) = zip_of c"
  by (simp add: zip_of_def cancel_history_navigation_def)

lemma drop_last_word_zip:
  assumes "zip_of c = Some (p, q)"
  shows "\<exists>d. move_word_left c = Some d \<and> cp_buffer d = cp_buffer c
    \<and> zip_of d = Some (drop_last_word p, drop (length (drop_last_word p)) p @ q)"
proof -
  let ?p = "drop_while_end ascii_space p"
  obtain d where d: "skip_left True c = Some d" "cp_buffer d = cp_buffer c" "zip_of d = Some (?p, drop (length ?p) p @ q)"
    using skip_left_zip [OF assms, of True] by auto
  obtain e where e: "skip_left False d = Some e" "cp_buffer e = cp_buffer d" "zip_of e = Some (drop_last_word p,
      drop (length (drop_last_word p)) ?p @ drop (length ?p) p @ q)"
    using skip_left_zip [OF d(3), of False] by (auto simp: drop_last_word_def)
  have "drop (length (drop_last_word p)) ?p @ drop (length ?p) p = drop (length (drop_last_word p)) p"
    using drop_while_end_prefix [of p ascii_space] drop_while_end_prefix [of ?p "\<lambda>ch. \<not> ascii_space ch"]
    unfolding drop_last_word_def by (metis append_assoc append_eq_conv_conj)
  then show ?thesis using d e by (auto simp: move_word_left_def zip_of_some)
qed

definition edit_ok :: "edit \<Rightarrow> bool" where
  "edit_ok e = (case e of EInsert ch \<Rightarrow> is_scalar ch | EInsertStr text \<Rightarrow> list_all is_scalar text | _ \<Rightarrow> True)"

lemma drop_while_end_append: "drop_while_end P p = p' \<Longrightarrow> p = p' @ drop (length p') p"
  by (metis append_eq_conv_conj drop_while_end_prefix)

lemma drop_last_word_append: "drop_last_word p @ drop (length (drop_last_word p)) p = p"
  by (metis drop_last_word_def drop_while_end_append drop_while_end_prefix append_assoc append_eq_conv_conj)

lemma dropWhile_suffix: "\<exists>r. q = r @ dropWhile P q"
  by (metis takeWhile_dropWhile_id)

lemma drop_first_word_append: "take_rest (drop_first_word q) q @ drop_first_word q = q"
proof -
  obtain r where "q = r @ drop_first_word q"
    unfolding drop_first_word_def by (metis dropWhile_suffix append_assoc)
  then show ?thesis by (metis append_eq_conv_conj length_append add_diff_cancel_right' take_rest_def)
qed

lemma drop_first_word_zip:
  assumes "zip_of c = Some (p, q)" "list_all is_scalar q"
  shows "\<exists>d. move_word_right c = Some d
    \<and> zip_of d = Some (p @ take_rest (drop_first_word q) q, drop_first_word q)"
proof -
  let ?q = "dropWhile (\<lambda>ch. \<not> ascii_space ch) q"
  obtain d where d: "skip_right False c = Some d" "cp_buffer d = cp_buffer c" "zip_of d = Some (p @ take_rest ?q q, ?q)"
    using skip_right_zip [OF assms, of False] by auto
  have "list_all is_scalar ?q" using assms(2) by (metis dropWhile_suffix list_all_append)
  from skip_right_zip [OF d(3) this, of True]
  obtain e where e: "skip_right True d = Some e" "cp_buffer e = cp_buffer d"
      "zip_of e = Some ((p @ take_rest ?q q) @ take_rest (drop_first_word q) ?q, drop_first_word q)"
    by (auto simp: drop_first_word_def)
  have "p @ q = ((p @ take_rest ?q q) @ take_rest (drop_first_word q) ?q) @ drop_first_word q"
    using e assms(1) d(2) by (simp add: zip_of_some)
  then have "take_rest ?q q @ take_rest (drop_first_word q) ?q = take_rest (drop_first_word q) q"
    using drop_first_word_append [of q] by (metis append_assoc append_same_eq same_append_eq)
  then show ?thesis using d(1) e by (simp add: move_word_right_def)
qed

lemma zip_eqs:
  assumes "zip_of c = Some (p, q)"
  shows "cp_cursor c = 0 \<longleftrightarrow> p = []" "utf8_len (cp_buffer c) \<le> cp_cursor c \<longleftrightarrow> q = []"
    "split_bytes (cp_cursor c) (cp_buffer c) = Some (p, q)"
proof -
  show "cp_cursor c = 0 \<longleftrightarrow> p = []" using assms by (simp add: zip_of_some)
  show "utf8_len (cp_buffer c) \<le> cp_cursor c \<longleftrightarrow> q = []"
    using assms utf8_len_pos [of q] by (auto simp: zip_of_some simp del: utf8_len_pos)
qed (use assms in \<open>simp add: zip_of_def\<close>)

lemma edit_refines:
  assumes z: "zip_of c = Some (p, q)" and t: "list_all is_scalar (cp_buffer c)" and e: "edit_ok e"
  shows "\<exists>d. edit_composer e c = Some d \<and> zip_of d = Some (edit_zipper e (p, q)) \<and> list_all is_scalar (cp_buffer d)"
proof -
  have pq: "list_all is_scalar p" "list_all is_scalar q" "cp_buffer c = p @ q" "cp_cursor c = utf8_len p"
    using z t by (simp_all add: zip_of_some)
  note zs = zip_eqs [OF z]
  have last: "list_all is_scalar (butlast p)" "list_all is_scalar (tl q)"
    using pq by (auto simp: list_all_iff dest: in_set_butlastD) (cases q, auto)
  have cut: "list_all is_scalar (drop_last_word p)"
    using pq(1) by (subst (asm) drop_last_word_append [symmetric]) simp
  show ?thesis
  proof (cases e)
    case (EInsert ch)
    then show ?thesis using e pq by (simp add: insert_char_def cancel_history_navigation_def zip_of_some Let_def edit_ok_def)
  next
    case (EInsertStr s)
    then show ?thesis using e pq by (simp add: insert_str_def cancel_history_navigation_def zip_of_some Let_def edit_ok_def)
  next
    case EBackspace
    then show ?thesis using pq zs last
      by (cases "p = []") (simp_all add: backspace_def cancel_history_navigation_def zip_of_some Let_def split_last_index)
  next
    case EDelete
    show ?thesis
    proof (cases "q = []")
      case True
      then show ?thesis using EDelete z zs(2) t by (simp add: delete_def)
    next
      case False
      have "delete c = Some ((cancel_history_navigation c)\<lparr>cp_buffer := p @ tl q\<rparr>)"
        using False zs by (simp add: delete_def cancel_history_navigation_def Let_def split_next_index)
      then show ?thesis using EDelete pq last by (simp add: zip_of_some cancel_history_navigation_def)
    qed
  next
    case ELeft
    show ?thesis
    proof (cases "p = []")
      case True
      then show ?thesis using ELeft z zs(1) t by (simp add: move_left_def)
    next
      case False
      obtain d where "move_left c = Some d" "zip_of d = Some (edit_zipper ELeft (p, q))" "cp_buffer d = cp_buffer c"
        using zip_move_left [OF z False] False by (metis edit_zipper.simps(5))
      then show ?thesis using ELeft t by simp
    qed
  next
    case ERight
    show ?thesis
    proof (cases "q = []")
      case True
      then show ?thesis using ERight z zs(2) t by (simp add: move_right_def)
    next
      case False
      obtain d where "move_right c = Some d" "zip_of d = Some (edit_zipper ERight (p, q))" "cp_buffer d = cp_buffer c"
        using zip_move_right [OF z False] False by (metis edit_zipper.simps(6))
      then show ?thesis using ERight t by simp
    qed
  next
    case EHome
    then show ?thesis using pq by (simp add: move_home_def zip_of_some)
  next
    case EEnd
    then show ?thesis using pq by (simp add: move_end_def zip_of_some)
  next
    case EWordLeft
    then show ?thesis using drop_last_word_zip [OF z] t by auto
  next
    case EWordRight
    obtain d where "move_word_right c = Some d" "zip_of d = Some (p @ take_rest (drop_first_word q) q, drop_first_word q)"
      using drop_first_word_zip [OF z pq(2)] by blast
    moreover then have "cp_buffer d = p @ q" using drop_first_word_append [of q] by (simp add: zip_of_some)
    ultimately show ?thesis using EWordRight pq by simp
  next
    case EClearBefore
    then show ?thesis using pq zs by (simp add: clear_before_cursor_def cancel_history_navigation_def zip_of_some Let_def)
  next
    case EClearAfter
    then show ?thesis using pq zs by (simp add: clear_after_cursor_def cancel_history_navigation_def zip_of_some Let_def)
  next
    case EDeleteWord
    obtain d where d: "move_word_left c = Some d" "cp_buffer d = cp_buffer c"
        "zip_of d = Some (drop_last_word p, drop (length (drop_last_word p)) p @ q)"
      using drop_last_word_zip [OF z] by blast
    have "utf8_len (drop_last_word p) \<le> utf8_len p"
      by (metis drop_last_word_append utf8_len_append le_add1)
    then have "cp_cursor d \<le> cp_cursor c" using d(3) pq(4) by (simp add: zip_of_some)
    moreover have "split_bytes (cp_cursor c) (cp_buffer d) = Some (p, q)" using d(2) zs(3) by simp
    ultimately have "delete_word_before_cursor c = Some ((cancel_history_navigation d)\<lparr>cp_buffer := drop_last_word p @ q\<rparr>)"
      using d(1) zip_eqs(3) [OF d(3)] by (simp add: delete_word_before_cursor_def cancel_history_navigation_def Let_def)
    then show ?thesis using EDeleteWord d(3) pq(2) cut by (simp add: cancel_history_navigation_def zip_of_some)
  qed
qed

fun edit_all :: "edit list \<Rightarrow> composer \<Rightarrow> composer option" where
  "edit_all [] c = Some c"
| "edit_all (e # es) c = (case edit_composer e c of None \<Rightarrow> None | Some d \<Rightarrow> edit_all es d)"

text \<open>
  C30: Whatever is typed, pasted, moved and deleted, the line editor never slices inside a character: it
  runs every sequence of edits to its end, and does to the texts before and after the cursor what
  the abstract editor does.
\<close>

theorem editor_refined:
  assumes "zip_of c = Some z" "list_all is_scalar (cp_buffer c)" "list_all edit_ok es"
  shows "\<exists>d. edit_all es c = Some d \<and> zip_of d = Some (fold edit_zipper es z)"
  using assms
proof (induction es arbitrary: c z)
  case (Cons e es)
  obtain p q where z: "z = (p, q)" by fastforce
  from Cons.prems z obtain d where "edit_composer e c = Some d" "zip_of d = Some (edit_zipper e (p, q))"
      "list_all is_scalar (cp_buffer d)"
    using edit_refines [of c p q e] by auto
  with Cons.IH [of d "edit_zipper e (p, q)"] Cons.prems z show ?case by simp
qed simp

text \<open>Typing a dollar sign and an accented word, going back a word, deleting a character, and typing again.\<close>

theorem editor_refined_witness:
  "\<exists>d. edit_all [EInsertStr (lit ''go ''), EInsert 233, EInsert 8364, EWordLeft, EDelete, EInsert 120, EEnd] new_composer = Some d
     \<and> zip_of d = Some (lit ''go x'' @ [8364], [])"
proof -
  have "\<exists>d. edit_all [EInsertStr (lit ''go ''), EInsert 233, EInsert 8364, EWordLeft, EDelete, EInsert 120, EEnd] new_composer = Some d
     \<and> zip_of d = Some (fold edit_zipper [EInsertStr (lit ''go ''), EInsert 233, EInsert 8364, EWordLeft, EDelete, EInsert 120, EEnd] ([], []))"
    by (rule editor_refined) (simp_all add: new_composer_def zip_of_some edit_ok_def is_scalar_def lit_def)
  then show ?thesis
    by (simp add: lit_def drop_last_word_def drop_while_end_def ascii_space_def)
qed

section \<open>The history\<close>

text \<open>Going up through the history and down again as often brings back the draft.\<close>

fun times_up :: "nat \<Rightarrow> composer \<Rightarrow> composer option" where
  "times_up 0 c = Some c"
| "times_up (Suc n) c = (case previous_history c of None \<Rightarrow> None | Some (_, d) \<Rightarrow> times_up n d)"

fun times_down :: "nat \<Rightarrow> composer \<Rightarrow> composer option" where
  "times_down 0 c = Some c"
| "times_down (Suc n) c = (case next_history c of None \<Rightarrow> None | Some (_, d) \<Rightarrow> times_down n d)"

text \<open>Navigating at line \<open>i\<close> of the history with a draft.\<close>

definition browsing :: "nat \<Rightarrow> str \<Rightarrow> str list \<Rightarrow> composer \<Rightarrow> bool" where
  "browsing i draft h c \<longleftrightarrow> cp_history c = h \<and> i < length h \<and> cp_position c = Some i \<and> cp_draft c = Some draft
     \<and> cp_buffer c = h ! i"

lemma up_from_draft:
  assumes "cp_position c = None" "cp_history c \<noteq> []"
  shows "\<exists>d. previous_history c = Some (True, d) \<and> browsing (length (cp_history c) - 1) (cp_buffer c) (cp_history c) d"
  using assms by (simp add: previous_history_def load_history_def browsing_def)

lemma up_again: "browsing i draft h c \<Longrightarrow> \<exists>d. previous_history c = Some (True, d) \<and> browsing (i - 1) draft h d"
  by (auto simp: previous_history_def load_history_def browsing_def)

lemma down_again:
  "browsing i draft h c \<Longrightarrow> Suc i < length h \<Longrightarrow> \<exists>d. next_history c = Some (True, d) \<and> browsing (Suc i) draft h d"
  by (auto simp: next_history_def load_history_def browsing_def)

lemma down_to_draft:
  "browsing i draft h c \<Longrightarrow> Suc i = length h \<Longrightarrow>
     \<exists>d. next_history c = Some (True, d) \<and> cp_buffer d = draft \<and> cp_position d = None \<and> cp_cursor d = utf8_len draft"
  by (auto simp: next_history_def browsing_def)

lemma ups: "browsing i draft h c \<Longrightarrow> n \<le> i \<Longrightarrow> \<exists>d. times_up n c = Some d \<and> browsing (i - n) draft h d"
proof (induction n arbitrary: i c)
  case (Suc n)
  from up_again [OF Suc.prems(1)] obtain d where d: "previous_history c = Some (True, d)" "browsing (i - 1) draft h d" by blast
  with Suc.IH [OF d(2)] Suc.prems(2) show ?case by simp
qed simp

lemma downs:
  "browsing i draft h c \<Longrightarrow> i + n = length h \<Longrightarrow>
     \<exists>d. times_down n c = Some d \<and> cp_buffer d = draft \<and> cp_position d = None \<and> cp_cursor d = utf8_len draft"
proof (induction n arbitrary: i c)
  case (Suc n)
  show ?case
  proof (cases n)
    case 0
    with Suc.prems down_to_draft [OF Suc.prems(1)] show ?thesis by auto
  next
    case (Suc m)
    then obtain d where d: "next_history c = Some (True, d)" "browsing (Suc i) draft h d"
      using down_again [OF Suc.prems(1)] Suc.prems(2) by auto
    with Suc.IH [OF d(2)] Suc.prems(2) show ?thesis by simp
  qed
qed (simp add: browsing_def)

lemma history_up_down:
  assumes "cp_position c = None" "0 < n" "n \<le> length (cp_history c)"
  shows "\<exists>d e. times_up n c = Some d \<and> cp_buffer d = cp_history c ! (length (cp_history c) - n)
    \<and> times_down n d = Some e \<and> cp_buffer e = cp_buffer c \<and> cp_position e = None \<and> cp_cursor e = utf8_len (cp_buffer c)"
proof -
  obtain m where n: "n = Suc m" using assms(2) by (cases n) auto
  obtain b where b: "previous_history c = Some (True, b)"
      "browsing (length (cp_history c) - 1) (cp_buffer c) (cp_history c) b"
    using up_from_draft [OF assms(1)] assms(2,3) by fastforce
  have "m \<le> length (cp_history c) - 1" "length (cp_history c) - 1 - m = length (cp_history c) - n" using assms(3) n by simp_all
  with ups [OF b(2), of m]
  obtain d where d: "times_up m b = Some d" "browsing (length (cp_history c) - n) (cp_buffer c) (cp_history c) d" by metis
  from downs [OF d(2), of n] assms(3) show ?thesis using b(1) d n by (auto simp: browsing_def)
qed

end
