(* ===== verification/Completion.thy ===== *)
theory Completion
  imports Commands Composer
begin

text \<open>
  The palette and the completions of the command line: \<open>palette_items\<close> and \<open>autocomplete\<close> of
  \<open>app/commands/registry.rs\<close>, \<open>app/commands/autocomplete.rs\<close> and \<open>fuzzy_score\<close> of \<open>app/state.rs\<close>.
  The source slices the buffer by byte offsets, so a completion is an option, \<open>None\<close> where it
  panics. The table of the \<open>emojis\<close> crate and Unicode lower-casing are parameters.
\<close>

section \<open>Fuzzy search\<close>

text \<open>The characters of the needle in order; a gap costs its length in bytes.\<close>

fun subsequence_score :: "str \<Rightarrow> str \<Rightarrow> int \<Rightarrow> int option" where
  "subsequence_score haystack [] score = Some score"
| "subsequence_score haystack (c # needle) score =
     (case str_find [c] haystack of None \<Rightarrow> None
      | Some found \<Rightarrow> subsequence_score (tl (dropWhile (\<lambda>x. x \<noteq> c) haystack)) needle (score + (20 - int found)))"

definition fuzzy_score :: "(str \<Rightarrow> str) \<Rightarrow> str \<Rightarrow> str \<Rightarrow> int option" where
  "fuzzy_score lc haystack needle =
     (if trim needle = [] then Some 0
      else let haystack = lc haystack; needle = lc needle in
        case str_find needle haystack of
          Some i \<Rightarrow> Some (1000 - int i)
        | None \<Rightarrow> subsequence_score haystack needle 0)"

text \<open>Those of the items that match, best first, in their order where the scores agree.\<close>

definition best_first :: "('a \<Rightarrow> int option) \<Rightarrow> 'a list \<Rightarrow> 'a list" where
  "best_first score items =
     map snd (sort_key (\<lambda>(s, _). - s) (List.map_filter (\<lambda>i. map_option (\<lambda>s. (s, i)) (score i)) items))"

lemma set_best_first: "set (best_first score items) \<subseteq> set items"
  by (auto simp: best_first_def List.map_filter_def)

section \<open>The palette\<close>

definition prompt_item :: "string \<Rightarrow> string \<Rightarrow> string \<Rightarrow> string option \<Rightarrow> string \<Rightarrow> string \<Rightarrow> string \<Rightarrow> palette_item" where
  "prompt_item label detail category shortcut title pre placeholder =
     \<lparr>pi_label = lit label, pi_detail = lit detail, pi_category = lit category, pi_shortcut = map_option lit shortcut,
      pi_executor = XPrompt (lit title) (lit pre) (lit placeholder)\<rparr>"

definition action_item :: "string \<Rightarrow> string \<Rightarrow> string \<Rightarrow> string option \<Rightarrow> command_executor \<Rightarrow> palette_item" where
  "action_item label detail category shortcut executor =
     \<lparr>pi_label = lit label, pi_detail = lit detail, pi_category = lit category, pi_shortcut = map_option lit shortcut,
      pi_executor = executor\<rparr>"

definition fixed_items :: "palette_item list" where
  "fixed_items =
     [prompt_item ''Create thread'' ''title'' ''Create'' (Some ''Ctrl-X T'') ''New thread'' ''/thread new '' ''title'',
      prompt_item ''Open DM'' ''@username'' ''Navigate'' (Some ''Ctrl-X D'') ''Open DM'' ''/dm open '' ''@username'',
      prompt_item ''Create channel'' ''public channel'' ''Create'' (Some ''Ctrl-X C'') ''Create channel'' ''/channel new '' ''channel-name'',
      action_item ''Create invite'' ''one-time invite code'' ''Admin'' None (XAction ACreateInvite),
      action_item ''Link new device'' ''one-time token for another SSH key'' ''Account'' None (XAction (ACreateDeviceLinkToken None)),
      action_item ''Account settings'' ''profile and SSH keys'' ''Account'' None (XAction AOpenAccount),
      action_item ''Mark thread read'' ''clear unread count'' ''Read state'' (Some ''Ctrl-X M'') (XAction AMarkThreadRead),
      action_item ''Mark thread unread'' ''set unread marker'' ''Read state'' (Some ''Ctrl-X U'') (XAction AMarkThreadUnread),
      action_item ''Next unread'' ''jump to unread activity'' ''Navigate'' (Some ''Ctrl-X N'') (XAction ANextUnread),
      action_item ''Help'' ''keyboard reference'' ''System'' (Some ''Ctrl-X ?'') (XMode Help),
      action_item ''Quit'' ''disconnect'' ''System'' (Some ''Ctrl-X Q'') XQuit]"

definition subcommand_item :: "command_spec \<Rightarrow> subcommand_spec \<Rightarrow> palette_item" where
  "subcommand_item spec s =
     (let line = lit ''/'' @ cs_name spec @ [c_space] @ sb_name s in
      \<lparr>pi_label = line, pi_detail = sb_args s, pi_category = cs_category spec, pi_shortcut = None,
       pi_executor = XPrompt (sb_description s) (line @ (if sb_args s = [] then [] else [c_space])) (sb_args s)\<rparr>)"

definition command_item :: "command_spec \<Rightarrow> palette_item" where
  "command_item spec =
     (let line = lit ''/'' @ cs_name spec in
      \<lparr>pi_label = line, pi_detail = cs_args spec, pi_category = cs_category spec, pi_shortcut = cs_shortcut spec,
       pi_executor = XPrompt (cs_description spec) (line @ (if cs_args spec = [] then [] else [c_space])) (cs_args spec)\<rparr>)"

definition command_items :: "palette_item list" where
  "command_items =
     concat (map (\<lambda>spec. if cs_name spec \<in> {lit ''help'', lit ''quit''} then []
        else if subcommands_for (cs_name spec) = [] then [command_item spec]
        else map (subcommand_item spec) (subcommands_for (cs_name spec))) command_specs)"

definition visibility_label :: "visibility \<Rightarrow> str" where
  "visibility_label v = (case v of Public \<Rightarrow> lit ''public'' | Private \<Rightarrow> lit ''private'')"

definition value_or :: "'a option \<Rightarrow> 'a \<Rightarrow> 'a" where
  "value_or x d = (case x of Some v \<Rightarrow> v | None \<Rightarrow> d)"

definition channel_item :: "channel \<Rightarrow> palette_item" where
  "channel_item c =
     \<lparr>pi_label = c_hash # ci_slug c, pi_detail = value_or (ci_topic c) (visibility_label (ci_visibility c)),
      pi_category = lit ''Channels'', pi_shortcut = None, pi_executor = XSwitchChannel (ci_id c)\<rparr>"

definition conversation_item :: "dm_item \<Rightarrow> palette_item" where
  "conversation_item d =
     \<lparr>pi_label = c_at # ds_peer_username d, pi_detail = value_or (ds_last_message_preview d) (lit ''direct message''),
      pi_category = lit ''DMs'', pi_shortcut = None, pi_executor = XSwitchDm (value_or (ds_conversation_id d) [])\<rparr>"

text \<open>183 is the middle dot.\<close>

definition thread_palette_item :: "thread_item \<Rightarrow> palette_item" where
  "thread_palette_item t =
     \<lparr>pi_label = ti_title t,
      pi_detail = lit ''@'' @ ti_author t @ [c_space, 183, c_space] @ show_int (ti_comment_count t) @ lit '' comments'',
      pi_category = lit ''Threads'', pi_shortcut = None, pi_executor = XSwitchThread (ti_id t)\<rparr>"

definition palette_items :: "'a snapshot_scheme \<Rightarrow> palette_item list" where
  "palette_items sn =
     fixed_items @ command_items @ map channel_item (sn_channels sn)
     @ map conversation_item (sn_conversations sn) @ map thread_palette_item (sn_threads sn)"

definition palette_autocomplete_item :: "nat \<times> nat \<Rightarrow> palette_item \<Rightarrow> autocomplete_item" where
  "palette_autocomplete_item span item =
     \<lparr>ai_start = fst span, ai_end = snd span, ai_replacement = pi_label item, ai_label = pi_label item,
      ai_detail = pi_category item,
      ai_preview = (case pi_shortcut item of
          Some sc \<Rightarrow> if sc \<noteq> [] then sc @ [c_space, 183, c_space] @ pi_detail item else pi_detail item
        | None \<Rightarrow> pi_detail item),
      ai_accept_on_enter = True, ai_accept_on_tab = True, ai_executor = Some (pi_executor item)\<rparr>"


section \<open>Suggestions\<close>

text \<open>What completions take from outside: lower-casing, the clock that presence is judged by, the emoji table.\<close>

record emoji =
  em_str :: str
  em_name :: str
  em_shortcodes :: "str list"
  em_version :: "nat \<times> nat"

record completer =
  cm_env :: env
  cm_now :: nat
  cm_lower_char :: "uchar \<Rightarrow> str"
  cm_emojis :: "emoji list"

definition eq_ignore_ascii_case :: "str \<Rightarrow> str \<Rightarrow> bool" where
  "eq_ignore_ascii_case a b \<longleftrightarrow> ascii_lowercase a = ascii_lowercase b"

definition not_current :: "'a snapshot_scheme \<Rightarrow> str \<Rightarrow> bool" where
  "not_current sn user \<longleftrightarrow> (case sn_username sn of None \<Rightarrow> True | Some current \<Rightarrow> \<not> eq_ignore_ascii_case user current)"

definition known_users :: "'a snapshot_scheme \<Rightarrow> str list" where
  "known_users sn =
     (let users = map up_username (sn_users sn) @ map ds_peer_username (sn_conversations sn)
            @ map ti_author (sn_threads sn) @ map it_author (sn_comments sn) @ map it_author (sn_messages sn)
      in remdups_adj (sort (filter (not_current sn) (filter (\<lambda>u. trim u \<noteq> []) users))))"

definition add_suggestion :: "str \<Rightarrow> (str \<times> str) list \<Rightarrow> (str \<times> str) list" where
  "add_suggestion user suggestions =
     (let label = c_at # user in
      if list_ex (\<lambda>(existing, _). eq_ignore_ascii_case existing label) suggestions then suggestions
      else suggestions @ [(label, lit ''user'')])"

definition dm_suggestions :: "completer \<Rightarrow> 'a snapshot_scheme \<Rightarrow> (str \<times> str) list" where
  "dm_suggestions C sn =
     fold add_suggestion (known_users sn)
       (map (\<lambda>u. (c_at # up_username u, presence_state_label (presence_state_of (cm_env C) (cm_now C) u)))
         (filter (\<lambda>u. not_current sn (up_username u)) (sn_users sn)))"

definition label_suggestions :: "'a snapshot_scheme \<Rightarrow> (str \<times> str) list" where
  "label_suggestions sn =
     map (\<lambda>t. (c_dollar # hl_tag t,
        show_int (hl_count t) @ c_space # (if hl_count t = 1 then lit ''message'' else lit ''messages''))) (sn_hot_labels sn)"

definition argument_suggestions :: "completer \<Rightarrow> str \<Rightarrow> str \<Rightarrow> 'a snapshot_scheme \<Rightarrow> (str \<times> str) list" where
  "argument_suggestions C command subcommand sn =
     (if command = lit ''channel'' \<and> is_named subcommand
           [''join'', ''leave'', ''rename'', ''topic'', ''archive'', ''unarchive'', ''members'', ''add'', ''remove'']
      then map (\<lambda>c. (c_hash # ci_slug c, visibility_label (ci_visibility c))) (sn_channels sn)
      else if command = lit ''dm'' \<and> subcommand = lit ''open'' then dm_suggestions C sn
      else if command = lit ''user'' \<and> is_named subcommand [''disable'', ''enable'', ''role'']
      then map (\<lambda>u. (c_at # u, lit ''user'')) (known_users sn)
      else [])"

definition completions :: "autocomplete_item list \<Rightarrow> autocomplete_state" where
  "completions items = \<lparr>ac_open = (items \<noteq> []), ac_items = take 8 items, ac_selected = 0\<rparr>"

definition autocomplete_arguments_with_empty_enter ::
  "completer \<Rightarrow> nat \<times> nat \<Rightarrow> str \<Rightarrow> (str \<times> str) list \<Rightarrow> str \<Rightarrow> bool \<Rightarrow> bool \<Rightarrow> autocomplete_state" where
  "autocomplete_arguments_with_empty_enter C span arg_prefix suggestions preview accept_on_enter accept_empty_on_enter =
     (let arg_prefix = dropWhile (\<lambda>c. c \<in> {c_hash, c_at, c_dollar}) arg_prefix in
      completions (map (\<lambda>(label, detail).
          \<lparr>ai_start = fst span, ai_end = snd span, ai_replacement = label, ai_label = label, ai_detail = detail,
           ai_preview = preview, ai_accept_on_enter = (accept_on_enter \<and> (accept_empty_on_enter \<or> arg_prefix \<noteq> [])),
           ai_accept_on_tab = True, ai_executor = None\<rparr>)
        (best_first (\<lambda>(label, _). fuzzy_score (e_lc (cm_env C)) label arg_prefix) suggestions)))"

definition autocomplete_arguments ::
  "completer \<Rightarrow> nat \<times> nat \<Rightarrow> str \<Rightarrow> (str \<times> str) list \<Rightarrow> str \<Rightarrow> bool \<Rightarrow> autocomplete_state" where
  "autocomplete_arguments C span arg_prefix suggestions preview accept_on_enter =
     autocomplete_arguments_with_empty_enter C span arg_prefix suggestions preview accept_on_enter False"

section \<open>Tokens at the cursor\<close>

text \<open>
  The last trigger character before the cursor, what is before it and what is between it and the
  cursor; the token reaches on to the end of the name characters after the cursor.
\<close>

definition token_at :: "uchar \<Rightarrow> (str \<Rightarrow> bool) \<Rightarrow> (uchar \<Rightarrow> bool) \<Rightarrow> str \<Rightarrow> nat \<Rightarrow> ((nat \<times> nat) \<times> str) option" where
  "token_at trigger boundary token_char buffer cursor_arg =
     (let cursor = min cursor_arg (utf8_len buffer) in
      case split_bytes cursor buffer of None \<Rightarrow> None
      | Some (p, q) \<Rightarrow>
          if trigger \<notin> set p then None
          else let pre = rev (takeWhile (\<lambda>c. c \<noteq> trigger) (rev p));
                   before = take (length p - length pre - 1) p
               in if boundary before \<and> list_all token_char pre
                  then Some ((utf8_len before, cursor + utf8_len (takeWhile token_char q)), pre) else None)"

definition is_mention_name_char :: "uchar \<Rightarrow> bool" where
  "is_mention_name_char c \<longleftrightarrow> is_ascii_alphanumeric c \<or> c \<in> {c_underscore, c_dash, c_dot}"

definition active_mention_token :: "str \<Rightarrow> nat \<Rightarrow> ((nat \<times> nat) \<times> str) option" where
  "active_mention_token =
     token_at c_at (\<lambda>before. before = [] \<or> \<not> is_mention_name_char (last before)) is_mention_name_char"

definition active_label_token :: "str \<Rightarrow> nat \<Rightarrow> ((nat \<times> nat) \<times> str) option" where
  "active_label_token = token_at c_dollar (\<lambda>before. before = [] \<or> \<not> is_label_char (last before)) is_label_char"

definition is_emoji_trigger_boundary :: "uchar \<Rightarrow> bool" where
  "is_emoji_trigger_boundary c \<longleftrightarrow> is_whitespace c \<or> c \<in> {40, 91, 123, 60, 34, 39, 96}"

definition is_emoji_query_char :: "uchar \<Rightarrow> bool" where
  "is_emoji_query_char c \<longleftrightarrow> is_ascii_alphanumeric c \<or> c \<in> {c_underscore, c_dash, 43}"

definition active_emoji_token :: "str \<Rightarrow> nat \<Rightarrow> ((nat \<times> nat) \<times> str) option" where
  "active_emoji_token = token_at 58 (\<lambda>before. before = [] \<or> is_emoji_trigger_boundary (last before)) is_emoji_query_char"

definition autocomplete_mentions :: "completer \<Rightarrow> str \<Rightarrow> nat \<Rightarrow> 'a snapshot_scheme \<Rightarrow> autocomplete_state" where
  "autocomplete_mentions C buffer cursor sn =
     (case active_mention_token buffer cursor of None \<Rightarrow> no_autocomplete
      | Some (span, pre) \<Rightarrow> autocomplete_arguments C span pre (dm_suggestions C sn) (lit ''Mention user'') True)"

definition autocomplete_labels :: "completer \<Rightarrow> str \<Rightarrow> nat \<Rightarrow> 'a snapshot_scheme \<Rightarrow> autocomplete_state" where
  "autocomplete_labels C buffer cursor sn =
     (case active_label_token buffer cursor of None \<Rightarrow> no_autocomplete
      | Some (span, pre) \<Rightarrow> autocomplete_arguments C span pre (label_suggestions sn) (lit ''Message label'') True)"

section \<open>Emoji\<close>

definition normalize_step :: "uchar \<Rightarrow> str \<times> bool \<Rightarrow> str \<times> bool" where
  "normalize_step c = (\<lambda>(out, last_was_space).
     if is_ascii_alphanumeric c then (out @ [c], False)
     else if c \<in> {c_underscore, c_dash, 43, 58, c_space} \<and> out \<noteq> [] \<and> \<not> last_was_space then (out @ [c_space], True)
     else (out, last_was_space))"

definition normalize_emoji_search_text :: "completer \<Rightarrow> str \<Rightarrow> str" where
  "normalize_emoji_search_text C v =
     (let (out, last_was_space) = fold normalize_step (concat (map (cm_lower_char C) v)) ([], False)
      in if last_was_space then butlast out else out)"

definition emoji_match_score :: "completer \<Rightarrow> str \<Rightarrow> emoji \<Rightarrow> int option" where
  "emoji_match_score C normalized_prefix e =
     (let score = (\<lambda>t. fuzzy_score (e_lc (cm_env C)) (normalize_emoji_search_text C t) normalized_prefix);
          scores = List.map_filter (\<lambda>code. map_option (\<lambda>s. s + 50) (score code)) (em_shortcodes e)
            @ (case score (em_name e) of None \<Rightarrow> [] | Some s \<Rightarrow> [s])
      in if scores = [] then None else Some (Max (set scores)))"

definition autocomplete_emojis_with_options :: "completer \<Rightarrow> str \<Rightarrow> nat \<Rightarrow> bool \<Rightarrow> autocomplete_state" where
  "autocomplete_emojis_with_options C buffer cursor accept_empty_on_enter =
     (case active_emoji_token buffer cursor of None \<Rightarrow> no_autocomplete
      | Some (span, pre) \<Rightarrow>
          let normalized_prefix = normalize_emoji_search_text C pre;
              scored = List.map_filter (\<lambda>e. map_option (\<lambda>s. (s, e)) (emoji_match_score C normalized_prefix e)) (cm_emojis C)
          in completions (map (\<lambda>(_, e).
              \<lparr>ai_start = fst span, ai_end = snd span, ai_replacement = em_str e, ai_label = em_str e,
               ai_detail = (case em_shortcodes e of code # _ \<Rightarrow> code | [] \<Rightarrow> normalize_emoji_search_text C (em_name e)),
               ai_preview = em_name e, ai_accept_on_enter = (accept_empty_on_enter \<or> normalized_prefix \<noteq> []),
               ai_accept_on_tab = True, ai_executor = None\<rparr>)
            (sort_key (\<lambda>(s, e). (- s, em_version e)) scored)))"

definition autocomplete_emojis :: "completer \<Rightarrow> str \<Rightarrow> nat \<Rightarrow> autocomplete_state" where
  "autocomplete_emojis C buffer cursor = autocomplete_emojis_with_options C buffer cursor False"

definition subcommand_accepts_emoji_autocomplete :: "str \<Rightarrow> str \<Rightarrow> bool" where
  "subcommand_accepts_emoji_autocomplete command subcommand \<longleftrightarrow>
     command = lit ''thread'' \<and> is_named subcommand [''new'', ''create'', ''rename'', ''edit'']
     \<or> command = lit ''comment'' \<and> subcommand = lit ''edit''
     \<or> command = lit ''dm'' \<and> subcommand = lit ''edit''
     \<or> command = lit ''channel'' \<and> is_named subcommand [''new'', ''create'', ''private'', ''rename'', ''topic'']
     \<or> command = lit ''user'' \<and> subcommand = lit ''profile''
     \<or> command = lit ''key'' \<and> subcommand = lit ''label''"

definition subcommand_accepts_reaction_emoji_autocomplete :: "str \<Rightarrow> str \<Rightarrow> bool" where
  "subcommand_accepts_reaction_emoji_autocomplete command subcommand \<longleftrightarrow>
     command = lit ''reaction'' \<and> is_named subcommand [''add'', ''remove'', ''delete'']"

section \<open>Completions of a line\<close>

definition subcommand_completion :: "nat \<times> nat \<Rightarrow> str \<Rightarrow> subcommand_spec \<Rightarrow> autocomplete_item" where
  "subcommand_completion span sub_prefix s =
     \<lparr>ai_start = fst span, ai_end = snd span,
      ai_replacement = sb_name s @ (if sb_args s = [] then [] else [c_space]), ai_label = sb_name s, ai_detail = sb_args s,
      ai_preview = sb_description s, ai_accept_on_enter = (sub_prefix \<noteq> sb_name s), ai_accept_on_tab = True,
      ai_executor = None\<rparr>"

text \<open>\<open>find(char::is_whitespace).unwrap_or(len)\<close>, and the bytes of leading white space.\<close>

definition bytes_to_space :: "str \<Rightarrow> nat" where
  "bytes_to_space s = utf8_len (takeWhile (\<lambda>c. \<not> is_whitespace c) s)"

definition bytes_of_space :: "str \<Rightarrow> nat" where
  "bytes_of_space s = utf8_len (takeWhile is_whitespace s)"

definition complete_argument ::
  "completer \<Rightarrow> str \<Rightarrow> nat \<Rightarrow> command_spec \<Rightarrow> 'a snapshot_scheme \<Rightarrow> nat \<Rightarrow> nat \<Rightarrow> autocomplete_state option" where
  "complete_argument C buffer cursor spec sn sub_start sub_end =
     do { sub_name \<leftarrow> slice sub_start sub_end buffer;
          case List.find (\<lambda>s. is_subcommand s sub_name) (subcommands_for (cs_name spec)) of
            None \<Rightarrow> Some no_autocomplete
          | Some s \<Rightarrow> do {
              gap \<leftarrow> slice sub_end cursor buffer;
              let arg_start = sub_end + bytes_of_space gap;
              arg \<leftarrow> slice arg_start cursor buffer;
              let a = autocomplete_arguments_with_empty_enter C (arg_start, cursor) arg
                    (argument_suggestions C (cs_name spec) (sb_name s) sn) (sb_description s) True
                    (cs_name spec = lit ''dm'' \<and> sb_name s = lit ''open'');
              Some (if ac_open a then a
                else if subcommand_accepts_reaction_emoji_autocomplete (cs_name spec) (sb_name s)
                then autocomplete_emojis_with_options C buffer cursor True
                else if subcommand_accepts_emoji_autocomplete (cs_name spec) (sb_name s)
                then autocomplete_emojis C buffer cursor
                else no_autocomplete) } }"

definition autocomplete_after_command ::
  "completer \<Rightarrow> str \<Rightarrow> nat \<Rightarrow> nat \<Rightarrow> command_spec \<Rightarrow> 'a snapshot_scheme \<Rightarrow> autocomplete_state option" where
  "autocomplete_after_command C buffer cursor token_end spec sn =
     (let rest_start = token_end + 1 in
      if cursor < rest_start \<or> utf8_len buffer < rest_start then Some no_autocomplete
      else do {
        rest \<leftarrow> slice rest_start cursor buffer;
        let sub_start = rest_start + bytes_of_space rest;
        after_leading \<leftarrow> slice sub_start cursor buffer;
        let sub_end = sub_start + bytes_to_space after_leading;
        sub_prefix \<leftarrow> slice sub_start (min cursor sub_end) buffer;
        let subcommands = subcommands_for (cs_name spec);
        if subcommands = [] then
          Some (if cs_name spec = lit ''label''
            then autocomplete_arguments C (sub_start, cursor) after_leading (label_suggestions sn) (cs_description spec) True
            else no_autocomplete)
        else if cursor \<le> sub_end \<and> best_first (\<lambda>s. fuzzy_score (e_lc (cm_env C)) (sb_name s) sub_prefix) subcommands \<noteq> [] then
          Some (completions (map (subcommand_completion (sub_start, sub_end) sub_prefix)
            (best_first (\<lambda>s. fuzzy_score (e_lc (cm_env C)) (sb_name s) sub_prefix) subcommands)))
        else if cursor \<le> sub_end \<and> cs_name spec = lit ''dm'' then
          Some (autocomplete_arguments C (sub_start, cursor) after_leading (dm_suggestions C sn)
            (lit ''Open a direct message'') True)
        else complete_argument C buffer cursor spec sn sub_start sub_end })"

definition autocomplete :: "completer \<Rightarrow> str \<Rightarrow> nat \<Rightarrow> 'a snapshot_scheme \<Rightarrow> autocomplete_state option" where
  "autocomplete C buffer cursor_arg sn =
     (if take 1 buffer \<noteq> [47] then
        Some (let mention = autocomplete_mentions C buffer cursor_arg sn;
                  label = autocomplete_labels C buffer cursor_arg sn
              in if ac_open mention then mention else if ac_open label then label
                 else autocomplete_emojis C buffer cursor_arg)
      else let cursor = min cursor_arg (utf8_len buffer) in
        if cursor = 0 then Some no_autocomplete
        else do {
          let token_end = bytes_to_space buffer;
          command_token \<leftarrow> slice 1 (min cursor token_end) buffer;
          if cursor \<le> token_end then
            Some (completions (map (palette_autocomplete_item (0, token_end))
              (best_first (\<lambda>i. fuzzy_score (e_lc (cm_env C)) (search_text i) command_token) (palette_items sn))))
          else case find_command command_token of
            None \<Rightarrow> Some no_autocomplete
          | Some spec \<Rightarrow> autocomplete_after_command C buffer cursor token_end spec sn })"


section \<open>Completions replace whole characters\<close>

definition boundary :: "nat \<Rightarrow> str \<Rightarrow> bool" where
  "boundary n s \<longleftrightarrow> split_bytes n s \<noteq> None"

definition good_span :: "str \<Rightarrow> nat \<times> nat \<Rightarrow> bool" where
  "good_span s = (\<lambda>(a, b). a \<le> b \<and> boundary a s \<and> boundary b s)"

lemma boundary_iff: "boundary n s \<longleftrightarrow> (\<exists>p q. s = p @ q \<and> n = utf8_len p)"
  by (auto simp: boundary_def split_bytes_some)

lemma boundary_prefix [intro]: "boundary (utf8_len p) (p @ q)"
  by (auto simp: boundary_iff)

lemma boundary_le: "boundary n s \<Longrightarrow> n \<le> utf8_len s"
  by (auto simp: boundary_iff)

lemma boundary_ends [simp]: "boundary 0 s" "boundary (utf8_len s) s"
  using boundary_prefix [of "[]" s] boundary_prefix [of s "[]"] by simp_all

lemma prefix_of_shorter:
  assumes "p @ q = p' @ q'" "utf8_len p \<le> utf8_len p'"
  shows "\<exists>t. p' = p @ t"
proof -
  consider t where "p @ t = p'" | t where "p = p' @ t" using assms(1) by (auto simp: append_eq_append_conv2)
  then show ?thesis
  proof cases
    case 2
    then have "t = []" using assms(2) by simp
    then show ?thesis using 2 by simp
  qed auto
qed

lemma slice_between:
  assumes "boundary a s" "boundary b s" "a \<le> b"
  shows "\<exists>p t q. slice a b s = Some t \<and> s = p @ t @ q \<and> a = utf8_len p \<and> b = utf8_len (p @ t)"
proof -
  obtain p q p' q' where s: "s = p @ q" "a = utf8_len p" "s = p' @ q'" "b = utf8_len p'"
    using assms(1,2) unfolding boundary_iff by blast
  obtain t where t: "p' = p @ t" using prefix_of_shorter [of p q p' q'] s assms(3) by auto
  have "slice a b s = Some t"
    using s t assms(3) split_bytes_at [of p' q'] split_bytes_at [of p t] by (simp add: slice_def)
  then show ?thesis using s t by auto
qed

text \<open>A slice, and a boundary inside it.\<close>

lemma sliceE:
  assumes "boundary a s" "boundary b s" "a \<le> b"
  obtains t where "slice a b s = Some t" "utf8_len t = b - a" "\<And>u v. t = u @ v \<Longrightarrow> boundary (a + utf8_len u) s"
proof -
  obtain p t q where t: "slice a b s = Some t" "s = p @ t @ q" "a = utf8_len p" "b = utf8_len (p @ t)"
    using slice_between [OF assms] by blast
  have "boundary (a + utf8_len u) s" if "t = u @ v" for u v
    using boundary_prefix [of "p @ u" "v @ q"] t that by simp
  then show ?thesis using t that by simp
qed

lemma takeWhile_len: "utf8_len (takeWhile P t) \<le> utf8_len t"
  by (metis le_add1 takeWhile_dropWhile_id utf8_len_append)

lemma token_span: "token_at trigger bd nc s n = Some (span, pre) \<Longrightarrow> good_span s span"
proof -
  assume tok: "token_at trigger bd nc s n = Some (span, pre)"
  then obtain p q where pq: "split_bytes (min n (utf8_len s)) s = Some (p, q)"
    by (cases "split_bytes (min n (utf8_len s)) s") (auto simp: token_at_def Let_def)
  then have s: "s = p @ q" "min n (utf8_len s) = utf8_len p" unfolding split_bytes_some by (blast, metis)
  have "span = (utf8_len (take (length p - length pre - 1) p), utf8_len p + utf8_len (takeWhile nc q))"
    using tok unfolding token_at_def Let_def s(2) pq [unfolded s(2)] option.case prod.case by (auto split: if_split_asm)
  then obtain k where span: "span = (utf8_len (take k p), utf8_len p + utf8_len (takeWhile nc q))" by blast
  have "utf8_len (take k p) + utf8_len (drop k p) = utf8_len p"
    by (simp only: utf8_len_append [symmetric] append_take_drop_id)
  then have "utf8_len (take k p) \<le> utf8_len p" by simp
  moreover have "boundary (utf8_len (take k p)) s"
    using boundary_prefix [of "take k p" "drop k p @ q"] s(1) by (simp only: append_assoc [symmetric] append_take_drop_id)
  moreover have "boundary (utf8_len p + utf8_len (takeWhile nc q)) s"
    using boundary_prefix [of "p @ takeWhile nc q" "dropWhile nc q"] s(1)
    by (simp only: append_assoc takeWhile_dropWhile_id utf8_len_append)
  ultimately show ?thesis using span by (simp add: good_span_def)
qed

definition spans_good :: "str \<Rightarrow> autocomplete_state \<Rightarrow> bool" where
  "spans_good s a \<longleftrightarrow> list_all (\<lambda>i. good_span s (ai_start i, ai_end i)) (ac_items a)"

lemma spans_no_autocomplete [simp]: "spans_good s no_autocomplete"
  by (simp add: spans_good_def no_autocomplete_def)

lemma spans_completions:
  "(\<And>x. x \<in> set xs \<Longrightarrow> good_span s (ai_start (f x), ai_end (f x))) \<Longrightarrow> spans_good s (completions (map f xs))"
  by (auto simp: spans_good_def completions_def list_all_iff take_map dest: in_set_takeD)

lemma spans_arguments:
  "good_span s span \<Longrightarrow> spans_good s (autocomplete_arguments_with_empty_enter C span t l d e f)"
  "good_span s span \<Longrightarrow> spans_good s (autocomplete_arguments C span t l d e)"
  by (auto simp: autocomplete_arguments_def autocomplete_arguments_with_empty_enter_def Let_def split_def intro!: spans_completions)

lemma spans_tokens:
  "spans_good s (autocomplete_mentions C s n sn)" "spans_good s (autocomplete_labels C s n sn)"
  "spans_good s (autocomplete_emojis_with_options C s n e)" "spans_good s (autocomplete_emojis C s n)"
  by (auto simp: autocomplete_mentions_def autocomplete_labels_def autocomplete_emojis_def autocomplete_emojis_with_options_def
      active_mention_token_def active_label_token_def active_emoji_token_def Let_def split_def
      dest!: token_span intro!: spans_arguments spans_completions split: option.split)

text \<open>White space is one byte wide, as it is on a keyboard.\<close>

definition narrow_space :: "str \<Rightarrow> bool" where
  "narrow_space s \<longleftrightarrow> list_all (\<lambda>c. is_whitespace c \<longrightarrow> c < 128) s"

lemma boundary_min: "boundary a s \<Longrightarrow> boundary b s \<Longrightarrow> boundary (min a b) s"
  by (simp add: min_def)

lemma argument_safe:
  assumes "boundary cursor s" "boundary a s" "boundary b s" "a \<le> b" "b \<le> cursor"
  shows "\<exists>r. complete_argument C s cursor spec sn a b = Some r \<and> spans_good s r"
proof -
  obtain t where t: "slice a b s = Some t" using sliceE [OF assms(2,3,4)] by metis
  obtain gap where gap: "slice b cursor s = Some gap" "utf8_len gap = cursor - b"
      "\<And>u v. gap = u @ v \<Longrightarrow> boundary (b + utf8_len u) s"
    using sliceE [OF assms(3,1,5)] by metis
  have "boundary (b + bytes_of_space gap) s"
    unfolding bytes_of_space_def by (rule gap(3) [of _ "dropWhile is_whitespace gap"]) simp
  moreover have "b + bytes_of_space gap \<le> cursor"
    using gap(2) takeWhile_len [of is_whitespace gap] assms(5) by (simp add: bytes_of_space_def)
  moreover from calculation obtain arg where arg: "slice (b + bytes_of_space gap) cursor s = Some arg"
    using sliceE [OF _ assms(1)] by metis
  ultimately have "good_span s (b + bytes_of_space gap, cursor)" using assms(1) by (simp add: good_span_def)
  then show ?thesis
    using t gap(1) arg by (auto simp: complete_argument_def Let_def spans_tokens intro!: spans_arguments split: option.split)
qed

lemma after_command_safe:
  assumes "boundary cursor s" "boundary (token_end + 1) s"
  shows "\<exists>r. autocomplete_after_command C s cursor token_end spec sn = Some r \<and> spans_good s r"
proof (cases "cursor < token_end + 1 \<or> utf8_len s < token_end + 1")
  case False
  define rest_start where "rest_start = token_end + 1"
  have rs: "rest_start \<le> cursor" "boundary rest_start s" "\<not> (cursor < rest_start \<or> utf8_len s < rest_start)"
    using False assms(2) by (auto simp: rest_start_def)
  obtain rest where rest: "slice rest_start cursor s = Some rest" "utf8_len rest = cursor - rest_start"
      "\<And>u v. rest = u @ v \<Longrightarrow> boundary (rest_start + utf8_len u) s"
    using sliceE [OF rs(2) assms(1) rs(1)] by metis
  define a where "a = rest_start + bytes_of_space rest"
  have a: "boundary a s"
    unfolding a_def bytes_of_space_def by (rule rest(3) [of _ "dropWhile is_whitespace rest"]) simp
  have ac: "a \<le> cursor"
    using rest(2) takeWhile_len [of is_whitespace rest] rs(1) by (simp add: a_def bytes_of_space_def)
  obtain al where al: "slice a cursor s = Some al" "utf8_len al = cursor - a" "\<And>u v. al = u @ v \<Longrightarrow> boundary (a + utf8_len u) s"
    using sliceE [OF a assms(1) ac] by metis
  define b where "b = a + bytes_to_space al"
  have b: "boundary b s"
    unfolding b_def bytes_to_space_def by (rule al(3) [of _ "dropWhile (\<lambda>c. \<not> is_whitespace c) al"]) simp
  have bc: "a \<le> b" "b \<le> cursor"
    using al(2) takeWhile_len [of "\<lambda>c. \<not> is_whitespace c" al] ac by (simp_all add: b_def bytes_to_space_def)
  obtain pre where pre: "slice a (min cursor b) s = Some pre"
    using sliceE [OF a boundary_min [OF assms(1) b]] ac bc by (metis min.bounded_iff)
  obtain r where r: "complete_argument C s cursor spec sn a b = Some r" "spans_good s r"
    using argument_safe [OF assms(1) a b bc] by blast
  have spans: "good_span s (a, cursor)" "good_span s (a, b)" using a b assms(1) ac bc by (simp_all add: good_span_def)
  show ?thesis
    using rs(3) rest(1) al(1) pre r spans
    unfolding autocomplete_after_command_def rest_start_def [symmetric] Let_def a_def [symmetric]
    by (auto simp: a_def [symmetric] b_def [symmetric] subcommand_completion_def intro!: spans_arguments spans_completions)
qed (simp add: autocomplete_after_command_def)

lemma after_token:
  assumes "narrow_space s" "bytes_to_space s < utf8_len s"
  shows "boundary (bytes_to_space s + 1) s"
proof -
  let ?p = "takeWhile (\<lambda>c. \<not> is_whitespace c) s"
  obtain c r where cr: "dropWhile (\<lambda>c. \<not> is_whitespace c) s = c # r"
  proof (cases "dropWhile (\<lambda>c. \<not> is_whitespace c) s")
    case Nil
    then have "s = ?p" by (metis append_Nil2 takeWhile_dropWhile_id)
    then show ?thesis using assms(2) by (simp add: bytes_to_space_def)
  qed
  then have s: "s = (?p @ [c]) @ r" by (metis append.assoc append_Cons append_Nil takeWhile_dropWhile_id)
  have "is_whitespace c" using cr hd_dropWhile [of "\<lambda>c. \<not> is_whitespace c" s] by simp
  moreover have "c \<in> set s" using s by (metis in_set_conv_decomp append.assoc append_Cons append_Nil)
  ultimately have "c < 128" using assms(1) by (auto simp: narrow_space_def list_all_iff)
  then have "utf8_len (?p @ [c]) = bytes_to_space s + 1" by (simp add: bytes_to_space_def utf8_width_def)
  then show ?thesis using s boundary_prefix [of "?p @ [c]" r] by metis
qed

lemma completion_spans:
  assumes "boundary n s" "narrow_space s"
  shows "\<exists>a. autocomplete C s n sn = Some a \<and> spans_good s a"
proof -
  have n: "boundary n s" "min n (utf8_len s) = n" using assms(1) boundary_le [of n s] by auto
  show ?thesis
  proof (cases "take 1 s = [47] \<and> n \<noteq> 0")
    case False
    then show ?thesis using n(2) by (auto simp: autocomplete_def Let_def spans_tokens)
  next
    case True
    then obtain r where r: "s = 47 # r" by (cases s) auto
    define e where "e = bytes_to_space s"
    have e: "boundary e s" "1 \<le> e"
      using boundary_prefix [of "takeWhile (\<lambda>c. \<not> is_whitespace c) s" "dropWhile (\<lambda>c. \<not> is_whitespace c) s"]
      by (simp_all add: e_def bytes_to_space_def r is_whitespace_def utf8_width_def)
    have "boundary 1 s" using boundary_prefix [of "[47]" r] by (simp add: r utf8_width_def)
    then obtain token where token: "slice 1 (min n e) s = Some token"
      using sliceE [OF _ boundary_min [OF n(1) e(1)]] True e(2) by (metis One_nat_def Suc_leI min.bounded_iff neq0_conv)
    have pal: "spans_good s (completions (map (palette_autocomplete_item (0, e)) xs))" for xs
      using e(1) by (auto simp: palette_autocomplete_item_def good_span_def intro!: spans_completions)
    show ?thesis
    proof (cases "n \<le> e")
      case le: True
      then show ?thesis using True n(2) token pal by (simp add: autocomplete_def Let_def e_def [symmetric])
    next
      case False
      then have "boundary (e + 1) s" using after_token [of s] assms(2) n boundary_le [OF n(1)] by (simp add: e_def)
      then have "\<exists>r. autocomplete_after_command C s n e spec sn = Some r \<and> spans_good s r" for spec
        using after_command_safe [OF n(1)] by blast
      then show ?thesis using True False n(2) token
        by (simp add: autocomplete_def Let_def e_def [symmetric] split: option.split)
    qed
  qed
qed

lemma replace_span:
  assumes "good_span (cp_buffer c) (a, b)"
  shows "\<exists>d. replace_range a b t c = Some d \<and> zip_of d \<noteq> None"
proof -
  obtain p q p' q' where pq: "a \<le> b" "split_bytes a (cp_buffer c) = Some (p, q)" "split_bytes b (cp_buffer c) = Some (p', q')"
    using assms by (auto simp: good_span_def boundary_def)
  then have "utf8_len p = a" by (simp add: split_bytes_some)
  moreover from this have "split_bytes (a + utf8_len t) (p @ t @ q') = Some (p @ t, q')"
    using split_bytes_at [of "p @ t" q'] by simp
  ultimately show ?thesis using pq by (simp add: replace_range_def cancel_history_navigation_def zip_of_def Let_def)
qed

text \<open>
  While the cursor is between two characters and the white space of the line is a byte wide, completing never
  panics, and every completion offered replaces whole characters of the line, so accepting one
  does not panic either.
\<close>

theorem completion_safe:
  assumes "zip_of c = Some z" "narrow_space (cp_buffer c)"
  shows "\<exists>a. autocomplete C (cp_buffer c) (cp_cursor c) sn = Some a
    \<and> (\<forall>i\<in>set (ac_items a). \<exists>d. replace_range (ai_start i) (ai_end i) (ai_replacement i) c = Some d \<and> zip_of d \<noteq> None)"
proof -
  have "boundary (cp_cursor c) (cp_buffer c)" using assms(1) by (simp add: boundary_def zip_of_def)
  then obtain a where "autocomplete C (cp_buffer c) (cp_cursor c) sn = Some a" "spans_good (cp_buffer c) a"
    using completion_spans [OF _ assms(2)] by blast
  then show ?thesis using replace_span by (auto simp: spans_good_def list_all_iff)
qed

text \<open>Cutting a text at a given offset, by computation.\<close>

lemma take_bytes_eval:
  "take_bytes n [] = (if n = 0 then Some [] else None)"
  "take_bytes n (c # s) =
     (if n = 0 then Some [] else if utf8_width c \<le> n then map_option (Cons c) (take_bytes (n - utf8_width c) s) else None)"
  by (cases n; simp)+

lemmas edit_eval = lit_def insert_str_def insert_char_def new_composer_def cancel_history_navigation_def Let_def
  split_bytes_def take_bytes_eval utf8_width_def last_index_def

text \<open>Completing the name of a command: typing a slash, a letter and moving back between them.\<close>

theorem completion_safe_witness:
  "\<exists>c a. edit_all [EInsertStr (lit ''/dm x''), ELeft] new_composer = Some c
     \<and> autocomplete \<lparr>cm_env = demo_env, cm_now = 0, cm_lower_char = (\<lambda>c. [c]), cm_emojis = []\<rparr> (cp_buffer c) (cp_cursor c) empty_snapshot = Some a"
proof -
  have "\<exists>c. edit_all [EInsertStr (lit ''/dm x''), ELeft] new_composer = Some c \<and> zip_of c = Some (lit ''/dm '', lit ''x'')"
    by (simp add: edit_eval move_left_def zip_of_def)
  then obtain c where c: "edit_all [EInsertStr (lit ''/dm x''), ELeft] new_composer = Some c" "zip_of c = Some (lit ''/dm '', lit ''x'')"
    by blast
  then have "narrow_space (cp_buffer c)" by (simp add: zip_of_some narrow_space_def lit_def)
  with completion_safe [OF c(2)] c(1) show ?thesis by blast
qed

text \<open>
  A no-break space after the name of a command panics: two bytes wide, it is cut in the middle by the slice that
  skips the separator.
\<close>

theorem completion_panics:
  "\<exists>c. edit_all [EInsertStr (lit ''/dm''), EInsert 160] new_composer = Some c \<and> autocomplete C (cp_buffer c) (cp_cursor c) sn = None"
proof -
  let ?c = "new_composer\<lparr>cp_buffer := lit ''/dm'' @ [160], cp_cursor := 5\<rparr>"
  have "edit_all [EInsertStr (lit ''/dm''), EInsert 160] new_composer = Some ?c"
    by (simp add: edit_eval)
  moreover have "find_command (lit ''dm'') \<noteq> None"
    by (simp add: find_command_def command_specs_def is_command_def cmd_def)
  moreover have "slice 1 3 (lit ''/dm'' @ [160]) = Some (lit ''dm'')" "slice 4 5 (lit ''/dm'' @ [160]) = None"
    "bytes_to_space (lit ''/dm'' @ [160]) = 3" "utf8_len (lit ''/dm'' @ [160]) = 5" "take 1 (lit ''/dm'' @ [160]) = [47]"
    by (simp_all add: slice_def edit_eval bytes_to_space_def is_whitespace_def)
  ultimately show ?thesis
    by (auto simp: autocomplete_def autocomplete_after_command_def Let_def)
qed

end
