(* ===== verification/Screen.thy ===== *)
theory Screen
  imports Completion
begin

text \<open>
  The state of the interface: \<open>UiState\<close> and its parts of \<open>app/state.rs\<close>, the client's view of the
  server (\<open>Snapshot\<close> with the pages of search, saved messages and labels), and the record \<open>app\<close> of
  \<open>app/mod.rs\<close> without the terminal it draws on. A \<open>u16\<close> is a natural number with its saturating
  operations written out. The scroll views of the \<open>tui_scrollview\<close> crate are a parameter, a type
  with the operations the source calls; an \<open>Instant\<close> is a number of milliseconds, and what reads
  the clock takes the time as an argument.
\<close>

section \<open>Positions\<close>

record pos =
  px :: nat
  py :: nat

record rect =
  rc_x :: nat
  rc_y :: nat
  rc_width :: nat
  rc_height :: nat

definition sat16 :: "nat \<Rightarrow> nat" where
  "sat16 n = min n 65535"

definition rect_contains :: "rect \<Rightarrow> nat \<Rightarrow> nat \<Rightarrow> bool" where
  "rect_contains r column row \<longleftrightarrow> rc_x r \<le> column \<and> rc_y r \<le> row
     \<and> column < sat16 (rc_x r + rc_width r) \<and> row < sat16 (rc_y r + rc_height r)"

definition mouse_position :: "mouse_event \<Rightarrow> pos" where
  "mouse_position m = \<lparr>px = mo_column m, py = mo_row m\<rparr>"

section \<open>What is under the mouse\<close>

datatype active_pane = Rail | ListPane | Detail

datatype route = RChannel str | RDms | RAccount | RSearch | RLabel str | RSaved | RNotifications

datatype notification_filter = FilterAll | FilterUnread | FilterRead

definition next_filter :: "notification_filter \<Rightarrow> notification_filter" where
  "next_filter f = (case f of FilterAll \<Rightarrow> FilterUnread | FilterUnread \<Rightarrow> FilterRead | FilterRead \<Rightarrow> FilterAll)"

datatype editable_message_target = EditComment int | EditDm int

definition editable_index :: "editable_message_target \<Rightarrow> int" where
  "editable_index t = (case t of EditComment i \<Rightarrow> i | EditDm i \<Rightarrow> i)"

datatype reaction_target = ReactThreadRoot | ReactComment int | ReactDm int

definition reaction_index :: "reaction_target \<Rightarrow> int option" where
  "reaction_index t = (case t of ReactThreadRoot \<Rightarrow> None | ReactComment i \<Rightarrow> Some i | ReactDm i \<Rightarrow> Some i)"

datatype account_input_target = InputUsername | InputDisplayName

datatype bottom_bar_action = BarOpenHelp | BarSubmitComposer | BarAcceptAutocomplete | BarCloseMode | BarRunPalette
  | BarConfirmQuit | BarCancelQuit

datatype (plugins only: code size) hit_target =
    HWorkspaceScroll
  | HWorkspaceChannel str
  | HWorkspaceThread str
  | HWorkspaceLabel str
  | HWorkspaceLabelsMore
  | HWorkspaceSaved
  | HWorkspaceNotifications
  | HWorkspaceAccount
  | HAccountInput account_input_target
  | HAccountSave
  | HAccountReset
  | HAccountLinkDevice
  | HAccountKeyLabel nat
  | HAccountKeyDeactivate nat
  | HWorkspaceDm "str option" str
  | HTopbarMentions
  | HDetailScroll
  | HSearchResult nat
  | HLabelResult nat
  | HSavedResult nat
  | HNotificationResult nat
  | HNotificationFilter notification_filter
  | HNotificationReadAll
  | HNotificationArchiveAll
  | HEditableMessage editable_message_target
  | HReactionChip reaction_target str bool
  | HReactionAdd reaction_target
  | HMessageLink str
  | HMessageMention str
  | HMessageLabel str
  | HComposerInput nat
  | HAutocompleteScroll
  | HAutocompleteRow nat
  | HHelpScroll
  | HPaletteBackdrop
  | HPaletteInput
  | HPaletteResults
  | HPaletteRow nat
  | HHelpBackdrop
  | HBannerModal
  | HListModalRow nat
  | HConfirmQuitBackdrop
  | HConfirmQuitYes
  | HConfirmQuitNo
  | HBottomBar bottom_bar_action
  | HCommentMenuBackdrop
  | HCommentMenuEdit editable_message_target
  | HCommentMenuDelete editable_message_target
  | HCommentMenuSave editable_message_target bool
  | HCommentDeleteConfirm editable_message_target
  | HCommentDeleteCancel

record hit_region =
  hr_rect :: rect
  hr_target :: hit_target

type_synonym hit_map = "hit_region list"

definition push_region :: "rect \<Rightarrow> hit_target \<Rightarrow> hit_map \<Rightarrow> hit_map" where
  "push_region r t h = (if rc_width r = 0 \<or> rc_height r = 0 then h else h @ [\<lparr>hr_rect = r, hr_target = t\<rparr>])"

definition hit_matching :: "nat \<Rightarrow> nat \<Rightarrow> (hit_target \<Rightarrow> bool) \<Rightarrow> hit_map \<Rightarrow> hit_region option" where
  "hit_matching column row predicate h =
     List.find (\<lambda>e. rect_contains (hr_rect e) column row \<and> predicate (hr_target e)) (rev h)"

definition hit :: "nat \<Rightarrow> nat \<Rightarrow> hit_map \<Rightarrow> hit_region option" where
  "hit column row h = List.find (\<lambda>e. rect_contains (hr_rect e) column row) (rev h)"

definition hit_row_matching :: "nat \<Rightarrow> (hit_target \<Rightarrow> bool) \<Rightarrow> hit_map \<Rightarrow> hit_region option" where
  "hit_row_matching row predicate h =
     List.find (\<lambda>e. rc_y (hr_rect e) \<le> row \<and> row < sat16 (rc_y (hr_rect e) + rc_height (hr_rect e))
        \<and> predicate (hr_target e)) (rev h)"

section \<open>Scrolling\<close>

record 's scroller =
  sc_top :: "'s \<Rightarrow> 's"
  sc_bottom :: "'s \<Rightarrow> 's"
  sc_up :: "'s \<Rightarrow> 's"
  sc_down :: "'s \<Rightarrow> 's"
  sc_page_up :: "'s \<Rightarrow> 's"
  sc_page_down :: "'s \<Rightarrow> 's"
  sc_offset :: "'s \<Rightarrow> pos"
  sc_set_offset :: "pos \<Rightarrow> 's \<Rightarrow> 's"
  sc_default :: 's

record scroll_metrics =
  me_offset_y :: nat
  me_max_y_offset :: nat
  me_viewport_height :: nat

definition no_metrics :: scroll_metrics where
  "no_metrics = \<lparr>me_offset_y = 0, me_max_y_offset = 0, me_viewport_height = 0\<rparr>"

definition at_bottom :: "scroll_metrics \<Rightarrow> bool" where
  "at_bottom m \<longleftrightarrow> me_max_y_offset m \<le> me_offset_y m"

section \<open>Overlays\<close>

record palette_state =
  pl_query :: str
  pl_items :: "palette_item list"
  pl_filtered :: "nat list"
  pl_selected :: nat

definition no_palette :: palette_state where
  "no_palette = \<lparr>pl_query = [], pl_items = [], pl_filtered = [], pl_selected = 0\<rparr>"

definition apply_filter :: "(str \<Rightarrow> str) \<Rightarrow> str \<Rightarrow> palette_state \<Rightarrow> palette_state" where
  "apply_filter lc query p =
     (let scored = List.map_filter (\<lambda>(idx, item). map_option (\<lambda>s. (idx, s)) (fuzzy_score lc (search_text item) query))
            (List.enumerate 0 (pl_items p));
          filtered = map fst (sort_key (\<lambda>(idx, s). (- s, idx)) scored)
      in p\<lparr>pl_filtered := filtered, pl_selected := min (pl_selected p) (length filtered - 1)\<rparr>)"

definition palette_next :: "palette_state \<Rightarrow> palette_state" where
  "palette_next p = p\<lparr>pl_selected := cycle_next (length (pl_filtered p)) (pl_selected p)\<rparr>"

definition palette_previous :: "palette_state \<Rightarrow> palette_state" where
  "palette_previous p = p\<lparr>pl_selected := cycle_previous (length (pl_filtered p)) (pl_selected p)\<rparr>"

definition get_at :: "nat \<Rightarrow> 'a list \<Rightarrow> 'a option" where
  "get_at i xs = (if i < length xs then Some (xs ! i) else None)"

definition selected_item :: "palette_state \<Rightarrow> palette_item option" where
  "selected_item p = Option.bind (get_at (pl_selected p) (pl_filtered p)) (\<lambda>i. get_at i (pl_items p))"

record comment_menu =
  mn_target :: editable_message_target
  mn_can_edit_delete :: bool
  mn_saved :: bool
  mn_x :: nat
  mn_y :: nat

record list_modal =
  lm_title :: str
  lm_columns :: "str list"
  lm_rows :: "str list list"
  lm_row_actions :: "source_target option list"
  lm_empty :: str

datatype banner_presentation = Toast | Modal | ListModal

record banner =
  bn_text :: str
  bn_error :: bool
  bn_presentation :: banner_presentation
  bn_list :: "list_modal option"
  bn_at :: nat

definition banner_ok :: "nat \<Rightarrow> str \<Rightarrow> banner" where
  "banner_ok t s = \<lparr>bn_text = s, bn_error = False, bn_presentation = Toast, bn_list = None, bn_at = t\<rparr>"

definition banner_err :: "nat \<Rightarrow> str \<Rightarrow> banner" where
  "banner_err t s = \<lparr>bn_text = s, bn_error = True, bn_presentation = Toast, bn_list = None, bn_at = t\<rparr>"

definition banner_modal_ok :: "nat \<Rightarrow> str \<Rightarrow> banner" where
  "banner_modal_ok t s = \<lparr>bn_text = s, bn_error = False, bn_presentation = Modal, bn_list = None, bn_at = t\<rparr>"

definition banner_list :: "nat \<Rightarrow> list_modal \<Rightarrow> banner" where
  "banner_list t l = \<lparr>bn_text = lm_title l, bn_error = False, bn_presentation = ListModal, bn_list = Some l, bn_at = t\<rparr>"

definition banner_active :: "nat \<Rightarrow> banner \<Rightarrow> bool" where
  "banner_active t b \<longleftrightarrow> t - bn_at b < (case bn_presentation b of Toast \<Rightarrow> 8000 | _ \<Rightarrow> 60000)"

definition modal_active :: "nat \<Rightarrow> banner \<Rightarrow> bool" where
  "modal_active t b \<longleftrightarrow> bn_presentation b \<in> {Modal, ListModal} \<and> banner_active t b"


section \<open>Selecting text\<close>

record selection_range =
  sl_start :: pos
  sl_end :: pos

record selection_anchor =
  an_at :: pos
  an_region :: "hit_region option"
  an_message_region :: "rect option"
  an_modifiers :: mouse_modifiers
  an_moved :: bool

record selection_state =
  se_pending :: "selection_anchor option"
  se_range :: "selection_range option"
  se_message_region :: "rect option"
  se_text :: str
  se_copy_requested :: bool

definition no_selection :: selection_state where
  "no_selection = \<lparr>se_pending = None, se_range = None, se_message_region = None, se_text = [], se_copy_requested = False\<rparr>"

section \<open>The state of the interface\<close>

datatype account_focus = FUsername | FDisplayName | FSave | FReset | FLinkDevice | FKeyLabel nat | FKeyDeactivate nat

record account_page =
  pg_initialized :: "str option"
  pg_username :: composer
  pg_display_name :: composer
  pg_focus :: account_focus

definition new_account_page :: account_page where
  "new_account_page = \<lparr>pg_initialized = None, pg_username = new_composer, pg_display_name = new_composer, pg_focus = FUsername\<rparr>"

record 's ui =
  ui_mode :: ui_mode
  ui_active_pane :: active_pane
  ui_route :: route
  ui_threads_collapsed :: bool
  ui_detail_scroll :: 's
  ui_detail_metrics :: scroll_metrics
  ui_help_scroll :: 's
  ui_composer :: composer
  ui_palette :: palette_state
  ui_banner :: "banner option"
  ui_splash_until :: "nat option"
  ui_comment_menu :: "comment_menu option"
  ui_comment_delete :: "editable_message_target option"
  ui_search_selected :: nat
  ui_label_selected :: nat
  ui_labels_expanded :: bool
  ui_saved_selected :: nat
  ui_notifications_selected :: nat
  ui_account :: account_page
  ui_selection_scroll_pending :: bool
  ui_notification_filter :: notification_filter
  ui_pending_focus :: "source_focus option"
  ui_highlight :: "source_focus option"
  ui_hit_map :: hit_map
  ui_message_regions :: "rect list"
  ui_selection :: selection_state

definition new_ui :: "'s scroller \<Rightarrow> 's ui" where
  "new_ui S =
     \<lparr>ui_mode = Workspace, ui_active_pane = ListPane, ui_route = RDms, ui_threads_collapsed = False,
      ui_detail_scroll = sc_default S, ui_detail_metrics = no_metrics, ui_help_scroll = sc_default S,
      ui_composer = new_composer, ui_palette = no_palette, ui_banner = None, ui_splash_until = None,
      ui_comment_menu = None, ui_comment_delete = None, ui_search_selected = 0, ui_label_selected = 0,
      ui_labels_expanded = False, ui_saved_selected = 0, ui_notifications_selected = 0, ui_account = new_account_page,
      ui_selection_scroll_pending = False, ui_notification_filter = FilterAll, ui_pending_focus = None,
      ui_highlight = None, ui_hit_map = [], ui_message_regions = [], ui_selection = no_selection\<rparr>"

record view = snapshot +
  vw_search_query :: "str option"
  vw_search_results :: "search_result list"
  vw_search_next :: "str option"
  vw_search_more :: bool
  vw_saved :: "saved_item list"
  vw_saved_next :: "str option"
  vw_saved_more :: bool
  vw_label_query :: "str option"
  vw_label_items :: "label_item list"
  vw_label_next :: "str option"
  vw_label_more :: bool

text \<open>What a snapshot of the server is to the client: the pages are empty.\<close>

definition view_of :: "snapshot \<Rightarrow> view" where
  "view_of sn = snapshot.extend sn
     \<lparr>vw_search_query = None, vw_search_results = [], vw_search_next = None, vw_search_more = False, vw_saved = [],
      vw_saved_next = None, vw_saved_more = False, vw_label_query = None, vw_label_items = [], vw_label_next = None,
      vw_label_more = False\<rparr>"

definition show_startup_splash :: "nat \<Rightarrow> nat \<Rightarrow> 's ui \<Rightarrow> 's ui" where
  "show_startup_splash t duration u = u\<lparr>ui_splash_until := Some (t + duration)\<rparr>"

definition dismiss_startup_splash :: "'s ui \<Rightarrow> 's ui" where
  "dismiss_startup_splash u = u\<lparr>ui_splash_until := None\<rparr>"

definition startup_splash_active :: "nat \<Rightarrow> 's ui \<Rightarrow> bool \<times> 's ui" where
  "startup_splash_active t u =
     (let active = (case ui_splash_until u of None \<Rightarrow> False | Some until \<Rightarrow> t < until)
      in (active, if active then u else u\<lparr>ui_splash_until := None\<rparr>))"

definition is_label_route :: "route \<Rightarrow> bool" where
  "is_label_route r \<longleftrightarrow> (case r of RLabel _ \<Rightarrow> True | _ \<Rightarrow> False)"

definition is_channel_route :: "route \<Rightarrow> bool" where
  "is_channel_route r \<longleftrightarrow> (case r of RChannel _ \<Rightarrow> True | _ \<Rightarrow> False)"

definition sync_route_from_snapshot :: "'a snapshot_scheme \<Rightarrow> 's ui \<Rightarrow> 's ui" where
  "sync_route_from_snapshot sn u =
     (case sn_conversation_id sn of
        Some _ \<Rightarrow> u\<lparr>ui_route := RDms, ui_active_pane := (if ui_active_pane u = ListPane then Detail else ui_active_pane u)\<rparr>
      | None \<Rightarrow>
          if ui_route u \<noteq> RSearch \<and> ui_route u \<noteq> RAccount \<and> \<not> is_label_route (ui_route u) \<and> ui_route u \<noteq> RSaved
             \<and> ui_route u \<noteq> RNotifications
          then (case sn_channel_id sn of Some c \<Rightarrow> u\<lparr>ui_route := RChannel c\<rparr> | None \<Rightarrow> u)
          else u)"

section \<open>The application\<close>

datatype pointer_shape = DefaultShape | PointerShape

record terminal_notification =
  tn_id :: str
  tn_title :: str
  tn_body :: str

record 's app =
  ap_running :: bool
  ap_account :: account
  ap_view :: view
  ap_ui :: "'s ui"
  ap_actions :: "action list"
  ap_refresh_requested :: bool
  ap_link_open :: "str option"
  ap_clipboard :: "str option"
  ap_pointer :: pointer_shape
  ap_history_limit :: int
  ap_seen :: "str set"
  ap_terminal_notifications :: "terminal_notification list"
  ap_title :: "str option"
  ap_pending_more :: "load_more_request set"

definition with_ui :: "('s ui \<Rightarrow> 's ui) \<Rightarrow> 's app \<Rightarrow> 's app" where
  "with_ui f a = a\<lparr>ap_ui := f (ap_ui a)\<rparr>"

definition with_view :: "(view \<Rightarrow> view) \<Rightarrow> 's app \<Rightarrow> 's app" where
  "with_view f a = a\<lparr>ap_view := f (ap_view a)\<rparr>"

definition push_action :: "action \<Rightarrow> 's app \<Rightarrow> 's app" where
  "push_action x a = a\<lparr>ap_actions := ap_actions a @ [x]\<rparr>"

definition request_refresh :: "'s app \<Rightarrow> 's app" where
  "request_refresh a = a\<lparr>ap_refresh_requested := True\<rparr>"

definition set_banner_ok :: "nat \<Rightarrow> str \<Rightarrow> 's app \<Rightarrow> 's app" where
  "set_banner_ok t s = with_ui (\<lambda>u. u\<lparr>ui_banner := Some (banner_ok t s)\<rparr>)"

definition set_banner_modal_ok :: "nat \<Rightarrow> str \<Rightarrow> 's app \<Rightarrow> 's app" where
  "set_banner_modal_ok t s = with_ui (\<lambda>u. u\<lparr>ui_banner := Some (banner_modal_ok t s)\<rparr>)"

definition set_banner_list :: "nat \<Rightarrow> list_modal \<Rightarrow> 's app \<Rightarrow> 's app" where
  "set_banner_list t l = with_ui (\<lambda>u. u\<lparr>ui_banner := Some (banner_list t l)\<rparr>)"

definition set_banner_err :: "nat \<Rightarrow> str \<Rightarrow> 's app \<Rightarrow> 's app" where
  "set_banner_err t s = with_ui (\<lambda>u. u\<lparr>ui_banner := Some (banner_err t s)\<rparr>)"

end
