(* ===== verification/Lifecycle.thy ===== *)
theory Lifecycle
  imports Screen
begin

text \<open>
  What the session does to the interface between keys, \<open>app/lifecycle.rs\<close>: selecting a channel, a
  thread or a conversation, replacing and extending the pages of search, saved messages, labels and
  notifications, the requests for more, the account page, and merging a refreshed snapshot.
\<close>

text \<open>What the interface takes from outside: completions, scroll views and the clock.\<close>

record 's device =
  dv_completer :: completer
  dv_scroller :: "'s scroller"
  dv_now :: nat

section \<open>Scrolling the detail pane\<close>

definition detail_offset :: "'s device \<Rightarrow> 's app \<Rightarrow> nat" where
  "detail_offset D a = py (sc_offset (dv_scroller D) (ui_detail_scroll (ap_ui a)))"

definition reset_detail_scroll :: "'s device \<Rightarrow> 's app \<Rightarrow> 's app" where
  "reset_detail_scroll D = with_ui (\<lambda>u. u\<lparr>ui_detail_scroll := sc_top (dv_scroller D) (ui_detail_scroll u),
     ui_detail_metrics := no_metrics, ui_selection_scroll_pending := False\<rparr>)"

definition scroll_detail_to_bottom :: "'s device \<Rightarrow> 's app \<Rightarrow> 's app" where
  "scroll_detail_to_bottom D = with_ui (\<lambda>u.
     u\<lparr>ui_detail_scroll := sc_set_offset (dv_scroller D) \<lparr>px = 0, py = 65535\<rparr> (ui_detail_scroll u)\<rparr>)"

definition reset_detail_scroll_to_bottom :: "'s device \<Rightarrow> 's app \<Rightarrow> 's app" where
  "reset_detail_scroll_to_bottom D a = scroll_detail_to_bottom D (reset_detail_scroll D a)"

section \<open>Selections\<close>

definition clear_channel_source_selection :: "'s app \<Rightarrow> 's app" where
  "clear_channel_source_selection = with_view (\<lambda>v. v\<lparr>sn_channel_id := None, sn_thread_id := None, sn_threads := [],
     sn_comments := [], sn_comments_more := False\<rparr>)"

definition clear_conversation_source_selection :: "'s app \<Rightarrow> 's app" where
  "clear_conversation_source_selection = with_view (\<lambda>v. v\<lparr>sn_conversation_id := None, sn_messages := [],
     sn_messages_more := False\<rparr>)"

definition clear_active_source_selection :: "'s app \<Rightarrow> 's app" where
  "clear_active_source_selection a =
     with_ui (\<lambda>u. u\<lparr>ui_highlight := None\<rparr>) (clear_conversation_source_selection (clear_channel_source_selection a))"

definition reset_history_limit :: "'s app \<Rightarrow> 's app" where
  "reset_history_limit a = a\<lparr>ap_history_limit := default_history_limit\<rparr>"

definition increase_history_limit :: "'s app \<Rightarrow> 's app" where
  "increase_history_limit a =
     a\<lparr>ap_history_limit := min (min (ap_history_limit a + default_history_limit) 9223372036854775807) max_history_limit\<rparr>"

definition select_channel :: "'s device \<Rightarrow> str \<Rightarrow> 's app \<Rightarrow> 's app" where
  "select_channel D channel_id a =
     (let a = clear_conversation_source_selection (reset_history_limit a);
          a = with_view (\<lambda>v. v\<lparr>sn_channel_id := Some channel_id, sn_thread_id := None, sn_threads := [], sn_comments := []\<rparr>) a;
          a = with_ui (\<lambda>u. u\<lparr>ui_pending_focus := None, ui_highlight := None\<rparr>) a;
          a = reset_detail_scroll_to_bottom D a
      in request_refresh (with_ui (\<lambda>u. u\<lparr>ui_route := RChannel channel_id, ui_active_pane := ListPane,
           ui_threads_collapsed := False\<rparr>) a))"

definition select_thread :: "'s device \<Rightarrow> str \<Rightarrow> str \<Rightarrow> 's app \<Rightarrow> 's app" where
  "select_thread D channel_id thread_id a =
     (let a = clear_conversation_source_selection (reset_history_limit a);
          a = with_view (\<lambda>v. v\<lparr>sn_channel_id := Some channel_id, sn_thread_id := Some thread_id\<rparr>) a;
          a = with_ui (\<lambda>u. u\<lparr>ui_pending_focus := None, ui_highlight := None\<rparr>) a;
          a = reset_detail_scroll_to_bottom D a;
          a = with_ui (\<lambda>u. u\<lparr>ui_route := RChannel channel_id, ui_active_pane := Detail, ui_threads_collapsed := False\<rparr>) a
      in request_refresh (push_action AMarkThreadRead a))"

definition select_conversation :: "'s device \<Rightarrow> str \<Rightarrow> 's app \<Rightarrow> 's app" where
  "select_conversation D conversation_id a =
     (let a = clear_channel_source_selection (reset_history_limit a);
          a = with_view (\<lambda>v. v\<lparr>sn_conversation_id := Some conversation_id\<rparr>) a;
          a = with_ui (\<lambda>u. u\<lparr>ui_pending_focus := None, ui_highlight := None\<rparr>) a;
          a = reset_detail_scroll D a;
          a = with_ui (\<lambda>u. u\<lparr>ui_route := RDms, ui_active_pane := Detail\<rparr>) a
      in request_refresh (push_action AMarkDmRead a))"

definition prepare_source_focus :: "source_focus \<Rightarrow> 's app \<Rightarrow> 's app" where
  "prepare_source_focus focus a =
     (let a = (case focus of FocusThreadRoot \<Rightarrow> a | _ \<Rightarrow> a\<lparr>ap_history_limit := max_history_limit\<rparr>)
      in with_ui (\<lambda>u. u\<lparr>ui_pending_focus := Some focus, ui_highlight := Some focus\<rparr>) a)"

definition select_thread_with_focus :: "'s device \<Rightarrow> str \<Rightarrow> str \<Rightarrow> source_focus \<Rightarrow> 's app \<Rightarrow> 's app" where
  "select_thread_with_focus D channel_id thread_id focus a =
     prepare_source_focus focus (select_thread D channel_id thread_id a)"

definition select_conversation_with_focus :: "'s device \<Rightarrow> str \<Rightarrow> source_focus \<Rightarrow> 's app \<Rightarrow> 's app" where
  "select_conversation_with_focus D conversation_id focus a =
     prepare_source_focus focus (select_conversation D conversation_id a)"

definition select_thread_at_bottom :: "'s device \<Rightarrow> str \<Rightarrow> str \<Rightarrow> 's app \<Rightarrow> 's app" where
  "select_thread_at_bottom D channel_id thread_id a = scroll_detail_to_bottom D (select_thread D channel_id thread_id a)"

definition select_conversation_at_bottom :: "'s device \<Rightarrow> str \<Rightarrow> 's app \<Rightarrow> 's app" where
  "select_conversation_at_bottom D conversation_id a = scroll_detail_to_bottom D (select_conversation D conversation_id a)"

definition selected_channel_slug :: "'s app \<Rightarrow> str option" where
  "selected_channel_slug a =
     (case sn_channel_id (ap_view a) of None \<Rightarrow> None
      | Some i \<Rightarrow> map_option ci_slug (List.find (\<lambda>c. ci_id c = i) (sn_channels (ap_view a))))"

section \<open>The account page\<close>

definition account_page_dirty :: "'s app \<Rightarrow> bool" where
  "account_page_dirty a \<longleftrightarrow>
     trim (cp_buffer (pg_username (ui_account (ap_ui a)))) \<noteq> ac_username (ap_account a)
     \<or> trim (cp_buffer (pg_display_name (ui_account (ap_ui a)))) \<noteq> ac_display_name (ap_account a)"

definition start_account_inputs :: "'s app \<Rightarrow> 's app" where
  "start_account_inputs a = with_ui (\<lambda>u. u\<lparr>ui_account := (ui_account u)
     \<lparr>pg_username := start (ac_username (ap_account a)) (pg_username (ui_account u)),
      pg_display_name := start (ac_display_name (ap_account a)) (pg_display_name (ui_account u))\<rparr>\<rparr>) a"

definition sync_account_page_form :: "'s app \<Rightarrow> 's app" where
  "sync_account_page_form a =
     (let needs_init = pg_initialized (ui_account (ap_ui a)) \<noteq> Some (ac_id (ap_account a)) in
      if needs_init \<or> \<not> account_page_dirty a
      then start_account_inputs (with_ui (\<lambda>u. u\<lparr>ui_account := (ui_account u)\<lparr>pg_initialized := Some (ac_id (ap_account a))\<rparr>\<rparr>) a)
      else a)"

definition set_focus :: "account_focus \<Rightarrow> 's app \<Rightarrow> 's app" where
  "set_focus f = with_ui (\<lambda>u. u\<lparr>ui_account := (ui_account u)\<lparr>pg_focus := f\<rparr>\<rparr>)"

definition open_account_page :: "'s device \<Rightarrow> 's app \<Rightarrow> 's app" where
  "open_account_page D a =
     (let a = sync_account_page_form (reset_detail_scroll D (clear_active_source_selection a))
      in set_focus FUsername (with_ui (\<lambda>u. u\<lparr>ui_route := RAccount, ui_active_pane := Detail\<rparr>) a))"

definition account_focuses :: "'s app \<Rightarrow> account_focus list" where
  "account_focuses a =
     [FUsername, FDisplayName, FSave, FReset, FLinkDevice]
     @ concat (map (\<lambda>(idx, k). if ks_revoked_at k = None then [FKeyLabel idx, FKeyDeactivate idx] else [])
         (List.enumerate 0 (sn_ssh_keys (ap_view a))))"

definition clamp_index :: "nat \<Rightarrow> int \<Rightarrow> nat \<Rightarrow> nat" where
  "clamp_index current delta len =
     (if len = 0 then 0 else nat (max 0 (min (int current + delta) (int (len - 1)))))"

definition index_of :: "'a \<Rightarrow> 'a list \<Rightarrow> nat option" where
  "index_of x xs = position (\<lambda>y. y = x) xs"

definition move_account :: "int \<Rightarrow> 's app \<Rightarrow> 's app" where
  "move_account delta a =
     (let focuses = account_focuses a in
      if focuses = [] then a
      else let current = value_or (index_of (pg_focus (ui_account (ap_ui a))) focuses) 0;
               next = clamp_index current delta (length focuses)
           in with_ui (\<lambda>u. u\<lparr>ui_selection_scroll_pending := True\<rparr>) (set_focus (focuses ! next) a))"

definition save_account_settings :: "'s device \<Rightarrow> 's app \<Rightarrow> 's app" where
  "save_account_settings D a =
     (let username = trim (cp_buffer (pg_username (ui_account (ap_ui a))));
          display_name = trim (cp_buffer (pg_display_name (ui_account (ap_ui a))))
      in if username = [] then set_banner_err (dv_now D) (lit ''Username is required'') a
         else if display_name = [] then set_banner_err (dv_now D) (lit ''Display name is required'') a
         else if \<not> account_page_dirty a then set_banner_ok (dv_now D) (lit ''Account settings unchanged'') a
         else push_action (ASaveAccountSettings username display_name) a)"

definition reset_account_settings :: "'s device \<Rightarrow> 's app \<Rightarrow> 's app" where
  "reset_account_settings D a = set_banner_ok (dv_now D) (lit ''Account settings reset'') (start_account_inputs a)"

section \<open>Completions\<close>

definition update_completions :: "'s device \<Rightarrow> 's app \<Rightarrow> 's app option" where
  "update_completions D a =
     map_option (\<lambda>ac. with_ui (\<lambda>u. u\<lparr>ui_composer := (ui_composer u)\<lparr>cp_autocomplete := ac\<rparr>\<rparr>) a)
       (autocomplete (dv_completer D) (cp_buffer (ui_composer (ap_ui a))) (cp_cursor (ui_composer (ap_ui a))) (ap_view a))"

definition enter_compose :: "'s device \<Rightarrow> str \<Rightarrow> 's app \<Rightarrow> 's app option" where
  "enter_compose D initial a =
     update_completions D (with_ui (\<lambda>u. u\<lparr>ui_mode := Workspace, ui_composer := start initial (ui_composer u)\<rparr>) a)"

definition activate_account_focus :: "'s device \<Rightarrow> 's app \<Rightarrow> 's app option" where
  "activate_account_focus D a =
     (case pg_focus (ui_account (ap_ui a)) of
        FSave \<Rightarrow> Some (save_account_settings D a)
      | FReset \<Rightarrow> Some (reset_account_settings D a)
      | FLinkDevice \<Rightarrow> Some (push_action (ACreateDeviceLinkToken None) a)
      | FKeyLabel idx \<Rightarrow> (case get_at idx (sn_ssh_keys (ap_view a)) of None \<Rightarrow> Some a
          | Some k \<Rightarrow> enter_compose D (lit ''/key label '' @ take 8 (ks_id k) @ [c_space]) a)
      | FKeyDeactivate idx \<Rightarrow> (case get_at idx (sn_ssh_keys (ap_view a)) of None \<Rightarrow> Some a
          | Some k \<Rightarrow> Some (push_action (ARevokeKey (take 8 (ks_id k))) a))
      | _ \<Rightarrow> Some a)"

section \<open>Pages\<close>

definition clamp_selected :: "nat \<Rightarrow> 'a list \<Rightarrow> nat" where
  "clamp_selected i xs = min i (length xs - 1)"

definition go_to :: "route \<Rightarrow> 's app \<Rightarrow> 's app" where
  "go_to r = with_ui (\<lambda>u. u\<lparr>ui_pending_focus := None, ui_highlight := None, ui_route := r, ui_active_pane := Detail\<rparr>)"

definition set_search_results :: "'s device \<Rightarrow> str \<Rightarrow> search_result list \<Rightarrow> bool \<Rightarrow> bool \<Rightarrow> 's app \<Rightarrow> 's app" where
  "set_search_results D query results further reset_selection a =
     (let a = with_view (\<lambda>v. v\<lparr>vw_search_query := Some query, vw_search_results := results, vw_search_more := further,
                vw_search_next := (if further then vw_search_next v else None)\<rparr>) a;
          a = go_to RSearch (clear_active_source_selection a)
      in if reset_selection then reset_detail_scroll D (with_ui (\<lambda>u. u\<lparr>ui_search_selected := 0\<rparr>) a)
         else with_ui (\<lambda>u. u\<lparr>ui_search_selected := clamp_selected (ui_search_selected u) results\<rparr>) a)"

definition set_saved_messages :: "'s device \<Rightarrow> saved_item list \<Rightarrow> bool \<Rightarrow> bool \<Rightarrow> 's app \<Rightarrow> 's app" where
  "set_saved_messages D saved further reset_selection a =
     (let a = with_view (\<lambda>v. v\<lparr>vw_saved := saved, vw_saved_more := further,
                vw_saved_next := (if further then vw_saved_next v else None)\<rparr>) a;
          a = go_to RSaved (clear_active_source_selection a)
      in if reset_selection then reset_detail_scroll D (with_ui (\<lambda>u. u\<lparr>ui_saved_selected := 0\<rparr>) a)
         else with_ui (\<lambda>u. u\<lparr>ui_saved_selected := clamp_selected (ui_saved_selected u) saved\<rparr>) a)"

definition set_label_feed :: "'s device \<Rightarrow> str \<Rightarrow> label_item list \<Rightarrow> bool \<Rightarrow> bool \<Rightarrow> 's app \<Rightarrow> 's app" where
  "set_label_feed D tag items further reset_selection a =
     (let a = with_view (\<lambda>v. v\<lparr>vw_label_query := Some tag, vw_label_items := items, vw_label_more := further,
                vw_label_next := (if further then vw_label_next v else None), sn_thread_id := None, sn_conversation_id := None\<rparr>) a;
          a = go_to (RLabel tag) a
      in if reset_selection then reset_detail_scroll D (with_ui (\<lambda>u. u\<lparr>ui_label_selected := 0\<rparr>) a)
         else with_ui (\<lambda>u. u\<lparr>ui_label_selected := clamp_selected (ui_label_selected u) items\<rparr>) a)"

definition set_search_results_page :: "'s device \<Rightarrow> str \<Rightarrow> search_result list \<Rightarrow> str option \<Rightarrow> bool \<Rightarrow> 's app \<Rightarrow> 's app" where
  "set_search_results_page D query results next_cursor reset_selection a =
     with_view (\<lambda>v. v\<lparr>vw_search_next := next_cursor\<rparr>)
       (set_search_results D query results (next_cursor \<noteq> None) reset_selection a)"

definition set_saved_messages_page :: "'s device \<Rightarrow> saved_item list \<Rightarrow> str option \<Rightarrow> bool \<Rightarrow> 's app \<Rightarrow> 's app" where
  "set_saved_messages_page D saved next_cursor reset_selection a =
     with_view (\<lambda>v. v\<lparr>vw_saved_next := next_cursor\<rparr>)
       (set_saved_messages D saved (next_cursor \<noteq> None) reset_selection a)"

definition set_label_feed_page :: "'s device \<Rightarrow> str \<Rightarrow> label_item list \<Rightarrow> str option \<Rightarrow> bool \<Rightarrow> 's app \<Rightarrow> 's app" where
  "set_label_feed_page D tag items next_cursor reset_selection a =
     with_view (\<lambda>v. v\<lparr>vw_label_next := next_cursor\<rparr>)
       (set_label_feed D tag items (next_cursor \<noteq> None) reset_selection a)"

definition append_search_results :: "str \<Rightarrow> search_result list \<Rightarrow> str option \<Rightarrow> 's app \<Rightarrow> 's app" where
  "append_search_results query results next_cursor a =
     (let a = (if vw_search_query (ap_view a) = Some query
               then with_view (\<lambda>v. v\<lparr>vw_search_results := vw_search_results v @ results\<rparr>) a
               else with_ui (\<lambda>u. u\<lparr>ui_search_selected := 0\<rparr>)
                 (with_view (\<lambda>v. v\<lparr>vw_search_query := Some query, vw_search_results := results\<rparr>) a));
          a = with_view (\<lambda>v. v\<lparr>vw_search_more := (next_cursor \<noteq> None), vw_search_next := next_cursor\<rparr>) a
      in go_to RSearch (clear_active_source_selection a))"

definition append_saved_messages :: "saved_item list \<Rightarrow> str option \<Rightarrow> 's app \<Rightarrow> 's app" where
  "append_saved_messages saved next_cursor a =
     (let a = with_view (\<lambda>v. v\<lparr>vw_saved := vw_saved v @ saved, vw_saved_more := (next_cursor \<noteq> None),
                vw_saved_next := next_cursor\<rparr>) a
      in go_to RSaved (clear_active_source_selection a))"

definition append_label_feed :: "str \<Rightarrow> label_item list \<Rightarrow> str option \<Rightarrow> 's app \<Rightarrow> 's app" where
  "append_label_feed tag items next_cursor a =
     (let a = (if vw_label_query (ap_view a) = Some tag
               then with_view (\<lambda>v. v\<lparr>vw_label_items := vw_label_items v @ items\<rparr>) a
               else with_ui (\<lambda>u. u\<lparr>ui_label_selected := 0\<rparr>)
                 (with_view (\<lambda>v. v\<lparr>vw_label_query := Some tag, vw_label_items := items\<rparr>) a));
          a = with_view (\<lambda>v. v\<lparr>vw_label_more := (next_cursor \<noteq> None), vw_label_next := next_cursor,
                sn_thread_id := None, sn_conversation_id := None\<rparr>) a
      in go_to (RLabel tag) a)"

definition visible_notification_indices :: "notification_summary list \<Rightarrow> notification_filter \<Rightarrow> nat list" where
  "visible_notification_indices ns f =
     map fst (filter (\<lambda>(_, n). case f of FilterAll \<Rightarrow> True | FilterUnread \<Rightarrow> ns_read_at n = None
        | FilterRead \<Rightarrow> ns_read_at n \<noteq> None) (List.enumerate 0 ns))"

definition visible_notifications :: "'s app \<Rightarrow> nat list" where
  "visible_notifications a = visible_notification_indices (sn_notifications (ap_view a)) (ui_notification_filter (ap_ui a))"

definition clamp_notifications :: "'s app \<Rightarrow> 's app" where
  "clamp_notifications a =
     with_ui (\<lambda>u. u\<lparr>ui_notifications_selected := clamp_selected (ui_notifications_selected u) (visible_notifications a)\<rparr>) a"

definition set_notifications_page :: "'s device \<Rightarrow> notification_summary list \<Rightarrow> str option \<Rightarrow> bool \<Rightarrow> 's app \<Rightarrow> 's app" where
  "set_notifications_page D ns next_cursor reset_selection a =
     (let a = with_view (\<lambda>v. v\<lparr>sn_notifications := ns, sn_notifications_next := next_cursor\<rparr>) a;
          a = go_to RNotifications (clear_active_source_selection a)
      in if reset_selection then reset_detail_scroll D (with_ui (\<lambda>u. u\<lparr>ui_notifications_selected := 0\<rparr>) a)
         else clamp_notifications a)"

definition append_notifications :: "notification_summary list \<Rightarrow> str option \<Rightarrow> 's app \<Rightarrow> 's app" where
  "append_notifications ns next_cursor a =
     (let a = with_view (\<lambda>v. v\<lparr>sn_notifications := sn_notifications v @ ns, sn_notifications_next := next_cursor\<rparr>) a
      in with_ui (\<lambda>u. u\<lparr>ui_highlight := None, ui_route := RNotifications, ui_active_pane := Detail\<rparr>)
           (clear_active_source_selection a))"


section \<open>Requests for more\<close>

definition search_query_of :: "'s app \<Rightarrow> str option" where
  "search_query_of a = (if ui_route (ap_ui a) = RSearch then vw_search_query (ap_view a) else None)"

definition saved_active :: "'s app \<Rightarrow> bool" where
  "saved_active a \<longleftrightarrow> ui_route (ap_ui a) = RSaved"

definition label_query_of :: "'s app \<Rightarrow> str option" where
  "label_query_of a = (if is_label_route (ui_route (ap_ui a)) then vw_label_query (ap_view a) else None)"

definition notifications_active :: "'s app \<Rightarrow> bool" where
  "notifications_active a \<longleftrightarrow> ui_route (ap_ui a) = RNotifications"

definition current_load_more_request :: "'s app \<Rightarrow> load_more_request option" where
  "current_load_more_request a =
     (if saved_active a then map_option LSaved (vw_saved_next (ap_view a))
      else case (search_query_of a, vw_search_next (ap_view a)) of
        (Some query, Some cursor) \<Rightarrow> Some (LSearch query cursor)
      | _ \<Rightarrow> (case (label_query_of a, vw_label_next (ap_view a)) of
          (Some tag, Some cursor) \<Rightarrow> Some (LLabel tag cursor)
        | _ \<Rightarrow> if notifications_active a then map_option LNotifications (sn_notifications_next (ap_view a)) else None))"

definition queue_load_more_request :: "load_more_request \<Rightarrow> 's app \<Rightarrow> bool \<times> 's app" where
  "queue_load_more_request request a =
     (if request \<in> ap_pending_more a then (False, a)
      else (True, push_action (ALoadMore (Some request)) (a\<lparr>ap_pending_more := insert request (ap_pending_more a)\<rparr>)))"

definition finish_load_more_request :: "load_more_request \<Rightarrow> 's app \<Rightarrow> 's app" where
  "finish_load_more_request request a = a\<lparr>ap_pending_more := ap_pending_more a - {request}\<rparr>"

definition load_more_request_is_current :: "load_more_request \<Rightarrow> 's app \<Rightarrow> bool" where
  "load_more_request_is_current request a \<longleftrightarrow>
     (case request of
        LSaved cursor \<Rightarrow> saved_active a \<and> vw_saved_next (ap_view a) = Some cursor
      | LSearch query cursor \<Rightarrow> search_query_of a = Some query \<and> vw_search_next (ap_view a) = Some cursor
      | LLabel tag cursor \<Rightarrow> label_query_of a = Some tag \<and> vw_label_next (ap_view a) = Some cursor
      | LNotifications cursor \<Rightarrow> notifications_active a \<and> sn_notifications_next (ap_view a) = Some cursor)"

section \<open>Refreshing\<close>

text \<open>The first snapshot of a session.\<close>

definition new_app :: "'s device \<Rightarrow> account \<Rightarrow> snapshot \<Rightarrow> 's app" where
  "new_app D account sn =
     (let u = sync_route_from_snapshot sn (new_ui (dv_scroller D));
          u = (if ac_activated account
               then show_startup_splash (dv_now D) 2400 (u\<lparr>ui_route := RNotifications, ui_active_pane := Detail\<rparr>)
               else case ac_pending_username account of
                 Some username \<Rightarrow> u\<lparr>ui_composer := start username (ui_composer u)\<rparr> | None \<Rightarrow> u)
      in \<lparr>ap_running = True, ap_account = account, ap_view = view_of sn, ap_ui = u, ap_actions = [],
          ap_refresh_requested = False, ap_link_open = None, ap_clipboard = None, ap_pointer = DefaultShape,
          ap_history_limit = default_history_limit, ap_seen = set (map ns_id (sn_notifications sn)),
          ap_terminal_notifications = [], ap_title = None, ap_pending_more = {}\<rparr>)"

text \<open>What a refresh remembers of the interface while the snapshot is being fetched.\<close>

record refresh_inputs =
  ri_was_activated :: bool
  ri_history_limit :: int
  ri_view :: view

definition refresh_inputs_of :: "'s app \<Rightarrow> refresh_inputs" where
  "refresh_inputs_of a =
     \<lparr>ri_was_activated = ac_activated (ap_account a), ri_history_limit = ap_history_limit a, ri_view = ap_view a\<rparr>"

definition queue_new_terminal_notifications :: "bool \<Rightarrow> 's app \<Rightarrow> 's app" where
  "queue_new_terminal_notifications enabled a =
     fold (\<lambda>n a. a\<lparr>
         ap_terminal_notifications := ap_terminal_notifications a
           @ (if ns_read_at n = None \<and> enabled \<and> ns_id n \<notin> ap_seen a
              then [\<lparr>tn_id = ns_id n, tn_title = ns_title n, tn_body = ns_body n\<rparr>] else []),
         ap_seen := insert (ns_id n) (ap_seen a)\<rparr>)
       (sn_notifications (ap_view a)) a"

definition keep_page :: "view \<Rightarrow> 's app \<Rightarrow> 's app" where
  "keep_page old a =
     (case ui_route (ap_ui a) of
        RSearch \<Rightarrow>
          with_ui (\<lambda>u. u\<lparr>ui_search_selected := clamp_selected (ui_search_selected u) (vw_search_results old)\<rparr>)
            (with_view (\<lambda>v. v\<lparr>vw_search_query := vw_search_query old, vw_search_results := vw_search_results old,
               vw_search_more := vw_search_more old, vw_search_next := vw_search_next old\<rparr>) a)
      | RSaved \<Rightarrow>
          with_ui (\<lambda>u. u\<lparr>ui_saved_selected := clamp_selected (ui_saved_selected u) (vw_saved old)\<rparr>)
            (with_view (\<lambda>v. v\<lparr>vw_saved := vw_saved old, vw_saved_more := vw_saved_more old, vw_saved_next := vw_saved_next old\<rparr>) a)
      | RLabel _ \<Rightarrow>
          with_ui (\<lambda>u. u\<lparr>ui_label_selected := clamp_selected (ui_label_selected u) (vw_label_items old)\<rparr>)
            (with_view (\<lambda>v. v\<lparr>vw_label_query := vw_label_query old, vw_label_items := vw_label_items old,
               vw_label_more := vw_label_more old, vw_label_next := vw_label_next old\<rparr>) a)
      | RNotifications \<Rightarrow>
          clamp_notifications (with_view (\<lambda>v. v\<lparr>sn_notifications := sn_notifications old,
             sn_notifications_next := sn_notifications_next old\<rparr>) a)
      | _ \<Rightarrow> a)"

definition apply_refresh :: "'s device \<Rightarrow> refresh_inputs \<Rightarrow> account \<Rightarrow> snapshot \<Rightarrow> bool \<Rightarrow> 's app \<Rightarrow> 's app option" where
  "apply_refresh D inputs account sn enabled a =
     (let a = sync_account_page_form (a\<lparr>ap_account := account, ap_view := view_of sn\<rparr>);
          a = (if \<not> ri_was_activated inputs \<and> ac_activated account
               then with_ui (\<lambda>u. show_startup_splash (dv_now D) 2400
                 (u\<lparr>ui_route := RNotifications, ui_active_pane := Detail, ui_composer := reset_input (ui_composer u)\<rparr>)) a
               else a);
          a = keep_page (ri_view inputs) (queue_new_terminal_notifications enabled a);
          a = (if ui_route (ap_ui a) \<in> {RSearch, RSaved, RNotifications} then clear_active_source_selection a else a);
          a = with_ui (sync_route_from_snapshot (ap_view a)) a
      in map_option (\<lambda>a. a\<lparr>ap_refresh_requested := False\<rparr>) (update_completions D a))"

text \<open>8226 is the bullet.\<close>

definition current_terminal_title :: "'s app \<Rightarrow> str" where
  "current_terminal_title a =
     (case selected_channel_slug a of
        None \<Rightarrow> lit ''sshoosh''
      | Some slug \<Rightarrow> lit ''sshoosh '' @ [8226, c_space, c_hash] @ slug
          @ (if 0 < sn_notification_unread (ap_view a)
             then [c_space, 8226, c_space] @ show_int (sn_notification_unread (ap_view a)) @ lit '' unread'' else []))"

definition terminal_title_update :: "'s app \<Rightarrow> str option \<times> 's app" where
  "terminal_title_update a =
     (let title = current_terminal_title a in
      if ap_title a = Some title then (None, a) else (Some title, a\<lparr>ap_title := Some title\<rparr>))"

definition take_actions :: "'s app \<Rightarrow> action list \<times> 's app" where
  "take_actions a = (ap_actions a, a\<lparr>ap_actions := []\<rparr>)"

definition take_refresh_requested :: "'s app \<Rightarrow> bool \<times> 's app" where
  "take_refresh_requested a = (ap_refresh_requested a, a\<lparr>ap_refresh_requested := False\<rparr>)"

end
