(* ===== verification/Navigation.thy ===== *)
theory Navigation
  imports Lifecycle
begin

text \<open>
  Moving around the workspace, \<open>app/navigation.rs\<close>: the rows of the rail, the selection in lists,
  the focus in a conversation, scrolling, and opening what is selected. Deltas are \<open>isize\<close>, an
  unbounded \<open>int\<close> here, as the largest is half of the range.
\<close>

section \<open>History and pages\<close>

definition can_load_older_history :: "'s app \<Rightarrow> bool" where
  "can_load_older_history a \<longleftrightarrow> ap_history_limit a < max_history_limit
     \<and> (case ui_route (ap_ui a) of
          RChannel _ \<Rightarrow> sn_thread_id (ap_view a) \<noteq> None \<and> sn_comments_more (ap_view a)
        | RDms \<Rightarrow> sn_conversation_id (ap_view a) \<noteq> None \<and> sn_messages_more (ap_view a)
        | _ \<Rightarrow> False)"

definition can_load_more_result_list :: "'s app \<Rightarrow> bool" where
  "can_load_more_result_list a \<longleftrightarrow>
     (case ui_route (ap_ui a) of
        RLabel _ \<Rightarrow> vw_label_next (ap_view a) \<noteq> None
      | RSaved \<Rightarrow> vw_saved_next (ap_view a) \<noteq> None
      | RNotifications \<Rightarrow> sn_notifications_next (ap_view a) \<noteq> None
      | _ \<Rightarrow> False)"

definition queue_older_history_if_available :: "'s app \<Rightarrow> 's app" where
  "queue_older_history_if_available a =
     (if can_load_older_history a \<and> ALoadOlder \<notin> set (ap_actions a) then push_action ALoadOlder a else a)"

definition queue_result_list_page_if_available :: "'s app \<Rightarrow> 's app" where
  "queue_result_list_page_if_available a =
     (if can_load_more_result_list a
      then (case current_load_more_request a of None \<Rightarrow> a | Some request \<Rightarrow> snd (queue_load_more_request request a))
      else a)"

definition detail_at_top :: "'s device \<Rightarrow> 's app \<Rightarrow> bool" where
  "detail_at_top D a \<longleftrightarrow> detail_offset D a = 0"

definition detail_at_bottom :: "'s device \<Rightarrow> 's app \<Rightarrow> bool" where
  "detail_at_bottom D a \<longleftrightarrow> at_bottom ((ui_detail_metrics (ap_ui a))\<lparr>me_offset_y := detail_offset D a\<rparr>)"

definition scroll_detail :: "('s scroller \<Rightarrow> 's \<Rightarrow> 's) \<Rightarrow> 's device \<Rightarrow> 's app \<Rightarrow> 's app" where
  "scroll_detail f D = with_ui (\<lambda>u. u\<lparr>ui_detail_scroll := f (dv_scroller D) (ui_detail_scroll u)\<rparr>)"

definition move_detail :: "'s device \<Rightarrow> int \<Rightarrow> 's app \<Rightarrow> 's app" where
  "move_detail D delta a =
     (if delta < 0
      then (scroll_detail sc_up D ^^ nat (- delta)) (if detail_at_top D a then queue_older_history_if_available a else a)
      else (scroll_detail sc_down D ^^ nat delta) (if detail_at_bottom D a then queue_result_list_page_if_available a else a))"

definition page_detail :: "'s device \<Rightarrow> bool \<Rightarrow> 's app \<Rightarrow> 's app" where
  "page_detail D down a =
     (let metrics = ui_detail_metrics (ap_ui a);
          step = max (me_viewport_height metrics - 1) 1;
          y = detail_offset D a;
          go = (\<lambda>y. scroll_detail (\<lambda>S. sc_set_offset S \<lparr>px = 0, py = y\<rparr>) D)
      in if down
         then go (min (sat16 (y + step)) (me_max_y_offset metrics))
                (if detail_at_bottom D a then queue_result_list_page_if_available a else a)
         else go (y - step) (if detail_at_top D a then queue_older_history_if_available a else a))"

section \<open>The focus in a thread or a conversation\<close>

definition find_thread :: "str option \<Rightarrow> 'a snapshot_scheme \<Rightarrow> thread_item option" where
  "find_thread i sn = List.find (\<lambda>t. i = Some (ti_id t)) (sn_threads sn)"

definition detail_message_focuses :: "'s app \<Rightarrow> source_focus list" where
  "detail_message_focuses a =
     (let v = ap_view a in
      case ui_route (ap_ui a) of
        RChannel _ \<Rightarrow>
          if sn_thread_id v = None then []
          else (case find_thread (sn_thread_id v) v of
                  Some t \<Rightarrow> if trim (ti_body t) \<noteq> [] then [FocusThreadRoot] else []
                | None \<Rightarrow> [])
            @ map (\<lambda>c. FocusComment (it_index c)) (sn_comments v)
      | RDms \<Rightarrow> if sn_conversation_id v = None then [] else map (\<lambda>m. FocusDm (it_index m)) (sn_messages v)
      | _ \<Rightarrow> [])"

definition is_editable_message :: "hit_target \<Rightarrow> bool" where
  "is_editable_message t \<longleftrightarrow> (case t of HEditableMessage _ \<Rightarrow> True | _ \<Rightarrow> False)"

definition focus_at_row :: "'s app \<Rightarrow> nat \<Rightarrow> source_focus option" where
  "focus_at_row a row =
     (case hit_row_matching row is_editable_message (ui_hit_map (ap_ui a)) of
        None \<Rightarrow> None
      | Some region \<Rightarrow> (case (hr_target region, ui_route (ap_ui a)) of
            (HEditableMessage (EditComment i), RChannel _) \<Rightarrow> Some (FocusComment i)
          | (HEditableMessage (EditDm i), RDms) \<Rightarrow> Some (FocusDm i)
          | _ \<Rightarrow> None))"

definition push_visible :: "source_focus option \<Rightarrow> source_focus list \<Rightarrow> source_focus list" where
  "push_visible f visible =
     (case f of None \<Rightarrow> visible
      | Some f \<Rightarrow> if visible \<noteq> [] \<and> last visible = f then visible else visible @ [f])"

definition visible_detail_message_focuses :: "'s app \<Rightarrow> source_focus list" where
  "visible_detail_message_focuses a =
     (let viewport_height = max (me_viewport_height (ui_detail_metrics (ap_ui a))) 1 in
      case List.find (\<lambda>row. hit_row_matching row (\<lambda>t. t = HDetailScroll) (ui_hit_map (ap_ui a)) \<noteq> None) [0..<65535] of
        None \<Rightarrow> []
      | Some first_row \<Rightarrow> fold (\<lambda>row. push_visible (focus_at_row a row)) [first_row..<sat16 (first_row + viewport_height)] [])"

definition visible_detail_message_focus :: "int \<Rightarrow> 's app \<Rightarrow> source_focus option" where
  "visible_detail_message_focus delta a =
     (let visible = visible_detail_message_focuses a in
      if visible = [] then None else if delta < 0 then Some (last visible) else Some (hd visible))"

definition move_detail_message_focus :: "'s device \<Rightarrow> int \<Rightarrow> 's app \<Rightarrow> bool \<times> 's app" where
  "move_detail_message_focus D delta a =
     (let focuses = detail_message_focuses a;
          focus = (\<lambda>i. (True, with_ui (\<lambda>u. u\<lparr>ui_highlight := Some (focuses ! i), ui_selection_scroll_pending := True\<rparr>) a))
      in if focuses = [] then (False, a)
         else case Option.bind (ui_highlight (ap_ui a)) (\<lambda>f. index_of f focuses) of
           Some current \<Rightarrow>
             let i = clamp_index current delta (length focuses) in
             if i = current
             then (True, if delta < 0 \<and> current = 0 then queue_older_history_if_available a else a)
             else focus i
         | None \<Rightarrow>
             if 0 < delta \<and> detail_at_top D a then focus 0
             else if delta < 0 \<and> detail_at_top D a then (True, queue_older_history_if_available a)
             else if delta < 0 \<and> detail_at_bottom D a then focus (length focuses - 1)
             else case visible_detail_message_focus delta a of
               Some visible \<Rightarrow>
                 focus (value_or (index_of visible focuses) (if delta < 0 then length focuses - 1 else 0))
             | None \<Rightarrow> if delta < 0 then focus (length focuses - 1) else focus 0)"

definition prepare_older_history_anchor :: "'s app \<Rightarrow> 's app" where
  "prepare_older_history_anchor a =
     (let v = ap_view a;
          anchor = (case visible_detail_message_focuses a of
              f # _ \<Rightarrow> Some f
            | [] \<Rightarrow> (case ui_route (ap_ui a) of
                RChannel _ \<Rightarrow> (case sn_comments v of c # _ \<Rightarrow> Some (FocusComment (it_index c)) | [] \<Rightarrow> Some FocusThreadRoot)
              | RDms \<Rightarrow> (case sn_messages v of m # _ \<Rightarrow> Some (FocusDm (it_index m)) | [] \<Rightarrow> None)
              | _ \<Rightarrow> None))
      in with_ui (\<lambda>u. u\<lparr>ui_pending_focus := anchor\<rparr>) a)"

section \<open>Selection in lists\<close>

definition move_search :: "int \<Rightarrow> 's app \<Rightarrow> 's app" where
  "move_search delta a =
     (let len = length (vw_search_results (ap_view a)) in
      if len = 0 then a
      else with_ui (\<lambda>u. u\<lparr>ui_search_selected := clamp_index (ui_search_selected u) delta len\<rparr>) a)"

text \<open>Moving in a list that loads more at its end; \<open>store\<close> stores the new selection.\<close>

definition move_in_list :: "nat \<Rightarrow> nat \<Rightarrow> (nat \<Rightarrow> 's ui \<Rightarrow> 's ui) \<Rightarrow> int \<Rightarrow> 's app \<Rightarrow> 's app" where
  "move_in_list len chosen store delta a =
     (if len = 0 then a
      else let i = clamp_index chosen delta len in
        if i \<noteq> chosen then with_ui (\<lambda>u. (store i u)\<lparr>ui_selection_scroll_pending := True\<rparr>) a
        else if 0 < delta \<and> chosen = len - 1 then queue_result_list_page_if_available a
        else a)"

definition move_label :: "int \<Rightarrow> 's app \<Rightarrow> 's app" where
  "move_label delta a = move_in_list (length (vw_label_items (ap_view a))) (ui_label_selected (ap_ui a))
     (\<lambda>i u. u\<lparr>ui_label_selected := i\<rparr>) delta a"

definition move_saved :: "int \<Rightarrow> 's app \<Rightarrow> 's app" where
  "move_saved delta a = move_in_list (length (vw_saved (ap_view a))) (ui_saved_selected (ap_ui a))
     (\<lambda>i u. u\<lparr>ui_saved_selected := i\<rparr>) delta a"

definition move_notifications :: "int \<Rightarrow> 's app \<Rightarrow> 's app" where
  "move_notifications delta a = move_in_list (length (visible_notifications a)) (ui_notifications_selected (ap_ui a))
     (\<lambda>i u. u\<lparr>ui_notifications_selected := i\<rparr>) delta a"

section \<open>The rail\<close>

datatype workspace_row =
    WAccount
  | WChannel str
  | WThread str
  | WLabel str
  | WLabelsMore
  | WSaved
  | WNotifications
  | WDm "str option" str

definition all_workspace_label_tags :: "'s app \<Rightarrow> str list" where
  "all_workspace_label_tags a =
     (let tags = map hl_tag (sn_hot_labels (ap_view a)) in
      case ui_route (ap_ui a) of RLabel tag \<Rightarrow> if tag \<in> set tags then tags else tags @ [tag] | _ \<Rightarrow> tags)"

definition workspace_label_tags :: "'s app \<Rightarrow> str list" where
  "workspace_label_tags a =
     (let tags = all_workspace_label_tags a in if \<not> ui_labels_expanded (ap_ui a) then take 5 tags else tags)"

definition channel_rows :: "'s app \<Rightarrow> channel \<Rightarrow> workspace_row list" where
  "channel_rows a c =
     WChannel (ci_id c) #
     (if sn_channel_id (ap_view a) = Some (ci_id c) \<and> is_channel_route (ui_route (ap_ui a)) \<and> \<not> ui_threads_collapsed (ap_ui a)
      then map (\<lambda>t. WThread (ti_id t)) (sn_threads (ap_view a)) else [])"

definition dm_row :: "dm_item \<Rightarrow> workspace_row" where
  "dm_row d = WDm (ds_conversation_id d) (ds_peer_username d)"

definition workspace_rows :: "'s app \<Rightarrow> workspace_row list" where
  "workspace_rows a =
     [WNotifications, WSaved, WAccount]
     @ concat (map (channel_rows a) (sn_channels (ap_view a)))
     @ (if sn_dm_sidebar (ap_view a) = [] then map dm_row (sn_conversations (ap_view a)) else map dm_row (sn_dm_sidebar (ap_view a)))
     @ map WLabel (workspace_label_tags a)
     @ (if \<not> ui_labels_expanded (ap_ui a) \<and> length (workspace_label_tags a) < length (all_workspace_label_tags a)
        then [WLabelsMore] else [])"

definition current_workspace_row :: "'s app \<Rightarrow> workspace_row option" where
  "current_workspace_row a =
     (let v = ap_view a; u = ap_ui a; channel_row = map_option WChannel (sn_channel_id v) in
      if ui_active_pane u = ListPane \<and> \<not> ui_threads_collapsed u
      then (case sn_thread_id v of Some i \<Rightarrow> Some (WThread i) | None \<Rightarrow> channel_row)
      else case ui_route u of
        RDms \<Rightarrow> (case sn_conversation_id v of None \<Rightarrow> None
          | Some i \<Rightarrow> (case List.find (\<lambda>d. ds_conversation_id d = Some i) (sn_dm_sidebar v) of
              Some d \<Rightarrow> Some (WDm (Some i) (ds_peer_username d))
            | None \<Rightarrow> map_option (\<lambda>d. WDm (Some i) (ds_peer_username d))
                (List.find (\<lambda>d. ds_conversation_id d = Some i) (sn_conversations v))))
      | RSaved \<Rightarrow> Some WSaved
      | RNotifications \<Rightarrow> Some WNotifications
      | RAccount \<Rightarrow> Some WAccount
      | RLabel tag \<Rightarrow> Some (WLabel tag)
      | _ \<Rightarrow> channel_row)"


definition apply_workspace_row :: "'s device \<Rightarrow> workspace_row \<Rightarrow> 's app \<Rightarrow> 's app" where
  "apply_workspace_row D row a =
     (case row of
        WChannel channel_id \<Rightarrow>
          let changed = sn_channel_id (ap_view a) \<noteq> Some channel_id \<or> \<not> is_channel_route (ui_route (ap_ui a));
              a = with_view (\<lambda>v. v\<lparr>sn_channel_id := Some channel_id\<rparr>) (clear_conversation_source_selection a);
              a = with_ui (\<lambda>u. u\<lparr>ui_route := RChannel channel_id, ui_active_pane := Rail\<rparr>) a
          in if changed
             then request_refresh (with_ui (\<lambda>u. u\<lparr>ui_threads_collapsed := False\<rparr>)
               (reset_detail_scroll_to_bottom D (with_view (\<lambda>v. v\<lparr>sn_thread_id := None, sn_threads := [], sn_comments := []\<rparr>) a)))
             else a
      | WThread thread_id \<Rightarrow>
          let changed = sn_thread_id (ap_view a) \<noteq> Some thread_id;
              a = with_view (\<lambda>v. v\<lparr>sn_thread_id := Some thread_id, sn_comments := []\<rparr>) (clear_conversation_source_selection a);
              a = (if changed then reset_detail_scroll_to_bottom D a else a);
              a = with_ui (\<lambda>u. u\<lparr>ui_active_pane := ListPane, ui_threads_collapsed := False\<rparr>) a;
              a = (case sn_channel_id (ap_view a) of Some c \<Rightarrow> with_ui (\<lambda>u. u\<lparr>ui_route := RChannel c\<rparr>) a | None \<Rightarrow> a)
          in request_refresh a
      | WSaved \<Rightarrow>
          let a = with_ui (\<lambda>u. u\<lparr>ui_route := RSaved, ui_active_pane := Detail\<rparr>) a
          in push_action AListSaved (reset_detail_scroll D (clear_active_source_selection a))
      | WAccount \<Rightarrow> open_account_page D a
      | WLabel tag \<Rightarrow>
          let a = with_ui (\<lambda>u. u\<lparr>ui_route := RLabel tag, ui_active_pane := Detail\<rparr>) a;
              a = with_view (\<lambda>v. v\<lparr>sn_thread_id := None, sn_conversation_id := None\<rparr>) a
          in push_action (AOpenLabel tag) (reset_detail_scroll D a)
      | WLabelsMore \<Rightarrow> with_ui (\<lambda>u. u\<lparr>ui_labels_expanded := True, ui_active_pane := Rail\<rparr>) a
      | WNotifications \<Rightarrow>
          let a = with_ui (\<lambda>u. u\<lparr>ui_route := RNotifications, ui_active_pane := Detail\<rparr>) a
          in push_action AListNotifications (reset_detail_scroll D (clear_active_source_selection a))
      | WDm conversation_id username \<Rightarrow>
          (case conversation_id of
             None \<Rightarrow> push_action (AOpenDm username) a
           | Some i \<Rightarrow>
               let changed = sn_conversation_id (ap_view a) \<noteq> Some i;
                   a = with_view (\<lambda>v. v\<lparr>sn_conversation_id := Some i\<rparr>) (clear_channel_source_selection a);
                   a = with_ui (\<lambda>u. u\<lparr>ui_route := RDms, ui_active_pane := Rail\<rparr>) a
               in if changed
                  then request_refresh (reset_detail_scroll D (with_view (\<lambda>v. v\<lparr>sn_messages := []\<rparr>) a))
                  else a))"

definition move_workspace :: "'s device \<Rightarrow> int \<Rightarrow> 's app \<Rightarrow> 's app" where
  "move_workspace D delta a =
     (let rows = workspace_rows a;
          current = value_or (Option.bind (current_workspace_row a) (\<lambda>row. index_of row rows)) 0
      in apply_workspace_row D (rows ! clamp_index current delta (length rows)) a)"

definition move_selection :: "'s device \<Rightarrow> int \<Rightarrow> 's app \<Rightarrow> 's app" where
  "move_selection D delta a =
     (let u = ap_ui a; in_detail = (ui_active_pane u = Detail) in
      if ui_route u = RSearch then move_search delta a
      else if is_label_route (ui_route u) \<and> in_detail then move_label delta a
      else if ui_route u = RSaved \<and> in_detail then move_saved delta a
      else if ui_route u = RNotifications \<and> in_detail then move_notifications delta a
      else if ui_route u = RAccount \<and> in_detail then move_account delta a
      else if in_detail
      then (let (moved, b) = move_detail_message_focus D delta a in if moved then b else move_detail D delta b)
      else move_workspace D delta a)"

text \<open>\<open>isize::MAX / 2\<close> and \<open>isize::MIN / 2\<close>.\<close>

definition move_to_edge :: "'s device \<Rightarrow> bool \<Rightarrow> 's app \<Rightarrow> 's app" where
  "move_to_edge D to_end a =
     (if ui_active_pane (ap_ui a) = Detail
      then if to_end then queue_result_list_page_if_available (scroll_detail sc_bottom D a)
           else if detail_at_top D a then queue_older_history_if_available a
           else scroll_detail sc_top D a
      else move_selection D (if to_end then 4611686018427387903 else - 4611686018427387904) a)"

section \<open>Opening what is selected\<close>

definition activate_search_result :: "'s device \<Rightarrow> 's app \<Rightarrow> 's app" where
  "activate_search_result D a =
     (case get_at (ui_search_selected (ap_ui a)) (vw_search_results (ap_view a)) of
        None \<Rightarrow> a
      | Some r \<Rightarrow> (case sr_conversation_id r of
            Some i \<Rightarrow> select_conversation D i a
          | None \<Rightarrow> (case (sr_channel_id r, sr_thread_id r) of
                (Some c, Some t) \<Rightarrow> select_thread D c t a
              | _ \<Rightarrow> a)))"

definition open_thread_or :: "'s device \<Rightarrow> str option \<Rightarrow> str option \<Rightarrow> source_focus \<Rightarrow> ('s app \<Rightarrow> 's app) \<Rightarrow> 's app \<Rightarrow> 's app" where
  "open_thread_or D channel_id thread_id focus otherwise a =
     (case (channel_id, thread_id) of (Some c, Some t) \<Rightarrow> select_thread_with_focus D c t focus a | _ \<Rightarrow> otherwise a)"

definition open_conversation_or :: "'s device \<Rightarrow> str option \<Rightarrow> source_focus \<Rightarrow> ('s app \<Rightarrow> 's app) \<Rightarrow> 's app \<Rightarrow> 's app" where
  "open_conversation_or D conversation_id focus otherwise a =
     (case conversation_id of Some i \<Rightarrow> select_conversation_with_focus D i focus a | None \<Rightarrow> otherwise a)"

definition activate_label_result :: "'s device \<Rightarrow> 's app \<Rightarrow> 's app" where
  "activate_label_result D a =
     (case get_at (ui_label_selected (ap_ui a)) (vw_label_items (ap_view a)) of
        None \<Rightarrow> a
      | Some i \<Rightarrow>
          let focus = (case lf_kind i of
                LabelThread \<Rightarrow> FocusThreadRoot
              | LabelComment \<Rightarrow> (case lf_source_index i of Some n \<Rightarrow> FocusComment n | None \<Rightarrow> FocusThreadRoot)
              | LabelDm \<Rightarrow> FocusDm (value_or (lf_source_index i) 0))
          in open_thread_or D (lf_channel_id i) (lf_thread_id i) focus
               (open_conversation_or D (lf_conversation_id i) focus id) a)"

definition activate_saved_result :: "'s device \<Rightarrow> 's app \<Rightarrow> 's app" where
  "activate_saved_result D a =
     (case get_at (ui_saved_selected (ap_ui a)) (vw_saved (ap_view a)) of
        None \<Rightarrow> a
      | Some i \<Rightarrow> (case sv_kind i of
            SavedDm \<Rightarrow> open_conversation_or D (sv_conversation_id i) (FocusDm (sv_source_index i))
              (open_thread_or D (sv_channel_id i) (sv_thread_id i) (FocusDm (sv_source_index i)) id) a
          | SavedComment \<Rightarrow> open_thread_or D (sv_channel_id i) (sv_thread_id i) (FocusComment (sv_source_index i))
              (open_conversation_or D (sv_conversation_id i) (FocusComment (sv_source_index i)) id) a))"

definition open_with :: "('s app \<Rightarrow> 's app) \<Rightarrow> source_focus option \<Rightarrow> 's app \<Rightarrow> 's app" where
  "open_with select focus a = (case focus of Some f \<Rightarrow> prepare_source_focus f (select a) | None \<Rightarrow> select a)"

definition activate_notification_result :: "'s device \<Rightarrow> 's app \<Rightarrow> 's app" where
  "activate_notification_result D a =
     (case Option.bind (get_at (ui_notifications_selected (ap_ui a)) (visible_notifications a))
             (\<lambda>i. get_at i (sn_notifications (ap_view a))) of
        None \<Rightarrow> a
      | Some n \<Rightarrow>
          if ns_conversation_id n = None \<and> ns_channel_id n = None then a
          else let focus = (case ns_source_kind n of
                     Some SThread \<Rightarrow> Some FocusThreadRoot
                   | Some SComment \<Rightarrow> map_option FocusComment (ns_source_index n)
                   | Some SDm \<Rightarrow> map_option FocusDm (ns_source_index n)
                   | None \<Rightarrow> None)
               in case (ns_source_kind n, ns_conversation_id n) of
                 (Some SDm, Some i) \<Rightarrow> open_with (select_conversation D i) focus a
               | _ \<Rightarrow> (case (ns_channel_id n, ns_thread_id n) of
                   (Some c, Some t) \<Rightarrow> open_with (select_thread D c t) focus a
                 | _ \<Rightarrow> (case ns_conversation_id n of
                     Some i \<Rightarrow> open_with (select_conversation D i) focus a
                   | None \<Rightarrow> a)))"

definition set_notification_filter :: "'s device \<Rightarrow> notification_filter \<Rightarrow> 's app \<Rightarrow> 's app" where
  "set_notification_filter D f a =
     reset_detail_scroll D (with_ui (\<lambda>u. u\<lparr>ui_notification_filter := f, ui_notifications_selected := 0\<rparr>) a)"

definition cycle_notification_filter :: "'s device \<Rightarrow> 's app \<Rightarrow> 's app" where
  "cycle_notification_filter D a =
     (if ui_route (ap_ui a) = RNotifications
      then set_notification_filter D (next_filter (ui_notification_filter (ap_ui a))) a else a)"

section \<open>Moving between panes\<close>

definition set_pane :: "active_pane \<Rightarrow> 's app \<Rightarrow> 's app" where
  "set_pane p = with_ui (\<lambda>u. u\<lparr>ui_active_pane := p\<rparr>)"

definition toggle_threads :: "'s app \<Rightarrow> 's app" where
  "toggle_threads a =
     (if is_channel_route (ui_route (ap_ui a))
      then let a = with_ui (\<lambda>u. u\<lparr>ui_threads_collapsed := \<not> ui_threads_collapsed u\<rparr>) a
           in if ui_threads_collapsed (ap_ui a) then set_pane Rail a else a
      else a)"

text \<open>The selected thread, or else the first of the list, is selected and shown.\<close>

definition first_thread :: "'s app \<Rightarrow> str option" where
  "first_thread a =
     (case sn_thread_id (ap_view a) of Some i \<Rightarrow> Some i
      | None \<Rightarrow> (case sn_threads (ap_view a) of t # _ \<Rightarrow> Some (ti_id t) | [] \<Rightarrow> None))"

definition enter_threads :: "'s device \<Rightarrow> str \<Rightarrow> 's app \<Rightarrow> 's app" where
  "enter_threads D thread_id a =
     (let changed = sn_thread_id (ap_view a) \<noteq> Some thread_id;
          a = with_view (\<lambda>v. v\<lparr>sn_thread_id := Some thread_id\<rparr>) a;
          a = (if changed then reset_detail_scroll_to_bottom D a else a)
      in set_pane ListPane a)"

definition pane_left_of_detail :: "'s app \<Rightarrow> active_pane" where
  "pane_left_of_detail a =
     (if sn_thread_id (ap_view a) \<noteq> None \<and> is_channel_route (ui_route (ap_ui a)) then ListPane else Rail)"

definition is_page_route :: "route \<Rightarrow> bool" where
  "is_page_route r \<longleftrightarrow> is_label_route r \<or> r \<in> {RSaved, RNotifications, RAccount}"

definition navigate_left :: "'s app \<Rightarrow> 's app" where
  "navigate_left a =
     (case ui_active_pane (ap_ui a) of
        Detail \<Rightarrow> set_pane (pane_left_of_detail a) a
      | ListPane \<Rightarrow> set_pane Rail a
      | Rail \<Rightarrow>
          if is_channel_route (ui_route (ap_ui a)) \<and> \<not> ui_threads_collapsed (ap_ui a)
          then with_ui (\<lambda>u. u\<lparr>ui_threads_collapsed := True\<rparr>) a else a)"

definition navigate_right :: "'s device \<Rightarrow> 's app \<Rightarrow> 's app" where
  "navigate_right D a =
     (case ui_active_pane (ap_ui a) of
        Detail \<Rightarrow> a
      | ListPane \<Rightarrow> set_pane Detail a
      | Rail \<Rightarrow>
          if is_page_route (ui_route (ap_ui a)) \<or> ui_route (ap_ui a) = RDms then set_pane Detail a
          else if ui_threads_collapsed (ap_ui a) then with_ui (\<lambda>u. u\<lparr>ui_threads_collapsed := False\<rparr>) a
          else (case first_thread a of Some i \<Rightarrow> enter_threads D i a | None \<Rightarrow> a))"

definition toggle_workspace_detail :: "'s device \<Rightarrow> 's app \<Rightarrow> 's app" where
  "toggle_workspace_detail D a =
     (let u = ap_ui a in
      if ui_active_pane u = Detail then set_pane (pane_left_of_detail a) a
      else if ui_route u = RDms then push_action AMarkDmRead (set_pane Detail a)
      else if is_page_route (ui_route u) then set_pane Detail a
      else let a = (case (sn_thread_id (ap_view a), sn_threads (ap_view a)) of
                  (None, t # _) \<Rightarrow> reset_detail_scroll_to_bottom D (with_view (\<lambda>v. v\<lparr>sn_thread_id := Some (ti_id t)\<rparr>) a)
                | _ \<Rightarrow> a)
           in if sn_thread_id (ap_view a) \<noteq> None then push_action AMarkThreadRead (set_pane Detail a) else a)"

definition activate_selection :: "'s device \<Rightarrow> 's app \<Rightarrow> 's app option" where
  "activate_selection D a =
     (let u = ap_ui a; in_detail = (ui_active_pane u = Detail) in
      if ui_route u = RSearch then Some (activate_search_result D a)
      else if is_label_route (ui_route u) \<and> in_detail then Some (activate_label_result D a)
      else if ui_route u = RSaved \<and> in_detail then Some (activate_saved_result D a)
      else if ui_route u = RNotifications \<and> in_detail then Some (activate_notification_result D a)
      else if ui_route u = RAccount \<and> in_detail then activate_account_focus D a
      else case ui_active_pane u of
        Detail \<Rightarrow> enter_compose D [] a
      | Rail \<Rightarrow> Some (
          if ui_route u = RDms \<or> is_page_route (ui_route u) then set_pane Detail a
          else if ui_threads_collapsed u then with_ui (\<lambda>u. u\<lparr>ui_threads_collapsed := False\<rparr>) a
          else (case first_thread a of Some i \<Rightarrow> enter_threads D i a | None \<Rightarrow> toggle_threads a))
      | ListPane \<Rightarrow> Some (push_action AMarkThreadRead (scroll_detail_to_bottom D (set_pane Detail a))))"

end
