(* ===== verification/Handlers.thy ===== *)
theory Handlers
  imports Navigation
begin

text \<open>
  What a key or a mouse event does: \<open>app/compose.rs\<close>, \<open>app/input_handlers.rs\<close> and \<open>app/util.rs\<close>. A
  handler that reaches the line editor or the completions is an option, \<open>None\<close> where the session's
  task panics; the others are total.
\<close>

section \<open>Composing\<close>

definition set_mode :: "ui_mode \<Rightarrow> 's app \<Rightarrow> 's app" where
  "set_mode m = with_ui (\<lambda>u. u\<lparr>ui_mode := m\<rparr>)"

definition set_composer :: "composer \<Rightarrow> 's app \<Rightarrow> 's app" where
  "set_composer c = with_ui (\<lambda>u. u\<lparr>ui_composer := c\<rparr>)"

text \<open>A method of the composer that may panic, and one that cannot.\<close>

definition edit_with :: "(composer \<Rightarrow> composer option) \<Rightarrow> 's app \<Rightarrow> 's app option" where
  "edit_with f a = map_option (\<lambda>c. set_composer c a) (f (ui_composer (ap_ui a)))"

definition composer_do :: "(composer \<Rightarrow> composer) \<Rightarrow> 's app \<Rightarrow> 's app" where
  "composer_do f a = set_composer (f (ui_composer (ap_ui a))) a"

definition open_compose_prompt :: "'s device \<Rightarrow> str \<Rightarrow> str \<Rightarrow> 's app \<Rightarrow> 's app option" where
  "open_compose_prompt D pre placeholder a =
     update_completions D (composer_do (start_prompt pre placeholder) (set_mode Workspace a))"

definition rebuild_palette :: "'s device \<Rightarrow> 's app \<Rightarrow> 's app" where
  "rebuild_palette D a =
     with_ui (\<lambda>u. u\<lparr>ui_palette := apply_filter (e_lc (cm_env (dv_completer D))) (pl_query (ui_palette u))
        ((ui_palette u)\<lparr>pl_items := palette_items (ap_view a)\<rparr>)\<rparr>) a"

definition open_palette :: "'s device \<Rightarrow> 's app \<Rightarrow> 's app" where
  "open_palette D a = rebuild_palette D (with_ui (\<lambda>u. u\<lparr>ui_mode := Palette, ui_palette := no_palette\<rparr>) a)"

definition open_help :: "'s device \<Rightarrow> 's app \<Rightarrow> 's app" where
  "open_help D = with_ui (\<lambda>u. u\<lparr>ui_mode := Help, ui_help_scroll := sc_top (dv_scroller D) (ui_help_scroll u)\<rparr>)"

definition run_command_executor :: "'s device \<Rightarrow> command_executor \<Rightarrow> 's app \<Rightarrow> 's app option" where
  "run_command_executor D executor a0 =
     (let a = set_mode Workspace a0 in
      case executor of
        XAction x \<Rightarrow> Some (push_action x a)
      | XPrompt title pre placeholder \<Rightarrow> open_compose_prompt D pre placeholder a
      | XSwitchChannel i \<Rightarrow>
          let a = with_view (\<lambda>v. v\<lparr>sn_channel_id := Some i, sn_thread_id := None, sn_threads := [], sn_comments := []\<rparr>)
                (clear_conversation_source_selection a);
              a = reset_detail_scroll_to_bottom D a
          in Some (request_refresh (with_ui (\<lambda>u. u\<lparr>ui_active_pane := ListPane, ui_route := RChannel i,
               ui_threads_collapsed := False\<rparr>) a))
      | XSwitchDm i \<Rightarrow>
          let a = with_view (\<lambda>v. v\<lparr>sn_conversation_id := Some i, sn_messages := []\<rparr>) (clear_channel_source_selection a)
          in Some (request_refresh (with_ui (\<lambda>u. u\<lparr>ui_route := RDms, ui_active_pane := Detail\<rparr>) (reset_detail_scroll D a)))
      | XSwitchThread i \<Rightarrow>
          let a = with_view (\<lambda>v. v\<lparr>sn_thread_id := Some i, sn_comments := []\<rparr>) (clear_conversation_source_selection a);
              a = reset_detail_scroll_to_bottom D a
          in Some (request_refresh (with_ui (\<lambda>u. u\<lparr>ui_active_pane := Detail, ui_threads_collapsed := False\<rparr>) a))
      | XMode m \<Rightarrow> Some (if m = Help then open_help D a else set_mode m a)
      | XQuit \<Rightarrow> Some (set_mode ConfirmQuit a))"

definition run_palette_selection :: "'s device \<Rightarrow> 's app \<Rightarrow> 's app option" where
  "run_palette_selection D a =
     (case selected_item (ui_palette (ap_ui a)) of None \<Rightarrow> Some a | Some item \<Rightarrow> run_command_executor D (pi_executor item) a)"

definition close_autocomplete :: "composer \<Rightarrow> composer" where
  "close_autocomplete c = c\<lparr>cp_autocomplete := (cp_autocomplete c)\<lparr>ac_open := False\<rparr>\<rparr>"

text \<open>\<open>str::get(a..b)\<close>, with the empty text where there is no such slice.\<close>

definition get_slice :: "nat \<Rightarrow> nat \<Rightarrow> str \<Rightarrow> str" where
  "get_slice a b s = value_or (slice a b s) []"

definition accept_autocomplete_selection :: "'s device \<Rightarrow> bool \<Rightarrow> 's app \<Rightarrow> (bool \<times> 's app) option" where
  "accept_autocomplete_selection D refresh_after_insert a =
     (let c = ui_composer (ap_ui a); ac = cp_autocomplete c in
      if \<not> ac_open ac then Some (False, a)
      else case get_at (ac_selected ac) (ac_items ac) of
        None \<Rightarrow> Some (False, composer_do close_autocomplete a)
      | Some item \<Rightarrow>
          if \<not> refresh_after_insert \<and> \<not> ai_accept_on_enter item
             \<and> take 1 (get_slice (ai_start item) (ai_end item) (cp_buffer c)) = [58]
          then Some (False, a)
          else if refresh_after_insert \<and> \<not> ai_accept_on_tab item then Some (False, a)
          else case ai_executor item of
            Some executor \<Rightarrow> map_option (Pair True) (run_command_executor D executor (composer_do reset_input a))
          | None \<Rightarrow> do {
              a \<leftarrow> edit_with (replace_range (ai_start item) (ai_end item) (ai_replacement item)) a;
              let a = composer_do close_autocomplete a;
              if refresh_after_insert then map_option (Pair True) (update_completions D a) else Some (True, a) })"

definition submit_onboarding :: "'s device \<Rightarrow> 's app \<Rightarrow> 's app" where
  "submit_onboarding D a =
     (let username = trim (cp_buffer (ui_composer (ap_ui a)));
          a = composer_do reset_input a
      in if username = [] then set_banner_err (dv_now D) (lit ''Username is required'') a
         else push_action (ACompleteOnboarding username) a)"

definition dispatch_command_line :: "'s device \<Rightarrow> str \<Rightarrow> 's app \<Rightarrow> 's app" where
  "dispatch_command_line D line a =
     (let command = (case split_whitespace (trim_start_char 47 (trim line)) of w # _ \<Rightarrow> w | [] \<Rightarrow> []) in
      if is_named command [''help'', ''?''] then open_help D a
      else if is_named command [''quit'', ''q''] then set_mode ConfirmQuit a
      else case parse_action line of
        Inr (Some x) \<Rightarrow> push_action x a
      | Inr None \<Rightarrow> a
      | Inl message \<Rightarrow> set_banner_err (dv_now D) message a)"

definition submit_composer :: "'s device \<Rightarrow> 's app \<Rightarrow> 's app" where
  "submit_composer D a =
     (let body = trim (cp_buffer (ui_composer (ap_ui a))) in
      if body = [] then a
      else let a = set_mode Workspace (composer_do (\<lambda>c. reset_input (push_history body c)) a) in
        if take 1 body = [47] then dispatch_command_line D body a
        else if ui_route (ap_ui a) = RDms
          \<or> ui_active_pane (ap_ui a) = Detail \<and> sn_conversation_id (ap_view a) \<noteq> None
        then push_action (ASendDm body) a
        else push_action (AAddComment body) a)"

section \<open>Messages\<close>

definition close_comment_overlays :: "'s app \<Rightarrow> 's app" where
  "close_comment_overlays = with_ui (\<lambda>u. u\<lparr>ui_comment_menu := None, ui_comment_delete := None\<rparr>)"

definition is_current_user :: "'s app \<Rightarrow> str \<Rightarrow> bool" where
  "is_current_user a author \<longleftrightarrow>
     (case sn_username (ap_view a) of None \<Rightarrow> False | Some username \<Rightarrow> eq_ignore_ascii_case username author)"

definition editable_item :: "'s app \<Rightarrow> editable_message_target \<Rightarrow> message_item option" where
  "editable_item a target =
     (case target of
        EditComment i \<Rightarrow> List.find (\<lambda>c. it_index c = i) (sn_comments (ap_view a))
      | EditDm i \<Rightarrow> List.find (\<lambda>m. it_index m = i) (sn_messages (ap_view a)))"

definition is_own_message :: "'s app \<Rightarrow> editable_message_target \<Rightarrow> bool" where
  "is_own_message a target \<longleftrightarrow>
     (case editable_item a target of None \<Rightarrow> False | Some m \<Rightarrow> is_current_user a (it_author m))"

definition is_message_saved :: "'s app \<Rightarrow> editable_message_target \<Rightarrow> bool" where
  "is_message_saved a target \<longleftrightarrow> (case editable_item a target of None \<Rightarrow> False | Some m \<Rightarrow> it_saved_at m \<noteq> None)"

definition message_edit_command :: "'s app \<Rightarrow> editable_message_target \<Rightarrow> str option" where
  "message_edit_command a target =
     (case editable_item a target of None \<Rightarrow> None
      | Some m \<Rightarrow>
          if is_current_user a (it_author m)
          then Some ((case target of EditComment _ \<Rightarrow> lit ''/comment edit #'' | EditDm _ \<Rightarrow> lit ''/dm edit #'')
                 @ show_int (editable_index target) @ [c_space] @ it_body m)
          else None)"

definition prefill_message_edit :: "'s device \<Rightarrow> editable_message_target \<Rightarrow> 's app \<Rightarrow> 's app option" where
  "prefill_message_edit D target a =
     (case message_edit_command a target of
        None \<Rightarrow>
          Some (set_banner_err (dv_now D)
            ((case target of EditComment _ \<Rightarrow> lit ''Comment'' | EditDm _ \<Rightarrow> lit ''Message'') @ lit '' is not editable'') a)
      | Some command \<Rightarrow>
          update_completions D (set_composer (composer_from command) (set_mode Workspace (close_comment_overlays a))))"

definition own_indices :: "'s app \<Rightarrow> message_item list \<Rightarrow> int list" where
  "own_indices a ms = map it_index (filter (\<lambda>m. is_current_user a (it_author m)) (rev ms))"

definition prefill_last_own_comment_edit :: "'s device \<Rightarrow> 's app \<Rightarrow> 's app option" where
  "prefill_last_own_comment_edit D a =
     (if ui_route (ap_ui a) = RDms
      then (case own_indices a (sn_messages (ap_view a)) of
              [] \<Rightarrow> Some (set_banner_err (dv_now D) (lit ''No message by you in this DM'') a)
            | i # _ \<Rightarrow> prefill_message_edit D (EditDm i) a)
      else (case own_indices a (sn_comments (ap_view a)) of
              [] \<Rightarrow> Some (set_banner_err (dv_now D) (lit ''No comment by you in this thread'') a)
            | i # _ \<Rightarrow> prefill_message_edit D (EditComment i) a))"

definition prefill_reaction_add :: "'s device \<Rightarrow> reaction_target \<Rightarrow> 's app \<Rightarrow> 's app option" where
  "prefill_reaction_add D target a =
     (let pre = lit ''/reaction add :'';
          suffix = (case reaction_index target of None \<Rightarrow> [] | Some i \<Rightarrow> lit '' #'' @ show_int i);
          a = set_mode Workspace (close_comment_overlays a)
      in update_completions D (set_composer ((composer_from (pre @ suffix))\<lparr>cp_cursor := utf8_len pre\<rparr>) a))"

definition delete_message_action :: "editable_message_target \<Rightarrow> action" where
  "delete_message_action target = (case target of EditComment i \<Rightarrow> ADeleteComment i | EditDm i \<Rightarrow> ADeleteDm i)"

definition handle_comment_delete_key :: "'s device \<Rightarrow> key \<Rightarrow> 's app \<Rightarrow> 's app" where
  "handle_comment_delete_key D k a =
     (case ui_comment_delete (ap_ui a) of
        None \<Rightarrow> a
      | Some target \<Rightarrow>
          if k \<in> {KChar 121, KChar 89, KEnter, KShiftEnter}
          then push_action (delete_message_action target) (close_comment_overlays a)
          else if k \<in> {KEsc, KChar 110, KChar 78, KChar 113} then close_comment_overlays a
          else a)"

section \<open>Keys\<close>

definition sanitize_composer_paste :: "str \<Rightarrow> str" where
  "sanitize_composer_paste s =
     List.map_filter (\<lambda>c. if c = c_cr \<or> c = c_nl then Some c_nl else if c = c_tab then Some c_space
        else if is_control c then None else Some c) s"

definition ctrl_is :: "string \<Rightarrow> key \<Rightarrow> bool" where
  "ctrl_is cs k \<longleftrightarrow> (case k of KCtrl c \<Rightarrow> c \<in> set (lit cs) | _ \<Rightarrow> False)"

definition leader_is :: "string \<Rightarrow> key \<Rightarrow> bool" where
  "leader_is cs k \<longleftrightarrow> (case k of KCtrlSeq x c \<Rightarrow> x = 120 \<and> c \<in> set (lit cs) | _ \<Rightarrow> False)"

text \<open>The keys that every text input shares; \<open>None\<close> when the key is another.\<close>

definition input_edit :: "key \<Rightarrow> (composer \<Rightarrow> composer option) option" where
  "input_edit k =
     (if k = KBackspace then Some backspace
      else if k = KDelete then Some delete
      else if k = KLeft \<or> ctrl_is ''b'' k then Some move_left
      else if k = KRight \<or> ctrl_is ''f'' k then Some move_right
      else if ctrl_is ''a'' k \<or> k = KHome then Some (\<lambda>c. Some (move_home c))
      else if ctrl_is ''e'' k \<or> k = KEnd then Some (\<lambda>c. Some (move_end c))
      else if ctrl_is ''u'' k then Some clear_before_cursor
      else if ctrl_is ''k'' k then Some clear_after_cursor
      else None)"

definition handle_onboarding_key :: "'s device \<Rightarrow> key \<Rightarrow> 's app \<Rightarrow> 's app option" where
  "handle_onboarding_key D k a =
     (if k = KEnter \<or> k = KShiftEnter then Some (submit_onboarding D a)
      else case input_edit k of
        Some f \<Rightarrow> edit_with f a
      | None \<Rightarrow> (case k of
          KPaste s \<Rightarrow> edit_with (insert_str (sanitize_composer_paste s)) a
        | KChar c \<Rightarrow> if is_control c then Some a else edit_with (insert_char c) a
        | _ \<Rightarrow> Some a))"

text \<open>The focused input of the account page, and a method run on it.\<close>

definition with_account_input :: "(composer \<Rightarrow> composer option) \<Rightarrow> 's app \<Rightarrow> 's app option" where
  "with_account_input f a =
     (let page = ui_account (ap_ui a); put = (\<lambda>page. with_ui (\<lambda>u. u\<lparr>ui_account := page\<rparr>) a) in
      case pg_focus page of
        FUsername \<Rightarrow> map_option (\<lambda>c. put (page\<lparr>pg_username := c\<rparr>)) (f (pg_username page))
      | FDisplayName \<Rightarrow> map_option (\<lambda>c. put (page\<lparr>pg_display_name := c\<rparr>)) (f (pg_display_name page))
      | _ \<Rightarrow> Some a)"

definition handle_account_key :: "'s device \<Rightarrow> key \<Rightarrow> 's app \<Rightarrow> (bool \<times> 's app) option" where
  "handle_account_key D k a =
     (if k = KEsc then
        Some (True, if account_page_dirty a then reset_account_settings D a else composer_do reset_input a)
      else if k = KTab then Some (True, move_account 1 a)
      else if k = KBackTab then Some (True, move_account (- 1) a)
      else if k = KEnter \<or> k = KShiftEnter then map_option (Pair True) (activate_account_focus D a)
      else case input_edit k of
        Some f \<Rightarrow> map_option (Pair True) (with_account_input f a)
      | None \<Rightarrow> (case k of
          KAlt c \<Rightarrow>
            if c = 98 then map_option (Pair True) (with_account_input move_word_left a)
            else if c = 102 then map_option (Pair True) (with_account_input move_word_right a)
            else Some (False, a)
        | KPaste s \<Rightarrow>
            map_option (Pair True) (with_account_input (insert_str (replace_char c_nl c_space (sanitize_composer_paste s))) a)
        | KChar c \<Rightarrow>
            if is_control c then Some (False, a)
            else if pg_focus (ui_account (ap_ui a)) \<in> {FUsername, FDisplayName}
            then map_option (Pair True) (with_account_input (insert_char c) a)
            else Some (False, a)
        | KDown \<Rightarrow> Some (True, move_account 1 a)
        | KUp \<Rightarrow> Some (True, move_account (- 1) a)
        | _ \<Rightarrow> Some (False, a)))"


definition autocomplete_open :: "'s app \<Rightarrow> bool" where
  "autocomplete_open a \<longleftrightarrow> ac_open (cp_autocomplete (ui_composer (ap_ui a)))"

definition cycle_autocomplete :: "(autocomplete_state \<Rightarrow> autocomplete_state) \<Rightarrow> 's app \<Rightarrow> 's app" where
  "cycle_autocomplete f = composer_do (\<lambda>c. c\<lparr>cp_autocomplete := f (cp_autocomplete c)\<rparr>)"

text \<open>The keys after the leader Ctrl-X; \<open>None\<close> when the key is another.\<close>

definition leader_key :: "'s device \<Rightarrow> key \<Rightarrow> 's app \<Rightarrow> 's app option option" where
  "leader_key D k a =
     (if leader_is ''p'' k then Some (Some (open_palette D a))
      else if leader_is ''?'' k then Some (Some (open_help D a))
      else if leader_is ''qQ'' k then Some (Some (set_mode ConfirmQuit a))
      else if leader_is ''h'' k then Some (Some (navigate_left a))
      else if leader_is ''j'' k then Some (Some (move_selection D 1 a))
      else if leader_is ''k'' k then Some (Some (move_selection D (- 1) a))
      else if leader_is ''l'' k then Some (Some (navigate_right D a))
      else if leader_is ''g'' k then Some (Some (move_to_edge D False a))
      else if leader_is ''G'' k then Some (Some (move_to_edge D True a))
      else if leader_is ''oO'' k then Some (activate_selection D a)
      else if leader_is '' '' k then Some (Some (toggle_threads a))
      else if leader_is ''tT'' k then Some (enter_compose D (lit ''/thread new '') a)
      else if leader_is ''dD'' k then Some (enter_compose D (lit ''/dm open '') a)
      else if leader_is ''cC'' k then Some (enter_compose D (lit ''/channel new '') a)
      else if leader_is ''nN'' k then Some (Some (push_action ANextUnread a))
      else if leader_is ''mM'' k then Some (Some (push_action AMarkThreadRead a))
      else if leader_is ''uU'' k then Some (Some (push_action AMarkThreadUnread a))
      else if leader_is ''fF'' k then Some (Some (cycle_notification_filter D a))
      else None)"

text \<open>
  The keys of the workspace: the next state, and whether the completions are brought up to date
  after it (the source returns early where they are not).
\<close>

definition workspace_key :: "'s device \<Rightarrow> key \<Rightarrow> 's app \<Rightarrow> (bool \<times> 's app) option" where
  "workspace_key D k a =
     (let stop = map_option (Pair False); go = map_option (Pair True); u = ap_ui a in
      if k = KEsc then
        stop (Some (composer_do (if autocomplete_open a then close_autocomplete else reset_input) a))
      else if ctrl_is ''p'' k then go (Some (open_palette D a))
      else case leader_key D k a of
        Some r \<Rightarrow> go r
      | None \<Rightarrow>
          if leader_is ''eE'' k then stop (prefill_last_own_comment_edit D a)
          else case input_edit k of
            Some f \<Rightarrow> go (edit_with f a)
          | None \<Rightarrow> (case k of
              KEnter \<Rightarrow> do { (accepted, a) \<leftarrow> accept_autocomplete_selection D False a;
                             if accepted then stop (Some a) else go (Some (submit_composer D a)) }
            | KShiftEnter \<Rightarrow> go (edit_with (insert_char c_nl) a)
            | KTab \<Rightarrow>
                if autocomplete_open a then stop (map_option snd (accept_autocomplete_selection D True a))
                else stop (Some (toggle_workspace_detail D a))
            | KBackTab \<Rightarrow>
                if autocomplete_open a then stop (Some (cycle_autocomplete autocomplete_previous a))
                else stop (Some (toggle_workspace_detail D a))
            | KDown \<Rightarrow>
                if autocomplete_open a then stop (Some (cycle_autocomplete autocomplete_next a))
                else stop (Some (move_selection D 1 a))
            | KUp \<Rightarrow>
                if autocomplete_open a then stop (Some (cycle_autocomplete autocomplete_previous a))
                else stop (Some (move_selection D (- 1) a))
            | KAltUp \<Rightarrow> stop (edit_with (\<lambda>c. map_option snd (previous_history c)) a)
            | KAltDown \<Rightarrow> stop (edit_with (\<lambda>c. map_option snd (next_history c)) a)
            | KPageDown \<Rightarrow> go (Some (if ui_active_pane u = Detail then page_detail D True a else move_selection D 8 a))
            | KPageUp \<Rightarrow> go (Some (if ui_active_pane u = Detail then page_detail D False a else move_selection D (- 8) a))
            | KAlt c \<Rightarrow> go (if c = 98 then edit_with move_word_left a
                            else if c = 102 then edit_with move_word_right a else Some a)
            | KCtrl c \<Rightarrow> go (if c = 119 then edit_with delete_word_before_cursor a else Some a)
            | KPaste s \<Rightarrow> go (edit_with (insert_str (sanitize_composer_paste s)) a)
            | KChar c \<Rightarrow> go (if is_control c then Some a else edit_with (insert_char c) a)
            | _ \<Rightarrow> go (Some a)))"

definition handle_workspace_key :: "'s device \<Rightarrow> key \<Rightarrow> 's app \<Rightarrow> 's app option" where
  "handle_workspace_key D k a = do {
     (handled, a) \<leftarrow> (if ui_route (ap_ui a) = RAccount \<and> ui_active_pane (ap_ui a) = Detail
                       then handle_account_key D k a else Some (False, a));
     if handled then Some a
     else do { (again, a) \<leftarrow> workspace_key D k a; if again then update_completions D a else Some a } }"

definition edit_query :: "'s device \<Rightarrow> (str \<Rightarrow> str) \<Rightarrow> 's app \<Rightarrow> 's app" where
  "edit_query D f a = rebuild_palette D (with_ui (\<lambda>u. u\<lparr>ui_palette := (ui_palette u)\<lparr>pl_query := f (pl_query (ui_palette u))\<rparr>\<rparr>) a)"

definition cycle_palette :: "(palette_state \<Rightarrow> palette_state) \<Rightarrow> 's app \<Rightarrow> 's app" where
  "cycle_palette f = with_ui (\<lambda>u. u\<lparr>ui_palette := f (ui_palette u)\<rparr>)"

definition handle_palette_key :: "'s device \<Rightarrow> key \<Rightarrow> 's app \<Rightarrow> 's app option" where
  "handle_palette_key D k a =
     (if k = KEsc then Some (set_mode Workspace a)
      else if k = KEnter \<or> k = KShiftEnter then run_palette_selection D a
      else if k = KDown \<or> ctrl_is ''n'' k then Some (cycle_palette palette_next a)
      else if k = KUp \<or> ctrl_is ''p'' k then Some (cycle_palette palette_previous a)
      else if k = KBackspace then Some (edit_query D butlast a)
      else if ctrl_is ''u'' k then Some (edit_query D (\<lambda>_. []) a)
      else case k of
        KChar c \<Rightarrow> Some (if is_control c then a else edit_query D (\<lambda>q. q @ [c]) a)
      | _ \<Rightarrow> Some a)"

definition scroll_help :: "('s scroller \<Rightarrow> 's \<Rightarrow> 's) \<Rightarrow> 's device \<Rightarrow> 's app \<Rightarrow> 's app" where
  "scroll_help f D = with_ui (\<lambda>u. u\<lparr>ui_help_scroll := f (dv_scroller D) (ui_help_scroll u)\<rparr>)"

definition handle_help_key :: "'s device \<Rightarrow> key \<Rightarrow> 's app \<Rightarrow> 's app" where
  "handle_help_key D k a =
     (if k \<in> {KEsc, KEnter, KShiftEnter, KChar 63, KChar 113} then set_mode Workspace a
      else if k = KDown \<or> k = KChar 106 then scroll_help sc_down D a
      else if k = KUp \<or> k = KChar 107 then scroll_help sc_up D a
      else if k = KPageDown then scroll_help sc_page_down D a
      else if k = KPageUp then scroll_help sc_page_up D a
      else if k = KHome \<or> k = KChar 103 then scroll_help sc_top D a
      else if k = KEnd \<or> k = KChar 71 then scroll_help sc_bottom D a
      else a)"

definition stop_running :: "'s app \<Rightarrow> 's app" where
  "stop_running a = a\<lparr>ap_running := False\<rparr>"

definition handle_confirm_quit_key :: "key \<Rightarrow> 's app \<Rightarrow> 's app" where
  "handle_confirm_quit_key k a =
     (if k \<in> {KChar 121, KChar 89, KEnter, KShiftEnter} then stop_running a
      else if k \<in> {KEsc, KChar 110, KChar 78, KChar 113} then set_mode Workspace a
      else a)"

text \<open>The code that a banner shows after one of two prefixes.\<close>

definition strip_prefix :: "string \<Rightarrow> str \<Rightarrow> str option" where
  "strip_prefix p s = (if take (length (lit p)) s = lit p then Some (drop (length (lit p)) s) else None)"

definition active_modal_token :: "'s device \<Rightarrow> 's app \<Rightarrow> (str \<times> str) option" where
  "active_modal_token D a =
     (case ui_banner (ap_ui a) of None \<Rightarrow> None
      | Some b \<Rightarrow>
          if \<not> modal_active (dv_now D) b then None
          else let found = (case strip_prefix ''Invite code:'' (bn_text b) of
                     Some code \<Rightarrow> Some (lit ''Invite code'', trim code)
                   | None \<Rightarrow> map_option (\<lambda>code. (lit ''Device link token'', trim code))
                       (strip_prefix ''Device link token:'' (bn_text b)))
               in case found of Some (kind, code) \<Rightarrow> if code = [] then None else Some (kind, code) | None \<Rightarrow> None)"

definition banner_is_modal :: "'s device \<Rightarrow> 's app \<Rightarrow> bool" where
  "banner_is_modal D a \<longleftrightarrow> (case ui_banner (ap_ui a) of None \<Rightarrow> False | Some b \<Rightarrow> modal_active (dv_now D) b)"

definition handle_modal_key :: "'s device \<Rightarrow> key \<Rightarrow> 's app \<Rightarrow> 's app" where
  "handle_modal_key D k a =
     (if k \<in> {KEsc, KEnter, KShiftEnter} then with_ui (\<lambda>u. u\<lparr>ui_banner := None\<rparr>) a
      else if k \<in> {KChar 99, KChar 67}
      then (case active_modal_token D a of None \<Rightarrow> a
            | Some (kind, code) \<Rightarrow> set_banner_ok (dv_now D) (kind @ lit '' copied'') (a\<lparr>ap_clipboard := Some code\<rparr>))
      else a)"

text \<open>A key that is not the mouse.\<close>

definition handle_keyboard :: "'s device \<Rightarrow> key \<Rightarrow> 's app \<Rightarrow> 's app option" where
  "handle_keyboard D k a0 =
     (let a = with_ui (\<lambda>u. u\<lparr>ui_selection := no_selection\<rparr>) a0 in
      if ctrl_is ''cd'' k then Some (stop_running a)
      else if ui_comment_delete (ap_ui a) \<noteq> None then Some (handle_comment_delete_key D k a)
      else if ui_comment_menu (ap_ui a) \<noteq> None \<and> k = KEsc then Some (close_comment_overlays a)
      else if banner_is_modal D a then Some (handle_modal_key D k a)
      else if \<not> ac_activated (ap_account a) then handle_onboarding_key D k a
      else case ui_mode (ap_ui a) of
        Workspace \<Rightarrow> handle_workspace_key D k a
      | Palette \<Rightarrow> handle_palette_key D k a
      | Help \<Rightarrow> Some (handle_help_key D k a)
      | ConfirmQuit \<Rightarrow> Some (handle_confirm_quit_key k a))"

end
