(* ===== verification/Mouse.thy ===== *)
theory Mouse
  imports Handlers
begin

text \<open>
  What the mouse does, the second half of \<open>app/input_handlers.rs\<close>: scrolling, selecting text, opening
  the menu of a message, clicking on what is drawn; and \<open>handle_key\<close>, which every event of the
  terminal goes through.
\<close>

section \<open>Pointer and scrolling\<close>

definition points :: "hit_target \<Rightarrow> bool" where
  "points t \<longleftrightarrow>
     (case t of HMessageLink _ \<Rightarrow> True | HReactionChip _ _ _ \<Rightarrow> True | HReactionAdd _ \<Rightarrow> True | HSearchResult _ \<Rightarrow> True
      | HLabelResult _ \<Rightarrow> True | HSavedResult _ \<Rightarrow> True | HNotificationResult _ \<Rightarrow> True | HNotificationFilter _ \<Rightarrow> True
      | HNotificationReadAll \<Rightarrow> True | HNotificationArchiveAll \<Rightarrow> True | HTopbarMentions \<Rightarrow> True | HListModalRow _ \<Rightarrow> True
      | HWorkspaceLabel _ \<Rightarrow> True | HWorkspaceLabelsMore \<Rightarrow> True | HWorkspaceAccount \<Rightarrow> True | HAccountSave \<Rightarrow> True
      | HAccountReset \<Rightarrow> True | HAccountLinkDevice \<Rightarrow> True | HAccountKeyLabel _ \<Rightarrow> True | HAccountKeyDeactivate _ \<Rightarrow> True
      | HAccountInput _ \<Rightarrow> True | HMessageMention _ \<Rightarrow> True | HMessageLabel _ \<Rightarrow> True | _ \<Rightarrow> False)"

definition hit_at :: "mouse_event \<Rightarrow> 's app \<Rightarrow> hit_region option" where
  "hit_at m a = hit (mo_column m) (mo_row m) (ui_hit_map (ap_ui a))"

definition update_pointer_shape :: "mouse_event \<Rightarrow> 's app \<Rightarrow> 's app" where
  "update_pointer_shape m a =
     a\<lparr>ap_pointer := (case hit_at m a of Some region \<Rightarrow> if points (hr_target region) then PointerShape else DefaultShape
        | None \<Rightarrow> DefaultShape)\<rparr>"

definition scrolls_workspace :: "hit_target \<Rightarrow> bool" where
  "scrolls_workspace t \<longleftrightarrow>
     (case t of HWorkspaceScroll \<Rightarrow> True | HWorkspaceChannel _ \<Rightarrow> True | HWorkspaceThread _ \<Rightarrow> True | HWorkspaceLabel _ \<Rightarrow> True
      | HWorkspaceLabelsMore \<Rightarrow> True | HWorkspaceSaved \<Rightarrow> True | HWorkspaceNotifications \<Rightarrow> True | HWorkspaceAccount \<Rightarrow> True
      | HWorkspaceDm _ _ \<Rightarrow> True | _ \<Rightarrow> False)"

definition scrolls_detail :: "hit_target \<Rightarrow> bool" where
  "scrolls_detail t \<longleftrightarrow>
     (case t of HDetailScroll \<Rightarrow> True | HAccountInput _ \<Rightarrow> True | HAccountSave \<Rightarrow> True | HAccountReset \<Rightarrow> True
      | HAccountLinkDevice \<Rightarrow> True | HAccountKeyLabel _ \<Rightarrow> True | HAccountKeyDeactivate _ \<Rightarrow> True | HSearchResult _ \<Rightarrow> True
      | HLabelResult _ \<Rightarrow> True | HSavedResult _ \<Rightarrow> True | HNotificationResult _ \<Rightarrow> True | HNotificationFilter _ \<Rightarrow> True
      | HNotificationReadAll \<Rightarrow> True | HNotificationArchiveAll \<Rightarrow> True | HEditableMessage _ \<Rightarrow> True
      | HReactionChip _ _ _ \<Rightarrow> True | HReactionAdd _ \<Rightarrow> True | HMessageLink _ \<Rightarrow> True | HMessageMention _ \<Rightarrow> True
      | HMessageLabel _ \<Rightarrow> True | _ \<Rightarrow> False)"

definition handle_mouse_scroll :: "'s device \<Rightarrow> hit_target \<Rightarrow> int \<Rightarrow> 's app \<Rightarrow> 's app" where
  "handle_mouse_scroll D target delta a =
     (let steps = max (nat (abs delta)) 1 in
      if scrolls_workspace target then move_workspace D delta a
      else if scrolls_detail target then move_detail D delta a
      else case target of
        HAutocompleteScroll \<Rightarrow> (cycle_autocomplete (if delta < 0 then autocomplete_previous else autocomplete_next) ^^ steps) a
      | HAutocompleteRow _ \<Rightarrow> (cycle_autocomplete (if delta < 0 then autocomplete_previous else autocomplete_next) ^^ steps) a
      | HPaletteResults \<Rightarrow> (cycle_palette (if delta < 0 then palette_previous else palette_next) ^^ steps) a
      | HPaletteRow _ \<Rightarrow> (cycle_palette (if delta < 0 then palette_previous else palette_next) ^^ steps) a
      | HHelpScroll \<Rightarrow> (scroll_help (if delta < 0 then sc_up else sc_down) D ^^ steps) a
      | _ \<Rightarrow> a)"

section \<open>Clicks\<close>

text \<open>The offset of the character drawn at a line and a column, in lines of a width; a line feed starts a line.\<close>

fun cursor_walk :: "nat \<Rightarrow> nat \<Rightarrow> nat \<Rightarrow> nat \<Rightarrow> nat \<Rightarrow> nat \<Rightarrow> str \<Rightarrow> nat" where
  "cursor_walk width target_line target_col idx line col [] = idx"
| "cursor_walk width target_line target_col idx line col (c # s) =
     (if c = c_nl
      then (if line = target_line then idx
            else cursor_walk width target_line target_col (idx + utf8_width c) (line + 1) 0 s)
      else if width \<le> col \<and> line = target_line then idx
      else let (line, col) = (if width \<le> col then (line + 1, 0) else (line, col))
           in if line = target_line \<and> target_col \<le> col then idx
              else cursor_walk width target_line target_col (idx + utf8_width c) line (col + 1) s)"

definition cursor_for_display_position :: "str \<Rightarrow> nat \<Rightarrow> nat \<Rightarrow> nat \<Rightarrow> nat" where
  "cursor_for_display_position buffer width target_line target_col =
     cursor_walk (max width 1) target_line target_col 0 0 0 buffer"

definition place_composer_cursor :: "'s device \<Rightarrow> rect \<Rightarrow> nat \<Rightarrow> mouse_event \<Rightarrow> 's app \<Rightarrow> 's app option" where
  "place_composer_cursor D r scroll_y m a =
     (let local_col = mo_column m - rc_x r;
          display_line = sat16 (mo_row m - rc_y r + scroll_y)
      in update_completions D (composer_do (\<lambda>c. c\<lparr>cp_cursor :=
           cursor_for_display_position (cp_buffer c) (max (rc_width r) 1) display_line local_col\<rparr>) a))"

definition run_bottom_bar_action :: "'s device \<Rightarrow> bottom_bar_action \<Rightarrow> 's app \<Rightarrow> 's app option" where
  "run_bottom_bar_action D x a =
     (case x of
        BarOpenHelp \<Rightarrow> Some (open_help D a)
      | BarSubmitComposer \<Rightarrow> Some (submit_composer D a)
      | BarAcceptAutocomplete \<Rightarrow> do { (accepted, a) \<leftarrow> accept_autocomplete_selection D True a;
                                      Some (if accepted then a else toggle_workspace_detail D a) }
      | BarCloseMode \<Rightarrow> Some (set_mode Workspace a)
      | BarRunPalette \<Rightarrow> run_palette_selection D a
      | BarConfirmQuit \<Rightarrow> Some (stop_running a)
      | BarCancelQuit \<Rightarrow> Some (set_mode Workspace a))"

definition hit_matches_route :: "route \<Rightarrow> hit_target \<Rightarrow> bool" where
  "hit_matches_route r t \<longleftrightarrow>
     (case (r, t) of (RSearch, HSearchResult _) \<Rightarrow> True | (RLabel _, HLabelResult _) \<Rightarrow> True
      | (RSaved, HSavedResult _) \<Rightarrow> True | (RNotifications, HNotificationResult _) \<Rightarrow> True | _ \<Rightarrow> False)"

definition activate_result_at_mouse_position :: "'s device \<Rightarrow> mouse_event \<Rightarrow> 's app \<Rightarrow> 's app" where
  "activate_result_at_mouse_position D m a =
     (case hit_row_matching (mo_row m) (hit_matches_route (ui_route (ap_ui a))) (ui_hit_map (ap_ui a)) of
        None \<Rightarrow> a
      | Some region \<Rightarrow> (case hr_target region of
            HSearchResult i \<Rightarrow> if i < length (vw_search_results (ap_view a))
              then activate_search_result D (with_ui (\<lambda>u. u\<lparr>ui_search_selected := i\<rparr>) a) else a
          | HLabelResult i \<Rightarrow> if i < length (vw_label_items (ap_view a))
              then activate_label_result D (with_ui (\<lambda>u. u\<lparr>ui_label_selected := i\<rparr>) a) else a
          | HSavedResult i \<Rightarrow> if i < length (vw_saved (ap_view a))
              then activate_saved_result D (with_ui (\<lambda>u. u\<lparr>ui_saved_selected := i\<rparr>) a) else a
          | HNotificationResult i \<Rightarrow> if i < length (visible_notifications a)
              then activate_notification_result D (with_ui (\<lambda>u. u\<lparr>ui_notifications_selected := i\<rparr>) a) else a
          | _ \<Rightarrow> a))"

definition open_list_row :: "nat \<Rightarrow> 's app \<Rightarrow> 's app" where
  "open_list_row row a =
     (case Option.bind (ui_banner (ap_ui a)) bn_list of
        None \<Rightarrow> a
      | Some l \<Rightarrow> (case get_at row (lm_row_actions l) of
          Some (Some target) \<Rightarrow> push_action (AOpenSourceTarget target) (with_ui (\<lambda>u. u\<lparr>ui_banner := None\<rparr>) a)
        | _ \<Rightarrow> a))"

definition click_thread :: "'s device \<Rightarrow> str \<Rightarrow> 's app \<Rightarrow> 's app" where
  "click_thread D thread_id a =
     (case (case find_thread (Some thread_id) (ap_view a) of Some t \<Rightarrow> Some (ti_channel_id t) | None \<Rightarrow> sn_channel_id (ap_view a)) of
        Some channel_id \<Rightarrow> select_thread D channel_id thread_id a
      | None \<Rightarrow> a)"

definition handle_mouse_click :: "'s device \<Rightarrow> hit_region \<Rightarrow> mouse_event \<Rightarrow> 's app \<Rightarrow> 's app option" where
  "handle_mouse_click D region m a =
     (let detail = set_pane Detail a in
      case hr_target region of
        HTopbarMentions \<Rightarrow> Some (push_action AListMentions a)
      | HWorkspaceChannel i \<Rightarrow> Some (select_channel D i a)
      | HWorkspaceThread i \<Rightarrow> Some (click_thread D i a)
      | HWorkspaceLabel tag \<Rightarrow> Some (apply_workspace_row D (WLabel tag) a)
      | HWorkspaceLabelsMore \<Rightarrow> Some (apply_workspace_row D WLabelsMore a)
      | HWorkspaceSaved \<Rightarrow> Some (apply_workspace_row D WSaved a)
      | HWorkspaceAccount \<Rightarrow> Some (apply_workspace_row D WAccount a)
      | HAccountInput t \<Rightarrow> Some (set_focus (case t of InputUsername \<Rightarrow> FUsername | InputDisplayName \<Rightarrow> FDisplayName) detail)
      | HAccountSave \<Rightarrow> Some (save_account_settings D (set_focus FSave detail))
      | HAccountReset \<Rightarrow> Some (reset_account_settings D (set_focus FReset detail))
      | HAccountLinkDevice \<Rightarrow> Some (push_action (ACreateDeviceLinkToken None) (set_focus FLinkDevice detail))
      | HAccountKeyLabel i \<Rightarrow> activate_account_focus D (set_focus (FKeyLabel i) detail)
      | HAccountKeyDeactivate i \<Rightarrow> activate_account_focus D (set_focus (FKeyDeactivate i) detail)
      | HWorkspaceNotifications \<Rightarrow> Some (apply_workspace_row D WNotifications a)
      | HWorkspaceDm i username \<Rightarrow>
          Some (case i of Some i \<Rightarrow> select_conversation D i a | None \<Rightarrow> push_action (AOpenDm username) a)
      | HWorkspaceScroll \<Rightarrow> Some (set_pane Rail a)
      | HDetailScroll \<Rightarrow> Some (activate_result_at_mouse_position D m detail)
      | HSearchResult i \<Rightarrow> Some (activate_search_result D (with_ui (\<lambda>u. u\<lparr>ui_search_selected := i\<rparr>) detail))
      | HLabelResult i \<Rightarrow> Some (activate_label_result D (with_ui (\<lambda>u. u\<lparr>ui_label_selected := i\<rparr>) detail))
      | HSavedResult i \<Rightarrow> Some (activate_saved_result D (with_ui (\<lambda>u. u\<lparr>ui_saved_selected := i\<rparr>) detail))
      | HNotificationResult i \<Rightarrow>
          Some (activate_notification_result D (with_ui (\<lambda>u. u\<lparr>ui_notifications_selected := i\<rparr>) detail))
      | HNotificationFilter f \<Rightarrow> Some (set_notification_filter D f detail)
      | HNotificationReadAll \<Rightarrow> Some (push_action (AMarkNotificationRead None) detail)
      | HNotificationArchiveAll \<Rightarrow> Some (push_action AArchiveNotifications detail)
      | HEditableMessage _ \<Rightarrow> Some detail
      | HReactionChip t emoji reacted_by_me \<Rightarrow>
          Some (push_action (if reacted_by_me then AUnreact emoji (reaction_index t) else AReact emoji (reaction_index t)) detail)
      | HReactionAdd t \<Rightarrow> prefill_reaction_add D t detail
      | HMessageLink url \<Rightarrow> Some (detail\<lparr>ap_link_open := Some url\<rparr>)
      | HMessageMention username \<Rightarrow> Some (push_action (AOpenDm username) detail)
      | HMessageLabel tag \<Rightarrow> Some (push_action (AOpenLabel tag) detail)
      | HComposerInput scroll_y \<Rightarrow> place_composer_cursor D (hr_rect region) scroll_y m a
      | HAutocompleteRow i \<Rightarrow>
          if i < length (ac_items (cp_autocomplete (ui_composer (ap_ui a))))
          then map_option snd (accept_autocomplete_selection D True (cycle_autocomplete (\<lambda>ac. ac\<lparr>ac_selected := i\<rparr>) a))
          else Some a
      | HPaletteRow i \<Rightarrow>
          if i < length (pl_filtered (ui_palette (ap_ui a)))
          then run_palette_selection D (cycle_palette (\<lambda>p. p\<lparr>pl_selected := i\<rparr>) a)
          else Some a
      | HPaletteBackdrop \<Rightarrow> Some (set_mode Workspace a)
      | HHelpBackdrop \<Rightarrow> Some (set_mode Workspace a)
      | HListModalRow i \<Rightarrow> Some (open_list_row i a)
      | HConfirmQuitYes \<Rightarrow> Some (stop_running a)
      | HConfirmQuitNo \<Rightarrow> Some (set_mode Workspace a)
      | HConfirmQuitBackdrop \<Rightarrow> Some (set_mode Workspace a)
      | HBottomBar x \<Rightarrow> run_bottom_bar_action D x a
      | HCommentMenuBackdrop \<Rightarrow> Some (close_comment_overlays a)
      | HCommentMenuEdit t \<Rightarrow> prefill_message_edit D t a
      | HCommentMenuDelete t \<Rightarrow> Some (with_ui (\<lambda>u. u\<lparr>ui_comment_menu := None, ui_comment_delete := Some t\<rparr>) a)
      | HCommentMenuSave t saved \<Rightarrow> Some (push_action (ASetMessageSaved (editable_index t) saved) (close_comment_overlays a))
      | HCommentDeleteConfirm t \<Rightarrow> Some (push_action (delete_message_action t) (close_comment_overlays a))
      | HCommentDeleteCancel \<Rightarrow> Some (close_comment_overlays a)
      | HAutocompleteScroll \<Rightarrow> Some a
      | HHelpScroll \<Rightarrow> Some a
      | HPaletteInput \<Rightarrow> Some a
      | HPaletteResults \<Rightarrow> Some a
      | HBannerModal \<Rightarrow> Some a)"


section \<open>Selecting text\<close>

definition with_selection :: "(selection_state \<Rightarrow> selection_state) \<Rightarrow> 's app \<Rightarrow> 's app" where
  "with_selection f = with_ui (\<lambda>u. u\<lparr>ui_selection := f (ui_selection u)\<rparr>)"

definition clear_selection :: "'s app \<Rightarrow> 's app" where
  "clear_selection = with_selection (\<lambda>_. no_selection)"

definition start_mouse_click_or_selection :: "mouse_event \<Rightarrow> 's app \<Rightarrow> 's app" where
  "start_mouse_click_or_selection m a =
     with_selection (\<lambda>_. no_selection\<lparr>se_pending := Some
       \<lparr>an_at = mouse_position m, an_region = hit_at m a,
        an_message_region = List.find (\<lambda>r. rect_contains r (mo_column m) (mo_row m)) (rev (ui_message_regions (ap_ui a))),
        an_modifiers = mo_modifiers m, an_moved = False\<rparr>\<rparr>) a"

definition update_mouse_selection :: "mouse_event \<Rightarrow> 's app \<Rightarrow> 's app" where
  "update_mouse_selection m a =
     (case se_pending (ui_selection (ap_ui a)) of
        None \<Rightarrow> a
      | Some anchor \<Rightarrow>
          let end_at = mouse_position m in
          if end_at = an_at anchor \<and> \<not> an_moved anchor then a
          else with_selection (\<lambda>s. s\<lparr>se_pending := Some (anchor\<lparr>an_moved := True\<rparr>),
                 se_range := Some \<lparr>sl_start = an_at anchor, sl_end = end_at\<rparr>,
                 se_message_region := an_message_region anchor\<rparr>) a)"

definition merge_modifiers :: "mouse_modifiers \<Rightarrow> mouse_modifiers \<Rightarrow> mouse_modifiers" where
  "merge_modifiers x y = \<lparr>mm_shift = (mm_shift x \<or> mm_shift y), mm_alt = (mm_alt x \<or> mm_alt y),
     mm_control = (mm_control x \<or> mm_control y)\<rparr>"

definition finish_mouse_click_or_selection :: "'s device \<Rightarrow> mouse_event \<Rightarrow> 's app \<Rightarrow> 's app option" where
  "finish_mouse_click_or_selection D m a =
     (case se_pending (ui_selection (ap_ui a)) of
        None \<Rightarrow> Some a
      | Some anchor \<Rightarrow>
          let end_at = mouse_position m; moved = (end_at \<noteq> an_at anchor \<or> an_moved anchor);
              a = with_selection (\<lambda>s. s\<lparr>se_pending := None\<rparr>) a;
              a = (if end_at \<noteq> an_at anchor
                   then with_selection (\<lambda>s. s\<lparr>se_range := Some \<lparr>sl_start = an_at anchor, sl_end = end_at\<rparr>,
                          se_message_region := an_message_region anchor\<rparr>) a
                   else a)
          in if moved \<or> se_range (ui_selection (ap_ui a)) \<noteq> None
             then Some (with_selection (\<lambda>s. s\<lparr>se_copy_requested := True\<rparr>) a)
             else let a = clear_selection a in
               case or_else (an_region anchor) (hit_at m a) of
                 None \<Rightarrow> Some a
               | Some region \<Rightarrow>
                   handle_mouse_click D region (m\<lparr>mo_modifiers := merge_modifiers (mo_modifiers m) (an_modifiers anchor)\<rparr>) a)"

section \<open>The menu of a message\<close>

definition menu_opens_on :: "hit_target \<Rightarrow> bool" where
  "menu_opens_on t \<longleftrightarrow>
     (case t of HDetailScroll \<Rightarrow> True | HMessageLink _ \<Rightarrow> True | HMessageMention _ \<Rightarrow> True | HMessageLabel _ \<Rightarrow> True
      | HReactionChip _ _ _ \<Rightarrow> True | HReactionAdd _ \<Rightarrow> True | _ \<Rightarrow> False)"

definition open_comment_menu_at :: "mouse_event \<Rightarrow> 's app \<Rightarrow> 's app" where
  "open_comment_menu_at m a0 =
     (let a = clear_selection a0; h = ui_hit_map (ap_ui a);
          exact_region = hit_matching (mo_column m) (mo_row m) is_editable_message h;
          row_region = (case exact_region of Some r \<Rightarrow> Some r
            | None \<Rightarrow> (case hit_at m a of None \<Rightarrow> None
                | Some r \<Rightarrow> if menu_opens_on (hr_target r) then hit_row_matching (mo_row m) is_editable_message h else None))
      in case map_option hr_target row_region of
        Some (HEditableMessage target) \<Rightarrow>
          with_ui (\<lambda>u. u\<lparr>ui_comment_delete := None, ui_comment_menu := Some
            \<lparr>mn_target = target, mn_can_edit_delete = is_own_message a target, mn_saved = is_message_saved a target,
             mn_x = mo_column m, mn_y = mo_row m\<rparr>\<rparr>) a
      | _ \<Rightarrow> close_comment_overlays a)"

section \<open>Every event\<close>

definition handle_modal_mouse :: "'s device \<Rightarrow> mouse_event \<Rightarrow> 's app \<Rightarrow> 's app option" where
  "handle_modal_mouse D m a0 =
     (let a = clear_selection a0 in
      case (mo_kind m, hit_at m a) of
        (MouseDown MouseLeft, Some region) \<Rightarrow>
          (case hr_target region of
             HListModalRow _ \<Rightarrow> handle_mouse_click D region m a
           | HBannerModal \<Rightarrow> handle_mouse_click D region m a
           | _ \<Rightarrow> Some a)
      | _ \<Rightarrow> Some a)"

definition scroll_at :: "'s device \<Rightarrow> mouse_event \<Rightarrow> int \<Rightarrow> 's app \<Rightarrow> 's app" where
  "scroll_at D m delta a0 =
     (let a = clear_selection a0 in
      case hit_at m a of None \<Rightarrow> a | Some region \<Rightarrow> handle_mouse_scroll D (hr_target region) delta a)"

definition handle_mouse :: "'s device \<Rightarrow> mouse_event \<Rightarrow> 's app \<Rightarrow> 's app option" where
  "handle_mouse D m a0 =
     (let a = with_ui dismiss_startup_splash a0 in
      if banner_is_modal D a then handle_modal_mouse D m a
      else case mo_kind m of
        ScrollUp \<Rightarrow> Some (scroll_at D m (- 3) a)
      | ScrollDown \<Rightarrow> Some (scroll_at D m 3 a)
      | MouseDown b \<Rightarrow> Some (case b of MouseLeft \<Rightarrow> start_mouse_click_or_selection m a
          | MouseRight \<Rightarrow> open_comment_menu_at m a | MouseMiddle \<Rightarrow> clear_selection a)
      | MouseDrag b \<Rightarrow> Some (if b = MouseLeft then update_mouse_selection m a else a)
      | MouseUp b \<Rightarrow> if b = MouseLeft then finish_mouse_click_or_selection D m a else Some a
      | MouseMoved \<Rightarrow> Some (update_pointer_shape m a)
      | _ \<Rightarrow> Some a)"

definition handle_key :: "'s device \<Rightarrow> key \<Rightarrow> 's app \<Rightarrow> 's app option" where
  "handle_key D k a0 =
     (let a = with_ui dismiss_startup_splash a0 in
      case k of KMouse m \<Rightarrow> handle_mouse D m a | _ \<Rightarrow> handle_keyboard D k a)"

end
