(* ===== verification/Sessions.thy ===== *)
theory Sessions
  imports Mouse
begin

text \<open>
  A session at the keyboard and the mouse: what holds in every state a sequence of events leads to.
  \<open>fit\<close> is the invariant of the interface of an activated account: the cursors are between
  characters, the texts are made of scalar values and narrow white space, and open completions
  replace whole characters of the line. Every event but Alt-Down keeps it, so none panics.
\<close>

section \<open>Texts\<close>

definition plain_text :: "str \<Rightarrow> bool" where
  "plain_text s \<longleftrightarrow> list_all (\<lambda>c. is_scalar c \<and> (is_whitespace c \<longrightarrow> c < 128)) s"

lemma plain_simps [simp]: "plain_text []" "plain_text (s @ t) \<longleftrightarrow> plain_text s \<and> plain_text t"
  by (simp_all add: plain_text_def)

lemma plain_cut [intro]: "plain_text s \<Longrightarrow> plain_text (take n s)" "plain_text s \<Longrightarrow> plain_text (drop n s)"
  "plain_text s \<Longrightarrow> plain_text (trim s)"
  using set_trim_matches [of is_whitespace s]
  by (auto simp: plain_text_def list_all_iff trim_def dest: in_set_takeD in_set_dropD)

lemma plain_scalar: "plain_text s \<Longrightarrow> list_all is_scalar s" "plain_text s \<Longrightarrow> narrow_space s"
  by (auto simp: plain_text_def narrow_space_def list_all_iff)

lemma plain_Cons: "plain_text (c # s) \<longleftrightarrow> is_scalar c \<and> (is_whitespace c \<longrightarrow> c < 128) \<and> plain_text s"
  by (auto simp: plain_text_def)

lemma plain_ascii: "list_all (\<lambda>c. c < 128) s \<Longrightarrow> plain_text s"
  by (auto simp: plain_text_def list_all_iff is_scalar_def)

lemma plain_lit: "list_all (\<lambda>c. of_char c < (128 :: nat)) s \<Longrightarrow> plain_text (lit s)"
  by (rule plain_ascii) (simp add: lit_def list_all_iff)

lemma plain_show_int: "plain_text (show_int i)"
proof -
  have "plain_text (show_nat n)" for n
    using show_nat_digits [of n] by (intro plain_ascii) (auto simp: list_all_iff is_ascii_digit_def)
  then show ?thesis by (simp add: show_int_def plain_Cons is_scalar_def)
qed

section \<open>The line editor\<close>

definition composer_ok :: "composer \<Rightarrow> bool" where
  "composer_ok c \<longleftrightarrow> zip_of c \<noteq> None \<and> plain_text (cp_buffer c) \<and> list_all plain_text (cp_history c)
     \<and> (\<forall>i. cp_position c = Some i \<longrightarrow> i < length (cp_history c))"

text \<open>A computation that succeeds with a result of a kind.\<close>

definition lands :: "('a \<Rightarrow> bool) \<Rightarrow> 'a option \<Rightarrow> bool" where
  "lands P x \<longleftrightarrow> (\<exists>a. x = Some a \<and> P a)"

lemma lands_simps [simp]: "lands P (Some a) \<longleftrightarrow> P a" "\<not> lands P None" "lands P (map_option f x) \<longleftrightarrow> lands (\<lambda>a. P (f a)) x"
  by (auto simp: lands_def)

lemma lands_bind: "lands Q x \<Longrightarrow> (\<And>a. Q a \<Longrightarrow> lands P (f a)) \<Longrightarrow> lands P (Option.bind x f)"
  by (auto simp: lands_def)

lemma lands_mono: "lands Q x \<Longrightarrow> (\<And>a. Q a \<Longrightarrow> P a) \<Longrightarrow> lands P x"
  by (auto simp: lands_def)

definition edit_plain :: "edit \<Rightarrow> bool" where
  "edit_plain e \<longleftrightarrow> (case e of EInsert ch \<Rightarrow> plain_text [ch] | EInsertStr s \<Rightarrow> plain_text s | _ \<Rightarrow> True)"

lemma edit_history:
  "edit_composer e c = Some d \<Longrightarrow> cp_history d = cp_history c \<and> (cp_position d = None \<or> cp_position d = cp_position c)"
proof -
  have left: "skip_left b c = Some d \<Longrightarrow> cp_history d = cp_history c \<and> cp_position d = cp_position c" for b c d
  proof (induction b c rule: skip_left.induct)
    case (1 b c)
    have "move_left c = Some e \<Longrightarrow> cp_history e = cp_history c \<and> cp_position e = cp_position c" for e
      by (auto simp: move_left_def split: if_splits bind_splits)
    then show ?case using 1 by (subst (asm) (2) skip_left.simps) (auto split: if_splits option.splits)
  qed
  have right: "skip_right b c = Some d \<Longrightarrow> cp_history d = cp_history c \<and> cp_position d = cp_position c" for b c d
  proof (induction b c rule: skip_right.induct)
    case (1 b c)
    have "move_right c = Some e \<Longrightarrow> cp_history e = cp_history c \<and> cp_position e = cp_position c" for e
      by (auto simp: move_right_def split: if_splits bind_splits)
    then show ?case using 1 by (subst (asm) (2) skip_right.simps) (auto split: if_splits option.splits)
  qed
  assume "edit_composer e c = Some d"
  then show ?thesis
    by (cases e) (auto simp: insert_char_def insert_str_def backspace_def delete_def move_left_def move_right_def move_home_def
      move_end_def move_word_left_def move_word_right_def clear_before_cursor_def clear_after_cursor_def
      delete_word_before_cursor_def cancel_history_navigation_def Let_def split: if_splits bind_splits dest!: left right)
qed

lemma plain_parts: "plain_text (a @ b) \<Longrightarrow> a @ b = c @ d \<Longrightarrow> plain_text c \<and> plain_text d"
  by simp

lemma edit_zipper_plain:
  assumes "plain_text p" "plain_text q" "edit_plain e"
  shows "plain_text (fst (edit_zipper e (p, q))) \<and> plain_text (snd (edit_zipper e (p, q)))"
proof -
  have last: "plain_text (drop_last_word p)" "plain_text (drop (length (drop_last_word p)) p)"
    using plain_parts [of p "[]" "drop_last_word p" "drop (length (drop_last_word p)) p"] drop_last_word_append [of p] assms(1)
    by simp_all
  have first: "plain_text (drop_first_word q)" "plain_text (take_rest (drop_first_word q) q)"
    using plain_parts [of q "[]" "take_rest (drop_first_word q) q" "drop_first_word q"] drop_first_word_append [of q] assms(2)
    by simp_all
  have ends: "p \<noteq> [] \<Longrightarrow> plain_text (butlast p) \<and> plain_text [last p]" "q \<noteq> [] \<Longrightarrow> plain_text [hd q] \<and> plain_text (tl q)"
    using plain_parts [of p "[]" "butlast p" "[last p]"] plain_parts [of q "[]" "[hd q]" "tl q"] assms(1,2) by simp_all
  show ?thesis
    using assms last first ends by (cases e) (auto simp: edit_plain_def plain_Cons, cases "p = []", auto, cases "q = []", auto)
qed

lemma edit_lands: "composer_ok c \<Longrightarrow> edit_plain e \<Longrightarrow> lands composer_ok (edit_composer e c)"
proof -
  assume c: "composer_ok c" and e: "edit_plain e"
  then obtain p q where z: "zip_of c = Some (p, q)" by (auto simp: composer_ok_def)
  then have b: "cp_buffer c = p @ q" by (simp add: zip_of_some)
  have "edit_ok e" using e by (cases e) (auto simp: edit_plain_def edit_ok_def dest: plain_scalar)
  then obtain d where d: "edit_composer e c = Some d" "zip_of d = Some (edit_zipper e (p, q))"
    using edit_refines [OF z, of e] c plain_scalar by (auto simp: composer_ok_def)
  have "plain_text p" "plain_text q" using c b by (simp_all add: composer_ok_def)
  then have "plain_text (cp_buffer d)"
    using edit_zipper_plain [OF _ _ e, of p q] d(2) by (cases "edit_zipper e (p, q)") (simp add: zip_of_some)
  then show ?thesis using d edit_history [OF d(1)] c by (auto simp: lands_def composer_ok_def)
qed

lemma composer_ok_start: "composer_ok c \<Longrightarrow> plain_text s \<Longrightarrow> composer_ok (start s c)"
  using split_bytes_at [of s "[]"] by (simp add: composer_ok_def start_def zip_of_def)

lemma composer_ok_new [simp]: "composer_ok new_composer"
  using split_bytes_at [of "[]" "[]"] by (simp add: composer_ok_def new_composer_def zip_of_def)

lemma composer_ok_more [simp]:
  "composer_ok (c\<lparr>cp_autocomplete := ac\<rparr>) \<longleftrightarrow> composer_ok c" "composer_ok (c\<lparr>cp_prompt := pr\<rparr>) \<longleftrightarrow> composer_ok c"
  by (simp_all add: composer_ok_def zip_of_def)

lemma composer_ok_from: "plain_text s \<Longrightarrow> composer_ok (composer_from s)"
  using composer_ok_start [OF composer_ok_new, of s] by (simp add: composer_from_def start_def new_composer_def)

lemma composer_ok_reset: "composer_ok c \<Longrightarrow> composer_ok (reset_input c)"
  by (simp add: reset_input_def composer_ok_start)

lemma composer_ok_prompt: "composer_ok c \<Longrightarrow> plain_text s \<Longrightarrow> composer_ok (start_prompt s t c)"
  by (simp add: start_prompt_def Let_def composer_ok_start)

lemma composer_ok_push: "composer_ok c \<Longrightarrow> plain_text s \<Longrightarrow> composer_ok (push_history s c)"
  by (auto simp: composer_ok_def push_history_def cancel_history_navigation_def zip_of_def Let_def)

lemma load_history_lands: "composer_ok c \<Longrightarrow> i < length (cp_history c) \<Longrightarrow> lands composer_ok (load_history i c)"
  using split_bytes_at [of "cp_history c ! i" "[]"]
  by (simp add: load_history_def composer_ok_def zip_of_def list_all_length)

lemma composer_ok_draft [simp]: "composer_ok (c\<lparr>cp_draft := d\<rparr>) \<longleftrightarrow> composer_ok c"
  by (simp add: composer_ok_def zip_of_def)

lemma previous_history_lands:
  assumes "composer_ok c"
  shows "lands composer_ok (map_option snd (previous_history c))"
proof (cases "cp_history c = []")
  case False
  show ?thesis
  proof (cases "cp_position c")
    case None
    then show ?thesis
      using False assms load_history_lands [of "c\<lparr>cp_draft := Some (cp_buffer c)\<rparr>" "length (cp_history c) - 1"]
      by (simp add: previous_history_def)
  next
    case (Some i)
    then have "i < length (cp_history c)" using assms by (simp add: composer_ok_def)
    then show ?thesis using False Some assms load_history_lands [of c "i - 1"] by (simp add: previous_history_def)
  qed
qed (use assms in \<open>simp add: previous_history_def\<close>)

section \<open>Completions\<close>

definition executor_ok :: "command_executor \<Rightarrow> bool" where
  "executor_ok x \<longleftrightarrow> (case x of XPrompt _ pre _ \<Rightarrow> plain_text pre | _ \<Rightarrow> True)"

definition item_ok :: "autocomplete_item \<Rightarrow> bool" where
  "item_ok i \<longleftrightarrow> (case ai_executor i of None \<Rightarrow> plain_text (ai_replacement i) | Some x \<Rightarrow> executor_ok x)"

definition offers_ok :: "composer \<Rightarrow> bool" where
  "offers_ok c \<longleftrightarrow> (ac_open (cp_autocomplete c) \<longrightarrow>
     spans_good (cp_buffer c) (cp_autocomplete c) \<and> list_all item_ok (ac_items (cp_autocomplete c)))"

text \<open>The texts of the view that can reach the line editor.\<close>

definition view_ok :: "'a snapshot_scheme \<Rightarrow> bool" where
  "view_ok v \<longleftrightarrow>
     list_all (\<lambda>u. plain_text (up_username u)) (sn_users v)
     \<and> list_all (\<lambda>d. plain_text (ds_peer_username d)) (sn_conversations v)
     \<and> list_all (\<lambda>t. plain_text (ti_author t)) (sn_threads v)
     \<and> list_all (\<lambda>m. plain_text (it_author m) \<and> plain_text (it_body m)) (sn_comments v)
     \<and> list_all (\<lambda>m. plain_text (it_author m) \<and> plain_text (it_body m)) (sn_messages v)
     \<and> list_all (\<lambda>c. plain_text (ci_slug c)) (sn_channels v)
     \<and> list_all (\<lambda>t. plain_text (hl_tag t)) (sn_hot_labels v)
     \<and> list_all (\<lambda>k. plain_text (ks_id k)) (sn_ssh_keys v)"

definition device_ok :: "'s device \<Rightarrow> bool" where
  "device_ok D \<longleftrightarrow> list_all (\<lambda>e. plain_text (em_str e)) (cm_emojis (dv_completer D))"

lemma plain_sigils: "plain_text (c_at # s) \<longleftrightarrow> plain_text s" "plain_text (c_hash # s) \<longleftrightarrow> plain_text s"
  "plain_text (c_dollar # s) \<longleftrightarrow> plain_text s" "plain_text (c_space # s) \<longleftrightarrow> plain_text s"
  "plain_text (47 # s) \<longleftrightarrow> plain_text s"
  by (auto simp: plain_Cons is_scalar_def is_whitespace_def)

lemma known_users_plain: "view_ok v \<Longrightarrow> u \<in> set (known_users v) \<Longrightarrow> plain_text u"
  by (auto simp: known_users_def view_ok_def list_all_iff Let_def)

lemma add_suggestion_plain:
  "\<forall>x\<in>set s. plain_text (fst x) \<Longrightarrow> plain_text u \<Longrightarrow> \<forall>x\<in>set (add_suggestion u s). plain_text (fst x)"
  by (auto simp: add_suggestion_def Let_def plain_sigils)

lemma fold_suggestion_plain:
  "\<forall>x\<in>set s. plain_text (fst x) \<Longrightarrow> \<forall>u\<in>set us. plain_text u \<Longrightarrow> \<forall>x\<in>set (fold add_suggestion us s). plain_text (fst x)"
proof (induction us arbitrary: s)
  case (Cons u us)
  have "\<forall>x\<in>set (add_suggestion u s). plain_text (fst x)" by (rule add_suggestion_plain) (use Cons.prems in auto)
  moreover have "\<forall>u\<in>set us. plain_text u" using Cons.prems by simp
  ultimately show ?case unfolding fold_simps comp_apply by (rule Cons.IH)
qed simp

lemma dm_suggestions_plain:
  assumes "view_ok v" "(label, d) \<in> set (dm_suggestions C v)"
  shows "plain_text label"
proof -
  have "\<forall>x\<in>set (dm_suggestions C v). plain_text (fst x)"
    unfolding dm_suggestions_def
    by (rule fold_suggestion_plain) (use assms(1) known_users_plain in \<open>auto simp: view_ok_def list_all_iff plain_sigils\<close>)
  then show ?thesis using assms(2) by force
qed

lemma suggestions_plain:
  "view_ok v \<Longrightarrow> (label, d) \<in> set (label_suggestions v) \<Longrightarrow> plain_text label"
  "view_ok v \<Longrightarrow> (label, d) \<in> set (argument_suggestions C x y v) \<Longrightarrow> plain_text label"
proof -
  show "view_ok v \<Longrightarrow> (label, d) \<in> set (label_suggestions v) \<Longrightarrow> plain_text label"
    by (auto simp: label_suggestions_def view_ok_def list_all_iff plain_sigils)
  assume "view_ok v" "(label, d) \<in> set (argument_suggestions C x y v)"
  then show "plain_text label"
    by (auto simp: argument_suggestions_def plain_sigils split: if_splits dest: dm_suggestions_plain known_users_plain)
      (auto simp: view_ok_def list_all_iff)
qed

definition offered :: "autocomplete_state \<Rightarrow> bool" where
  "offered a \<longleftrightarrow> list_all item_ok (ac_items a)"

lemma offered_none [simp]: "offered no_autocomplete"
  by (simp add: offered_def no_autocomplete_def)

lemma offered_completions: "(\<And>x. x \<in> set xs \<Longrightarrow> item_ok (f x)) \<Longrightarrow> offered (completions (map f xs))"
  by (auto simp: offered_def completions_def list_all_iff take_map dest: in_set_takeD)

lemma offered_arguments:
  assumes "\<And>label d. (label, d) \<in> set l \<Longrightarrow> plain_text label"
  shows "offered (autocomplete_arguments_with_empty_enter C span t l d e f)" "offered (autocomplete_arguments C span t l d e)"
proof -
  show "offered (autocomplete_arguments_with_empty_enter C span t l d e f)" for f
    unfolding autocomplete_arguments_with_empty_enter_def Let_def
    by (rule offered_completions)
      (use assms set_best_first [of _ l] in \<open>fastforce simp: item_ok_def\<close>)
  then show "offered (autocomplete_arguments C span t l d e)" by (simp add: autocomplete_arguments_def)
qed

lemma offered_tokens:
  assumes "view_ok v"
  shows "offered (autocomplete_mentions C s n v)" "offered (autocomplete_labels C s n v)"
  using assms by (auto simp: autocomplete_mentions_def autocomplete_labels_def split: option.split
      intro!: offered_arguments dest: dm_suggestions_plain suggestions_plain)

lemma offered_emojis:
  assumes "list_all (\<lambda>e. plain_text (em_str e)) (cm_emojis C)"
  shows "offered (autocomplete_emojis_with_options C s n e)" "offered (autocomplete_emojis C s n)"
proof -
  show "offered (autocomplete_emojis_with_options C s n e)" for e
    using assms by (auto simp: autocomplete_emojis_with_options_def Let_def item_ok_def list_all_iff List.map_filter_def
        split: option.split intro!: offered_completions)
  then show "offered (autocomplete_emojis C s n)" by (simp add: autocomplete_emojis_def)
qed

lemma names_plain: "list_all (\<lambda>spec. plain_text (cs_name spec)) command_specs"
  "s \<in> set (subcommands_for name) \<Longrightarrow> plain_text (sb_name s)"
proof -
  have p: "plain_text (lit s) \<longleftrightarrow> list_all (\<lambda>c. is_scalar (of_char c) \<and> (is_whitespace (of_char c) \<longrightarrow> of_char c < (128::nat))) s" for s
    by (simp add: plain_text_def lit_def list_all_iff)
  show "list_all (\<lambda>spec. plain_text (cs_name spec)) command_specs"
    by (simp add: command_specs_def cmd_def p is_scalar_def)
  have "list_all (\<lambda>s. plain_text (sb_name s)) (subcommands_for name)"
    by (simp add: subcommands_for_def subcommand_tables sub_def p is_scalar_def)
  then show "s \<in> set (subcommands_for name) \<Longrightarrow> plain_text (sb_name s)" by (simp add: list_all_iff)
qed

lemma palette_executors:
  assumes "i \<in> set (palette_items v)"
  shows "executor_ok (pi_executor i)"
proof -
  have fixed: "list_all (\<lambda>i. executor_ok (pi_executor i)) fixed_items"
    by (simp add: fixed_items_def prompt_item_def action_item_def executor_ok_def)
      (simp add: plain_text_def lit_def is_scalar_def is_whitespace_def)
  have command: "executor_ok (pi_executor i)" if i: "i \<in> set command_items" for i
  proof -
    obtain spec where spec: "spec \<in> set command_specs"
        "i = command_item spec \<or> (\<exists>s\<in>set (subcommands_for (cs_name spec)). i = subcommand_item spec s)"
      using i by (auto simp: command_items_def split: if_splits)
    have "plain_text (cs_name spec)" using names_plain(1) spec(1) by (simp add: list_all_iff)
    moreover have "plain_text (lit ''/'')" by (simp add: plain_text_def lit_def is_scalar_def is_whitespace_def)
    ultimately show ?thesis
      using spec(2) names_plain(2)
      by (auto simp: command_item_def subcommand_item_def executor_ok_def Let_def plain_sigils)
  qed
  show ?thesis
    using assms fixed command
    by (auto simp: palette_items_def channel_item_def conversation_item_def thread_palette_item_def executor_ok_def list_all_iff)
qed

lemma offered_argument:
  assumes "view_ok v" "list_all (\<lambda>e. plain_text (em_str e)) (cm_emojis C)" "complete_argument C s n spec v a b = Some r"
  shows "offered r"
  using assms(3)
  by (auto simp: complete_argument_def Let_def offered_emojis [OF assms(2)] split: bind_splits option.splits if_splits
      intro!: offered_arguments dest: suggestions_plain(2) [OF assms(1)])

lemma offered_after_command:
  assumes "view_ok v" "list_all (\<lambda>e. plain_text (em_str e)) (cm_emojis C)" "autocomplete_after_command C s n t spec v = Some r"
  shows "offered r"
proof -
  have sub: "item_ok (subcommand_completion span pre x)" if "x \<in> set (best_first f (subcommands_for (cs_name spec)))" for span pre x f
    using that set_best_first [of f "subcommands_for (cs_name spec)"] names_plain(2)
    by (auto simp: subcommand_completion_def item_ok_def plain_sigils)
  show ?thesis
    using assms(3) sub
    by (auto simp: autocomplete_after_command_def Let_def split: bind_splits if_splits
        intro!: offered_arguments offered_completions dest: suggestions_plain(1) [OF assms(1)] dm_suggestions_plain [OF assms(1)]
          offered_argument [OF assms(1,2)])
qed

lemma offered_autocomplete:
  assumes "view_ok v" "list_all (\<lambda>e. plain_text (em_str e)) (cm_emojis C)" "autocomplete C s n v = Some r"
  shows "offered r"
proof -
  have pal: "item_ok (palette_autocomplete_item span x)" if "x \<in> set (best_first f (palette_items v))" for span x f
    using that set_best_first [of f "palette_items v"] palette_executors by (auto simp: palette_autocomplete_item_def item_ok_def)
  show ?thesis
    using assms(3) pal
    by (auto simp: autocomplete_def Let_def offered_tokens [OF assms(1)] offered_emojis [OF assms(2)] split: bind_splits if_splits option.splits
        intro!: offered_completions dest: offered_after_command [OF assms(1,2)])
qed

section \<open>The invariant\<close>

definition page_ok :: "account_page \<Rightarrow> bool" where
  "page_ok p \<longleftrightarrow> composer_ok (pg_username p) \<and> composer_ok (pg_display_name p)"

definition palette_ok :: "palette_state \<Rightarrow> bool" where
  "palette_ok p \<longleftrightarrow> list_all (\<lambda>i. executor_ok (pi_executor i)) (pl_items p)"

definition account_ok :: "account \<Rightarrow> bool" where
  "account_ok x \<longleftrightarrow> ac_activated x \<and> plain_text (ac_username x) \<and> plain_text (ac_display_name x)"

text \<open>Everything but the completions, which an edit leaves behind until they are brought up to date.\<close>

definition steady :: "'s app \<Rightarrow> bool" where
  "steady a \<longleftrightarrow> account_ok (ap_account a) \<and> composer_ok (ui_composer (ap_ui a)) \<and> page_ok (ui_account (ap_ui a))
     \<and> palette_ok (ui_palette (ap_ui a)) \<and> view_ok (ap_view a)"

definition fit :: "'s app \<Rightarrow> bool" where
  "fit a \<longleftrightarrow> steady a \<and> offers_ok (ui_composer (ap_ui a))"

lemma fit_steady: "fit a \<Longrightarrow> steady a"
  by (simp add: fit_def)

lemma update_completions_lands:
  assumes "steady a" "device_ok D"
  shows "lands fit (update_completions D a)"
proof -
  let ?c = "ui_composer (ap_ui a)"
  have c: "zip_of ?c \<noteq> None" "narrow_space (cp_buffer ?c)" "view_ok (ap_view a)"
    using assms(1) plain_scalar(2) by (auto simp: steady_def composer_ok_def)
  from c(1) have b: "boundary (cp_cursor ?c) (cp_buffer ?c)" by (simp add: boundary_def zip_of_def)
  obtain r where r: "autocomplete (dv_completer D) (cp_buffer ?c) (cp_cursor ?c) (ap_view a) = Some r" "spans_good (cp_buffer ?c) r"
    using completion_spans [OF b c(2)] by blast
  have "offered r" using offered_autocomplete [OF c(3) _ r(1)] assms(2) by (simp add: device_ok_def)
  then show ?thesis
    using r assms(1) by (auto simp: update_completions_def fit_def steady_def offers_ok_def offered_def with_ui_def)
qed

lemma view_ok_cut [simp]:
  "view_ok (v\<lparr>sn_channel_id := i\<rparr>) = view_ok v" "view_ok (v\<lparr>sn_thread_id := i\<rparr>) = view_ok v"
  "view_ok (v\<lparr>sn_conversation_id := i\<rparr>) = view_ok v" "view_ok (v\<lparr>sn_comments_more := b\<rparr>) = view_ok v"
  "view_ok (v\<lparr>sn_messages_more := b\<rparr>) = view_ok v" 
  "view_ok v \<Longrightarrow> view_ok (v\<lparr>sn_threads := []\<rparr>)" "view_ok v \<Longrightarrow> view_ok (v\<lparr>sn_comments := []\<rparr>)"
  "view_ok v \<Longrightarrow> view_ok (v\<lparr>sn_messages := []\<rparr>)"
  by (auto simp: view_ok_def)

named_theorems calm \<open>operations that keep the invariant\<close>


section \<open>Steps that leave the line editor alone\<close>

definition calm_step :: "'s app \<Rightarrow> 's app \<Rightarrow> bool" where
  "calm_step a b \<longleftrightarrow> (steady a \<longrightarrow> steady b) \<and> ui_composer (ap_ui b) = ui_composer (ap_ui a)"

lemma calm_fit: "calm_step a b \<Longrightarrow> fit a \<Longrightarrow> fit b" "calm_step a b \<Longrightarrow> steady a \<Longrightarrow> steady b"
  by (auto simp: calm_step_def fit_def)

lemma calm_refl [calm]: "calm_step a a"
  by (simp add: calm_step_def)

lemma calm_with_ui [calm]:
  assumes "calm_step a b" "\<And>u. ui_composer (g u) = ui_composer u" "\<And>u. page_ok (ui_account u) \<Longrightarrow> page_ok (ui_account (g u))"
    "\<And>u. palette_ok (ui_palette u) \<Longrightarrow> palette_ok (ui_palette (g u))"
  shows "calm_step a (with_ui g b)"
  using assms by (auto simp: calm_step_def steady_def with_ui_def)

lemma calm_with_view [calm]:
  assumes "calm_step a b" "\<And>v. view_ok v \<Longrightarrow> view_ok (g v)"
  shows "calm_step a (with_view g b)"
  using assms by (auto simp: calm_step_def steady_def with_view_def)

lemma calm_effects [calm]:
  "calm_step a b \<Longrightarrow> calm_step a (push_action x b)" "calm_step a b \<Longrightarrow> calm_step a (request_refresh b)"
  "calm_step a b \<Longrightarrow> calm_step a (b\<lparr>ap_history_limit := n\<rparr>)" "calm_step a b \<Longrightarrow> calm_step a (b\<lparr>ap_pending_more := m\<rparr>)"
  "calm_step a b \<Longrightarrow> calm_step a (b\<lparr>ap_clipboard := t\<rparr>)" "calm_step a b \<Longrightarrow> calm_step a (b\<lparr>ap_link_open := t\<rparr>)"
  "calm_step a b \<Longrightarrow> calm_step a (b\<lparr>ap_pointer := p\<rparr>)" "calm_step a b \<Longrightarrow> calm_step a (stop_running b)"
  by (simp_all add: calm_step_def steady_def push_action_def request_refresh_def stop_running_def)

lemma page_ok_focus [simp]: "page_ok (p\<lparr>pg_focus := f\<rparr>) = page_ok p" "page_ok (p\<lparr>pg_initialized := i\<rparr>) = page_ok p"
  by (simp_all add: page_ok_def)

lemma calm_funpow [calm]: "(\<And>b. calm_step a b \<Longrightarrow> calm_step a (f b)) \<Longrightarrow> calm_step a b \<Longrightarrow> calm_step a ((f ^^ n) b)"
  by (induction n) auto

lemma calm_scrolling [calm]:
  assumes "calm_step a b"
  shows "calm_step a (reset_detail_scroll D b)" "calm_step a (scroll_detail_to_bottom D b)" "calm_step a (reset_detail_scroll_to_bottom D b)"
    "calm_step a (scroll_detail f D b)" "calm_step a (scroll_help f D b)"
  using assms by (auto simp: reset_detail_scroll_def scroll_detail_to_bottom_def reset_detail_scroll_to_bottom_def
      scroll_detail_def scroll_help_def intro!: calm)

lemma calm_clears [calm]:
  assumes "calm_step a b"
  shows "calm_step a (clear_channel_source_selection b)" "calm_step a (clear_conversation_source_selection b)"
    "calm_step a (clear_active_source_selection b)" "calm_step a (reset_history_limit b)"
  using assms by (auto simp: clear_channel_source_selection_def clear_conversation_source_selection_def
      clear_active_source_selection_def reset_history_limit_def intro!: calm)

lemma calm_selects [calm]:
  assumes "calm_step a b"
  shows "calm_step a (select_channel D c b)" "calm_step a (select_thread D c t b)" "calm_step a (select_conversation D c b)"
    "calm_step a (prepare_source_focus f b)" "calm_step a (select_thread_with_focus D c t f b)"
    "calm_step a (select_conversation_with_focus D c f b)"
  using assms by (auto simp: select_channel_def select_thread_def select_conversation_def prepare_source_focus_def
      select_thread_with_focus_def select_conversation_with_focus_def Let_def intro!: calm split: source_focus.split)

lemma calm_banners [calm]:
  assumes "calm_step a b"
  shows "calm_step a (set_banner_ok t s b)" "calm_step a (set_banner_err t s b)"
  using assms by (auto simp: set_banner_ok_def set_banner_err_def intro!: calm)

lemma calm_modes [calm]:
  assumes "calm_step a b"
  shows "calm_step a (set_focus f b)" "calm_step a (set_mode m b)" "calm_step a (set_pane p b)" "calm_step a (open_help D b)"
    "calm_step a (close_comment_overlays b)" "calm_step a (with_selection h b)" "calm_step a (clear_selection b)"
  using assms by (auto simp: set_focus_def set_mode_def set_pane_def open_help_def close_comment_overlays_def
      with_selection_def clear_selection_def intro!: calm)

lemma calm_start_inputs [calm]:
  assumes "calm_step a b"
  shows "calm_step a (start_account_inputs b)"
  using assms by (auto simp: calm_step_def steady_def start_account_inputs_def with_ui_def page_ok_def account_ok_def
      intro!: composer_ok_start)

lemma calm_account_page [calm]:
  assumes "calm_step a b"
  shows "calm_step a (sync_account_page_form b)" "calm_step a (open_account_page D b)" "calm_step a (move_account n b)"
    "calm_step a (save_account_settings D b)" "calm_step a (reset_account_settings D b)"
  using assms by (auto simp: sync_account_page_form_def open_account_page_def move_account_def save_account_settings_def
      reset_account_settings_def Let_def intro!: calm)

section \<open>Moving around\<close>

lemma calm_loading [calm]:
  assumes "calm_step a b"
  shows "calm_step a (queue_older_history_if_available b)" "calm_step a (queue_result_list_page_if_available b)"
  using assms by (auto simp: queue_older_history_if_available_def queue_result_list_page_if_available_def
      queue_load_more_request_def intro!: calm split: option.split)

lemma calm_detail [calm]:
  assumes "calm_step a b"
  shows "calm_step a (move_detail D n b)" "calm_step a (page_detail D d b)" "calm_step a (snd (move_detail_message_focus D n b))"
  using assms by (auto simp: move_detail_def page_detail_def move_detail_message_focus_def Let_def intro!: calm split: option.split)

lemma calm_lists [calm]:
  assumes "calm_step a b"
  shows "calm_step a (move_search n b)" "calm_step a (move_label n b)" "calm_step a (move_saved n b)"
    "calm_step a (move_notifications n b)"
  using assms by (auto simp: move_search_def move_label_def move_saved_def move_notifications_def move_in_list_def Let_def intro!: calm)

lemma calm_rail [calm]:
  assumes "calm_step a b"
  shows "calm_step a (apply_workspace_row D r b)" "calm_step a (move_workspace D n b)"
proof -
  show "calm_step a (apply_workspace_row D r b)" for r
    using assms by (auto simp: apply_workspace_row_def Let_def intro!: calm split: workspace_row.split option.split)
  then show "calm_step a (move_workspace D n b)" by (simp add: move_workspace_def Let_def)
qed

lemma calm_selection [calm]:
  assumes "calm_step a b"
  shows "calm_step a (move_selection D n b)" "calm_step a (move_to_edge D e b)"
proof -
  show "calm_step a (move_selection D n b)" for n
    using assms calm_detail(3) [OF assms, of D n]
    by (auto simp: move_selection_def Let_def intro!: calm split: prod.split)
  with assms show "calm_step a (move_to_edge D e b)"
    by (auto simp: move_to_edge_def intro!: calm)
qed

lemma calm_opening [calm]:
  assumes "calm_step a b"
  shows "calm_step a (activate_search_result D b)" "calm_step a (activate_label_result D b)" "calm_step a (activate_saved_result D b)"
    "calm_step a (activate_notification_result D b)"
  using assms by (auto simp: activate_search_result_def activate_label_result_def activate_saved_result_def
      activate_notification_result_def open_thread_or_def open_conversation_or_def open_with_def Let_def intro!: calm
      split: option.split label_feed_kind.split saved_kind.split source_kind.split)

lemma calm_panes [calm]:
  assumes "calm_step a b"
  shows "calm_step a (set_notification_filter D f b)" "calm_step a (cycle_notification_filter D b)" "calm_step a (toggle_threads b)"
    "calm_step a (enter_threads D t b)" "calm_step a (navigate_left b)" "calm_step a (navigate_right D b)"
    "calm_step a (toggle_workspace_detail D b)"
  using assms by (auto simp: set_notification_filter_def cycle_notification_filter_def toggle_threads_def enter_threads_def
      navigate_left_def navigate_right_def toggle_workspace_detail_def Let_def intro!: calm split: option.split list.split active_pane.split)


section \<open>Composing\<close>

lemma offers_closed: "\<not> ac_open (cp_autocomplete c) \<Longrightarrow> offers_ok c"
  by (simp add: offers_ok_def)

lemma closed_starts [simp]:
  "offers_ok (start s c)" "offers_ok (reset_input c)" "offers_ok (close_autocomplete c)" "offers_ok (start_prompt p t c)"
  by (simp_all add: offers_ok_def start_def reset_input_def close_autocomplete_def start_prompt_def no_autocomplete_def Let_def)

lemma steady_composer: "steady a \<Longrightarrow> composer_ok (ui_composer (ap_ui a))"
  by (simp add: steady_def)

lemma steady_set: "steady a \<Longrightarrow> composer_ok c \<Longrightarrow> steady (set_composer c a)"
  "fit a \<Longrightarrow> composer_ok c \<Longrightarrow> offers_ok c \<Longrightarrow> fit (set_composer c a)"
  by (simp_all add: fit_def steady_def set_composer_def with_ui_def)

lemma fit_set: "steady a \<Longrightarrow> composer_ok c \<Longrightarrow> offers_ok c \<Longrightarrow> fit (set_composer c a)"
  by (simp add: fit_def steady_def set_composer_def with_ui_def)

lemma fit_do: "steady a \<Longrightarrow> composer_ok (f (ui_composer (ap_ui a))) \<Longrightarrow> offers_ok (f (ui_composer (ap_ui a))) \<Longrightarrow> fit (composer_do f a)"
  by (simp add: composer_do_def fit_set)

lemma close_ok [simp]: "composer_ok (close_autocomplete c) = composer_ok c"
  by (simp add: close_autocomplete_def)

lemma fit_reset: "steady a \<Longrightarrow> fit (composer_do reset_input a)" "steady a \<Longrightarrow> fit (composer_do close_autocomplete a)"
  by (simp_all add: fit_do composer_ok_reset steady_composer)

lemma edit_with_lands:
  "steady a \<Longrightarrow> edit_plain e \<Longrightarrow> lands steady (edit_with (edit_composer e) a)"
  using edit_lands [of "ui_composer (ap_ui a)" e]
  by (auto simp: edit_with_def lands_def steady_set steady_composer)

lemma edit_funs:
  "edit_composer (EInsert ch) = insert_char ch" "edit_composer (EInsertStr s) = insert_str s" "edit_composer EBackspace = backspace"
  "edit_composer EDelete = delete" "edit_composer ELeft = move_left" "edit_composer ERight = move_right"
  "edit_composer EHome = (\<lambda>c. Some (move_home c))" "edit_composer EEnd = (\<lambda>c. Some (move_end c))"
  "edit_composer EWordLeft = move_word_left" "edit_composer EWordRight = move_word_right"
  "edit_composer EClearBefore = clear_before_cursor" "edit_composer EClearAfter = clear_after_cursor"
  "edit_composer EDeleteWord = delete_word_before_cursor"
  by (simp_all add: fun_eq_iff)

lemmas edits_with = edit_with_lands [of _ "EInsert ch" for ch, unfolded edit_funs] edit_with_lands [of _ "EInsertStr s" for s, unfolded edit_funs]
  edit_with_lands [of _ EWordLeft, unfolded edit_funs] edit_with_lands [of _ EWordRight, unfolded edit_funs]
  edit_with_lands [of _ EDeleteWord, unfolded edit_funs]

lemma input_edit_edits:
  assumes "input_edit k = Some f"
  obtains e where "f = edit_composer e" "edit_plain e"
proof -
  have "edit_plain e" if "e \<in> {EBackspace, EDelete, ELeft, ERight, EHome, EEnd, EClearBefore, EClearAfter}" for e
    using that by (auto simp: edit_plain_def)
  then show ?thesis
    using assms that edit_funs by (simp add: input_edit_def split: if_splits) (metis insertCI)+
qed

lemma enter_compose_lands: "steady a \<Longrightarrow> device_ok D \<Longrightarrow> plain_text s \<Longrightarrow> lands fit (enter_compose D s a)"
  unfolding enter_compose_def
  by (rule update_completions_lands) (simp_all add: steady_def with_ui_def composer_ok_start)

lemma prompt_lands: "steady a \<Longrightarrow> device_ok D \<Longrightarrow> plain_text s \<Longrightarrow> lands fit (open_compose_prompt D s t a)"
  unfolding open_compose_prompt_def
  by (rule update_completions_lands)
    (simp_all add: composer_do_def composer_ok_prompt set_mode_def with_ui_def steady_def set_composer_def)

lemma calm_palette [calm]:
  assumes "calm_step a b"
  shows "calm_step a (rebuild_palette D b)" "calm_step a (open_palette D b)" "calm_step a (edit_query D f b)"
    "calm_step a (cycle_palette palette_next b)" "calm_step a (cycle_palette palette_previous b)"
    "calm_step a (cycle_palette (\<lambda>p. p\<lparr>pl_selected := i\<rparr>) b)"
  using assms palette_executors
  by (auto simp: rebuild_palette_def open_palette_def edit_query_def cycle_palette_def palette_next_def palette_previous_def
      palette_ok_def apply_filter_def no_palette_def Let_def list_all_iff intro!: calm)

lemma executor_lands:
  assumes "fit a" "device_ok D" "executor_ok x"
  shows "lands fit (run_command_executor D x a)"
proof -
  have w: "calm_step a (set_mode Workspace a)" by (intro calm)
  show ?thesis
  proof (cases x)
    case (XPrompt t p s)
    have "steady (set_mode Workspace a)" using calm_fit(2) [OF w] fit_steady [OF assms(1)] .
    from prompt_lands [OF this assms(2), of p s] XPrompt assms(3) show ?thesis
      by (simp add: run_command_executor_def executor_ok_def)
  qed (auto simp: run_command_executor_def Let_def intro!: calm calm_fit(1) [OF _ assms(1)])
qed

lemma palette_selection_lands: "fit a \<Longrightarrow> device_ok D \<Longrightarrow> lands fit (run_palette_selection D a)"
  using executor_lands [of a D]
  by (auto simp: run_palette_selection_def selected_item_def get_at_def fit_def steady_def palette_ok_def list_all_iff
      split: option.split bind_splits if_splits)

lemma replace_lands:
  assumes "composer_ok c" "good_span (cp_buffer c) (x, y)" "plain_text t"
  shows "lands composer_ok (replace_range x y t c)"
proof -
  obtain d where d: "replace_range x y t c = Some d" "zip_of d \<noteq> None" using replace_span [OF assms(2)] by blast
  obtain p q p' q' where parts: "x \<le> y" "split_bytes x (cp_buffer c) = Some (p, q)" "split_bytes y (cp_buffer c) = Some (p', q')"
    using assms(2) by (auto simp: good_span_def boundary_def)
  then have e: "cp_buffer d = p @ t @ q'" "cp_history d = cp_history c" "cp_position d = None"
    using d(1) by (auto simp: replace_range_def cancel_history_navigation_def Let_def)
  have "plain_text p" "plain_text q'"
    using assms(1) parts(2,3) plain_simps(2) [of p q] plain_simps(2) [of p' q'] by (auto simp: composer_ok_def split_bytes_some)
  then show ?thesis using d e assms(1,3) by (auto simp: lands_def composer_ok_def)
qed

lemma accept_lands:
  assumes "fit a" "device_ok D"
  shows "lands (\<lambda>(_, b). fit b) (accept_autocomplete_selection D again a)"
proof -
  let ?c = "ui_composer (ap_ui a)"
  have c: "composer_ok ?c" "steady a" using assms(1) by (simp_all add: fit_def steady_def)
  show ?thesis
  proof (cases "ac_open (cp_autocomplete ?c)")
    case False
    then show ?thesis using assms(1) by (simp add: accept_autocomplete_selection_def)
  next
    case True
    show ?thesis
    proof (cases "get_at (ac_selected (cp_autocomplete ?c)) (ac_items (cp_autocomplete ?c))")
      case None
      then show ?thesis using True fit_reset(2) [OF c(2)] by (simp add: accept_autocomplete_selection_def Let_def)
    next
      case (Some item)
      then have i: "item \<in> set (ac_items (cp_autocomplete ?c))" by (auto simp: get_at_def split: if_splits)
      then have ok: "item_ok item" "good_span (cp_buffer ?c) (ai_start item, ai_end item)"
        using assms(1) True by (auto simp: fit_def offers_ok_def spans_good_def list_all_iff)
      show ?thesis
      proof (cases "ai_executor item")
        case None
        obtain d where d: "replace_range (ai_start item) (ai_end item) (ai_replacement item) ?c = Some d" "composer_ok d"
          using replace_lands [OF c(1) ok(2), of "ai_replacement item"] ok(1) None by (auto simp: item_ok_def lands_def)
        have s: "fit (composer_do close_autocomplete (set_composer d a))" using fit_reset(2) steady_set(1) [OF c(2) d(2)] by blast
        show ?thesis
          using Some None True assms(1) d(1) s update_completions_lands [OF fit_steady [OF s] assms(2)]
          by (simp add: accept_autocomplete_selection_def Let_def edit_with_def)
      next
        case (Some x)
        then have "executor_ok x" using ok(1) by (simp add: item_ok_def)
        from executor_lands [OF fit_reset(1) [OF c(2)] assms(2) this] show ?thesis
          using Some True assms(1) \<open>get_at _ _ = Some item\<close> by (simp add: accept_autocomplete_selection_def Let_def)
      qed
    qed
  qed
qed


lemma dispatch_calm [calm]: "calm_step a b \<Longrightarrow> calm_step a (dispatch_command_line D line b)"
  by (auto simp: dispatch_command_line_def Let_def intro!: calm split: sum.split option.split)

lemma submit_fit: "fit a \<Longrightarrow> fit (submit_composer D a)"
proof -
  assume a: "fit a"
  let ?b = "trim (cp_buffer (ui_composer (ap_ui a)))"
  let ?s = "composer_do (\<lambda>c. reset_input (push_history ?b c)) a"
  have "fit ?s"
    using a steady_composer [of a] plain_cut(3) [of "cp_buffer (ui_composer (ap_ui a))"]
    by (intro fit_do composer_ok_reset composer_ok_push) (simp_all add: fit_steady composer_ok_def)
  moreover have "calm_step ?s (dispatch_command_line D ?b (set_mode Workspace ?s))"
      "calm_step ?s (push_action x (set_mode Workspace ?s))" for x
    by (intro calm)+
  ultimately have "fit (dispatch_command_line D ?b (set_mode Workspace ?s))" "fit (push_action x (set_mode Workspace ?s))" for x
    using calm_fit(1) by blast+
  then show ?thesis using a by (simp add: submit_composer_def Let_def)
qed

lemma message_command_plain:
  assumes "view_ok (ap_view a)" "message_edit_command a t = Some s"
  shows "plain_text s"
proof -
  have "plain_text (lit ''/comment edit #'')" "plain_text (lit ''/dm edit #'')"
    by (simp_all add: plain_text_def lit_def is_scalar_def is_whitespace_def)
  moreover have "plain_text (it_body m)" if "editable_item a t = Some m" for m
    using that assms(1) by (auto simp: editable_item_def view_ok_def list_all_iff find_Some_iff split: editable_message_target.splits)
  ultimately show ?thesis
    using assms(2) by (auto simp: message_edit_command_def plain_show_int plain_sigils split: option.splits editable_message_target.splits if_splits)
qed

lemma steady_calm: "steady a \<Longrightarrow> calm_step a b \<Longrightarrow> steady b" "fit a \<Longrightarrow> calm_step a b \<Longrightarrow> fit b"
  using calm_fit by blast+

lemma prefill_lands:
  assumes "fit a" "device_ok D"
  shows "lands fit (prefill_message_edit D t a)" "lands fit (prefill_last_own_comment_edit D a)" "lands fit (prefill_reaction_add D r a)"
proof -
  have s: "steady a" using assms(1) by (simp add: fit_def)
  have ws: "steady (set_mode Workspace (close_comment_overlays a))" by (rule steady_calm(1) [OF s]) (intro calm)
  have err: "fit (set_banner_err i m a)" for i m by (rule steady_calm(2) [OF assms(1)]) (intro calm)
  show edit: "lands fit (prefill_message_edit D t a)" for t
  proof (cases "message_edit_command a t")
    case (Some c)
    then have "plain_text c" using message_command_plain s by (auto simp: steady_def)
    from update_completions_lands [OF steady_set(1) [OF ws composer_ok_from [OF this]] assms(2)] Some
    show ?thesis by (simp add: prefill_message_edit_def)
  qed (simp add: prefill_message_edit_def err)
  show "lands fit (prefill_last_own_comment_edit D a)"
    using edit err by (simp add: prefill_last_own_comment_edit_def split: list.split)
  have "plain_text (lit ''/reaction add :'')" "plain_text (lit '' #'')"
    by (simp_all add: plain_text_def lit_def is_scalar_def is_whitespace_def)
  then have "composer_ok ((composer_from (lit ''/reaction add :'' @ s))\<lparr>cp_cursor := utf8_len (lit ''/reaction add :'')\<rparr>)"
    if "plain_text s" for s
    using composer_ok_from [of "lit ''/reaction add :'' @ s"] that by (simp add: composer_ok_def zip_of_def composer_from_def)
  moreover have "plain_text (case reaction_index r of None \<Rightarrow> [] | Some i \<Rightarrow> lit '' #'' @ show_int i)"
    using \<open>plain_text (lit '' #'')\<close> plain_show_int by (simp split: option.split)
  ultimately show "lands fit (prefill_reaction_add D r a)"
    unfolding prefill_reaction_add_def Let_def using ws assms(2) by (intro update_completions_lands steady_set(1)) auto
qed

section \<open>Keys\<close>

definition key_ok :: "key \<Rightarrow> bool" where
  "key_ok k \<longleftrightarrow> (case k of KChar c \<Rightarrow> plain_text [c] | KPaste s \<Rightarrow> plain_text s | KAltDown \<Rightarrow> False | _ \<Rightarrow> True)"

lemma sanitize_plain: "plain_text s \<Longrightarrow> plain_text (sanitize_composer_paste s)"
  by (auto simp: plain_text_def list_all_iff sanitize_composer_paste_def map_filter_def is_scalar_def)

lemma replace_plain: "plain_text s \<Longrightarrow> plain_text (replace_char c_nl c_space s)"
  by (auto simp: plain_text_def list_all_iff replace_char_def is_scalar_def)

lemma account_input_lands:
  assumes "fit a" "edit_plain e"
  shows "lands fit (with_account_input (edit_composer e) a)"
proof -
  let ?p = "ui_account (ap_ui a)"
  have "composer_ok (pg_username ?p)" "composer_ok (pg_display_name ?p)" using assms(1) by (simp_all add: fit_def steady_def page_ok_def)
  then have "lands composer_ok (edit_composer e (pg_username ?p))" "lands composer_ok (edit_composer e (pg_display_name ?p))"
    using edit_lands assms(2) by blast+
  then show ?thesis
    using assms(1) by (auto simp: with_account_input_def Let_def lands_def fit_def steady_def with_ui_def page_ok_def split: account_focus.split)
qed

lemmas account_inputs = account_input_lands [of _ "EInsert ch" for ch, unfolded edit_funs] account_input_lands [of _ "EInsertStr s" for s, unfolded edit_funs]
  account_input_lands [of _ EWordLeft, unfolded edit_funs] account_input_lands [of _ EWordRight, unfolded edit_funs]

lemma activate_focus_lands: "fit a \<Longrightarrow> device_ok D \<Longrightarrow> lands fit (activate_account_focus D a)"
proof -
  assume a: "fit a" "device_ok D"
  have "plain_text (lit ''/key label '')" by (simp add: plain_text_def lit_def is_scalar_def is_whitespace_def)
  moreover have "plain_text (take 8 (ks_id k))" if "get_at i (sn_ssh_keys (ap_view a)) = Some k" for i k
    using that a(1) by (auto simp: get_at_def fit_def steady_def view_ok_def list_all_iff split: if_splits)
  ultimately show ?thesis
    using a by (auto simp: activate_account_focus_def plain_sigils fit_steady intro!: enter_compose_lands steady_calm(2) [OF a(1)] calm
        split: account_focus.split option.split)
qed


lemma fit_calm: "fit a \<Longrightarrow> calm_step a b \<Longrightarrow> lands fit (Some b)" "steady a \<Longrightarrow> calm_step a b \<Longrightarrow> lands steady (Some b)"
  using steady_calm by simp_all

lemma account_key_lands:
  assumes "fit a" "device_ok D" "key_ok k"
  shows "lands (\<lambda>(_, b). fit b) (handle_account_key D k a)"
proof -
  have edits: "lands fit (with_account_input f a)" if "input_edit k = Some f" for f
    using that input_edit_edits account_input_lands [OF assms(1)] by metis
  have moves: "fit (move_account 1 a)" "fit (move_account (- 1) a)" "fit (reset_account_settings D a)"
    by (rule steady_calm(2) [OF assms(1)], intro calm)+
  show ?thesis
  proof (cases "input_edit k")
    case (Some f)
    then show ?thesis
      using edits [OF Some] moves fit_reset(1) [OF fit_steady [OF assms(1)]] activate_focus_lands [OF assms(1,2)]
      by (simp add: handle_account_key_def)
  next
    case None
    have "lands fit (with_account_input (insert_str (replace_char c_nl c_space (sanitize_composer_paste s))) a)" if "k = KPaste s" for s
      using account_inputs(2) [OF assms(1)] assms(3) that by (simp add: key_ok_def edit_plain_def sanitize_plain replace_plain)
    moreover have "lands fit (with_account_input (insert_char c) a)" if "k = KChar c" for c
      using account_inputs(1) [OF assms(1)] assms(3) that by (simp add: key_ok_def edit_plain_def)
    moreover have "lands fit (with_account_input move_word_left a)" "lands fit (with_account_input move_word_right a)"
      using account_inputs(3,4) [OF assms(1)] by (simp_all add: edit_plain_def)
    ultimately show ?thesis
      using None moves fit_reset(1) [OF fit_steady [OF assms(1)]] activate_focus_lands [OF assms(1,2)] assms(1)
      by (simp add: handle_account_key_def split: key.split)
  qed
qed

lemma leader_lands:
  assumes "fit a" "device_ok D" "leader_key D k a = Some r"
  shows "lands fit r"
proof -
  have s: "steady a" using assms(1) by (rule fit_steady)
  have "plain_text (lit ''/thread new '')" "plain_text (lit ''/dm open '')" "plain_text (lit ''/channel new '')"
    by (simp_all add: plain_text_def lit_def is_scalar_def is_whitespace_def)
  then have e: "lands fit (enter_compose D (lit ''/thread new '') a)" "lands fit (enter_compose D (lit ''/dm open '') a)"
    "lands fit (enter_compose D (lit ''/channel new '') a)" "lands fit (enter_compose D [] a)"
    using enter_compose_lands [OF s assms(2)] by simp_all
  have "lands fit (activate_selection D a)"
    using e(4) activate_focus_lands [OF assms(1,2)]
    by (auto simp: activate_selection_def Let_def intro!: steady_calm(2) [OF assms(1)] calm split: active_pane.split option.split)
  moreover have "fit (open_palette D a)" "fit (open_help D a)" "fit (set_mode ConfirmQuit a)" "fit (navigate_left a)"
    "fit (move_selection D n a)" "fit (navigate_right D a)" "fit (move_to_edge D x a)" "fit (toggle_threads a)"
    "fit (push_action y a)" "fit (cycle_notification_filter D a)" for n x y
    by (rule steady_calm(2) [OF assms(1)], intro calm)+
  ultimately show ?thesis using e assms(3) by (auto simp: leader_key_def split: if_splits)
qed

lemma history_offers: "previous_history c = Some (b, d) \<Longrightarrow> offers_ok c \<Longrightarrow> offers_ok d"
  by (auto simp: previous_history_def load_history_def offers_ok_def no_autocomplete_def split: if_splits option.splits)

lemma history_key_lands:
  assumes "fit a"
  shows "lands fit (edit_with (\<lambda>c. map_option snd (previous_history c)) a)"
proof -
  obtain b d where "previous_history (ui_composer (ap_ui a)) = Some (b, d)" "composer_ok d"
    using previous_history_lands [of "ui_composer (ap_ui a)"] steady_composer [OF fit_steady [OF assms]] by (auto simp: lands_def)
  moreover from this have "offers_ok d" using history_offers assms by (auto simp: fit_def)
  ultimately show ?thesis using fit_set [OF fit_steady [OF assms]] by (simp add: edit_with_def)
qed


text \<open>Where a key of the workspace leaves the interface: completions are up to date unless they are to be computed again.\<close>

definition settled :: "bool \<times> 's app \<Rightarrow> bool" where
  "settled x \<longleftrightarrow> (if fst x then steady (snd x) else fit (snd x))"

lemma lands_settled: "lands steady r \<Longrightarrow> lands settled (map_option (Pair True) r)" "lands fit r \<Longrightarrow> lands settled (map_option (Pair True) r)"
  "lands fit r \<Longrightarrow> lands settled (map_option (Pair False) r)"
  by (auto simp: lands_def settled_def fit_def)

lemma cycle_fit:
  "fit a \<Longrightarrow> fit (cycle_autocomplete autocomplete_next a)" "fit a \<Longrightarrow> fit (cycle_autocomplete autocomplete_previous a)"
  "fit a \<Longrightarrow> fit (cycle_autocomplete (\<lambda>ac. ac\<lparr>ac_selected := i\<rparr>) a)"
  by (simp_all add: cycle_autocomplete_def composer_do_def set_composer_def with_ui_def fit_def steady_def offers_ok_def
      spans_good_def autocomplete_next_def autocomplete_previous_def)

lemma workspace_key_lands:
  assumes "fit a" "device_ok D" "key_ok k"
  shows "lands settled (workspace_key D k a)"
proof -
  have s: "steady a" using assms(1) by (rule fit_steady)
  have accept: "lands fit (map_option snd (accept_autocomplete_selection D b a))" for b
    using accept_lands [OF assms(1,2), of b] by (auto simp: lands_def)
  have moves: "fit (open_palette D a)" "fit (toggle_workspace_detail D a)" "fit (move_selection D n a)" "fit (page_detail D x a)" for n x
    by (rule steady_calm(2) [OF assms(1)], intro calm)+
  note cycles = cycle_fit [OF assms(1)]
  show ?thesis
  proof (cases "k = KEsc \<or> ctrl_is ''p'' k \<or> leader_key D k a \<noteq> None \<or> leader_is ''eE'' k \<or> input_edit k \<noteq> None")
    case True
    have "lands settled (map_option (Pair True) (edit_with f a))" if "input_edit k = Some f" for f
      using that input_edit_edits edit_with_lands [OF s] lands_settled(1) by metis
    moreover have "lands settled (map_option (Pair True) r)" if "leader_key D k a = Some r" for r
      using leader_lands [OF assms(1,2) that] by (rule lands_settled(2))
    moreover have "lands settled (map_option (Pair False) (prefill_last_own_comment_edit D a))"
      using prefill_lands(2) [OF assms(1,2)] by (rule lands_settled(3))
    ultimately show ?thesis
      using True moves(1) fit_reset [OF s]
      by (cases "k = KEsc"; cases "ctrl_is ''p'' k"; cases "leader_key D k a"; cases "leader_is ''eE'' k"; cases "input_edit k")
        (simp_all add: workspace_key_def Let_def settled_def fit_steady del: lands_simps(3))
  next
    case False
    have enter: "lands settled (do { (accepted, b) \<leftarrow> accept_autocomplete_selection D False a;
        if accepted then map_option (Pair False) (Some b) else map_option (Pair True) (Some (submit_composer D b)) })"
      by (rule lands_bind [OF accept_lands [OF assms(1,2)]]) (auto simp: settled_def submit_fit fit_steady)
    have inserts: "lands steady (edit_with (insert_char c_nl) a)"
      "k = KPaste t \<Longrightarrow> lands steady (edit_with (insert_str (sanitize_composer_paste t)) a)"
      "k = KChar c \<Longrightarrow> lands steady (edit_with (insert_char c) a)" for t c
      using edits_with(1,2) [OF s] assms(3) by (simp_all add: key_ok_def edit_plain_def sanitize_plain plain_Cons is_scalar_def)
    have words: "lands steady (edit_with move_word_left a)" "lands steady (edit_with move_word_right a)"
      "lands steady (edit_with delete_word_before_cursor a)"
      using edits_with(3,4,5) [OF s] by (simp_all add: edit_plain_def)
    show ?thesis
      using False assms(3) enter accept moves cycles history_key_lands [OF assms(1)] inserts words s
      by (cases k) (simp_all add: workspace_key_def Let_def key_ok_def lands_settled settled_def fit_steady del: lands_simps(3))
  qed
qed


lemma handle_workspace_lands:
  assumes "fit a" "device_ok D" "key_ok k"
  shows "lands fit (handle_workspace_key D k a)"
proof -
  have key: "lands fit (do { (again, b) \<leftarrow> workspace_key D k b; if again then update_completions D b else Some b })" if "fit b" for b
    by (rule lands_bind [OF workspace_key_lands [OF that assms(2,3)]])
      (auto simp: settled_def update_completions_lands assms(2))
  have "lands (\<lambda>(_, b). fit b) (if ui_route (ap_ui a) = RAccount \<and> ui_active_pane (ap_ui a) = Detail
      then handle_account_key D k a else Some (False, a))"
    using account_key_lands [OF assms] assms(1) by simp
  then show ?thesis
    unfolding handle_workspace_key_def by (rule lands_bind) (auto simp: key split: prod.split)
qed

lemma palette_key_lands:
  assumes "fit a" "device_ok D"
  shows "lands fit (handle_palette_key D k a)"
proof -
  have "fit (set_mode Workspace a)" "fit (cycle_palette palette_next a)" "fit (cycle_palette palette_previous a)" "fit (edit_query D f a)" for f
    by (rule steady_calm(2) [OF assms(1)], intro calm)+
  then show ?thesis
    using palette_selection_lands [OF assms] assms(1) by (simp add: handle_palette_key_def split: key.split)
qed

lemma calm_keys [calm]:
  assumes "calm_step a b"
  shows "calm_step a (handle_help_key D k b)" "calm_step a (handle_confirm_quit_key k b)" "calm_step a (handle_comment_delete_key D k b)"
    "calm_step a (handle_modal_key D k b)"
  using assms by (auto simp: handle_help_key_def handle_confirm_quit_key_def handle_comment_delete_key_def handle_modal_key_def
      intro!: calm split: option.split)

lemma keyboard_lands:
  assumes "fit a" "device_ok D" "key_ok k"
  shows "lands fit (handle_keyboard D k a)"
proof -
  let ?a = "with_ui (\<lambda>u. u\<lparr>ui_selection := no_selection\<rparr>) a"
  have a: "fit ?a" by (rule steady_calm(2) [OF assms(1)]) (auto intro!: calm)
  have "fit (stop_running ?a)" "fit (handle_comment_delete_key D k ?a)" "fit (close_comment_overlays ?a)" "fit (handle_modal_key D k ?a)"
    "fit (handle_help_key D k ?a)" "fit (handle_confirm_quit_key k ?a)"
    by (rule steady_calm(2) [OF a], intro calm)+
  moreover have "ac_activated (ap_account ?a)" using a by (simp add: fit_def steady_def account_ok_def)
  ultimately show ?thesis
    using handle_workspace_lands [OF a assms(2,3)] palette_key_lands [OF a assms(2)]
    by (simp add: handle_keyboard_def Let_def split: ui_mode.split)
qed

section \<open>The mouse\<close>

lemma cursor_walk_boundary: "\<exists>k. cursor_walk w ln tc i l col s = i + utf8_len (take k s)"
proof (induction s arbitrary: i l col)
  case (Cons c s)
  have stop: "\<exists>k. i = i + utf8_len (take k (c # s))" by (rule exI [of _ 0]) simp
  have go: "\<exists>k. i + utf8_width c + utf8_len (take j s) = i + utf8_len (take k (c # s))" for j
    by (rule exI [of _ "Suc j"]) simp
  show ?case using Cons stop go by (auto simp: Let_def split: prod.split) (metis stop go)+
qed auto

lemma place_lands:
  assumes "steady a" "device_ok D"
  shows "lands fit (place_composer_cursor D r y m a)"
proof -
  have "composer_ok (c\<lparr>cp_cursor := cursor_for_display_position (cp_buffer c) w ln tc\<rparr>)" if "composer_ok c" for c w ln tc
  proof -
    obtain k where "cursor_for_display_position (cp_buffer c) w ln tc = utf8_len (take k (cp_buffer c))"
      using cursor_walk_boundary [of "max w 1" ln tc 0 0 0 "cp_buffer c"] by (auto simp: cursor_for_display_position_def)
    then show ?thesis
      using that split_bytes_at [of "take k (cp_buffer c)" "drop k (cp_buffer c)"] by (simp add: composer_ok_def zip_of_def)
  qed
  then show ?thesis
    unfolding place_composer_cursor_def Let_def composer_do_def using assms
    by (intro update_completions_lands steady_set(1)) (simp_all add: steady_composer)
qed

lemma calm_mouse [calm]:
  assumes "calm_step a b"
  shows "calm_step a (activate_result_at_mouse_position D m b)" "calm_step a (open_list_row i b)" "calm_step a (click_thread D t b)"
    "calm_step a (update_pointer_shape m b)" "calm_step a (start_mouse_click_or_selection m b)" "calm_step a (update_mouse_selection m b)"
    "calm_step a (open_comment_menu_at m b)"
  using assms by (auto simp: activate_result_at_mouse_position_def open_list_row_def click_thread_def update_pointer_shape_def
      start_mouse_click_or_selection_def update_mouse_selection_def open_comment_menu_at_def Let_def intro!: calm
      split: option.split hit_target.split)

lemma bottom_bar_lands:
  assumes "fit a" "device_ok D"
  shows "lands fit (run_bottom_bar_action D x a)"
proof -
  have "fit (open_help D a)" "fit (set_mode Workspace a)" "fit (stop_running a)"
    by (rule steady_calm(2) [OF assms(1)], intro calm)+
  moreover have "fit (toggle_workspace_detail D b)" if "fit b" for b by (rule steady_calm(2) [OF that]) (intro calm)
  then have "lands fit (do { (accepted, b) \<leftarrow> accept_autocomplete_selection D True a;
      Some (if accepted then b else toggle_workspace_detail D b) })"
    by (intro lands_bind [OF accept_lands [OF assms]]) auto
  ultimately show ?thesis
    using submit_fit [OF assms(1)] palette_selection_lands [OF assms] by (simp add: run_bottom_bar_action_def split: bottom_bar_action.split)
qed


lemma fit_funpow:
  fixes f :: "'s app \<Rightarrow> 's app"
  shows "(\<And>b. fit b \<Longrightarrow> fit (f b)) \<Longrightarrow> fit a \<Longrightarrow> fit ((f ^^ n) a)"
  by (induction n) auto

lemma scroll_fit: "fit a \<Longrightarrow> fit (handle_mouse_scroll D t n a)"
proof -
  assume a: "fit a"
  have "fit (move_workspace D n a)" "fit (move_detail D n a)" "fit ((cycle_palette palette_next ^^ i) a)"
    "fit ((cycle_palette palette_previous ^^ i) a)" "fit ((scroll_help g D ^^ i) a)" for i g
    by (auto intro!: steady_calm(2) [OF a] calm)
  moreover have "fit ((cycle_autocomplete autocomplete_next ^^ i) a)" "fit ((cycle_autocomplete autocomplete_previous ^^ i) a)" for i
    using a by (auto intro: fit_funpow cycle_fit)
  ultimately show ?thesis using a by (simp add: handle_mouse_scroll_def Let_def split: hit_target.split)
qed

lemma click_lands:
  assumes "fit a" "device_ok D"
  shows "lands fit (handle_mouse_click D r m a)"
proof -
  have accept: "lands (\<lambda>x. fit (snd x)) (accept_autocomplete_selection D True (cycle_autocomplete (\<lambda>ac. ac\<lparr>ac_selected := i\<rparr>) a))" for i
    using accept_lands [OF cycle_fit(3) [OF assms(1)] assms(2), of True i] by (simp add: split_def)
  have palette: "lands fit (run_palette_selection D (cycle_palette (\<lambda>p. p\<lparr>pl_selected := i\<rparr>) a))" for i
    by (rule palette_selection_lands [OF _ assms(2)]) (rule steady_calm(2) [OF assms(1)], intro calm)
  have pane: "fit (set_focus f (set_pane Detail a))" "fit (set_pane Detail a)" for f
    by (rule steady_calm(2) [OF assms(1)], intro calm)+
  note lands = accept palette pane activate_focus_lands [OF pane(1) assms(2)] prefill_lands(3) [OF pane(2) assms(2)]
    prefill_lands(1) [OF assms] place_lands [OF fit_steady [OF assms(1)] assms(2)] bottom_bar_lands [OF assms]
  show ?thesis
    unfolding handle_mouse_click_def Let_def
    by (cases "hr_target r") (simp_all add: lands, (auto intro!: steady_calm(2) [OF assms(1)] calm split: option.split)+)
qed

lemma mouse_lands:
  assumes "fit a" "device_ok D"
  shows "lands fit (handle_mouse D m a)"
proof -
  let ?a = "with_ui dismiss_startup_splash a"
  have a: "fit ?a" by (rule steady_calm(2) [OF assms(1)]) (auto simp: dismiss_startup_splash_def intro!: calm)
  have quiet: "fit (clear_selection ?a)" "fit (start_mouse_click_or_selection m ?a)" "fit (open_comment_menu_at m ?a)"
    "fit (update_mouse_selection m ?a)" "fit (update_pointer_shape m ?a)"
    by (rule steady_calm(2) [OF a], intro calm)+
  have "lands fit (handle_modal_mouse D m ?a)"
    using quiet(1) click_lands [OF quiet(1) assms(2)]
    by (simp add: handle_modal_mouse_def Let_def split: mouse_event_kind.split mouse_button.split option.split hit_target.split)
  moreover have "fit (scroll_at D m n ?a)" for n
    using quiet(1) scroll_fit [OF quiet(1)] by (simp add: scroll_at_def Let_def split: option.split)
  moreover have "lands fit (finish_mouse_click_or_selection D m ?a)"
  proof -
    have "fit (with_selection g (with_selection h ?a))" "fit (with_selection h ?a)" "fit (with_selection f (with_selection g (with_selection h ?a)))"
        "fit (clear_selection (with_selection g (with_selection h ?a)))" "fit (clear_selection (with_selection h ?a))" for f g h
      by (rule steady_calm(2) [OF a], intro calm)+
    then show ?thesis
      using a assms(2) by (auto simp: finish_mouse_click_or_selection_def Let_def intro!: click_lands split: option.split)
  qed
  ultimately show ?thesis
    using a quiet by (simp add: handle_mouse_def Let_def split: mouse_event_kind.split mouse_button.split)
qed

lemma key_lands:
  assumes "fit a" "device_ok D" "key_ok k"
  shows "lands fit (handle_key D k a)"
proof -
  have a: "fit (with_ui dismiss_startup_splash a)"
    by (rule steady_calm(2) [OF assms(1)]) (auto simp: dismiss_startup_splash_def intro!: calm)
  show ?thesis
    using keyboard_lands [OF a assms(2,3)] mouse_lands [OF a assms(2)] by (cases k) (simp_all add: handle_key_def Let_def)
qed

section \<open>Sessions\<close>

text \<open>What reaches the interface: an event of the terminal, or an account and a snapshot fetched again.\<close>

datatype session_event = Typed key | Refreshed account snapshot bool

fun session_run :: "'s device \<Rightarrow> session_event list \<Rightarrow> 's app \<Rightarrow> 's app option" where
  "session_run D [] a = Some a"
| "session_run D (Typed k # es) a =
     (case handle_key D k a of None \<Rightarrow> None | Some b \<Rightarrow> if ap_running b then session_run D es b else Some b)"
| "session_run D (Refreshed account sn enabled # es) a =
     (case apply_refresh D (refresh_inputs_of a) account sn enabled a of None \<Rightarrow> None | Some b \<Rightarrow> session_run D es b)"

definition event_ok :: "session_event \<Rightarrow> bool" where
  "event_ok e \<longleftrightarrow> (case e of Typed k \<Rightarrow> key_ok k | Refreshed account sn _ \<Rightarrow> account_ok account \<and> view_ok sn)"

lemma sync_route_parts [simp]:
  "ui_composer (sync_route_from_snapshot sn u) = ui_composer u" "ui_account (sync_route_from_snapshot sn u) = ui_account u"
  "ui_palette (sync_route_from_snapshot sn u) = ui_palette u"
  by (simp_all add: sync_route_from_snapshot_def split: option.split)

lemma view_of_ok: "view_ok (view_of sn) = view_ok sn"
  by (simp add: view_ok_def view_of_def snapshot.defs)

lemma new_app_fit: "account_ok account \<Longrightarrow> view_ok sn \<Longrightarrow> fit (new_app D account sn)"
  by (simp add: fit_def steady_def new_app_def new_ui_def account_ok_def page_ok_def palette_ok_def new_account_page_def no_palette_def
      view_of_ok offers_ok_def new_composer_def no_autocomplete_def show_startup_splash_def Let_def
      composer_ok_new [unfolded new_composer_def no_autocomplete_def])

lemma queue_calm [calm]: "calm_step a b \<Longrightarrow> calm_step a (queue_new_terminal_notifications e b)"
proof -
  assume b: "calm_step a b"
  have "calm_step a (fold (\<lambda>n x. x\<lparr>ap_terminal_notifications := f n x, ap_seen := g n x\<rparr>) ns b)" for f g ns
    using b
  proof (induction ns arbitrary: b)
    case (Cons n ns)
    have "calm_step a (b\<lparr>ap_terminal_notifications := f n b, ap_seen := g n b\<rparr>)"
      using Cons.prems by (simp add: calm_step_def steady_def)
    from Cons.IH [OF this] show ?case by simp
  qed simp
  then show ?thesis by (simp add: queue_new_terminal_notifications_def)
qed

lemma calm_pages [calm]: "calm_step a b \<Longrightarrow> calm_step a (clamp_notifications b)" "calm_step a b \<Longrightarrow> calm_step a (keep_page v b)"
  by (auto simp: clamp_notifications_def keep_page_def view_ok_def intro!: calm split: route.split)

lemma refresh_lands:
  assumes "fit a" "device_ok D" "account_ok account" "view_ok sn"
  shows "lands fit (apply_refresh D (refresh_inputs_of a) account sn enabled a)"
proof -
  let ?a = "a\<lparr>ap_account := account, ap_view := view_of sn\<rparr>"
  have a: "steady ?a" using assms by (simp add: fit_def steady_def view_of_ok)
  have "ac_activated (ap_account a)" using assms(1) by (simp add: fit_def steady_def account_ok_def)
  then show ?thesis
    unfolding apply_refresh_def Let_def
    by (auto simp: refresh_inputs_of_def fit_def steady_def intro!: lands_mono [OF update_completions_lands] assms(2)
        steady_calm(1) [OF a] calm)
qed



definition demo_device :: "nat device" where
  "demo_device =
     \<lparr>dv_completer = \<lparr>cm_env = demo_env, cm_now = 0, cm_lower_char = (\<lambda>c. [c]), cm_emojis = []\<rparr>,
      dv_scroller = \<lparr>sc_top = (\<lambda>_. 0), sc_bottom = (\<lambda>_. 9), sc_up = (\<lambda>n. n - 1), sc_down = Suc, sc_page_up = id, sc_page_down = id,
        sc_offset = (\<lambda>n. \<lparr>px = 0, py = n\<rparr>), sc_set_offset = (\<lambda>p _. py p), sc_default = 0\<rparr>,
      dv_now = 0\<rparr>"

definition demo_account :: "bool \<Rightarrow> account" where
  "demo_account activated = \<lparr>ac_id = lit ''a'', ac_username = lit ''ada'', ac_display_name = lit ''Ada'', ac_role = Member,
     ac_activated = activated, ac_pending_username = (if activated then None else Some (lit ''ada''))\<rparr>"

definition demo_click :: mouse_event where
  "demo_click = \<lparr>mo_kind = MouseDown MouseLeft, mo_column = 3, mo_row = 4,
     mo_modifiers = \<lparr>mm_shift = False, mm_alt = False, mm_control = False\<rparr>\<rparr>"


section \<open>Onboarding\<close>

definition onboarding :: "'s app \<Rightarrow> bool" where
  "onboarding a \<longleftrightarrow> \<not> ac_activated (ap_account a) \<and> zip_of (ui_composer (ap_ui a)) \<noteq> None
     \<and> list_all is_scalar (cp_buffer (ui_composer (ap_ui a))) \<and> ui_comment_delete (ap_ui a) = None \<and> ui_comment_menu (ap_ui a) = None
     \<and> (\<forall>b. ui_banner (ap_ui a) = Some b \<longrightarrow> bn_presentation b = Toast)
     \<and> (\<forall>x\<in>set (ap_actions a). \<exists>name. x = ACompleteOnboarding name \<and> name \<noteq> [] \<and> trim name = name)"

definition scalar_key :: "key \<Rightarrow> bool" where
  "scalar_key k \<longleftrightarrow> (case k of KChar c \<Rightarrow> is_scalar c | KPaste s \<Rightarrow> list_all is_scalar s | KMouse _ \<Rightarrow> False | _ \<Rightarrow> True)"

lemma sanitize_scalar: "list_all is_scalar s \<Longrightarrow> list_all is_scalar (sanitize_composer_paste s)"
  by (auto simp: list_all_iff sanitize_composer_paste_def map_filter_def is_scalar_def)

lemma onboarding_edit:
  assumes "onboarding a" "edit_ok e"
  shows "lands (\<lambda>b. onboarding b \<and> ap_view b = ap_view a) (edit_with (edit_composer e) a)"
proof -
  obtain p q where "zip_of (ui_composer (ap_ui a)) = Some (p, q)" using assms(1) by (auto simp: onboarding_def)
  from edit_refines [OF this _ assms(2)] assms(1)
  show ?thesis by (auto simp: onboarding_def lands_def edit_with_def set_composer_def with_ui_def)
qed

lemma onboarding_submit:
  assumes "onboarding a"
  shows "onboarding (submit_onboarding D a)" "ap_view (submit_onboarding D a) = ap_view a"
  using assms split_bytes_at [of "[]" "[]"]
  by (auto simp: onboarding_def submit_onboarding_def composer_do_def set_composer_def with_ui_def push_action_def set_banner_err_def
      banner_err_def reset_input_def start_def zip_of_def Let_def)

lemma onboarding_key:
  assumes "onboarding a" "scalar_key k"
  shows "lands (\<lambda>b. onboarding b \<and> ap_view b = ap_view a) (handle_key D k a)"
proof -
  let ?a = "with_ui (\<lambda>u. u\<lparr>ui_selection := no_selection\<rparr>) (with_ui dismiss_startup_splash a)"
  have a: "onboarding ?a" "ap_view ?a = ap_view a" using assms(1) by (simp_all add: onboarding_def with_ui_def dismiss_startup_splash_def)
  have stop: "onboarding (stop_running ?a)" "ap_view (stop_running ?a) = ap_view a" using a by (simp_all add: onboarding_def stop_running_def)
  have quiet: "\<not> banner_is_modal D ?a" "ui_comment_delete (ap_ui ?a) = None" "ui_comment_menu (ap_ui ?a) = None" "\<not> ac_activated (ap_account ?a)"
    using a(1) by (auto simp: onboarding_def banner_is_modal_def modal_active_def split: option.split)
  have "lands (\<lambda>b. onboarding b \<and> ap_view b = ap_view a) (edit_with f ?a)" if "input_edit k = Some f" for f
  proof -
    obtain e where "f = edit_composer e" "edit_plain e" using \<open>input_edit k = Some f\<close> by (rule input_edit_edits)
    moreover from this(2) have "edit_ok e" by (cases e) (auto simp: edit_plain_def edit_ok_def dest: plain_scalar)
    ultimately show ?thesis using onboarding_edit [OF a(1)] a(2) by metis
  qed
  moreover have "lands (\<lambda>b. onboarding b \<and> ap_view b = ap_view a) (edit_with (insert_char c) ?a)" if "k = KChar c" for c
    using onboarding_edit [OF a(1), of "EInsert c", unfolded edit_funs] assms(2) a(2) that by (simp add: scalar_key_def edit_ok_def)
  moreover have "lands (\<lambda>b. onboarding b \<and> ap_view b = ap_view a) (edit_with (insert_str (sanitize_composer_paste s)) ?a)" if "k = KPaste s" for s
    using onboarding_edit [OF a(1), of "EInsertStr (sanitize_composer_paste s)", unfolded edit_funs] assms(2) a(2) that
    by (simp add: scalar_key_def edit_ok_def sanitize_scalar)
  ultimately have "lands (\<lambda>b. onboarding b \<and> ap_view b = ap_view a) (handle_onboarding_key D k ?a)"
    using a onboarding_submit [OF a(1)]
    by (cases "input_edit k") (simp_all add: handle_onboarding_key_def split: key.split)
  then have "lands (\<lambda>b. onboarding b \<and> ap_view b = ap_view a) (handle_keyboard D k (with_ui dismiss_startup_splash a))"
    unfolding handle_keyboard_def Let_def using stop quiet by simp
  then show ?thesis using assms(2) by (cases k) (simp_all add: handle_key_def scalar_key_def)
qed

text \<open>
  Before it is set up an account can do one thing: whatever is typed, the handlers return, nothing of
  the server's view changes, and the only actions sent are requests to complete the setup, with a
  name that is not empty and has no space around it.
\<close>

theorem onboarding_confined:
  assumes "\<not> ac_activated account" "\<And>name. ac_pending_username account = Some name \<Longrightarrow> list_all is_scalar name" "list_all scalar_key ks"
  shows "\<exists>b. session_run D (map Typed ks) (new_app D account sn) = Some b \<and> ap_view b = view_of sn
    \<and> (\<forall>x\<in>set (ap_actions b). \<exists>name. x = ACompleteOnboarding name \<and> name \<noteq> [] \<and> trim name = name)"
proof -
  have "onboarding (new_app D account sn)"
    using assms(1,2) split_bytes_at [of "[]" "[]"] split_bytes_at [of _ "[]"]
    by (auto simp: onboarding_def new_app_def new_ui_def new_composer_def start_def zip_of_def sync_route_from_snapshot_def Let_def
        split: option.split)
  moreover have "ap_view (new_app D account sn) = view_of sn" by (simp add: new_app_def Let_def)
  moreover have "\<exists>b. session_run D (map Typed ks) a = Some b \<and> onboarding b \<and> ap_view b = ap_view a" if "onboarding a" for a
    using that assms(3)
  proof (induction ks arbitrary: a)
    case (Cons k ks)
    then obtain b where b: "handle_key D k a = Some b" "onboarding b" "ap_view b = ap_view a"
      using onboarding_key [of a k D] by (auto simp: lands_def)
    with Cons.IH [OF b(2)] Cons.prems(2) show ?case by simp
  qed simp
  ultimately obtain b where "session_run D (map Typed ks) (new_app D account sn) = Some b" "onboarding b" "ap_view b = view_of sn"
    by metis
  then show ?thesis by (simp add: onboarding_def)
qed

text \<open>Typing a name with a space before it, a control key, and sending it.\<close>

theorem onboarding_confined_witness:
  "\<exists>b. session_run demo_device (map Typed [KCtrl 117, KChar 32, KPaste (lit ''ada''), KAltDown, KEnter])
      (new_app demo_device (demo_account False) empty_snapshot) = Some b
    \<and> ap_view b = view_of empty_snapshot
    \<and> (\<forall>x\<in>set (ap_actions b). \<exists>name. x = ACompleteOnboarding name \<and> name \<noteq> [] \<and> trim name = name)"
  by (rule onboarding_confined) (auto simp: scalar_key_def is_scalar_def lit_def demo_account_def)

section \<open>Why Alt-Down is left out\<close>

lemma audit_command: "\<exists>spec. find_command (lit ''audit'') = Some spec \<and> cs_name spec = lit ''audit''"
  by (simp add: find_command_def command_specs_def is_command_def cmd_def)

lemma audit_subs: "subcommands_for (lit ''audit'') = AUDIT_SUBCOMMANDS"
  by (simp add: subcommands_for_def lit_def)

lemma no_prefix: "fuzzy_score lc s [] = Some 0"
  by (simp add: fuzzy_score_def trim_def trim_matches_def)

lemma audit_word: "\<exists>i. autocomplete C (lit ''/audit list'') 7 sn = Some \<lparr>ac_open = True, ac_items = [i], ac_selected = 0\<rparr>
   \<and> ai_start i = 7 \<and> ai_end i = 7 \<and> ai_accept_on_tab i \<and> ai_executor i = None"
proof -
  obtain spec where spec: "find_command (lit ''audit'') = Some spec" "cs_name spec = lit ''audit''" using audit_command by blast
  have parts: "bytes_to_space (lit ''/audit list'') = 6" "utf8_len (lit ''/audit list'') = 11" "take 1 (lit ''/audit list'') = [47]"
    "slice 1 6 (lit ''/audit list'') = Some (lit ''audit'')" "slice 7 7 (lit ''/audit list'') = Some []"
    "bytes_of_space [] = 0" "bytes_to_space [] = 0"
    by (simp_all add: slice_def edit_eval bytes_to_space_def bytes_of_space_def is_whitespace_def)
  show ?thesis
    using spec
    by (auto simp: autocomplete_def autocomplete_after_command_def Let_def parts spec audit_subs AUDIT_SUBCOMMANDS_def best_first_def
        List.map_filter_def completions_def no_prefix subcommand_completion_def simp del: One_nat_def)
qed

text \<open>An undisturbed workspace with a line editor.\<close>

definition desk :: "'s app \<Rightarrow> composer \<Rightarrow> bool" where
  "desk a c \<longleftrightarrow> ap_running a \<and> ac_activated (ap_account a) \<and> ui_mode (ap_ui a) = Workspace \<and> ui_comment_delete (ap_ui a) = None
     \<and> ui_comment_menu (ap_ui a) = None \<and> ui_banner (ap_ui a) = None \<and> ui_route (ap_ui a) \<noteq> RAccount \<and> ui_composer (ap_ui a) = c"

lemma desk_key:
  assumes "desk a c" "\<not> ctrl_is ''cd'' k" "\<And>m. k \<noteq> KMouse m"
  shows "\<exists>b. desk b c \<and> handle_key D k a = do { (again, d) \<leftarrow> workspace_key D k b; if again then update_completions D d else Some d }"
proof -
  let ?b = "with_ui (\<lambda>u. u\<lparr>ui_selection := no_selection\<rparr>) (with_ui dismiss_startup_splash a)"
  have "desk ?b c" using assms(1) by (auto simp: desk_def with_ui_def dismiss_startup_splash_def)
  moreover from this have "handle_key D k a = handle_workspace_key D k ?b"
    using assms(2,3) by (cases k) (auto simp: handle_key_def handle_keyboard_def Let_def desk_def banner_is_modal_def)
  moreover have "handle_workspace_key D k ?b = do { (again, d) \<leftarrow> workspace_key D k ?b; if again then update_completions D d else Some d }"
    using \<open>desk ?b c\<close> by (simp add: handle_workspace_key_def desk_def)
  ultimately show ?thesis by auto
qed

lemma desk_edited: "desk a c \<Longrightarrow> f c = Some d \<Longrightarrow> \<exists>b. edit_with f a = Some b \<and> desk b d"
  by (auto simp: edit_with_def desk_def set_composer_def with_ui_def)


lemma desk_running: "desk a c \<Longrightarrow> ap_running a"
  by (simp add: desk_def)

lemmas plain_key = workspace_key_def Let_def ctrl_is_def leader_is_def leader_key_def input_edit_def lit_def

text \<open>The line of the history with the cursor at its last word, and the draft under it.\<close>

definition browsing_audit :: "composer \<Rightarrow> composer" where
  "browsing_audit c = c\<lparr>cp_draft := Some [], cp_position := Some 0, cp_buffer := lit ''/audit list'', cp_cursor := 7,
     cp_autocomplete := no_autocomplete\<rparr>"

lemma audit_back: "move_word_left (c\<lparr>cp_draft := Some [], cp_position := Some 0, cp_buffer := lit ''/audit list'', cp_cursor := 11,
     cp_autocomplete := no_autocomplete\<rparr>) = Some (browsing_audit c)"
  by (simp add: move_word_left_def skip_left.simps move_left_def whitespace_at_def browsing_audit_def bytes_of_def encode_utf8_def split_bytes_def take_bytes_eval
      utf8_width_def last_index_def lit_def is_whitespace_def)

lemma history_up:
  assumes "desk a c" "cp_history c = [lit ''/audit list'']" "cp_position c = None" "cp_buffer c = []"
  shows "\<exists>b. handle_key D KAltUp a = Some b \<and> desk b (c\<lparr>cp_draft := Some [], cp_position := Some 0,
    cp_buffer := lit ''/audit list'', cp_cursor := 11, cp_autocomplete := no_autocomplete\<rparr>)"
proof -
  obtain b where b: "desk b c" "handle_key D KAltUp a = do { (again, d) \<leftarrow> workspace_key D KAltUp b; if again then update_completions D d else Some d }"
    using desk_key [OF assms(1), of KAltUp] by (auto simp: ctrl_is_def)
  have "map_option snd (previous_history c) = Some (c\<lparr>cp_draft := Some [], cp_position := Some 0,
    cp_buffer := lit ''/audit list'', cp_cursor := 11, cp_autocomplete := no_autocomplete\<rparr>)"
    using assms(2-4) by (simp add: previous_history_def load_history_def lit_def utf8_width_def)
  from desk_edited [of b c "\<lambda>c. map_option snd (previous_history c)", OF b(1) this] show ?thesis
    unfolding b(2) by (auto simp: plain_key)
qed

lemma history_word:
  assumes "desk a (c\<lparr>cp_draft := Some [], cp_position := Some 0, cp_buffer := lit ''/audit list'', cp_cursor := 11,
     cp_autocomplete := no_autocomplete\<rparr>)" (is "desk a ?c")
  shows "\<exists>b i. handle_key D (KAlt 98) a = Some b \<and> ai_start i = 7 \<and> ai_end i = 7 \<and> ai_accept_on_tab i \<and> ai_executor i = None
    \<and> desk b ((browsing_audit c)\<lparr>cp_autocomplete := \<lparr>ac_open = True, ac_items = [i], ac_selected = 0\<rparr>\<rparr>)"
proof -
  obtain b where b: "desk b ?c" "handle_key D (KAlt 98) a = do { (again, d) \<leftarrow> workspace_key D (KAlt 98) b; if again then update_completions D d else Some d }"
    using desk_key [OF assms(1), of "KAlt 98"] by (auto simp: ctrl_is_def)
  obtain d where d: "edit_with move_word_left b = Some d" "desk d (browsing_audit c)"
    using desk_edited [of b ?c move_word_left, OF b(1) audit_back] by blast
  obtain i where i: "autocomplete (dv_completer D) (lit ''/audit list'') 7 (ap_view d) = Some \<lparr>ac_open = True, ac_items = [i], ac_selected = 0\<rparr>"
    "ai_start i = 7" "ai_end i = 7" "ai_accept_on_tab i" "ai_executor i = None"
    using audit_word by blast
  have "workspace_key D (KAlt 98) b = Some (True, d)" using d(1) by (simp add: plain_key)
  moreover have "\<exists>e. update_completions D d = Some e \<and> desk e ((browsing_audit c)\<lparr>cp_autocomplete := \<lparr>ac_open = True, ac_items = [i], ac_selected = 0\<rparr>\<rparr>)"
    using d(2) i(1) by (simp add: update_completions_def desk_def with_ui_def browsing_audit_def)
  ultimately show ?thesis using i(2-5) unfolding b(2) by auto
qed

lemma history_down:
  assumes "desk a ((browsing_audit c)\<lparr>cp_autocomplete := ac\<rparr>)" "cp_history c = [lit ''/audit list'']"
  shows "\<exists>b e. handle_key D KAltDown a = Some b \<and> desk b e \<and> cp_buffer e = [] \<and> cp_autocomplete e = ac"
proof -
  let ?c = "(browsing_audit c)\<lparr>cp_autocomplete := ac\<rparr>"
  obtain b where b: "desk b ?c" "handle_key D KAltDown a = do { (again, d) \<leftarrow> workspace_key D KAltDown b; if again then update_completions D d else Some d }"
    using desk_key [OF assms(1), of KAltDown] by (auto simp: ctrl_is_def)
  obtain e where e: "map_option snd (next_history ?c) = Some e" "cp_buffer e = []" "cp_autocomplete e = ac"
    using assms(2) by (simp add: next_history_def browsing_audit_def)
  from desk_edited [of b ?c "\<lambda>c. map_option snd (next_history c)", OF b(1) e(1)] e(2,3) show ?thesis
    unfolding b(2) by (auto simp: plain_key)
qed

lemma stale_tab:
  assumes "desk a e" "cp_buffer e = []" "cp_autocomplete e = \<lparr>ac_open = True, ac_items = [i], ac_selected = 0\<rparr>"
    and "ai_start i = 7" "ai_end i = 7" "ai_accept_on_tab i" "ai_executor i = None"
  shows "handle_key D KTab a = None"
proof -
  obtain b where b: "desk b e" "handle_key D KTab a = do { (again, d) \<leftarrow> workspace_key D KTab b; if again then update_completions D d else Some d }"
    using desk_key [OF assms(1), of KTab] by (auto simp: ctrl_is_def)
  have "replace_range 7 7 t e = None" for t
    using assms(2) by (simp add: replace_range_def Let_def cancel_history_navigation_def split_bytes_def take_bytes_eval)
  then have "accept_autocomplete_selection D True b = None"
    using b(1) assms(3-7) by (simp add: accept_autocomplete_selection_def Let_def desk_def get_at_def edit_with_def)
  then have "workspace_key D KTab b = None"
    using b(1) assms(3) by (simp add: plain_key autocomplete_open_def desk_def)
  then show ?thesis unfolding b(2) by simp
qed

text \<open>
  After a line of the history was completed, Alt-Down brings the draft back and leaves the
  completions of the other line open: the Tab that follows replaces bytes past the end of the draft
  and panics. A session in the workspace with one line in its history and an empty draft gets there
  by four keys.
\<close>

theorem history_panics:
  assumes "desk a c" "cp_history c = [lit ''/audit list'']" "cp_position c = None" "cp_buffer c = []"
  shows "\<exists>b. session_run D (map Typed [KAltUp, KAlt 98, KAltDown]) a = Some b \<and> handle_key D KTab b = None"
proof -
  obtain b where b: "handle_key D KAltUp a = Some b" "desk b (c\<lparr>cp_draft := Some [], cp_position := Some 0,
    cp_buffer := lit ''/audit list'', cp_cursor := 11, cp_autocomplete := no_autocomplete\<rparr>)"
    using history_up [OF assms] by blast
  obtain d i where d: "handle_key D (KAlt 98) b = Some d" "ai_start i = 7" "ai_end i = 7" "ai_accept_on_tab i" "ai_executor i = None"
    "desk d ((browsing_audit c)\<lparr>cp_autocomplete := \<lparr>ac_open = True, ac_items = [i], ac_selected = 0\<rparr>\<rparr>)"
    using history_word [OF b(2)] by blast
  obtain e f where e: "handle_key D KAltDown d = Some e" "desk e f" "cp_buffer f = []"
    "cp_autocomplete f = \<lparr>ac_open = True, ac_items = [i], ac_selected = 0\<rparr>"
    using history_down [OF d(6) assms(2)] by blast
  show ?thesis
    using b d(1) e(1) stale_tab [OF e(2-4) d(2-5)] desk_running [OF b(2)] desk_running [OF d(6)] desk_running [OF e(2)] by simp
qed

end
