(* ===== verification/Pipeline.thy ===== *)
theory Pipeline
  imports Sessions
begin

text \<open>
  How input gets from the connection to the interface (\<open>data\<close> and \<open>decode_input_to_queues\<close> of
  \<open>ssh/session.rs\<close>, the first half of \<open>render_once\<close> of \<open>ssh/render_loop.rs\<close>): packets wait in a queue
  for the decoding task, which puts the turns of the wheel into one queue, dropping them when it is
  full, and everything else into another, waiting for room; each frame takes a bounded number from both.
\<close>

section \<open>The queues\<close>

definition input_queue_cap :: nat where
  "input_queue_cap = 256"

definition key_queue_cap :: nat where
  "key_queue_cap = 1024"

definition wheel_queue_cap :: nat where
  "wheel_queue_cap = 128"

definition max_keys_per_frame :: nat where
  "max_keys_per_frame = 128"

definition max_wheel_events_per_frame :: nat where
  "max_wheel_events_per_frame = 128"

lemmas caps = input_queue_cap_def key_queue_cap_def wheel_queue_cap_def max_keys_per_frame_def
  max_wheel_events_per_frame_def

text \<open>\<open>pi_decoded\<close>: the keys of the packet that the decoding task is handing on.\<close>

record pipeline =
  pi_packets :: "byte list list"
  pi_decoder :: input_decoder
  pi_decoded :: "key list"
  pi_keys :: "key list"
  pi_wheel :: "mouse_event list"

definition new_pipeline :: pipeline where
  "new_pipeline = \<lparr>pi_packets = [], pi_decoder = new_decoder, pi_decoded = [], pi_keys = [], pi_wheel = []\<rparr>"

definition is_mouse_wheel :: "mouse_event_kind \<Rightarrow> bool" where
  "is_mouse_wheel k \<longleftrightarrow> k = ScrollUp \<or> k = ScrollDown \<or> k = ScrollLeft \<or> k = ScrollRight"

fun wheel_of :: "key \<Rightarrow> mouse_event option" where
  "wheel_of (KMouse m) = (if is_mouse_wheel (mo_kind m) then Some m else None)"
| "wheel_of _ = None"

text \<open>A packet waits for room for a while; one that still finds the queue full is dropped.\<close>

definition send_input_bytes :: "byte list \<Rightarrow> pipeline \<Rightarrow> bool \<times> pipeline" where
  "send_input_bytes bytes p =
     (if length (pi_packets p) < input_queue_cap then (True, p\<lparr>pi_packets := pi_packets p @ [bytes]\<rparr>) else (False, p))"

text \<open>A turn of the decoding task: it hands a key on or, when it has none left, takes a packet.\<close>

definition decode_step :: "pipeline \<Rightarrow> pipeline" where
  "decode_step p =
     (case pi_decoded p of
        [] \<Rightarrow>
          (case pi_packets p of [] \<Rightarrow> p
           | bytes # packets \<Rightarrow>
               let (d, ks) = push (pi_decoder p) bytes
               in p\<lparr>pi_packets := packets, pi_decoder := d, pi_decoded := ks\<rparr>)
      | k # ks \<Rightarrow>
          (case wheel_of k of
             Some m \<Rightarrow>
               p\<lparr>pi_decoded := ks,
                 pi_wheel := (if length (pi_wheel p) < wheel_queue_cap then pi_wheel p @ [m] else pi_wheel p)\<rparr>
           | None \<Rightarrow>
               if length (pi_keys p) < key_queue_cap then p\<lparr>pi_decoded := ks, pi_keys := pi_keys p @ [k]\<rparr> else p))"

section \<open>The input of a frame\<close>

text \<open>What is left of a queue after at most \<open>n\<close> of it; a key that ends the session is the last one.\<close>

fun drain_keys :: "'s device \<Rightarrow> nat \<Rightarrow> key list \<Rightarrow> 's app \<Rightarrow> (key list \<times> 's app) option" where
  "drain_keys D 0 ks a = Some (ks, a)"
| "drain_keys D (Suc n) [] a = Some ([], a)"
| "drain_keys D (Suc n) (k # ks) a =
     (case handle_key D k a of None \<Rightarrow> None
      | Some a \<Rightarrow> if ap_running a then drain_keys D n ks a else Some (ks, a))"

fun drain_wheel :: "'s device \<Rightarrow> nat \<Rightarrow> mouse_event list \<Rightarrow> 's app \<Rightarrow> (mouse_event list \<times> 's app) option" where
  "drain_wheel D 0 ms a = Some (ms, a)"
| "drain_wheel D (Suc n) [] a = Some ([], a)"
| "drain_wheel D (Suc n) (m # ms) a =
     (if ap_running a then (case handle_mouse D m a of None \<Rightarrow> None | Some a \<Rightarrow> drain_wheel D n ms a)
      else Some (m # ms, a))"

text \<open>Whether a queue gave as much as a frame takes, so that another frame is asked for.\<close>

definition frame_input :: "'s device \<Rightarrow> pipeline \<Rightarrow> 's app \<Rightarrow> (bool \<times> pipeline \<times> 's app) option" where
  "frame_input D p a =
     (case drain_keys D max_keys_per_frame (pi_keys p) a of None \<Rightarrow> None
      | Some (keys, a) \<Rightarrow>
     (case drain_wheel D max_wheel_events_per_frame (pi_wheel p) a of None \<Rightarrow> None
      | Some (wheel, a) \<Rightarrow>
          Some (length (pi_keys p) - length keys = max_keys_per_frame
                  \<or> length (pi_wheel p) - length wheel = max_wheel_events_per_frame,
                p\<lparr>pi_keys := keys, pi_wheel := wheel\<rparr>, a)))"

section \<open>Runs\<close>

text \<open>
  A session's input and interface, with what was let in and what was handled so far. A frame also
  does what it does besides taking input: actions, a refresh, drawing. A session that has ended
  draws no more frames.
\<close>

record 's seat =
  se_pipeline :: pipeline
  se_app :: "'s app"
  se_accepted :: "byte list list"
  se_handled :: "key list"

definition new_seat :: "'s app \<Rightarrow> 's seat" where
  "new_seat a = \<lparr>se_pipeline = new_pipeline, se_app = a, se_accepted = [], se_handled = []\<rparr>"

datatype 's input_event = Data "byte list" | Decode | Frame "'s device" "'s app \<Rightarrow> 's app option"

definition data_arrives :: "byte list \<Rightarrow> 's seat \<Rightarrow> 's seat" where
  "data_arrives bytes s =
     (let (taken, p) = send_input_bytes bytes (se_pipeline s)
      in s\<lparr>se_pipeline := p, se_accepted := se_accepted s @ (if taken then [bytes] else [])\<rparr>)"

definition frame_taken :: "'s device \<Rightarrow> ('s app \<Rightarrow> 's app option) \<Rightarrow> 's seat \<Rightarrow> 's seat option" where
  "frame_taken D rest s =
     (if \<not> ap_running (se_app s) then Some s
      else case frame_input D (se_pipeline s) (se_app s) of None \<Rightarrow> None
      | Some (_, p, a) \<Rightarrow>
          let s = s\<lparr>se_pipeline := p, se_handled := se_handled s
                @ take (length (pi_keys (se_pipeline s)) - length (pi_keys p)) (pi_keys (se_pipeline s))\<rparr>
          in map_option (\<lambda>a. s\<lparr>se_app := a\<rparr>) (if ap_running a then rest a else Some a))"

fun input_run :: "'s input_event list \<Rightarrow> 's seat \<Rightarrow> 's seat option" where
  "input_run [] s = Some s"
| "input_run (Data bytes # es) s = input_run es (data_arrives bytes s)"
| "input_run (Decode # es) s = input_run es (s\<lparr>se_pipeline := decode_step (se_pipeline s)\<rparr>)"
| "input_run (Frame D rest # es) s = (case frame_taken D rest s of None \<Rightarrow> None | Some s \<Rightarrow> input_run es s)"

section \<open>What is on its way\<close>

definition coming :: "pipeline \<Rightarrow> key list" where
  "coming p = pi_decoded p @ snd (push_all (pi_decoder p) (pi_packets p))"

definition no_wheel :: "key list \<Rightarrow> key list" where
  "no_wheel = filter (\<lambda>k. wheel_of k = None)"

lemma no_wheel_simps [simp]:
  "no_wheel [] = []" "no_wheel (xs @ ys) = no_wheel xs @ no_wheel ys"
  "no_wheel (k # ks) = (if wheel_of k = None then k # no_wheel ks else no_wheel ks)"
  by (simp_all add: no_wheel_def)

lemma push_all_append: "push_all d (xs @ ys) =
    (case push_all d xs of (d, ks) \<Rightarrow> case push_all d ys of (d, ks') \<Rightarrow> (d, ks @ ks'))"
  by (induction xs arbitrary: d) (auto split: prod.splits)

text \<open>Every key that is no turn of the wheel is handled, queued, or coming, in this order.\<close>

definition in_order :: "'s seat \<Rightarrow> bool" where
  "in_order s \<longleftrightarrow> no_wheel (snd (push_all new_decoder (se_accepted s))) =
     se_handled s @ pi_keys (se_pipeline s) @ no_wheel (coming (se_pipeline s))
   \<and> fst (push_all new_decoder (se_accepted s)) = fst (push_all (pi_decoder (se_pipeline s)) (pi_packets (se_pipeline s)))"

lemma in_order_new: "in_order (new_seat a)"
  by (simp add: in_order_def new_seat_def new_pipeline_def coming_def)

lemma in_order_data: "in_order s \<Longrightarrow> in_order (data_arrives bytes s)"
  by (auto simp: in_order_def data_arrives_def send_input_bytes_def coming_def push_all_append split: prod.splits)

lemma coming_decode:
  "no_wheel (pi_keys (decode_step p) @ coming (decode_step p)) = no_wheel (pi_keys p @ coming p)"
  "fst (push_all (pi_decoder (decode_step p)) (pi_packets (decode_step p))) = fst (push_all (pi_decoder p) (pi_packets p))"
  by (auto simp: decode_step_def coming_def Let_def split: list.splits option.splits prod.splits)

text \<open>The queue holds no turns of the wheel.\<close>

definition wheel_apart :: "pipeline \<Rightarrow> bool" where
  "wheel_apart p \<longleftrightarrow> list_all (\<lambda>k. wheel_of k = None) (pi_keys p)"

lemma no_wheel_apart: "wheel_apart p \<Longrightarrow> no_wheel (pi_keys p) = pi_keys p"
  by (simp add: wheel_apart_def no_wheel_def filter_id_conv list_all_iff)

lemma wheel_apart_decode: "wheel_apart p \<Longrightarrow> wheel_apart (decode_step p)"
  by (auto simp: wheel_apart_def decode_step_def Let_def split: list.splits option.splits prod.splits)

lemma in_order_decode:
  "in_order s \<Longrightarrow> wheel_apart (se_pipeline s) \<Longrightarrow> in_order (s\<lparr>se_pipeline := decode_step (se_pipeline s)\<rparr>)"
  using coming_decode [of "se_pipeline s"] wheel_apart_decode [of "se_pipeline s"]
  by (simp add: in_order_def no_wheel_apart)

lemma drain_keys_suffix: "drain_keys D n ks a = Some (rest, b) \<Longrightarrow> \<exists>taken. ks = taken @ rest \<and> length taken \<le> n"
proof (induction D n ks a rule: drain_keys.induct)
  case (3 D n k ks a)
  show ?case
  proof (cases "handle_key D k a")
    case (Some c)
    show ?thesis
    proof (cases "ap_running c")
      case True
      from 3(1) [OF Some True] 3(2) obtain taken where "ks = taken @ rest" "length taken \<le> n" by (auto simp: Some True)
      then show ?thesis by (intro exI [of _ "k # taken"]) simp
    next
      case False
      with 3(2) show ?thesis by (intro exI [of _ "[k]"]) (simp add: Some)
    qed
  qed (use 3(2) in simp)
qed simp_all

lemma frame_input_parts:
  assumes "frame_input D p a = Some (d, q, b)"
  shows "\<exists>taken. pi_keys p = taken @ pi_keys q" "coming q = coming p"
    "pi_decoder q = pi_decoder p" "pi_packets q = pi_packets p" "pi_decoded q = pi_decoded p"
  using assms by (auto simp: frame_input_def coming_def dest!: drain_keys_suffix split: option.splits)

lemma in_order_frame:
  assumes "in_order s" "wheel_apart (se_pipeline s)" "frame_taken D f s = Some t"
  shows "in_order t \<and> wheel_apart (se_pipeline t) \<and> se_accepted t = se_accepted s"
proof (cases "ap_running (se_app s)")
  case True
  with assms(3) obtain d q b where q: "frame_input D (se_pipeline s) (se_app s) = Some (d, q, b)"
    by (auto simp: frame_taken_def split: option.splits)
  from frame_input_parts [OF q] obtain taken where taken: "pi_keys (se_pipeline s) = taken @ pi_keys q" by blast
  have t: "se_pipeline t = q" "se_accepted t = se_accepted s" "se_handled t = se_handled s @ taken"
    using assms(3) True q by (auto simp: frame_taken_def taken Let_def)
  show ?thesis
    using assms(1,2) frame_input_parts(2-5) [OF q] by (auto simp: in_order_def wheel_apart_def t taken)
qed (use assms in \<open>simp add: frame_taken_def\<close>)

lemma wheel_apart_data: "wheel_apart (se_pipeline (data_arrives bytes s)) = wheel_apart (se_pipeline s)"
  by (simp add: data_arrives_def send_input_bytes_def wheel_apart_def)

lemma in_order_run:
  assumes "input_run es s = Some t" "in_order s" "wheel_apart (se_pipeline s)"
  shows "in_order t"
  using assms
proof (induction es s rule: input_run.induct)
  case (4 D f es s)
  then obtain u where "frame_taken D f s = Some u" "input_run es u = Some t" by (auto split: option.splits)
  with 4 in_order_frame show ?case by blast
qed (simp_all add: in_order_data in_order_decode wheel_apart_decode wheel_apart_data)


section \<open>Progress\<close>

text \<open>What is left to do: a packet to take, a key to hand on and then to handle, an event to handle.\<close>

definition left_over :: "pipeline \<Rightarrow> nat" where
  "left_over p = length (pi_packets p) + 2 * length (coming p) + length (pi_keys p) + length (pi_wheel p)"

definition queued :: "pipeline \<Rightarrow> bool" where
  "queued p \<longleftrightarrow> pi_keys p \<noteq> [] \<or> pi_wheel p \<noteq> []"

lemma decode_progress:
  "left_over (decode_step p) \<le> left_over p"
  "left_over p \<noteq> 0 \<Longrightarrow> left_over (decode_step p) < left_over p \<or> queued p"
  "queued p \<Longrightarrow> queued (decode_step p)"
  by (auto simp: left_over_def queued_def decode_step_def coming_def key_queue_cap_def wheel_queue_cap_def Let_def
      split: list.splits option.splits prod.splits if_splits)

lemma drain_wheel_suffix: "drain_wheel D n ms a = Some (rest, b) \<Longrightarrow> length rest \<le> length ms"
  by (induction D n ms a rule: drain_wheel.induct) (auto split: if_splits option.splits)

lemma drain_keys_some: "drain_keys D (Suc n) ks a = Some (rest, b) \<Longrightarrow> ks \<noteq> [] \<Longrightarrow> length rest < length ks"
  by (cases ks) (auto dest!: drain_keys_suffix split: option.splits if_splits)

lemma drain_wheel_some:
  "drain_wheel D (Suc n) ms a = Some (rest, b) \<Longrightarrow> ms \<noteq> [] \<Longrightarrow> ap_running a \<Longrightarrow> length rest < length ms"
  by (cases ms) (auto dest!: drain_wheel_suffix split: option.splits)

lemma frame_progress:
  assumes "frame_input D p a = Some (d, q, b)" "ap_running b"
  shows "left_over q \<le> left_over p \<and> (queued p \<longrightarrow> left_over q < left_over p)"
proof -
  have stopped: "drain_wheel D n ms c = Some (rest, e) \<Longrightarrow> \<not> ap_running c \<Longrightarrow> e = c" for n ms c rest e
    by (cases "(D, n, ms, c)" rule: drain_wheel.cases) auto
  obtain ks c where c: "drain_keys D max_keys_per_frame (pi_keys p) a = Some (ks, c)"
    using assms(1) by (auto simp: frame_input_def split: option.splits)
  then obtain ms where ms: "drain_wheel D max_wheel_events_per_frame (pi_wheel p) c = Some (ms, b)"
    and q: "q = p\<lparr>pi_keys := ks, pi_wheel := ms\<rparr>"
    using assms(1) by (auto simp: frame_input_def split: option.splits)
  have run: "ap_running c" using stopped [OF ms] assms(2) by auto
  have caps: "max_keys_per_frame = Suc 127" "max_wheel_events_per_frame = Suc 127" by (simp_all add: caps)
  have "length ks \<le> length (pi_keys p)" "length ms \<le> length (pi_wheel p)"
    using drain_keys_suffix [OF c] drain_wheel_suffix [OF ms] by auto
  moreover have "pi_keys p \<noteq> [] \<Longrightarrow> length ks < length (pi_keys p)"
    using drain_keys_some [OF c [unfolded caps]] by blast
  moreover have "pi_wheel p \<noteq> [] \<Longrightarrow> length ms < length (pi_wheel p)"
    using drain_wheel_some [OF ms [unfolded caps]] run by blast
  ultimately show ?thesis
    by (auto simp: left_over_def queued_def coming_def q)
qed

text \<open>How often a turn of the decoding task is followed by a frame.\<close>

fun rounds :: "bool \<Rightarrow> 's input_event list \<Rightarrow> nat" where
  "rounds b [] = 0"
| "rounds b (Data _ # es) = rounds b es"
| "rounds b (Decode # es) = rounds True es"
| "rounds b (Frame _ _ # es) = (if b then Suc (rounds False es) else rounds False es)"

text \<open>Frames and the rest of their work that keep a session's interface in order.\<close>

definition frame_ok :: "'s input_event \<Rightarrow> bool" where
  "frame_ok e \<longleftrightarrow> (case e of Data _ \<Rightarrow> False | Decode \<Rightarrow> True
     | Frame D rest \<Rightarrow> device_ok D \<and> (\<forall>a. fit a \<longrightarrow> lands fit (rest a)))"

lemma drain_keys_lands:
  assumes "fit a" "device_ok D" "list_all key_ok ks"
  shows "lands (\<lambda>(rest, b). fit b) (drain_keys D n ks a)"
  using assms
proof (induction D n ks a rule: drain_keys.induct)
  case (3 D n k ks a)
  obtain b where "handle_key D k a = Some b" "fit b"
    using key_lands [OF 3(2,3), of k] 3(4) by (auto simp: lands_def)
  then show ?case using 3 by (auto simp: lands_def)
qed (simp_all add: lands_def)

lemma drain_wheel_lands:
  assumes "fit a" "device_ok D"
  shows "lands (\<lambda>(rest, b). fit b) (drain_wheel D n ms a)"
  using assms
proof (induction D n ms a rule: drain_wheel.induct)
  case (3 D n m ms a)
  obtain b where "handle_mouse D m a = Some b" "fit b"
    using mouse_lands [OF 3(2,3), of m] by (auto simp: lands_def)
  then show ?case using 3 by (auto simp: lands_def)
qed (simp_all add: lands_def)

lemma frame_input_lands:
  assumes "fit a" "device_ok D" "list_all key_ok (pi_keys p)"
  shows "lands (\<lambda>(d, q, b). fit b) (frame_input D p a)"
  using drain_keys_lands [OF assms, of max_keys_per_frame] drain_wheel_lands [OF _ assms(2), of _ max_wheel_events_per_frame "pi_wheel p"]
  by (fastforce simp: frame_input_def lands_def split: prod.splits)

definition keys_fine :: "pipeline \<Rightarrow> bool" where
  "keys_fine p \<longleftrightarrow> list_all key_ok (pi_keys p @ coming p)"

lemma keys_fine_decode: "keys_fine p \<Longrightarrow> keys_fine (decode_step p)"
  by (auto simp: keys_fine_def decode_step_def coming_def Let_def split: list.splits option.splits prod.splits)

lemma keys_fine_frame: "frame_input D p a = Some (d, q, b) \<Longrightarrow> keys_fine p \<Longrightarrow> keys_fine q"
  using frame_input_parts(1,2) by (fastforce simp: keys_fine_def)

text \<open>Enough rounds: one more when a turn of the decoding task is owed to the work it has already done.\<close>

definition enough :: "bool \<Rightarrow> pipeline \<Rightarrow> nat \<Rightarrow> bool" where
  "enough b p n \<longleftrightarrow> left_over p = 0 \<or> (if b \<and> \<not> queued p then Suc (left_over p) \<le> n else left_over p \<le> n)"

lemma enough_decode: "enough b p n \<Longrightarrow> enough True (decode_step p) n"
  using decode_progress [of p] by (cases "left_over p = 0"; cases "queued p") (auto simp: enough_def split: if_splits)

lemma enough_frame:
  assumes "enough b p (if b then Suc n else n)" "frame_input D p a = Some (d, q, c)" "ap_running c"
  shows "enough False q n"
  using assms(1) frame_progress [OF assms(2,3)] by (auto simp: enough_def split: if_splits)


text \<open>Two letters to hand on, and a turn of the wheel that waits.\<close>

definition demo_input :: "nat seat" where
  "demo_input = (new_seat (new_app demo_device (demo_account True) empty_snapshot))
     \<lparr>se_pipeline := new_pipeline\<lparr>pi_decoded := [KChar 104, KChar 105], pi_wheel := [demo_click\<lparr>mo_kind := ScrollDown\<rparr>]\<rparr>\<rparr>"



end
