(* ===== verification/Output.thy ===== *)
theory Output
  imports Navigation
begin

text \<open>
  How lists of rows become text: the tables of the interface (\<open>features/*/format.rs\<close>), the listings of
  the command line and of a session (\<open>output.rs\<close>), what a row's source is called and opens
  (\<open>features/shared/action.rs\<close>), and times for people (\<open>time_format.rs\<close>). Parsing a time and writing
  it out in full are the \<open>time\<close> crate's, and the text of JSON is serde's: all of them are parameters.
\<close>

section \<open>Times\<close>

definition format_past_relative :: "int \<Rightarrow> str" where
  "format_past_relative seconds =
     (if 0 \<le> seconds \<and> seconds \<le> 59 then lit ''just now''
      else if 60 \<le> seconds \<and> seconds \<le> 3599 then show_int (seconds div 60) @ lit ''m ago''
      else if 3600 \<le> seconds \<and> seconds \<le> 86399 then show_int (seconds div 3600) @ lit ''h ago''
      else show_int (seconds div 86400) @ lit ''d ago'')"

definition format_future_relative :: "int \<Rightarrow> str" where
  "format_future_relative seconds =
     (if 0 \<le> seconds \<and> seconds \<le> 59 then lit ''in <1m''
      else if 60 \<le> seconds \<and> seconds \<le> 3599 then lit ''in '' @ show_int (seconds div 60) @ lit ''m''
      else if 3600 \<le> seconds \<and> seconds \<le> 86399 then lit ''in '' @ show_int (seconds div 3600) @ lit ''h''
      else lit ''in '' @ show_int (seconds div 86400) @ lit ''d'')"

text \<open>\<open>ahead\<close>: the whole seconds from now to a time, if it parses; \<open>full\<close>: the time written out.\<close>

definition format_human_timestamp_at :: "(str \<Rightarrow> int option) \<Rightarrow> (str \<Rightarrow> str option) \<Rightarrow> str \<Rightarrow> str" where
  "format_human_timestamp_at ahead full v =
     (case ahead v of None \<Rightarrow> v
      | Some seconds \<Rightarrow>
          let magnitude = \<bar>seconds\<bar> in
          if magnitude \<le> 7 * 24 * 60 * 60
          then (if seconds \<le> 0 then format_past_relative magnitude else format_future_relative magnitude)
          else (case full v of Some s \<Rightarrow> s | None \<Rightarrow> v))"

record formats =
  fo_human :: "str \<Rightarrow> str"
  fo_json :: "payload \<Rightarrow> str"

definition format_optional_timestamp :: "formats \<Rightarrow> str option \<Rightarrow> str" where
  "format_optional_timestamp F v = (case v of Some t \<Rightarrow> fo_human F t | None \<Rightarrow> lit ''-'')"

section \<open>Sources\<close>

definition source_kind_label :: "source_kind \<Rightarrow> str" where
  "source_kind_label k = (case k of SThread \<Rightarrow> lit ''thread'' | SComment \<Rightarrow> lit ''comment'' | SDm \<Rightarrow> lit ''dm'')"

definition notification_kind_label :: "notification_kind \<Rightarrow> str" where
  "notification_kind_label k = (case k of NMention \<Rightarrow> lit ''mention'' | NDm \<Rightarrow> lit ''dm'' | NReply \<Rightarrow> lit ''reply'')"

text \<open>What a row says of its source, as the trait \<open>SourceRow\<close> has it.\<close>

record source_row =
  so_kind :: "source_kind option"
  so_index :: "int option"
  so_channel_id :: "str option"
  so_channel_slug :: "str option"
  so_thread_id :: "str option"
  so_conversation_id :: "str option"

definition mention_source :: "mention_summary \<Rightarrow> source_row" where
  "mention_source m = \<lparr>so_kind = Some (me_source_kind m), so_index = me_source_index m, so_channel_id = me_channel_id m,
     so_channel_slug = me_channel_slug m, so_thread_id = me_thread_id m, so_conversation_id = me_conversation_id m\<rparr>"

definition notification_source :: "notification_summary \<Rightarrow> source_row" where
  "notification_source n = \<lparr>so_kind = ns_source_kind n, so_index = ns_source_index n, so_channel_id = ns_channel_id n,
     so_channel_slug = ns_channel_slug n, so_thread_id = ns_thread_id n, so_conversation_id = ns_conversation_id n\<rparr>"

definition source_focus_of :: "source_row \<Rightarrow> source_focus option" where
  "source_focus_of r =
     (case so_kind r of
        None \<Rightarrow> None
      | Some SThread \<Rightarrow> Some FocusThreadRoot
      | Some SComment \<Rightarrow> map_option FocusComment (so_index r)
      | Some SDm \<Rightarrow> map_option FocusDm (so_index r))"

definition source_row_action :: "source_row \<Rightarrow> source_target option" where
  "source_row_action r =
     (if so_conversation_id r = None \<and> so_channel_id r = None then None
      else Some \<lparr>st_channel_id = so_channel_id r, st_channel_slug = so_channel_slug r, st_thread_id = so_thread_id r,
                 st_conversation_id = so_conversation_id r, st_focus = source_focus_of r\<rparr>)"

definition source_label :: "str option \<Rightarrow> str option \<Rightarrow> str option \<Rightarrow> str" where
  "source_label channel_slug thread_title conversation_id =
     (if conversation_id \<noteq> None then lit ''DM''
      else case (channel_slug, thread_title) of
          (Some slug, Some title) \<Rightarrow> c_hash # slug @ lit '' / '' @ title
        | (Some slug, None) \<Rightarrow> c_hash # slug
        | _ \<Rightarrow> lit ''-'')"

definition read_state :: "str option \<Rightarrow> str" where
  "read_state read_at = (if read_at \<noteq> None then lit ''read'' else lit ''unread'')"

definition one_line :: "str \<Rightarrow> str" where
  "one_line s = replace_char c_nl c_space s"

section \<open>Tables\<close>

definition accounts_modal :: "formats \<Rightarrow> account_summary list \<Rightarrow> list_modal" where
  "accounts_modal F rows =
     \<lparr>lm_title = lit ''Users'', lm_columns = map lit [''user'', ''role'', ''state'', ''last seen''],
      lm_rows = map (\<lambda>r. [c_at # as_username r, role_as_str (as_role r), account_state_label r,
                          format_optional_timestamp F (as_last_seen_at r)]) rows,
      lm_row_actions = [], lm_empty = lit ''No users found.''\<rparr>"

definition keys_modal :: "str \<Rightarrow> key_summary list \<Rightarrow> list_modal" where
  "keys_modal title rows =
     \<lparr>lm_title = title, lm_columns = map lit [''id'', ''user'', ''fingerprint'', ''state''],
      lm_rows = map (\<lambda>r. [short_id (ks_id r), c_at # ks_username r, ks_fingerprint r, key_state_label r]) rows,
      lm_row_actions = [], lm_empty = lit ''No SSH keys found.''\<rparr>"

definition invites_modal :: "formats \<Rightarrow> invite_summary list \<Rightarrow> list_modal" where
  "invites_modal F rows =
     \<lparr>lm_title = lit ''Invites'', lm_columns = map lit [''id'', ''role'', ''created by'', ''state'', ''expires''],
      lm_rows = map (\<lambda>r. [short_id (is_id r), role_as_str (is_role_on_accept r), c_at # is_created_by r,
                          invite_state_label r, format_optional_timestamp F (is_expires_at r)]) rows,
      lm_row_actions = [], lm_empty = lit ''No invites found.''\<rparr>"

definition channel_members_modal :: "formats \<Rightarrow> str \<Rightarrow> member_summary list \<Rightarrow> list_modal" where
  "channel_members_modal F slug rows =
     \<lparr>lm_title = lit ''Members of #'' @ (case rows of [] \<Rightarrow> slug | r # _ \<Rightarrow> ms_channel_slug r),
      lm_columns = map lit [''user'', ''role'', ''joined''],
      lm_rows = map (\<lambda>r. [c_at # ms_username r, ms_role r, fo_human F (ms_joined_at r)]) rows,
      lm_row_actions = [], lm_empty = lit ''No channel members found.''\<rparr>"

definition channels_modal :: "directory_item list \<Rightarrow> list_modal" where
  "channels_modal rows =
     \<lparr>lm_title = lit ''Channels'', lm_columns = map lit [''channel'', ''visibility'', ''membership'', ''state'', ''topic''],
      lm_rows = map (\<lambda>r. [c_hash # di_slug r, visibility_label (di_visibility r),
                          if di_joined r then lit ''joined'' else lit ''joinable'',
                          if di_archived r then lit ''archived'' else lit ''active'',
                          value_or (di_topic r) (lit ''-'')]) rows,
      lm_row_actions = [], lm_empty = lit ''No channels found.''\<rparr>"

definition mentions_modal :: "mention_summary list \<Rightarrow> list_modal" where
  "mentions_modal rows =
     \<lparr>lm_title = lit ''Mentions'', lm_columns = map lit [''id'', ''from'', ''source'', ''state'', ''body''],
      lm_rows = map (\<lambda>r. [short_id (me_id r), c_at # me_actor_username r,
                          source_label (me_channel_slug r) (me_thread_title r) (me_conversation_id r),
                          read_state (me_read_at r), one_line (me_body r)]) rows,
      lm_row_actions = map (\<lambda>r. source_row_action (mention_source r)) rows, lm_empty = lit ''No mentions found.''\<rparr>"

definition mute_message :: "int option \<Rightarrow> str \<Rightarrow> str" where
  "mute_message ttl_hours label =
     (case ttl_hours of Some hours \<Rightarrow> label @ lit '' muted for '' @ show_int hours @ lit ''h''
      | None \<Rightarrow> label @ lit '' unmuted'')"

definition saved_message :: "bool \<Rightarrow> str \<Rightarrow> str" where
  "saved_message saved label = label @ (if saved then lit '' saved'' else lit '' unsaved'')"

section \<open>Listings of the command line\<close>

definition listing :: "str \<Rightarrow> ('r \<Rightarrow> str) \<Rightarrow> 'r list \<Rightarrow> str" where
  "listing title row rows = title @ [c_nl] @ concat (map (\<lambda>r. row r @ [c_nl]) rows)"

text \<open>Columns are separated by tabs.\<close>

definition tabbed :: "str list \<Rightarrow> str" where
  "tabbed parts = join_str [9] parts"

definition cli_format_accounts :: "account_summary list \<Rightarrow> str" where
  "cli_format_accounts =
     listing (tabbed (map lit [''username'', ''role'', ''state'', ''last_seen'']))
       (\<lambda>r. tabbed [as_username r, role_as_str (as_role r), account_state_label r, value_or (as_last_seen_at r) (lit ''-'')])"

definition cli_format_keys :: "key_summary list \<Rightarrow> str" where
  "cli_format_keys =
     listing (tabbed (map lit [''id'', ''username'', ''fingerprint'', ''state'']))
       (\<lambda>r. tabbed [ks_id r, ks_username r, ks_fingerprint r, value_or (ks_revoked_at r) (key_state_label r)])"

definition cli_format_invites :: "invite_summary list \<Rightarrow> str" where
  "cli_format_invites =
     listing (tabbed (map lit [''id'', ''role'', ''created_by'', ''state'', ''expires'']))
       (\<lambda>r. tabbed [is_id r, role_as_str (is_role_on_accept r), is_created_by r, invite_state_label r,
                   value_or (is_expires_at r) (lit ''-'')])"

definition cli_format_channel_members :: "member_summary list \<Rightarrow> str" where
  "cli_format_channel_members =
     listing (tabbed (map lit [''channel'', ''username'', ''role'', ''joined'']))
       (\<lambda>r. tabbed [ms_channel_slug r, ms_username r, ms_role r, ms_joined_at r])"

definition cli_format_channels :: "directory_item list \<Rightarrow> str" where
  "cli_format_channels =
     listing (tabbed (map lit [''channel'', ''visibility'', ''state'', ''joined'', ''topic'']))
       (\<lambda>r. tabbed [di_slug r, visibility_label (di_visibility r), if di_archived r then lit ''archived'' else lit ''active'',
                   if di_joined r then lit ''yes'' else lit ''no'', value_or (di_topic r) (lit ''-'')])"

definition cli_format_notifications :: "notification_summary list \<Rightarrow> str" where
  "cli_format_notifications =
     listing (tabbed (map lit [''id'', ''kind'', ''actor'', ''state'', ''title'', ''body'']))
       (\<lambda>r. tabbed [ns_id r, notification_kind_label (ns_kind r), value_or (ns_actor_username r) (lit ''-''),
                   read_state (ns_read_at r), ns_title r, one_line (ns_body r)])"

definition cli_format_audit :: "formats \<Rightarrow> audit_entry list \<Rightarrow> str" where
  "cli_format_audit F =
     listing (tabbed (map lit [''created'', ''actor'', ''action'', ''target'', ''metadata'']))
       (\<lambda>r. tabbed [ae_created_at r, value_or (ae_actor_username r) (lit ''-''), ae_action r,
                   value_or (ae_target r) (lit ''-''), fo_json F (ae_metadata r)])"

section \<open>Listings of a session\<close>

text \<open>Columns are separated by two spaces.\<close>

definition spaced :: "str list \<Rightarrow> str" where
  "spaced parts = join_str (lit ''  '') parts"

definition at_user :: "str option \<Rightarrow> str" where
  "at_user username = (case username of Some u \<Rightarrow> c_at # u | None \<Rightarrow> lit ''-'')"

definition format_accounts :: "formats \<Rightarrow> account_summary list \<Rightarrow> str" where
  "format_accounts F =
     listing (lit ''Users'') (\<lambda>r. spaced [c_at # as_username r, role_as_str (as_role r), account_state_label r,
       lit ''last_seen:'' @ format_optional_timestamp F (as_last_seen_at r)])"

definition format_keys :: "formats \<Rightarrow> key_summary list \<Rightarrow> str" where
  "format_keys F =
     listing (lit ''SSH keys'') (\<lambda>r. spaced [short_id (ks_id r), c_at # ks_username r, ks_fingerprint r,
       case ks_revoked_at r of Some t \<Rightarrow> lit ''revoked:'' @ fo_human F t | None \<Rightarrow> lit ''active''])"

definition format_invites :: "formats \<Rightarrow> invite_summary list \<Rightarrow> str" where
  "format_invites F =
     listing (lit ''Invites'') (\<lambda>r. spaced [short_id (is_id r), role_as_str (is_role_on_accept r),
       lit ''by @'' @ is_created_by r, invite_state_label r, lit ''expires:'' @ format_optional_timestamp F (is_expires_at r)])"

definition format_channel_members :: "formats \<Rightarrow> member_summary list \<Rightarrow> str" where
  "format_channel_members F rows =
     listing (case rows of [] \<Rightarrow> lit ''Members'' | r # _ \<Rightarrow> lit ''Members of #'' @ ms_channel_slug r)
       (\<lambda>r. spaced [c_at # ms_username r, ms_role r, lit ''joined:'' @ fo_human F (ms_joined_at r)]) rows"

definition format_channels :: "directory_item list \<Rightarrow> str" where
  "format_channels =
     listing (lit ''Channels'') (\<lambda>r. spaced ([c_hash # di_slug r, visibility_label (di_visibility r),
       if di_joined r then lit ''joined'' else lit ''joinable'', if di_archived r then lit ''archived'' else lit ''active'']
       @ (case di_topic r of Some topic \<Rightarrow> [topic] | None \<Rightarrow> [])))"

definition format_mentions :: "mention_summary list \<Rightarrow> str" where
  "format_mentions =
     listing (lit ''Mentions'') (\<lambda>r. spaced [short_id (me_id r), c_at # me_actor_username r,
       source_kind_label (me_source_kind r), read_state (me_read_at r), one_line (me_body r)])"

definition format_notifications :: "notification_summary list \<Rightarrow> str" where
  "format_notifications =
     listing (lit ''Notifications'') (\<lambda>r. spaced [short_id (ns_id r), notification_kind_label (ns_kind r),
       at_user (ns_actor_username r), read_state (ns_read_at r), one_line (ns_body r)])"

definition format_audit :: "formats \<Rightarrow> audit_entry list \<Rightarrow> str" where
  "format_audit F =
     listing (lit ''Audit'') (\<lambda>r. spaced [fo_human F (ae_created_at r), at_user (ae_actor_username r), ae_action r,
       value_or (ae_target r) (lit ''-''), fo_json F (ae_metadata r)])"

text \<open>A line for every row: nothing a row holds breaks it, when its fields are stored single lines.\<close>

definition line_count :: "str \<Rightarrow> nat" where
  "line_count s = length (filter (\<lambda>c. c = c_nl) s)"

lemma line_count_simps [simp]:
  "line_count [] = 0" "line_count (xs @ ys) = line_count xs + line_count ys"
  "line_count (c # cs) = (if c = c_nl then 1 else 0) + line_count cs"
  by (simp_all add: line_count_def)

lemma listing_lines:
  assumes "line_count title = 0" "\<And>r. r \<in> set rows \<Longrightarrow> line_count (row r) = 0"
  shows "line_count (listing title row rows) = Suc (length rows)"
proof -
  have "line_count (concat (map (\<lambda>r. row r @ [c_nl]) rs)) = length rs" if "set rs \<subseteq> set rows" for rs
    using that assms(2) by (induction rs) auto
  with assms(1) show ?thesis by (simp add: listing_def)
qed

lemma one_line_lines [simp]: "line_count (one_line s) = 0"
  by (auto simp: one_line_def replace_char_def line_count_def filter_empty_conv)

end
