(* ===== verification/Client.thy ===== *)
theory Client
  imports Pipeline Output Reading
begin

text \<open>
  A session between the interface and the server (\<open>src/client\<close>, \<open>ssh/actions.rs\<close>,
  \<open>ssh/render_loop.rs\<close>, \<open>features/*/actions.rs\<close>): every action that the interface queued becomes calls of
  the server's handlers, each its own transaction, an answer in a banner, and a refresh; a frame takes
  the input, carries the actions out and draws. What the functions read from outside is a record of
  parameters: the environment of the handlers, the device of the interface, the parser of public keys,
  the settings that serde reads and writes, and the texts of errors that other libraries raise.
\<close>

section \<open>The session\<close>

record ('s, 'k) backend =
  bk_env :: env
  bk_codec :: codec
  bk_sqlite :: "'k sqlite"
  bk_device :: "'s device"
  bk_formats :: formats
  bk_parse_key :: "str \<Rightarrow> err + (str \<times> str)"
  bk_flag :: "str \<Rightarrow> bool"
  bk_with_flag :: "bool \<Rightarrow> str \<Rightarrow> str"
  bk_error_text :: "err \<Rightarrow> str"

text \<open>\<open>ClientSession\<close>: the account as it was at the login, and the server; and the interface.\<close>

record 's client =
  ct_app :: "'s app"
  ct_account :: account
  ct_server :: server
  ct_cache :: hot_cache

definition actor_id :: "'s client \<Rightarrow> str" where
  "actor_id c = ac_id (ct_account c)"

definition with_app :: "('s app \<Rightarrow> 's app) \<Rightarrow> 's client \<Rightarrow> 's client" where
  "with_app f c = c\<lparr>ct_app := f (ct_app c)\<rparr>"

definition error_text :: "('s, 'k) backend \<Rightarrow> err \<Rightarrow> str" where
  "error_text B e = (case e of Msg m \<Rightarrow> m | _ \<Rightarrow> bk_error_text B e)"

text \<open>A call of a handler, and what is done with its answer; an error ends the action.\<close>

type_synonym ('s, 'a) outcome = "(err + 'a) \<times> 's client"

definition call :: "'a wtx \<Rightarrow> ('a \<Rightarrow> 's client \<Rightarrow> ('s, 'b) outcome) \<Rightarrow> 's client \<Rightarrow> ('s, 'b) outcome" where
  "call m k c =
     (case on_db m (ct_server c) of
        (Inl e, sv) \<Rightarrow> (Inl e, c\<lparr>ct_server := sv\<rparr>)
      | (Inr x, sv) \<Rightarrow> k x (c\<lparr>ct_server := sv\<rparr>))"

datatype action_result = Silent | Message str | ModalMessage str | ListResult list_modal

definition say :: "'a wtx \<Rightarrow> ('a \<Rightarrow> action_result) \<Rightarrow> 's client \<Rightarrow> ('s, action_result) outcome" where
  "say m f = call m (\<lambda>x c. (Inr (f x), c))"

definition refuse :: "string \<Rightarrow> 's client \<Rightarrow> ('s, action_result) outcome" where
  "refuse e c = (Inl (Msg (lit e)), c)"

text \<open>\<open>unreachable!\<close>: an action that another domain handles.\<close>

definition unreachable :: "'s client \<Rightarrow> ('s, action_result) outcome" where
  "unreachable c = (Inl Panic, c)"

record action_selection =
  an_channel_id :: "str option"
  an_channel_slug :: "str option"
  an_thread_id :: "str option"
  an_conversation_id :: "str option"
  an_first_channel_id :: "str option"

definition current_selection :: "'s client \<Rightarrow> action_selection" where
  "current_selection c =
     (let v = ap_view (ct_app c) in
      \<lparr>an_channel_id = sn_channel_id v, an_channel_slug = selected_channel_slug (ct_app c),
       an_thread_id = sn_thread_id v, an_conversation_id = sn_conversation_id v,
       an_first_channel_id = (case sn_channels v of [] \<Rightarrow> None | ch # _ \<Rightarrow> Some (ci_id ch))\<rparr>)"

definition with_thread :: "(str \<Rightarrow> 's client \<Rightarrow> ('s, action_result) outcome) \<Rightarrow> 's client \<Rightarrow> ('s, action_result) outcome" where
  "with_thread f c = (case an_thread_id (current_selection c) of None \<Rightarrow> refuse ''No thread selected'' c | Some t \<Rightarrow> f t c)"

definition with_conversation :: "(str \<Rightarrow> 's client \<Rightarrow> ('s, action_result) outcome) \<Rightarrow> 's client \<Rightarrow> ('s, action_result) outcome" where
  "with_conversation f c =
     (case an_conversation_id (current_selection c) of None \<Rightarrow> refuse ''No DM selected'' c | Some v \<Rightarrow> f v c)"

section \<open>Settings\<close>

definition account_settings :: "str \<Rightarrow> str wtx" where
  "account_settings account_id =
     bnd (gets (\<lambda>s. fetch_last (\<lambda>a. a_id a = account_id \<and> a_disabled_at a = None) (accounts s))) (\<lambda>row.
     bnd (some_or row NoRows) (\<lambda>a. ret (a_settings a)))"

definition terminal_notifications_enabled :: "('s, 'k) backend \<Rightarrow> str \<Rightarrow> bool wtx" where
  "terminal_notifications_enabled B account_id = bnd (account_settings account_id) (\<lambda>json. ret (bk_flag B json))"

definition set_terminal_notifications :: "('s, 'k) backend \<Rightarrow> str \<Rightarrow> bool \<Rightarrow> unit wtx" where
  "set_terminal_notifications B account_id on =
     bnd (account_settings account_id) (\<lambda>json.
     bnd (now (bk_env B)) (\<lambda>n.
     update_account account_id (\<lambda>a. a\<lparr>a_settings := bk_with_flag B on json, a_updated_at := n\<rparr>)))"

section \<open>Accounts\<close>

definition save_settings :: "('s, 'k) backend \<Rightarrow> str \<Rightarrow> str \<Rightarrow> 's client \<Rightarrow> ('s, action_result) outcome" where
  "save_settings B username_arg display_name_arg c =
     (let E = bk_env B; me = actor_id c; current = ct_account c in
      case normalize_username (e_lc E) username_arg of Inl e \<Rightarrow> (Inl e, c)
      | Inr username \<Rightarrow>
          let display_name = trim (sanitize_single_line_text display_name_arg) in
          if \<not> (1 \<le> length display_name \<and> length display_name \<le> 80) then refuse ''Display name must be 1-80 characters'' c
          else
            let name_changed = (username \<noteq> ac_username current); display_changed = (display_name \<noteq> ac_display_name current);
                show_result = (\<lambda>_ c. (Inr (Message (lit ''Account settings saved'')), c));
                set_display = (\<lambda>_. if display_changed then call (set_display_name E me me display_name) show_result else show_result ())
            in if name_changed then call (rename_user E me me username) set_display c else set_display () c)"

definition accounts_process :: "('s, 'k) backend \<Rightarrow> action \<Rightarrow> 's client \<Rightarrow> ('s, action_result) outcome" where
  "accounts_process B action c =
     (case action of
        ACreateInvite \<Rightarrow>
          say (create_invite (bk_env B) (actor_id c)) (\<lambda>code. Message (lit ''Invite code: '' @ code)) c
      | ACreateInviteWithOptions role ttl \<Rightarrow>
          say (create_invite_with_options (bk_env B) (actor_id c) role ttl) (\<lambda>code. Message (lit ''Invite code: '' @ code)) c
      | ACompleteOnboarding username \<Rightarrow>
          say (complete_onboarding (bk_env B) (actor_id c) username) (\<lambda>_. Message (lit ''Setup complete'')) c
      | AListUsers \<Rightarrow>
          say (list_accounts (bk_env B) (bk_codec B) (actor_id c)) (\<lambda>rows. ListResult (accounts_modal (bk_formats B) rows)) c
      | ASetUsername username \<Rightarrow>
          say (rename_user (bk_env B) (actor_id c) (actor_id c) username)
              (\<lambda>_. Message (lit ''Username updated to @'' @ username)) c
      | ASetProfile display_name \<Rightarrow>
          say (set_display_name (bk_env B) (actor_id c) (actor_id c) display_name) (\<lambda>_. Message (lit ''Profile updated'')) c
      | ASaveAccountSettings username display_name \<Rightarrow>
          save_settings B username display_name c
      | ASetUserDisabled username disabled \<Rightarrow>
          say (set_user_disabled (bk_env B) (actor_id c) username disabled)
              (\<lambda>_. Message ((if disabled then lit ''Disabled @'' else lit ''Enabled @'') @ username)) c
      | ASetUserRole username role \<Rightarrow>
          say (set_user_role (bk_env B) (actor_id c) username role)
              (\<lambda>_. Message (lit ''Set @'' @ username @ lit '' role to '' @ role_as_str role)) c
      | AListKeys \<Rightarrow>
          say (list_ssh_keys (bk_env B) (bk_codec B) (actor_id c)) (\<lambda>rows. ListResult (keys_modal (lit ''SSH keys'') rows)) c
      | AListMyKeys \<Rightarrow>
          say (gets (load_my_ssh_keys (actor_id c))) (\<lambda>rows. ListResult (keys_modal (lit ''My SSH keys'') rows)) c
      | AAddKey public_key label \<Rightarrow>
          say (add_ssh_key (bk_env B) (actor_id c) None (bk_parse_key B public_key) label)
              (\<lambda>row. Message (lit ''Added key '' @ ssh_key_summary.ks_fingerprint row)) c
      | ACreateDeviceLinkToken label \<Rightarrow>
          say (create_device_link_token (bk_env B) (actor_id c) label) (\<lambda>code. ModalMessage (lit ''Device link token: '' @ code)) c
      | ALabelKey key label \<Rightarrow>
          say (label_ssh_key (bk_env B) (actor_id c) key label) (\<lambda>_. Message (lit ''SSH key label updated'')) c
      | ARevokeKey key \<Rightarrow>
          say (revoke_ssh_key (bk_env B) (actor_id c) key) (\<lambda>_. Message (lit ''SSH key revoked'')) c
      | AListInvites \<Rightarrow>
          say (list_invites (bk_codec B) (actor_id c)) (\<lambda>rows. ListResult (invites_modal (bk_formats B) rows)) c
      | ARevokeInvite invite_id \<Rightarrow>
          say (revoke_invite (bk_env B) (actor_id c) invite_id) (\<lambda>_. Message (lit ''Invite revoked'')) c
      | _ \<Rightarrow>
          unreachable c)"

section \<open>Channels\<close>

text \<open>The channel named in the action, or the selected one.\<close>

definition with_slug :: "str option \<Rightarrow> (str \<Rightarrow> 's client \<Rightarrow> ('s, action_result) outcome) \<Rightarrow> 's client \<Rightarrow> ('s, action_result) outcome" where
  "with_slug slug f c =
     (case (case slug of Some s \<Rightarrow> Some s | None \<Rightarrow> an_channel_slug (current_selection c)) of
        Some s \<Rightarrow> f s c
      | None \<Rightarrow> refuse ''No channel selected'' c)"

definition channels_process :: "('s, 'k) backend \<Rightarrow> action \<Rightarrow> 's client \<Rightarrow> ('s, action_result) outcome" where
  "channels_process B action c =
     (let E = bk_env B; D = bk_device B; me = actor_id c in
      case action of
        ACreateChannel name private \<Rightarrow>
          call (create_channel E me name private)
            (\<lambda>i c. (Inr (Message (lit ''Channel created'')), with_app (select_channel D i) c)) c
      | AJoinChannel slug \<Rightarrow>
          call (join_channel E me slug)
            (\<lambda>i c. (Inr (Message (lit ''Joined channel'')), with_app (select_channel D i) c)) c
      | ALeaveChannel slug \<Rightarrow>
          with_slug slug (\<lambda>s. say (leave_channel E me s) (\<lambda>_. Message (lit ''Left '' @ s))) c
      | AListChannels \<Rightarrow>
          say (list_channels (bk_codec B) me False) (\<lambda>rows. ListResult (channels_modal rows)) c
      | ARenameChannel slug name \<Rightarrow>
          with_slug slug (\<lambda>s. say (rename_channel E me s name) (\<lambda>_. Message (lit ''Renamed '' @ s))) c
      | ASetChannelTopic slug topic \<Rightarrow>
          with_slug slug (\<lambda>s. say (set_channel_topic E me s topic) (\<lambda>_. Message (lit ''Updated '' @ s @ lit '' topic''))) c
      | ASetChannelArchived slug archived \<Rightarrow>
          with_slug slug (\<lambda>s. say (set_channel_archived E me s archived)
            (\<lambda>_. Message ((if archived then lit ''Archived '' else lit ''Unarchived '') @ s))) c
      | AListChannelMembers slug \<Rightarrow>
          say (list_channel_members E (bk_codec B) me slug)
            (\<lambda>rows. ListResult (channel_members_modal (bk_formats B) slug rows)) c
      | AAddChannelMember slug username \<Rightarrow>
          say (add_channel_member E me slug username) (\<lambda>_. Message (lit ''Added @'' @ username @ lit '' to '' @ slug)) c
      | ARemoveChannelMember slug username \<Rightarrow>
          say (remove_channel_member E me slug username)
            (\<lambda>_. Message (lit ''Removed @'' @ username @ lit '' from '' @ slug)) c
      | _ \<Rightarrow> unreachable c)"

section \<open>Messages\<close>

definition silently :: "unit wtx \<Rightarrow> 's client \<Rightarrow> ('s, action_result) outcome" where
  "silently m = say m (\<lambda>_. Silent)"

text \<open>
  A thread is created in the selected channel, or in the first one when a page is shown; it is
  opened unless the selection has moved meanwhile.
\<close>

definition create_thread_action :: "('s, 'k) backend \<Rightarrow> str \<Rightarrow> 's client \<Rightarrow> ('s, action_result) outcome" where
  "create_thread_action B title c =
     (let selection = current_selection c;
          fallback = (if an_conversation_id selection = None then an_first_channel_id selection else None) in
      case (case an_channel_id selection of Some i \<Rightarrow> Some i | None \<Rightarrow> fallback) of
        None \<Rightarrow> refuse ''No channel selected'' c
      | Some channel_id \<Rightarrow>
          call (create_thread (bk_env B) (actor_id c) channel_id title) (\<lambda>thread_id c.
            let latest = current_selection c;
                unchanged = (an_channel_id selection = None \<and> an_channel_id latest = None \<and> an_conversation_id latest = None)
            in (Inr (Message (lit ''Thread created'')),
                if an_channel_id latest = Some channel_id \<or> unchanged
                then with_app (select_thread (bk_device B) channel_id thread_id) c else c)) c)"

definition add_comment_action :: "('s, 'k) backend \<Rightarrow> str \<Rightarrow> 's client \<Rightarrow> ('s, action_result) outcome" where
  "add_comment_action B body c =
     (let selection = current_selection c in
      case an_channel_id selection of None \<Rightarrow> refuse ''No channel selected; use /thread new title'' c
      | Some channel_id \<Rightarrow>
     (case an_thread_id selection of None \<Rightarrow> refuse ''No thread selected; use /thread new title'' c
      | Some thread_id \<Rightarrow>
          call (add_comment (bk_env B) (actor_id c) thread_id body) (\<lambda>_ c.
            let latest = current_selection c
            in (Inr Silent,
                if an_channel_id latest = Some channel_id \<and> an_thread_id latest = Some thread_id
                then with_app (select_thread_at_bottom (bk_device B) channel_id thread_id) c else c)) c))"

definition send_dm_action :: "('s, 'k) backend \<Rightarrow> str \<Rightarrow> 's client \<Rightarrow> ('s, action_result) outcome" where
  "send_dm_action B body c =
     (case an_conversation_id (current_selection c) of None \<Rightarrow> refuse ''No DM selected; use /dm open @user'' c
      | Some conversation_id \<Rightarrow>
          call (send_dm (bk_env B) (actor_id c) conversation_id body) (\<lambda>_ c.
            (Inr Silent,
             if an_conversation_id (current_selection c) = Some conversation_id
             then with_app (select_conversation_at_bottom (bk_device B) conversation_id) c else c)) c)"

definition react_or_unreact :: "('s, 'k) backend \<Rightarrow> str \<Rightarrow> int option \<Rightarrow> bool \<Rightarrow> 's client \<Rightarrow> ('s, action_result) outcome" where
  "react_or_unreact B emoji index remove c =
     (let E = bk_env B; me = actor_id c; selection = current_selection c in
      case an_conversation_id selection of
        Some v \<Rightarrow>
          (case index of None \<Rightarrow> refuse ''DM reaction requires a message index'' c
           | Some i \<Rightarrow> silently (react_to_dm E me v i emoji remove) c)
      | None \<Rightarrow>
          (case an_thread_id selection of None \<Rightarrow> refuse ''No thread or DM selected'' c
           | Some t \<Rightarrow>
               (case index of Some i \<Rightarrow> silently (react_to_comment E me t i emoji remove) c
                | None \<Rightarrow> silently (react_to_thread E me t emoji remove) c)))"

definition on_either :: "string \<Rightarrow> (str \<Rightarrow> 's client \<Rightarrow> ('s, action_result) outcome) \<Rightarrow> (str \<Rightarrow> 's client \<Rightarrow> ('s, action_result) outcome)
    \<Rightarrow> 's client \<Rightarrow> ('s, action_result) outcome" where
  "on_either e on_conversation on_thread c =
     (case an_conversation_id (current_selection c) of Some v \<Rightarrow> on_conversation v c
      | None \<Rightarrow> (case an_thread_id (current_selection c) of Some t \<Rightarrow> on_thread t c | None \<Rightarrow> refuse e c))"

definition next_unread_action :: "('s, 'k) backend \<Rightarrow> 's client \<Rightarrow> ('s, action_result) outcome" where
  "next_unread_action B =
     (\<lambda>c. call (next_unread (bk_env B) (actor_id c)) (\<lambda>found c.
        case found of
          Some (NextThread channel_id thread_id) \<Rightarrow> (Inr Silent, with_app (select_thread (bk_device B) channel_id thread_id) c)
        | Some (NextConversation i) \<Rightarrow> (Inr Silent, with_app (select_conversation (bk_device B) i) c)
        | None \<Rightarrow> (Inr (Message (lit ''No unread activity'')), c)) c)"

definition messages_process :: "('s, 'k) backend \<Rightarrow> action \<Rightarrow> 's client \<Rightarrow> ('s, action_result) outcome" where
  "messages_process B action c =
     (let E = bk_env B; me = actor_id c;
          numbered = (\<lambda>what i done. Message (lit what @ show_int i @ lit done)) in
      case action of
        ACreateThread title \<Rightarrow> create_thread_action B title c
      | AAddComment body \<Rightarrow> add_comment_action B body c
      | ASendDm body \<Rightarrow> send_dm_action B body c
      | AOpenDm target \<Rightarrow>
          call (open_dm E me target) (\<lambda>i c. (Inr Silent, with_app (select_conversation (bk_device B) i) c)) c
      | AMarkThreadRead \<Rightarrow> with_thread (\<lambda>t. silently (mark_thread_read E me t)) c
      | AMarkThreadUnread \<Rightarrow> with_thread (\<lambda>t. silently (mark_thread_unread E me t)) c
      | AMarkDmRead \<Rightarrow> with_conversation (\<lambda>v. silently (mark_conversation_read E me v)) c
      | AMarkDmUnread \<Rightarrow> with_conversation (\<lambda>v. silently (mark_conversation_unread E me v)) c
      | ANextUnread \<Rightarrow> next_unread_action B c
      | ARenameThread title \<Rightarrow> with_thread (\<lambda>t. say (rename_thread E me t title) (\<lambda>_. Message (lit ''Thread renamed''))) c
      | ADeleteThread \<Rightarrow> with_thread (\<lambda>t. say (delete_thread E me t) (\<lambda>_. Message (lit ''Thread deleted''))) c
      | ASetThreadArchived archived \<Rightarrow>
          with_thread (\<lambda>t. say (set_thread_archived E me t archived)
            (\<lambda>_. Message (if archived then lit ''Thread archived'' else lit ''Thread unarchived''))) c
      | ASetThreadPinned pinned \<Rightarrow>
          with_thread (\<lambda>t. say (set_thread_pinned E me t pinned)
            (\<lambda>_. Message (if pinned then lit ''Thread pinned'' else lit ''Thread unpinned''))) c
      | ASetThreadMuted ttl \<Rightarrow>
          on_either ''No thread or DM selected''
            (\<lambda>v. say (set_conversation_muted E me v ttl) (\<lambda>_. Message (mute_message ttl (lit ''DM''))))
            (\<lambda>t. say (set_thread_muted E me t ttl) (\<lambda>_. Message (mute_message ttl (lit ''Thread'')))) c
      | ASetMessageSaved index saved \<Rightarrow>
          on_either ''No message selected''
            (\<lambda>v. say (set_dm_message_saved E me v index saved) (\<lambda>_. Message (saved_message saved (lit ''Message''))))
            (\<lambda>t. say (set_comment_saved E me t index saved) (\<lambda>_. Message (saved_message saved (lit ''Message'')))) c
      | AEditComment i body \<Rightarrow>
          with_thread (\<lambda>t. say (update_comment_body E me t i body) (\<lambda>_. numbered ''Comment #'' i '' edited'')) c
      | ADeleteComment i \<Rightarrow>
          with_thread (\<lambda>t. say (soft_delete_comment E me t i) (\<lambda>_. numbered ''Comment #'' i '' deleted'')) c
      | AEditDm i body \<Rightarrow>
          with_conversation (\<lambda>v. say (update_dm_body E me v i body) (\<lambda>_. numbered ''DM #'' i '' edited'')) c
      | ADeleteDm i \<Rightarrow>
          with_conversation (\<lambda>v. say (soft_delete_dm E me v i) (\<lambda>_. numbered ''DM #'' i '' deleted'')) c
      | ASetDmMuted ttl \<Rightarrow>
          with_conversation (\<lambda>v. say (set_conversation_muted E me v ttl) (\<lambda>_. Message (mute_message ttl (lit ''DM'')))) c
      | AReact emoji index \<Rightarrow> react_or_unreact B emoji index False c
      | AUnreact emoji index \<Rightarrow> react_or_unreact B emoji index True c
      | _ \<Rightarrow> unreachable c)"

section \<open>Pages\<close>

definition first_fifty :: page_request where
  "first_fifty = first_page 50"

definition page_after :: "str \<Rightarrow> page_request" where
  "page_after cursor = \<lparr>pr_limit = 50, pr_cursor = Some cursor\<rparr>"

definition saved_page :: "('s, 'k) backend \<Rightarrow> str \<Rightarrow> page_request \<Rightarrow> saved_item page wtx" where
  "saved_page B account_id request = bnd (gets (load_saved_messages_page (bk_codec B) account_id request)) lift_res"

definition label_page :: "('s, 'k) backend \<Rightarrow> str \<Rightarrow> str \<Rightarrow> page_request \<Rightarrow> label_item page wtx" where
  "label_page B account_id tag request = bnd (gets (load_label_feed_page (bk_codec B) account_id tag request)) lift_res"

text \<open>
  The next page is appended when it is still the one that the interface would ask for; in any case the
  request is no longer pending.
\<close>

definition append_page :: "load_more_request \<Rightarrow> 'p wtx \<Rightarrow> ('p \<Rightarrow> 's app \<Rightarrow> 's app) \<Rightarrow> 's client \<Rightarrow> ('s, action_result) outcome" where
  "append_page request m f =
     call m (\<lambda>p c. (Inr Silent, if load_more_request_is_current request (ct_app c) then with_app (f p) c else c))"

definition process_load_more :: "('s, 'k::linorder) backend \<Rightarrow> load_more_request option \<Rightarrow> 's client \<Rightarrow> ('s, action_result) outcome" where
  "process_load_more B request_arg c =
     (case (case request_arg of Some r \<Rightarrow> Some r | None \<Rightarrow> current_load_more_request (ct_app c)) of
        None \<Rightarrow> (Inr Silent, c)
      | Some request \<Rightarrow>
          let me = actor_id c;
              (result, c) = (case request of
                  LSaved cursor \<Rightarrow>
                    append_page request (saved_page B me (page_after cursor)) (\<lambda>p. append_saved_messages (pg_items p) (pg_next p)) c
                | LSearch query cursor \<Rightarrow>
                    append_page request (search_visible_page (bk_env B) (bk_codec B) (bk_sqlite B) me query (page_after cursor))
                      (\<lambda>p. append_search_results query (pg_items p) (pg_next p)) c
                | LLabel tag cursor \<Rightarrow>
                    append_page request (label_page B me tag (page_after cursor)) (\<lambda>p. append_label_feed tag (pg_items p) (pg_next p)) c
                | LNotifications cursor \<Rightarrow>
                    append_page request (list_notifications_page (bk_codec B) me (page_after cursor))
                      (\<lambda>p. append_notifications (pg_items p) (pg_next p)) c)
          in (result, with_app (finish_load_more_request request) c))"

definition feeds_process :: "('s, 'k::linorder) backend \<Rightarrow> action \<Rightarrow> 's client \<Rightarrow> ('s, action_result) outcome" where
  "feeds_process B action c =
     (let D = bk_device B; me = actor_id c in
      case action of
        ASearch query \<Rightarrow>
          call (search_visible_page (bk_env B) (bk_codec B) (bk_sqlite B) me query first_fifty)
            (\<lambda>p c. (Inr Silent, with_app (set_search_results_page D query (pg_items p) (pg_next p) True) c)) c
      | AOpenLabel tag_arg \<Rightarrow>
          (case normalize_label tag_arg of None \<Rightarrow> refuse ''Label is required'' c
           | Some tag \<Rightarrow>
               call (label_page B me tag first_fifty)
                 (\<lambda>p c. (Inr Silent, with_app (set_label_feed_page D tag (pg_items p) (pg_next p) True) c)) c)
      | AListSaved \<Rightarrow>
          call (saved_page B me first_fifty)
            (\<lambda>p c. (Inr Silent, with_app (set_saved_messages_page D (pg_items p) (pg_next p) True) c)) c
      | ALoadMore request \<Rightarrow> process_load_more B request c
      | ALoadOlder \<Rightarrow>
          (Inr Silent, with_app (\<lambda>a. if can_load_older_history a
             then increase_history_limit (prepare_older_history_anchor a) else a) c)
      | _ \<Rightarrow> unreachable c)"

section \<open>Notifications\<close>

definition show_notifications :: "('s, 'k) backend \<Rightarrow> action_result \<Rightarrow> 's client \<Rightarrow> ('s, action_result) outcome" where
  "show_notifications B result c =
     call (list_notifications_page (bk_codec B) (actor_id c) first_fifty)
       (\<lambda>p c. (Inr result, with_app (set_notifications_page (bk_device B) (pg_items p) (pg_next p) True) c)) c"

text \<open>After a change of the notifications the page is read again when it is shown.\<close>

definition then_show :: "('s, 'k) backend \<Rightarrow> string \<Rightarrow> unit \<Rightarrow> 's client \<Rightarrow> ('s, action_result) outcome" where
  "then_show B done _ c =
     (if notifications_active (ct_app c) then show_notifications B (Message (lit done)) c else (Inr (Message (lit done)), c))"

text \<open>A source in a channel that the account has not joined is joined first.\<close>

definition open_source_target :: "('s, 'k) backend \<Rightarrow> source_target \<Rightarrow> 's client \<Rightarrow> ('s, action_result) outcome" where
  "open_source_target B target c =
     (let D = bk_device B;
          go = (\<lambda>channel_id c. (Inr Silent, with_app (case st_thread_id target of
              Some t \<Rightarrow> (case st_focus target of Some f \<Rightarrow> select_thread_with_focus D channel_id t f | None \<Rightarrow> select_thread D channel_id t)
            | None \<Rightarrow> select_channel D channel_id) c)) in
      case st_conversation_id target of
        Some v \<Rightarrow> (Inr Silent, with_app (case st_focus target of Some f \<Rightarrow> select_conversation_with_focus D v f
                    | None \<Rightarrow> select_conversation D v) c)
      | None \<Rightarrow>
          (case st_channel_id target of None \<Rightarrow> refuse ''Source channel is unavailable'' c
           | Some channel_id \<Rightarrow>
               if list_ex (\<lambda>ch. ci_id ch = channel_id) (sn_channels (ap_view (ct_app c))) then go channel_id c
               else (case st_channel_slug target of None \<Rightarrow> refuse ''Source channel is unavailable'' c
                     | Some slug \<Rightarrow> call (join_channel (bk_env B) (actor_id c) slug) go c)))"

definition notifications_process :: "('s, 'k) backend \<Rightarrow> action \<Rightarrow> 's client \<Rightarrow> ('s, action_result) outcome" where
  "notifications_process B action c =
     (let E = bk_env B; me = actor_id c in
      case action of
        AListMentions \<Rightarrow> say (gets (list_mentions me 50)) (\<lambda>rows. ListResult (mentions_modal rows)) c
      | AListNotifications \<Rightarrow> show_notifications B Silent c
      | AOpenSourceTarget target \<Rightarrow> open_source_target B target c
      | AMarkNotificationRead i \<Rightarrow>
          call (mark_notification_read E me i) (then_show B ''Notifications marked read'') c
      | AArchiveNotifications \<Rightarrow> call (archive_notifications E me) (then_show B ''Notifications archived'') c
      | ASetTerminalNotifications on \<Rightarrow>
          say (set_terminal_notifications B me on)
            (\<lambda>_. Message (if on then lit ''Terminal notifications enabled'' else lit ''Terminal notifications disabled'')) c
      | AShowTerminalNotificationsStatus \<Rightarrow>
          say (terminal_notifications_enabled B me)
            (\<lambda>on. Message (if on then lit ''Terminal notifications are enabled'' else lit ''Terminal notifications are disabled'')) c
      | _ \<Rightarrow> unreachable c)"

definition audit_process :: "('s, 'k) backend \<Rightarrow> action \<Rightarrow> 's client \<Rightarrow> ('s, action_result) outcome" where
  "audit_process B action c =
     (case action of
        AListAudit \<Rightarrow>
          say (list_audit (bk_codec B) (actor_id c) 100) (\<lambda>rows. ModalMessage (format_audit (bk_formats B) rows)) c
      | _ \<Rightarrow> unreachable c)"

section \<open>Actions and refreshes\<close>

text \<open>
  The refresh reads the account again, for the interface only, and the snapshot of what is selected;
  when that fails the session ends. A panic ends the task of the session, which is no answer.
\<close>

definition fetch_refresh :: "('s, 'k::linorder) backend \<Rightarrow> refresh_inputs \<Rightarrow> 's client \<Rightarrow> ('s, account \<times> snapshot \<times> bool) outcome" where
  "fetch_refresh B inputs c =
     (let me = actor_id c; v = ri_view inputs in
      call (reload_account me) (\<lambda>account c.
      call (snapshot_with_history_limit (bk_env B) (bk_codec B) (bk_sqlite B) (dom (connections (ct_server c))) (ct_cache c) me
             (sn_channel_id v) (sn_thread_id v) (sn_conversation_id v) (ri_history_limit inputs)) (\<lambda>(sn, cache) c.
      call (terminal_notifications_enabled B me) (\<lambda>on c. (Inr (account, sn, on), c)) (c\<lparr>ct_cache := cache\<rparr>)) c) c)"

definition perform_refresh :: "('s, 'k::linorder) backend \<Rightarrow> 's client \<Rightarrow> ((err + unit) \<times> 's client) option" where
  "perform_refresh B c =
     (let inputs = refresh_inputs_of (ct_app c) in
      case fetch_refresh B inputs c of
        (Inl Panic, _) \<Rightarrow> None
      | (Inl e, c) \<Rightarrow> Some (Inl e, with_app (\<lambda>a. a\<lparr>ap_running := False\<rparr>) c)
      | (Inr (account, sn, on), c) \<Rightarrow>
          map_option (\<lambda>a. (Inr (), c\<lparr>ct_app := a\<rparr>)) (apply_refresh (bk_device B) inputs account sn on (ct_app c)))"

definition refresh_or_say :: "('s, 'k::linorder) backend \<Rightarrow> 's client \<Rightarrow> 's client option" where
  "refresh_or_say B c =
     (case perform_refresh B c of
        None \<Rightarrow> None
      | Some (Inr _, c) \<Rightarrow> Some c
      | Some (Inl e, c) \<Rightarrow>
          Some (with_app (set_banner_err (dv_now (bk_device B)) (lit ''refresh failed: '' @ error_text B e)) c))"

definition process_domain :: "('s, 'k::linorder) backend \<Rightarrow> action \<Rightarrow> 's client \<Rightarrow> ('s, action_result) outcome" where
  "process_domain B action c =
     (case action_domain_of action of
        App_domain \<Rightarrow>
          (if action = AOpenAccount then (Inr Silent, with_app (open_account_page (bk_device B)) c) else unreachable c)
      | Accounts_domain \<Rightarrow> accounts_process B action c
      | Channels_domain \<Rightarrow> channels_process B action c
      | Messages_domain \<Rightarrow> messages_process B action c
      | Notifications_domain \<Rightarrow> notifications_process B action c
      | Audit_domain \<Rightarrow> audit_process B action c
      | Feeds_domain \<Rightarrow> feeds_process B action c)"

definition show_outcome :: "('s, 'k) backend \<Rightarrow> err + action_result \<Rightarrow> 's app \<Rightarrow> 's app" where
  "show_outcome B result =
     (let t = dv_now (bk_device B) in
      case result of
        Inr Silent \<Rightarrow> id
      | Inr (Message m) \<Rightarrow> if starts_with (lit ''Invite code:'') m then set_banner_modal_ok t m else set_banner_ok t m
      | Inr (ModalMessage m) \<Rightarrow> set_banner_modal_ok t m
      | Inr (ListResult l) \<Rightarrow> set_banner_list t l
      | Inl e \<Rightarrow> set_banner_err t (error_text B e))"

definition process_action :: "('s, 'k::linorder) backend \<Rightarrow> action \<Rightarrow> 's client \<Rightarrow> ((err + unit) \<times> 's client) option" where
  "process_action B action c =
     (case process_domain B action c of
        (Inl Panic, _) \<Rightarrow> None
      | (result, c) \<Rightarrow>
          let c = with_app (show_outcome B result) c in
          map_option (\<lambda>c. (map_ok (\<lambda>_. ()) result, c)) (if refreshes_after action then refresh_or_say B c else Some c))"

section \<open>A frame\<close>

fun process_actions :: "('s, 'k::linorder) backend \<Rightarrow> action list \<Rightarrow> 's client \<Rightarrow> 's client option" where
  "process_actions B [] c = Some c"
| "process_actions B (x # xs) c =
     (case process_action B x c of None \<Rightarrow> None | Some (_, c) \<Rightarrow> process_actions B xs c)"

text \<open>
  \<open>announced\<close>: whether the server announced a change before the actions, \<open>later\<close>: after them; \<open>picture\<close>: drawing the interface; \<open>sent\<close>: whether the
  frame was sent, where a client that is too slow is no error. The answer is whether to quit.
\<close>

definition render_once :: "('s, 'k::linorder) backend \<Rightarrow> bool \<Rightarrow> bool \<Rightarrow> ('s app \<Rightarrow> err + 's app) \<Rightarrow> err option \<Rightarrow> pipeline \<times> 's client
    \<Rightarrow> ((err + bool) \<times> pipeline \<times> 's client) option" where
  "render_once B announced later picture sent = (\<lambda>(p, c).
     case frame_input (bk_device B) p (ct_app c) of None \<Rightarrow> None
     | Some (_, p, a) \<Rightarrow>
         let (refresh_requested, a) = take_refresh_requested a;
             (actions, a) = take_actions a;
             c = c\<lparr>ct_app := a\<rparr> in
         if \<not> ap_running a then Some (Inr True, p, c)
         else case process_actions B actions c of None \<Rightarrow> None
         | Some c \<Rightarrow>
             (case (if announced \<or> refresh_requested then refresh_or_say B c else Some c) of None \<Rightarrow> None
              | Some c \<Rightarrow>
                  let c = (if later then c else with_app (\<lambda>a. snd (take_refresh_requested a)) c) in
                  if \<not> ap_running (ct_app c) then Some (Inr True, p, c)
                  else case picture (ct_app c) of
                    Inl e \<Rightarrow> Some (Inl e, p, c)
                  | Inr a \<Rightarrow> Some (case sent of None \<Rightarrow> Inr False | Some e \<Rightarrow> Inl e, p, c\<lparr>ct_app := a\<rparr>)))"

section \<open>The task of a session\<close>

text \<open>
  Around its frames a session is present: it begins when its account is set up, tells the server that it
  is still there, and ends with the session, whether the user quit or an error ended it.
\<close>

record 's session =
  ss_client :: "'s client"
  ss_pipeline :: pipeline
  ss_presence :: "str option"
  ss_open :: bool

definition be_present :: "('s, 'k) backend \<Rightarrow> bool \<Rightarrow> 's session \<Rightarrow> 's session" where
  "be_present B beat_due t =
     (let E = bk_env B; c = ss_client t; me = actor_id c;
          t = (if ss_presence t = None \<and> ac_activated (ap_account (ct_app c)) then
                 (let (r, sv) = begin_account_session E me (ct_server c)
                  in t\<lparr>ss_client := c\<lparr>ct_server := sv\<rparr>, ss_presence := (case r of Inl _ \<Rightarrow> None | Inr i \<Rightarrow> Some i)\<rparr>)
               else t);
          c = ss_client t
      in case ss_presence t of
           Some i \<Rightarrow> if beat_due then t\<lparr>ss_client := c\<lparr>ct_server := snd (on_db (touch_account_session E me i) (ct_server c))\<rparr>\<rparr> else t
         | None \<Rightarrow> t)"

definition start_session :: "('s, 'k) backend \<Rightarrow> pipeline \<Rightarrow> 's client \<Rightarrow> 's session" where
  "start_session B p c = be_present B False \<lparr>ss_client = c, ss_pipeline = p, ss_presence = None, ss_open = True\<rparr>"

definition leave :: "('s, 'k) backend \<Rightarrow> 's session \<Rightarrow> 's session" where
  "leave B t =
     (let c = ss_client t; t = t\<lparr>ss_open := False\<rparr> in
      case ss_presence t of None \<Rightarrow> t
      | Some i \<Rightarrow> t\<lparr>ss_client := c\<lparr>ct_server :=
          snd (end_presence_session (bk_env B) (actor_id c) i (ct_server c))\<rparr>\<rparr>)"

definition session_turn :: "('s, 'k::linorder) backend \<Rightarrow> bool \<Rightarrow> bool \<Rightarrow> bool \<Rightarrow> ('s app \<Rightarrow> err + 's app) \<Rightarrow> err option \<Rightarrow> 's session \<Rightarrow> 's session option" where
  "session_turn B beat_due announced later picture sent t =
     (if \<not> ss_open t then Some t
      else let t = be_present B beat_due t in
      case render_once B announced later picture sent (ss_pipeline t, ss_client t) of None \<Rightarrow> None
      | Some (quit, p, c) \<Rightarrow>
          let t = t\<lparr>ss_pipeline := p, ss_client := c\<rparr>
          in Some (if quit = Inr False then t else leave B t))"

section \<open>A session acts for its account\<close>

fun message_actor :: "message_request \<Rightarrow> str" where
  "message_actor (CreateThread a _ _) = a" | "message_actor (AddComment a _ _) = a" | "message_actor (EditThread a _ _ _) = a"
| "message_actor (RenameThread a _ _) = a" | "message_actor (DeleteThread a _) = a" | "message_actor (SetThreadArchived a _ _) = a"
| "message_actor (SetThreadPinned a _ _) = a" | "message_actor (SetThreadMuted a _ _) = a" | "message_actor (SetThreadSaved a _ _) = a"
| "message_actor (MarkThreadRead a _) = a" | "message_actor (MarkThreadUnread a _) = a" | "message_actor (UpdateComment a _ _ _) = a"
| "message_actor (DeleteComment a _ _) = a" | "message_actor (SaveComment a _ _ _) = a" | "message_actor (OpenDm a _) = a"
| "message_actor (SendDm a _ _) = a" | "message_actor (UpdateDm a _ _ _) = a" | "message_actor (DeleteDm a _ _) = a"
| "message_actor (SaveDm a _ _ _) = a" | "message_actor (SetConversationMuted a _ _) = a" | "message_actor (SetConversationSaved a _ _) = a"
| "message_actor (MarkConversationRead a _) = a" | "message_actor (MarkConversationUnread a _) = a"
| "message_actor (ReactToThread a _ _ _) = a" | "message_actor (ReactToComment a _ _ _ _) = a" | "message_actor (ReactToDm a _ _ _ _) = a"
| "message_actor (MarkNotificationRead a _) = a" | "message_actor (ArchiveNotifications a) = a"

fun channel_actor :: "channel_request \<Rightarrow> str" where
  "channel_actor (CreateChannel a _ _) = a" | "channel_actor (JoinChannel a _) = a" | "channel_actor (AddChannelMember a _ _) = a"
| "channel_actor (RemoveChannelMember a _ _) = a" | "channel_actor (LeaveChannel a _) = a" | "channel_actor (RenameChannel a _ _) = a"
| "channel_actor (SetChannelTopic a _ _) = a" | "channel_actor (SetChannelArchived a _ _) = a"

text \<open>Bootstrap tokens and logins are nobody's requests.\<close>

fun account_actor :: "account_request \<Rightarrow> str option" where
  "account_actor (SetUserDisabled a _ _) = Some a" | "account_actor (SetUserRole a _ _) = Some a" | "account_actor (RenameUser a _ _) = Some a"
| "account_actor (SetDisplayName a _ _) = Some a" | "account_actor (CreateDeviceLinkToken a _) = Some a"
| "account_actor (AddSshKey a _ _ _) = Some a" | "account_actor (LabelSshKey a _ _) = Some a" | "account_actor (RevokeSshKey a _) = Some a"
| "account_actor CreateBootstrapToken = None" | "account_actor (CreateInvite a _ _) = Some a" | "account_actor (RevokeInvite a _) = Some a"
| "account_actor (LookupKey _) = None" | "account_actor (RedeemToken _ _ _ _) = None" | "account_actor (CompleteOnboarding a _) = Some a"
| "account_actor (TouchAccount a) = Some a" | "account_actor (TouchSession a _) = Some a" | "account_actor (EndSession a _) = Some a"

fun request_actor :: "request \<Rightarrow> str option" where
  "request_actor (MessageRequest q) = Some (message_actor q)"
| "request_actor (ChannelRequest q) = Some (channel_actor q)"
| "request_actor (AccountRequest q) = account_actor q"

text \<open>What an account can do to the database: its own requests, its own settings, and letting time pass.\<close>

inductive acts :: "('s, 'k) backend \<Rightarrow> str \<Rightarrow> world \<Rightarrow> world \<Rightarrow> bool" for B i where
  request: "request_actor q = Some i \<Longrightarrow> acts B i s (snd (run_tx (handle (bk_env B) q) s))"
| settings: "acts B i s (snd (run_tx (set_terminal_notifications B i on) s))"
| clock: "tick s \<le> n \<Longrightarrow> acts B i s (s\<lparr>tick := n\<rparr>)"

definition own :: "('s, 'k) backend \<Rightarrow> str \<Rightarrow> 'a wtx \<Rightarrow> bool" where
  "own B i m \<longleftrightarrow> (\<forall>s. (acts B i)\<^sup>*\<^sup>* s (snd (run_tx m s)))"

lemma own_unit_of [simp]: "own B i (unit_of m) = own B i m"
proof -
  have "snd (run_tx (unit_of m) s) = snd (run_tx m s)" for s
    by (auto simp: run_tx_def unit_of_def bnd_def ret_def split: sum.splits)
  then show ?thesis by (simp add: own_def)
qed

lemma own_handle: "request_actor q = Some i \<Longrightarrow> own B i (handle (bk_env B) q)"
  unfolding own_def by (blast intro: acts.request)

lemma own_reads: "(\<And>s. reads s m (\<lambda>_. True)) \<Longrightarrow> own B i m"
  unfolding own_def run_tx_def
  by (auto intro: acts.clock dest!: reads_later split: sum.splits)

lemma own_settings: "own B i (set_terminal_notifications B i on)"
  unfolding own_def by (blast intro: acts.settings)

named_theorems own_calls \<open>calls that a session makes for its own account\<close>

lemmas own_message_calls [own_calls] =
  own_handle [of "MessageRequest (CreateThread i x y)" i for i x y, simplified]
  own_handle [of "MessageRequest (AddComment i x y)" i for i x y, simplified]
  own_handle [of "MessageRequest (RenameThread i x y)" i for i x y, simplified]
  own_handle [of "MessageRequest (DeleteThread i x)" i for i x, simplified]
  own_handle [of "MessageRequest (SetThreadArchived i x y)" i for i x y, simplified]
  own_handle [of "MessageRequest (SetThreadPinned i x y)" i for i x y, simplified]
  own_handle [of "MessageRequest (SetThreadMuted i x y)" i for i x y, simplified]
  own_handle [of "MessageRequest (MarkThreadRead i x)" i for i x, simplified]
  own_handle [of "MessageRequest (MarkThreadUnread i x)" i for i x, simplified]
  own_handle [of "MessageRequest (UpdateComment i x y z)" i for i x y z, simplified]
  own_handle [of "MessageRequest (DeleteComment i x y)" i for i x y, simplified]
  own_handle [of "MessageRequest (SaveComment i x y z)" i for i x y z, simplified]
  own_handle [of "MessageRequest (OpenDm i x)" i for i x, simplified]
  own_handle [of "MessageRequest (SendDm i x y)" i for i x y, simplified]
  own_handle [of "MessageRequest (UpdateDm i x y z)" i for i x y z, simplified]
  own_handle [of "MessageRequest (DeleteDm i x y)" i for i x y, simplified]
  own_handle [of "MessageRequest (SaveDm i x y z)" i for i x y z, simplified]
  own_handle [of "MessageRequest (SetConversationMuted i x y)" i for i x y, simplified]
  own_handle [of "MessageRequest (MarkConversationRead i x)" i for i x, simplified]
  own_handle [of "MessageRequest (MarkConversationUnread i x)" i for i x, simplified]
  own_handle [of "MessageRequest (ReactToThread i x y z)" i for i x y z, simplified]
  own_handle [of "MessageRequest (ReactToComment i x y z u)" i for i x y z u, simplified]
  own_handle [of "MessageRequest (ReactToDm i x y z u)" i for i x y z u, simplified]
  own_handle [of "MessageRequest (MarkNotificationRead i x)" i for i x, simplified]
  own_handle [of "MessageRequest (ArchiveNotifications i)" i for i, simplified]

lemmas own_channel_calls [own_calls] =
  own_handle [of "ChannelRequest (CreateChannel i x y)" i for i x y, simplified]
  own_handle [of "ChannelRequest (JoinChannel i x)" i for i x, simplified]
  own_handle [of "ChannelRequest (AddChannelMember i x y)" i for i x y, simplified]
  own_handle [of "ChannelRequest (RemoveChannelMember i x y)" i for i x y, simplified]
  own_handle [of "ChannelRequest (LeaveChannel i x)" i for i x, simplified]
  own_handle [of "ChannelRequest (RenameChannel i x y)" i for i x y, simplified]
  own_handle [of "ChannelRequest (SetChannelTopic i x y)" i for i x y, simplified]
  own_handle [of "ChannelRequest (SetChannelArchived i x y)" i for i x y, simplified]

lemmas own_account_calls [own_calls] =
  own_handle [of "AccountRequest (SetUserDisabled i x y)" i for i x y, simplified]
  own_handle [of "AccountRequest (SetUserRole i x y)" i for i x y, simplified]
  own_handle [of "AccountRequest (RenameUser i x y)" i for i x y, simplified]
  own_handle [of "AccountRequest (SetDisplayName i x y)" i for i x y, simplified]
  own_handle [of "AccountRequest (CreateDeviceLinkToken i x)" i for i x, simplified]
  own_handle [of "AccountRequest (AddSshKey i x y z)" i for i x y z, simplified]
  own_handle [of "AccountRequest (LabelSshKey i x y)" i for i x y, simplified]
  own_handle [of "AccountRequest (RevokeSshKey i x)" i for i x, simplified]
  own_handle [of "AccountRequest (CreateInvite i x y)" i for i x y, simplified]
  own_handle [of "AccountRequest (RevokeInvite i x)" i for i x, simplified]
  own_handle [of "AccountRequest (CompleteOnboarding i x)" i for i x, simplified]
  own_handle [of "AccountRequest (TouchSession i x)" i for i x, simplified]
  own_handle [of "AccountRequest (EndSession i x)" i for i x, simplified]

lemma own_create_invite [own_calls]: "own B i (create_invite (bk_env B) i)"
  unfolding create_invite_def by (rule own_calls)

declare own_settings [own_calls]

section \<open>Requests that only read\<close>

text \<open>\<open>calm\<close>: \<open>reads\<close>, from anywhere and of anything.\<close>

definition calm :: "'a wtx \<Rightarrow> bool" where
  "calm m \<longleftrightarrow> (\<forall>s. reads s m (\<lambda>_. True))"

named_theorems calm_intros \<open>requests that only read\<close>

lemma calm_bnd [calm_intros]: "calm m \<Longrightarrow> (\<And>x. calm (f x)) \<Longrightarrow> calm (bnd m f)"
  by (auto simp: calm_def intro: reads_bnd)

lemma calm_thn [calm_intros]: "calm m \<Longrightarrow> calm n \<Longrightarrow> calm (thn m n)"
  unfolding thn_def by (rule calm_bnd)

lemma calm_leaves [calm_intros]: "calm (ret x)" "calm (fail e)" "calm (gets f)" "calm (draw h)" "calm (lift_res r)"
  by (auto simp: calm_def intro!: reads_ret reads_fail reads_gets reads_draw reads_lift_res)

lemma calm_now [calm_intros]: "calm (now E)"
  unfolding now_def by (rule calm_leaves)

lemma calm_ensure [calm_intros]: "calm (ensure b e)"
  by (simp add: ensure_def calm_leaves)

lemma calm_some_or [calm_intros]: "calm (some_or x e)"
  by (cases x) (simp_all add: some_or_def calm_leaves)

lemma calm_same: "same (\<lambda>s. s) m \<Longrightarrow> calm m"
  by (simp add: calm_def reads_same)

lemma calm_lookups [calm_intros]:
  "calm (require_admin_tx i)" "calm (load_channel_by_slug_tx E u)" "calm (ensure_can_manage_channel i ch)" "calm (reload_account i)"
  by (auto intro!: calm_same same_intros)

lemma calm_settings [calm_intros]: "calm (terminal_notifications_enabled B i)"
  unfolding terminal_notifications_enabled_def account_settings_def by (intro calm_intros)

lemma calm_list_calls [calm_intros]:
  "calm (list_accounts E C i)" "calm (list_ssh_keys E C i)" "calm (list_invites C i)" "calm (list_audit C i l)"
  "calm (list_channel_members E C i slug)" "calm (list_channels C i b)"
  unfolding list_accounts_def list_accounts_page_def list_ssh_keys_def list_ssh_keys_page_def list_invites_def list_invites_page_def
    list_audit_def list_audit_page_def list_channel_members_def list_channel_members_page_def list_channels_def list_channels_page_def
  by (intro calm_intros)+

lemma calm_page_calls [calm_intros]:
  "calm (list_notifications_page C i r)" "calm (saved_page B i r)" "calm (label_page B i tag r)"
  unfolding list_notifications_page_def saved_page_def label_page_def by (intro calm_intros)+

lemma calm_search [calm_intros]: "calm (search_visible_page E C Q i query r)"
  unfolding search_visible_page_def Let_def by (intro calm_intros, auto split: option.split intro!: calm_intros)

lemma calm_next_unread [calm_intros]: "calm (next_unread E i)"
  unfolding next_unread_def by (intro calm_bnd calm_now calm_leaves, auto split: list.split intro!: calm_intros)

lemma calm_snapshot [calm_intros]: "calm (snapshot_with_history_limit E C Q connected cache i ch th v limit)"
  unfolding calm_def by (blast intro: reads_mono [OF reads_snapshot])

lemma own_calm: "calm m \<Longrightarrow> own B i m"
  unfolding calm_def by (rule own_reads) blast

lemmas own_reading_calls [own_calls] =
  calm_leaves [THEN own_calm] calm_settings [THEN own_calm] calm_list_calls [THEN own_calm] calm_page_calls [THEN own_calm]
  calm_search [THEN own_calm] calm_next_unread [THEN own_calm] calm_snapshot [THEN own_calm] calm_lookups [THEN own_calm]


section \<open>What an action leaves\<close>

text \<open>
  \<open>fine\<close>: the session is still that of the same account, the connections are as they were, and all that
  happened to the database is what the account itself could have asked for.
\<close>

definition fine :: "('s, 'k) backend \<Rightarrow> 's client \<Rightarrow> 's client \<Rightarrow> bool" where
  "fine B c c' \<longleftrightarrow> ct_account c' = ct_account c \<and> connections (ct_server c') = connections (ct_server c)
     \<and> (acts B (actor_id c))\<^sup>*\<^sup>* (db (ct_server c)) (db (ct_server c'))"

named_theorems fine_intros \<open>steps of a session that leave it fine\<close>

lemma fine_refl [simp, fine_intros]: "fine B c c"
  by (simp add: fine_def)

lemma fine_actor: "fine B c c' \<Longrightarrow> actor_id c' = actor_id c"
  by (simp add: fine_def actor_id_def)

lemma fine_trans: "fine B c d \<Longrightarrow> fine B d e \<Longrightarrow> fine B c e"
  by (auto simp: fine_def actor_id_def)

lemma fine_with_app [simp, fine_intros]: "fine B c (with_app f c)"
  by (simp add: fine_def with_app_def)

lemma fine_app [simp]: "fine B c (c\<lparr>ct_app := a\<rparr>)"
  by (simp add: fine_def)

lemma fine_cache [simp]: "fine B c (c\<lparr>ct_cache := h\<rparr>)"
  by (simp add: fine_def)

lemma fine_refuse [simp, fine_intros]: "fine B c (snd (refuse e c))" "fine B c (snd (unreachable c))"
  by (simp_all add: refuse_def unreachable_def)

lemma fine_call [fine_intros]:
  assumes "own B (actor_id c) m" and "\<And>x d. fine B c d \<Longrightarrow> fine B d (snd (k x d))"
  shows "fine B c (snd (call m k c))"
proof -
  obtain r sv where on: "on_db m (ct_server c) = (r, sv)" by fastforce
  have step: "fine B c (c\<lparr>ct_server := sv\<rparr>)"
    using assms(1) on by (auto simp: fine_def own_def on_db_def split: prod.splits) (metis snd_conv)
  with assms(2) [OF step] show ?thesis by (cases r) (auto simp: call_def on intro: fine_trans)
qed

lemma fine_say [fine_intros]: "own B (actor_id c) m \<Longrightarrow> fine B c (snd (say m f c))"
  unfolding say_def by (intro fine_call) simp_all

lemma fine_silently [fine_intros]: "own B (actor_id c) m \<Longrightarrow> fine B c (snd (silently m c))"
  unfolding silently_def by (rule fine_say)

lemma fine_with_thread [fine_intros]: "(\<And>t. fine B c (snd (f t c))) \<Longrightarrow> fine B c (snd (with_thread f c))"
  by (simp add: with_thread_def split: option.split)

lemma fine_with_conversation [fine_intros]: "(\<And>v. fine B c (snd (f v c))) \<Longrightarrow> fine B c (snd (with_conversation f c))"
  by (simp add: with_conversation_def split: option.split)

lemma fine_with_slug [fine_intros]: "(\<And>s. fine B c (snd (f s c))) \<Longrightarrow> fine B c (snd (with_slug slug f c))"
  by (simp add: with_slug_def split: option.split)

lemma fine_on_either [fine_intros]:
  "(\<And>v. fine B c (snd (f v c))) \<Longrightarrow> (\<And>t. fine B c (snd (g t c))) \<Longrightarrow> fine B c (snd (on_either e f g c))"
  by (simp add: on_either_def split: option.split)

lemma fine_accounts [fine_intros]: "fine B c (snd (accounts_process B action c))"
proof -
  have "fine B c (snd (save_settings B username display_name c))" for username display_name
    unfolding save_settings_def Let_def
    by (auto split: sum.split intro!: fine_call own_calls dest!: fine_actor)
  then show ?thesis
    unfolding accounts_process_def by (cases action) (simp_all add: fine_say own_calls)
qed

lemma fine_channels [fine_intros]: "fine B c (snd (channels_process B action c))"
  unfolding channels_process_def Let_def by (cases action) (simp_all add: fine_intros own_calls)


lemma fine_message_actions [fine_intros]:
  "fine B c (snd (create_thread_action B title c))" "fine B c (snd (add_comment_action B body c))"
  "fine B c (snd (send_dm_action B body c))" "fine B c (snd (react_or_unreact B emoji index remove c))"
  "fine B c (snd (next_unread_action B c))"
  unfolding create_thread_action_def add_comment_action_def send_dm_action_def react_or_unreact_def next_unread_action_def Let_def
  by (auto split: option.split next_unread.split intro!: fine_call fine_silently own_calls)

lemma fine_messages [fine_intros]: "fine B c (snd (messages_process B action c))"
  unfolding messages_process_def Let_def
  by (cases action; simp only: action.case; (intro fine_intros own_calls)?) simp_all

lemma fine_then_app: "fine B c (snd p) \<Longrightarrow> fine B c (snd (case p of (r, d) \<Rightarrow> (r, with_app f d)))"
  by (cases p) (auto intro: fine_trans)

lemma fine_load_more [fine_intros]: "fine B c (snd (process_load_more B request c))"
proof -
  have append: "fine B c (snd (append_page r m f c))" if "own B (actor_id c) m" for r m f
    unfolding append_page_def using that by (auto intro!: fine_call)
  show ?thesis
    unfolding process_load_more_def Let_def
    by (auto split: option.split load_more_request.split intro!: fine_then_app append own_calls)
qed

lemma fine_feeds [fine_intros]: "fine B c (snd (feeds_process B action c))"
  unfolding feeds_process_def Let_def
  by (cases action) (auto split: option.split intro!: fine_load_more fine_call own_calls)

lemma fine_notifications [fine_intros]: "fine B c (snd (notifications_process B action c))"
proof -
  have page: "fine B d (snd (show_notifications B r d))" for r d
    unfolding show_notifications_def by (auto intro!: fine_call own_calls)
  have again: "fine B d (snd (then_show B e u d))" for e u d
    by (simp add: then_show_def page)
  have source: "fine B c (snd (open_source_target B target c))" for target
    unfolding open_source_target_def Let_def by (auto split: option.split intro!: fine_call own_calls)
  show ?thesis
    unfolding notifications_process_def Let_def
    by (cases action) (auto intro!: page again source fine_call fine_say own_calls)
qed

lemma fine_audit [fine_intros]: "fine B c (snd (audit_process B action c))"
  unfolding audit_process_def by (cases action) (auto intro!: fine_say own_calls)

lemma fine_domain: "fine B c (snd (process_domain B action c))"
  unfolding process_domain_def by (auto split: action_domain.split intro!: fine_intros)

lemma fine_fetch: "fine B c (snd (fetch_refresh B inputs c))"
proof -
  have cached: "fine B d (snd (call m k (d\<lparr>ct_cache := h\<rparr>)))"
    if "own B (actor_id d) m" "\<And>x e. snd (k x e) = e" for d and m :: "bool wtx" and k :: "bool \<Rightarrow> 'a client \<Rightarrow> ('a, account \<times> snapshot \<times> bool) outcome" and h
    using that by (intro fine_trans [OF fine_cache fine_call]) (simp_all add: actor_id_def)
  show ?thesis
    unfolding fetch_refresh_def Let_def
    by (auto intro!: fine_call cached own_calls dest!: fine_actor split: prod.split)
qed

lemma fine_perform: "perform_refresh B c = Some (r, d) \<Longrightarrow> fine B c d"
  using fine_fetch [of B c "refresh_inputs_of (ct_app c)"]
  by (auto simp: perform_refresh_def Let_def split: prod.splits sum.splits err.splits option.splits
      intro: fine_trans [OF _ fine_app] fine_trans [OF _ fine_with_app])

lemma fine_refresh: "refresh_or_say B c = Some d \<Longrightarrow> fine B c d"
proof (cases "perform_refresh B c")
  case (Some x)
  moreover obtain r e where "x = (r, e)" by fastforce
  moreover assume "refresh_or_say B c = Some d"
  ultimately have "fine B c e" and "d = e \<or> (\<exists>f. d = with_app f e)"
    by (auto simp: refresh_or_say_def fine_perform split: sum.splits)
  then show ?thesis by (auto intro: fine_trans [OF _ fine_with_app])
qed (simp add: refresh_or_say_def)

lemma fine_action:
  assumes "process_action B action c = Some (r, d)"
  shows "fine B c d"
proof -
  obtain result e where domain: "process_domain B action c = (result, e)" by fastforce
  let ?e = "with_app (show_outcome B result) e"
  have "if refreshes_after action then refresh_or_say B ?e = Some d else d = ?e"
    using assms domain by (auto simp: process_action_def Let_def split: sum.splits err.splits if_splits)
  then have "fine B ?e d" by (auto split: if_splits intro: fine_refresh)
  moreover have "fine B c e" using fine_domain [of B c action] domain by simp
  ultimately show ?thesis by (blast intro: fine_trans fine_with_app)
qed

lemma fine_actions: "process_actions B xs c = Some d \<Longrightarrow> fine B c d"
  by (induction xs arbitrary: c) (auto split: option.splits intro: fine_trans dest!: fine_action)

lemma fine_frame:
  assumes "render_once B announced later picture sent (p, c) = Some (r, p', c')"
  shows "fine B c c'"
proof -
  have app: "fine B c d \<Longrightarrow> fine B c (d\<lparr>ct_app := a\<rparr>)" "fine B c d \<Longrightarrow> fine B c (with_app f d)" for d a f
    by (auto intro: fine_trans)
  have acted: "fine B c d" if "process_actions B xs (c\<lparr>ct_app := a\<rparr>) = Some d" for xs a d
    using fine_actions [OF that] by (rule fine_trans [OF fine_app])
  have shown: "fine B c e" if "fine B c d" "(if b then refresh_or_say B d else Some d) = Some e" for b d e
    using that by (auto split: if_splits intro: fine_trans fine_refresh)
  show ?thesis
    using assms unfolding render_once_def Let_def
    by (auto split: option.splits prod.splits if_splits sum.splits intro!: app intro: shown acted fine_refresh fine_trans [OF acted])
qed

text \<open>
  C40: In a whole frame, whatever was typed and whatever else happens, a session makes no request but as
  the account that logged in: the database changes only by requests that this account could make itself, by
  its own setting and by the clock, and the account of the session and the connections stay as they are.
\<close>

theorem acts_for_itself:
  assumes "render_once B announced later picture sent (p, c) = Some (r, p', c')"
  shows "ct_account c' = ct_account c \<and> connections (ct_server c') = connections (ct_server c)
    \<and> (acts B (actor_id c))\<^sup>*\<^sup>* (db (ct_server c)) (db (ct_server c'))"
  using fine_frame [OF assms] by (simp add: fine_def)


section \<open>A session whose account is disabled\<close>

lemma allowed_account_enabled:
  assumes "account_actor q = Some i" "allowed_account E q s" "\<not> enabled i s"
  shows "q = TouchAccount i \<or> (\<exists>x. q = TouchSession i x) \<or> (\<exists>x. q = EndSession i x)"
  using assms
  by (cases q) (auto simp: enabled_def active_def admin_def manages_account_def self_or_managed_def split: option.splits)

lemma allowed_channel_enabled: "allowed_channel E q s \<Longrightarrow> enabled (channel_actor q) s"
  by (cases q) (auto simp: enabled_def active_def manages_def)

lemma disabled_row: "\<not> enabled i s \<Longrightarrow> fetch_last (\<lambda>a. a_id a = i \<and> a_disabled_at a = None) (accounts s) = None"
  by (cases "fetch_last (\<lambda>a. a_id a = i \<and> a_disabled_at a = None) (accounts s)")
    (auto simp: enabled_def dest!: fetch_last_SomeD)

lemma presence_of_disabled: "\<not> enabled i s \<Longrightarrow> record_presence E i x b s = Inr ((), s)"
  by (auto simp: record_presence_def enabled_def bnd_def gets_def ret_def split: option.splits dest!: fetch_last_SomeD)

text \<open>Nothing that a disabled account can do enables it again.\<close>

lemma acts_disabled:
  assumes "acts B i s t" "\<not> enabled i s"
  shows "\<not> enabled i t"
  using assms
proof (cases rule: acts.cases)
  case (request q)
  show ?thesis
  proof (cases q)
    case (MessageRequest m)
    have "accounts (snd (run_tx (message_handler (bk_env B) m) s)) = accounts s"
      using sameD [OF same_messages [of accounts], of "bk_env B" m s]
      by (auto simp: run_tx_def message_blind_def blind_def split: sum.splits prod.splits)
    with request MessageRequest assms(2) show ?thesis by (simp add: enabled_def)
  next
    case (ChannelRequest m)
    then have "\<not> allowed_channel (bk_env B) m s"
      using allowed_channel_enabled [of "bk_env B" m s] request assms(2) by auto
    then have "wp (channel_handler (bk_env B) m) (\<lambda>_ _. False) s" by (auto intro: wp_mono [OF channel_allowed])
    with request ChannelRequest assms(2) show ?thesis
      by (auto simp: run_tx_def wp_def split: sum.splits)
  next
    case (AccountRequest m)
    show ?thesis
    proof (cases "\<exists>x b. account_handler (bk_env B) m = record_presence (bk_env B) i x b")
      case True
      with request AccountRequest assms(2) show ?thesis
        by (auto simp: run_tx_def presence_of_disabled)
    next
      case False
      then have "\<not> allowed_account (bk_env B) m s"
        using allowed_account_enabled [of m i "bk_env B" s] request AccountRequest assms(2)
        by (auto simp: touch_account_def touch_account_session_def) blast+
      then have "wp (account_handler (bk_env B) m) (\<lambda>_ _. False) s" by (auto intro: wp_mono [OF account_allowed])
      with request AccountRequest assms(2) show ?thesis
        by (auto simp: run_tx_def wp_def split: sum.splits)
    qed
  qed
next
  case (settings on)
  have "wp (set_terminal_notifications B i on) (\<lambda>_ _. False) s"
    using assms(2) by (auto simp: set_terminal_notifications_def account_settings_def disabled_row wp_simps wp_some_or)
  with settings assms(2) show ?thesis by (auto simp: run_tx_def wp_def split: sum.splits)
qed (simp add: enabled_def)

lemma disabled_stays:
  assumes "fine B c d" "\<not> enabled (actor_id c) (db (ct_server c))"
  shows "\<not> enabled (actor_id c) (db (ct_server d))"
proof -
  have "(acts B (actor_id c))\<^sup>*\<^sup>* (db (ct_server c)) (db (ct_server d))" using assms(1) by (simp add: fine_def)
  then show ?thesis using assms(2) by (induction rule: rtranclp_induct) (auto dest: acts_disabled)
qed

lemma disabled_not_reloaded: "\<not> enabled i s \<Longrightarrow> run_tx (reload_account i) s = (Inl NoRows, s)"
  by (simp add: run_tx_def reload_account_def fetch_one_def disabled_row bnd_def gets_def some_or_def fail_def)

lemma disabled_refresh:
  assumes "\<not> enabled (actor_id c) (db (ct_server c))"
  shows "\<exists>d. refresh_or_say B c = Some d \<and> \<not> ap_running (ct_app d) \<and> ct_server d = ct_server c"
proof -
  have "fetch_refresh B i c = (Inl NoRows, c)" for i
    using disabled_not_reloaded [OF assms] by (simp add: fetch_refresh_def Let_def call_def on_db_def)
  then show ?thesis
    by (auto simp: refresh_or_say_def perform_refresh_def Let_def with_app_def set_banner_err_def with_ui_def)
qed

text \<open>
  A session whose account was disabled ends with the first frame that refreshes, and the refresh
  comes with the frame after the server announced the change. What the frame still did, its actions
  that were typed before, left the account disabled and was nothing but its own requests.
\<close>

theorem disabled_session_ends:
  assumes "\<not> enabled (actor_id c) (db (ct_server c))"
    and "render_once B True later picture sent (p, c) = Some (r, p', c')"
  shows "r = Inr True \<and> \<not> ap_running (ct_app c') \<and> \<not> enabled (actor_id c) (db (ct_server c'))"
proof -
  have acted: "\<not> enabled (actor_id d) (db (ct_server d))" if "process_actions B xs (c\<lparr>ct_app := a\<rparr>) = Some d" for xs a d
  proof -
    have "fine B c d" using fine_actions [OF that] by (rule fine_trans [OF fine_app])
    with disabled_stays [OF this assms(1)] show ?thesis by (simp add: fine_actor)
  qed
  have kept: "\<not> enabled (actor_id c) (db (ct_server c'))"
    using disabled_stays [OF _ assms(1), of B c'] fine_frame [OF assms(2)] by blast
  show ?thesis
    using assms(2) kept unfolding render_once_def Let_def
    by (auto split: option.splits prod.splits if_splits simp: with_app_def take_refresh_requested_def
        dest!: acted disabled_refresh [where B = B])
qed


section \<open>The settings that are saved\<close>

text \<open>
  Saving the settings compares them with the account as it was at the login, not as it is. Whatever the
  account is called by now, saving the name and the display name of the login again changes nothing and is
  answered with success.
\<close>

theorem settings_stale:
  assumes "ct_account c = account" and "normalize_username (e_lc (bk_env B)) (ac_username account) = Inr (ac_username account)"
    and "trim (sanitize_single_line_text (ac_display_name account)) = ac_display_name account"
    and "1 \<le> length (ac_display_name account)" "length (ac_display_name account) \<le> 80"
  shows "process_domain B (ASaveAccountSettings (ac_username account) (ac_display_name account)) c
    = (Inr (Message (lit ''Account settings saved'')), c)"
  using assms by (simp add: process_domain_def action_domain_of_def accounts_process_def save_settings_def)

section \<open>Bob's session\<close>

text \<open>
  Bob logged in as Rob, is called Bob since, and ann disabled him; his session still shows the conversation
  with her, and a message waits.
\<close>

definition demo_backend :: "(nat, nat) backend" where
  "demo_backend = \<lparr>bk_env = demo_env, bk_codec = demo_codec, bk_sqlite = demo_sqlite, bk_device = demo_device,
     bk_formats = \<lparr>fo_human = id, fo_json = (\<lambda>_. [])\<rparr>, bk_parse_key = (\<lambda>_. Inl Panic), bk_flag = (\<lambda>_. True),
     bk_with_flag = (\<lambda>_ s. s), bk_error_text = (\<lambda>_. [])\<rparr>"

definition rob :: account where
  "rob = (demo_account True)\<lparr>ac_id := [2019], ac_username := lit ''rob''\<rparr>"

definition demo_client :: "nat client" where
  "demo_client = \<lparr>ct_app = (new_app demo_device rob (empty_snapshot\<lparr>sn_conversation_id := Some [2038]\<rparr>))\<lparr>ap_actions := [ASendDm (lit ''hi'')]\<rparr>,
     ct_account = rob,
     ct_server = \<lparr>db = serve demo_env [AccountRequest (SetUserDisabled [2005] (lit ''bob'') True)] opened, connections = (\<lambda>_. None)\<rparr>,
     ct_cache = (\<lambda>_. None)\<rparr>"

lemma demo_disabled: "\<not> enabled [2019] (db (ct_server demo_client))"
  unfolding demo_client_def by (simp only: opened_eq) (simp add: run_defs enabled_def del: One_nat_def)

lemma demo_sends:
  "\<exists>x t. run_tx (send_dm demo_env [2019] [2038] (lit ''hi'')) (db (ct_server demo_client)) = (Inr x, t) \<and> messages t \<noteq> []"
  unfolding demo_client_def by (simp only: opened_eq) (simp add: run_defs del: One_nat_def)

theorem settings_stale_witness:
  "process_domain demo_backend (ASaveAccountSettings (lit ''rob'') (lit ''Ada'')) demo_client
      = (Inr (Message (lit ''Account settings saved'')), demo_client)
    \<and> (\<exists>a\<in>set (accounts (db (ct_server demo_client))). a_id a = actor_id demo_client \<and> a_username a = lit ''bob'')"
proof (rule conjI)
  show "process_domain demo_backend (ASaveAccountSettings (lit ''rob'') (lit ''Ada'')) demo_client
      = (Inr (Message (lit ''Account settings saved'')), demo_client)"
    using settings_stale [of demo_client rob demo_backend]
    by (simp add: demo_client_def rob_def demo_account_def demo_backend_def run_defs del: One_nat_def)
  show "\<exists>a\<in>set (accounts (db (ct_server demo_client))). a_id a = actor_id demo_client \<and> a_username a = lit ''bob''"
    unfolding demo_client_def actor_id_def rob_def by (simp only: opened_eq) (simp add: run_defs del: One_nat_def)
qed

text \<open>In the frame after the announcement the message is still sent, and then the session ends.\<close>

lemma demo_frame:
  "\<exists>p' c'. render_once demo_backend True False Inr None (new_pipeline, demo_client) = Some (Inr True, p', c') \<and> messages (db (ct_server c')) \<noteq> []"
proof -
  obtain x t where sent: "run_tx (send_dm demo_env [2019] [2038] (lit ''hi'')) (db (ct_server demo_client)) = (Inr x, t)" "messages t \<noteq> []"
    using demo_sends by blast
  let ?c = "demo_client\<lparr>ct_app := (ct_app demo_client)\<lparr>ap_refresh_requested := False, ap_actions := []\<rparr>\<rparr>"
  have actor: "actor_id ?c = [2019]" "ct_account demo_client = rob" by (simp_all add: actor_id_def demo_client_def rob_def)
  have "an_conversation_id (current_selection ?c) = Some [2038]"
    by (simp add: current_selection_def Let_def demo_client_def new_app_def Let_def empty_snapshot_def view_of_def snapshot.defs)
  then obtain f where domain: "process_domain demo_backend (ASendDm (lit ''hi'')) ?c = (Inr Silent, f)" "db (ct_server f) = t" "ct_account f = rob"
    using sent actor
    by (auto simp: process_domain_def action_domain_of_def messages_process_def send_dm_action_def call_def on_db_def Let_def
        demo_backend_def with_app_def)
  have gone: "\<not> enabled (actor_id d) (db (ct_server d))" if "db (ct_server d) = t" "ct_account d = rob" for d
  proof -
    have "acts demo_backend [2019] (db (ct_server demo_client)) t"
      using acts.request [of "MessageRequest (SendDm [2019] [2038] (lit ''hi''))" "[2019]" demo_backend "db (ct_server demo_client)"] sent(1)
      by (simp add: demo_backend_def)
    from acts_disabled [OF this demo_disabled] that show ?thesis by (simp add: actor_id_def rob_def)
  qed
  obtain d where refreshed: "refresh_or_say demo_backend (with_app (show_outcome demo_backend (Inr Silent)) f) = Some d"
      "\<not> ap_running (ct_app d)" "ct_server d = ct_server f"
    using disabled_refresh [OF gone, of "with_app (show_outcome demo_backend (Inr Silent)) f" demo_backend] domain by (auto simp: with_app_def)
  have kept: "ct_account d = rob" using fine_refresh [OF refreshed(1)] domain(3) by (simp add: fine_def with_app_def)
  obtain e where again: "refresh_or_say demo_backend d = Some e" "\<not> ap_running (ct_app e)" "ct_server e = ct_server d"
    using disabled_refresh [OF gone, of d demo_backend] domain refreshed kept by auto
  have acted: "process_actions demo_backend [ASendDm (lit ''hi'')] ?c = Some d"
    using domain(1) refreshed(1) by (simp add: process_action_def refreshes_after_def)
  have "render_once demo_backend True False Inr None (new_pipeline, demo_client)
      = Some (Inr True, new_pipeline, with_app (\<lambda>a. snd (take_refresh_requested a)) e)"
  proof -
    have idle: "frame_input demo_device new_pipeline (ct_app demo_client) = Some (False, new_pipeline, ct_app demo_client)"
    proof -
      have "drain_keys demo_device n [] a = Some ([], a)" "drain_wheel demo_device n [] a = Some ([], a)" for n and a :: "nat app"
        by (cases n; simp)+
      then show ?thesis by (simp add: frame_input_def new_pipeline_def max_keys_per_frame_def max_wheel_events_per_frame_def)
    qed
    have taken: "take_refresh_requested (ct_app demo_client) = (False, (ct_app demo_client)\<lparr>ap_refresh_requested := False\<rparr>)"
      "ap_actions (ct_app demo_client) = [ASendDm (lit ''hi'')]" "ap_running (ct_app demo_client)" "bk_device demo_backend = demo_device"
      by (simp_all add: take_refresh_requested_def demo_client_def new_app_def Let_def demo_backend_def)
    show ?thesis
      using acted again(1,2) by (simp add: render_once_def Let_def idle taken take_actions_def with_app_def) (simp add: take_refresh_requested_def)
  qed
  moreover have "db (ct_server (with_app (\<lambda>a. snd (take_refresh_requested a)) e)) = t"
    using again(3) refreshed(3) domain(2) by (simp add: with_app_def)
  ultimately show ?thesis using sent(2) by blast
qed

theorem acts_for_itself_witness:
  "\<exists>c' :: nat client. (acts demo_backend [2019])\<^sup>*\<^sup>* (db (ct_server demo_client)) (db (ct_server c')) \<and> messages (db (ct_server c')) \<noteq> []"
proof -
  obtain p' c' where "render_once demo_backend True False Inr None (new_pipeline, demo_client) = Some (Inr True, p', c')"
      "messages (db (ct_server c')) \<noteq> []"
    using demo_frame by blast
  moreover have "actor_id demo_client = [2019]" by (simp add: actor_id_def demo_client_def rob_def)
  ultimately show ?thesis
    using acts_for_itself [of demo_backend True False Inr None new_pipeline demo_client "Inr True" p' c'] by auto
qed

theorem disabled_session_ends_witness:
  "\<exists>c' :: nat client. \<not> ap_running (ct_app c') \<and> \<not> enabled [2019] (db (ct_server c')) \<and> messages (db (ct_server c')) \<noteq> []"
proof -
  obtain p' c' where frame: "render_once demo_backend True False Inr None (new_pipeline, demo_client) = Some (Inr True, p', c')"
      "messages (db (ct_server c')) \<noteq> []"
    using demo_frame by blast
  have actor: "actor_id demo_client = [2019]" by (simp add: actor_id_def demo_client_def rob_def)
  from disabled_session_ends [OF demo_disabled [folded actor] frame(1)] frame(2) show ?thesis by (auto simp: actor)
qed

end
