(* ===== verification/Spec2Isabelle.thy ===== *)
theory Spec2Isabelle
  imports Reading Auth Crypt Lease Client
begin

text \<open>
  sshoosh is a chat server that people reach over SSH. All of its state is a SQLite database;
  a request is a handler of \<open>ServerState\<close> (\<open>src/features/*/state.rs\<close>) that opens a transaction,
  checks permissions, issues SQL statements, and commits or is rolled back. Around it are the SSH
  server, which lets a key in and gives it a terminal, the interface that turns keys into actions,
  the session that carries the actions out as requests, and the layer below the statements that
  guards, seals and leases the database. This development models all of these and proves what holds
  in every state they can reach and what single requests, keys and frames do.

  \<^bold>\<open>Reading the model.\<close> A handler is a value of type \<open>'a wtx\<close>, a function from a \<open>world\<close> to an
  error or a result with the next world. \<open>bnd\<close> and \<open>thn\<close> sequence statements as \<open>await?\<close> does:
  the first error ends the handler and, as a dropped transaction is rolled back, an error
  carries no state. Handlers, guards and statements keep the names of the Rust functions.
  A \<open>world\<close> holds one list per table, in insertion order; nullable columns are options, columns
  with a CHECK list are datatypes, timestamps and identifiers are the strings the code stores.
  A Rust string is the list of its scalar values (\<open>str\<close>), an \<open>i64\<close> counter is an \<open>int\<close>, since
  no counter here can come near \<open>2 ^ 63\<close> before the database is full.

  \<^bold>\<open>Reading the interface.\<close> An operation that may slice a string inside a character, which panics
  in Rust, returns an option, \<open>None\<close> for the panic; a record \<open>app\<close> is what \<open>App\<close> keeps. The server and
  the sessions are machines: \<open>net\<close> of connections, \<open>seat\<close> of a queue and an interface, \<open>client\<close> of an
  interface and a server, \<open>cluster\<close> of nodes, each with a function that runs a list of events.

  \<^bold>\<open>Outside the repository.\<close> The record \<open>env\<close> stands for the clock, the UUID and random
  generators, SHA-256, Unicode lower-casing, and the \<open>time\<close> crate's formatting, parsing and
  arithmetic. Each reading of a clock or generator advances \<open>tick\<close>, so answers may differ from
  call to call. What theorems need of it is the hypothesis \<open>env_ok\<close>: lower-casing keeps lower-case
  ASCII, and identifiers hold no colon; that identifiers differ is the UNIQUE constraints' work.
  \<open>codec\<close> is the JSON and base64 of cursors, \<open>sqlite\<close> the full text search, \<open>crypto\<close> the cipher, with the
  laws \<open>crypto_ok\<close>, \<open>time_format\<close> how the lease writes an instant; \<open>scroller\<close>, the emoji table and the
  clock of an interface are in \<open>device\<close>; \<open>formats\<close> is the calendar and the text of JSON, and \<open>backend\<close> all
  that a session is given. An event of the interface reads its clock once. \<open>Scenario\<close>, \<open>Reading\<close> and the
  ends of the other theories give concrete instances, on which every hypothesis is shown to hold.

  \<^bold>\<open>The theories\<close>, each importing the ones before it:

    \<^item> \<open>Prelude\<close>: strings, transactions, SQL statements over lists, the weakest precondition \<open>wp\<close>,
      frames \<open>same\<close> and invariants \<open>keeps\<close> with the rule collections that carry them through a
      handler's text.
    \<^item> \<open>Text\<close>: \<open>features/shared/{name,label,utils,table}.rs\<close>: usernames, slugs, labels, mentions,
      sanitising, search queries, emoji. The locale \<open>lower_case\<close> is what is needed of a
      lower-casing function, interpreted with ASCII lower-casing.
    \<^item> \<open>Store\<close>, \<open>Tables\<close>: \<open>migrations/*.sql\<close> and the INSERT and UPSERT statements with their UNIQUE
      and FOREIGN KEY constraints; the event log and the audit log (\<open>events/db.rs\<close>).
    \<^item> \<open>Access\<close>: guards and loaders, \<open>features/shared/permissions.rs\<close> and \<open>loaders.rs\<close>.
    \<^item> \<open>Projections\<close>: what a message writes beside itself (\<open>events/db.rs\<close>): reactions, the search
      index, labels, mentions and notifications; that the two search tables stay in step and that
      nobody is notified of what they may not see.
    \<^item> \<open>Messages\<close>: threads, comments, direct messages and their readers (\<open>shared/write_ops.rs\<close>,
      \<open>messages/state.rs\<close>, \<open>messages/read_state.rs\<close>).
    \<^item> \<open>Counters\<close>, \<open>Conversations\<close>: the invariants of comment indexes, comment counts and unread
      counters of threads and of conversations, and that every handler keeps them.
    \<^item> \<open>Channels\<close>, \<open>Accounts\<close>: \<open>channels/state.rs\<close>, \<open>accounts/state.rs\<close> and the tokens, login and
      onboarding parts of \<open>system/state.rs\<close>.
    \<^item> \<open>Ownership\<close>: an active owner remains, usernames stay unique and with their first owner,
      everybody is in #general.
    \<^item> \<open>Notices\<close>: \<open>notifications/state.rs\<close>, presence rows and the in-memory connection counts of
      \<open>system/state.rs\<close>.
    \<^item> \<open>Service\<close>, \<open>Reachable\<close>: the datatype of requests, its dispatcher \<open>handle\<close>, the step relation
      \<open>step\<close> and the states \<open>reachable\<close> from the empty database; the invariants of the components
      put together by rule induction over it.
    \<^item> \<open>Tokens\<close>: the locale \<open>single_use\<close>, the contract of a table of tokens that work once,
      interpreted by the invite, bootstrap and device-link tables; a used token is refused ever after.
    \<^item> \<open>Policy\<close>: the permission policy as one predicate \<open>allowed\<close> on requests, which every committed
      request satisfies, and who may enter a private channel.
    \<^item> \<open>Delivery\<close>: what posting, reading and deleting do, row by row; whom a message notifies
      (\<open>notifies\<close>) and where the notifications point to (\<open>told\<close>).
    \<^item> \<open>Scenario\<close>: a concrete run from an empty database (accounts, channels, threads, comments,
      messages), on which the theorems are applied.
    \<^item> \<open>Paging\<close>, \<open>Keys\<close>, \<open>Numbers\<close>, \<open>Lists\<close>, \<open>Feeds\<close>: cursors and pages; the locale \<open>keyset\<close>, the
      contract between a list and its cursor, interpreted by every list of the service; search.
    \<^item> \<open>Snapshots\<close>, \<open>Fresh\<close>, \<open>Reading\<close>: the snapshot of the workspace, the cache of hot labels with the
      states \<open>serving\<close> that it and the database reach together, and what readers are promised: all of
      a list, and nothing outside the reader's places.
    \<^item> \<open>Utf8\<close>, \<open>Input\<close>: bytes to keys (\<open>app/input.rs\<close>), with words for bytes and coordinates.
    \<^item> \<open>Actions\<close>, \<open>Composer\<close>, \<open>Commands\<close>, \<open>Completion\<close>: the actions, the line editor with its
      refinement to an abstract editor, the command line (\<open>app/commands\<close>), the palette.
    \<^item> \<open>Screen\<close>, \<open>Lifecycle\<close>, \<open>Navigation\<close>, \<open>Handlers\<close>, \<open>Mouse\<close>, \<open>Sessions\<close>: the state of the interface
      (\<open>app/state.rs\<close>, \<open>app/mod.rs\<close>), what changes it (\<open>lifecycle.rs\<close>, \<open>navigation.rs\<close>, \<open>compose.rs\<close>,
      \<open>input_handlers.rs\<close>, \<open>util.rs\<close>), and the invariant that no sequence of events breaks.
    \<^item> \<open>Limits\<close>, \<open>Auth\<close>: the limits and penalties of the accept loop (\<open>ssh/server.rs\<close>) and the handler of
      a connection (\<open>ssh/session.rs\<close>), with the invariant of all connections together.
    \<^item> \<open>Guard\<close>, \<open>Crypt\<close>, \<open>Lease\<close>: which statements write (\<open>db/mutation.rs\<close>, \<open>db/executor.rs\<close>), what is
      sealed and opened (\<open>db/encryption.rs\<close>, \<open>db/query_encryption.rs\<close>), who is master (\<open>db/lease.rs\<close>).
    \<^item> \<open>Pipeline\<close>: the queues between the network and the interface (\<open>ssh/session.rs\<close>,
      \<open>ssh/render_loop.rs\<close>): order and progress of what was typed.
    \<^item> \<open>Output\<close>: listings and tables (\<open>output.rs\<close>, \<open>features/*/format.rs\<close>, \<open>time_format.rs\<close>).
    \<^item> \<open>Client\<close>: what every action does (\<open>features/*/actions.rs\<close>, \<open>ssh/actions.rs\<close>), a frame and the
      life of a session, and that it acts for its account alone.

  \<^bold>\<open>Bounds and termination.\<close> Every function is total. Loops over rows and text are structural, or
  have a measure where they skip a prefix; the loop of the input decoder is bounded by the bytes it
  has. No fuel stands for a loop that might not end. The limits of the source (rows of a page, history,
  queues, connections) are constants or fields of a configuration with the source's values.

  \<^bold>\<open>Not modelled.\<close> Drawing (\<open>src/app/render\<close>), escape sequences and colours (\<open>terminal.rs\<close>, \<open>color.rs\<close>); the
  command line and the daemon (\<open>src/cli\<close>, \<open>config.rs\<close>); opening, migrating and backing up databases, the
  encryption of old content, web hooks and the event poller; the protocol of the russh crate. Handlers
  run one after another, as SQLite's write transactions do, also between the requests of other
  sessions; a frame of \<open>Client\<close> is the frame of one session with no other in between. Three places are
  coarser than the source: \<open>snapshot_with_history_limit\<close> reads one state, where the source issues its
  queries one after another on the read pool, so a change between two of them is not represented;
  \<open>redeem_ssh_login_token_for_key\<close> runs its two transactions (device link, then invite or bootstrap) as
  one, the first of which writes nothing when the second is tried; and a failing read of the database
  is not modelled, so the \<open>unwrap_or(0)\<close> of the last event in \<open>load_hot_labels_cached\<close> has no counterpart.
\<close>

section \<open>What holds in every state the service reaches\<close>

text \<open>C1: Once an account has been activated, there is always an owner who is activated and not disabled.\<close>

theorem active_owner_always:
  assumes "reachable E s" "a \<in> set (accounts s)" "a_activated_at a \<noteq> None"
  shows "\<exists>w\<in>set (accounts s). active_owner w"
  using reachable_invariants(1) [OF assms(1)] assms(2,3)
  by (auto simp: bootstrap_ok_def owner_ok_def has_active_owner_def idle_def)

theorem active_owner_always_witness:
  "\<exists>w\<in>set (accounts team). active_owner w"
  by (rule active_owner_always [OF reachable_team, of "hd (accounts team)"]) (simp_all add: team_eq)

text \<open>C2: A request that commits had the permission the policy asks for, in the state it started from.\<close>

theorem commit_allowed:
  assumes "reachable E s" "handle E q s = Inr ((), t)"
  shows "allowed E q s"
  using wpD [OF handle_allowed assms(2)] reachable_invariants(2) [OF assms(1)]
  by (simp add: general_ok_def account_ids_ok_def)

theorem commit_allowed_witness:
  "allowed demo_env (AccountRequest (CreateInvite [2005] Member None)) founded"
  by (rule commit_allowed [OF reachable_founded run_invited])

text \<open>
  C3: Who becomes a member of a private channel was added by somebody who manages it, or
  created it.
\<close>

theorem private_membership:
  assumes "reachable E s" "handle E q s = Inr ((), t)"
    and "joined t (c_id ch) b" "\<not> joined s (c_id ch) b" "ch \<in> set (channels t)" "c_visibility ch = Private"
  shows "(\<exists>a u n. q = ChannelRequest (AddChannelMember a u n) \<and> (\<exists>g. c_id g = c_id ch \<and> manages a g s))
    \<or> (\<exists>n p. q = ChannelRequest (CreateChannel b n p))"
proof -
  have "general_ok s" "general_ok t"
    using reachable_invariants(2) assms(1,2) reachable.advance step.commit by blast+
  then have "distinct (map c_id (channels t))" "admitted q s t"
    using wpD [OF admitted_handle assms(2)] by (simp_all add: general_ok_def)
  then show ?thesis
    using assms(3-6) unfolding admitted_def admits_def distinct_map
    by (metis inj_onD visibility.distinct(1))
qed

theorem private_membership_witness:
  "(\<exists>a u n. ChannelRequest (CreateChannel [2005] (lit ''Ops'') True) = ChannelRequest (AddChannelMember a u n)
      \<and> (\<exists>g. c_id g = c_id (last (channels staffed)) \<and> manages a g messaged))
    \<or> (\<exists>n p. ChannelRequest (CreateChannel [2005] (lit ''Ops'') True) = ChannelRequest (CreateChannel [2005] n p))"
  by (rule private_membership [OF reachable_messaged run_staffed])
     (simp_all add: staffed_eq messaged_eq joined_def is_channel_member_def)

text \<open>
  C4: A thread's comment counter is the number of its comments that are not deleted, its last
  index bounds their indices, and nobody's unread counter exceeds the comments behind their
  read position.
\<close>

theorem thread_counters:
  assumes "reachable E s" "t \<in> set (threads s)"
  shows "t_comment_count t = undeleted_comments (t_id t) s
    \<and> (\<forall>c\<in>set (comments s). co_thread_id c = t_id t \<longrightarrow> 1 \<le> co_index c \<and> co_index c \<le> t_last_comment_index t)
    \<and> (\<forall>r\<in>set (thread_reads s). r_thread_id r = t_id t \<longrightarrow>
         0 \<le> r_unread r \<and> r_unread r \<le> comments_beyond (t_id t) (r_last_read r) (comments s)
         \<and> r_last_read r \<le> t_last_comment_index t)"
proof -
  note ok = reachable_invariants(3) [OF assms(1)]
  have index: "1 \<le> co_index c \<and> co_index c \<le> t_last_comment_index t"
    if "c \<in> set (comments s)" "co_thread_id c = t_id t" for c
    using comment_placed [OF ok that(1)] thread_unique [OF ok assms(2)] that(2) by metis
  have reads: "r_last_read r \<le> t_last_comment_index t" if "r \<in> set (thread_reads s)" "r_thread_id r = t_id t" for r
    using read_row_ok(3) [OF ok that(1)] thread_unique [OF ok assms(2)] that(2) by metis
  show ?thesis
    using thread_row_facts [OF ok assms(2)] index reads read_row_ok(1,2) [OF ok] by metis
qed

theorem thread_counters_witness:
  "t_comment_count (hd (threads discussed)) = undeleted_comments (t_id (hd (threads discussed))) discussed"
  using thread_counters [OF reachable_discussed, of "hd (threads discussed)"] by (simp add: discussed_eq)


text \<open>
  C5: A direct conversation has exactly the two participants its key is made of, and a
  participant's unread counter is exactly the number of messages behind their read position
  that are not deleted.
\<close>

theorem conversation_exact:
  assumes "env_ok E" "reachable E s" "v \<in> set (conversations s)"
  shows "(\<exists>a b. v_dm_key v = dm_key a b \<and> (\<forall>x. participant x (v_id v) s \<longleftrightarrow> x = a \<or> x = b))
    \<and> (\<forall>m\<in>set (conversation_members s). vm_conversation_id m = v_id v \<longrightarrow>
         vm_unread m = messages_beyond (v_id v) (vm_last_read m) (messages s))"
proof -
  have "dm_ok s" using reachable_ok [OF assms(1,2)] by (simp add: service_ok_def)
  from dm_okD(1) [OF this] have wf: "pair_wf (map vkey (conversations s)) (map vmkey (conversation_members s))"
    "unread_wf (map vkey (conversations s)) (map dkey (messages s)) (map vmkey (conversation_members s))"
    by (simp_all add: dm_wf_def)
  have "(v_id v, v_dm_key v, v_last_index v) \<in> set (map vkey (conversations s))"
    using assms(3) by (force simp: vkey_def)
  then obtain a b where ab: "v_dm_key v = dm_key a b"
      "\<forall>x. takes_part (map vmkey (conversation_members s)) (v_id v) x \<longleftrightarrow> x = a \<or> x = b"
    using wf(1) unfolding pair_wf_def by blast
  have "vm_unread m = messages_beyond (v_id v) (vm_last_read m) (messages s)"
    if "m \<in> set (conversation_members s)" "vm_conversation_id m = v_id v" for m
  proof -
    have "(v_id v, vm_account_id m, vm_last_read m, vm_unread m) \<in> set (map vmkey (conversation_members s))"
      using that by (force simp: vmkey_def)
    with wf(2) show ?thesis unfolding unread_wf_def live_messages_beyond by blast
  qed
  with ab show ?thesis unfolding takes_part_rows participant_def by blast
qed

theorem conversation_exact_witness:
  "vm_unread (last (conversation_members messaged)) = messages_beyond [2038] (vm_last_read (last (conversation_members messaged))) (messages messaged)"
  using conversation_exact [OF demo_env_ok reachable_messaged, of "hd (conversations messaged)"]
  by (simp add: messaged_eq)

text \<open>
  C6: Usernames of activated accounts are well formed and pairwise different, and each is
  reserved for its account.
\<close>

theorem usernames_unique:
  assumes "env_ok E" "reachable E s" "a \<in> set (accounts s)" "a_activated_at a \<noteq> None"
  shows "wf_name (a_username a) \<and> current_name (reservations s) (a_username a) (a_id a)
    \<and> (\<forall>b\<in>set (accounts s). a_activated_at b \<noteq> None \<and> a_username b = a_username a \<longrightarrow> b = a)"
proof -
  have ok: "names_ok s" using reachable_ok [OF assms(1,2)] by (simp add: service_ok_def)
  have "b = a" if "b \<in> set (accounts s)" "a_activated_at b \<noteq> None" "a_username b = a_username a" for b
  proof -
    have "current_name (reservations s) (a_username a) (a_id a)" "current_name (reservations s) (a_username a) (a_id b)"
      using ok assms(3,4) that by (auto simp: names_ok_def)
    then have "a_id b = a_id a" using ok unfolding names_ok_def current_name_def by (metis distinct_map_inj)
    then show ?thesis using ok assms(3) that(1) unfolding names_ok_def by (metis distinct_map_inj)
  qed
  then show ?thesis using ok assms(3,4) by (auto simp: names_ok_def)
qed

theorem usernames_unique_witness: "wf_name (a_username (hd (accounts team)))"
  using usernames_unique [OF demo_env_ok reachable_team, of "hd (accounts team)"] by (simp add: team_eq)

text \<open>C7: Every activated account is a member of \<open>#general\<close>, which is public and never archived.\<close>

theorem everybody_in_general:
  assumes "reachable E s" "a \<in> set (accounts s)" "a_activated_at a \<noteq> None"
  shows "\<exists>c\<in>set (channels s). c_slug c = general \<and> c_visibility c = Public \<and> c_archived_at c = None
    \<and> joined s (c_id c) (a_id a)"
  using reachable_invariants(2) [OF assms(1)] assms(2,3) unfolding general_ok_def by blast

theorem everybody_in_general_witness: "\<exists>c\<in>set (channels team). c_slug c = general \<and> joined team (c_id c) [2019]"
  using everybody_in_general [OF reachable_team, of "last (accounts team)"] by (auto simp: team_eq)

text \<open>
  C8: The search tables agree: one document per message, one entry per document, and every
  entry stands for a document of the same message in the same place.
\<close>

theorem search_tables_agree:
  assumes "reachable E s"
  shows "distinct (map (\<lambda>d. (sd_kind d, sd_object_id d)) (search_documents s)) \<and> distinct (map si_rowid (search_index s))
    \<and> doc_key ` set (search_documents s) = entry_key ` set (search_index s)"
  using reachable_invariants(4) [OF assms] by (simp add: search_ok_def search_sync_def)

theorem search_tables_agree_witness: "doc_key ` set (search_documents discussed) = entry_key ` set (search_index discussed)"
  using search_tables_agree [OF reachable_discussed] by simp

text \<open>An account has at most one reaction with an emoji to a message.\<close>

theorem reactions_once:
  assumes "reachable E s" "x \<in> set (reactions s)" "y \<in> set (reactions s)" "reaction_key x = reaction_key y"
  shows "x = y"
  using reachable_invariants(5) [OF assms(1)] assms(2-4) unfolding reactions_ok_def by (rule distinct_map_inj)

theorem reactions_once_witness: "hd (reactions liked) = last (reactions liked)"
  by (rule reactions_once [OF reachable_liked]) (simp_all add: liked_eq)


section \<open>Login tokens\<close>

text \<open>
  C9: A token of whatever kind - invite, bootstrap or device link - that was redeemed once is
  refused for ever: in every later state every redemption of it at the login entry, under any
  name and with any key, is an error. (The codes are random; the hypothesis on \<open>t\<close> says that
  no other token was later made with the same code.)
\<close>

theorem token_once:
  assumes s: "reachable E s"
    and first: "handle E (AccountRequest (RedeemToken u token f k)) s = Inr ((), s')"
    and later: "(step E)\<^sup>*\<^sup>* s' t" "one_token (code_hash E token) t"
  shows "\<exists>e. redeem_ssh_login_token_for_key E u' token f' k' t = Inl e"
proof -
  obtain acc where "redeem_ssh_login_token_for_key E u token f k s = Inr (acc, s')"
    using first by (auto simp: unit_of_def bnd_def ret_def split: sum.splits)
  from wpD [OF login_spends_some [OF tokens_unique [OF s]] this]
  have "invite.dead (code_hash E token) t \<or> bootstrap.dead (code_hash E token) t \<or> link.dead (code_hash E token) t"
    using invite.dead_steps [OF later(1)] bootstrap.dead_steps [OF later(1)] link.dead_steps [OF later(1)] by blast
  then show ?thesis by (rule spent_login_refused [OF one_token_spent [OF later(2)]])
qed

theorem token_once_witness: "\<exists>e. redeem_ssh_login_token_for_key demo_env (lit ''eve'') [3000] [82] [83] invited = Inl e"
proof -
  have later: "(step demo_env)\<^sup>*\<^sup>* registered invited"
    using step.commit [OF run_founded] step.commit [OF run_invited] by (meson rtranclp.simps)
  show ?thesis
    by (rule token_once [OF reachable_booted run_registered later]) (simp add: invited_eq one_token_def)
qed

text \<open>
  C10: A device-link token adds the key to the account that made the token, and only once.
\<close>

theorem device_link_once:
  assumes "reachable E s" "redeem_device_link_token_for_key E token f k s = Inr (Some acc, s')"
    and "(step E)\<^sup>*\<^sup>* s' t"
  shows "(\<exists>l\<in>set (link_tokens s). l_code_hash l = code_hash E token \<and> l_used_at l = None \<and> l_account_id l = ac_id acc)
    \<and> (\<exists>key\<in>set (ssh_keys s'). k_fingerprint key = f \<and> k_account_id key = ac_id acc)
    \<and> (\<forall>f' k' a t'. redeem_device_link_token_for_key E token f' k' t = Inr (a, t') \<longrightarrow> a = None)"
proof -
  note won = wpD [OF link_redeemed [OF tokens_unique(3) [OF assms(1)]] assms(2), rule_format, OF refl]
  have "link.dead (code_hash E token) t" using won link.dead_steps [OF assms(3)] by blast
  then have "redeem_device_link_token_for_key E token f' k' t = Inr (a, t') \<Longrightarrow> a = None" for f' k' a t'
    using wpD [OF spent_link_refused] by blast
  with won show ?thesis by blast
qed

theorem device_link_once_witness:
  "\<exists>acc s'. redeem_device_link_token_for_key demo_env [3040] [90] [91] linked = Inr (Some acc, s')
     \<and> (\<exists>key\<in>set (ssh_keys s'). k_fingerprint key = [90] \<and> k_account_id key = ac_id acc)"
proof -
  have "case redeem_device_link_token_for_key demo_env [3040] [90] [91] linked of Inl _ \<Rightarrow> False | Inr (a, _) \<Rightarrow> a \<noteq> None"
    by (simp only: linked_eq) (simp add: run_defs del: One_nat_def)
  then obtain acc s' where run: "redeem_device_link_token_for_key demo_env [3040] [90] [91] linked = Inr (Some acc, s')"
    by (auto split: sum.splits)
  from device_link_once [OF reachable_linked this rtranclp.rtrancl_refl] run show ?thesis by blast
qed

section \<open>Messages\<close>

text \<open>
  C11: A comment gets the index behind the last one, its thread counts it, its author has read
  it, every other member of the channel has one more unread comment, and nothing else about
  the thread's readers changes.
\<close>

theorem comment_effect:
  assumes "reachable E s" "handle E (MessageRequest (AddComment a th b)) s = Inr ((), u)"
  shows "\<exists>row cid n. live_thread th row s \<and> posted a (trim (sanitize_stored_text b)) s row cid n u"
  using wpD [OF comment_posted [OF reachable_invariants(3) [OF assms(1)]]] assms(2) by simp

theorem comment_effect_witness:
  "\<exists>row cid n. live_thread [2024] row planned \<and> posted [2019] (trim (sanitize_stored_text (lit ''@ann $ok''))) planned row cid n discussed"
  by (rule comment_effect [OF reachable_planned run_discussed])

text \<open>
  C12: Posting a thread, a comment or a direct message only adds notifications: unread ones, by
  the author, never to the author, each standing in the place of the message (the channel and
  thread, or the conversation), and only to active accounts that are members of this channel or
  conversation.
\<close>

theorem posting_notifies:
  assumes "handle E (MessageRequest q) s = Inr ((), u)"
    and "q = CreateThread a c x \<or> q = AddComment a c x \<or> q = SendDm a c x"
  shows "\<exists>new. notifications u = notifications s @ new \<and> (\<forall>n\<in>set new. n_account_id n \<noteq> a
    \<and> n_actor_id n = Some a \<and> n_read_at n = None \<and> posted_in q n s
    \<and> visible_source (n_account_id n) (n_channel_id n) (n_conversation_id n) s)"
  using posting_told [OF assms] unfolding notifies_def told_def notified_ok_def by (metis append_eq_append_conv)

theorem posting_notifies_witness:
  "\<exists>new. notifications messaged = notifications linked @ new \<and> (\<forall>n\<in>set new. n_account_id n \<noteq> [2019]
    \<and> n_actor_id n = Some [2019] \<and> n_read_at n = None \<and> posted_in (SendDm [2019] [2038] (lit ''yo'')) n linked
    \<and> visible_source (n_account_id n) (n_channel_id n) (n_conversation_id n) linked)"
  by (rule posting_notifies [OF run_messaged]) blast

text \<open>
  C13: After a reader marks a thread read, they have no unread comment in it and their position
  is the thread's last index; exactly their own visible notifications and mentions about the
  thread are read, and every other row of the three tables is as it was.
\<close>

theorem read_effect:
  assumes "handle E (MessageRequest (MarkThreadRead a th)) s = Inr ((), u)"
  shows "read_by a th s u"
  using wpD [OF thread_read_by] assms by simp

theorem read_effect_witness: "\<exists>u. read_by [2005] [2024] discussed u"
proof -
  have "case handle demo_env (MessageRequest (MarkThreadRead [2005] [2024])) discussed of Inl _ \<Rightarrow> False | Inr _ \<Rightarrow> True"
    by (simp only: discussed_eq) (simp add: run_defs del: One_nat_def)
  then obtain u where run: "handle demo_env (MessageRequest (MarkThreadRead [2005] [2024])) discussed = Inr ((), u)"
    by (auto split: sum.splits)
  show ?thesis using read_effect [OF run] by blast
qed

text \<open>
  C14: Deleting a comment marks it deleted and removes it from the search tables and from the
  labels.
\<close>

theorem delete_effect:
  assumes "reachable E s" "handle E (MessageRequest (DeleteComment a th i)) s = Inr ((), u)"
  shows "\<exists>c. live_comment th i c s \<and> deleted_comment (co_id c) u"
  using wpD [OF comment_deleted [OF reachable_invariants(4) [OF assms(1)]]] assms(2) by simp

theorem delete_effect_witness: "\<exists>c u. live_comment [2024] 1 c discussed \<and> deleted_comment (co_id c) u"
proof -
  have "case handle demo_env (MessageRequest (DeleteComment [2019] [2024] 1)) discussed of Inl _ \<Rightarrow> False | Inr _ \<Rightarrow> True"
    by (simp only: discussed_eq) (simp add: run_defs del: One_nat_def)
  then obtain u where run: "handle demo_env (MessageRequest (DeleteComment [2019] [2024] 1)) discussed = Inr ((), u)"
    by (auto split: sum.splits)
  show ?thesis using delete_effect [OF reachable_discussed run] by blast
qed


section \<open>Accounts\<close>

text \<open>
  C15: The check on revoking keys does not keep an owner able to log in: two owners may each
  revoke their last key, and then no key of any account is left that is not revoked.
\<close>

theorem owners_without_keys:
  "\<exists>t. reachable demo_env t \<and> (\<exists>a\<in>set (accounts t). active_owner a) \<and> list_all (\<lambda>k. k_revoked_at k \<noteq> None) (ssh_keys t)"
proof -
  let ?t = "serve demo_env [AccountRequest (SetUserRole [2005] (lit ''bob'') Owner),
    AccountRequest (RevokeSshKey [2005] [70]), AccountRequest (RevokeSshKey [2019] [80])] team"
  have "(\<exists>a\<in>set (accounts ?t). active_owner a) \<and> (\<forall>k\<in>set (ssh_keys ?t). k_revoked_at k \<noteq> None)"
    by (simp only: team_eq) (simp add: run_defs del: One_nat_def)
  then show ?thesis using reachable_serve [OF reachable_team] unfolding list_all_iff by blast
qed

text \<open>
  C16: The only active owner cannot be disabled or made anything but an owner: every such
  request, whoever sends it, is an error.
\<close>

theorem last_owner_protected:
  assumes "reachable E s" "w \<in> set (accounts s)" "\<forall>x\<in>set (accounts s). active_owner x \<longrightarrow> x = w" "a_role w = Owner"
    and "\<forall>r. named u r s \<longrightarrow> r = w"
  shows "(\<exists>e. handle E (AccountRequest (SetUserDisabled a u True)) s = Inl e)
    \<and> (role \<noteq> Owner \<longrightarrow> (\<exists>e. handle E (AccountRequest (SetUserRole a u role)) s = Inl e))"
proof -
  have ids: "account_ids_ok s"
    using reachable_invariants(2) [OF assms(1)] by (simp add: general_ok_def account_ids_ok_def)
  have none: "\<not> other_owner w s" using assms(3) by (auto simp: other_owner_def)
  have "\<not> allowed E (AccountRequest (SetUserDisabled a u True)) s"
    "role \<noteq> Owner \<Longrightarrow> \<not> allowed E (AccountRequest (SetUserRole a u role)) s"
    using assms(4,5) none by auto
  moreover have "\<exists>e. handle E q s = Inl e" if "\<not> allowed E q s" for q
    using handle_allowed [OF ids, of E q] that by (cases "handle E q s") (auto simp: wp_def)
  ultimately show ?thesis by blast
qed

theorem last_owner_protected_witness:
  "\<exists>e. handle demo_env (AccountRequest (SetUserRole [2005] (lit ''ann'') Member)) team = Inl e"
proof -
  have "\<forall>r\<in>set (accounts team). same_username (trim_start_char c_at (trim (lit ''ann''))) r \<longrightarrow> r = hd (accounts team)"
    by (simp only: team_eq) (simp add: run_defs)
  then have "\<forall>r. named (lit ''ann'') r team \<longrightarrow> r = hd (accounts team)" by (simp add: named_def)
  moreover have "hd (accounts team) \<in> set (accounts team)" "a_role (hd (accounts team)) = Owner"
    "\<forall>x\<in>set (accounts team). active_owner x \<longrightarrow> x = hd (accounts team)"
    by (simp_all add: team_eq active_owner_def)
  ultimately show ?thesis using last_owner_protected [OF reachable_team, where role = Member] by blast
qed

section \<open>Presence\<close>

text \<open>C17: A presence session that was closed is never open again.\<close>

theorem closed_for_good:
  assumes "handle E (AccountRequest (EndSession a i)) s = Inr ((), s')"
    and "\<exists>r\<in>set (accounts s). is_active_account a r" "\<exists>q\<in>set (presence s'). p_id q = i"
    and "\<forall>q\<in>set (presence s'). p_id q = i \<longrightarrow> p_account_id q = a" "(step E)\<^sup>*\<^sup>* s' t"
  shows "\<forall>q\<in>set (presence t). p_id q = i \<longrightarrow> p_disconnected_at q \<noteq> None"
proof -
  have "wp (record_presence E a (Some i) True) (\<lambda>_ t. \<forall>q\<in>set (presence t). p_id q = i \<and> p_account_id q = a \<longrightarrow> p_disconnected_at q \<noteq> None) s"
    by (rule wp_mono [OF session_ended]) (use assms(2) in \<open>auto simp: list_ex_iff\<close>)
  from wpD [OF this] assms(1,3,4) have "closed s' i" by (auto simp: closed_def)
  from closed_steps [OF assms(5) this] show ?thesis by (simp add: closed_def)
qed

theorem closed_for_good_witness:
  "\<exists>t :: world. (\<exists>q\<in>set (presence t). p_id q = [77]) \<and> (\<forall>q\<in>set (presence t). p_id q = [77] \<longrightarrow> p_disconnected_at q \<noteq> None)"
proof -
  let ?s = "snd (run_tx (handle demo_env (AccountRequest (TouchSession [2005] [77]))) team)"
  have "(\<exists>r\<in>set (accounts ?s). is_active_account [2005] r) \<and>
      (case handle demo_env (AccountRequest (EndSession [2005] [77])) ?s of Inl _ \<Rightarrow> False
       | Inr (_, t) \<Rightarrow> (\<exists>q\<in>set (presence t). p_id q = [77]) \<and> (\<forall>q\<in>set (presence t). p_id q = [77] \<longrightarrow> p_account_id q = [2005]))"
    by (simp only: team_eq) (simp add: run_defs del: One_nat_def)
  then obtain t where ended: "\<exists>r\<in>set (accounts ?s). is_active_account [2005] r"
    "handle demo_env (AccountRequest (EndSession [2005] [77])) ?s = Inr ((), t)"
    "\<exists>q\<in>set (presence t). p_id q = [77]" "\<forall>q\<in>set (presence t). p_id q = [77] \<longrightarrow> p_account_id q = [2005]"
    by (cases "handle demo_env (AccountRequest (EndSession [2005] [77])) ?s") auto
  have "\<forall>q\<in>set (presence t). p_id q = [77] \<longrightarrow> p_disconnected_at q \<noteq> None"
    by (rule closed_for_good [OF ended(2,1,3,4) rtranclp.rtrancl_refl])
  with ended(3) show ?thesis by blast
qed

text \<open>
  C18: Beginning a session and ending it leaves the connection counts as they were, and so
  does a begin that fails.
\<close>

theorem sessions_balanced:
  assumes "counted sv"
  shows "(\<forall>i sv1. begin_account_session E a sv = (Inr i, sv1) \<longrightarrow> connections (snd (end_presence_session E a i sv1)) = connections sv)
    \<and> (\<forall>e sv1. begin_account_session E a sv = (Inl e, sv1) \<longrightarrow> connections sv1 = connections sv)"
  using session_balanced [OF assms] begin_connections(2) [OF assms] by blast

theorem sessions_balanced_witness:
  "\<exists>i sv1. begin_account_session demo_env [2005] \<lparr>db = team, connections = \<lambda>_. None\<rparr> = (Inr i, sv1)
     \<and> connections (snd (end_presence_session demo_env [2005] i sv1)) [2005] = None"
proof -
  let ?sv = "\<lparr>db = team, connections = \<lambda>_. None\<rparr>"
  have "case fst (begin_account_session demo_env [2005] ?sv) of Inl _ \<Rightarrow> False | Inr _ \<Rightarrow> True"
    by (simp only: team_eq) (simp add: run_defs del: One_nat_def)
  then obtain i sv1 where run: "begin_account_session demo_env [2005] ?sv = (Inr i, sv1)"
    by (cases "begin_account_session demo_env [2005] ?sv") (auto split: sum.splits)
  moreover have "counted ?sv" by (simp add: counted_def)
  ultimately show ?thesis using sessions_balanced [of ?sv demo_env "[2005]"] by auto
qed

section \<open>Texts\<close>

text \<open>
  C19: A normalised username is 2 to 32 lower-case letters, digits and single inner dashes,
  and normalising it again changes nothing; a channel slug likewise with up to 48.
\<close>

theorem names_normal:
  assumes "lower_case lc"
  shows "(normalize_username lc x = Inr u \<longrightarrow> wf_name u \<and> 2 \<le> length u \<and> length u \<le> 32 \<and> normalize_username lc u = Inr u)
    \<and> (normalize_slug lc x = Inr u \<longrightarrow> wf_name u \<and> 2 \<le> length u \<and> length u \<le> 48 \<and> normalize_slug lc u = Inr u)"
  using lower_case.username_wf [OF assms, of x u] lower_case.username_fixed [OF assms, of u] lower_case.slug_wf [OF assms, of x u]
    lower_case.name_key_fixed [OF assms, of u]
  by (auto simp: normalize_slug_def wf_name_len)

theorem names_normal_witness: "normalize_slug ascii_lowercase (lit ''my-room'') = Inr (lit ''my-room'')"
  using names_normal [OF ascii.lower_case_axioms, of "lit ''My  Room!''" "lit ''my-room''"]
  by (simp add: normalize_slug_def normalize_name_key_def trim_def trim_matches_def name_loop_def name_step_def lit_def
      is_whitespace_def ascii_lowercase_def char_class_defs utf8_width_def)

text \<open>
  C20: The labels of a text are those that some \<open>$\<close> at a word boundary starts, each once.
\<close>

theorem labels_of_text: "set (parse_labels body) = {tag. \<exists>j. label_at body j tag} \<and> distinct (parse_labels body)"
  by (simp add: parse_labels_set)

text \<open>
  C21: The mentions of a text are the normalised usernames that some \<open>@\<close> at a word boundary
  starts, each once.
\<close>

theorem mentions_of_text:
  "set (parse_mentions lc body) = {n. \<exists>j. mention_at lc body j n} \<and> distinct (parse_mentions lc body)"
  by (simp add: parse_mentions_set)

text \<open>
  Stored text has no control character but the line feed, a stored line none at all, and
  text that is already clean is stored unchanged.
\<close>

theorem stored_text_safe:
  "(\<forall>c\<in>set (sanitize_stored_text x). c = c_nl \<or> \<not> is_control c) \<and> (\<forall>c\<in>set (sanitize_single_line_text x). \<not> is_control c)
    \<and> sanitize_stored_text (sanitize_stored_text x) = sanitize_stored_text x
    \<and> sanitize_single_line_text (sanitize_single_line_text x) = sanitize_single_line_text x"
proof -
  have "sanitize_stored_text (sanitize_stored_text x) = sanitize_stored_text x"
    by (rule stored_text_fixed) (rule stored_text_clean)
  moreover have "sanitize_single_line_text (sanitize_single_line_text x) = sanitize_single_line_text x"
    by (rule line_fixed) (rule line_clean)
  ultimately show ?thesis using stored_text_clean line_clean by blast
qed

theorem stored_text_safe_witness: "sanitize_stored_text (sanitize_stored_text [65, 9, 7, 13]) = [65, 32, 10]"
proof -
  have "sanitize_stored_text [65, 9, 7, 13] = [65, 32, 10]" by code_simp
  then show ?thesis using stored_text_safe [of "[65, 9, 7, 13]"] by simp
qed

text \<open>
  C22: A search query is the conjunction of prefix searches for the words of the text, in lower
  case, and whatever the user types, no quote reaches the search engine.
\<close>

theorem search_query:
  "fts_query q = (if query_words q = [] then map (\<lambda>c. if c = c_quote then c_space else c) q
     else join_str (lit '' AND '') (map (\<lambda>t. t @ lit ''*'') (query_words q))) \<and> c_quote \<notin> set (fts_query q)"
  using fts_query_words fts_query_safe(1) by blast

text \<open>Two pairs of accounts have the same conversation key exactly when they are the same pair.\<close>

theorem dm_keys:
  assumes "plain_id a" "plain_id b" "plain_id c" "plain_id d"
  shows "dm_key a b = dm_key c d \<longleftrightarrow> {a, b} = {c, d}"
  using dm_key_inject [OF assms] by (auto simp: doubleton_eq_iff)

theorem dm_keys_witness: "dm_key [2005] [2019] = dm_key [2019] [2005]"
  using dm_keys [of "[2005]" "[2019]" "[2019]" "[2005]"] by (auto simp: plain_id_def)

end
